(* ===== verification/Prelude.thy ===== *)
theory Prelude
  imports Complex_Main "HOL-Library.Multiset"
begin

text \<open>
  Shared vocabulary of the development: the collections of facts the component proofs
  simplify with, generic lemmas on lists and maps, and the interfaces the components are
  proved against: a machine whose steps keep an invariant, an exact comparison of secrets, and
  a text format that is read back.
\<close>

named_theorems tbl_simps \<open>equations of the table operations\<close>
named_theorems step_defs \<open>definitions of the operations of a component\<close>

section \<open>Lists and finite maps\<close>

lemma map_of_filter_fst:
  "map_of (filter (\<lambda>(k, v). P k) xs) k = (if P k then map_of xs k else None)"
  by (induction xs) auto

lemma map_of_map_value:
  "map_of (map (\<lambda>(k, v). (k, f k v)) xs) k = map_option (f k) (map_of xs k)"
  by (induction xs) auto

lemma map_of_append_fresh:
  "k \<notin> fst ` set xs \<Longrightarrow> map_of (xs @ [(k, v)]) k = Some v"
  by (simp add: map_add_Some_iff map_of_eq_None_iff)

lemma map_of_append_other:
  "k' \<noteq> k \<Longrightarrow> map_of (xs @ [(k, v)]) k' = map_of xs k'"
  by (induction xs) auto

lemma length_filter_map_cond:
  "(\<And>x. x \<in> set xs \<Longrightarrow> P (f x) = P x) \<Longrightarrow>
   length (filter P (map f xs)) = length (filter P xs)"
  by (induction xs) auto

lemma map_upt_Cons: "map f [0..<Suc n] = f 0 # map (\<lambda>i. f (Suc i)) [0..<n]"
  by (simp add: upt_conv_Cons map_Suc_upt [symmetric] del: upt_Suc)

definition last_n :: "nat \<Rightarrow> 'a list \<Rightarrow> 'a list" where
  "last_n n xs = drop (length xs - n) xs"

lemma length_last_n [simp]: "length (last_n n xs) = min n (length xs)"
  by (simp add: last_n_def)

lemma set_last_n: "set (last_n n xs) \<subseteq> set xs"
  by (simp add: last_n_def set_drop_subset)

lemma last_last_n: "xs \<noteq> [] \<Longrightarrow> 0 < n \<Longrightarrow> last (last_n n xs) = last xs"
  by (simp add: last_n_def)

section \<open>Interface: a machine whose steps keep an invariant\<close>

text \<open>
  The client supplies the step function and the invariant and discharges the single law
  that one step keeps it; runs of any length then keep it too.
\<close>

locale invariant_machine =
  fixes step :: "'e \<Rightarrow> 's \<Rightarrow> 's"
    and inv :: "'s \<Rightarrow> bool"
  assumes step_inv: "inv s \<Longrightarrow> inv (step e s)"
begin

lemma run_inv: "inv s \<Longrightarrow> inv (fold step es s)"
  by (induction es arbitrary: s) (auto intro: step_inv)

lemma run_append_inv:
  "inv s \<Longrightarrow> inv (fold step (es @ es') s) \<and> inv (fold step es s)"
  using run_inv by simp

end

text \<open>
  An absorbing machine has in addition a region no step leaves and inside which an
  observation is constant: terminal states, closed accounts, immutable records.
\<close>

locale absorbing_machine = invariant_machine step inv
  for step :: "'e \<Rightarrow> 's \<Rightarrow> 's" and inv :: "'s \<Rightarrow> bool" +
  fixes closed :: "'s \<Rightarrow> bool"
    and obs :: "'s \<Rightarrow> 'o"
  assumes closed_step: "inv s \<Longrightarrow> closed s \<Longrightarrow> closed (step e s)"
    and obs_step: "inv s \<Longrightarrow> closed s \<Longrightarrow> obs (step e s) = obs s"
begin

lemma run_closed:
  "inv s \<Longrightarrow> closed s \<Longrightarrow> closed (fold step es s) \<and> obs (fold step es s) = obs s"
  by (induction es arbitrary: s) (auto simp: step_inv closed_step obs_step)

end

section \<open>Interface: an exact comparison of secrets\<close>

locale secret_comparison =
  fixes cmp :: "string \<Rightarrow> string \<Rightarrow> bool"
  assumes cmp_iff: "cmp a b \<longleftrightarrow> a = b"
begin

lemma accepts_self: "cmp a a"
  by (simp add: cmp_iff)

lemma rejects_other: "a \<noteq> b \<Longrightarrow> \<not> cmp a b"
  by (simp add: cmp_iff)

lemma at_most_one: "cmp a k \<Longrightarrow> cmp b k \<Longrightarrow> a = b"
  by (simp add: cmp_iff)

end

section \<open>Interface: a text format that is read back\<close>

text \<open>
  Files and messages are written by one function and read by another; the law is that a value
  the format can carry is read back as it was written.
\<close>

locale text_format =
  fixes printed :: "'a \<Rightarrow> string"
    and reader :: "string \<Rightarrow> 'a option"
    and plain :: "'a \<Rightarrow> bool"
  assumes read_printed: "plain x \<Longrightarrow> reader (printed x) = Some x"
begin

lemma printed_once: "plain x \<Longrightarrow> plain y \<Longrightarrow> printed x = printed y \<Longrightarrow> x = y"
  using read_printed by (metis option.inject)

lemma printed_again: "plain x \<Longrightarrow> map_option printed (reader (printed x)) = Some (printed x)"
  by (simp add: read_printed)

lemma edited_text: "plain (f x) \<Longrightarrow> plain x \<Longrightarrow> map_option f (reader (printed x)) = reader (printed (f x))"
  by (simp add: read_printed)

end

end
