(* ===== verification/Tables.thy ===== *)
theory Tables
  imports Prelude
begin

text \<open>
  SQLite tables with an \<open>INTEGER PRIMARY KEY AUTOINCREMENT\<close> id: the rows in rowid order,
  each with its id, and the next id to hand out. The statements of the program are
  translated to these operations. The order in which the engine visits rows that a query
  leaves unordered is not fixed by SQL; a query where it matters takes the visiting order
  \<open>scan\<close> as an argument, of which only \<open>scan_ok\<close> may be assumed.
\<close>

section \<open>Tables and statements\<close>

record 'r table =
  rows :: "(int \<times> 'r) list"
  next_id :: int

definition tbl_empty :: "'r table" where
  "tbl_empty = \<lparr>rows = [], next_id = 1\<rparr>"

definition tbl_ids :: "'r table \<Rightarrow> int list" where
  "tbl_ids t = map fst (rows t)"

text \<open>\<open>INSERT INTO t ... VALUES r\<close>: the new table; the row gets id \<open>tbl_last_id t\<close>.\<close>

definition tbl_last_id :: "'r table \<Rightarrow> int" where
  "tbl_last_id t = next_id t"

definition tbl_insert :: "'r \<Rightarrow> 'r table \<Rightarrow> 'r table" where
  "tbl_insert r t = t\<lparr>rows := rows t @ [(next_id t, r)], next_id := next_id t + 1\<rparr>"

text \<open>\<open>SELECT * FROM t WHERE id = i\<close>.\<close>

definition tbl_get :: "'r table \<Rightarrow> int \<Rightarrow> 'r option" where
  "tbl_get t i = map_of (rows t) i"

text \<open>\<open>SELECT * FROM t WHERE P\<close>, in rowid order.\<close>

definition tbl_select :: "('r \<Rightarrow> bool) \<Rightarrow> 'r table \<Rightarrow> (int \<times> 'r) list" where
  "tbl_select P t = filter (\<lambda>(i, r). P r) (rows t)"

definition tbl_find :: "('r \<Rightarrow> bool) \<Rightarrow> 'r table \<Rightarrow> (int \<times> 'r) option" where
  "tbl_find P t = (case tbl_select P t of [] \<Rightarrow> None | x # _ \<Rightarrow> Some x)"

definition tbl_count :: "('r \<Rightarrow> bool) \<Rightarrow> 'r table \<Rightarrow> nat" where
  "tbl_count P t = length (tbl_select P t)"

text \<open>\<open>UPDATE t SET f WHERE P\<close> and \<open>UPDATE t SET f WHERE id = i\<close>.\<close>

definition tbl_update_where :: "('r \<Rightarrow> bool) \<Rightarrow> ('r \<Rightarrow> 'r) \<Rightarrow> 'r table \<Rightarrow> 'r table" where
  "tbl_update_where P f t = t\<lparr>rows := map (\<lambda>(i, r). (i, if P r then f r else r)) (rows t)\<rparr>"

definition tbl_update :: "int \<Rightarrow> ('r \<Rightarrow> 'r) \<Rightarrow> 'r table \<Rightarrow> 'r table" where
  "tbl_update k f t = t\<lparr>rows := map (\<lambda>(i, r). (i, if i = k then f r else r)) (rows t)\<rparr>"

text \<open>\<open>DELETE FROM t WHERE P\<close> (the condition may mention the id).\<close>

definition tbl_delete_where :: "(int \<Rightarrow> 'r \<Rightarrow> bool) \<Rightarrow> 'r table \<Rightarrow> 'r table" where
  "tbl_delete_where P t = t\<lparr>rows := filter (\<lambda>(i, r). \<not> P i r) (rows t)\<rparr>"

definition tbl_delete :: "int \<Rightarrow> 'r table \<Rightarrow> 'r table" where
  "tbl_delete k t = tbl_delete_where (\<lambda>i r. i = k) t"

text \<open>Ids are distinct, positive and below the counter.\<close>

definition tbl_ok :: "'r table \<Rightarrow> bool" where
  "tbl_ok t \<longleftrightarrow> distinct (tbl_ids t) \<and> (\<forall>i \<in> set (tbl_ids t). 0 < i \<and> i < next_id t) \<and> 0 < next_id t"

section \<open>Ordered queries\<close>

text \<open>
  \<open>ORDER BY key\<close>: the engine visits the rows in the order \<open>scan\<close> gives their ids and
  sorts them stably by the key.
\<close>

definition scan_ok :: "(int list \<Rightarrow> int list) \<Rightarrow> bool" where
  "scan_ok scan \<longleftrightarrow> (\<forall>xs. mset (scan xs) = mset xs)"

definition scan_rows :: "(int list \<Rightarrow> int list) \<Rightarrow> (int \<times> 'r) list \<Rightarrow> (int \<times> 'r) list" where
  "scan_rows scan xs = map (\<lambda>i. (i, the (map_of xs i))) (scan (map fst xs))"

definition order_asc :: "(int list \<Rightarrow> int list) \<Rightarrow> (int \<times> 'r \<Rightarrow> int) \<Rightarrow> (int \<times> 'r) list \<Rightarrow> (int \<times> 'r) list" where
  "order_asc scan key xs = sort_key key (scan_rows scan xs)"

definition order_desc :: "(int list \<Rightarrow> int list) \<Rightarrow> (int \<times> 'r \<Rightarrow> int) \<Rightarrow> (int \<times> 'r) list \<Rightarrow> (int \<times> 'r) list" where
  "order_desc scan key xs = sort_key (\<lambda>x. - key x) (scan_rows scan xs)"

section \<open>Equations\<close>

lemma tbl_get_insert [tbl_simps]:
  "tbl_ok t \<Longrightarrow> tbl_get (tbl_insert r t) i = (if i = tbl_last_id t then Some r else tbl_get t i)"
proof -
  assume "tbl_ok t"
  then have "next_id t \<notin> fst ` set (rows t)"
    by (force simp: tbl_ok_def tbl_ids_def)
  then show ?thesis
    using map_of_append_fresh [of "next_id t" "rows t" r]
      map_of_append_other [of i "next_id t" "rows t" r]
    by (simp add: tbl_get_def tbl_insert_def tbl_last_id_def del: map_of_append)
qed

lemma tbl_get_update [tbl_simps]:
  "tbl_get (tbl_update k f t) i = (if i = k then map_option f (tbl_get t i) else tbl_get t i)"
  using map_of_map_value [of "\<lambda>i r. if i = k then f r else r" "rows t" i]
  by (auto simp: tbl_get_def tbl_update_def option.map_id0 option.map_ident)

lemma tbl_get_update_where [tbl_simps]:
  "tbl_get (tbl_update_where P f t) i = map_option (\<lambda>r. if P r then f r else r) (tbl_get t i)"
  using map_of_map_value [of "\<lambda>i r. if P r then f r else r" "rows t" i]
  by (simp add: tbl_get_def tbl_update_where_def)

lemma tbl_get_delete [tbl_simps]:
  "tbl_get (tbl_delete k t) i = (if i = k then None else tbl_get t i)"
proof -
  have "filter (\<lambda>(i, r). i \<noteq> k) (rows t) = filter (\<lambda>(i, r). (\<lambda>j. j \<noteq> k) i) (rows t)"
    by simp
  then show ?thesis
    using map_of_filter_fst [of "\<lambda>j. j \<noteq> k" "rows t" i]
    by (simp add: tbl_get_def tbl_delete_def tbl_delete_where_def)
qed

lemma tbl_get_empty [simp]: "tbl_get tbl_empty i = None"
  by (simp add: tbl_get_def tbl_empty_def)

lemma tbl_ids_update [simp]: "tbl_ids (tbl_update k f t) = tbl_ids t"
  by (simp add: tbl_ids_def tbl_update_def case_prod_beta comp_def)

lemma tbl_ids_update_where [simp]: "tbl_ids (tbl_update_where P f t) = tbl_ids t"
  by (simp add: tbl_ids_def tbl_update_where_def case_prod_beta comp_def)

lemma next_id_simps [simp]:
  "next_id (tbl_update k f t) = next_id t"
  "next_id (tbl_update_where P f t) = next_id t"
  "next_id (tbl_delete_where Q t) = next_id t"
  "next_id (tbl_delete k t) = next_id t"
  "next_id (tbl_insert r t) = next_id t + 1"
  by (simp_all add: tbl_update_def tbl_update_where_def tbl_delete_where_def tbl_delete_def
      tbl_insert_def)

lemma tbl_ok_empty [simp]: "tbl_ok tbl_empty"
  by (simp add: tbl_ok_def tbl_empty_def tbl_ids_def)

lemma tbl_ok_insert [simp]: "tbl_ok t \<Longrightarrow> tbl_ok (tbl_insert r t)"
  by (auto simp: tbl_ok_def tbl_ids_def tbl_insert_def)

lemma tbl_ok_update [simp]: "tbl_ok (tbl_update k f t) = tbl_ok t"
  by (simp add: tbl_ok_def)

lemma tbl_ok_update_where [simp]: "tbl_ok (tbl_update_where P f t) = tbl_ok t"
  by (simp add: tbl_ok_def)

lemma tbl_ok_delete_where [simp]: "tbl_ok t \<Longrightarrow> tbl_ok (tbl_delete_where P t)"
  by (auto simp: tbl_ok_def tbl_ids_def tbl_delete_where_def distinct_map_filter)

lemma tbl_ok_delete [simp]: "tbl_ok t \<Longrightarrow> tbl_ok (tbl_delete k t)"
  by (simp add: tbl_delete_def)

lemma rows_insert [tbl_simps]: "rows (tbl_insert r t) = rows t @ [(next_id t, r)]"
  by (simp add: tbl_insert_def)

lemma rows_update: "rows (tbl_update k f t) = map (\<lambda>(i, r). (i, if i = k then f r else r)) (rows t)"
  by (simp add: tbl_update_def)

lemma rows_update_where: "rows (tbl_update_where P f t) = map (\<lambda>(i, r). (i, if P r then f r else r)) (rows t)"
  by (simp add: tbl_update_where_def)

lemma tbl_get_mem: "tbl_get t i = Some r \<Longrightarrow> (i, r) \<in> set (rows t)"
  by (simp add: tbl_get_def map_of_SomeD)

lemma tbl_get_iff: "tbl_ok t \<Longrightarrow> tbl_get t i = Some r \<longleftrightarrow> (i, r) \<in> set (rows t)"
  by (simp add: tbl_get_def tbl_ok_def tbl_ids_def)

lemma tbl_get_delete_where:
  "tbl_ok t \<Longrightarrow> tbl_get (tbl_delete_where P t) i = Some r \<longleftrightarrow> tbl_get t i = Some r \<and> \<not> P i r"
  by (simp add: tbl_get_iff) (auto simp: tbl_delete_where_def)

lemma tbl_get_fresh [simp]: "tbl_ok t \<Longrightarrow> tbl_get t (next_id t) = None"
  by (auto simp: tbl_get_def tbl_ok_def tbl_ids_def map_of_eq_None_iff)

lemma tbl_select_insert [tbl_simps]:
  "tbl_select P (tbl_insert r t) = tbl_select P t @ (if P r then [(next_id t, r)] else [])"
  by (simp add: tbl_select_def tbl_insert_def)

lemma tbl_find_None_iff: "tbl_find P t = None \<longleftrightarrow> (\<forall>(i, r) \<in> set (rows t). \<not> P r)"
proof -
  have "tbl_find P t = None \<longleftrightarrow> tbl_select P t = []"
    by (simp add: tbl_find_def split: list.splits)
  then show ?thesis
    by (auto simp: tbl_select_def filter_empty_conv)
qed

lemma tbl_find_SomeD: "tbl_find P t = Some (i, r) \<Longrightarrow> (i, r) \<in> set (rows t) \<and> P r"
  by (auto simp: tbl_find_def tbl_select_def filter_eq_Cons_iff split: list.splits)

lemma tbl_update_where_idle:
  assumes "\<And>x. x \<in> set (rows t) \<Longrightarrow> \<not> P (snd x)"
  shows "tbl_update_where P f t = t"
proof -
  have "map (\<lambda>(i, r). (i, if P r then f r else r)) (rows t) = rows t"
    by (rule map_idI) (use assms in force)
  then show ?thesis by (simp add: tbl_update_where_def)
qed

lemma scan_ok_id [simp]: "scan_ok (\<lambda>xs. xs)"
  by (simp add: scan_ok_def)

lemma set_scan_rows:
  assumes "scan_ok scan" "distinct (map fst xs)"
  shows "set (scan_rows scan xs) = set xs"
proof -
  have "set (scan (map fst xs)) = fst ` set xs"
    using assms(1) by (metis list.set_map scan_ok_def set_mset_mset)
  then have "set (scan_rows scan xs) = (\<lambda>i. (i, the (map_of xs i))) ` fst ` set xs"
    by (simp add: scan_rows_def)
  also have "\<dots> = set xs"
    using assms(2) by (force simp: image_iff)
  finally show ?thesis .
qed

lemma mset_scan_rows:
  assumes "scan_ok scan" "distinct (map fst xs)"
  shows "mset (scan_rows scan xs) = mset xs"
proof -
  have "mset (scan_rows scan xs) = image_mset (\<lambda>i. (i, the (map_of xs i))) (mset (map fst xs))"
    using assms(1) by (simp add: scan_rows_def scan_ok_def)
  also have "\<dots> = mset (map (\<lambda>x. (fst x, the (map_of xs (fst x)))) xs)"
    by (simp add: image_mset.compositionality comp_def)
  also have "map (\<lambda>x. (fst x, the (map_of xs (fst x)))) xs = xs"
    by (rule map_idI) (use assms(2) in auto)
  finally show ?thesis .
qed

lemma distinct_select:
  "tbl_ok t \<Longrightarrow> distinct (map fst (tbl_select P t))"
  by (simp add: tbl_ok_def tbl_ids_def tbl_select_def distinct_map_filter)

lemma tbl_update_fresh:
  assumes "tbl_ok t"
  shows "tbl_update (next_id t) f (tbl_insert r t) = tbl_insert (f r) t"
proof -
  have "map (\<lambda>(i, r). (i, if i = next_id t then f r else r)) (rows t) = rows t"
    by (rule map_idI) (use assms in \<open>force simp: tbl_ok_def tbl_ids_def\<close>)
  then show ?thesis by (simp add: tbl_update_def tbl_insert_def)
qed

lemma set_order_desc:
  "scan_ok scan \<Longrightarrow> distinct (map fst xs) \<Longrightarrow> set (order_desc scan key xs) = set xs"
  by (simp add: order_desc_def set_scan_rows)

lemma set_order_asc:
  "scan_ok scan \<Longrightarrow> distinct (map fst xs) \<Longrightarrow> set (order_asc scan key xs) = set xs"
  by (simp add: order_asc_def set_scan_rows)

text \<open>The head of a descending query carries the largest key, whatever the visiting order.\<close>

lemma order_desc_hd_max:
  assumes "scan_ok scan" "distinct (map fst xs)" "order_desc scan key xs = y # ys" "x \<in> set xs"
  shows "key x \<le> key y"
proof -
  have "sorted (map (\<lambda>x. - key x) (y # ys))"
    using assms(3) by (metis order_desc_def sorted_sort_key)
  moreover have "x \<in> set (y # ys)"
    using assms by (metis set_order_desc)
  ultimately show ?thesis by auto
qed

lemma order_desc_Nil_iff:
  "scan_ok scan \<Longrightarrow> distinct (map fst xs) \<Longrightarrow> order_desc scan key xs = [] \<longleftrightarrow> xs = []"
  using set_order_desc [of scan xs key] by (metis set_empty)

section \<open>Interface: a store of rows under generated ids\<close>

text \<open>
  What the components rely on when they insert a row and read it back, and what follows
  for a sequence of statements.
\<close>

locale row_store =
  fixes get :: "'t \<Rightarrow> int \<Rightarrow> 'r option"
    and fresh :: "'t \<Rightarrow> int"
    and ins :: "'r \<Rightarrow> 't \<Rightarrow> 't"
    and upd :: "int \<Rightarrow> ('r \<Rightarrow> 'r) \<Rightarrow> 't \<Rightarrow> 't"
    and del :: "int \<Rightarrow> 't \<Rightarrow> 't"
    and ok :: "'t \<Rightarrow> bool"
  assumes get_ins: "ok t \<Longrightarrow> get (ins r t) i = (if i = fresh t then Some r else get t i)"
    and get_upd: "get (upd k f t) i = (if i = k then map_option f (get t i) else get t i)"
    and get_del: "get (del k t) i = (if i = k then None else get t i)"
    and fresh_free: "ok t \<Longrightarrow> get t (fresh t) = None"
    and ok_ins: "ok t \<Longrightarrow> ok (ins r t)"
    and ok_upd: "ok t \<Longrightarrow> ok (upd k f t)"
    and ok_del: "ok t \<Longrightarrow> ok (del k t)"
begin

lemma insert_then_read: "ok t \<Longrightarrow> get (ins r t) (fresh t) = Some r"
  by (simp add: get_ins)

lemma insert_keeps: "ok t \<Longrightarrow> get t i = Some x \<Longrightarrow> get (ins r t) i = Some x"
  using fresh_free by (auto simp: get_ins)

lemma update_then_read: "get t k = Some x \<Longrightarrow> get (upd k f t) k = Some (f x)"
  by (simp add: get_upd)

lemma insert_update_read: "ok t \<Longrightarrow> get (upd (fresh t) f (ins r t)) (fresh t) = Some (f r)"
  by (simp add: get_upd get_ins)

lemma insert_delete_restores: "ok t \<Longrightarrow> get (del (fresh t) (ins r t)) i = get t i"
  using fresh_free by (auto simp: get_del get_ins)

end

interpretation tbl: row_store tbl_get tbl_last_id tbl_insert tbl_update tbl_delete tbl_ok
  by unfold_locales (auto simp: tbl_simps tbl_last_id_def)

end
