(* ===== verification/Js_Values.thy ===== *)
theory Js_Values
  imports Prelude
begin

text \<open>
  The values of the language the program computes with. A string is the list of the bytes
  of its UTF-8 encoding, so \<open>Buffer.from\<close> is the identity, equality and concatenation are
  exact, and \<open>length\<close>, \<open>slice\<close> and \<open>substring\<close> count bytes (they agree with the
  code on ASCII text). White space and letter case are the ASCII ones. JSON values are a
  datatype; a property that is missing (\<open>undefined\<close>) is \<open>None\<close>.
\<close>

section \<open>Strings\<close>

definition js_white :: "char \<Rightarrow> bool" where
  "js_white c = (let n = of_char c :: nat in n = 32 \<or> (9 \<le> n \<and> n \<le> 13))"

definition js_trim :: "string \<Rightarrow> string" where
  "js_trim s = rev (dropWhile js_white (rev (dropWhile js_white s)))"

definition lower_char :: "char \<Rightarrow> char" where
  "lower_char c = (let n = of_char c :: nat in if 65 \<le> n \<and> n \<le> 90 then char_of (n + 32) else c)"

definition upper_char :: "char \<Rightarrow> char" where
  "upper_char c = (let n = of_char c :: nat in if 97 \<le> n \<and> n \<le> 122 then char_of (n - 32) else c)"

definition js_lower :: "string \<Rightarrow> string" where
  "js_lower s = map lower_char s"

fun starts_with :: "string \<Rightarrow> string \<Rightarrow> bool" where
  "starts_with [] s = True"
| "starts_with (p # ps) [] = False"
| "starts_with (p # ps) (c # cs) = (p = c \<and> starts_with ps cs)"

lemma starts_with_iff: "starts_with p s \<longleftrightarrow> (\<exists>r. s = p @ r)"
  by (induction p s rule: starts_with.induct) auto

definition ends_with :: "string \<Rightarrow> string \<Rightarrow> bool" where
  "ends_with p s = starts_with (rev p) (rev s)"

lemma ends_with_iff: "ends_with p s \<longleftrightarrow> (\<exists>r. s = r @ p)"
  unfolding ends_with_def starts_with_iff
  by (metis rev_append rev_rev_ident)

fun js_includes :: "string \<Rightarrow> string \<Rightarrow> bool" where
  "js_includes p [] = (p = [])"
| "js_includes p (c # cs) = (starts_with p (c # cs) \<or> js_includes p cs)"

text \<open>\<open>split_on c s\<close> is \<open>s.split(c)\<close> for a one-character separator.\<close>

fun split_on :: "char \<Rightarrow> string \<Rightarrow> string list" where
  "split_on d [] = [[]]"
| "split_on d (c # cs) =
     (if c = d then [] # split_on d cs
      else case split_on d cs of [] \<Rightarrow> [[c]] | w # ws \<Rightarrow> (c # w) # ws)"

lemma split_on_not_Nil [simp]: "split_on d s \<noteq> []"
  by (induction s) (auto split: list.splits)

definition join_with :: "string \<Rightarrow> string list \<Rightarrow> string" where
  "join_with sep ws = (case ws of [] \<Rightarrow> [] | w # rest \<Rightarrow> w @ concat (map (\<lambda>v. sep @ v) rest))"

text \<open>\<open>a || b\<close> on strings, and on a possibly missing string.\<close>

definition str_or :: "string \<Rightarrow> string \<Rightarrow> string" where
  "str_or a b = (if a = [] then b else a)"

definition opt_or :: "string option \<Rightarrow> string \<Rightarrow> string" where
  "opt_or a b = (case a of None \<Rightarrow> b | Some s \<Rightarrow> str_or s b)"

definition str_or_null :: "string option \<Rightarrow> string option" where
  "str_or_null a = (case a of None \<Rightarrow> None | Some s \<Rightarrow> if s = [] then None else Some s)"

lemma str_or_null_Some_iff [simp]: "str_or_null a = Some s \<longleftrightarrow> a = Some s \<and> s \<noteq> []"
  by (auto simp: str_or_null_def split: option.splits)

lemma str_or_null_Nil [simp]: "str_or_null (Some []) = None" and
  str_or_null_None [simp]: "str_or_null None = None"
  by (simp_all add: str_or_null_def)

section \<open>Numbers and their decimal text\<close>

fun show_nat :: "nat \<Rightarrow> string" where
  "show_nat n = (if n < 10 then [char_of (48 + n)] else show_nat (n div 10) @ [char_of (48 + n mod 10)])"

declare show_nat.simps [simp del]

definition show_int :: "int \<Rightarrow> string" where
  "show_int i = (if i < 0 then CHR ''-'' # show_nat (nat (- i)) else show_nat (nat i))"

definition digit_val :: "char \<Rightarrow> nat option" where
  "digit_val c = (let n = of_char c :: nat in if 48 \<le> n \<and> n \<le> 57 then Some (n - 48) else None)"

definition hex_val :: "char \<Rightarrow> nat option" where
  "hex_val c = (let n = of_char c :: nat in
     if 48 \<le> n \<and> n \<le> 57 then Some (n - 48)
     else if 65 \<le> n \<and> n \<le> 70 then Some (n - 55)
     else if 97 \<le> n \<and> n \<le> 102 then Some (n - 87) else None)"

text \<open>The longest prefix of digits, \<open>None\<close> (NaN) if there is none.\<close>

fun read_digits :: "(char \<Rightarrow> nat option) \<Rightarrow> nat \<Rightarrow> nat option \<Rightarrow> string \<Rightarrow> nat option" where
  "read_digits val base acc [] = acc"
| "read_digits val base acc (c # cs) =
     (case val c of None \<Rightarrow> acc
      | Some d \<Rightarrow> read_digits val base (Some ((case acc of None \<Rightarrow> 0 | Some a \<Rightarrow> a) * base + d)) cs)"

text \<open>\<open>parseInt(s)\<close> without a radix: white space, sign, \<open>0x\<close> prefix, longest run of digits.\<close>

definition parse_int :: "string \<Rightarrow> int option" where
  "parse_int s =
     (let t = dropWhile js_white s;
          neg = (t \<noteq> [] \<and> hd t = CHR ''-'');
          u = (if t \<noteq> [] \<and> (hd t = CHR ''-'' \<or> hd t = CHR ''+'') then tl t else t);
          r = (if starts_with ''0x'' u \<or> starts_with ''0X'' u
               then read_digits hex_val 16 None (drop 2 u)
               else read_digits digit_val 10 None u)
      in map_option (\<lambda>n. if neg then - int n else int n) r)"

section \<open>Percent decoding\<close>

text \<open>
  \<open>decodeURIComponent\<close>: a run of \<open>%XX\<close> escapes has to spell well-formed UTF-8, or the
  call throws \<open>URIError\<close> (\<open>None\<close>).
\<close>

fun pct_byte :: "string \<Rightarrow> (nat \<times> string) option" where
  "pct_byte (p # h # l # cs) =
     (if p = CHR ''%'' then
        (case (hex_val h, hex_val l) of (Some a, Some b) \<Rightarrow> Some (16 * a + b, cs) | _ \<Rightarrow> None)
      else None)"
| "pct_byte _ = None"

lemma pct_byte_shorter: "pct_byte s = Some (b, r) \<Longrightarrow> length r < length s"
  by (induction s rule: pct_byte.induct) (auto split: if_splits option.splits prod.splits)

text \<open>Number of continuation bytes after a lead byte, and the bounds of the first of them.\<close>

definition utf8_lead :: "nat \<Rightarrow> (nat \<times> nat \<times> nat) option" where
  "utf8_lead b =
     (if 194 \<le> b \<and> b \<le> 223 then Some (1, 128, 191)
      else if b = 224 then Some (2, 160, 191)
      else if b = 237 then Some (2, 128, 159)
      else if 225 \<le> b \<and> b \<le> 239 then Some (2, 128, 191)
      else if b = 240 then Some (3, 144, 191)
      else if b = 244 then Some (3, 128, 143)
      else if 241 \<le> b \<and> b \<le> 243 then Some (3, 128, 191)
      else None)"

fun pct_cont :: "nat \<Rightarrow> nat \<Rightarrow> nat \<Rightarrow> string \<Rightarrow> (string \<times> string) option" where
  "pct_cont 0 lo hi s = Some ([], s)"
| "pct_cont (Suc k) lo hi s =
     (case pct_byte s of None \<Rightarrow> None
      | Some (b, r) \<Rightarrow>
          if lo \<le> b \<and> b \<le> hi
          then map_option (\<lambda>(out, r'). (char_of b # out, r')) (pct_cont k 128 191 r)
          else None)"

lemma pct_cont_shorter: "pct_cont k lo hi s = Some (out, r) \<Longrightarrow> length r \<le> length s"
  by (induction k lo hi s arbitrary: out r rule: pct_cont.induct)
    (fastforce split: option.splits prod.splits if_splits dest: pct_byte_shorter)+

function decode_uri :: "string \<Rightarrow> string option" where
  "decode_uri [] = Some []"
| "decode_uri (c # cs) =
     (if c \<noteq> CHR ''%'' then map_option (\<lambda>r. c # r) (decode_uri cs)
      else (case pct_byte (c # cs) of None \<Rightarrow> None
      | Some (b, r) \<Rightarrow>
          (if b < 128 then map_option (\<lambda>out. char_of b # out) (decode_uri r)
           else (case utf8_lead b of None \<Rightarrow> None
           | Some (k, lo, hi) \<Rightarrow>
               (case pct_cont k lo hi r of None \<Rightarrow> None
                | Some (out, r') \<Rightarrow> map_option (\<lambda>o'. char_of b # out @ o') (decode_uri r'))))))"
  by pat_completeness auto
termination
  by (relation "measure length")
    (auto dest!: pct_byte_shorter pct_cont_shorter simp del: pct_byte.simps)

lemma decode_uri_plain: "CHR ''%'' \<notin> set s \<Longrightarrow> decode_uri s = Some s"
  by (induction s) auto

section \<open>JSON values\<close>

datatype json =
    JNull
  | JBool bool
  | JNum rat
  | JStr string
  | JArr "json list"
  | JObj "(string \<times> json) list"

abbreviation JInt :: "int \<Rightarrow> json" where
  "JInt i \<equiv> JNum (of_int i)"

abbreviation JOptStr :: "string option \<Rightarrow> json" where
  "JOptStr s \<equiv> (case s of None \<Rightarrow> JNull | Some t \<Rightarrow> JStr t)"

abbreviation JOptInt :: "int option \<Rightarrow> json" where
  "JOptInt i \<equiv> (case i of None \<Rightarrow> JNull | Some n \<Rightarrow> JInt n)"

text \<open>\<open>v?.key\<close>: a missing property, or a property of a non-object, is \<open>undefined\<close>.\<close>

fun jget :: "json \<Rightarrow> string \<Rightarrow> json option" where
  "jget (JObj kvs) k = map_of kvs k"
| "jget _ k = None"

fun jtruthy :: "json \<Rightarrow> bool" where
  "jtruthy JNull = False"
| "jtruthy (JBool b) = b"
| "jtruthy (JNum n) = (n \<noteq> 0)"
| "jtruthy (JStr s) = (s \<noteq> [])"
| "jtruthy (JArr _) = True"
| "jtruthy (JObj _) = True"

text \<open>Truthiness of a possibly missing value.\<close>

definition jtruthy_opt :: "json option \<Rightarrow> bool" where
  "jtruthy_opt v = (case v of None \<Rightarrow> False | Some j \<Rightarrow> jtruthy j)"

end
