(* ===== verification/Schema.thy ===== *)
theory Schema
  imports Tables Js_Values
begin

text \<open>
  The rows of the SQLite tables (\<open>lib/schema.sql\<close>, \<open>lib/migrations.ts\<close>, the row
  interfaces of \<open>lib/db.ts\<close>), the database they make up, and the state of the server
  process: the database, the events broadcast so far (oldest last), the stores of the rate
  limiters and the clock. A nullable column is an option; a column that holds JSON text
  holds the value the text spells; a 0/1 column that is only used as a flag is a boolean.
\<close>

section \<open>Enumerations\<close>

datatype task_status = Inbox | Assigned | In_Progress | Review | Quality_Review | Done

datatype priority = Critical | High | Medium | Low

datatype verdict = Approved | Rejected

fun status_text :: "task_status \<Rightarrow> string" where
  "status_text Inbox = ''inbox''"
| "status_text Assigned = ''assigned''"
| "status_text In_Progress = ''in_progress''"
| "status_text Review = ''review''"
| "status_text Quality_Review = ''quality_review''"
| "status_text Done = ''done''"

fun priority_text :: "priority \<Rightarrow> string" where
  "priority_text Critical = ''critical''"
| "priority_text High = ''high''"
| "priority_text Medium = ''medium''"
| "priority_text Low = ''low''"

fun verdict_text :: "verdict \<Rightarrow> string" where
  "verdict_text Approved = ''approved''"
| "verdict_text Rejected = ''rejected''"

lemma status_text_inj: "status_text s = status_text s' \<longleftrightarrow> s = s'"
  by (cases s; cases s') simp_all

datatype step_status = Pending | Running | Completed | Failed | Skipped

datatype run_status = RunPending | RunRunning | RunCompleted | RunFailed | RunCancelled

datatype on_failure = Stop | Continue

datatype tenant_status =
  TPending | TProvisioning | TDecommissioning | TActive | TSuspended | TError

datatype job_status =
  JQueued | JApproved | JRunning | JCompleted | JFailed | JRejected | JCancelled

datatype job_type = Bootstrap | Update | Decommission

datatype event_level = LInfo | LWarn | LError

section \<open>Rows: tasks and their satellites\<close>

record task =
  task_title :: string
  task_description :: "string option"
  task_status :: task_status
  task_priority :: priority
  task_assigned_to :: "string option"
  task_created_by :: string
  task_created_at :: int
  task_updated_at :: int
  task_due_date :: "rat option"
  task_estimated_hours :: "rat option"
  task_actual_hours :: "rat option"
  task_tags :: "string list option"
  task_metadata :: "json option"

record comment =
  com_task_id :: int
  com_author :: string
  com_content :: string
  com_created_at :: int
  com_parent_id :: "int option"
  com_mentions :: "string list option"

record subscription =
  sub_task_id :: int
  sub_agent :: string
  sub_created_at :: int

record quality_review =
  qr_task_id :: int
  qr_reviewer :: string
  qr_status :: verdict
  qr_notes :: string
  qr_created_at :: int

section \<open>Rows: agents, activity stream, notifications, audit log, settings\<close>

record agent =
  agent_name :: string
  agent_role :: string
  agent_session_key :: "string option"
  agent_soul :: "string option"
  agent_status :: string
  agent_last_seen :: "int option"
  agent_last_activity :: "string option"
  agent_created_at :: int
  agent_updated_at :: int
  agent_config :: "json option"
  agent_memory :: string

record activity =
  act_type :: string
  act_entity_type :: string
  act_entity_id :: int
  act_actor :: string
  act_description :: string
  act_data :: "json option"
  act_created_at :: int

record notification =
  ntf_recipient :: string
  ntf_type :: string
  ntf_title :: string
  ntf_message :: string
  ntf_source_type :: "string option"
  ntf_source_id :: "int option"
  ntf_read_at :: "int option"
  ntf_delivered_at :: "int option"
  ntf_created_at :: int

record audit =
  aud_action :: string
  aud_actor :: string
  aud_actor_id :: "int option"
  aud_target_type :: "string option"
  aud_target_id :: "int option"
  aud_detail :: "json option"
  aud_ip :: "string option"
  aud_user_agent :: "string option"
  aud_created_at :: int

record setting =
  set_value :: string
  set_description :: "string option"
  set_category :: string
  set_updated_by :: "string option"
  set_updated_at :: int

section \<open>Rows: users, sessions, access requests\<close>

record user =
  usr_username :: string
  usr_display_name :: string
  usr_password_hash :: string
  usr_role :: string
  usr_provider :: string
  usr_provider_user_id :: "string option"
  usr_email :: "string option"
  usr_avatar_url :: "string option"
  usr_is_approved :: int
  usr_approved_by :: "string option"
  usr_approved_at :: "int option"
  usr_created_at :: int
  usr_updated_at :: int
  usr_last_login_at :: "int option"

record session =
  ses_token :: string
  ses_user_id :: int
  ses_expires_at :: int
  ses_created_at :: int
  ses_ip :: "string option"
  ses_user_agent :: "string option"

record access_request =
  acc_provider :: string
  acc_email :: string
  acc_provider_user_id :: "string option"
  acc_display_name :: "string option"
  acc_avatar_url :: "string option"
  acc_status :: string
  acc_requested_at :: int
  acc_last_attempt_at :: int
  acc_attempt_count :: int
  acc_reviewed_by :: "string option"
  acc_reviewed_at :: "int option"
  acc_review_note :: "string option"
  acc_approved_user_id :: "int option"

section \<open>Rows: webhooks and their deliveries\<close>

text \<open>\<open>wh_events\<close> is \<open>None\<close> where the column's text is not JSON.\<close>

record webhook =
  wh_name :: string
  wh_url :: string
  wh_secret :: "string option"
  wh_events :: "json option"
  wh_enabled :: bool
  wh_last_fired_at :: "int option"
  wh_last_status :: "int option"
  wh_created_by :: string
  wh_created_at :: int
  wh_updated_at :: int
  wh_failures :: nat

record delivery =
  dl_webhook_id :: int
  dl_event_type :: string
  dl_payload :: json
  dl_status_code :: "int option"
  dl_response_body :: "string option"
  dl_error :: "string option"
  dl_duration_ms :: int
  dl_attempt :: nat
  dl_next_retry_at :: "int option"
  dl_is_retry :: bool
  dl_parent :: "int option"
  dl_created_at :: int

section \<open>Rows: workflow templates, pipelines and their runs\<close>

record template =
  tpl_name :: string
  tpl_description :: "string option"
  tpl_model :: string
  tpl_prompt :: string
  tpl_timeout :: int
  tpl_agent_role :: "string option"
  tpl_tags :: "string list option"
  tpl_created_by :: string
  tpl_created_at :: int
  tpl_updated_at :: int
  tpl_last_used_at :: "int option"
  tpl_use_count :: nat

record pipeline_step =
  pst_template_id :: int
  pst_on_failure :: on_failure

record pipeline =
  pl_name :: string
  pl_description :: "string option"
  pl_steps :: "pipeline_step list"
  pl_created_by :: string
  pl_created_at :: int
  pl_updated_at :: int
  pl_use_count :: nat
  pl_last_used_at :: "int option"

record run_step =
  rs_step_index :: nat
  rs_template_id :: int
  rs_template_name :: string
  rs_on_failure :: on_failure
  rs_status :: step_status
  rs_spawn_id :: "string option"
  rs_started_at :: "int option"
  rs_completed_at :: "int option"
  rs_error :: "string option"

record pipeline_run =
  run_pipeline_id :: int
  run_status :: run_status
  run_current_step :: nat
  run_steps :: "run_step list"
  run_started_at :: "int option"
  run_completed_at :: "int option"
  run_triggered_by :: string
  run_created_at :: int

section \<open>Rows: alert rules\<close>

record alert_rule =
  ar_name :: string
  ar_description :: "string option"
  ar_enabled :: bool
  ar_entity_type :: string
  ar_field :: string
  ar_operator :: string
  ar_value :: string
  ar_action_type :: string
  ar_action_config :: json
  ar_cooldown :: rat
  ar_last_triggered_at :: "int option"
  ar_trigger_count :: nat
  ar_created_by :: string
  ar_created_at :: int
  ar_updated_at :: int

section \<open>Rows: tenants, provisioning jobs and their events\<close>

record tenant =
  ten_slug :: string
  ten_display_name :: string
  ten_linux_user :: string
  ten_plan_tier :: string
  ten_status :: tenant_status
  ten_openclaw_home :: string
  ten_workspace_root :: string
  ten_gateway_port :: "int option"
  ten_dashboard_port :: "int option"
  ten_config :: json
  ten_created_by :: string
  ten_owner_gateway :: "string option"
  ten_created_at :: int
  ten_updated_at :: int

record provision_step =
  ps_key :: string
  ps_title :: string
  ps_command :: "string list"
  ps_requires_root :: bool
  ps_timeout_ms :: "int option"

record provision_job =
  job_tenant_id :: int
  job_type :: job_type
  job_status :: job_status
  job_dry_run :: bool
  job_requested_by :: string
  job_approved_by :: "string option"
  job_runner_host :: "string option"
  job_idempotency_key :: "string option"
  job_request :: json
  job_plan :: "provision_step list"
  job_result :: "json option"
  job_error :: "string option"
  job_started_at :: "int option"
  job_completed_at :: "int option"
  job_created_at :: int
  job_updated_at :: int

record provision_event =
  pev_job_id :: int
  pev_level :: event_level
  pev_step_key :: "string option"
  pev_message :: string
  pev_data :: "json option"
  pev_created_at :: int

section \<open>Rows: direct connections, token usage, chat\<close>

datatype connection_status = Connected | Disconnected

record direct_connection =
  con_agent_id :: int
  con_tool_name :: string
  con_tool_version :: "string option"
  con_connection_id :: string
  con_status :: connection_status
  con_last_heartbeat :: "int option"
  con_metadata :: "json option"
  con_created_at :: int
  con_updated_at :: int

record token_row =
  tok_model :: string
  tok_session_id :: string
  tok_input :: rat
  tok_output :: rat
  tok_created_at :: int

record chat_message =
  msg_conversation_id :: string
  msg_from :: string
  msg_to :: "string option"
  msg_content :: string
  msg_type :: string
  msg_metadata :: "json option"
  msg_read_at :: "int option"
  msg_created_at :: int

section \<open>Rows: gateways, GitHub synchronisations, Claude sessions, stand-ups\<close>

record gateway =
  gw_name :: string
  gw_host :: string
  gw_port :: int
  gw_token :: string
  gw_is_primary :: int
  gw_status :: string
  gw_last_seen :: "int option"
  gw_latency :: "int option"
  gw_sessions_count :: int
  gw_agents_count :: int
  gw_created_at :: int
  gw_updated_at :: int

record github_sync =
  ghs_repo :: string
  ghs_last_synced_at :: int
  ghs_issue_count :: nat
  ghs_status :: string
  ghs_error :: "string option"
  ghs_created_at :: int

record claude_session =
  cls_session_id :: string
  cls_project_slug :: string
  cls_project_path :: "string option"
  cls_model :: "string option"
  cls_git_branch :: "string option"
  cls_user_messages :: nat
  cls_assistant_messages :: nat
  cls_tool_uses :: nat
  cls_input_tokens :: rat
  cls_output_tokens :: rat
  cls_estimated_cost :: rat
  cls_first_message_at :: "string option"
  cls_last_message_at :: "string option"
  cls_last_user_prompt :: "string option"
  cls_is_active :: bool
  cls_scanned_at :: int
  cls_created_at :: int
  cls_updated_at :: int

record standup =
  stu_report :: json
  stu_created_at :: int

section \<open>The database\<close>

text \<open>
  The table of the gateways is made by the first request to their routes; until then
  \<open>gateways\<close> is \<open>None\<close>. The column \<open>working_memory\<close> of the agents is added by the first request that reads or
  writes it; \<open>memory_column\<close> says whether it is there, until then \<open>agent_memory\<close> is empty.
\<close>

record db =
  tasks :: "task table"
  comments :: "comment table"
  subscriptions :: "subscription table"
  reviews :: "quality_review table"
  agents :: "agent table"
  activities :: "activity table"
  notifications :: "notification table"
  audit_log :: "audit table"
  settings :: "(string \<times> setting) list"
  users :: "user table"
  sessions :: "session table"
  access_requests :: "access_request table"
  webhooks :: "webhook table"
  deliveries :: "delivery table"
  templates :: "template table"
  pipelines :: "pipeline table"
  runs :: "pipeline_run table"
  alert_rules :: "alert_rule table"
  tenants :: "tenant table"
  jobs :: "provision_job table"
  provision_events :: "provision_event table"
  connections :: "direct_connection table"
  token_usage :: "token_row table"
  messages :: "chat_message table"
  gateways :: "gateway table option"
  github_syncs :: "github_sync table"
  claude_sessions :: "claude_session table"
  standups :: "(string \<times> standup) list"
  memory_column :: bool

definition db_empty :: db where
  "db_empty = \<lparr>tasks = tbl_empty, comments = tbl_empty, subscriptions = tbl_empty,
     reviews = tbl_empty, agents = tbl_empty, activities = tbl_empty, notifications = tbl_empty,
     audit_log = tbl_empty, settings = [], users = tbl_empty, sessions = tbl_empty,
     access_requests = tbl_empty, webhooks = tbl_empty, deliveries = tbl_empty,
     templates = tbl_empty, pipelines = tbl_empty, runs = tbl_empty, alert_rules = tbl_empty,
     tenants = tbl_empty, jobs = tbl_empty, provision_events = tbl_empty,
     connections = tbl_empty, token_usage = tbl_empty, messages = tbl_empty,
     gateways = None, github_syncs = tbl_empty, claude_sessions = tbl_empty, standups = [],
     memory_column = False\<rparr>"

section \<open>The server process\<close>

text \<open>\<open>ServerEvent\<close> of \<open>lib/event-bus.ts\<close>.\<close>

record server_event =
  ev_type :: string
  ev_data :: json
  ev_timestamp :: int

text \<open>\<open>RateLimitEntry\<close> of \<open>lib/rate-limit.ts\<close>, and the limiters it exports.\<close>

record limit_entry =
  le_count :: nat
  le_reset_at :: int

datatype limiter = LoginLimiter | MutationLimiter | ReadLimiter | HeavyLimiter

text \<open>
  The state of the process. The clock is \<open>Date.now()\<close> in milliseconds; one request is
  handled at one reading of it (an operation that awaits something in between says so).
\<close>

record world =
  dbase :: db
  bus :: "server_event list"
  limits :: "limiter \<Rightarrow> string \<rightharpoonup> limit_entry"
  clock :: int

text \<open>\<open>Math.floor(Date.now() / 1000)\<close> and \<open>unixepoch()\<close>.\<close>

definition now_s :: "world \<Rightarrow> int" where
  "now_s w = clock w div 1000"

definition world_at :: "int \<Rightarrow> world" where
  "world_at t = \<lparr>dbase = db_empty, bus = [], limits = (\<lambda>_ _. None), clock = t\<rparr>"

section \<open>What a handler answers\<close>

text \<open>
  \<open>Reply s b\<close> is \<open>NextResponse.json(b, {status: s})\<close>; \<open>Err s m d\<close> is
  \<open>NextResponse.json({error: m, details: d}, {status: s})\<close>; \<open>Crash\<close> is an exception that
  leaves the handler.
\<close>

datatype 'b response = Reply nat 'b | Err nat string "string list" | Crash

abbreviation Fail :: "nat \<Rightarrow> string \<Rightarrow> 'b response" where
  "Fail s m \<equiv> Err s m []"

fun resp_status :: "'b response \<Rightarrow> nat" where
  "resp_status (Reply s b) = s"
| "resp_status (Err s m d) = s"
| "resp_status Crash = 500"

text \<open>
  The outcome of \<open>validateBody\<close>: the data a Zod schema produced, the issues it found, or a
  body that is not JSON. Zod is not part of the repository, so handlers take the outcome as
  an argument.
\<close>

datatype 'a validated = VData 'a | VIssues "string list" | VBadJson

end
