(* ===== verification/Rate_Limit.thy ===== *)
theory Rate_Limit
  imports Schema
begin

text \<open>
  Requests and the process environment, and the in-memory rate limiters of
  \<open>lib/rate-limit.ts\<close>: one store per limiter, keyed by the client address, with a window
  that starts at the first request and a periodic clean-up of expired entries.
\<close>

section \<open>Requests and environment\<close>

text \<open>
  \<open>process.env\<close>, and what the handlers read of a request. Header names are in lower case.
  \<open>req_cookies\<close> are the cookies as the framework parses them for the middleware; the
  authentication of \<open>lib/auth.ts\<close> reads the raw \<open>cookie\<close> header instead.
\<close>

type_synonym env = "string \<rightharpoonup> string"

record request =
  req_method :: string
  req_path :: string
  req_headers :: "string \<rightharpoonup> string"
  req_cookies :: "string \<rightharpoonup> string"
  req_host :: string

text \<open>\<open>process.env.X || d\<close>.\<close>

definition env_or :: "env \<Rightarrow> string \<Rightarrow> string \<Rightarrow> string" where
  "env_or e k d = opt_or (e k) d"

definition header_or :: "request \<Rightarrow> string \<Rightarrow> string \<Rightarrow> string" where
  "header_or r k d = opt_or (req_headers r k) d"

section \<open>Client address\<close>

definition trusted_proxies :: "env \<Rightarrow> string list" where
  "trusted_proxies e =
     filter (\<lambda>s. s \<noteq> []) (map js_trim (split_on (CHR '','') (env_or e ''MC_TRUSTED_PROXIES'' [])))"

definition extract_client_ip :: "env \<Rightarrow> request \<Rightarrow> string" where
  "extract_client_ip e r =
     (let proxies = trusted_proxies e;
          fallback = str_or (case req_headers r ''x-real-ip'' of None \<Rightarrow> [] | Some s \<Rightarrow> js_trim s) ''unknown''
      in case req_headers r ''x-forwarded-for'' of
           None \<Rightarrow> fallback
         | Some xff \<Rightarrow>
             if xff \<noteq> [] \<and> proxies \<noteq> []
             then (case find (\<lambda>ip. ip \<notin> set proxies) (rev (map js_trim (split_on (CHR '','') xff))) of
                     Some ip \<Rightarrow> ip | None \<Rightarrow> fallback)
             else fallback)"

section \<open>Limiters\<close>

record limiter_options =
  lo_window_ms :: int
  lo_max_requests :: nat
  lo_message :: "string option"
  lo_critical :: bool

fun limiter_options_of :: "limiter \<Rightarrow> limiter_options" where
  "limiter_options_of LoginLimiter =
     \<lparr>lo_window_ms = 60000, lo_max_requests = 5,
      lo_message = Some ''Too many login attempts. Try again in a minute.'', lo_critical = True\<rparr>"
| "limiter_options_of MutationLimiter =
     \<lparr>lo_window_ms = 60000, lo_max_requests = 60, lo_message = None, lo_critical = False\<rparr>"
| "limiter_options_of ReadLimiter =
     \<lparr>lo_window_ms = 60000, lo_max_requests = 120, lo_message = None, lo_critical = False\<rparr>"
| "limiter_options_of HeavyLimiter =
     \<lparr>lo_window_ms = 60000, lo_max_requests = 10,
      lo_message = Some ''Too many requests for this resource. Please try again later.'',
      lo_critical = False\<rparr>"

definition limiter_disabled :: "env \<Rightarrow> limiter \<Rightarrow> bool" where
  "limiter_disabled e l =
     (e ''MC_DISABLE_RATE_LIMIT'' = Some ''1'' \<and> \<not> lo_critical (limiter_options_of l))"

definition set_entry :: "limiter \<Rightarrow> string \<Rightarrow> limit_entry option \<Rightarrow> world \<Rightarrow> world" where
  "set_entry l ip v w = w\<lparr>limits := (limits w)(l := (limits w l)(ip := v))\<rparr>"

definition check_rate_limit :: "limiter \<Rightarrow> env \<Rightarrow> request \<Rightarrow> world \<Rightarrow> world \<times> 'b response option" where
  "check_rate_limit l e r w =
     (if limiter_disabled e l then (w, None)
      else
        let opts = limiter_options_of l;
            ip = extract_client_ip e r;
            now = clock w;
            fresh = set_entry l ip
              (Some \<lparr>le_count = 1, le_reset_at = now + lo_window_ms opts\<rparr>) w
        in case limits w l ip of
             None \<Rightarrow> (fresh, None)
           | Some entry \<Rightarrow>
               if now > le_reset_at entry then (fresh, None)
               else
                 let n = le_count entry + 1;
                     w' = set_entry l ip (Some (entry\<lparr>le_count := n\<rparr>)) w
                 in if n > lo_max_requests opts
                    then (w', Some (Fail 429 (opt_or (lo_message opts)
                            ''Too many requests. Please try again later.'')))
                    else (w', None))"

text \<open>The interval handler: drop the entries whose window has passed.\<close>

definition cleanup_limits :: "limiter \<Rightarrow> world \<Rightarrow> world" where
  "cleanup_limits l w = w\<lparr>limits := (limits w)(l :=
     (\<lambda>ip. case limits w l ip of None \<Rightarrow> None
           | Some en \<Rightarrow> if clock w > le_reset_at en then None else Some en))\<rparr>"

text \<open>Apply a limiter in front of a handler: \<open>const rateCheck = ...; if (rateCheck) return rateCheck\<close>.\<close>

definition with_limit ::
  "limiter \<Rightarrow> env \<Rightarrow> request \<Rightarrow> (world \<Rightarrow> world \<times> 'b response) \<Rightarrow> world \<Rightarrow> world \<times> 'b response" where
  "with_limit l e r h w =
     (case check_rate_limit l e r w of
        (w', Some resp) \<Rightarrow> (w', resp)
      | (w', None) \<Rightarrow> h w')"

text \<open>The answers of a limiter to a timed sequence of requests (\<open>True\<close>: let through).\<close>

fun limiter_run :: "limiter \<Rightarrow> env \<Rightarrow> (int \<times> request) list \<Rightarrow> world \<Rightarrow> bool list" where
  "limiter_run l e [] w = []"
| "limiter_run l e ((t, r) # rs) w =
     (let (w', a) = check_rate_limit l e r (w\<lparr>clock := t\<rparr>)
      in ((a :: unit response option) = None) # limiter_run l e rs w')"

section \<open>Frames\<close>

lemma set_entry_simps [simp]:
  "dbase (set_entry l ip v w) = dbase w"
  "bus (set_entry l ip v w) = bus w"
  "clock (set_entry l ip v w) = clock w"
  "limits (set_entry l ip v w) l' ip' =
     (if l' = l \<and> ip' = ip then v else limits w l' ip')"
  by (simp_all add: set_entry_def)

lemma check_rate_limit_frame:
  assumes "check_rate_limit l e r w = (w', a)"
  shows "dbase w' = dbase w" "bus w' = bus w" "clock w' = clock w"
    and "l' \<noteq> l \<or> ip \<noteq> extract_client_ip e r \<Longrightarrow> limits w' l' ip = limits w l' ip"
  using assms
  by (auto simp: check_rate_limit_def Let_def split: if_splits option.splits)

text \<open>A limiter answers nothing but status 429.\<close>

lemma check_rate_limit_429:
  "check_rate_limit l e r w = (w', Some a) \<Longrightarrow> resp_status a = 429"
  by (auto simp: check_rate_limit_def Let_def split: if_splits option.splits)

lemma with_limit_cases:
  fixes a :: "'b response"
  assumes "with_limit l e r h w = (w', a)"
  obtains (limited) "resp_status a = 429" "dbase w' = dbase w" "bus w' = bus w"
  | (passed) w1 where "dbase w1 = dbase w" "bus w1 = bus w" "clock w1 = clock w" "h w1 = (w', a)"
proof (cases "check_rate_limit l e r w :: world \<times> 'b response option")
  case (Pair w1 o1)
  show thesis
  proof (cases o1)
    case None
    then have "h w1 = (w', a)" using assms Pair by (simp add: with_limit_def)
    then show thesis using passed check_rate_limit_frame [OF Pair] by simp
  next
    case (Some resp)
    then have "w1 = w'" "resp = a" using assms Pair by (simp_all add: with_limit_def)
    then show thesis
      using limited check_rate_limit_frame [OF Pair] check_rate_limit_429 Pair Some by blast
  qed
qed

section \<open>How many requests pass\<close>

lemma limiter_run_counting:
  assumes "\<not> limiter_disabled e l"
    and "\<forall>(t, r) \<in> set rs. t \<le> reset \<and> extract_client_ip e r = ip"
    and "limits w l ip = Some \<lparr>le_count = c, le_reset_at = reset\<rparr>"
  shows "limiter_run l e rs w =
    map (\<lambda>i. c + i < lo_max_requests (limiter_options_of l)) [0..<length rs]"
  using assms(2,3)
proof (induction rs arbitrary: c w)
  case Nil
  then show ?case by simp
next
  case (Cons x rs)
  obtain t r where x: "x = (t, r)" by (cases x)
  let ?max = "lo_max_requests (limiter_options_of l)"
  let ?w' = "set_entry l ip (Some \<lparr>le_count = c + 1, le_reset_at = reset\<rparr>) (w\<lparr>clock := t\<rparr>)"
  have step: "check_rate_limit l e r (w\<lparr>clock := t\<rparr>) =
      (?w', if c + 1 > ?max then Some (Fail 429 (opt_or (lo_message (limiter_options_of l))
              ''Too many requests. Please try again later.'') :: unit response) else None)"
    using assms(1) Cons.prems by (auto simp: check_rate_limit_def x Let_def)
  have "limiter_run l e rs ?w' = map (\<lambda>i. (c + 1) + i < ?max) [0..<length rs]"
    using Cons.IH [of ?w' "c + 1"] Cons.prems by simp
  then have "limiter_run l e (x # rs) w = (c < ?max) # map (\<lambda>i. (c + 1) + i < ?max) [0..<length rs]"
    using step by (simp add: x)
  also have "\<dots> = map (\<lambda>i. c + i < ?max) [0..<length (x # rs)]"
    by (simp add: map_upt_Cons del: upt_Suc)
  finally show ?case .
qed

text \<open>A client whose window is closed starts a new one with its next request.\<close>

lemma limiter_run_fresh:
  assumes "\<not> limiter_disabled e l" "0 < lo_max_requests (limiter_options_of l)"
    and "\<forall>(t, r) \<in> set rs. t \<le> t0 + lo_window_ms (limiter_options_of l) \<and> extract_client_ip e r = ip"
    and "extract_client_ip e r0 = ip"
    and "limits w l ip = None \<or> (\<exists>en. limits w l ip = Some en \<and> le_reset_at en < t0)"
  shows "limiter_run l e ((t0, r0) # rs) w =
    map (\<lambda>i. i < lo_max_requests (limiter_options_of l)) [0..<Suc (length rs)]"
proof -
  let ?opts = "limiter_options_of l"
  let ?w' = "set_entry l ip (Some \<lparr>le_count = 1, le_reset_at = t0 + lo_window_ms ?opts\<rparr>) (w\<lparr>clock := t0\<rparr>)"
  have "check_rate_limit l e r0 (w\<lparr>clock := t0\<rparr>) = (?w', None :: unit response option)"
    using assms(1,4,5) by (auto simp: check_rate_limit_def Let_def)
  moreover have "limiter_run l e rs ?w' = map (\<lambda>i. 1 + i < lo_max_requests ?opts) [0..<length rs]"
    by (rule limiter_run_counting [OF assms(1,3)]) simp
  ultimately show ?thesis
    using assms(2) by (simp add: map_upt_Cons del: upt_Suc)
qed

lemma lo_max_pos [simp]: "0 < lo_max_requests (limiter_options_of l)"
  by (cases l) simp_all

section \<open>Clean-up\<close>

text \<open>The clean-up never changes an answer, and what a check stores does not depend on it.\<close>

lemma cleanup_check:
  assumes "check_rate_limit l e r w = (w1, a)" "check_rate_limit l e r (cleanup_limits l w) = (w2, b)"
  shows "a = (b :: 'b response option)" "\<not> limiter_disabled e l \<Longrightarrow>
    limits w1 l (extract_client_ip e r) = limits w2 l (extract_client_ip e r)"
  using assms
  by (auto simp: check_rate_limit_def cleanup_limits_def Let_def set_entry_def
      split: if_splits option.splits)

section \<open>Properties\<close>

text \<open>
  Claim C40. The limiters are fixed windows: when a client whose window is closed sends
  requests that all fall within one window of the first, the first \<open>maxRequests\<close> of them
  pass and every later one is refused.
\<close>

theorem limiter_window:
  assumes "\<not> limiter_disabled e l"
    and "\<forall>(t, r) \<in> set rs. t \<le> t0 + lo_window_ms (limiter_options_of l) \<and> extract_client_ip e r = ip"
    and "extract_client_ip e r0 = ip"
    and "limits w l ip = None \<or> (\<exists>en. limits w l ip = Some en \<and> le_reset_at en < t0)"
  shows "limiter_run l e ((t0, r0) # rs) w =
    map (\<lambda>i. i < lo_max_requests (limiter_options_of l)) [0..<Suc (length rs)]"
  using assms by (intro limiter_run_fresh) simp_all

text \<open>
  The login limiter (five attempts a minute) cannot be switched off: the sixth attempt is
  refused with \<open>MC_DISABLE_RATE_LIMIT\<close> set.
\<close>

theorem limiter_window_witness:
  "limiter_run LoginLimiter [''MC_DISABLE_RATE_LIMIT'' \<mapsto> ''1'']
     ((0, \<lparr>req_method = [], req_path = [], req_headers = (\<lambda>_. None), req_cookies = (\<lambda>_. None), req_host = []\<rparr>)
      # replicate 5 (59999, \<lparr>req_method = [], req_path = [], req_headers = (\<lambda>_. None), req_cookies = (\<lambda>_. None), req_host = []\<rparr>))
     (world_at 0) = [True, True, True, True, True, False]"
proof -
  let ?r = "\<lparr>req_method = [], req_path = [], req_headers = (\<lambda>_. None), req_cookies = (\<lambda>_. None), req_host = []\<rparr> :: request"
  let ?e = "[''MC_DISABLE_RATE_LIMIT'' \<mapsto> ''1''] :: env"
  have "limiter_run LoginLimiter ?e ((0, ?r) # replicate 5 (59999, ?r)) (world_at 0) =
      map (\<lambda>i. i < lo_max_requests (limiter_options_of LoginLimiter)) [0..<Suc (length (replicate 5 (59999 :: int, ?r)))]"
    by (rule limiter_window [where ip = "extract_client_ip ?e ?r"])
      (auto simp: limiter_disabled_def world_at_def)
  then show ?thesis by (simp add: upt_rec)
qed

text \<open>
  A check touches the counter of its own limiter and client only: the counters of
  every other limiter and client, the database and the events are unchanged.
\<close>

theorem limiter_isolation:
  assumes "check_rate_limit l e r w = (w', a)"
    and "l' \<noteq> l \<or> ip \<noteq> extract_client_ip e r"
  shows "limits w' l' ip = limits w l' ip \<and> dbase w' = dbase w \<and> bus w' = bus w"
  using check_rate_limit_frame [OF assms(1)] assms(2) by simp

theorem limiter_isolation_witness:
  "limits (fst (check_rate_limit LoginLimiter (\<lambda>_. None)
      \<lparr>req_method = [], req_path = [], req_headers = (\<lambda>_. None), req_cookies = (\<lambda>_. None), req_host = []\<rparr>
      (world_at 0) :: world \<times> unit response option)) MutationLimiter ''10.0.0.1'' = None"
proof -
  let ?r = "\<lparr>req_method = [], req_path = [], req_headers = (\<lambda>_. None), req_cookies = (\<lambda>_. None), req_host = []\<rparr> :: request"
  obtain w' a where c: "check_rate_limit LoginLimiter (\<lambda>_. None) ?r (world_at 0) = (w', a :: unit response option)"
    by (cases "check_rate_limit LoginLimiter (\<lambda>_. None) ?r (world_at 0) :: world \<times> unit response option")
  show ?thesis
    using limiter_isolation [OF c, of MutationLimiter "''10.0.0.1''"] c by (simp add: world_at_def)
qed

end
