(* ===== verification/Db_Helpers.thy ===== *)
theory Db_Helpers
  imports Schema
begin

text \<open>
  The helpers of \<open>lib/db.ts\<close> every route is written with: the activity stream, the
  notifications, task subscriptions, agent status, the audit log and the provisioning
  events, and \<open>broadcast\<close> of \<open>lib/event-bus.ts\<close>. Each takes the state of the process and
  returns the new one; the frame equations say which parts it leaves alone.
\<close>

section \<open>Operations\<close>

definition broadcast :: "string \<Rightarrow> json \<Rightarrow> world \<Rightarrow> world" where
  "broadcast ty d w = w\<lparr>bus := bus w @ [\<lparr>ev_type = ty, ev_data = d, ev_timestamp = clock w\<rparr>]\<rparr>"

text \<open>\<open>data ? JSON.stringify(data) : null\<close>.\<close>

definition truthy_data :: "json option \<Rightarrow> json option" where
  "truthy_data d = (if jtruthy_opt d then d else None)"

definition or_null :: "json option \<Rightarrow> json" where
  "or_null d = (case truthy_data d of None \<Rightarrow> JNull | Some j \<Rightarrow> j)"

definition activity_row ::
  "string \<Rightarrow> string \<Rightarrow> int \<Rightarrow> string \<Rightarrow> string \<Rightarrow> json option \<Rightarrow> world \<Rightarrow> activity" where
  "activity_row ty entity_type entity_id actor description data w =
     \<lparr>act_type = ty, act_entity_type = entity_type, act_entity_id = entity_id,
      act_actor = actor, act_description = description,
      act_data = truthy_data data, act_created_at = now_s w\<rparr>"

definition log_activity ::
  "string \<Rightarrow> string \<Rightarrow> int \<Rightarrow> string \<Rightarrow> string \<Rightarrow> json option \<Rightarrow> world \<Rightarrow> world" where
  "log_activity ty entity_type entity_id actor description data w =
     (let row = activity_row ty entity_type entity_id actor description data w;
          aid = tbl_last_id (activities (dbase w));
          w' = w\<lparr>dbase := (dbase w)\<lparr>activities := tbl_insert row (activities (dbase w))\<rparr>\<rparr>
      in broadcast ''activity.created''
           (JObj [(''id'', JInt aid), (''type'', JStr ty), (''entity_type'', JStr entity_type),
                  (''entity_id'', JInt entity_id), (''actor'', JStr actor),
                  (''description'', JStr description), (''data'', or_null data),
                  (''created_at'', JInt (now_s w))]) w')"

definition notification_row ::
  "string \<Rightarrow> string \<Rightarrow> string \<Rightarrow> string \<Rightarrow> string option \<Rightarrow> int option \<Rightarrow> world \<Rightarrow> notification" where
  "notification_row recipient ty title message source_type source_id w =
     \<lparr>ntf_recipient = recipient, ntf_type = ty, ntf_title = title,
      ntf_message = message, ntf_source_type = source_type, ntf_source_id = source_id,
      ntf_read_at = None, ntf_delivered_at = None, ntf_created_at = now_s w\<rparr>"

definition create_notification ::
  "string \<Rightarrow> string \<Rightarrow> string \<Rightarrow> string \<Rightarrow> string option \<Rightarrow> int option \<Rightarrow> world \<Rightarrow> world" where
  "create_notification recipient ty title message source_type source_id w =
     (let row = notification_row recipient ty title message source_type source_id w;
          nid = tbl_last_id (notifications (dbase w));
          w' = w\<lparr>dbase := (dbase w)\<lparr>notifications := tbl_insert row (notifications (dbase w))\<rparr>\<rparr>
      in broadcast ''notification.created''
           (JObj [(''id'', JInt nid), (''recipient'', JStr recipient), (''type'', JStr ty),
                  (''title'', JStr title), (''message'', JStr message),
                  (''source_type'', JOptStr (str_or_null source_type)),
                  (''source_id'', JOptInt (if source_id = Some 0 then None else source_id)),
                  (''created_at'', JInt (now_s w))]) w')"

text \<open>\<open>parseMentions\<close>: every maximal word after an at sign, from left to right.\<close>

definition word_char :: "char \<Rightarrow> bool" where
  "word_char c = (let n = of_char c :: nat in
     (48 \<le> n \<and> n \<le> 57) \<or> (65 \<le> n \<and> n \<le> 90) \<or> (97 \<le> n \<and> n \<le> 122) \<or> n = 95)"

function parse_mentions :: "string \<Rightarrow> string list" where
  "parse_mentions [] = []"
| "parse_mentions (c # cs) =
     (if c = CHR ''@'' \<and> takeWhile word_char cs \<noteq> []
      then takeWhile word_char cs # parse_mentions (dropWhile word_char cs)
      else parse_mentions cs)"
  by pat_completeness auto
termination
  by (relation "measure length") (auto simp: length_dropWhile_le less_Suc_eq_le)

definition update_agent_status :: "string \<Rightarrow> string \<Rightarrow> string option \<Rightarrow> world \<Rightarrow> world" where
  "update_agent_status name status activity w =
     (let now = now_s w;
          found = tbl_find (\<lambda>a. agent_name a = name) (agents (dbase w));
          w1 = w\<lparr>dbase := (dbase w)\<lparr>agents :=
                 tbl_update_where (\<lambda>a. agent_name a = name)
                   (\<lambda>a. a\<lparr>agent_status := status, agent_last_seen := Some now,
                          agent_last_activity := activity, agent_updated_at := now\<rparr>)
                   (agents (dbase w))\<rparr>\<rparr>;
          w2 = (case found of None \<Rightarrow> w1
                | Some (i, a) \<Rightarrow> broadcast ''agent.status_changed''
                    (JObj [(''id'', JInt i), (''name'', JStr name), (''status'', JStr status),
                           (''last_seen'', JInt now),
                           (''last_activity'', JOptStr (str_or_null activity))]) w1)
      in log_activity ''agent_status_change'' ''agent''
           (case found of None \<Rightarrow> 0 | Some (i, a) \<Rightarrow> i) name
           (''Agent status changed to '' @ status)
           (Some (JObj ((''status'', JStr status) #
              (case activity of None \<Rightarrow> [] | Some s \<Rightarrow> [(''activity'', JStr s)])))) w2)"

definition get_recent_activities ::
  "(int list \<Rightarrow> int list) \<Rightarrow> nat \<Rightarrow> world \<Rightarrow> (int \<times> activity) list" where
  "get_recent_activities scan limit w =
     take limit (order_desc scan (\<lambda>(i, a). act_created_at a) (rows (activities (dbase w))))"

definition get_unread_notifications ::
  "(int list \<Rightarrow> int list) \<Rightarrow> string \<Rightarrow> world \<Rightarrow> (int \<times> notification) list" where
  "get_unread_notifications scan recipient w =
     order_desc scan (\<lambda>(i, n). ntf_created_at n)
       (tbl_select (\<lambda>n. ntf_recipient n = recipient \<and> ntf_read_at n = None)
         (notifications (dbase w)))"

definition mark_notification_read :: "int \<Rightarrow> world \<Rightarrow> world" where
  "mark_notification_read nid w =
     w\<lparr>dbase := (dbase w)\<lparr>notifications :=
        tbl_update nid (\<lambda>n. n\<lparr>ntf_read_at := Some (now_s w)\<rparr>) (notifications (dbase w))\<rparr>\<rparr>"

text \<open>\<open>INSERT OR IGNORE\<close> under \<open>UNIQUE(task_id, agent_name)\<close>.\<close>

definition is_subscribed :: "int \<Rightarrow> string \<Rightarrow> world \<Rightarrow> bool" where
  "is_subscribed tid name w =
     (tbl_find (\<lambda>s. sub_task_id s = tid \<and> sub_agent s = name) (subscriptions (dbase w)) \<noteq> None)"

definition ensure_subscription :: "int \<Rightarrow> string \<Rightarrow> world \<Rightarrow> world" where
  "ensure_subscription tid name w =
     (if name = [] then w
      else if is_subscribed tid name w then w
      else w\<lparr>dbase := (dbase w)\<lparr>subscriptions :=
             tbl_insert \<lparr>sub_task_id = tid, sub_agent = name, sub_created_at = now_s w\<rparr>
               (subscriptions (dbase w))\<rparr>\<rparr>)"

definition get_task_subscribers :: "int \<Rightarrow> world \<Rightarrow> string list" where
  "get_task_subscribers tid w =
     map (\<lambda>(i, s). sub_agent s) (tbl_select (\<lambda>s. sub_task_id s = tid) (subscriptions (dbase w)))"

definition security_events :: "string list" where
  "security_events = [''login_failed'', ''user_created'', ''user_deleted'', ''password_change'']"

definition audit_row ::
  "string \<Rightarrow> string \<Rightarrow> int option \<Rightarrow> string option \<Rightarrow> int option \<Rightarrow> json option \<Rightarrow>
   string option \<Rightarrow> string option \<Rightarrow> world \<Rightarrow> audit" where
  "audit_row action actor actor_id target_type target_id detail ip ua w =
     \<lparr>aud_action = action, aud_actor = actor, aud_actor_id = actor_id,
      aud_target_type = target_type, aud_target_id = target_id,
      aud_detail = truthy_data detail, aud_ip = ip, aud_user_agent = ua,
      aud_created_at = now_s w\<rparr>"

definition log_audit_event ::
  "string \<Rightarrow> string \<Rightarrow> int option \<Rightarrow> string option \<Rightarrow> int option \<Rightarrow> json option \<Rightarrow>
   string option \<Rightarrow> string option \<Rightarrow> world \<Rightarrow> world" where
  "log_audit_event action actor actor_id target_type target_id detail ip ua w =
     (let row = audit_row action actor actor_id target_type target_id detail ip ua w;
          w' = w\<lparr>dbase := (dbase w)\<lparr>audit_log := tbl_insert row (audit_log (dbase w))\<rparr>\<rparr>
      in if action \<in> set security_events
         then broadcast ''audit.security''
                (JObj [(''action'', JStr action), (''actor'', JStr actor),
                       (''target_type'', JOptStr target_type),
                       (''target_id'', JOptInt target_id),
                       (''timestamp'', JInt (now_s w))]) w'
         else w')"

definition append_provision_event ::
  "int \<Rightarrow> event_level \<Rightarrow> string option \<Rightarrow> string \<Rightarrow> json option \<Rightarrow> world \<Rightarrow> world" where
  "append_provision_event job_id level step_key message data w =
     w\<lparr>dbase := (dbase w)\<lparr>provision_events :=
        tbl_insert \<lparr>pev_job_id = job_id, pev_level = level, pev_step_key = step_key,
                    pev_message = message, pev_data = truthy_data data,
                    pev_created_at = now_s w\<rparr> (provision_events (dbase w))\<rparr>\<rparr>"

section \<open>Frames\<close>

lemma broadcast_frame [simp]:
  "dbase (broadcast ty d w) = dbase w"
  "limits (broadcast ty d w) = limits w"
  "clock (broadcast ty d w) = clock w"
  "bus (broadcast ty d w) = bus w @ [\<lparr>ev_type = ty, ev_data = d, ev_timestamp = clock w\<rparr>]"
  by (simp_all add: broadcast_def)

lemma log_activity_frame [simp]:
  "dbase (log_activity ty et eid actor desc d w) =
     (dbase w)\<lparr>activities := tbl_insert (activity_row ty et eid actor desc d w) (activities (dbase w))\<rparr>"
  "limits (log_activity ty et eid actor desc d w) = limits w"
  "clock (log_activity ty et eid actor desc d w) = clock w"
  by (simp_all add: log_activity_def broadcast_def Let_def)

lemma create_notification_frame [simp]:
  "dbase (create_notification r ty ti m st si w) =
     (dbase w)\<lparr>notifications := tbl_insert (notification_row r ty ti m st si w) (notifications (dbase w))\<rparr>"
  "limits (create_notification r ty ti m st si w) = limits w"
  "clock (create_notification r ty ti m st si w) = clock w"
  by (simp_all add: create_notification_def broadcast_def Let_def)

lemma ensure_subscription_frame [simp]:
  "tasks (dbase (ensure_subscription tid name w)) = tasks (dbase w)"
  "comments (dbase (ensure_subscription tid name w)) = comments (dbase w)"
  "reviews (dbase (ensure_subscription tid name w)) = reviews (dbase w)"
  "agents (dbase (ensure_subscription tid name w)) = agents (dbase w)"
  "notifications (dbase (ensure_subscription tid name w)) = notifications (dbase w)"
  "activities (dbase (ensure_subscription tid name w)) = activities (dbase w)"
  "bus (ensure_subscription tid name w) = bus w"
  "limits (ensure_subscription tid name w) = limits w"
  "clock (ensure_subscription tid name w) = clock w"
  by (simp_all add: ensure_subscription_def)

lemma log_audit_event_frame [simp]:
  "dbase (log_audit_event a ac ai tt ti d ip ua w) =
     (dbase w)\<lparr>audit_log := tbl_insert (audit_row a ac ai tt ti d ip ua w) (audit_log (dbase w))\<rparr>"
  "limits (log_audit_event a ac ai tt ti d ip ua w) = limits w"
  "clock (log_audit_event a ac ai tt ti d ip ua w) = clock w"
  by (simp_all add: log_audit_event_def broadcast_def Let_def)

lemma append_provision_event_frame [simp]:
  "jobs (dbase (append_provision_event j l k m d w)) = jobs (dbase w)"
  "tenants (dbase (append_provision_event j l k m d w)) = tenants (dbase w)"
  "audit_log (dbase (append_provision_event j l k m d w)) = audit_log (dbase w)"
  "bus (append_provision_event j l k m d w) = bus w"
  "limits (append_provision_event j l k m d w) = limits w"
  "clock (append_provision_event j l k m d w) = clock w"
  by (simp_all add: append_provision_event_def)

lemma now_s_helpers [simp]:
  "now_s (log_activity ty et eid actor desc d w) = now_s w"
  "now_s (create_notification r nty ti m st si w) = now_s w"
  "now_s (ensure_subscription tid name w) = now_s w"
  "now_s (log_audit_event a ac ai tt tgi dt ip ua w) = now_s w"
  "now_s (append_provision_event j l k pm pd w) = now_s w"
  "now_s (broadcast bt bd w) = now_s w"
  by (simp_all add: now_s_def)

section \<open>Mentions\<close>

lemma parse_mentions_word: "m \<in> set (parse_mentions s) \<Longrightarrow> m \<noteq> [] \<and> (\<forall>c \<in> set m. word_char c)"
  by (induction s rule: parse_mentions.induct)
    (auto split: if_splits dest: set_takeWhileD)

lemma js_includes_append: "js_includes p s \<Longrightarrow> js_includes p (r @ s)"
proof (induction r)
  case (Cons a r)
  then show ?case by simp
qed simp

lemma js_includes_prefix: "starts_with p s \<Longrightarrow> js_includes p s"
  by (cases s) (auto elim: starts_with.elims)

text \<open>Every mention really stands in the text behind an at sign.\<close>

lemma parse_mentions_occurs: "m \<in> set (parse_mentions s) \<Longrightarrow> js_includes (CHR ''@'' # m) s"
proof (induction s rule: parse_mentions.induct)
  case 1
  then show ?case by simp
next
  case (2 c cs)
  show ?case
  proof (cases "c = CHR ''@'' \<and> takeWhile word_char cs \<noteq> []")
    case True
    show ?thesis
    proof (cases "m = takeWhile word_char cs")
      case True
      with \<open>c = CHR ''@'' \<and> _\<close> show ?thesis
        by (auto simp: starts_with_iff intro!: exI [of _ "dropWhile word_char cs"])
    next
      case False
      with True 2(1,3) have "js_includes (CHR ''@'' # m) (dropWhile word_char cs)"
        by auto
      then have "js_includes (CHR ''@'' # m) (takeWhile word_char cs @ dropWhile word_char cs)"
        by (rule js_includes_append)
      then show ?thesis by simp
    qed
  next
    case False
    with 2 show ?thesis by auto
  qed
qed

section \<open>Subscriptions\<close>

text \<open>The unique index on (task, agent).\<close>

definition subs_key :: "int \<times> subscription \<Rightarrow> int \<times> string" where
  "subs_key x = (sub_task_id (snd x), sub_agent (snd x))"

definition subs_unique :: "world \<Rightarrow> bool" where
  "subs_unique w \<longleftrightarrow> distinct (map subs_key (rows (subscriptions (dbase w))))"

lemma is_subscribed_iff:
  "is_subscribed tid name w \<longleftrightarrow> (tid, name) \<in> subs_key ` set (rows (subscriptions (dbase w)))"
  by (force simp: is_subscribed_def tbl_find_None_iff subs_key_def image_iff)

lemma get_task_subscribers_iff:
  "name \<in> set (get_task_subscribers tid w) \<longleftrightarrow> is_subscribed tid name w"
  by (force simp: get_task_subscribers_def is_subscribed_iff subs_key_def tbl_select_def image_iff)

lemma ensure_subscription_unique: "subs_unique w \<Longrightarrow> subs_unique (ensure_subscription tid name w)"
  by (auto simp: subs_unique_def ensure_subscription_def is_subscribed_iff tbl_simps subs_key_def)

lemma ensure_subscription_subscribed:
  "is_subscribed t n (ensure_subscription tid name w) \<longleftrightarrow>
     is_subscribed t n w \<or> (name \<noteq> [] \<and> t = tid \<and> n = name)"
  by (auto simp: ensure_subscription_def is_subscribed_iff tbl_simps subs_key_def)

lemma get_task_subscribers_distinct:
  assumes "subs_unique w"
  shows "distinct (get_task_subscribers tid w)"
proof -
  have "distinct (map subs_key (tbl_select (\<lambda>s. sub_task_id s = tid) (subscriptions (dbase w))))"
    using assms by (simp add: subs_unique_def tbl_select_def distinct_map_filter)
  moreover have "map subs_key (tbl_select (\<lambda>s. sub_task_id s = tid) (subscriptions (dbase w)))
      = map (\<lambda>n. (tid, n)) (get_task_subscribers tid w)"
    by (auto simp: get_task_subscribers_def tbl_select_def subs_key_def)
  ultimately show ?thesis
    by (simp add: distinct_map)
qed

section \<open>Audit log\<close>

text \<open>Every audit event leaves exactly one row; it is broadcast exactly for the security events.\<close>

lemma log_audit_event_rows:
  "rows (audit_log (dbase (log_audit_event a ac ai tt ti d ip ua w))) =
     rows (audit_log (dbase w)) @ [(next_id (audit_log (dbase w)), audit_row a ac ai tt ti d ip ua w)]"
  by (simp add: tbl_simps)

lemma log_audit_event_bus:
  "a \<notin> set security_events \<Longrightarrow> bus (log_audit_event a ac ai tt ti d ip ua w) = bus w"
  by (simp add: log_audit_event_def Let_def)

end
