(* ===== verification/Auth.thy ===== *)
theory Auth
  imports Rate_Limit Db_Helpers
begin

text \<open>
  Sessions, users and the role check of \<open>lib/auth.ts\<close>, the password hashing of
  \<open>lib/password.ts\<close>, the cookie options of \<open>lib/session-cookie.ts\<close> and the seeding of
  the first administrator in \<open>lib/db.ts\<close>. The key derivation function of the crypto
  library is the argument \<open>scrypt\<close> (password, salt, derived bytes); random bytes are
  arguments too.
\<close>

section \<open>Hex, passwords, comparison of secrets\<close>

definition hex_digit :: "nat \<Rightarrow> char" where
  "hex_digit n = char_of (if n < 10 then 48 + n else 87 + n)"

definition to_hex :: "string \<Rightarrow> string" where
  "to_hex bs = concat (map (\<lambda>c. let n = of_char c :: nat in [hex_digit (n div 16), hex_digit (n mod 16)]) bs)"

text \<open>\<open>Buffer.from(s, 'hex')\<close> stops at the first pair that is not two hex digits.\<close>

fun from_hex :: "string \<Rightarrow> string" where
  "from_hex (h # l # cs) =
     (case (hex_val h, hex_val l) of
        (Some a, Some b) \<Rightarrow> char_of (16 * a + b) # from_hex cs
      | _ \<Rightarrow> [])"
| "from_hex _ = []"

definition timing_safe_equal :: "string \<Rightarrow> string \<Rightarrow> bool" where
  "timing_safe_equal a b = list_all2 (=) a b"

definition safe_compare :: "string \<Rightarrow> string \<Rightarrow> bool" where
  "safe_compare a b = (if length a \<noteq> length b then False else timing_safe_equal a b)"

type_synonym kdf = "string \<Rightarrow> string \<Rightarrow> string"

definition hash_password :: "kdf \<Rightarrow> string \<Rightarrow> string \<Rightarrow> string" where
  "hash_password scrypt salt_bytes password =
     (let salt = to_hex salt_bytes in salt @ CHR '':'' # to_hex (scrypt password salt))"

definition verify_password :: "kdf \<Rightarrow> string \<Rightarrow> string \<Rightarrow> bool" where
  "verify_password scrypt password stored =
     (let parts = split_on (CHR '':'') stored in
      case parts of
        salt # hash # _ \<Rightarrow>
          (if salt = [] \<or> hash = [] then False
           else let derived = scrypt password salt;
                    stored_buf = from_hex hash
                in if length derived \<noteq> length stored_buf then False
                   else timing_safe_equal derived stored_buf)
      | _ \<Rightarrow> False)"

section \<open>Users as the program passes them around\<close>

record auth_user =
  au_id :: int
  au_username :: string
  au_display_name :: string
  au_role :: string
  au_provider :: "string option"
  au_email :: "string option"
  au_avatar_url :: "string option"
  au_is_approved :: "int option"
  au_created_at :: int
  au_updated_at :: int
  au_last_login_at :: "int option"

definition auth_user_of :: "int \<Rightarrow> user \<Rightarrow> auth_user" where
  "auth_user_of i u =
     \<lparr>au_id = i, au_username = usr_username u, au_display_name = usr_display_name u,
      au_role = usr_role u, au_provider = Some (str_or (usr_provider u) ''local''),
      au_email = usr_email u, au_avatar_url = usr_avatar_url u,
      au_is_approved = Some (usr_is_approved u), au_created_at = usr_created_at u,
      au_updated_at = usr_updated_at u, au_last_login_at = usr_last_login_at u\<rparr>"

lemma au_id_auth_user_of [simp]: "au_id (auth_user_of i u) = i"
  by (simp add: auth_user_of_def)

definition api_user :: auth_user where
  "api_user =
     \<lparr>au_id = 0, au_username = ''api'', au_display_name = ''API Access'', au_role = ''admin'',
      au_provider = None, au_email = None, au_avatar_url = None, au_is_approved = None,
      au_created_at = 0, au_updated_at = 0, au_last_login_at = None\<rparr>"

section \<open>Sessions\<close>

definition session_duration :: int where
  "session_duration = 7 * 24 * 60 * 60"

text \<open>
  \<open>None\<close>: the insert violates the unique token or the foreign key of the user, and throws.
\<close>

definition create_session ::
  "string \<Rightarrow> int \<Rightarrow> string option \<Rightarrow> string option \<Rightarrow> world \<Rightarrow> (world \<times> string \<times> int) option" where
  "create_session rnd uid ip ua w =
     (let token = to_hex rnd;
          now = now_s w;
          expires = now + session_duration;
          row = \<lparr>ses_token = token, ses_user_id = uid, ses_expires_at = expires,
                 ses_created_at = now, ses_ip = str_or_null ip, ses_user_agent = str_or_null ua\<rparr>;
          d = dbase w
      in if tbl_find (\<lambda>s. ses_token s = token) (sessions d) \<noteq> None \<or> tbl_get (users d) uid = None
         then None
         else
           let d1 = d\<lparr>sessions := tbl_insert row (sessions d)\<rparr>;
               d2 = d1\<lparr>users := tbl_update uid
                       (\<lambda>u. u\<lparr>usr_last_login_at := Some now, usr_updated_at := now\<rparr>) (users d1)\<rparr>;
               d3 = d2\<lparr>sessions := tbl_delete_where (\<lambda>i s. ses_expires_at s < now) (sessions d2)\<rparr>
           in Some (w\<lparr>dbase := d3\<rparr>, token, expires))"

definition validate_session :: "string \<Rightarrow> world \<Rightarrow> (auth_user \<times> int) option" where
  "validate_session token w =
     (if token = [] then None
      else let d = dbase w; now = now_s w in
        case filter (\<lambda>(i, s). tbl_get (users d) (ses_user_id s) \<noteq> None)
               (tbl_select (\<lambda>s. ses_token s = token \<and> ses_expires_at s > now) (sessions d)) of
          [] \<Rightarrow> None
        | (sid, s) # _ \<Rightarrow>
            map_option (\<lambda>u. (auth_user_of (ses_user_id s) u, sid)) (tbl_get (users d) (ses_user_id s)))"

definition destroy_session :: "string \<Rightarrow> world \<Rightarrow> world" where
  "destroy_session token w =
     w\<lparr>dbase := (dbase w)\<lparr>sessions := tbl_delete_where (\<lambda>i s. ses_token s = token) (sessions (dbase w))\<rparr>\<rparr>"

definition destroy_all_user_sessions :: "int \<Rightarrow> world \<Rightarrow> world" where
  "destroy_all_user_sessions uid w =
     w\<lparr>dbase := (dbase w)\<lparr>sessions := tbl_delete_where (\<lambda>i s. ses_user_id s = uid) (sessions (dbase w))\<rparr>\<rparr>"

section \<open>Users\<close>

definition authenticate_user :: "kdf \<Rightarrow> string \<Rightarrow> string \<Rightarrow> world \<Rightarrow> auth_user option" where
  "authenticate_user scrypt username password w =
     (case tbl_find (\<lambda>u. usr_username u = username) (users (dbase w)) of
        None \<Rightarrow> None
      | Some (i, u) \<Rightarrow>
          if str_or (usr_provider u) ''local'' \<noteq> ''local'' then None
          else if usr_is_approved u \<noteq> 1 then None
          else if \<not> verify_password scrypt password (usr_password_hash u) then None
          else Some (auth_user_of i u))"

definition get_user_by_id :: "int \<Rightarrow> world \<Rightarrow> auth_user option" where
  "get_user_by_id i w = map_option (auth_user_of i) (tbl_get (users (dbase w)) i)"

definition get_all_users :: "(int list \<Rightarrow> int list) \<Rightarrow> world \<Rightarrow> auth_user list" where
  "get_all_users scan w =
     map (\<lambda>(i, u). auth_user_of i u) (order_asc scan (\<lambda>(i, u). usr_created_at u) (rows (users (dbase w))))"

text \<open>The optional settings of \<open>createUser\<close>.\<close>

record user_options =
  uo_provider :: "string option"
  uo_provider_user_id :: "string option"
  uo_email :: "string option"
  uo_avatar_url :: "string option"
  uo_is_approved :: "int option"
  uo_approved_by :: "string option"
  uo_approved_at :: "int option"

definition create_user ::
  "kdf \<Rightarrow> string \<Rightarrow> string \<Rightarrow> string \<Rightarrow> string \<Rightarrow> string \<Rightarrow> user_options \<Rightarrow> world \<Rightarrow>
   string + (world \<times> auth_user)" where
  "create_user scrypt salt username password display_name role opts w =
     (if length password < 12 then Inl ''Password must be at least 12 characters''
      else if tbl_find (\<lambda>u. usr_username u = username) (users (dbase w)) \<noteq> None
      then Inl ''UNIQUE constraint failed: users.username''
      else
        let now = now_s w;
            row = \<lparr>usr_username = username, usr_display_name = display_name,
                   usr_password_hash = hash_password scrypt salt password, usr_role = role,
                   usr_provider = opt_or (uo_provider opts) ''local'',
                   usr_provider_user_id = str_or_null (uo_provider_user_id opts),
                   usr_email = str_or_null (uo_email opts),
                   usr_avatar_url = str_or_null (uo_avatar_url opts),
                   usr_is_approved = (case uo_is_approved opts of Some n \<Rightarrow> n | None \<Rightarrow> 1),
                   usr_approved_by = str_or_null (uo_approved_by opts),
                   usr_approved_at = (if uo_approved_at opts = Some 0 then None else uo_approved_at opts),
                   usr_created_at = now, usr_updated_at = now, usr_last_login_at = None\<rparr>;
            uid = tbl_last_id (users (dbase w))
        in Inr (w\<lparr>dbase := (dbase w)\<lparr>users := tbl_insert row (users (dbase w))\<rparr>\<rparr>, auth_user_of uid row))"

text \<open>The fields of \<open>updateUser\<close>; \<open>None\<close> is \<open>undefined\<close>.\<close>

record user_updates =
  uu_display_name :: "string option"
  uu_role :: "string option"
  uu_password :: "string option"
  uu_email :: "string option option"
  uu_avatar_url :: "string option option"
  uu_is_approved :: "int option"

definition no_user_updates :: user_updates where
  "no_user_updates = \<lparr>uu_display_name = None, uu_role = None, uu_password = None, uu_email = None,
     uu_avatar_url = None, uu_is_approved = None\<rparr>"

definition apply_user_updates :: "kdf \<Rightarrow> string \<Rightarrow> int \<Rightarrow> user_updates \<Rightarrow> user \<Rightarrow> user" where
  "apply_user_updates scrypt salt now up u =
     u\<lparr>usr_display_name := (case uu_display_name up of None \<Rightarrow> usr_display_name u | Some x \<Rightarrow> x),
       usr_role := (case uu_role up of None \<Rightarrow> usr_role u | Some x \<Rightarrow> x),
       usr_password_hash := (case uu_password up of None \<Rightarrow> usr_password_hash u
                             | Some x \<Rightarrow> hash_password scrypt salt x),
       usr_email := (case uu_email up of None \<Rightarrow> usr_email u | Some x \<Rightarrow> x),
       usr_avatar_url := (case uu_avatar_url up of None \<Rightarrow> usr_avatar_url u | Some x \<Rightarrow> x),
       usr_is_approved := (case uu_is_approved up of None \<Rightarrow> usr_is_approved u | Some x \<Rightarrow> x),
       usr_updated_at := now\<rparr>"

definition update_user ::
  "kdf \<Rightarrow> string \<Rightarrow> int \<Rightarrow> user_updates \<Rightarrow> world \<Rightarrow> world \<times> auth_user option" where
  "update_user scrypt salt i up w =
     (if up = no_user_updates then (w, get_user_by_id i w)
      else let w' = w\<lparr>dbase := (dbase w)\<lparr>users :=
                 tbl_update i (apply_user_updates scrypt salt (now_s w) up) (users (dbase w))\<rparr>\<rparr>
           in (w', get_user_by_id i w'))"

text \<open>
  The foreign keys on \<open>users\<close>: sessions go with the user, and an access request the user
  was created for loses its reference.
\<close>

definition delete_user :: "int \<Rightarrow> world \<Rightarrow> world \<times> bool" where
  "delete_user i w =
     (let w1 = destroy_all_user_sessions i w;
          d = dbase w1;
          existed = (tbl_get (users d) i \<noteq> None);
          d' = d\<lparr>users := tbl_delete i (users d),
                 access_requests := (if existed
                   then tbl_update_where (\<lambda>a. acc_approved_user_id a = Some i)
                          (\<lambda>a. a\<lparr>acc_approved_user_id := None\<rparr>) (access_requests d)
                   else access_requests d)\<rparr>
      in (w1\<lparr>dbase := d'\<rparr>, existed))"

section \<open>Who sent the request\<close>

text \<open>
  The match of \<open>(?:^|;\s*)name=([^;]*)\<close>: at the start of the header, or behind a
  semicolon and white space.
\<close>

fun strip_prefix :: "string \<Rightarrow> string \<Rightarrow> string option" where
  "strip_prefix [] s = Some s"
| "strip_prefix (p # ps) [] = None"
| "strip_prefix (p # ps) (c # cs) = (if p = c then strip_prefix ps cs else None)"

fun cookie_after_semicolon :: "string \<Rightarrow> string \<Rightarrow> string option" where
  "cookie_after_semicolon key [] = None"
| "cookie_after_semicolon key (c # cs) =
     (case (if c = CHR '';'' then strip_prefix key (dropWhile js_white cs) else None) of
        Some r \<Rightarrow> Some (takeWhile (\<lambda>x. x \<noteq> CHR '';'') r)
      | None \<Rightarrow> cookie_after_semicolon key cs)"

definition match_cookie :: "string \<Rightarrow> string \<Rightarrow> string option" where
  "match_cookie header name =
     (case strip_prefix (name @ ''='') header of
        Some r \<Rightarrow> Some (takeWhile (\<lambda>x. x \<noteq> CHR '';'') r)
      | None \<Rightarrow> cookie_after_semicolon (name @ ''='') header)"

text \<open>\<open>Inl\<close>: \<open>decodeURIComponent\<close> throws on a malformed escape.\<close>

definition parse_cookie :: "string \<Rightarrow> string \<Rightarrow> string + string option" where
  "parse_cookie header name =
     (case match_cookie header name of
        None \<Rightarrow> Inr None
      | Some v \<Rightarrow> (case decode_uri v of None \<Rightarrow> Inl ''URI malformed'' | Some s \<Rightarrow> Inr (Some s)))"

definition api_key_ok :: "env \<Rightarrow> request \<Rightarrow> bool" where
  "api_key_ok e r =
     (case req_headers r ''x-api-key'' of None \<Rightarrow> False
      | Some k \<Rightarrow> k \<noteq> [] \<and> safe_compare k (env_or e ''API_KEY'' []))"

definition get_user_from_request :: "env \<Rightarrow> request \<Rightarrow> world \<Rightarrow> string + auth_user option" where
  "get_user_from_request e r w =
     (case parse_cookie (header_or r ''cookie'' []) ''mc-session'' of
        Inl err \<Rightarrow> Inl err
      | Inr tok \<Rightarrow>
          Inr (case (case tok of None \<Rightarrow> None | Some t \<Rightarrow> if t = [] then None else validate_session t w) of
                 Some (u, sid) \<Rightarrow> Some u
               | None \<Rightarrow> if api_key_ok e r then Some api_user else None))"

section \<open>Roles\<close>

datatype role = Viewer | Operator | Admin

fun role_text :: "role \<Rightarrow> string" where
  "role_text Viewer = ''viewer''"
| "role_text Operator = ''operator''"
| "role_text Admin = ''admin''"

text \<open>\<open>ROLE_LEVELS[role] ?? -1\<close>.\<close>

definition role_level :: "string \<Rightarrow> int" where
  "role_level s = (if s = ''viewer'' then 0 else if s = ''operator'' then 1
     else if s = ''admin'' then 2 else -1)"

datatype access = Granted auth_user | Denied string nat | Threw string

definition require_role :: "env \<Rightarrow> request \<Rightarrow> role \<Rightarrow> world \<Rightarrow> access" where
  "require_role e r min_role w =
     (case get_user_from_request e r w of
        Inl err \<Rightarrow> Threw err
      | Inr None \<Rightarrow> Denied ''Authentication required'' 401
      | Inr (Some u) \<Rightarrow>
          if role_level (au_role u) < role_level (role_text min_role)
          then Denied (''Requires '' @ role_text min_role @ '' role or higher'') 403
          else Granted u)"

text \<open>
  \<open>const auth = requireRole(...); if ('error' in auth) return ...\<close> in front of a handler.
\<close>

definition with_role ::
  "role \<Rightarrow> env \<Rightarrow> request \<Rightarrow> (auth_user \<Rightarrow> world \<Rightarrow> world \<times> 'b response) \<Rightarrow> world \<Rightarrow>
   world \<times> 'b response" where
  "with_role min_role e r h w =
     (case require_role e r min_role w of
        Granted u \<Rightarrow> h u w
      | Denied msg status \<Rightarrow> (w, Fail status msg)
      | Threw err \<Rightarrow> (w, Crash))"

section \<open>Seeding the first administrator, and the session cookie\<close>

text \<open>\<open>INSERT OR IGNORE\<close> into a table that was found empty; \<open>NEXT_PHASE\<close> skips the build.\<close>

definition seed_admin_user :: "kdf \<Rightarrow> string \<Rightarrow> env \<Rightarrow> world \<Rightarrow> world" where
  "seed_admin_user scrypt salt e w =
     (if e ''NEXT_PHASE'' = Some ''phase-production-build'' then w
      else if 0 < tbl_count (\<lambda>u. True) (users (dbase w)) then w
      else
        let username = env_or e ''AUTH_USER'' ''admin'';
            password = env_or e ''AUTH_PASS'' ''admin'';
            display = (case username of [] \<Rightarrow> [] | c # cs \<Rightarrow> upper_char c # cs);
            now = now_s w;
            row = \<lparr>usr_username = username, usr_display_name = display,
                   usr_password_hash = hash_password scrypt salt password, usr_role = ''admin'',
                   usr_provider = ''local'', usr_provider_user_id = None, usr_email = None,
                   usr_avatar_url = None, usr_is_approved = 1, usr_approved_by = None,
                   usr_approved_at = None, usr_created_at = now, usr_updated_at = now,
                   usr_last_login_at = None\<rparr>
        in w\<lparr>dbase := (dbase w)\<lparr>users := tbl_insert row (users (dbase w))\<rparr>\<rparr>)"

definition env_flag3 :: "env \<Rightarrow> string \<Rightarrow> bool option" where
  "env_flag3 e name =
     (case e name of None \<Rightarrow> None
      | Some raw \<Rightarrow>
          let v = js_lower (js_trim raw) in
          if v = ''1'' \<or> v = ''true'' \<or> v = ''yes'' \<or> v = ''on'' then Some True
          else if v = ''0'' \<or> v = ''false'' \<or> v = ''no'' \<or> v = ''off'' then Some False
          else None)"

record cookie_options =
  co_http_only :: bool
  co_secure :: bool
  co_same_site :: string
  co_max_age :: int
  co_path :: string

definition session_cookie_options :: "env \<Rightarrow> int \<Rightarrow> cookie_options" where
  "session_cookie_options e max_age =
     (let secure = (case env_flag3 e ''MC_COOKIE_SECURE'' of Some b \<Rightarrow> b
                    | None \<Rightarrow> e ''NODE_ENV'' = Some ''production'');
          raw = js_lower (env_or e ''MC_COOKIE_SAMESITE'' ''strict'');
          same_site = (if raw = ''lax'' then ''lax'' else if raw = ''none'' then ''none'' else ''strict'')
      in \<lparr>co_http_only = True, co_secure = secure, co_same_site = same_site,
          co_max_age = max_age, co_path = ''/''\<rparr>)"

section \<open>Comparison of secrets\<close>

lemma timing_safe_equal_iff: "timing_safe_equal a b \<longleftrightarrow> a = b"
  by (simp add: timing_safe_equal_def list_all2_eq [symmetric])

lemma safe_compare_iff: "safe_compare a b \<longleftrightarrow> a = b"
  by (auto simp: safe_compare_def timing_safe_equal_iff)

interpretation node_compare: secret_comparison safe_compare
  by unfold_locales (rule safe_compare_iff)

lemma api_key_ok_iff:
  "api_key_ok e r \<longleftrightarrow> (\<exists>k. k \<noteq> [] \<and> req_headers r ''x-api-key'' = Some k \<and> e ''API_KEY'' = Some k)"
  by (auto simp: api_key_ok_def node_compare.cmp_iff env_or_def opt_or_def str_or_def
      split: option.splits if_splits)

section \<open>Passwords\<close>

lemma hex_val_digit: "n < 16 \<Longrightarrow> hex_val (hex_digit n) = Some n"
  by (auto simp: hex_val_def hex_digit_def Let_def of_char_of)

lemma from_to_hex [simp]: "from_hex (to_hex bs) = bs"
proof (induction bs)
  case (Cons c bs)
  have lt: "(of_char c :: nat) < 256" by simp
  then have "(of_char c :: nat) div 16 < 16" by (simp add: less_mult_imp_div_less)
  moreover have "char_of (16 * ((of_char c :: nat) div 16) + (of_char c :: nat) mod 16) = c"
    by (simp only: mult_div_mod_eq char_of_char)
  ultimately show ?case
    using Cons by (simp add: to_hex_def Let_def hex_val_digit)
qed (simp add: to_hex_def)

lemma hex_digit_not_colon: "n < 16 \<Longrightarrow> hex_digit n \<noteq> CHR '':''"
  using hex_val_digit [of n] by (auto simp: hex_val_def Let_def)

lemma to_hex_no_colon: "CHR '':'' \<notin> set (to_hex bs)"
proof (induction bs)
  case (Cons c bs)
  have "(of_char c :: nat) div 16 < 16"
    by (rule less_mult_imp_div_less) simp
  then have "hex_digit ((of_char c :: nat) div 16) \<noteq> CHR '':''"
    by (rule hex_digit_not_colon)
  moreover have "hex_digit ((of_char c :: nat) mod 16) \<noteq> CHR '':''"
    by (rule hex_digit_not_colon) simp
  ultimately show ?case
    using Cons by (auto simp: to_hex_def Let_def)
qed (simp add: to_hex_def)

lemma to_hex_Nil_iff [simp]: "to_hex bs = [] \<longleftrightarrow> bs = []"
  by (cases bs) (auto simp: to_hex_def Let_def)

lemma split_on_append:
  "d \<notin> set a \<Longrightarrow> split_on d (a @ d # b) = a # split_on d b"
  by (induction a) auto

lemma split_on_none: "d \<notin> set a \<Longrightarrow> split_on d a = [a]"
  by (induction a) auto

lemma verify_hash_iff:
  assumes "salt \<noteq> []" "\<And>p. scrypt p (to_hex salt) \<noteq> []"
  shows "verify_password scrypt pw' (hash_password scrypt salt pw) \<longleftrightarrow>
    scrypt pw' (to_hex salt) = scrypt pw (to_hex salt)"
  using assms
  by (auto simp: verify_password_def hash_password_def Let_def split_on_append split_on_none
      to_hex_no_colon timing_safe_equal_iff)

section \<open>Roles\<close>

instantiation role :: linorder
begin

definition less_eq_role :: "role \<Rightarrow> role \<Rightarrow> bool" where
  "less_eq_role a b \<longleftrightarrow> role_level (role_text a) \<le> role_level (role_text b)"

definition less_role :: "role \<Rightarrow> role \<Rightarrow> bool" where
  "less_role a b \<longleftrightarrow> role_level (role_text a) < role_level (role_text b)"

instance
proof
  fix a b :: role
  show "a \<le> b \<Longrightarrow> b \<le> a \<Longrightarrow> a = b"
    by (cases a; cases b) (simp_all add: less_eq_role_def role_level_def)
qed (auto simp: less_eq_role_def less_role_def)

end

lemma require_role_Granted_iff:
  "require_role e r m w = Granted u \<longleftrightarrow>
     get_user_from_request e r w = Inr (Some u) \<and> role_level (role_text m) \<le> role_level (au_role u)"
  by (auto simp: require_role_def split: sum.splits option.splits)

lemma require_role_mono:
  "m' \<le> m \<Longrightarrow> require_role e r m w = Granted u \<Longrightarrow> require_role e r m' w = Granted u"
  by (auto simp: require_role_Granted_iff less_eq_role_def)

lemma with_role_granted:
  "require_role e r m w = Granted u \<Longrightarrow> with_role m e r h w = h u w"
  by (simp add: with_role_def)

lemma with_role_cases:
  assumes "with_role m e r h w = (w', a)"
  obtains (granted) u where "require_role e r m w = Granted u" "h u w = (w', a)"
  | (refused) "w' = w" "\<forall>u. require_role e r m w \<noteq> Granted u"
      "a = Crash \<or> (\<exists>msg. a = Fail 401 msg \<or> a = Fail 403 msg)"
  using assms
  by (auto simp: with_role_def require_role_def split: access.splits sum.splits option.splits if_splits)

section \<open>Sessions\<close>

definition tokens_unique :: "world \<Rightarrow> bool" where
  "tokens_unique w \<longleftrightarrow> distinct (map (\<lambda>(i, s). ses_token s) (rows (sessions (dbase w))))"

definition auth_ok :: "world \<Rightarrow> bool" where
  "auth_ok w \<longleftrightarrow> tbl_ok (users (dbase w)) \<and> tbl_ok (sessions (dbase w)) \<and> tokens_unique w"

lemma tbl_rows_delete_where:
  "rows (tbl_delete_where P t) = filter (\<lambda>(i, r). \<not> P i r) (rows t)"
  by (simp add: tbl_delete_where_def)

lemma distinct_map_filterI: "distinct (map f xs) \<Longrightarrow> distinct (map f (filter P xs))"
  by (simp add: distinct_map_filter)

lemma create_session_auth_ok:
  assumes "create_session rnd uid ip ua w = Some (w', tok, ex)" "auth_ok w"
  shows "auth_ok w'"
proof -
  let ?s = "sessions (dbase w)"
  have new: "\<forall>(i, s) \<in> set (rows ?s). ses_token s \<noteq> to_hex rnd"
    using assms(1) by (auto simp: create_session_def Let_def tbl_find_None_iff split: if_splits)
  have "distinct (map (\<lambda>(i, s). ses_token s) (rows (tbl_insert row ?s)))"
    if "ses_token row = to_hex rnd" for row
    using assms(2) new that by (auto simp: auth_ok_def tokens_unique_def tbl_simps)
  then show ?thesis
    using assms
    by (auto simp: create_session_def Let_def auth_ok_def tokens_unique_def tbl_rows_delete_where
        intro!: distinct_map_filterI tbl_ok_delete_where split: if_splits)
qed

lemma destroy_session_auth_ok: "auth_ok w \<Longrightarrow> auth_ok (destroy_session tok w)"
  by (auto simp: destroy_session_def auth_ok_def tokens_unique_def tbl_rows_delete_where
      intro!: distinct_map_filterI tbl_ok_delete_where)

lemma delete_user_auth_ok: "auth_ok w \<Longrightarrow> auth_ok (fst (delete_user i w))"
  by (auto simp: delete_user_def destroy_all_user_sessions_def Let_def auth_ok_def tokens_unique_def
      tbl_rows_delete_where intro!: distinct_map_filterI tbl_ok_delete_where)

text \<open>With unique tokens a session is found exactly by its row.\<close>

lemma validate_session_iff:
  assumes "auth_ok w"
  shows "validate_session tok w = Some (au, sid) \<longleftrightarrow>
    (\<exists>s u. (sid, s) \<in> set (rows (sessions (dbase w))) \<and> ses_token s = tok \<and> tok \<noteq> []
       \<and> now_s w < ses_expires_at s \<and> tbl_get (users (dbase w)) (ses_user_id s) = Some u
       \<and> au = auth_user_of (ses_user_id s) u)"
    (is "?L \<longleftrightarrow> ?R")
proof -
  let ?rows = "rows (sessions (dbase w))"
  define sel where "sel = filter (\<lambda>(i, s). tbl_get (users (dbase w)) (ses_user_id s) \<noteq> None)
    (tbl_select (\<lambda>s. ses_token s = tok \<and> ses_expires_at s > now_s w) (sessions (dbase w)))"
  have set_sel: "(i, s) \<in> set sel \<longleftrightarrow> (i, s) \<in> set ?rows \<and> ses_token s = tok
      \<and> now_s w < ses_expires_at s \<and> tbl_get (users (dbase w)) (ses_user_id s) \<noteq> None" for i s
    by (auto simp: tbl_select_def sel_def)
  have val: "validate_session tok w = (if tok = [] then None else
      case sel of [] \<Rightarrow> None | (sid, s) # _ \<Rightarrow>
        map_option (\<lambda>u. (auth_user_of (ses_user_id s) u, sid)) (tbl_get (users (dbase w)) (ses_user_id s)))"
    by (simp add: validate_session_def sel_def Let_def)
  have inj: "inj_on (\<lambda>(i, s). ses_token s) (set ?rows)"
    using assms by (simp add: auth_ok_def tokens_unique_def distinct_map)
  show ?thesis
  proof
    assume ?L
    then obtain s rest where sel: "sel = (sid, s) # rest" and "tok \<noteq> []"
      and "map_option (\<lambda>u. (auth_user_of (ses_user_id s) u, sid)) (tbl_get (users (dbase w)) (ses_user_id s)) = Some (au, sid)"
      unfolding val by (fastforce split: if_splits list.splits)
    then show ?R using set_sel [of sid s] by auto
  next
    assume ?R
    then obtain s u where mem: "(sid, s) \<in> set sel" and "tok \<noteq> []"
      and u: "tbl_get (users (dbase w)) (ses_user_id s) = Some u" "au = auth_user_of (ses_user_id s) u"
      unfolding set_sel by auto
    then obtain j s' rest where sel: "sel = (j, s') # rest"
      by (cases sel) auto
    then have "(j, s') = (sid, s)"
      using mem set_sel [of j s'] set_sel [of sid s] by (intro inj_onD [OF inj]) auto
    then show ?L using sel \<open>tok \<noteq> []\<close> u by (simp add: val)
  qed
qed

text \<open>Two answers of the session check agree if they accept the same users.\<close>

lemma validate_session_eqI:
  assumes "\<And>au sid. validate_session tok w = Some (au, sid) \<longleftrightarrow> x = Some (au, sid)"
  shows "validate_session tok w = x"
  using assms by (metis not_None_eq surj_pair)

lemma create_session_rows:
  assumes "create_session rnd uid ip ua w = Some (w1, tok, ex)" "auth_ok w"
  obtains row where "tok = to_hex rnd" "ex = now_s w + session_duration"
    "ses_token row = tok" "ses_user_id row = uid" "ses_expires_at row = ex"
    "\<And>i s. ses_token s = tok \<Longrightarrow> (i, s) \<in> set (rows (sessions (dbase w1))) \<longleftrightarrow>
       i = next_id (sessions (dbase w)) \<and> s = row"
    "\<exists>u. tbl_get (users (dbase w1)) uid = Some u"
proof -
  let ?row = "\<lparr>ses_token = to_hex rnd, ses_user_id = uid, ses_expires_at = now_s w + session_duration,
    ses_created_at = now_s w, ses_ip = str_or_null ip, ses_user_agent = str_or_null ua\<rparr>"
  have fresh: "\<forall>(i, s) \<in> set (rows (sessions (dbase w))). ses_token s \<noteq> to_hex rnd"
    and "\<exists>u. tbl_get (users (dbase w)) uid = Some u"
    using assms by (auto simp: create_session_def Let_def tbl_find_None_iff split: if_splits)
  moreover have "rows (sessions (dbase w1)) = filter (\<lambda>(i, s). \<not> ses_expires_at s < now_s w)
      (rows (sessions (dbase w)) @ [(next_id (sessions (dbase w)), ?row)])"
    and "users (dbase w1) = tbl_update uid
      (\<lambda>u. u\<lparr>usr_last_login_at := Some (now_s w), usr_updated_at := now_s w\<rparr>) (users (dbase w))"
    and "tok = to_hex rnd" "ex = now_s w + session_duration"
    using assms by (auto simp: create_session_def Let_def tbl_rows_delete_where tbl_simps split: if_splits)
  moreover have "0 < session_duration" by (simp add: session_duration_def)
  ultimately show thesis
    by (intro that [of ?row]) (auto simp: tbl_simps)
qed

section \<open>Properties\<close>


definition sample_request :: request where
  "sample_request = \<lparr>req_method = ''GET'', req_path = ''/api/tasks'', req_headers = (\<lambda>_. None),
     req_cookies = (\<lambda>_. None), req_host = ''localhost''\<rparr>"

lemma sample_request_anonymous: "get_user_from_request (\<lambda>_. None) sample_request w = Inr None"
  by (simp add: get_user_from_request_def sample_request_def header_or_def opt_or_def parse_cookie_def
      match_cookie_def api_key_ok_def)


text \<open>
  Claim C9. A session that \<open>createSession\<close> opens authenticates its user from then on until,
  and only until, seven days have passed.
\<close>

theorem session_lifetime:
  assumes "auth_ok w" "rnd \<noteq> []" "create_session rnd uid ip ua w = Some (w1, tok, ex)"
  shows "(\<exists>u sid. validate_session tok (w1\<lparr>clock := t\<rparr>) = Some (u, sid) \<and> au_id u = uid) \<longleftrightarrow>
    t div 1000 < now_s w + 7 * 24 * 60 * 60"
proof -
  obtain row where row: "tok = to_hex rnd" "ex = now_s w + session_duration"
    "ses_user_id row = uid" "ses_expires_at row = ex" "ses_token row = tok"
    "\<And>i s. ses_token s = tok \<Longrightarrow> (i, s) \<in> set (rows (sessions (dbase w1))) \<longleftrightarrow>
       i = next_id (sessions (dbase w)) \<and> s = row"
    "\<exists>u. tbl_get (users (dbase w1)) uid = Some u"
    using create_session_rows [OF assms(3,1)] by metis
  then obtain u where u: "tbl_get (users (dbase w1)) uid = Some u" by blast
  have "auth_ok (w1\<lparr>clock := t\<rparr>)"
    using create_session_auth_ok [OF assms(3,1)] by (simp add: auth_ok_def tokens_unique_def)
  from validate_session_iff [OF this]
  have "validate_session tok (w1\<lparr>clock := t\<rparr>) = Some (au, sid) \<longleftrightarrow>
      sid = next_id (sessions (dbase w)) \<and> t div 1000 < ex \<and> au = auth_user_of uid u" for au sid
    using row(1,3-6) row(6) [of row] u assms(2) by (auto simp: now_s_def intro!: exI [of _ row])
  then show ?thesis
    using row(2) by (auto simp: session_duration_def)
qed

definition sample_user :: user where
  "sample_user = \<lparr>usr_username = ''ada'', usr_display_name = ''Ada'', usr_password_hash = ''x:y'',
     usr_role = ''operator'', usr_provider = ''local'', usr_provider_user_id = None, usr_email = None,
     usr_avatar_url = None, usr_is_approved = 1, usr_approved_by = None, usr_approved_at = None,
     usr_created_at = 0, usr_updated_at = 0, usr_last_login_at = None\<rparr>"

definition sample_users_world :: world where
  "sample_users_world = (world_at 5000)\<lparr>dbase := db_empty\<lparr>users := tbl_insert sample_user tbl_empty\<rparr>\<rparr>"

lemma sample_users_ok: "auth_ok sample_users_world"
  by (simp add: auth_ok_def tokens_unique_def sample_users_world_def world_at_def db_empty_def)
    (simp add: tbl_empty_def)

lemma sample_create_session:
  "\<exists>w1. create_session ''k'' 1 None None sample_users_world = Some (w1, to_hex ''k'', 5 + session_duration)"
  by (simp add: create_session_def sample_users_world_def world_at_def db_empty_def tbl_find_def
      tbl_select_def tbl_get_def tbl_insert_def tbl_empty_def now_s_def Let_def)

theorem session_lifetime_witness:
  "\<exists>w1. create_session ''k'' 1 None None sample_users_world = Some (w1, to_hex ''k'', 5 + session_duration)
    \<and> (\<forall>t. (\<exists>u sid. validate_session (to_hex ''k'') (w1\<lparr>clock := t\<rparr>) = Some (u, sid) \<and> au_id u = 1)
        \<longleftrightarrow> t div 1000 < 604805)"
proof -
  obtain w1 where c: "create_session ''k'' 1 None None sample_users_world
      = Some (w1, to_hex ''k'', 5 + session_duration)"
    using sample_create_session by blast
  have "now_s sample_users_world = 5"
    by (simp add: sample_users_world_def world_at_def now_s_def)
  then show ?thesis
    using c session_lifetime [OF sample_users_ok _ c] by simp
qed

text \<open>
  Deleting a user revokes exactly that user's sessions: afterwards a token
  authenticates as before, unless it belonged to the deleted user.
\<close>

theorem delete_user_revokes:
  assumes "auth_ok w"
  shows "validate_session tok (fst (delete_user i w)) =
    (case validate_session tok w of None \<Rightarrow> None
     | Some (u, sid) \<Rightarrow> if au_id u = i then None else Some (u, sid))"
proof (rule validate_session_eqI)
  fix au sid
  let ?w' = "fst (delete_user i w)"
  have ok': "auth_ok ?w'" by (rule delete_user_auth_ok [OF assms])
  have rows': "set (rows (sessions (dbase ?w'))) = {(j, s) \<in> set (rows (sessions (dbase w))). ses_user_id s \<noteq> i}"
    and users': "tbl_get (users (dbase ?w')) j = (if j = i then None else tbl_get (users (dbase w)) j)"
    and "now_s ?w' = now_s w" for j
    by (auto simp: delete_user_def destroy_all_user_sessions_def Let_def tbl_rows_delete_where
        tbl_simps now_s_def)
  then have "validate_session tok ?w' = Some (au, sid) \<longleftrightarrow>
      validate_session tok w = Some (au, sid) \<and> au_id au \<noteq> i"
    unfolding validate_session_iff [OF ok'] validate_session_iff [OF assms]
    by auto
  then show "validate_session tok ?w' = Some (au, sid) \<longleftrightarrow>
      (case validate_session tok w of None \<Rightarrow> None
       | Some (u, sid) \<Rightarrow> if au_id u = i then None else Some (u, sid)) = Some (au, sid)"
    by (auto split: option.splits)
qed

theorem delete_user_revokes_witness:
  "\<exists>w1 u. auth_ok w1 \<and> validate_session (to_hex ''k'') w1 = Some (u, 1) \<and> au_id u = 1
     \<and> validate_session (to_hex ''k'') (fst (delete_user 1 w1)) = None"
proof -
  obtain w1 where c: "create_session ''k'' 1 None None sample_users_world
      = Some (w1, to_hex ''k'', 5 + session_duration)"
    using sample_create_session by blast
  have ok: "auth_ok w1" by (rule create_session_auth_ok [OF c sample_users_ok])
  have "\<exists>u. validate_session (to_hex ''k'') w1 = Some (u, 1) \<and> au_id u = 1"
    using c by (auto simp: create_session_def sample_users_world_def world_at_def db_empty_def
        tbl_find_def tbl_select_def tbl_get_def tbl_insert_def tbl_empty_def tbl_update_def
        tbl_delete_where_def now_s_def Let_def validate_session_def session_duration_def)
  then show ?thesis
    using ok delete_user_revokes [OF ok, of "to_hex ''k''" 1] by auto
qed

text \<open>
  A stored password hash verifies a password exactly when the key derivation gives
  the same bytes for it as for the password that was hashed; in particular the password
  itself always verifies. (The derivation function is the crypto library's; it never returns
  an empty key.)
\<close>

theorem password_round_trip:
  assumes "salt \<noteq> []" "\<And>p. scrypt p (to_hex salt) \<noteq> []"
  shows "verify_password scrypt pw' (hash_password scrypt salt pw) \<longleftrightarrow>
    scrypt pw' (to_hex salt) = scrypt pw (to_hex salt)"
  using assms by (rule verify_hash_iff)

theorem password_round_trip_witness:
  "verify_password (\<lambda>p s. CHR ''k'' # p @ s) ''secret'' (hash_password (\<lambda>p s. CHR ''k'' # p @ s) ''salt'' ''secret'')
   \<and> \<not> verify_password (\<lambda>p s. CHR ''k'' # p @ s) ''Secret'' (hash_password (\<lambda>p s. CHR ''k'' # p @ s) ''salt'' ''secret'')"
  using password_round_trip [of "''salt''" "\<lambda>p s. CHR ''k'' # p @ s"] by simp

text \<open>
  Without a live session, a request is the administrator "api" exactly when the
  environment configures a non-empty API key and the request carries that very key; with no
  key configured, no header gives access.
\<close>

theorem api_key_access:
  assumes "parse_cookie (header_or r ''cookie'' []) ''mc-session'' = Inr tok"
    and "\<forall>t. tok = Some t \<longrightarrow> validate_session t w = None"
  shows "get_user_from_request e r w =
    Inr (if \<exists>k. k \<noteq> [] \<and> e ''API_KEY'' = Some k \<and> req_headers r ''x-api-key'' = Some k
         then Some api_user else None)"
  using assms by (auto simp: get_user_from_request_def api_key_ok_iff split: option.splits if_splits)

theorem api_key_access_witness:
  "get_user_from_request (\<lambda>_. None) sample_request (world_at 0) =
    Inr (if \<exists>k. k \<noteq> [] \<and> (None :: string option) = Some k \<and> req_headers sample_request ''x-api-key'' = Some k
         then Some api_user else None)"
proof -
  have "parse_cookie (header_or sample_request ''cookie'' []) ''mc-session'' = Inr None"
    by (simp add: sample_request_def header_or_def opt_or_def parse_cookie_def match_cookie_def)
  from api_key_access [OF this] show ?thesis by simp
qed

text \<open>A request that carries the API key, under an environment without rate limits.\<close>

definition sample_env :: env where
  "sample_env = [''API_KEY'' \<mapsto> ''k'', ''MC_DISABLE_RATE_LIMIT'' \<mapsto> ''1'']"

definition admin_request :: request where
  "admin_request = sample_request\<lparr>req_headers := [''x-api-key'' \<mapsto> ''k'']\<rparr>"

lemma admin_granted: "with_role m sample_env admin_request h w = h api_user w"
  by (cases m) (simp_all add: with_role_def require_role_def get_user_from_request_def admin_request_def
      sample_request_def sample_env_def header_or_def opt_or_def parse_cookie_def match_cookie_def
      api_key_ok_iff api_user_def role_level_def)

lemma sample_unlimited: "with_limit MutationLimiter sample_env admin_request h w = h w"
  by (simp add: with_limit_def check_rate_limit_def limiter_disabled_def sample_env_def)

end
