(* ===== verification/Middleware.thy ===== *)
theory Middleware
  imports Auth "HOL-Library.Word"
begin

text \<open>
  The edge middleware \<open>src/middleware.ts\<close>: network access control by host name, the CSRF
  origin check, and the first authentication gate in front of every route. Parsing a URL is
  the platform's: \<open>url_host\<close> gives the host of an origin, \<open>None\<close> where \<open>new URL\<close> throws.
\<close>

unbundle bit_operations_syntax

section \<open>Constant-time comparison\<close>

text \<open>The loop \<open>result |= bufA[i] ^ bufB[i]\<close> over two buffers of the same length.\<close>

definition byte :: "char \<Rightarrow> 8 word" where
  "byte c = word_of_nat (of_char c)"

fun xor_loop :: "8 word \<Rightarrow> string \<Rightarrow> string \<Rightarrow> 8 word" where
  "xor_loop res (a # as) (b # bs) = xor_loop (res OR (byte a XOR byte b)) as bs"
| "xor_loop res _ _ = res"

definition edge_safe_compare :: "string \<Rightarrow> string \<Rightarrow> bool" where
  "edge_safe_compare a b = (if length a \<noteq> length b then False else xor_loop 0 a b = 0)"

section \<open>Hosts\<close>

definition env_flag :: "env \<Rightarrow> string \<Rightarrow> bool" where
  "env_flag e name =
     (case e name of None \<Rightarrow> False
      | Some raw \<Rightarrow> let v = js_lower (js_trim raw)
                    in v = ''1'' \<or> v = ''true'' \<or> v = ''yes'' \<or> v = ''on'')"

definition get_request_hostname :: "request \<Rightarrow> string" where
  "get_request_hostname r =
     (let raw = header_or r ''x-forwarded-host'' (header_or r ''host'' []);
          first = hd (split_on (CHR '','') raw)
      in hd (split_on (CHR '':'') (js_trim first)))"

definition host_matches :: "string \<Rightarrow> string \<Rightarrow> bool" where
  "host_matches pattern hostname =
     (let p = js_lower (js_trim pattern); h = js_lower (js_trim hostname)
      in if p = [] \<or> h = [] then False
         else if starts_with ''*.'' p then ends_with (CHR ''.'' # drop 2 p) h
         else if ends_with ''.*'' p then starts_with (butlast p) h
         else h = p)"

definition security_headers :: "(string \<times> string) list" where
  "security_headers =
     [(''X-Content-Type-Options'', ''nosniff''), (''X-Frame-Options'', ''DENY''),
      (''Referrer-Policy'', ''strict-origin-when-cross-origin'')]"

section \<open>The middleware\<close>

datatype verdict_mw =
    Pass "(string \<times> string) list"
  | Refuse nat string
  | Redirect string

definition js_upper :: "string \<Rightarrow> string" where
  "js_upper s = map upper_char s"

definition host_allowed :: "env \<Rightarrow> request \<Rightarrow> bool" where
  "host_allowed e r =
     (let host = get_request_hostname r;
          allow_any = env_flag e ''MC_ALLOW_ANY_HOST'' \<or> e ''NODE_ENV'' \<noteq> Some ''production'';
          patterns = filter (\<lambda>s. s \<noteq> []) (map js_trim (split_on (CHR '','') (env_or e ''MC_ALLOWED_HOSTS'' [])))
      in allow_any \<or> (\<exists>p \<in> set patterns. host_matches p host))"

definition csrf_mismatch :: "(string \<Rightarrow> string option) \<Rightarrow> request \<Rightarrow> bool" where
  "csrf_mismatch url_host r =
     (js_upper (req_method r) \<in> set [''POST'', ''PUT'', ''DELETE'', ''PATCH''] \<and>
      (case req_headers r ''origin'' of
         None \<Rightarrow> False
       | Some origin \<Rightarrow>
           origin \<noteq> [] \<and>
           (let origin_host = (case url_host origin of None \<Rightarrow> [] | Some h \<Rightarrow> h);
                request_host = str_or
                  (case req_headers r ''host'' of None \<Rightarrow> []
                   | Some h \<Rightarrow> js_trim (hd (split_on (CHR '','') h)))
                  (req_host r)
            in origin_host \<noteq> [] \<and> request_host \<noteq> [] \<and> origin_host \<noteq> request_host)))"

definition public_path :: "string \<Rightarrow> bool" where
  "public_path path =
     (path = ''/login'' \<or> starts_with ''/api/auth/'' path \<or> path = ''/api/docs'' \<or> path = ''/docs'')"

definition edge_api_key_ok :: "env \<Rightarrow> request \<Rightarrow> bool" where
  "edge_api_key_ok e r =
     (case req_headers r ''x-api-key'' of None \<Rightarrow> False
      | Some k \<Rightarrow> k \<noteq> [] \<and> edge_safe_compare k (env_or e ''API_KEY'' []))"

definition middleware :: "(string \<Rightarrow> string option) \<Rightarrow> env \<Rightarrow> request \<Rightarrow> verdict_mw" where
  "middleware url_host e r =
     (if \<not> host_allowed e r then Refuse 403 ''Forbidden''
      else if csrf_mismatch url_host r then Refuse 403 ''CSRF origin mismatch''
      else if public_path (req_path r) then Pass security_headers
      else
        let session_token = (case req_cookies r ''mc-session'' of None \<Rightarrow> [] | Some t \<Rightarrow> t)
        in if starts_with ''/api/'' (req_path r)
           then (if session_token \<noteq> [] \<or> edge_api_key_ok e r then Pass security_headers
                 else Refuse 401 ''Unauthorized'')
           else if session_token \<noteq> [] then Pass security_headers
           else Redirect ''/login'')"

section \<open>Lemmas\<close>

lemma byte_inj: "byte a = byte b \<longleftrightarrow> a = b"
proof
  assume "byte a = byte b"
  then have "unat (byte a) = unat (byte b)" by simp
  then have "(of_char a :: nat) = of_char b"
    by (simp add: byte_def unat_of_nat take_bit_nat_eq_self)
  then show "a = b" by (metis char_of_char)
qed simp

lemma xor_loop_zero_iff:
  "length a = length b \<Longrightarrow> xor_loop res a b = 0 \<longleftrightarrow> res = 0 \<and> a = b"
proof (induction res a b rule: xor_loop.induct)
  case (1 res a as b bs)
  have "byte a XOR byte b = 0 \<longleftrightarrow> a = b"
    by (metis byte_inj bit.xor_self xor.assoc xor.left_neutral xor.right_neutral)
  with 1 show ?case by (auto simp: or_eq_0_iff)
qed auto

lemma edge_safe_compare_iff: "edge_safe_compare a b \<longleftrightarrow> a = b"
  by (auto simp: edge_safe_compare_def xor_loop_zero_iff)

interpretation edge_compare: secret_comparison edge_safe_compare
  by unfold_locales (rule edge_safe_compare_iff)

lemma edge_api_key_iff: "edge_api_key_ok e r \<longleftrightarrow> api_key_ok e r"
  by (simp add: edge_api_key_ok_def api_key_ok_def edge_compare.cmp_iff node_compare.cmp_iff
      split: option.splits)

lemma middleware_Pass_iff:
  "middleware url_host e r = Pass hs \<longleftrightarrow>
     hs = security_headers \<and> host_allowed e r \<and> \<not> csrf_mismatch url_host r \<and>
     (public_path (req_path r) \<or> (\<exists>t. t \<noteq> [] \<and> req_cookies r ''mc-session'' = Some t)
      \<or> (starts_with ''/api/'' (req_path r) \<and> edge_api_key_ok e r))"
  by (auto simp: middleware_def Let_def split: option.splits)

section \<open>Properties\<close>

text \<open>
  The loop of the edge middleware, which accumulates the exclusive-or of the bytes,
  accepts exactly what the comparison with \<open>timingSafeEqual\<close> in the routes accepts: equal
  strings. So the two gates accept the same API keys.
\<close>

theorem safe_compare_equivalence:
  "edge_safe_compare a b = safe_compare a b \<and> (edge_safe_compare a b \<longleftrightarrow> a = b)
   \<and> edge_api_key_ok e r = api_key_ok e r"
  by (simp add: edge_compare.cmp_iff node_compare.cmp_iff edge_api_key_iff)


text \<open>
  A leading wildcard stands for at least one label: the pattern "*.d" matches the
  hosts that end in ".d" and nothing else, so never the bare domain; a trailing wildcard
  "p.*" matches the hosts that begin with "p.". (For patterns and hosts already trimmed and
  in lower case.)
\<close>

theorem host_wildcards:
  assumes h: "js_lower (js_trim h) = h" "h \<noteq> []"
    and d: "js_lower (js_trim (''*.'' @ d)) = ''*.'' @ d"
    and p: "js_lower (js_trim (p @ ''.*'')) = p @ ''.*''" "\<not> starts_with ''*.'' (p @ ''.*'')"
  shows "(host_matches (''*.'' @ d) h \<longleftrightarrow> (\<exists>l. h = l @ ''.'' @ d)) \<and>
         (host_matches (p @ ''.*'') h \<longleftrightarrow> (\<exists>l. h = p @ ''.'' @ l))"
proof
  show "host_matches (''*.'' @ d) h \<longleftrightarrow> (\<exists>l. h = l @ ''.'' @ d)"
    using h d by (simp add: host_matches_def Let_def ends_with_iff)
  have "ends_with ''.*'' (p @ ''.*'')" "butlast (p @ ''.*'') = p @ ''.''"
    by (simp_all add: ends_with_iff butlast_append)
  then show "host_matches (p @ ''.*'') h \<longleftrightarrow> (\<exists>l. h = p @ ''.'' @ l)"
    using h p by (simp add: host_matches_def Let_def starts_with_iff)
qed

theorem host_wildcards_witness:
  "host_matches ''*.ts.net'' ''mc.ts.net'' \<and>
   \<not> (\<exists>l. ''mc.ts.net'' = ''10.'' @ l)"
proof -
  have h: "js_lower (js_trim ''mc.ts.net'') = ''mc.ts.net''" by code_simp
  have d: "js_lower (js_trim (''*.'' @ ''ts.net'')) = ''*.'' @ ''ts.net''" by code_simp
  have p: "js_lower (js_trim (''10'' @ ''.*'')) = ''10'' @ ''.*''" by code_simp
  have q: "\<not> starts_with ''*.'' (''10'' @ ''.*'')" by code_simp
  have "\<exists>l. ''mc.ts.net'' = l @ ''.'' @ ''ts.net''" by (rule exI [of _ "''mc''"]) simp
  with host_wildcards [OF h _ d p q] show ?thesis by simp
qed

end
