(* ===== verification/Tasks.thy ===== *)
theory Tasks
  imports Auth
begin

text \<open>
  The task board: the handlers of \<open>app/api/tasks\<close> (list, create, bulk move),
  \<open>app/api/tasks/[id]\<close> (read, update, delete), its comments and broadcast, and
  \<open>app/api/quality-review\<close>, over the state of the server process. Bodies are the outcome of
  \<open>validateBody\<close>; the OpenClaw command line is a parameter that says which sends succeed.
\<close>

section \<open>Bodies and their rendering\<close>

text \<open>\<open>createTaskSchema\<close>; status, priority, tags and metadata have defaults in the schema.\<close>

record create_task_body =
  ct_title :: string
  ct_description :: "string option"
  ct_status :: task_status
  ct_priority :: priority
  ct_assigned_to :: "string option"
  ct_created_by :: "string option"
  ct_due_date :: "rat option"
  ct_estimated_hours :: "rat option"
  ct_tags :: "string list"
  ct_metadata :: json

text \<open>\<open>updateTaskSchema\<close>: every field may be missing.\<close>

record update_task_body =
  ut_title :: "string option"
  ut_description :: "string option"
  ut_status :: "task_status option"
  ut_priority :: "priority option"
  ut_assigned_to :: "string option"
  ut_due_date :: "rat option"
  ut_estimated_hours :: "rat option"
  ut_actual_hours :: "rat option"
  ut_tags :: "string list option"
  ut_metadata :: "json option"

text \<open>\<open>createCommentSchema\<close>, \<open>qualityReviewSchema\<close>, and the body of a broadcast.\<close>

record comment_body =
  cb_content :: string
  cb_author :: "string option"
  cb_parent_id :: "rat option"

record review_body =
  rb_task_id :: rat
  rb_reviewer :: string
  rb_status :: verdict
  rb_notes :: string

record broadcast_body =
  bb_author :: "string option"
  bb_message :: "string option"

text \<open>A number compared with an integer column: only whole numbers can match.\<close>

definition row_id :: "rat \<Rightarrow> int option" where
  "row_id q = (if of_int \<lfloor>q\<rfloor> = q then Some \<lfloor>q\<rfloor> else None)"

definition get_by_number :: "'r table \<Rightarrow> rat \<Rightarrow> 'r option" where
  "get_by_number t q = (case row_id q of None \<Rightarrow> None | Some i \<Rightarrow> tbl_get t i)"

text \<open>\<open>if (!id)\<close>: a missing id and 0 are refused.\<close>

definition body_id :: "rat option \<Rightarrow> rat option" where
  "body_id q = (if q = Some 0 then None else q)"

text \<open>
  \<open>LIMIT\<close> and \<open>OFFSET\<close> of SQLite: a negative limit is none, a negative offset is 0, and a
  limit or offset that is not a number is an error.
\<close>

definition sql_page :: "int \<Rightarrow> int \<Rightarrow> 'x list \<Rightarrow> 'x list" where
  "sql_page limit offset xs =
     (let ys = drop (nat offset) xs in if limit < 0 then ys else take (nat limit) ys)"

definition JOptNum :: "rat option \<Rightarrow> json" where
  "JOptNum q = (case q of None \<Rightarrow> JNull | Some n \<Rightarrow> JNum n)"

text \<open>A property of an object literal whose value may be \<open>undefined\<close> is not serialised.\<close>

definition opt_field :: "string \<Rightarrow> ('a \<Rightarrow> json) \<Rightarrow> 'a option \<Rightarrow> (string \<times> json) list" where
  "opt_field k f v = (case v of None \<Rightarrow> [] | Some x \<Rightarrow> [(k, f x)])"

text \<open>\<open>{...task, tags: ..., metadata: ...}\<close>.\<close>

definition task_json :: "int \<Rightarrow> task \<Rightarrow> json" where
  "task_json i t = JObj
     [(''id'', JInt i), (''title'', JStr (task_title t)),
      (''description'', JOptStr (task_description t)),
      (''status'', JStr (status_text (task_status t))),
      (''priority'', JStr (priority_text (task_priority t))),
      (''assigned_to'', JOptStr (task_assigned_to t)), (''created_by'', JStr (task_created_by t)),
      (''created_at'', JInt (task_created_at t)), (''updated_at'', JInt (task_updated_at t)),
      (''due_date'', JOptNum (task_due_date t)),
      (''estimated_hours'', JOptNum (task_estimated_hours t)),
      (''actual_hours'', JOptNum (task_actual_hours t)),
      (''tags'', JArr (map JStr (case task_tags t of None \<Rightarrow> [] | Some ts \<Rightarrow> ts))),
      (''metadata'', case task_metadata t of None \<Rightarrow> JObj [] | Some m \<Rightarrow> m)]"

text \<open>\<open>if ('error' in validated) return validated.error\<close>.\<close>

definition with_body :: "'a validated \<Rightarrow> ('a \<Rightarrow> world \<Rightarrow> world \<times> 'b response) \<Rightarrow> world \<Rightarrow> world \<times> 'b response" where
  "with_body v h w =
     (case v of VData a \<Rightarrow> h a w
      | VIssues ds \<Rightarrow> (w, Err 400 ''Validation failed'' ds)
      | VBadJson \<Rightarrow> (w, Fail 400 ''Invalid request body''))"

section \<open>The quality gate\<close>

definition aegis_reviews :: "int \<Rightarrow> world \<Rightarrow> (int \<times> quality_review) list" where
  "aegis_reviews tid w =
     tbl_select (\<lambda>q. qr_task_id q = tid \<and> qr_reviewer q = ''aegis'') (reviews (dbase w))"

definition has_aegis_approval :: "(int list \<Rightarrow> int list) \<Rightarrow> int \<Rightarrow> world \<Rightarrow> bool" where
  "has_aegis_approval scan tid w =
     (case order_desc scan (\<lambda>(i, q). qr_created_at q) (aegis_reviews tid w) of
        [] \<Rightarrow> False
      | (i, q) # _ \<Rightarrow> qr_status q = Approved)"

section \<open>Listing and reading tasks\<close>

text \<open>Query parameters arrive as strings; an empty one does not filter.\<close>

definition param_ok :: "string option \<Rightarrow> string option \<Rightarrow> bool" where
  "param_ok p v = (case p of None \<Rightarrow> True | Some s \<Rightarrow> s = [] \<or> v = Some s)"

definition task_matches :: "string option \<Rightarrow> string option \<Rightarrow> string option \<Rightarrow> task \<Rightarrow> bool" where
  "task_matches status assigned_to priority t =
     (param_ok status (Some (status_text (task_status t))) \<and>
      param_ok assigned_to (task_assigned_to t) \<and>
      param_ok priority (Some (priority_text (task_priority t))))"

text \<open>SQLite reads a negative \<open>LIMIT\<close> as no limit and a negative \<open>OFFSET\<close> as 0.\<close>

definition page_rows :: "int \<Rightarrow> int \<Rightarrow> 'a list \<Rightarrow> 'a list" where
  "page_rows limit offset xs =
     (let ys = drop (nat offset) xs in if limit < 0 then ys else take (nat limit) ys)"

text \<open>\<open>parseInt(searchParams.get(k) || d)\<close>; binding \<open>NaN\<close> makes the query
  fail, and a page number that is not finite is serialised as \<open>null\<close>.\<close>

definition get_tasks ::
  "(int list \<Rightarrow> int list) \<Rightarrow> (string \<Rightarrow> string option) \<Rightarrow> env \<Rightarrow> request \<Rightarrow> world \<Rightarrow> world \<times> json response" where
  "get_tasks scan query e r = with_role Viewer e r (\<lambda>user w.
     let P = task_matches (query ''status'') (query ''assigned_to'') (query ''priority'') in
     (case (parse_int (opt_or (query ''limit'') ''50''), parse_int (opt_or (query ''offset'') ''0'')) of
        (Some l, Some offset) \<Rightarrow>
          let limit = min l 200;
              found = page_rows limit offset
                (order_desc scan (\<lambda>(i, t). task_created_at t) (tbl_select P (tasks (dbase w))))
          in (w, Reply 200 (JObj
               [(''tasks'', JArr (map (\<lambda>(i, t). task_json i t) found)),
                (''total'', JInt (int (tbl_count P (tasks (dbase w))))),
                (''page'', if limit = 0 then JNull else JInt (offset div limit + 1)),
                (''limit'', JInt limit)]))
      | _ \<Rightarrow> (w, Fail 500 ''Failed to fetch tasks'')))"

definition get_task :: "string \<Rightarrow> env \<Rightarrow> request \<Rightarrow> world \<Rightarrow> world \<times> json response" where
  "get_task id_text e r = with_role Viewer e r (\<lambda>user w.
     (case parse_int id_text of
        None \<Rightarrow> (w, Fail 400 ''Invalid task ID'')
      | Some tid \<Rightarrow>
          (case tbl_get (tasks (dbase w)) tid of
             None \<Rightarrow> (w, Fail 404 ''Task not found'')
           | Some t \<Rightarrow> (w, Reply 200 (JObj [(''task'', task_json tid t)])))))"

section \<open>Creating a task\<close>

definition new_task :: "create_task_body \<Rightarrow> string \<Rightarrow> int \<Rightarrow> task" where
  "new_task b created_by now =
     \<lparr>task_title = ct_title b, task_description = ct_description b, task_status = ct_status b,
      task_priority = ct_priority b, task_assigned_to = ct_assigned_to b,
      task_created_by = created_by, task_created_at = now, task_updated_at = now,
      task_due_date = ct_due_date b, task_estimated_hours = ct_estimated_hours b,
      task_actual_hours = None, task_tags = Some (ct_tags b), task_metadata = Some (ct_metadata b)\<rparr>"

definition insert_task :: "task \<Rightarrow> world \<Rightarrow> world" where
  "insert_task t w = w\<lparr>dbase := (dbase w)\<lparr>tasks := tbl_insert t (tasks (dbase w))\<rparr>\<rparr>"

text \<open>Subscribe and notify the assignee, when there is one.\<close>

definition notify_assignment :: "int \<Rightarrow> string \<Rightarrow> string option \<Rightarrow> world \<Rightarrow> world" where
  "notify_assignment tid title assigned_to w =
     (case str_or_null assigned_to of None \<Rightarrow> w
      | Some a \<Rightarrow> create_notification a ''assignment'' ''Task Assigned''
          (''You have been assigned to task: '' @ title) (Some ''task'') (Some tid)
          (ensure_subscription tid a w))"

definition log_task_created :: "int \<Rightarrow> string \<Rightarrow> create_task_body \<Rightarrow> world \<Rightarrow> world" where
  "log_task_created tid created_by b =
     log_activity ''task_created'' ''task'' tid created_by (''Created task: '' @ ct_title b)
       (Some (JObj ([(''title'', JStr (ct_title b)), (''status'', JStr (status_text (ct_status b))),
                     (''priority'', JStr (priority_text (ct_priority b)))]
                    @ opt_field ''assigned_to'' JStr (ct_assigned_to b))))"

definition create_task_with :: "auth_user \<Rightarrow> create_task_body \<Rightarrow> world \<Rightarrow> world \<times> json response" where
  "create_task_with user b w =
     (let created_by = (case ct_created_by b of Some c \<Rightarrow> c | None \<Rightarrow> str_or (au_username user) ''system'');
          title = ct_title b
      in if tbl_find (\<lambda>t. task_title t = title) (tasks (dbase w)) \<noteq> None
         then (w, Fail 409 ''Task with this title already exists'')
         else
           let tid = tbl_last_id (tasks (dbase w));
               t = new_task b created_by (now_s w);
               w1 = insert_task t w;
w2 = log_task_created tid created_by b w1;
               w3 = ensure_subscription tid created_by w2;
               w4 = notify_assignment tid title (ct_assigned_to b) w3;
               w5 = broadcast ''task.created'' (task_json tid t) w4
           in (w5, Reply 201 (JObj [(''task'', task_json tid t)])))"

definition post_task :: "create_task_body validated \<Rightarrow> env \<Rightarrow> request \<Rightarrow> world \<Rightarrow> world \<times> json response" where
  "post_task body e r = with_role Operator e r (\<lambda>user.
     with_limit MutationLimiter e r (with_body body (create_task_with user)))"

section \<open>Moving tasks in bulk\<close>

definition move_task :: "int \<Rightarrow> task_status \<Rightarrow> world \<Rightarrow> world" where
  "move_task tid s w = w\<lparr>dbase := (dbase w)\<lparr>tasks :=
     tbl_update tid (\<lambda>t. t\<lparr>task_status := s, task_updated_at := now_s w\<rparr>) (tasks (dbase w))\<rparr>\<rparr>"

text \<open>Log the move of a task that existed and had another status.\<close>

definition log_move :: "int \<Rightarrow> string \<Rightarrow> task option \<Rightarrow> task_status \<Rightarrow> world \<Rightarrow> world" where
  "log_move tid actor old s w =
     (case old of None \<Rightarrow> w
      | Some t \<Rightarrow>
          if task_status t = s then w
          else log_activity ''task_updated'' ''task'' tid actor
                 (''Task moved from '' @ status_text (task_status t) @ '' to '' @ status_text s)
                 (Some (JObj [(''oldStatus'', JStr (status_text (task_status t))),
                              (''newStatus'', JStr (status_text s))])) w)"

text \<open>
  The body of the transaction. It stops at the first task without approval; what it has
  broadcast by then is out, what it has written is undone by the caller.
\<close>

fun bulk_loop ::
  "(int list \<Rightarrow> int list) \<Rightarrow> string \<Rightarrow> (int \<times> task_status) list \<Rightarrow> world \<Rightarrow> world \<times> int option" where
  "bulk_loop scan actor [] w = (w, None)"
| "bulk_loop scan actor ((tid, s) # xs) w =
     (let old = tbl_get (tasks (dbase w)) tid
      in if s = Done \<and> \<not> has_aegis_approval scan tid w then (w, Some tid)
         else bulk_loop scan actor xs (log_move tid actor old s (move_task tid s w)))"

text \<open>\<open>db.transaction\<close>: an exception restores the database, not what was broadcast.\<close>

definition bulk_transaction ::
  "(int list \<Rightarrow> int list) \<Rightarrow> string \<Rightarrow> (int \<times> task_status) list \<Rightarrow> world \<Rightarrow> world \<times> int option" where
  "bulk_transaction scan actor xs w =
     (case bulk_loop scan actor xs w of
        (w', None) \<Rightarrow> (w', None)
      | (w', Some tid) \<Rightarrow> (w'\<lparr>dbase := dbase w\<rparr>, Some tid))"

definition bulk_update_with ::
  "(int list \<Rightarrow> int list) \<Rightarrow> auth_user \<Rightarrow> (int \<times> task_status) list \<Rightarrow> world \<Rightarrow> world \<times> json response" where
  "bulk_update_with scan user xs w =
     (case bulk_transaction scan (au_username user) xs w of
        (w', Some tid) \<Rightarrow> (w', Fail 403 (''Aegis approval required for task '' @ show_int tid))
      | (w', None) \<Rightarrow>
          (fold (\<lambda>(tid, s). broadcast ''task.status_changed''
              (JObj [(''id'', JInt tid), (''status'', JStr (status_text s)),
                     (''updated_at'', JInt (now_s w))])) xs w',
           Reply 200 (JObj [(''success'', JBool True), (''updated'', JInt (int (length xs)))])))"

definition put_tasks ::
  "(int list \<Rightarrow> int list) \<Rightarrow> (int \<times> task_status) list validated \<Rightarrow> env \<Rightarrow> request \<Rightarrow> world \<Rightarrow>
   world \<times> json response" where
  "put_tasks scan body e r = with_role Operator e r (\<lambda>user.
     with_limit MutationLimiter e r (with_body body (bulk_update_with scan user)))"

section \<open>Updating one task\<close>

text \<open>The dynamic \<open>SET\<close> list: a field the body leaves out keeps its value.\<close>

definition apply_task_update :: "update_task_body \<Rightarrow> int \<Rightarrow> task \<Rightarrow> task" where
  "apply_task_update b now t = t\<lparr>
     task_title := (case ut_title b of None \<Rightarrow> task_title t | Some x \<Rightarrow> x),
     task_description := (case ut_description b of None \<Rightarrow> task_description t | Some x \<Rightarrow> Some x),
     task_status := (case ut_status b of None \<Rightarrow> task_status t | Some x \<Rightarrow> x),
     task_priority := (case ut_priority b of None \<Rightarrow> task_priority t | Some x \<Rightarrow> x),
     task_assigned_to := (case ut_assigned_to b of None \<Rightarrow> task_assigned_to t | Some x \<Rightarrow> Some x),
     task_due_date := (case ut_due_date b of None \<Rightarrow> task_due_date t | Some x \<Rightarrow> Some x),
     task_estimated_hours := (case ut_estimated_hours b of None \<Rightarrow> task_estimated_hours t | Some x \<Rightarrow> Some x),
     task_actual_hours := (case ut_actual_hours b of None \<Rightarrow> task_actual_hours t | Some x \<Rightarrow> Some x),
     task_tags := (case ut_tags b of None \<Rightarrow> task_tags t | Some x \<Rightarrow> Some x),
     task_metadata := (case ut_metadata b of None \<Rightarrow> task_metadata t | Some x \<Rightarrow> Some x),
     task_updated_at := now\<rparr>"

definition no_task_fields :: "update_task_body \<Rightarrow> bool" where
  "no_task_fields b \<longleftrightarrow>
     ut_title b = None \<and> ut_description b = None \<and> ut_status b = None \<and> ut_priority b = None \<and>
     ut_assigned_to b = None \<and> ut_due_date b = None \<and> ut_estimated_hours b = None \<and>
     ut_actual_hours b = None \<and> ut_tags b = None \<and> ut_metadata b = None"

text \<open>The arrow of the activity text, in UTF-8.\<close>

definition arrow :: string where
  "arrow = '' '' @ [CHR 0xE2, CHR 0x86, CHR 0x92] @ '' ''"

definition status_changed :: "update_task_body \<Rightarrow> task \<Rightarrow> task_status option" where
  "status_changed b t = (case ut_status b of None \<Rightarrow> None
     | Some s \<Rightarrow> if s = task_status t then None else Some s)"

definition assignee_changed :: "update_task_body \<Rightarrow> task \<Rightarrow> string option" where
  "assignee_changed b t = (case ut_assigned_to b of None \<Rightarrow> None
     | Some a \<Rightarrow> if task_assigned_to t = Some a then None else Some a)"

definition task_changes :: "update_task_body \<Rightarrow> task \<Rightarrow> string list" where
  "task_changes b t =
     (case status_changed b t of None \<Rightarrow> []
      | Some s \<Rightarrow> [''status: '' @ status_text (task_status t) @ arrow @ status_text s]) @
     (case assignee_changed b t of None \<Rightarrow> []
      | Some a \<Rightarrow> [''assigned: '' @ opt_or (task_assigned_to t) ''unassigned'' @ arrow @ str_or a ''unassigned'']) @
     (case ut_title b of None \<Rightarrow> []
      | Some x \<Rightarrow> if x \<noteq> [] \<and> x \<noteq> task_title t then [''title updated''] else []) @
     (case ut_priority b of None \<Rightarrow> []
      | Some p \<Rightarrow> if p \<noteq> task_priority t
          then [''priority: '' @ priority_text (task_priority t) @ arrow @ priority_text p] else [])"

definition notify_status_change :: "int \<Rightarrow> update_task_body \<Rightarrow> task \<Rightarrow> world \<Rightarrow> world" where
  "notify_status_change tid b t w =
     (case (status_changed b t, str_or_null (task_assigned_to t)) of
        (Some s, Some a) \<Rightarrow>
          create_notification a ''status_change'' ''Task Status Updated''
            (''Task '' @ [CHR 0x22] @ task_title t @ [CHR 0x22] @ '' status changed to '' @ status_text s)
            (Some ''task'') (Some tid) w
      | _ \<Rightarrow> w)"

text \<open>\<open>getUserFromRequest(request)?.username || 'system'\<close>.\<close>

definition actor_name :: "env \<Rightarrow> request \<Rightarrow> world \<Rightarrow> string" where
  "actor_name e r w =
     (case get_user_from_request e r w of
        Inr (Some u) \<Rightarrow> str_or (au_username u) ''system'' | _ \<Rightarrow> ''system'')"

definition log_task_changes :: "env \<Rightarrow> request \<Rightarrow> int \<Rightarrow> update_task_body \<Rightarrow> task \<Rightarrow> world \<Rightarrow> world" where
  "log_task_changes e r tid b t w =
     (let changes = task_changes b t in
      if changes = [] then w
      else log_activity ''task_updated'' ''task'' tid (actor_name e r w)
        (''Task updated: '' @ join_with '', '' changes)
        (Some (JObj
          [(''changes'', JArr (map JStr changes)),
           (''oldValues'', JObj [(''title'', JStr (task_title t)),
              (''status'', JStr (status_text (task_status t))),
              (''priority'', JStr (priority_text (task_priority t))),
              (''assigned_to'', JOptStr (task_assigned_to t))]),
           (''newValues'', JObj (opt_field ''title'' JStr (ut_title b) @
              opt_field ''status'' (\<lambda>s. JStr (status_text s)) (ut_status b) @
              opt_field ''priority'' (\<lambda>p. JStr (priority_text p)) (ut_priority b) @
              opt_field ''assigned_to'' JStr (ut_assigned_to b)))])) w)"

definition set_task :: "int \<Rightarrow> update_task_body \<Rightarrow> world \<Rightarrow> world" where
  "set_task tid b w = w\<lparr>dbase := (dbase w)\<lparr>tasks :=
     tbl_update tid (apply_task_update b (now_s w)) (tasks (dbase w))\<rparr>\<rparr>"

definition update_task_with ::
  "(int list \<Rightarrow> int list) \<Rightarrow> env \<Rightarrow> request \<Rightarrow> string \<Rightarrow> update_task_body \<Rightarrow> world \<Rightarrow> world \<times> json response" where
  "update_task_with scan e r id_text b w =
     (case parse_int id_text of
        None \<Rightarrow> (w, Fail 400 ''Invalid task ID'')
      | Some tid \<Rightarrow>
     (case tbl_get (tasks (dbase w)) tid of
        None \<Rightarrow> (w, Fail 404 ''Task not found'')
      | Some t \<Rightarrow>
        if ut_status b = Some Done \<and> \<not> has_aegis_approval scan tid w
        then (w, Fail 403 ''Aegis approval is required to move task to done.'')
        else if no_task_fields b then (w, Fail 400 ''No fields to update'')
        else
          let w1 = set_task tid b w;
              w2 = notify_status_change tid b t w1;
              w3 = notify_assignment tid (task_title t) (assignee_changed b t) w2;
              w4 = log_task_changes e r tid b t w3;
              t' = apply_task_update b (now_s w) t;
              w5 = broadcast ''task.updated'' (task_json tid t') w4
          in (w5, Reply 200 (JObj [(''task'', task_json tid t')]))))"

definition put_task ::
  "(int list \<Rightarrow> int list) \<Rightarrow> string \<Rightarrow> update_task_body validated \<Rightarrow> env \<Rightarrow> request \<Rightarrow> world \<Rightarrow>
   world \<times> json response" where
  "put_task scan id_text body e r = with_role Operator e r (\<lambda>user.
     with_limit MutationLimiter e r (with_body body (update_task_with scan e r id_text)))"

section \<open>Deleting a task\<close>

text \<open>
  The foreign keys: comments, subscriptions and reviews of the task go with it, and a
  comment that answered a deleted one loses its parent.
\<close>

definition delete_task_rows :: "int \<Rightarrow> world \<Rightarrow> world" where
  "delete_task_rows tid w =
     (let d = dbase w;
          gone = map fst (tbl_select (\<lambda>c. com_task_id c = tid) (comments d))
      in w\<lparr>dbase := d\<lparr>
           tasks := tbl_delete tid (tasks d),
           comments := tbl_update_where (\<lambda>c. case com_parent_id c of None \<Rightarrow> False | Some p \<Rightarrow> p \<in> set gone)
             (\<lambda>c. c\<lparr>com_parent_id := None\<rparr>)
             (tbl_delete_where (\<lambda>i c. com_task_id c = tid) (comments d)),
           subscriptions := tbl_delete_where (\<lambda>i s. sub_task_id s = tid) (subscriptions d),
           reviews := tbl_delete_where (\<lambda>i q. qr_task_id q = tid) (reviews d)\<rparr>\<rparr>)"

definition delete_task_with :: "env \<Rightarrow> request \<Rightarrow> string \<Rightarrow> world \<Rightarrow> world \<times> json response" where
  "delete_task_with e r id_text w =
     (case parse_int id_text of
        None \<Rightarrow> (w, Fail 400 ''Invalid task ID'')
      | Some tid \<Rightarrow>
     (case tbl_get (tasks (dbase w)) tid of
        None \<Rightarrow> (w, Fail 404 ''Task not found'')
      | Some t \<Rightarrow>
          let w1 = delete_task_rows tid w;
              w2 = log_activity ''task_deleted'' ''task'' tid (actor_name e r w1)
                     (''Deleted task: '' @ task_title t)
                     (Some (JObj [(''title'', JStr (task_title t)),
                                  (''status'', JStr (status_text (task_status t))),
                                  (''assigned_to'', JOptStr (task_assigned_to t))])) w1;
              w3 = broadcast ''task.deleted'' (JObj [(''id'', JInt tid), (''title'', JStr (task_title t))]) w2
          in (w3, Reply 200 (JObj [(''success'', JBool True)]))))"

definition delete_task :: "string \<Rightarrow> env \<Rightarrow> request \<Rightarrow> world \<Rightarrow> world \<times> json response" where
  "delete_task id_text e r = with_role Operator e r (\<lambda>user.
     with_limit MutationLimiter e r (delete_task_with e r id_text))"

section \<open>Comments\<close>

text \<open>
  The thread structure. The handler links comment objects by reference, in the order of the
  query; what it answers is the forest of the top-level comments. \<open>fuel\<close> bounds the depth,
  the handler's own bound is the number of comments.
\<close>

datatype thread = Thread int comment "thread list"

text \<open>\<open>if (comment.parent_id)\<close>: a reply, unless the id is missing or 0.\<close>

definition parent_of :: "comment \<Rightarrow> int option" where
  "parent_of c = (if com_parent_id c = Some 0 then None else com_parent_id c)"

definition replies_to :: "(int \<times> comment) list \<Rightarrow> int \<Rightarrow> (int \<times> comment) list" where
  "replies_to cs i = filter (\<lambda>(j, c). parent_of c = Some i) cs"

fun thread_of :: "nat \<Rightarrow> (int \<times> comment) list \<Rightarrow> int \<times> comment \<Rightarrow> thread" where
  "thread_of 0 cs (i, c) = Thread i c []"
| "thread_of (Suc n) cs (i, c) = Thread i c (map (thread_of n cs) (replies_to cs i))"

definition threads :: "(int \<times> comment) list \<Rightarrow> thread list" where
  "threads cs = map (thread_of (length cs) cs) (filter (\<lambda>(j, c). parent_of c = None) cs)"

fun thread_comments :: "thread \<Rightarrow> (int \<times> comment) list" where
  "thread_comments (Thread i c ts) = (i, c) # concat (map thread_comments ts)"

definition comment_fields :: "int \<Rightarrow> comment \<Rightarrow> (string \<times> json) list" where
  "comment_fields i c =
     [(''id'', JInt i), (''task_id'', JInt (com_task_id c)), (''author'', JStr (com_author c)),
      (''content'', JStr (com_content c)), (''created_at'', JInt (com_created_at c)),
      (''parent_id'', JOptInt (com_parent_id c)),
      (''mentions'', JArr (map JStr (case com_mentions c of None \<Rightarrow> [] | Some ms \<Rightarrow> ms)))]"

fun thread_json :: "thread \<Rightarrow> json" where
  "thread_json (Thread i c ts) = JObj (comment_fields i c @ [(''replies'', JArr (map thread_json ts))])"

definition task_comments :: "(int list \<Rightarrow> int list) \<Rightarrow> int \<Rightarrow> world \<Rightarrow> (int \<times> comment) list" where
  "task_comments scan tid w = order_asc scan (\<lambda>(i, c). com_created_at c)
     (tbl_select (\<lambda>c. com_task_id c = tid) (comments (dbase w)))"

definition get_comments ::
  "(int list \<Rightarrow> int list) \<Rightarrow> string \<Rightarrow> env \<Rightarrow> request \<Rightarrow> world \<Rightarrow> world \<times> json response" where
  "get_comments scan id_text e r = with_role Viewer e r (\<lambda>user w.
     (case parse_int id_text of
        None \<Rightarrow> (w, Fail 400 ''Invalid task ID'')
      | Some tid \<Rightarrow>
          if tbl_get (tasks (dbase w)) tid = None then (w, Fail 404 ''Task not found'')
          else
            let cs = task_comments scan tid w
            in (w, Reply 200 (JObj [(''comments'', JArr (map thread_json (threads cs))),
                                    (''total'', JInt (int (length cs)))]))))"

text \<open>A JavaScript \<open>Set\<close> iterates in the order of first insertion.\<close>

fun js_set :: "'a list \<Rightarrow> 'a list" where
  "js_set [] = []"
| "js_set (x # xs) = x # filter (\<lambda>y. y \<noteq> x) (js_set xs)"

definition preview :: "string \<Rightarrow> string" where
  "preview s = take 100 s @ (if 100 < length s then ''...'' else [])"

definition quote :: "string \<Rightarrow> string" where
  "quote s = [CHR 0x22] @ s @ [CHR 0x22]"

definition notify_comment ::
  "string \<Rightarrow> string \<Rightarrow> string \<Rightarrow> string list \<Rightarrow> int \<Rightarrow> string \<Rightarrow> world \<Rightarrow> world" where
  "notify_comment author title content mentions cid subscriber w =
     (let is_mention = subscriber \<in> set mentions
      in create_notification subscriber
           (if is_mention then ''mention'' else ''comment'')
           (if is_mention then ''You were mentioned'' else ''New comment on a subscribed task'')
           (author @ (if is_mention then '' mentioned you in a comment on '' else '' commented on '')
              @ quote title @ '': '' @ preview content)
           (Some ''comment'') (Some cid) w)"

text \<open>Subscribe the author, everyone mentioned and the assignee.\<close>

definition subscribe_all :: "int \<Rightarrow> string \<Rightarrow> string list \<Rightarrow> string option \<Rightarrow> world \<Rightarrow> world" where
  "subscribe_all tid author mentions assigned_to w =
     (let w1 = ensure_subscription tid author w;
          w2 = fold (ensure_subscription tid) (js_set mentions) w1
      in case str_or_null assigned_to of None \<Rightarrow> w2 | Some a \<Rightarrow> ensure_subscription tid a w2)"

definition comment_recipients :: "int \<Rightarrow> string \<Rightarrow> world \<Rightarrow> string list" where
  "comment_recipients tid author w = filter (\<lambda>s. s \<noteq> author) (js_set (get_task_subscribers tid w))"

definition parent_ok :: "rat option \<Rightarrow> int \<Rightarrow> world \<Rightarrow> bool" where
  "parent_ok p tid w =
     (case p of None \<Rightarrow> True
      | Some q \<Rightarrow> q = 0 \<or> (case get_by_number (comments (dbase w)) q of None \<Rightarrow> False
                          | Some c \<Rightarrow> com_task_id c = tid))"

definition new_comment :: "int \<Rightarrow> comment_body \<Rightarrow> int \<Rightarrow> comment" where
  "new_comment tid b now =
     \<lparr>com_task_id = tid, com_author = (case cb_author b of None \<Rightarrow> ''system'' | Some a \<Rightarrow> a),
      com_content = cb_content b, com_created_at = now,
      com_parent_id = (case cb_parent_id b of None \<Rightarrow> None | Some q \<Rightarrow> if q = 0 then None else row_id q),
      com_mentions = (let ms = parse_mentions (cb_content b) in if ms = [] then None else Some ms)\<rparr>"

definition insert_comment :: "comment \<Rightarrow> world \<Rightarrow> world" where
  "insert_comment c w = w\<lparr>dbase := (dbase w)\<lparr>comments := tbl_insert c (comments (dbase w))\<rparr>\<rparr>"

text \<open>Insert the comment and log it; then subscribe and notify.\<close>

definition log_comment :: "int \<Rightarrow> task \<Rightarrow> comment_body \<Rightarrow> world \<Rightarrow> world" where
  "log_comment tid t b w =
     (let c = new_comment tid b (now_s w);
          reply = (case cb_parent_id b of None \<Rightarrow> False | Some q \<Rightarrow> q \<noteq> 0)
      in log_activity ''comment_added'' ''comment'' (tbl_last_id (comments (dbase w))) (com_author c)
           ((if reply then ''Replied to comment on task: '' else ''Added comment to task: '') @ task_title t)
           (Some (JObj ([(''task_id'', JInt tid), (''task_title'', JStr (task_title t))]
              @ opt_field ''parent_id'' JNum (cb_parent_id b)
              @ [(''mentions'', JArr (map JStr (parse_mentions (cb_content b)))),
                 (''content_preview'', JStr (take 100 (cb_content b)))])))
           (insert_comment c w))"

definition record_comment :: "int \<Rightarrow> task \<Rightarrow> comment_body \<Rightarrow> world \<Rightarrow> world" where
  "record_comment tid t b w =
     (let author = com_author (new_comment tid b (now_s w));
          mentions = parse_mentions (cb_content b);
          cid = tbl_last_id (comments (dbase w));
          w' = subscribe_all tid author mentions (task_assigned_to t) (log_comment tid t b w)
      in fold (notify_comment author (task_title t) (cb_content b) mentions cid)
           (comment_recipients tid author w') w')"

definition add_comment_with :: "string \<Rightarrow> comment_body validated \<Rightarrow> world \<Rightarrow> world \<times> json response" where
  "add_comment_with id_text body w =
     (case parse_int id_text of
        None \<Rightarrow> (w, Fail 400 ''Invalid task ID'')
      | Some tid \<Rightarrow> with_body body (\<lambda>b w.
     (case tbl_get (tasks (dbase w)) tid of
        None \<Rightarrow> (w, Fail 404 ''Task not found'')
      | Some t \<Rightarrow>
        if \<not> parent_ok (cb_parent_id b) tid w then (w, Fail 404 ''Parent comment not found'')
        else (record_comment tid t b w,
              Reply 201 (JObj [(''comment'',
                JObj (comment_fields (tbl_last_id (comments (dbase w))) (new_comment tid b (now_s w))
                      @ [(''replies'', JArr [])]))])))) w)"

definition post_comment ::
  "string \<Rightarrow> comment_body validated \<Rightarrow> env \<Rightarrow> request \<Rightarrow> world \<Rightarrow> world \<times> json response" where
  "post_comment id_text body e r = with_role Operator e r (\<lambda>user.
     with_limit MutationLimiter e r (add_comment_with id_text body))"

section \<open>Broadcasting to the subscribers\<close>

definition broadcast_args :: "int \<Rightarrow> task \<Rightarrow> string \<Rightarrow> string \<Rightarrow> string \<Rightarrow> string list" where
  "broadcast_args tid t author message key =
     [''gateway'', ''sessions_send'', ''--session'', key, ''--message'',
      ''[Task '' @ show_int tid @ ''] '' @ task_title t @ [CHR 0x0A] @ ''From '' @ author @ '': '' @ message]"

fun broadcast_loop ::
  "(string list \<Rightarrow> bool) \<Rightarrow> int \<Rightarrow> task \<Rightarrow> string \<Rightarrow> string \<Rightarrow> (int \<times> agent) list \<Rightarrow>
   nat \<Rightarrow> nat \<Rightarrow> world \<Rightarrow> world \<times> nat \<times> nat" where
  "broadcast_loop openclaw tid t author message [] sent skipped w = (w, sent, skipped)"
| "broadcast_loop openclaw tid t author message ((i, a) # as) sent skipped w =
     (case str_or_null (agent_session_key a) of
        None \<Rightarrow> broadcast_loop openclaw tid t author message as sent (skipped + 1) w
      | Some key \<Rightarrow>
          if openclaw (broadcast_args tid t author message key)
          then broadcast_loop openclaw tid t author message as (sent + 1) skipped
                 (create_notification (agent_name a) ''message'' ''Task Broadcast''
                    (author @ '' broadcasted a message on '' @ quote (task_title t) @ '': '' @ preview message)
                    (Some ''task'') (Some tid) w)
          else broadcast_loop openclaw tid t author message as sent (skipped + 1) w)"

definition broadcast_reply :: "nat \<Rightarrow> nat \<Rightarrow> json" where
  "broadcast_reply sent skipped = JObj [(''sent'', JInt (int sent)), (''skipped'', JInt (int skipped))]"

definition broadcast_task_with ::
  "(int list \<Rightarrow> int list) \<Rightarrow> (string list \<Rightarrow> bool) \<Rightarrow> string \<Rightarrow> broadcast_body option \<Rightarrow> world \<Rightarrow>
   world \<times> json response" where
  "broadcast_task_with scan openclaw id_text body w =
     (case body of None \<Rightarrow> (w, Fail 500 ''Failed to broadcast message'')
      | Some b \<Rightarrow>
     let author = opt_or (bb_author b) ''system'';
         message = js_trim (opt_or (bb_message b) []) in
     (case parse_int id_text of
        None \<Rightarrow> (w, Fail 400 ''Invalid task ID'')
      | Some tid \<Rightarrow>
        if message = [] then (w, Fail 400 ''Message is required'')
        else
     (case tbl_get (tasks (dbase w)) tid of
        None \<Rightarrow> (w, Fail 404 ''Task not found'')
      | Some t \<Rightarrow>
        let subscribers = comment_recipients tid author w in
        if subscribers = [] then (w, Reply 200 (broadcast_reply 0 0))
        else
          let found = scan_rows scan (tbl_select (\<lambda>a. agent_name a \<in> set subscribers) (agents (dbase w)));
              (w1, sent, skipped) = broadcast_loop openclaw tid t author message found 0 0 w;
              w2 = log_activity ''task_broadcast'' ''task'' tid author
                     (''Broadcasted message to '' @ show_int (int sent) @ '' subscribers'')
                     (Some (broadcast_reply sent skipped)) w1
          in (w2, Reply 200 (broadcast_reply sent skipped)))))"

definition post_broadcast ::
  "(int list \<Rightarrow> int list) \<Rightarrow> (string list \<Rightarrow> bool) \<Rightarrow> string \<Rightarrow> broadcast_body option \<Rightarrow> env \<Rightarrow>
   request \<Rightarrow> world \<Rightarrow> world \<times> json response" where
  "post_broadcast scan openclaw id_text body e r = with_role Operator e r (\<lambda>user.
     broadcast_task_with scan openclaw id_text body)"

section \<open>Quality reviews\<close>

definition insert_review :: "quality_review \<Rightarrow> world \<Rightarrow> world" where
  "insert_review q w = w\<lparr>dbase := (dbase w)\<lparr>reviews := tbl_insert q (reviews (dbase w))\<rparr>\<rparr>"

definition review_with :: "review_body \<Rightarrow> world \<Rightarrow> world \<times> json response" where
  "review_with b w =
     (case row_id (rb_task_id b) of
        None \<Rightarrow> (w, Fail 404 ''Task not found'')
      | Some tid \<Rightarrow>
     (case tbl_get (tasks (dbase w)) tid of
        None \<Rightarrow> (w, Fail 404 ''Task not found'')
      | Some t \<Rightarrow>
          let q = \<lparr>qr_task_id = tid, qr_reviewer = rb_reviewer b, qr_status = rb_status b,
                   qr_notes = rb_notes b, qr_created_at = now_s w\<rparr>;
              qid = tbl_last_id (reviews (dbase w));
              w1 = insert_review q w;
              w2 = log_activity ''quality_review'' ''task'' tid (rb_reviewer b)
                     (''Quality review '' @ verdict_text (rb_status b) @ '' for task: '' @ task_title t)
                     (Some (JObj [(''status'', JStr (verdict_text (rb_status b))),
                                  (''notes'', JStr (rb_notes b))])) w1
          in (w2, Reply 200 (JObj [(''success'', JBool True), (''id'', JInt qid)]))))"

definition post_review :: "review_body validated \<Rightarrow> env \<Rightarrow> request \<Rightarrow> world \<Rightarrow> world \<times> json response" where
  "post_review body e r = with_role Operator e r (\<lambda>user.
     with_limit MutationLimiter e r (with_body body review_with))"

text \<open>\<open>GET ?taskIds=\<close>: the first review with the largest time, per task.\<close>

definition latest_step :: "int \<times> quality_review \<Rightarrow> (int \<Rightarrow> quality_review option) \<Rightarrow> int \<Rightarrow> quality_review option" where
  "latest_step x by_task =
     (let q = snd x in
      case by_task (qr_task_id q) of
        None \<Rightarrow> by_task(qr_task_id q := Some q)
      | Some old \<Rightarrow> if qr_created_at q > qr_created_at old then by_task(qr_task_id q := Some q) else by_task)"

definition latest_reviews :: "(int list \<Rightarrow> int list) \<Rightarrow> int list \<Rightarrow> world \<Rightarrow> int \<Rightarrow> quality_review option" where
  "latest_reviews scan ids w =
     fold latest_step
       (sort_key (\<lambda>(i, q). qr_task_id q) (order_desc scan (\<lambda>(i, q). qr_created_at q)
         (tbl_select (\<lambda>q. qr_task_id q \<in> set ids) (reviews (dbase w)))))
       (\<lambda>_. None)"

definition review_json :: "int \<Rightarrow> quality_review \<Rightarrow> json" where
  "review_json i q = JObj
     [(''id'', JInt i), (''task_id'', JInt (qr_task_id q)), (''reviewer'', JStr (qr_reviewer q)),
      (''status'', JStr (verdict_text (qr_status q))), (''notes'', JStr (qr_notes q)),
      (''created_at'', JInt (qr_created_at q))]"

definition latest_json :: "quality_review option \<Rightarrow> json" where
  "latest_json q = (case q of None \<Rightarrow> JNull
     | Some q \<Rightarrow> JObj [(''status'', JStr (verdict_text (qr_status q))),
                        (''reviewer'', JStr (qr_reviewer q)), (''created_at'', JInt (qr_created_at q))])"

definition get_reviews ::
  "(int list \<Rightarrow> int list) \<Rightarrow> (string \<Rightarrow> string option) \<Rightarrow> env \<Rightarrow> request \<Rightarrow> world \<Rightarrow> world \<times> json response" where
  "get_reviews scan query e r = with_role Viewer e r (\<lambda>user w.
     (case str_or_null (query ''taskIds'') of
        Some param \<Rightarrow>
          let ids = List.map_filter (\<lambda>s. parse_int (js_trim s)) (split_on (CHR '','') param)
          in if ids = [] then (w, Fail 400 ''taskIds must include at least one numeric id'')
             else (w, Reply 200 (JObj [(''latest'',
                    JObj (map (\<lambda>i. (show_int i, latest_json (latest_reviews scan ids w i))) (js_set ids)))]))
      | None \<Rightarrow>
          (case parse_int (opt_or (query ''taskId'') []) of
             None \<Rightarrow> (w, Fail 400 ''taskId is required'')
           | Some tid \<Rightarrow> (w, Reply 200 (JObj [(''reviews'',
               JArr (map (\<lambda>(i, q). review_json i q) (take 10
                 (order_desc scan (\<lambda>(i, q). qr_created_at q)
                   (tbl_select (\<lambda>q. qr_task_id q = tid) (reviews (dbase w)))))))]))))) "

section \<open>Frames of the handlers' wrappers\<close>

lemma with_limit_keeps:
  assumes "Q (dbase w)" "\<And>w. Q (dbase w) \<Longrightarrow> Q (dbase (fst (h w)))"
  shows "Q (dbase (fst (with_limit l e r h w)))"
proof -
  obtain w' a where c: "with_limit l e r h w = (w', a)" by fastforce
  then show ?thesis
  proof (cases rule: with_limit_cases)
    case (passed w1)
    have "Q (dbase (fst (h w1)))" by (rule assms(2)) (use passed(1) assms(1) in simp)
    with passed c show ?thesis by simp
  qed (use assms(1) c in simp)
qed

lemma with_role_keeps:
  assumes "Q (dbase w)" "\<And>u. Q (dbase (fst (h u w)))"
  shows "Q (dbase (fst (with_role m e r h w)))"
  using assms by (auto simp: with_role_def split: access.splits)

lemma with_body_keeps:
  assumes "Q (dbase w)" "\<And>b. Q (dbase (fst (h b w)))"
  shows "Q (dbase (fst (with_body v h w)))"
  using assms by (auto simp: with_body_def split: validated.splits)

section \<open>Integrity of the board\<close>

definition comment_ok :: "db \<Rightarrow> int \<times> comment \<Rightarrow> bool" where
  "comment_ok d x =
     (tbl_get (tasks d) (com_task_id (snd x)) \<noteq> None \<and>
      (case com_parent_id (snd x) of None \<Rightarrow> True
       | Some p \<Rightarrow> p < fst x \<and>
           (\<exists>y \<in> set (rows (comments d)). fst y = p \<and> com_task_id (snd y) = com_task_id (snd x))))"

lemma comment_ok_iff: "comment_ok d x \<longleftrightarrow>
     tbl_get (tasks d) (com_task_id (snd x)) \<noteq> None \<and>
     (\<forall>p. com_parent_id (snd x) = Some p \<longrightarrow>
        p < fst x \<and> (\<exists>c. (p, c) \<in> set (rows (comments d)) \<and> com_task_id c = com_task_id (snd x)))"
  by (cases "com_parent_id (snd x)") (auto simp: comment_ok_def Bex_def)

definition board_ok :: "db \<Rightarrow> bool" where
  "board_ok d \<longleftrightarrow>
     tbl_ok (tasks d) \<and> tbl_ok (comments d) \<and> tbl_ok (subscriptions d) \<and> tbl_ok (reviews d) \<and>
     distinct (map subs_key (rows (subscriptions d))) \<and>
     (\<forall>x \<in> set (rows (comments d)). comment_ok d x) \<and>
     (\<forall>x \<in> set (rows (subscriptions d)). tbl_get (tasks d) (sub_task_id (snd x)) \<noteq> None) \<and>
     (\<forall>x \<in> set (rows (reviews d)). tbl_get (tasks d) (qr_task_id (snd x)) \<noteq> None)"

lemma board_ok_frame [simp]:
  "board_ok (d\<lparr>activities := x\<rparr>) = board_ok d"
  "board_ok (d\<lparr>notifications := y\<rparr>) = board_ok d"
  by (simp_all add: board_ok_def comment_ok_iff)

lemma board_ok_tasks:
  assumes "board_ok d" "tbl_ok t" "\<And>i. tbl_get (tasks d) i \<noteq> None \<Longrightarrow> tbl_get t i \<noteq> None"
  shows "board_ok (d\<lparr>tasks := t\<rparr>)"
  using assms unfolding board_ok_def comment_ok_iff by simp

lemma insert_task_ok: "board_ok (dbase w) \<Longrightarrow> board_ok (dbase (insert_task t w))"
  unfolding insert_task_def by (auto intro!: board_ok_tasks simp: tbl_simps) (auto simp: board_ok_def tbl_simps)

lemma board_ok_update_task: "board_ok d \<Longrightarrow> board_ok (d\<lparr>tasks := tbl_update i f (tasks d)\<rparr>)"
  by (rule board_ok_tasks) (auto simp: board_ok_def tbl_simps)

lemma move_task_ok: "board_ok (dbase w) \<Longrightarrow> board_ok (dbase (move_task tid s w))"
  by (simp add: move_task_def board_ok_update_task)

lemma set_task_ok: "board_ok (dbase w) \<Longrightarrow> board_ok (dbase (set_task tid b w))"
  by (simp add: set_task_def board_ok_update_task)

lemma ensure_subscription_ok:
  assumes "board_ok (dbase w)" "tbl_get (tasks (dbase w)) tid \<noteq> None"
  shows "board_ok (dbase (ensure_subscription tid name w))"
proof -
  have "subs_unique (ensure_subscription tid name w)"
    by (rule ensure_subscription_unique) (use assms in \<open>simp add: board_ok_def subs_unique_def\<close>)
  with assms show ?thesis
    by (auto simp: board_ok_def comment_ok_iff subs_unique_def ensure_subscription_def tbl_simps)
qed

lemma subscribe_fold_ok:
  "board_ok (dbase w) \<Longrightarrow> tbl_get (tasks (dbase w)) tid \<noteq> None \<Longrightarrow>
   board_ok (dbase (fold (ensure_subscription tid) ns w)) \<and>
   tasks (dbase (fold (ensure_subscription tid) ns w)) = tasks (dbase w)"
  by (induction ns arbitrary: w) (simp_all add: ensure_subscription_ok)

lemma subscribe_all_ok:
  "board_ok (dbase w) \<Longrightarrow> tbl_get (tasks (dbase w)) tid \<noteq> None \<Longrightarrow>
   board_ok (dbase (subscribe_all tid author ms a w))"
  by (auto simp: subscribe_all_def Let_def ensure_subscription_ok subscribe_fold_ok split: option.splits)

lemma insert_comment_ok:
  assumes "board_ok (dbase w)" "tbl_get (tasks (dbase w)) (com_task_id c) \<noteq> None"
    and "\<And>p. com_parent_id c = Some p \<Longrightarrow> \<exists>c'. tbl_get (comments (dbase w)) p = Some c' \<and> com_task_id c' = com_task_id c"
  shows "board_ok (dbase (insert_comment c w))"
proof -
  have "p < next_id (comments (dbase w)) \<and> (\<exists>c'. (p, c') \<in> set (rows (comments (dbase w))) \<and> com_task_id c' = com_task_id c)"
    if "com_parent_id c = Some p" for p
    using assms(1) assms(3) [OF that] tbl_get_mem
    by (fastforce simp: board_ok_def tbl_ok_def tbl_ids_def)
  moreover have "comment_ok (dbase w) x \<Longrightarrow> comment_ok ((dbase w)\<lparr>comments := tbl_insert c (comments (dbase w))\<rparr>) x" for x
    by (auto simp: comment_ok_iff tbl_simps)
  ultimately show ?thesis
    using assms(1,2) by (auto simp: board_ok_def insert_comment_def tbl_simps comment_ok_iff)
qed

lemma insert_review_ok:
  "board_ok (dbase w) \<Longrightarrow> tbl_get (tasks (dbase w)) (qr_task_id q) \<noteq> None \<Longrightarrow>
   board_ok (dbase (insert_review q w))"
  by (auto simp: board_ok_def comment_ok_iff insert_review_def tbl_simps)


lemma parent_kept:
  assumes "board_ok d" "x \<in> set (rows (comments d))" "com_parent_id (snd x) = Some p" "com_task_id (snd x) \<noteq> tid"
  shows "p \<notin> set (map fst (tbl_select (\<lambda>c. com_task_id c = tid) (comments d)))"
proof
  assume "p \<in> set (map fst (tbl_select (\<lambda>c. com_task_id c = tid) (comments d)))"
  then obtain c where c: "(p, c) \<in> set (rows (comments d))" "com_task_id c = tid"
    by (auto simp: tbl_select_def)
  obtain c' where "(p, c') \<in> set (rows (comments d))" "com_task_id c' = com_task_id (snd x)"
    using assms(1-3) unfolding board_ok_def comment_ok_iff by blast
  with c have "c' = c" using assms(1) by (metis board_ok_def tbl_get_iff option.inject)
  with c assms(4) \<open>com_task_id c' = _\<close> show False by simp
qed

text \<open>So on a sound board the cascade only removes: no surviving comment loses its parent.\<close>

lemma delete_comments_eq:
  assumes "board_ok d"
  shows "tbl_update_where (\<lambda>c. case com_parent_id c of None \<Rightarrow> False
             | Some p \<Rightarrow> p \<in> set (map fst (tbl_select (\<lambda>c. com_task_id c = tid) (comments d))))
           f (tbl_delete_where (\<lambda>i c. com_task_id c = tid) (comments d))
         = tbl_delete_where (\<lambda>i c. com_task_id c = tid) (comments d)"
proof (rule tbl_update_where_idle)
  fix x assume x: "x \<in> set (rows (tbl_delete_where (\<lambda>i c. com_task_id c = tid) (comments d)))"
  show "\<not> (case com_parent_id (snd x) of None \<Rightarrow> False
         | Some p \<Rightarrow> p \<in> set (map fst (tbl_select (\<lambda>c. com_task_id c = tid) (comments d))))"
  proof (cases "com_parent_id (snd x)")
    case (Some p)
    with x have "p \<notin> set (map fst (tbl_select (\<lambda>c. com_task_id c = tid) (comments d)))"
      by (intro parent_kept [OF assms, of x]) (auto simp: tbl_delete_where_def)
    with Some show ?thesis by simp
  qed simp
qed

lemma delete_task_rows_db:
  assumes "board_ok (dbase w)"
  shows "dbase (delete_task_rows tid w) = (dbase w)\<lparr>
     tasks := tbl_delete tid (tasks (dbase w)),
     comments := tbl_delete_where (\<lambda>i c. com_task_id c = tid) (comments (dbase w)),
     subscriptions := tbl_delete_where (\<lambda>i s. sub_task_id s = tid) (subscriptions (dbase w)),
     reviews := tbl_delete_where (\<lambda>i q. qr_task_id q = tid) (reviews (dbase w))\<rparr>"
  using assms by (simp add: delete_task_rows_def Let_def delete_comments_eq)

lemma delete_task_rows_ok:
  assumes "board_ok (dbase w)"
  shows "board_ok (dbase (delete_task_rows tid w))"
proof -
  let ?d = "dbase w"
  have "distinct (map subs_key (filter P (rows (subscriptions ?d))))" for P
    using assms by (simp add: board_ok_def distinct_map_filter)
  moreover have "\<exists>c'. (p, c') \<in> set (rows (comments ?d)) \<and> com_task_id c' = com_task_id c \<and> p < i"
    if "(i, c) \<in> set (rows (comments ?d))" "com_parent_id c = Some p" for i c p
    using assms that by (fastforce simp: board_ok_def comment_ok_iff)
  ultimately show ?thesis
    using assms unfolding delete_task_rows_db [OF assms]
    by (fastforce simp: board_ok_def comment_ok_iff tbl_simps tbl_delete_where_def [of _ "comments ?d"]
        tbl_delete_where_def [of _ "subscriptions ?d"] tbl_delete_where_def [of _ "reviews ?d"]
        tbl_ok_delete_where [unfolded tbl_delete_where_def])
qed


section \<open>Every handler keeps the board sound\<close>

text \<open>Operations that touch neither tasks, comments, subscriptions nor reviews.\<close>

definition board :: "db \<Rightarrow> task table \<times> comment table \<times> subscription table \<times> quality_review table" where
  "board d = (tasks d, comments d, subscriptions d, reviews d)"

lemma board_ok_cong: "board d' = board d \<Longrightarrow> board_ok d' = board_ok d"
  by (simp add: board_def board_ok_def comment_ok_iff)

lemma board_frame [simp]:
  "board (d\<lparr>activities := x\<rparr>) = board d" "board (d\<lparr>notifications := y\<rparr>) = board d"
  by (simp_all add: board_def)

lemma board_helpers [simp]:
  "board (dbase (notify_status_change tid b t w)) = board (dbase w)"
  "board (dbase (log_task_changes e r tid b t w)) = board (dbase w)"
  "board (dbase (notify_comment author title content ms cid s w)) = board (dbase w)"
  by (simp_all add: notify_status_change_def log_task_changes_def notify_comment_def Let_def
      split: option.splits)

lemma board_notify_fold [simp]:
  "board (dbase (fold (notify_comment author title content ms cid) ss w)) = board (dbase w)"
  by (induction ss arbitrary: w) simp_all

lemma board_fold_broadcast [simp]: "dbase (fold (\<lambda>x. broadcast ty (f x)) xs w) = dbase w"
  by (induction xs arbitrary: w) simp_all

lemma board_broadcast_loop [simp]:
  "board (dbase (fst (broadcast_loop oc tid t author msg as n k w))) = board (dbase w)"
proof (induction as arbitrary: n k w)
  case (Cons x as)
  obtain i a where x: "x = (i, a)" by (cases x)
  show ?case
    by (cases "str_or_null (agent_session_key a)") (simp_all add: x Cons.IH del: str_or_null_Some_iff)
qed simp

lemma notify_assignment_ok:
  "board_ok (dbase w) \<Longrightarrow> tbl_get (tasks (dbase w)) tid \<noteq> None \<Longrightarrow>
   board_ok (dbase (notify_assignment tid title a w))"
  by (auto simp: notify_assignment_def ensure_subscription_ok split: option.splits)

lemma tasks_notify_assignment [simp]:
  "tasks (dbase (notify_assignment tid title a w)) = tasks (dbase w)"
  "reviews (dbase (notify_assignment tid title a w)) = reviews (dbase w)"
  "comments (dbase (notify_assignment tid title a w)) = comments (dbase w)"
  by (auto simp: notify_assignment_def split: option.splits)

lemma create_task_ok:
  assumes "board_ok (dbase w)"
  shows "board_ok (dbase (fst (create_task_with user b w)))"
proof -
  have "tbl_get (tasks (dbase (insert_task t w))) (tbl_last_id (tasks (dbase w))) \<noteq> None" for t
    using assms by (simp add: insert_task_def tbl_simps board_ok_def)
  then show ?thesis
    using assms by (auto simp: create_task_with_def log_task_created_def Let_def insert_task_ok
        intro!: notify_assignment_ok ensure_subscription_ok)
qed

lemma log_move_frame [simp]:
  "board (dbase (log_move tid actor old s w)) = board (dbase w)"
  "tasks (dbase (log_move tid actor old s w)) = tasks (dbase w)"
  "reviews (dbase (log_move tid actor old s w)) = reviews (dbase w)"
  "now_s (log_move tid actor old s w) = now_s w"
  by (simp_all add: log_move_def split: option.splits)

lemma bulk_loop_ok: "board_ok (dbase w) \<Longrightarrow> board_ok (dbase (fst (bulk_loop scan actor xs w)))"
  by (induction scan actor xs w rule: bulk_loop.induct)
    (simp_all add: Let_def move_task_ok board_ok_cong [OF log_move_frame(1)])

lemma bulk_update_ok: "board_ok (dbase w) \<Longrightarrow> board_ok (dbase (fst (bulk_update_with scan user xs w)))"
  using bulk_loop_ok [of w scan "au_username user" xs]
  by (auto simp: bulk_update_with_def bulk_transaction_def case_prod_unfold split: option.splits)

lemma tasks_set_task: "tbl_get (tasks (dbase (set_task tid b w))) tid =
    map_option (apply_task_update b (now_s w)) (tbl_get (tasks (dbase w)) tid)"
  by (simp add: set_task_def tbl_simps)

lemma tasks_of_board: "tasks d = fst (board d)"
  by (simp add: board_def)

lemma update_task_ok:
  assumes "board_ok (dbase w)"
  shows "board_ok (dbase (fst (update_task_with scan e r id_text b w)))"
proof -
  have "board_ok (dbase (log_task_changes e r tid b t (notify_assignment tid (task_title t) a
          (notify_status_change tid b t (set_task tid b w)))))"
    if "tbl_get (tasks (dbase w)) tid = Some t" for tid t a
  proof -
    have *: "board_ok (dbase (notify_status_change tid b t (set_task tid b w)))"
      using set_task_ok [OF assms] by (simp add: board_ok_cong [OF board_helpers(1)])
    have "tasks (dbase (notify_status_change tid b t (set_task tid b w))) = tasks (dbase (set_task tid b w))"
      by (simp add: tasks_of_board)
    then have "tbl_get (tasks (dbase (notify_status_change tid b t (set_task tid b w)))) tid \<noteq> None"
      using that by (simp add: tasks_set_task)
    then show ?thesis
      using notify_assignment_ok [OF *] by (simp add: board_ok_cong [OF board_helpers(2)])
  qed
  then show ?thesis
    using assms by (auto simp: update_task_with_def Let_def split: option.splits)
qed

lemma delete_task_ok:
  "board_ok (dbase w) \<Longrightarrow> board_ok (dbase (fst (delete_task_with e r id_text w)))"
  by (auto simp: delete_task_with_def Let_def delete_task_rows_ok split: option.splits)

lemma get_by_number_Some: "get_by_number t q = Some x \<Longrightarrow> \<exists>i. row_id q = Some i \<and> tbl_get t i = Some x"
  by (auto simp: get_by_number_def split: option.splits)

lemma new_comment_parent:
  assumes "parent_ok (cb_parent_id b) tid w" "com_parent_id (new_comment tid b now) = Some p"
  shows "\<exists>c'. tbl_get (comments (dbase w)) p = Some c' \<and> com_task_id c' = tid"
  using assms by (auto simp: parent_ok_def new_comment_def get_by_number_def split: option.splits if_splits)

lemma add_comment_ok:
  assumes "board_ok (dbase w)"
  shows "board_ok (dbase (fst (add_comment_with id_text body w)))"
proof -
  have *: "board_ok (dbase (insert_comment (new_comment tid b now) w))"
    if "tbl_get (tasks (dbase w)) tid = Some t" "parent_ok (cb_parent_id b) tid w" for tid t b now
    using that new_comment_parent [OF that(2), of now]
    by (intro insert_comment_ok [OF assms]) (auto simp: new_comment_def)
  have "tasks (dbase (log_comment tid t b w)) = tasks (dbase w)"
    and "board_ok (dbase (log_comment tid t b w)) = board_ok (dbase (insert_comment (new_comment tid b (now_s w)) w))"
    for tid t b
    by (simp_all add: log_comment_def Let_def insert_comment_def)
  then have "board_ok (dbase (record_comment tid t b w))"
    if "tbl_get (tasks (dbase w)) tid = Some t" "parent_ok (cb_parent_id b) tid w" for tid t b
    using that * by (simp add: record_comment_def Let_def board_ok_cong [OF board_notify_fold] subscribe_all_ok)
  then show ?thesis
    using assms by (auto simp: add_comment_with_def with_body_def split: option.splits validated.splits)
qed

lemma broadcast_task_ok:
  "board_ok (dbase w) \<Longrightarrow> board_ok (dbase (fst (broadcast_task_with scan oc id_text body w)))"
  by (auto simp: broadcast_task_with_def Let_def case_prod_unfold board_ok_cong [OF board_broadcast_loop]
      split: option.splits)

lemma review_ok: "board_ok (dbase w) \<Longrightarrow> board_ok (dbase (fst (review_with b w)))"
  by (auto simp: review_with_def Let_def insert_review_ok split: option.splits)

section \<open>The board as a machine\<close>

text \<open>Requests that change the board, each with its time, its headers and its body.\<close>

datatype task_op =
    PostTask "create_task_body validated"
  | PutTasks "(int \<times> task_status) list validated"
  | PutTask string "update_task_body validated"
  | DeleteTask string
  | PostComment string "comment_body validated"
  | PostBroadcast string "broadcast_body option"
  | PostReview "review_body validated"

fun task_handler ::
  "(int list \<Rightarrow> int list) \<Rightarrow> (string list \<Rightarrow> bool) \<Rightarrow> env \<Rightarrow> request \<Rightarrow> task_op \<Rightarrow> world \<Rightarrow>
   world \<times> json response" where
  "task_handler scan oc e r (PostTask b) = post_task b e r"
| "task_handler scan oc e r (PutTasks b) = put_tasks scan b e r"
| "task_handler scan oc e r (PutTask i b) = put_task scan i b e r"
| "task_handler scan oc e r (DeleteTask i) = delete_task i e r"
| "task_handler scan oc e r (PostComment i b) = post_comment i b e r"
| "task_handler scan oc e r (PostBroadcast i b) = post_broadcast scan oc i b e r"
| "task_handler scan oc e r (PostReview b) = post_review b e r"

definition task_step ::
  "(int list \<Rightarrow> int list) \<Rightarrow> (string list \<Rightarrow> bool) \<Rightarrow> env \<Rightarrow> int \<times> request \<times> task_op \<Rightarrow> world \<Rightarrow> world" where
  "task_step scan oc e x w = (case x of (t, r, op) \<Rightarrow> fst (task_handler scan oc e r op (w\<lparr>clock := t\<rparr>)))"

lemma task_step_ok:
  assumes "board_ok (dbase w)"
  shows "board_ok (dbase (task_step scan oc e x w))"
proof -
  obtain t r op where x: "x = (t, r, op)" by (cases x)
  have ok: "board_ok (dbase (w\<lparr>clock := t\<rparr>))" using assms by simp
  note wrap = with_role_keeps [of board_ok, OF ok] with_limit_keeps [of board_ok]
    with_body_keeps [of board_ok]
  show ?thesis
    unfolding x task_step_def prod.case
  proof (cases op)
    case (PostTask b)
    with ok show "board_ok (dbase (fst (task_handler scan oc e r op (w\<lparr>clock := t\<rparr>))))"
      by (auto simp: post_task_def intro!: wrap create_task_ok)
  next
    case (PutTasks b)
    with ok show "board_ok (dbase (fst (task_handler scan oc e r op (w\<lparr>clock := t\<rparr>))))"
      by (auto simp: put_tasks_def intro!: wrap bulk_update_ok)
  next
    case (PutTask i b)
    with ok show "board_ok (dbase (fst (task_handler scan oc e r op (w\<lparr>clock := t\<rparr>))))"
      by (auto simp: put_task_def intro!: wrap update_task_ok)
  next
    case (DeleteTask i)
    with ok show "board_ok (dbase (fst (task_handler scan oc e r op (w\<lparr>clock := t\<rparr>))))"
      by (auto simp: delete_task_def intro!: wrap delete_task_ok)
  next
    case (PostComment i b)
    with ok show "board_ok (dbase (fst (task_handler scan oc e r op (w\<lparr>clock := t\<rparr>))))"
      by (auto simp: post_comment_def intro!: wrap add_comment_ok)
  next
    case (PostBroadcast i b)
    with ok show "board_ok (dbase (fst (task_handler scan oc e r op (w\<lparr>clock := t\<rparr>))))"
      by (auto simp: post_broadcast_def intro!: wrap broadcast_task_ok)
  next
    case (PostReview b)
    with ok show "board_ok (dbase (fst (task_handler scan oc e r op (w\<lparr>clock := t\<rparr>))))"
      by (auto simp: post_review_def intro!: wrap review_ok)
  qed
qed

interpretation task_board: invariant_machine "task_step scan oc e" "\<lambda>w. board_ok (dbase w)"
  by unfold_locales (rule task_step_ok)

end
