(* ===== verification/Task_Board.thy ===== *)
theory Task_Board
  imports Tasks
begin

text \<open>
  What holds of the task board of theory Tasks: the quality gate, bulk moves as transactions,
  the notifications a comment causes, the thread structure, the cascade of a deletion, what
  creation does, the latest review, and the integrity of the four tables along any sequence
  of requests.
\<close>

section \<open>The gate\<close>

lemma has_aegis_approval_reviews:
  "reviews (dbase w') = reviews (dbase w) \<Longrightarrow> has_aegis_approval scan tid w' = has_aegis_approval scan tid w"
  by (simp add: has_aegis_approval_def aegis_reviews_def)

text \<open>What an approval is: a review by aegis that approves and that no later one overrides.\<close>

definition approved_by_aegis :: "int \<Rightarrow> db \<Rightarrow> bool" where
  "approved_by_aegis tid d \<longleftrightarrow>
     (\<exists>(i, q) \<in> set (rows (reviews d)). qr_task_id q = tid \<and> qr_reviewer q = ''aegis'' \<and>
        qr_status q = Approved \<and>
        (\<forall>(j, q') \<in> set (rows (reviews d)). qr_task_id q' = tid \<and> qr_reviewer q' = ''aegis'' \<longrightarrow>
           qr_created_at q' \<le> qr_created_at q))"

lemma has_aegis_approval_sound:
  assumes "scan_ok scan" "tbl_ok (reviews (dbase w))" "has_aegis_approval scan tid w"
  shows "approved_by_aegis tid (dbase w)"
proof -
  let ?rs = "aegis_reviews tid w"
  have d: "distinct (map fst ?rs)"
    using assms(2) by (simp add: aegis_reviews_def tbl_ok_def tbl_ids_def tbl_select_def distinct_map_filter)
  obtain i q rest where o: "order_desc scan (\<lambda>(i, q). qr_created_at q) ?rs = (i, q) # rest" "qr_status q = Approved"
    using assms(3) by (auto simp: has_aegis_approval_def split: list.splits)
  have "(i, q) \<in> set ?rs"
    using o set_order_desc [OF assms(1) d] by (metis list.set_intros(1))
  moreover have "qr_created_at q' \<le> qr_created_at q" if "(j, q') \<in> set ?rs" for j q'
    using order_desc_hd_max [OF assms(1) d o(1) that] by simp
  ultimately show ?thesis
    using o(2) unfolding approved_by_aegis_def by (force simp: aegis_reviews_def tbl_select_def)
qed

definition is_done :: "int \<Rightarrow> db \<Rightarrow> bool" where
  "is_done tid d = (case tbl_get (tasks d) tid of None \<Rightarrow> False | Some t \<Rightarrow> task_status t = Done)"

lemma is_done_iff: "is_done tid d \<longleftrightarrow> (\<exists>t. tbl_get (tasks d) tid = Some t \<and> task_status t = Done)"
  by (simp add: is_done_def split: option.splits)

lemma tasks_notify_status [simp]:
  "tasks (dbase (notify_status_change tid b t w)) = tasks (dbase w)"
  by (simp add: tasks_of_board)

lemma tasks_log_changes [simp]:
  "tasks (dbase (log_task_changes e r tid b t w)) = tasks (dbase w)"
  by (simp add: tasks_of_board)

lemma update_task_cases:
  assumes "update_task_with scan e r id_text b w = (w', a)"
  obtains (refused) s m where "w' = w" "a = Fail s m"
  | (updated) tid t where "parse_int id_text = Some tid" "tbl_get (tasks (dbase w)) tid = Some t"
      "ut_status b = Some Done \<longrightarrow> has_aegis_approval scan tid w"
      "tasks (dbase w') = tbl_update tid (apply_task_update b (now_s w)) (tasks (dbase w))"
      "a = Reply 200 (JObj [(''task'', task_json tid (apply_task_update b (now_s w) t))])"
proof (cases "parse_int id_text")
  case None
  then show thesis using assms by (auto simp: update_task_with_def intro: refused)
next
  case (Some tid)
  show thesis
  proof (cases "tbl_get (tasks (dbase w)) tid")
    case None
    then show thesis using assms Some by (auto simp: update_task_with_def intro: refused)
  next
    case t: (Some t)
    show thesis
    proof (cases "ut_status b = Some Done \<and> \<not> has_aegis_approval scan tid w \<or> no_task_fields b")
      case True
      then show thesis using assms Some t
        by (auto simp: update_task_with_def split: if_splits intro: refused)
    next
      case False
      have "tasks (dbase w') = tbl_update tid (apply_task_update b (now_s w)) (tasks (dbase w))"
        "a = Reply 200 (JObj [(''task'', task_json tid (apply_task_update b (now_s w) t))])"
        using assms Some t False by (auto simp: update_task_with_def Let_def set_task_def)
      then show thesis using Some t False by (intro updated) auto
    qed
  qed
qed

lemma update_task_gate:
  assumes "update_task_with scan e r id_text b w = (w', a)" "is_done i (dbase w')"
  shows "is_done i (dbase w) \<or> has_aegis_approval scan i w"
  using assms(1)
  by (cases rule: update_task_cases) (use assms(2) in \<open>auto simp: is_done_iff tbl_simps apply_task_update_def split: if_splits option.splits\<close>)

lemma reviews_move_task [simp]: "reviews (dbase (move_task tid s w)) = reviews (dbase w)"
  by (simp add: move_task_def)

lemma bulk_loop_reviews [simp]: "reviews (dbase (fst (bulk_loop scan actor xs w))) = reviews (dbase w)"
  by (induction scan actor xs w rule: bulk_loop.induct) (simp_all add: Let_def)

lemma bulk_loop_gate:
  "is_done i (dbase (fst (bulk_loop scan actor xs w))) \<Longrightarrow>
   is_done i (dbase w) \<or> has_aegis_approval scan i w"
proof (induction scan actor xs w rule: bulk_loop.induct)
  case (2 scan actor tid s xs w)
  let ?w2 = "log_move tid actor (tbl_get (tasks (dbase w)) tid) s (move_task tid s w)"
  show ?case
  proof (cases "s = Done \<and> \<not> has_aegis_approval scan tid w")
    case False
    have "is_done i (dbase ?w2) \<or> has_aegis_approval scan i ?w2"
      using 2 False by (simp add: Let_def)
    then show ?thesis
      using False has_aegis_approval_reviews [of ?w2 w scan i]
      by (auto simp: is_done_iff move_task_def tbl_simps split: if_splits)
  qed (use 2 in \<open>simp add: Let_def\<close>)
qed simp

lemma dbase_fold_broadcast [simp]:
  "dbase (fold (\<lambda>(tid, s). broadcast ty (f tid s)) xs w) = dbase w"
  by (induction xs arbitrary: w) auto

lemma bulk_update_gate:
  assumes "bulk_update_with scan user xs w = (w', a)" "is_done i (dbase w')"
  shows "is_done i (dbase w) \<or> has_aegis_approval scan i w"
proof -
  obtain w1 o1 where b: "bulk_loop scan (au_username user) xs w = (w1, o1)" by fastforce
  have "is_done i (dbase w) \<or> is_done i (dbase w1)"
    using assms b by (cases o1) (auto simp: bulk_update_with_def bulk_transaction_def)
  then show ?thesis
    using bulk_loop_gate [of i scan "au_username user" xs w] b by auto
qed

text \<open>The other requests leave the status of every task alone, except creation.\<close>

lemma tasks_ensure_fold [simp]: "tasks (dbase (fold (ensure_subscription tid) ns w)) = tasks (dbase w)"
  by (induction ns arbitrary: w) simp_all

lemma tasks_subscribe_all [simp]: "tasks (dbase (subscribe_all tid author ms a w)) = tasks (dbase w)"
  by (simp add: subscribe_all_def Let_def split: option.splits)

lemma tasks_notify_fold [simp]:
  "tasks (dbase (fold (notify_comment author title content ms cid) ss w)) = tasks (dbase w)"
  by (simp add: tasks_of_board)

lemma tasks_broadcast_loop [simp]:
  "tasks (dbase (fst (broadcast_loop oc tid t author msg as n k w))) = tasks (dbase w)"
  by (simp add: tasks_of_board)

lemma tasks_add_comment: "tasks (dbase (fst (add_comment_with id_text body w))) = tasks (dbase w)"
  by (simp add: add_comment_with_def record_comment_def log_comment_def with_body_def Let_def insert_comment_def
      split: option.splits validated.splits)

lemma tasks_broadcast_task: "tasks (dbase (fst (broadcast_task_with scan oc id_text body w))) = tasks (dbase w)"
  by (simp add: broadcast_task_with_def Let_def case_prod_unfold split: option.splits)

lemma tasks_review: "tasks (dbase (fst (review_with b w))) = tasks (dbase w)"
  by (simp add: review_with_def Let_def insert_review_def split: option.splits)

lemma delete_task_gate:
  assumes "is_done i (dbase (fst (delete_task_with e r id_text w)))"
  shows "is_done i (dbase w)"
  using assms by (auto simp: delete_task_with_def Let_def delete_task_rows_def is_done_iff tbl_simps
      split: option.splits if_splits)

definition gated :: "(int list \<Rightarrow> int list) \<Rightarrow> db \<Rightarrow> db \<Rightarrow> bool" where
  "gated scan d d' \<longleftrightarrow> (\<forall>i. is_done i d' \<longrightarrow> is_done i d \<or>
     (\<exists>w. reviews (dbase w) = reviews d \<and> has_aegis_approval scan i w))"

lemma gatedI:
  assumes "\<And>i. is_done i (dbase w') \<Longrightarrow> is_done i (dbase w) \<or> has_aegis_approval scan i w"
  shows "gated scan (dbase w) (dbase w')"
  using assms by (auto simp: gated_def)

lemma gated_same_tasks: "tasks d' = tasks d \<Longrightarrow> gated scan d d'"
  by (simp add: gated_def is_done_def)

lemma with_role_gated:
  "(\<And>u. gated scan (dbase w) (dbase (fst (h u w)))) \<Longrightarrow> gated scan (dbase w) (dbase (fst (with_role m e r h w)))"
  by (rule with_role_keeps) (simp_all add: gated_same_tasks)

lemma with_limit_gated:
  assumes "\<And>w. gated scan (dbase w) (dbase (fst (h w)))"
  shows "gated scan (dbase w) (dbase (fst (with_limit l e r h w)))"
proof -
  obtain w' a where c: "with_limit l e r h w = (w', a)" by fastforce
  then show ?thesis
  proof (cases rule: with_limit_cases)
    case limited
    then show ?thesis using c by (simp add: gated_same_tasks)
  next
    case (passed w1)
    then show ?thesis using c assms [of w1] by simp
  qed
qed

lemma with_body_gated:
  "(\<And>b. gated scan (dbase w) (dbase (fst (h b w)))) \<Longrightarrow> gated scan (dbase w) (dbase (fst (with_body v h w)))"
  by (rule with_body_keeps) (simp_all add: gated_same_tasks)

lemma task_handler_gated:
  assumes "\<And>b. op \<noteq> PostTask b"
  shows "gated scan (dbase w) (dbase (fst (task_handler scan oc e r op w)))"
proof (cases op)
  case (PutTasks b)
  have "gated scan (dbase w) (dbase (fst (bulk_update_with scan u xs w)))" for u xs w
    by (rule gatedI) (rule bulk_update_gate, rule prod.collapse [symmetric])
  with PutTasks show ?thesis
    by (auto simp: put_tasks_def intro!: with_role_gated with_limit_gated with_body_gated)
next
  case (PutTask i b)
  have "gated scan (dbase w) (dbase (fst (update_task_with scan e r i b w)))" for b w
    by (rule gatedI) (rule update_task_gate, rule prod.collapse [symmetric])
  with PutTask show ?thesis
    by (auto simp: put_task_def intro!: with_role_gated with_limit_gated with_body_gated)
next
  case (DeleteTask i)
  have "gated scan (dbase w) (dbase (fst (delete_task_with e r i w)))" for w
    by (rule gatedI) (simp add: delete_task_gate)
  with DeleteTask show ?thesis
    by (auto simp: delete_task_def intro!: with_role_gated with_limit_gated)
next
  case (PostComment i b)
  then show ?thesis
    by (auto simp: post_comment_def intro!: with_role_gated with_limit_gated
        gated_same_tasks [OF tasks_add_comment])
next
  case (PostBroadcast i b)
  then show ?thesis
    by (auto simp: post_broadcast_def intro!: with_role_gated gated_same_tasks [OF tasks_broadcast_task])
next
  case (PostReview b)
  then show ?thesis
    by (auto simp: post_review_def intro!: with_role_gated with_limit_gated with_body_gated
        gated_same_tasks [OF tasks_review])
qed (use assms in simp)

section \<open>The gate holds for every request but creation\<close>

text \<open>
  Claim C2. The quality gate: whatever request other than a creation is handled, a task that
  is done afterwards either was done before, or has a review by aegis that approves it and
  that no review by aegis has superseded.
\<close>

theorem done_gate:
  assumes "scan_ok scan" "tbl_ok (reviews (dbase w))" "\<And>b. op \<noteq> PostTask b"
    and "is_done i (dbase (task_step scan oc e (t, r, op) w))"
  shows "is_done i (dbase w) \<or> approved_by_aegis i (dbase w)"
proof -
  have "gated scan (dbase w) (dbase (task_step scan oc e (t, r, op) w))"
    using task_handler_gated [OF assms(3), of scan "w\<lparr>clock := t\<rparr>" oc e r] by (simp add: task_step_def)
  then have "is_done i (dbase w) \<or> (\<exists>w1. reviews (dbase w1) = reviews (dbase w) \<and> has_aegis_approval scan i w1)"
    using assms(4) by (auto simp: gated_def)
  then show ?thesis
  proof
    assume "\<exists>w1. reviews (dbase w1) = reviews (dbase w) \<and> has_aegis_approval scan i w1"
    then have "has_aegis_approval scan i w" using has_aegis_approval_reviews by metis
    then show ?thesis using has_aegis_approval_sound [OF assms(1,2)] by blast
  qed blast
qed

definition sample_task :: task where
  "sample_task = \<lparr>task_title = ''Ship'', task_description = None, task_status = Review,
     task_priority = High, task_assigned_to = Some ''bo'', task_created_by = ''ada'',
     task_created_at = 1, task_updated_at = 1, task_due_date = None, task_estimated_hours = None,
     task_actual_hours = None, task_tags = None, task_metadata = None\<rparr>"

definition sample_review :: quality_review where
  "sample_review = \<lparr>qr_task_id = 1, qr_reviewer = ''aegis'', qr_status = Approved, qr_notes = ''ok'', qr_created_at = 2\<rparr>"

definition sample_board :: world where
  "sample_board = (world_at 5000)\<lparr>dbase := db_empty\<lparr>tasks := tbl_insert sample_task tbl_empty,
     reviews := tbl_insert sample_review tbl_empty\<rparr>\<rparr>"

definition to_done :: update_task_body where
  "to_done = \<lparr>ut_title = None, ut_description = None, ut_status = Some Done, ut_priority = None,
     ut_assigned_to = None, ut_due_date = None, ut_estimated_hours = None, ut_actual_hours = None,
     ut_tags = None, ut_metadata = None\<rparr>"

lemma sample_board_ok: "board_ok (dbase sample_board)"
  by code_simp

theorem done_gate_witness:
  "is_done 1 (dbase (task_step (\<lambda>xs. xs) (\<lambda>_. True) sample_env (6000, admin_request, PutTask ''1'' (VData to_done)) sample_board))
   \<and> \<not> is_done 1 (dbase sample_board) \<and> approved_by_aegis 1 (dbase sample_board)"
proof -
  have d: "is_done 1 (dbase (task_step (\<lambda>xs. xs) (\<lambda>_. True) sample_env
      (6000, admin_request, PutTask ''1'' (VData to_done)) sample_board))"
    by code_simp
  have n: "\<not> is_done 1 (dbase sample_board)" by code_simp
  have "tbl_ok (reviews (dbase sample_board))" using sample_board_ok by (simp add: board_ok_def)
  from done_gate [OF scan_ok_id this _ d] n d show ?thesis by simp
qed

section \<open>Threads\<close>

definition later :: "(int \<times> comment) list \<Rightarrow> int \<Rightarrow> nat" where
  "later cs i = length (filter (\<lambda>x. i < fst x) cs)"

lemma later_less:
  assumes "i < j" "x \<in> set cs" "fst x = j"
  shows "later cs j < later cs i"
proof -
  have "length (filter (\<lambda>x. j < fst x) cs) < length (filter (\<lambda>x. i < fst x) cs)"
    using assms
  proof (induction cs)
    case (Cons y ys)
    have "length (filter (\<lambda>x. j < fst x) ys) \<le> length (filter (\<lambda>x. i < fst x) ys)"
      using \<open>i < j\<close> by (induction ys) auto
    with Cons show ?case by (cases "x = y") auto
  qed simp
  then show ?thesis by (simp add: later_def)
qed

definition thread_ready :: "(int \<times> comment) list \<Rightarrow> bool" where
  "thread_ready cs \<longleftrightarrow> distinct (map fst cs) \<and>
     (\<forall>x \<in> set cs. \<forall>p. parent_of (snd x) = Some p \<longrightarrow> p < fst x \<and> p \<in> fst ` set cs)"

lemma thread_fuel:
  assumes "thread_ready cs" "later cs i \<le> n"
  shows "thread_of (Suc n) cs (i, c) = thread_of n cs (i, c)"
  using assms(2)
proof (induction n arbitrary: i c)
  case 0
  have "replies_to cs i = []"
    using assms(1) 0 later_less [of i _ _ cs]
    by (fastforce simp: replies_to_def filter_empty_conv thread_ready_def)
  then show ?case by simp
next
  case (Suc n)
  have "thread_of (Suc n) cs x = thread_of n cs x" if "x \<in> set (replies_to cs i)" for x
  proof -
    obtain j c' where x: "x = (j, c')" by (cases x)
    have "i < j" "(j, c') \<in> set cs"
      using that assms(1) by (auto simp: x replies_to_def thread_ready_def)
    then have "later cs j < later cs i" by (intro later_less [where x = "(j, c')"]) auto
    then show ?thesis using Suc by (simp add: x)
  qed
  then show ?case by simp
qed

definition thread_mset :: "(int \<times> comment) list \<Rightarrow> int \<times> comment \<Rightarrow> (int \<times> comment) multiset" where
  "thread_mset cs x = mset (thread_comments (thread_of (length cs) cs x))"

lemma mset_concat_map: "mset (concat (map f xs)) = (\<Sum>x\<leftarrow>xs. mset (f x))"
  by (induction xs) auto

lemma thread_mset_unfold:
  assumes "thread_ready cs" "x \<in> set cs"
  shows "thread_mset cs x = {#x#} + (\<Sum>y\<leftarrow>replies_to cs (fst x). thread_mset cs y)"
proof -
  obtain i c where x: "x = (i, c)" by (cases x)
  have "later cs i \<le> length cs" by (simp add: later_def)
  then have "thread_of (length cs) cs x = thread_of (Suc (length cs)) cs x"
    using thread_fuel [OF assms(1)] by (simp add: x)
  then show ?thesis
    by (simp add: thread_mset_def x mset_concat_map comp_def del: thread_of.simps(1))
qed

lemma threads_partition:
  assumes "thread_ready cs"
  shows "mset (concat (map thread_comments (threads cs))) = mset cs"
proof -
  let ?T = "thread_mset cs" and ?R = "\<lambda>x. parent_of (snd x) = None"
  have d: "distinct cs" and inj: "inj_on fst (set cs)"
    using assms by (auto simp: thread_ready_def distinct_map)
  have replies: "(\<Sum>y\<leftarrow>replies_to cs i. ?T y) = (\<Sum>y\<in>set cs. if parent_of (snd y) = Some i then ?T y else {#})" for i
    using d by (simp add: replies_to_def sum_list_distinct_conv_sum_set sum.inter_filter case_prod_unfold)
  have one: "(\<Sum>x\<in>set cs. if parent_of (snd y) = Some (fst x) then ?T y else {#}) = (if ?R y then {#} else ?T y)"
    if "y \<in> set cs" for y
  proof (cases "parent_of (snd y)")
    case (Some p)
    then have "p \<in> fst ` set cs"
      using assms that unfolding thread_ready_def by blast
    then obtain z where z: "z \<in> set cs" "fst z = p" by blast
    have "(\<Sum>x\<in>set cs. if parent_of (snd y) = Some (fst x) then ?T y else {#})
        = (\<Sum>x\<in>set cs. if x = z then ?T y else {#})"
      using Some z inj by (intro sum.cong) (auto simp: inj_on_def)
    then show ?thesis using z Some by simp
  qed simp
  have "(\<Sum>x\<in>set cs. ?T x) = (\<Sum>x\<in>set cs. {#x#} + (\<Sum>y\<leftarrow>replies_to cs (fst x). ?T y))"
    by (rule sum.cong) (simp_all add: thread_mset_unfold [OF assms])
  also have "\<dots> = (\<Sum>x\<in>set cs. {#x#}) + (\<Sum>x\<in>set cs. \<Sum>y\<in>set cs. if parent_of (snd y) = Some (fst x) then ?T y else {#})"
    by (simp only: sum.distrib replies)
  also have "(\<Sum>x\<in>set cs. \<Sum>y\<in>set cs. if parent_of (snd y) = Some (fst x) then ?T y else {#})
      = (\<Sum>y\<in>set cs. if ?R y then {#} else ?T y)"
    by (subst sum.swap) (simp add: one)
  also have "(\<Sum>x\<in>set cs. {#x#}) = mset cs"
    using d by (induction cs) auto
  also have "(\<Sum>x\<in>set cs. ?T x) = (\<Sum>x\<in>set cs. if ?R x then ?T x else {#}) + (\<Sum>y\<in>set cs. if ?R y then {#} else ?T y)"
    unfolding sum.distrib [symmetric] by (rule sum.cong) auto
  finally have "(\<Sum>x\<in>set cs. if ?R x then ?T x else {#}) = mset cs" by simp
  moreover have "mset (concat (map thread_comments (threads cs))) = (\<Sum>x\<in>set cs. if ?R x then ?T x else {#})"
    using d by (simp add: threads_def mset_concat_map comp_def thread_mset_def [symmetric]
        sum_list_distinct_conv_sum_set sum.inter_filter case_prod_unfold)
  ultimately show ?thesis by simp
qed

lemma task_comments_mset:
  "scan_ok scan \<Longrightarrow> board_ok (dbase w) \<Longrightarrow>
   mset (task_comments scan tid w) = mset (tbl_select (\<lambda>c. com_task_id c = tid) (comments (dbase w)))"
  by (simp add: task_comments_def order_asc_def mset_scan_rows distinct_select board_ok_def)

lemma comments_board_ok: "board_ok d \<Longrightarrow> x \<in> set (rows (comments d)) \<Longrightarrow> comment_ok d x"
  by (simp add: board_ok_def)

lemma task_comments_ready:
  assumes "scan_ok scan" "board_ok (dbase w)"
  shows "thread_ready (task_comments scan tid w)"
proof -
  let ?cs = "task_comments scan tid w" and ?sel = "tbl_select (\<lambda>c. com_task_id c = tid) (comments (dbase w))"
  have m: "mset ?cs = mset ?sel" using task_comments_mset [OF assms] .
  have "mset (map fst ?cs) = mset (map fst ?sel)" using m by simp
  then have "distinct (map fst ?cs)"
    using distinct_select [of "comments (dbase w)"] assms(2) mset_eq_imp_distinct_iff
    by (simp add: board_ok_def del: mset_map) blast
  moreover have set: "set ?cs = set ?sel" using m by (metis set_mset_mset)
  have "p < fst x \<and> p \<in> fst ` set ?cs" if "x \<in> set ?cs" "parent_of (snd x) = Some p" for x p
  proof -
    have x: "x \<in> set (rows (comments (dbase w)))" "com_task_id (snd x) = tid"
      using that(1) unfolding set by (auto simp: tbl_select_def)
    have "com_parent_id (snd x) = Some p" using that(2) by (auto simp: parent_of_def split: if_splits)
    then obtain c where "p < fst x" "(p, c) \<in> set (rows (comments (dbase w)))" "com_task_id c = tid"
      using comments_board_ok [OF assms(2) x(1)] x(2) by (auto simp: comment_ok_iff)
    then show ?thesis unfolding set by (force simp: tbl_select_def)
  qed
  ultimately show ?thesis by (auto simp: thread_ready_def)
qed

text \<open>
  The comment threads lose and repeat nothing: in the answer to a request for the
  comments of a task every comment of the task stands exactly once, however deep it is
  nested, and the total is the number of comments.
\<close>

theorem threads_complete:
  assumes "scan_ok scan" "board_ok (dbase w)"
  shows "mset (concat (map thread_comments (threads (task_comments scan tid w))))
    = mset (tbl_select (\<lambda>c. com_task_id c = tid) (comments (dbase w)))"
  using threads_partition [OF task_comments_ready [OF assms]] task_comments_mset [OF assms] by simp


definition sample_comment :: "int option \<Rightarrow> comment" where
  "sample_comment p = \<lparr>com_task_id = 1, com_author = ''bo'', com_content = ''hi @cy'', com_created_at = 3,
     com_parent_id = p, com_mentions = Some [''cy'']\<rparr>"

definition sample_threads :: world where
  "sample_threads = sample_board\<lparr>dbase := (dbase sample_board)\<lparr>comments :=
     tbl_insert (sample_comment (Some 2)) (tbl_insert (sample_comment (Some 1))
       (tbl_insert (sample_comment None) tbl_empty))\<rparr>\<rparr>"

theorem threads_complete_witness:
  "mset (concat (map thread_comments (threads (task_comments (\<lambda>xs. xs) 1 sample_threads))))
    = {#(1, sample_comment None), (2, sample_comment (Some 1)), (3, sample_comment (Some 2))#}"
proof -
  have "board_ok (dbase sample_threads)" by code_simp
  moreover have "tbl_select (\<lambda>c. com_task_id c = 1) (comments (dbase sample_threads))
      = [(1, sample_comment None), (2, sample_comment (Some 1)), (3, sample_comment (Some 2))]"
    by code_simp
  ultimately show ?thesis using threads_complete [OF scan_ok_id, of sample_threads 1] by simp
qed

section \<open>Integrity\<close>

text \<open>
  Claim C7. Integrity of the board: along any sequence of requests, with whatever bodies and
  by whomever, ids stay unique, a task has at most one subscription per agent, and every
  comment, subscription and review belongs to an existing task; a reply answers an earlier
  comment of its own task.
\<close>

theorem board_integrity:
  assumes "board_ok (dbase w)"
  shows "board_ok (dbase (fold (task_step scan oc e) xs w))"
  using assms by (rule task_board.run_inv)

theorem board_integrity_witness:
  "board_ok (dbase (fold (task_step (\<lambda>xs. xs) (\<lambda>_. True) sample_env)
     [(6000, admin_request, PutTask ''1'' (VData to_done)), (7000, admin_request, DeleteTask ''1'')] sample_threads))"
  by (rule board_integrity) code_simp

section \<open>Moving in bulk\<close>

definition moved :: "(int \<times> task_status) list \<Rightarrow> int \<Rightarrow> int \<Rightarrow> task \<Rightarrow> task" where
  "moved xs now i t = (case map_of (rev xs) i of None \<Rightarrow> t
     | Some s \<Rightarrow> t\<lparr>task_status := s, task_updated_at := now\<rparr>)"

definition unapproved :: "(int list \<Rightarrow> int list) \<Rightarrow> world \<Rightarrow> int \<times> task_status \<Rightarrow> bool" where
  "unapproved scan w x \<longleftrightarrow> snd x = Done \<and> \<not> has_aegis_approval scan (fst x) w"

lemma now_s_move_task [simp]: "now_s (move_task tid s w) = now_s w"
  by (simp add: move_task_def now_s_def)

lemma tbl_get_move_task:
  "tbl_get (tasks (dbase (move_task tid s w))) i = map_option (moved [(tid, s)] (now_s w) i) (tbl_get (tasks (dbase w)) i)"
  by (cases "i = tid"; cases "tbl_get (tasks (dbase w)) i") (simp_all add: move_task_def tbl_simps moved_def)

lemma moved_Nil [simp]: "moved [] now i = (\<lambda>t. t)"
  by (simp add: moved_def fun_eq_iff)

lemma moved_Cons: "moved xs now i (moved [(tid, s)] now i t) = moved ((tid, s) # xs) now i t"
  by (auto simp: moved_def map_of_append [symmetric] map_add_def split: option.splits)

lemma bulk_loop_result:
  "(case snd (bulk_loop scan actor xs w) of
      None \<Rightarrow> \<not> list_ex (unapproved scan w) xs \<and>
        (\<forall>i. tbl_get (tasks (dbase (fst (bulk_loop scan actor xs w)))) i
           = map_option (moved xs (now_s w) i) (tbl_get (tasks (dbase w)) i))
    | Some tid \<Rightarrow> list_ex (unapproved scan w) xs)"
proof (induction scan actor xs w rule: bulk_loop.induct)
  case (1 scan actor w)
  then show ?case by (simp add: option.map_ident)
next
  case (2 scan actor tid s xs w)
  let ?w2 = "log_move tid actor (tbl_get (tasks (dbase w)) tid) s (move_task tid s w)"
  show ?case
  proof (cases "s = Done \<and> \<not> has_aegis_approval scan tid w")
    case False
    have "unapproved scan ?w2 = unapproved scan w"
      using has_aegis_approval_reviews [of ?w2 w scan] by (auto simp: unapproved_def fun_eq_iff)
    moreover have "moved xs now i \<circ> moved [(tid, s)] now i = moved ((tid, s) # xs) now i" for now i
      by (simp add: fun_eq_iff moved_Cons)
    ultimately show ?thesis
      using 2 [OF refl] False
      by (auto simp: Let_def unapproved_def tbl_get_move_task option.map_comp split: option.splits)
  qed (simp add: Let_def unapproved_def)
qed

text \<open>
  Claim C34. A bulk move is all or nothing: if one of the moves is to done without approval,
  the answer is 403 and the database is as before, though earlier moves of the batch were
  already announced on the bus; otherwise every task has the last status the batch gives it
  and all others are untouched.
\<close>

theorem bulk_all_or_nothing:
  "(if list_ex (unapproved scan w) xs
    then resp_status (snd (bulk_update_with scan user xs w)) = 403 \<and>
         dbase (fst (bulk_update_with scan user xs w)) = dbase w
    else resp_status (snd (bulk_update_with scan user xs w)) = 200 \<and>
         (\<forall>i. tbl_get (tasks (dbase (fst (bulk_update_with scan user xs w)))) i
            = map_option (moved xs (now_s w) i) (tbl_get (tasks (dbase w)) i)))"
  using bulk_loop_result [where scan = scan and actor = "au_username user" and xs = xs and w = w]
  by (cases "bulk_loop scan (au_username user) xs w"; cases "snd (bulk_loop scan (au_username user) xs w)")
    (auto simp: bulk_update_with_def bulk_transaction_def)


section \<open>Notifying the subscribers\<close>

lemma set_js_set [simp]: "set (js_set xs) = set xs"
  by (induction xs) auto

lemma distinct_js_set [simp]: "distinct (js_set xs)"
  by (induction xs) auto

lemma notify_fold_rows:
  "\<exists>new. rows (notifications (dbase (fold (notify_comment author title content ms cid) ss w)))
       = rows (notifications (dbase w)) @ new \<and>
     map (\<lambda>x. (ntf_recipient (snd x), ntf_type (snd x), ntf_source_id (snd x))) new
       = map (\<lambda>s. (s, if s \<in> set ms then ''mention'' else ''comment'', Some cid)) ss"
proof (induction ss arbitrary: w)
  case (Cons s ss)
  obtain n where n: "rows (notifications (dbase (notify_comment author title content ms cid s w)))
      = rows (notifications (dbase w)) @ [n]"
    "(ntf_recipient (snd n), ntf_type (snd n), ntf_source_id (snd n))
      = (s, if s \<in> set ms then ''mention'' else ''comment'', Some cid)"
    by (simp add: notify_comment_def Let_def tbl_simps notification_row_def)
  with Cons [of "notify_comment author title content ms cid s w"] show ?case
    by (auto intro!: exI [of _ "n # _"])
qed simp

lemma subscribe_fold_iff:
  "is_subscribed t n (fold (ensure_subscription tid) ns w) \<longleftrightarrow>
     is_subscribed t n w \<or> (t = tid \<and> n \<noteq> [] \<and> n \<in> set ns)"
  by (induction ns arbitrary: w) (auto simp: ensure_subscription_subscribed)

lemma subscribe_all_iff:
  "is_subscribed tid n (subscribe_all tid author ms assigned w) \<longleftrightarrow>
     is_subscribed tid n w \<or> (n \<noteq> [] \<and> (n = author \<or> n \<in> set ms \<or> assigned = Some n))"
  by (cases "str_or_null assigned")
    (auto simp: subscribe_all_def Let_def ensure_subscription_subscribed subscribe_fold_iff str_or_null_def
      split: option.splits if_splits)

lemma notifications_subscribe_all [simp]:
  "notifications (dbase (subscribe_all tid author ms a w)) = notifications (dbase w)"
proof -
  have "notifications (dbase (fold (ensure_subscription tid) ns w)) = notifications (dbase w)" for ns w
    by (induction ns arbitrary: w) simp_all
  then show ?thesis by (simp add: subscribe_all_def Let_def split: option.splits)
qed

lemma record_comment_notifications:
  fixes tid t b w
  defines "ms \<equiv> parse_mentions (cb_content b)" and "author \<equiv> com_author (new_comment tid b (now_s w))"
  shows "\<exists>new. rows (notifications (dbase (record_comment tid t b w))) = rows (notifications (dbase w)) @ new \<and>
     distinct (map (ntf_recipient \<circ> snd) new) \<and>
     (\<forall>s. s \<in> set (map (ntf_recipient \<circ> snd) new) \<longleftrightarrow> s \<noteq> author \<and>
        (is_subscribed tid s w \<or> (s \<noteq> [] \<and> (s \<in> set ms \<or> task_assigned_to t = Some s)))) \<and>
     list_all (\<lambda>x. ntf_type (snd x) = (if ntf_recipient (snd x) \<in> set ms then ''mention'' else ''comment'')
        \<and> ntf_source_id (snd x) = Some (tbl_last_id (comments (dbase w)))) new"
proof -
  define cid where "cid = tbl_last_id (comments (dbase w))"
  define w2 where "w2 = log_comment tid t b w"
  have w2: "notifications (dbase w2) = notifications (dbase w)" "subscriptions (dbase w2) = subscriptions (dbase w)"
    by (simp_all add: w2_def log_comment_def Let_def insert_comment_def)
  have rec: "record_comment tid t b w = fold (notify_comment author (task_title t) (cb_content b) ms cid)
      (comment_recipients tid author (subscribe_all tid author ms (task_assigned_to t) w2))
      (subscribe_all tid author ms (task_assigned_to t) w2)"
    by (simp add: record_comment_def Let_def ms_def author_def cid_def w2_def)
  define ss where "ss = comment_recipients tid author (subscribe_all tid author ms (task_assigned_to t) w2)"
  obtain new where new': "rows (notifications (dbase (record_comment tid t b w)))
        = rows (notifications (dbase (subscribe_all tid author ms (task_assigned_to t) w2))) @ new"
    and m: "map (\<lambda>x. (ntf_recipient (snd x), ntf_type (snd x), ntf_source_id (snd x))) new
       = map (\<lambda>s. (s, if s \<in> set ms then ''mention'' else ''comment'', Some cid)) ss"
    using notify_fold_rows [of author "task_title t" "cb_content b" ms cid ss
        "subscribe_all tid author ms (task_assigned_to t) w2"]
    unfolding rec ss_def [symmetric] by (elim exE conjE)
  then have new: "rows (notifications (dbase (record_comment tid t b w))) = rows (notifications (dbase w)) @ new"
    by (simp add: w2)
  from arg_cong [OF m, of "map fst"] have r: "map (ntf_recipient \<circ> snd) new = ss"
    by (simp add: comp_def)
  have "is_subscribed tid s w2 = is_subscribed tid s w" for s
    by (simp add: is_subscribed_def w2)
  then have "s \<in> set ss \<longleftrightarrow> s \<noteq> author \<and>
      (is_subscribed tid s w \<or> (s \<noteq> [] \<and> (s \<in> set ms \<or> task_assigned_to t = Some s)))" for s
    by (auto simp: ss_def comment_recipients_def get_task_subscribers_iff subscribe_all_iff)
  moreover have "distinct ss" by (simp add: ss_def comment_recipients_def)
  moreover have "ntf_type (snd x) = (if ntf_recipient (snd x) \<in> set ms then ''mention'' else ''comment'')
        \<and> ntf_source_id (snd x) = Some cid" if "x \<in> set new" for x
  proof -
    have "(ntf_recipient (snd x), ntf_type (snd x), ntf_source_id (snd x))
        \<in> set (map (\<lambda>s. (s, if s \<in> set ms then ''mention'' else ''comment'', Some cid)) ss)"
      using that unfolding m [symmetric] by auto
    then show ?thesis by auto
  qed
  ultimately have "\<forall>s. s \<in> set ss \<longleftrightarrow> s \<noteq> author \<and>
      (is_subscribed tid s w \<or> (s \<noteq> [] \<and> (s \<in> set ms \<or> task_assigned_to t = Some s)))"
    "distinct ss"
    "list_all (\<lambda>x. ntf_type (snd x) = (if ntf_recipient (snd x) \<in> set ms then ''mention'' else ''comment'')
        \<and> ntf_source_id (snd x) = Some (tbl_last_id (comments (dbase w)))) new"
    unfolding list_all_iff cid_def by blast+
  with new show ?thesis unfolding r [symmetric] by blast
qed

text \<open>
  Who hears of a comment: an accepted comment notifies exactly the people who follow
  the task by then (those subscribed before, those the comment mentions, the assignee),
  except the author, and each of them exactly once; the notification is a mention for those
  named in the text and a comment for the others.
\<close>

theorem comment_notifies:
  assumes "add_comment_with id_text (VData b) w = (w', Reply s j)"
  shows "\<exists>tid t new. parse_int id_text = Some tid \<and> tbl_get (tasks (dbase w)) tid = Some t \<and>
     rows (notifications (dbase w')) = rows (notifications (dbase w)) @ new \<and>
     distinct (map (ntf_recipient \<circ> snd) new) \<and>
     (\<forall>s. s \<in> set (map (ntf_recipient \<circ> snd) new) \<longleftrightarrow> s \<noteq> com_author (new_comment tid b (now_s w)) \<and>
        (is_subscribed tid s w \<or> (s \<noteq> [] \<and> (s \<in> set (parse_mentions (cb_content b)) \<or> task_assigned_to t = Some s)))) \<and>
     list_all (\<lambda>x. ntf_type (snd x) =
        (if ntf_recipient (snd x) \<in> set (parse_mentions (cb_content b)) then ''mention'' else ''comment'')) new"
proof -
  obtain tid t where t: "parse_int id_text = Some tid" "tbl_get (tasks (dbase w)) tid = Some t"
      "w' = record_comment tid t b w"
    using assms by (auto simp: add_comment_with_def with_body_def split: option.splits if_splits)
  then show ?thesis
    using record_comment_notifications [of tid t b w] unfolding list_all_iff by blast
qed

definition sample_comment_body :: comment_body where
  "sample_comment_body = \<lparr>cb_content = ''@cy @cy see @ada'', cb_author = Some ''ada'', cb_parent_id = None\<rparr>"

theorem comment_notifies_witness:
  "\<exists>w' j new. add_comment_with ''1'' (VData sample_comment_body) sample_board = (w', Reply 201 j) \<and>
     rows (notifications (dbase w')) = rows (notifications (dbase sample_board)) @ new \<and>
     set (map (ntf_recipient \<circ> snd) new) = {''bo'', ''cy''}"
proof -
  obtain w' a where run: "add_comment_with ''1'' (VData sample_comment_body) sample_board = (w', a)"
    by fastforce
  have "resp_status (snd (add_comment_with ''1'' (VData sample_comment_body) sample_board)) = 201"
    by code_simp
  then obtain j where a: "a = Reply 201 j"
    using run by (auto simp: add_comment_with_def with_body_def split: option.splits if_splits)
  have p: "parse_int ''1'' = Some 1" and g: "tbl_get (tasks (dbase sample_board)) 1 = Some sample_task"
    and m: "parse_mentions (cb_content sample_comment_body) = [''cy'', ''cy'', ''ada'']"
    and "rows (subscriptions (dbase sample_board)) = []"
    by code_simp+
  then have s: "\<not> is_subscribed 1 x sample_board" for x
    by (simp add: is_subscribed_iff)
  obtain tid t new where n: "parse_int ''1'' = Some tid" "tbl_get (tasks (dbase sample_board)) tid = Some t"
     "rows (notifications (dbase w')) = rows (notifications (dbase sample_board)) @ new"
     "\<forall>s. s \<in> set (map (ntf_recipient \<circ> snd) new) \<longleftrightarrow>
        s \<noteq> com_author (new_comment tid sample_comment_body (now_s sample_board)) \<and>
        (is_subscribed tid s sample_board \<or> (s \<noteq> [] \<and>
          (s \<in> set (parse_mentions (cb_content sample_comment_body)) \<or> task_assigned_to t = Some s)))"
    using comment_notifies [OF run [unfolded a]] by (elim exE conjE)
  have "com_author (new_comment 1 sample_comment_body now) = ''ada''" for now
    by (simp add: new_comment_def sample_comment_body_def)
  moreover have "task_assigned_to sample_task = Some ''bo''" by (simp add: sample_task_def)
  moreover have "tid = 1" "t = sample_task" using n(1,2) p g by auto
  ultimately have "set (map (ntf_recipient \<circ> snd) new) = {''bo'', ''cy''}"
    using n(4) by (auto simp: m s set_eq_iff)
  then show ?thesis using run a n(3) by auto
qed

section \<open>Creation, deletion, latest review\<close>

text \<open>
  What deletion removes: the task and exactly its comments, subscriptions and
  reviews; every other row of the four tables stays as it was, and the activity stream
  records the deletion.
\<close>

theorem delete_cascades:
  assumes "board_ok (dbase w)" "parse_int id_text = Some tid" "tbl_get (tasks (dbase w)) tid = Some t"
    and "delete_task_with e r id_text w = (w', a)"
  shows "tasks (dbase w') = tbl_delete tid (tasks (dbase w)) \<and>
     rows (comments (dbase w')) = filter (\<lambda>(i, c). com_task_id c \<noteq> tid) (rows (comments (dbase w))) \<and>
     rows (subscriptions (dbase w')) = filter (\<lambda>(i, s). sub_task_id s \<noteq> tid) (rows (subscriptions (dbase w))) \<and>
     rows (reviews (dbase w')) = filter (\<lambda>(i, q). qr_task_id q \<noteq> tid) (rows (reviews (dbase w))) \<and>
     length (rows (activities (dbase w'))) = Suc (length (rows (activities (dbase w)))) \<and> resp_status a = 200"
  using assms(2-) by (auto simp: delete_task_with_def Let_def delete_task_rows_db [OF assms(1)]
      tbl_delete_where_def tbl_simps)

theorem delete_cascades_witness:
  "rows (comments (dbase (fst (delete_task_with sample_env admin_request ''1'' sample_threads)))) = []
   \<and> rows (comments (dbase sample_threads)) \<noteq> []"
proof -
  have ok: "board_ok (dbase sample_threads)" and p: "parse_int ''1'' = Some 1"
    and g: "tbl_get (tasks (dbase sample_threads)) 1 = Some sample_task"
    and f: "filter (\<lambda>(i, c). com_task_id c \<noteq> 1) (rows (comments (dbase sample_threads))) = []"
    and n: "rows (comments (dbase sample_threads)) \<noteq> []"
    by code_simp+
  obtain w' a where run: "delete_task_with sample_env admin_request ''1'' sample_threads = (w', a)"
    by fastforce
  from delete_cascades [OF ok p g run] show ?thesis using f n by (simp add: run)
qed

lemma get_task_subscribers_ensure:
  "get_task_subscribers tid (ensure_subscription tid n w) =
     (if n = [] \<or> n \<in> set (get_task_subscribers tid w) then get_task_subscribers tid w
      else get_task_subscribers tid w @ [n])"
  unfolding get_task_subscribers_iff
  by (simp add: ensure_subscription_def get_task_subscribers_def tbl_simps)

lemma get_task_subscribers_cong:
  "subscriptions (dbase w') = subscriptions (dbase w) \<Longrightarrow> get_task_subscribers tid w' = get_task_subscribers tid w"
  by (simp add: get_task_subscribers_def)

lemma broadcast_subs: "subscriptions (dbase (broadcast ty d w)) = subscriptions (dbase w)"
  by simp

lemma notify_assignment_effect:
  "get_task_subscribers tid (notify_assignment tid title a w) =
     (case str_or_null a of None \<Rightarrow> get_task_subscribers tid w
      | Some x \<Rightarrow> get_task_subscribers tid (ensure_subscription tid x w)) \<and>
   map (ntf_recipient \<circ> snd) (rows (notifications (dbase (notify_assignment tid title a w)))) =
     map (ntf_recipient \<circ> snd) (rows (notifications (dbase w))) @
     (case str_or_null a of None \<Rightarrow> [] | Some x \<Rightarrow> [x])"
  by (cases "str_or_null a")
    (simp_all add: notify_assignment_def tbl_simps notification_row_def get_task_subscribers_def
      del: str_or_null_Some_iff)

lemma no_subscribers_of_fresh:
  assumes "board_ok (dbase w)"
  shows "get_task_subscribers (next_id (tasks (dbase w))) w = []"
proof -
  have "sub_task_id (snd x) \<noteq> next_id (tasks (dbase w))" if "x \<in> set (rows (subscriptions (dbase w)))" for x
    using assms that tbl_get_fresh [of "tasks (dbase w)"] unfolding board_ok_def by metis
  then show ?thesis
    by (force simp: get_task_subscribers_def tbl_select_def filter_empty_conv)
qed

lemma tbl_find_Some_iff: "tbl_find P t \<noteq> None \<longleftrightarrow> (\<exists>x \<in> set (rows t). P (snd x))"
  unfolding tbl_find_None_iff by force

lemma create_task_result:
  assumes "board_ok (dbase w)"
  shows "(if \<exists>x \<in> set (rows (tasks (dbase w))). task_title (snd x) = ct_title b
     then fst (create_task_with user b w) = w \<and> resp_status (snd (create_task_with user b w)) = 409
     else
       (let w' = fst (create_task_with user b w);
            tid = next_id (tasks (dbase w));
            creator = (case ct_created_by b of Some c \<Rightarrow> c | None \<Rightarrow> str_or (au_username user) ''system'')
        in resp_status (snd (create_task_with user b w)) = 201 \<and>
           tasks (dbase w') = tbl_insert (new_task b creator (now_s w)) (tasks (dbase w)) \<and>
           reviews (dbase w') = reviews (dbase w) \<and>
           get_task_subscribers tid w' = js_set (filter (\<lambda>s. s \<noteq> []) (creator # (case ct_assigned_to b of None \<Rightarrow> [] | Some a \<Rightarrow> [a]))) \<and>
           map (ntf_recipient \<circ> snd) (rows (notifications (dbase w'))) =
             map (ntf_recipient \<circ> snd) (rows (notifications (dbase w))) @
             (case str_or_null (ct_assigned_to b) of None \<Rightarrow> [] | Some a \<Rightarrow> [a])))"
proof (cases "\<exists>x \<in> set (rows (tasks (dbase w))). task_title (snd x) = ct_title b")
  case True
  then have "tbl_find (\<lambda>t. task_title t = ct_title b) (tasks (dbase w)) \<noteq> None"
    unfolding tbl_find_Some_iff .
  with True show ?thesis by (simp add: create_task_with_def Let_def)
next
  case False
  define creator where "creator = (case ct_created_by b of Some c \<Rightarrow> c | None \<Rightarrow> str_or (au_username user) ''system'')"
  define tid where "tid = next_id (tasks (dbase w))"
  have none: "tbl_find (\<lambda>t. task_title t = ct_title b) (tasks (dbase w)) = None"
    using False unfolding tbl_find_None_iff by fastforce
  define w1 where "w1 = log_task_created tid creator b (insert_task (new_task b creator (now_s w)) w)"
  define w2 where "w2 = notify_assignment tid (ct_title b) (ct_assigned_to b) (ensure_subscription tid creator w1)"
  define resp where "resp = JObj [(''task'', task_json tid (new_task b creator (now_s w)))]"
  have run: "create_task_with user b w =
     (broadcast ''task.created'' (task_json tid (new_task b creator (now_s w))) w2, Reply 201 resp)"
    by (simp add: create_task_with_def none Let_def tbl_last_id_def creator_def tid_def w1_def w2_def resp_def)
  have w1: "tasks (dbase w1) = tbl_insert (new_task b creator (now_s w)) (tasks (dbase w))"
    "reviews (dbase w1) = reviews (dbase w)" "notifications (dbase w1) = notifications (dbase w)"
    "get_task_subscribers tid w1 = []"
    using no_subscribers_of_fresh [OF assms]
    by (simp_all add: w1_def log_task_created_def insert_task_def tid_def get_task_subscribers_def)
  have "get_task_subscribers tid w2
      = js_set (filter (\<lambda>s. s \<noteq> []) (creator # (case ct_assigned_to b of None \<Rightarrow> [] | Some a \<Rightarrow> [a])))"
    using w1(4) notify_assignment_effect [of tid "ct_title b" "ct_assigned_to b" "ensure_subscription tid creator w1"]
    by (cases "ct_assigned_to b")
      (auto simp: w2_def get_task_subscribers_ensure str_or_null_def split: if_splits)
  moreover have "map (ntf_recipient \<circ> snd) (rows (notifications (dbase w2)))
      = map (ntf_recipient \<circ> snd) (rows (notifications (dbase w)))
        @ (case str_or_null (ct_assigned_to b) of None \<Rightarrow> [] | Some a \<Rightarrow> [a])"
    using notify_assignment_effect [of tid "ct_title b" "ct_assigned_to b" "ensure_subscription tid creator w1"] w1(3)
    by (simp add: w2_def)
  moreover have "tasks (dbase w2) = tbl_insert (new_task b creator (now_s w)) (tasks (dbase w))"
    "reviews (dbase w2) = reviews (dbase w)"
    using w1 by (simp_all add: w2_def)
  ultimately show ?thesis
    unfolding run creator_def [symmetric] tid_def [symmetric] Let_def
    using False by (simp add: get_task_subscribers_cong [OF broadcast_subs])
qed

text \<open>
  Creating a task: refused with 409 exactly when a task has the title already;
  otherwise one row is added with the values of the request, in the very status it names,
  the creator and the assignee are subscribed, and the assignee, if any, gets the one new
  notification.
\<close>

theorem create_task_effect:
  assumes "board_ok (dbase w)"
  shows "(if \<exists>x \<in> set (rows (tasks (dbase w))). task_title (snd x) = ct_title b
     then fst (create_task_with user b w) = w \<and> resp_status (snd (create_task_with user b w)) = 409
     else
       (let w' = fst (create_task_with user b w);
            tid = next_id (tasks (dbase w));
            creator = (case ct_created_by b of Some c \<Rightarrow> c | None \<Rightarrow> str_or (au_username user) ''system'')
        in resp_status (snd (create_task_with user b w)) = 201 \<and>
           tasks (dbase w') = tbl_insert (new_task b creator (now_s w)) (tasks (dbase w)) \<and>
           reviews (dbase w') = reviews (dbase w) \<and>
           get_task_subscribers tid w' = js_set (filter (\<lambda>s. s \<noteq> []) (creator # (case ct_assigned_to b of None \<Rightarrow> [] | Some a \<Rightarrow> [a]))) \<and>
           map (ntf_recipient \<circ> snd) (rows (notifications (dbase w'))) =
             map (ntf_recipient \<circ> snd) (rows (notifications (dbase w))) @
             (case str_or_null (ct_assigned_to b) of None \<Rightarrow> [] | Some a \<Rightarrow> [a])))"
  using assms by (rule create_task_result)

definition sample_create :: create_task_body where
  "sample_create = \<lparr>ct_title = ''New'', ct_description = None, ct_status = Done, ct_priority = Low,
     ct_assigned_to = Some ''bo'', ct_created_by = None, ct_due_date = None, ct_estimated_hours = None,
     ct_tags = [], ct_metadata = JObj []\<rparr>"

theorem create_task_effect_witness:
  "get_task_subscribers 2 (fst (create_task_with api_user sample_create sample_board)) = [''api'', ''bo'']"
proof -
  have "next_id (tasks (dbase sample_board)) = 2"
    and "rows (tasks (dbase sample_board)) = [(1, sample_task)]" by code_simp+
  then show ?thesis
    using create_task_effect [OF sample_board_ok, of sample_create api_user]
    by (simp add: sample_task_def sample_create_def api_user_def str_or_def Let_def)
qed

text \<open>So the gate is not asked at creation: a task can be created done, without any review.\<close>

theorem create_skips_gate:
  assumes "board_ok (dbase w)" "tbl_find (\<lambda>t. task_title t = ct_title b) (tasks (dbase w)) = None"
    and "ct_status b = Done"
  shows "is_done (next_id (tasks (dbase w))) (dbase (fst (create_task_with user b w))) \<and>
     \<not> approved_by_aegis (next_id (tasks (dbase w))) (dbase (fst (create_task_with user b w)))"
proof -
  have "\<not> (\<exists>x \<in> set (rows (tasks (dbase w))). task_title (snd x) = ct_title b)"
    using assms(2) unfolding tbl_find_None_iff by fastforce
  with create_task_result [OF assms(1), of b user]
  have w': "\<exists>c. tasks (dbase (fst (create_task_with user b w))) = tbl_insert (new_task b c (now_s w)) (tasks (dbase w))"
    "reviews (dbase (fst (create_task_with user b w))) = reviews (dbase w)"
    by (auto simp: Let_def)
  have "qr_task_id (snd x) \<noteq> next_id (tasks (dbase w))" if "x \<in> set (rows (reviews (dbase w)))" for x
    using assms(1) that tbl_get_fresh [of "tasks (dbase w)"] unfolding board_ok_def by metis
  then show ?thesis
    using w' assms(1,3)
    by (force simp: is_done_iff tbl_simps tbl_last_id_def board_ok_def new_task_def approved_by_aegis_def)
qed

section \<open>The latest review\<close>

lemma latest_step_apply:
  "latest_step x r i =
     (if qr_task_id (snd x) = i
      then (case r i of None \<Rightarrow> Some (snd x)
            | Some old \<Rightarrow> if qr_created_at (snd x) > qr_created_at old then Some (snd x) else Some old)
      else r i)"
  by (auto simp: latest_step_def Let_def split: option.splits)

lemma fold_latest:
  "(case fold latest_step xs (\<lambda>_. None) i of
      None \<Rightarrow> \<not> list_ex (\<lambda>x. qr_task_id (snd x) = i) xs
    | Some q \<Rightarrow> q \<in> snd ` set xs \<and> qr_task_id q = i \<and>
        list_all (\<lambda>x. qr_task_id (snd x) = i \<longrightarrow> qr_created_at (snd x) \<le> qr_created_at q) xs)"
proof (induction xs rule: rev_induct)
  case (snoc x xs)
  define r where "r = fold latest_step xs (\<lambda>_. None)"
  have step: "fold latest_step (xs @ [x]) (\<lambda>_. None) i = latest_step x r i" by (simp add: r_def)
  show ?case unfolding step using snoc [folded r_def]
    by (cases "r i") (auto simp: latest_step_apply list_all_iff list_ex_iff)
qed simp

lemma latest_reviews_set:
  assumes "scan_ok scan" "tbl_ok (reviews (dbase w))" "i \<in> set ids"
  shows "set (sort_key (\<lambda>(i, q). qr_task_id q) (order_desc scan (\<lambda>(i, q). qr_created_at q)
         (tbl_select (\<lambda>q. qr_task_id q \<in> set ids) (reviews (dbase w)))))
    = {x \<in> set (rows (reviews (dbase w))). qr_task_id (snd x) \<in> set ids}"
  using set_order_desc [OF assms(1) distinct_select [OF assms(2)]] by (auto simp: tbl_select_def)

text \<open>
  The batch query for reviews answers, for each task asked about, null exactly when
  the task has no review, and otherwise a review of the task that none is newer than,
  whatever order the database visits the rows in.
\<close>

theorem latest_review_correct:
  assumes "scan_ok scan" "tbl_ok (reviews (dbase w))" "i \<in> set ids"
  shows "(case latest_reviews scan ids w i of
      None \<Rightarrow> \<not> (\<exists>x \<in> set (rows (reviews (dbase w))). qr_task_id (snd x) = i)
    | Some q \<Rightarrow> q \<in> snd ` set (rows (reviews (dbase w))) \<and> qr_task_id q = i \<and>
        (\<forall>x \<in> set (rows (reviews (dbase w))). qr_task_id (snd x) = i \<longrightarrow> qr_created_at (snd x) \<le> qr_created_at q))"
  using fold_latest [where i = i and xs = "sort_key (\<lambda>(i, q). qr_task_id q) (order_desc scan (\<lambda>(i, q). qr_created_at q)
         (tbl_select (\<lambda>q. qr_task_id q \<in> set ids) (reviews (dbase w))))"] assms(3)
  unfolding latest_reviews_def list_all_iff list_ex_iff latest_reviews_set [OF assms]
  by (force split: option.splits)

theorem latest_review_correct_witness:
  "latest_reviews (\<lambda>xs. xs) [1, 2] sample_board 1 = Some sample_review \<and> latest_reviews (\<lambda>xs. xs) [1, 2] sample_board 2 = None"
proof -
  have ok: "tbl_ok (reviews (dbase sample_board))" using sample_board_ok by (simp add: board_ok_def)
  have l: "latest_reviews (\<lambda>xs. xs) [1, 2] sample_board 1 = Some sample_review"
    "rows (reviews (dbase sample_board)) = [(1, sample_review)]"
    "latest_reviews (\<lambda>xs. xs) [1, 2] sample_board 2 = None"
    by code_simp+
  show ?thesis using latest_review_correct [OF scan_ok_id ok, of 1 "[1, 2]"] l by simp
qed

end
