(* ===== verification/Js_Numbers.thy ===== *)
theory Js_Numbers
  imports Js_Values
begin

text \<open>
  Numbers and dates of the standard library: \<open>Number(x)\<close>, and \<open>Date.toISOString\<close> in the
  proleptic Gregorian calendar.
\<close>

section \<open>Number\<close>

text \<open>
  \<open>Number(s)\<close> for a string: white space around it is dropped, the empty string is 0;
  decimal notation with fraction and exponent, or \<open>0x\<close>; anything else is \<open>NaN\<close>.
\<close>

definition all_digits :: "string \<Rightarrow> bool" where
  "all_digits s = list_all (\<lambda>c. digit_val c \<noteq> None) s"

definition digits_value :: "string \<Rightarrow> nat" where
  "digits_value s = foldl (\<lambda>n c. n * 10 + the (digit_val c)) 0 s"

text \<open>Digits, then an optional fraction; at least one digit in all.\<close>

definition mantissa :: "string \<Rightarrow> rat option" where
  "mantissa s =
     (let i = takeWhile (\<lambda>c. digit_val c \<noteq> None) s;
          r = drop (length i) s;
          f = (case r of [] \<Rightarrow> [] | c # cs \<Rightarrow> cs)
      in if (r = [] \<and> i \<noteq> []) \<or> (r \<noteq> [] \<and> hd r = CHR ''.'' \<and> all_digits f \<and> (i \<noteq> [] \<or> f \<noteq> []))
         then Some (of_nat (digits_value (i @ f)) / 10 ^ length f)
         else None)"

definition exponent :: "string \<Rightarrow> int option" where
  "exponent s =
     (case s of [] \<Rightarrow> None
      | c # cs \<Rightarrow>
          let ds = (if c = CHR ''-'' \<or> c = CHR ''+'' then cs else s)
          in if ds \<noteq> [] \<and> all_digits ds
             then Some (if c = CHR ''-'' then - int (digits_value ds) else int (digits_value ds))
             else None)"

definition unsigned_number :: "string \<Rightarrow> rat option" where
  "unsigned_number s =
     (let m = takeWhile (\<lambda>c. c \<noteq> CHR ''e'' \<and> c \<noteq> CHR ''E'') s;
          e = drop (length m) s
      in case mantissa m of None \<Rightarrow> None
         | Some q \<Rightarrow>
             if e = [] then Some q
             else (case exponent (tl e) of None \<Rightarrow> None
                   | Some k \<Rightarrow> Some (if 0 \<le> k then q * 10 ^ nat k else q / 10 ^ nat (- k))))"

definition string_number :: "string \<Rightarrow> rat option" where
  "string_number s =
     (let t = js_trim s in
      case t of [] \<Rightarrow> Some 0
      | c # cs \<Rightarrow>
          if starts_with ''0x'' t \<or> starts_with ''0X'' t
          then (if drop 2 t \<noteq> [] \<and> list_all (\<lambda>c. hex_val c \<noteq> None) (drop 2 t)
                then Some (of_nat (foldl (\<lambda>n c. n * 16 + the (hex_val c)) 0 (drop 2 t))) else None)
          else if c = CHR ''-'' then map_option uminus (unsigned_number cs)
          else if c = CHR ''+'' then unsigned_number cs
          else unsigned_number t)"

text \<open>\<open>Number(v)\<close>; arrays and objects count as \<open>NaN\<close>.\<close>

fun number_of :: "json \<Rightarrow> rat option" where
  "number_of JNull = Some 0"
| "number_of (JBool b) = Some (if b then 1 else 0)"
| "number_of (JNum n) = Some n"
| "number_of (JStr s) = string_number s"
| "number_of (JArr _) = None"
| "number_of (JObj _) = None"

text \<open>A text compared with a numeric column of SQLite: the number it spells, not in hexadecimal.\<close>

definition sql_number :: "string \<Rightarrow> rat option" where
  "sql_number t = (if js_trim t = [] \<or> list_ex (\<lambda>c. c = CHR ''x'' \<or> c = CHR ''X'') t then None else string_number t)"

section \<open>Dates\<close>

text \<open>Year, month and day of a number of days since 1970-01-01.\<close>

definition civil_date :: "int \<Rightarrow> int \<times> int \<times> int" where
  "civil_date days =
     (let z = days + 719468;
          era = z div 146097;
          doe = z mod 146097;
          yoe = (doe - doe div 1460 + doe div 36524 - doe div 146096) div 365;
          doy = doe - (365 * yoe + yoe div 4 - yoe div 100);
          mp = (5 * doy + 2) div 153;
          d = doy - (153 * mp + 2) div 5 + 1;
          m = (if mp < 10 then mp + 3 else mp - 9)
      in (yoe + era * 400 + (if m \<le> 2 then 1 else 0), m, d))"

definition pad :: "nat \<Rightarrow> int \<Rightarrow> string" where
  "pad k n = (let t = show_int n in replicate (k - length t) (CHR ''0'') @ t)"

text \<open>\<open>new Date(ms).toISOString()\<close> for the years 0 to 9999.\<close>

definition iso_string :: "int \<Rightarrow> string" where
  "iso_string ms =
     (case civil_date (ms div 86400000) of (y, m, d) \<Rightarrow>
        let t = ms mod 86400000
        in pad 4 y @ ''-'' @ pad 2 m @ ''-'' @ pad 2 d @ ''T'' @ pad 2 (t div 3600000) @ '':'' @
           pad 2 (t div 60000 mod 60) @ '':'' @ pad 2 (t div 1000 mod 60) @ ''.'' @ pad 3 (t mod 1000) @ ''Z'')"

end
