(* ===== verification/Provisioning.thy ===== *)
theory Provisioning
  imports Tasks Js_Numbers
begin

text \<open>
  Tenant provisioning: \<open>lib/super-admin.ts\<close>, the client of the provisioner daemon
  \<open>lib/provisioner-client.ts\<close>, and the routes under \<open>app/api/super\<close>. A thrown error is the
  left value of a sum. The run of a job is cut where the code awaits: beginning it,
  one iteration of the loop over the plan, and its end are operations of their own, so
  other requests may come in between. What the commands do is a parameter.
\<close>

section \<open>Ids and paths\<close>

text \<open>\<open>Number(params.id)\<close> with \<open>Number.isInteger(id) && id > 0\<close>.\<close>

definition route_id :: "string \<Rightarrow> int option" where
  "route_id s =
     (case string_number s of None \<Rightarrow> None
      | Some q \<Rightarrow> (case row_id q of None \<Rightarrow> None | Some i \<Rightarrow> if 0 < i then Some i else None))"

text \<open>\<open>path.posix.join\<close>.\<close>

fun norm_segments :: "bool \<Rightarrow> string list \<Rightarrow> string list \<Rightarrow> string list" where
  "norm_segments absolute acc [] = rev acc"
| "norm_segments absolute acc (s # ss) =
     (if s = [] \<or> s = ''.'' then norm_segments absolute acc ss
      else if s = ''..'' then
        (case acc of
           [] \<Rightarrow> norm_segments absolute (if absolute then [] else [''..'']) ss
         | a # as \<Rightarrow> if a = ''..'' then norm_segments absolute (''..'' # acc) ss
                     else norm_segments absolute as ss)
      else norm_segments absolute (s # acc) ss)"

definition path_normalize :: "string \<Rightarrow> string" where
  "path_normalize p =
     (let absolute = starts_with ''/'' p;
          trail = (if ends_with ''/'' p then ''/'' else []);
          b = join_with ''/'' (norm_segments absolute [] (split_on (CHR ''/'') p))
      in if b = [] then (if absolute then ''/'' else ''.'' @ trail)
         else (if absolute then ''/'' else []) @ b @ trail)"

definition path_join :: "string list \<Rightarrow> string" where
  "path_join ps =
     (let j = join_with ''/'' (filter (\<lambda>p. p \<noteq> []) ps)
      in if j = [] then ''.'' else path_normalize j)"

definition strip_slashes :: "string \<Rightarrow> string" where
  "strip_slashes s = rev (dropWhile (\<lambda>c. c = CHR ''/'') (rev s))"

definition join_posix :: "string list \<Rightarrow> string" where
  "join_posix ps = path_join (map strip_slashes ps)"

section \<open>Validation of a request\<close>

definition tenant_home_root :: "env \<Rightarrow> string" where
  "tenant_home_root e = str_or (js_trim (env_or e ''MC_TENANT_HOME_ROOT'' ''/home'')) ''/home''"

definition tenant_workspace_dirname :: "env \<Rightarrow> string" where
  "tenant_workspace_dirname e =
     str_or (js_trim (env_or e ''MC_TENANT_WORKSPACE_DIRNAME'' ''workspace'')) ''workspace''"

definition normalize_slug :: "string \<Rightarrow> string" where
  "normalize_slug s = js_lower (js_trim s)"

definition lower_or_digit :: "char \<Rightarrow> bool" where
  "lower_or_digit c = (let n = of_char c :: nat in (97 \<le> n \<and> n \<le> 122) \<or> (48 \<le> n \<and> n \<le> 57))"

text \<open>\<open>/^[a-z0-9][a-z0-9-]{1,30}[a-z0-9]$/\<close>.\<close>

definition is_valid_slug :: "string \<Rightarrow> bool" where
  "is_valid_slug s =
     (3 \<le> length s \<and> length s \<le> 32 \<and> lower_or_digit (hd s) \<and> lower_or_digit (last s) \<and>
      list_all (\<lambda>c. lower_or_digit c \<or> c = CHR ''-'') s)"

text \<open>\<open>/^[a-z_][a-z0-9_-]{1,30}$/\<close>.\<close>

definition is_valid_linux_user :: "string \<Rightarrow> bool" where
  "is_valid_linux_user s =
     (2 \<le> length s \<and> length s \<le> 31 \<and>
      (let n = of_char (hd s) :: nat in (97 \<le> n \<and> n \<le> 122) \<or> n = 95) \<and>
      list_all (\<lambda>c. lower_or_digit c \<or> c = CHR ''_'' \<or> c = CHR ''-'') s)"

definition ensure_port :: "json option \<Rightarrow> string + int option" where
  "ensure_port v =
     (case v of None \<Rightarrow> Inr None
      | Some j \<Rightarrow>
          if j = JNull \<or> j = JStr [] then Inr None
          else (case number_of j of
                  None \<Rightarrow> Inl ''Port must be an integer between 1024 and 65535''
                | Some q \<Rightarrow>
                    (case row_id q of
                       None \<Rightarrow> Inl ''Port must be an integer between 1024 and 65535''
                     | Some n \<Rightarrow>
                         if n < 1024 \<or> 65535 < n
                         then Inl ''Port must be an integer between 1024 and 65535''
                         else Inr (Some n))))"

definition normalize_owner_gateway :: "env \<Rightarrow> string option \<Rightarrow> string + string" where
  "normalize_owner_gateway e v =
     (let raw = js_trim (opt_or v []);
          fallback = str_or (js_trim (env_or e ''MC_DEFAULT_OWNER_GATEWAY''
                        (env_or e ''MC_DEFAULT_GATEWAY_NAME'' ''primary''))) ''primary''
      in if raw = [] then Inr fallback
         else if 120 < length raw then Inl ''owner_gateway is too long''
         else Inr raw)"

section \<open>Plans\<close>

definition step :: "string \<Rightarrow> string \<Rightarrow> string list \<Rightarrow> int \<Rightarrow> provision_step" where
  "step k title command timeout =
     \<lparr>ps_key = k, ps_title = title, ps_command = command, ps_requires_root = True,
      ps_timeout_ms = Some timeout\<rparr>"

definition artifact_dir :: "string \<Rightarrow> string \<Rightarrow> string" where
  "artifact_dir data_dir slug = path_join [data_dir, ''provisioner'', slug]"

definition install_dir :: "string \<Rightarrow> string \<Rightarrow> string list" where
  "install_dir usr target =
     [''/usr/bin/install'', ''-d'', ''-m'', ''0750'', ''-o'', usr, ''-g'', usr, target]"

definition gateway_service :: "string \<Rightarrow> string" where
  "gateway_service usr = ''openclaw-gateway@'' @ usr @ ''.service''"

definition tenant_env_file :: "string \<Rightarrow> string" where
  "tenant_env_file usr = ''/etc/openclaw-tenants/'' @ usr @ ''.env''"

definition build_bootstrap_plan ::
  "env \<Rightarrow> string \<Rightarrow> string \<Rightarrow> string \<Rightarrow> string \<Rightarrow> string \<Rightarrow> string \<Rightarrow> string \<Rightarrow> provision_step list" where
  "build_bootstrap_plan e data_dir slug linux_user openclaw_home workspace_root template_path systemd_path =
     (let dir = artifact_dir data_dir slug;
          home = join_posix [tenant_home_root e, linux_user] in
      [step ''create-linux-user'' (''Create linux user '' @ linux_user)
         [''/usr/sbin/useradd'', ''-m'', ''-s'', ''/bin/bash'', linux_user] 10000,
       step ''create-openclaw-state'' (''Create OpenClaw state directory '' @ openclaw_home)
         (install_dir linux_user openclaw_home) 10000,
       step ''create-workspace-root'' (''Create workspace root '' @ workspace_root)
         (install_dir linux_user workspace_root) 10000,
       step ''seed-openclaw-template'' ''Seed base OpenClaw config scaffold''
         [''/usr/bin/cp'', ''-n'', template_path, openclaw_home @ ''/openclaw.json''] 12000,
       step ''set-owner-home'' (''Ensure ownership of '' @ home)
         [''/usr/bin/chown'', ''-R'', linux_user @ '':'' @ linux_user, home] 20000,
       step ''ensure-openclaw-tenants-dir'' ''Ensure /etc/openclaw-tenants exists''
         (install_dir ''root'' ''/etc/openclaw-tenants'') 5000,
       step ''install-gateway-systemd-template'' ''Install openclaw-gateway@.service template''
         [''/usr/bin/cp'', ''-n'', systemd_path, ''/etc/systemd/system/openclaw-gateway@.service''] 5000,
       step ''install-tenant-gateway-env'' ''Install tenant gateway env file''
         [''/usr/bin/cp'', ''-f'', dir @ ''/openclaw-gateway.env'', tenant_env_file linux_user] 5000,
       step ''systemd-daemon-reload'' ''Reload systemd units''
         [''/usr/bin/systemctl'', ''daemon-reload''] 10000,
       step ''enable-start-gateway'' (''Enable/start '' @ gateway_service linux_user)
         [''/usr/bin/systemctl'', ''enable'', ''--now'', gateway_service linux_user] 5000])"

definition build_decommission_plan :: "tenant \<Rightarrow> bool \<Rightarrow> bool \<Rightarrow> provision_step list" where
  "build_decommission_plan t remove_linux_user remove_state_dirs =
     [step ''disable-stop-gateway'' (''Disable/stop '' @ gateway_service (ten_linux_user t))
        [''/usr/bin/systemctl'', ''disable'', ''--now'', gateway_service (ten_linux_user t)] 10000,
      step ''remove-tenant-gateway-env'' (''Remove '' @ tenant_env_file (ten_linux_user t))
        [''/usr/bin/rm'', ''-f'', tenant_env_file (ten_linux_user t)] 5000] @
     (if remove_state_dirs \<and> \<not> remove_linux_user then
        [step ''remove-openclaw-state-dir'' (''Remove '' @ ten_openclaw_home t)
           [''/usr/bin/rm'', ''-rf'', ten_openclaw_home t] 10000,
         step ''remove-workspace-dir'' (''Remove '' @ ten_workspace_root t)
           [''/usr/bin/rm'', ''-rf'', ten_workspace_root t] 10000]
      else []) @
     (if remove_linux_user then
        [step ''remove-linux-user'' (''Remove linux user '' @ ten_linux_user t)
           [''/usr/sbin/userdel'', ''-r'', ten_linux_user t] 15000]
      else [])"

section \<open>Queries\<close>

fun job_status_text :: "job_status \<Rightarrow> string" where
  "job_status_text JQueued = ''queued''"
| "job_status_text JApproved = ''approved''"
| "job_status_text JRunning = ''running''"
| "job_status_text JCompleted = ''completed''"
| "job_status_text JFailed = ''failed''"
| "job_status_text JRejected = ''rejected''"
| "job_status_text JCancelled = ''cancelled''"

fun job_type_text :: "job_type \<Rightarrow> string" where
  "job_type_text Bootstrap = ''bootstrap''"
| "job_type_text Update = ''update''"
| "job_type_text Decommission = ''decommission''"

definition job_events :: "int \<Rightarrow> world \<Rightarrow> (int \<times> provision_event) list" where
  "job_events jid w = order_asc (\<lambda>xs. xs) (\<lambda>(i, ev). pev_created_at ev)
     (tbl_select (\<lambda>ev. pev_job_id ev = jid) (provision_events (dbase w)))"

type_synonym job_view = "int \<times> provision_job \<times> tenant \<times> (int \<times> provision_event) list"

text \<open>The join with the tenant, and the events by time and id.\<close>

definition get_provision_job :: "int \<Rightarrow> world \<Rightarrow> job_view option" where
  "get_provision_job jid w =
     (case tbl_get (jobs (dbase w)) jid of None \<Rightarrow> None
      | Some j \<Rightarrow> (case tbl_get (tenants (dbase w)) (job_tenant_id j) of None \<Rightarrow> None
          | Some t \<Rightarrow> Some (jid, j, t, job_events jid w)))"

text \<open>\<open>ORDER BY created_at DESC, id DESC\<close>: a stable sort of the rows taken from the last.\<close>

definition newest_first :: "(int \<times> 'r \<Rightarrow> int) \<Rightarrow> (int \<times> 'r) list \<Rightarrow> (int \<times> 'r) list" where
  "newest_first key xs = sort_key (\<lambda>x. - key x) (rev xs)"

definition latest_job :: "int \<Rightarrow> world \<Rightarrow> (int \<times> provision_job) option" where
  "latest_job tid w =
     (case newest_first (\<lambda>(i, j). job_created_at j) (tbl_select (\<lambda>j. job_tenant_id j = tid) (jobs (dbase w))) of
        [] \<Rightarrow> None | x # xs \<Rightarrow> Some x)"

definition list_tenants :: "world \<Rightarrow> (int \<times> tenant \<times> (int \<times> provision_job) option) list" where
  "list_tenants w =
     map (\<lambda>(i, t). (i, t, latest_job i w)) (newest_first (\<lambda>(i, t). ten_created_at t) (rows (tenants (dbase w))))"

definition list_provision_jobs ::
  "int option \<Rightarrow> string option \<Rightarrow> int option \<Rightarrow> world \<Rightarrow> (int \<times> provision_job \<times> tenant) list" where
  "list_provision_jobs tenant_id status limit w =
     (let l = min (max (case limit of None \<Rightarrow> 100 | Some n \<Rightarrow> if n = 0 then 100 else n) 1) 500;
          P = (\<lambda>j. (case tenant_id of None \<Rightarrow> True | Some i \<Rightarrow> i = 0 \<or> job_tenant_id j = i) \<and>
                   param_ok status (Some (job_status_text (job_status j))));
          found = newest_first (\<lambda>(i, j). job_created_at j) (tbl_select P (jobs (dbase w)))
      in take (nat l) (List.map_filter (\<lambda>(i, j). map_option (\<lambda>t. (i, j, t))
           (tbl_get (tenants (dbase w)) (job_tenant_id j))) found))"

section \<open>Queueing jobs\<close>

record bootstrap_request =
  br_slug :: string
  br_display_name :: string
  br_linux_user :: "string option"
  br_plan_tier :: "string option"
  br_gateway_port :: "json option"
  br_dashboard_port :: "json option"
  br_dry_run :: "json option"
  br_config :: "json option"
  br_owner_gateway :: "string option"

record decommission_request =
  dr_dry_run :: "json option"
  dr_remove_linux_user :: "json option"
  dr_remove_state_dirs :: "json option"
  dr_reason :: "string option"

text \<open>\<open>v !== false\<close>.\<close>

definition not_false :: "json option \<Rightarrow> bool" where
  "not_false v = (v \<noteq> Some (JBool False))"

definition new_job :: "int \<Rightarrow> job_type \<Rightarrow> bool \<Rightarrow> string \<Rightarrow> string option \<Rightarrow> json \<Rightarrow> provision_step list \<Rightarrow> int \<Rightarrow> provision_job" where
  "new_job tenant_id ty dry actor idem request plan now =
     \<lparr>job_tenant_id = tenant_id, job_type = ty, job_status = JQueued, job_dry_run = dry,
      job_requested_by = actor, job_approved_by = None, job_runner_host = None,
      job_idempotency_key = idem, job_request = request, job_plan = plan, job_result = None,
      job_error = None, job_started_at = None, job_completed_at = None, job_created_at = now,
      job_updated_at = now\<rparr>"

definition insert_job :: "provision_job \<Rightarrow> world \<Rightarrow> world" where
  "insert_job j w = w\<lparr>dbase := (dbase w)\<lparr>jobs := tbl_insert j (jobs (dbase w))\<rparr>\<rparr>"

definition insert_tenant :: "tenant \<Rightarrow> world \<Rightarrow> world" where
  "insert_tenant t w = w\<lparr>dbase := (dbase w)\<lparr>tenants := tbl_insert t (tenants (dbase w))\<rparr>\<rparr>"

definition tenant_audit :: "string \<Rightarrow> string \<Rightarrow> int \<Rightarrow> json \<Rightarrow> world \<Rightarrow> world" where
  "tenant_audit action actor tid detail =
     log_audit_event action actor None (Some ''tenant'') (Some tid) (Some detail) None None"

definition mode_text :: "bool \<Rightarrow> string" where
  "mode_text dry = (if dry then ''dry-run'' else ''execute'')"

definition template_path :: "env \<Rightarrow> string" where
  "template_path e = js_trim (env_or e ''MC_SUPER_TEMPLATE_OPENCLAW_JSON''
     (case str_or_null (e ''OPENCLAW_HOME'') of None \<Rightarrow> [] | Some h \<Rightarrow> path_join [h, ''openclaw.json'']))"

definition systemd_template_path :: "env \<Rightarrow> string \<Rightarrow> string" where
  "systemd_template_path e cwd =
     path_join [str_or (js_trim (env_or e ''MISSION_CONTROL_REPO_ROOT'' cwd)) cwd,
       ''ops'', ''templates'', ''openclaw-gateway@.service'']"

text \<open>\<open>UNIQUE\<close> on slug and on linux user.\<close>

definition tenant_taken :: "string \<Rightarrow> string \<Rightarrow> world \<Rightarrow> string option" where
  "tenant_taken slug usr w =
     (if tbl_find (\<lambda>t. ten_slug t = slug) (tenants (dbase w)) \<noteq> None
      then Some ''UNIQUE constraint failed: tenants.slug''
      else if tbl_find (\<lambda>t. ten_linux_user t = usr) (tenants (dbase w)) \<noteq> None
      then Some ''UNIQUE constraint failed: tenants.linux_user''
      else None)"

text \<open>\<open>request.config || {}\<close>.\<close>

definition config_of :: "bootstrap_request \<Rightarrow> json" where
  "config_of b = (case truthy_data (br_config b) of None \<Rightarrow> JObj [] | Some j \<Rightarrow> j)"

definition new_tenant ::
  "bootstrap_request \<Rightarrow> env \<Rightarrow> string \<Rightarrow> string \<Rightarrow> int \<Rightarrow> int option \<Rightarrow> string \<Rightarrow> string \<Rightarrow> int \<Rightarrow> tenant" where
  "new_tenant b e slug linux_user gateway_port dashboard_port owner actor now =
     \<lparr>ten_slug = slug, ten_display_name = js_trim (br_display_name b), ten_linux_user = linux_user,
      ten_plan_tier = js_lower (js_trim (opt_or (br_plan_tier b) ''standard'')),
      ten_status = TPending,
      ten_openclaw_home = join_posix [tenant_home_root e, linux_user, ''.openclaw''],
      ten_workspace_root = join_posix [tenant_home_root e, linux_user, tenant_workspace_dirname e],
      ten_gateway_port = Some gateway_port, ten_dashboard_port = dashboard_port,
      ten_config = config_of b, ten_created_by = actor, ten_owner_gateway = Some owner,
      ten_created_at = now, ten_updated_at = now\<rparr>"

definition bootstrap_payload :: "tenant \<Rightarrow> bool \<Rightarrow> json" where
  "bootstrap_payload t dry = JObj
     [(''slug'', JStr (ten_slug t)), (''display_name'', JStr (ten_display_name t)),
      (''linux_user'', JStr (ten_linux_user t)), (''gateway_port'', JOptInt (ten_gateway_port t)),
      (''dashboard_port'', JOptInt (ten_dashboard_port t)), (''plan_tier'', JStr (ten_plan_tier t)),
      (''dry_run'', JBool dry), (''config'', ten_config t),
      (''owner_gateway'', JOptStr (ten_owner_gateway t))]"

text \<open>Insert the tenant and its first job, log the request.\<close>

definition queue_bootstrap ::
  "env \<Rightarrow> string \<Rightarrow> string \<Rightarrow> string \<Rightarrow> tenant \<Rightarrow> bool \<Rightarrow> string \<Rightarrow> world \<Rightarrow> world \<times> int \<times> int" where
  "queue_bootstrap e data_dir cwd uuid t dry actor w =
     (let tid = tbl_last_id (tenants (dbase w));
          jid = tbl_last_id (jobs (dbase w));
          plan = build_bootstrap_plan e data_dir (ten_slug t) (ten_linux_user t) (ten_openclaw_home t)
                   (ten_workspace_root t) (template_path e) (systemd_template_path e cwd);
          job = new_job tid Bootstrap dry actor (Some uuid) (bootstrap_payload t dry) plan (now_s w);
          w1 = insert_job job (insert_tenant t w);
          w2 = append_provision_event jid LInfo (Some ''queued'')
                 (''Provisioning request queued ('' @ mode_text dry @ '')'')
                 (Some (JObj [(''actor'', JStr actor)])) w1;
          w3 = tenant_audit ''tenant_bootstrap_requested'' actor tid
                 (JObj [(''dry_run'', JBool dry), (''slug'', JStr (ten_slug t)),
                        (''linux_user'', JStr (ten_linux_user t)),
                        (''owner_gateway'', JOptStr (ten_owner_gateway t))]) w2
      in (w3, tid, jid))"

definition create_tenant_and_bootstrap_job ::
  "env \<Rightarrow> string \<Rightarrow> string \<Rightarrow> string \<Rightarrow> bootstrap_request \<Rightarrow> string \<Rightarrow> world \<Rightarrow> string + world \<times> int \<times> int" where
  "create_tenant_and_bootstrap_job e data_dir cwd uuid b actor w =
     (if template_path e = []
      then Inl ''Missing OpenClaw template config. Set MC_SUPER_TEMPLATE_OPENCLAW_JSON to an openclaw.json to seed new tenants.''
      else
      let slug = normalize_slug (br_slug b);
          linux_user = js_lower (js_trim (opt_or (br_linux_user b) (''oc-'' @ slug))) in
      if \<not> is_valid_slug slug
      then Inl ''Invalid slug. Use lowercase letters, numbers, and dashes (3-32 chars).''
      else if js_trim (br_display_name b) = [] then Inl ''display_name is required''
      else if \<not> is_valid_linux_user linux_user then Inl ''Invalid linux_user format''
      else
      (case ensure_port (br_gateway_port b) of Inl m \<Rightarrow> Inl m
       | Inr gateway_port \<Rightarrow>
      (case ensure_port (br_dashboard_port b) of Inl m \<Rightarrow> Inl m
       | Inr dashboard_port \<Rightarrow>
      (case normalize_owner_gateway e (br_owner_gateway b) of Inl m \<Rightarrow> Inl m
       | Inr owner \<Rightarrow>
      (case gateway_port of None \<Rightarrow> Inl ''gateway_port is required for tenant bootstrap''
       | Some port \<Rightarrow>
      (case tenant_taken slug linux_user w of Some m \<Rightarrow> Inl m
       | None \<Rightarrow>
           Inr (queue_bootstrap e data_dir cwd uuid
             (new_tenant b e slug linux_user port dashboard_port owner actor (now_s w))
             (not_false (br_dry_run b)) actor w)))))))"

definition create_tenant_decommission_job ::
  "string \<Rightarrow> int \<Rightarrow> decommission_request \<Rightarrow> string \<Rightarrow> world \<Rightarrow> string + world \<times> int \<times> int" where
  "create_tenant_decommission_job uuid tid b actor w =
     (if tid \<le> 0 then Inl ''Invalid tenant id''
      else case tbl_get (tenants (dbase w)) tid of None \<Rightarrow> Inl ''Tenant not found''
      | Some t \<Rightarrow>
          let dry = not_false (dr_dry_run b);
              rm_user = jtruthy_opt (dr_remove_linux_user b);
              rm_dirs = jtruthy_opt (dr_remove_state_dirs b);
              reason = js_trim (opt_or (dr_reason b) []);
              plan = build_decommission_plan t rm_user rm_dirs;
              flags = [(''remove_linux_user'', JBool rm_user), (''remove_state_dirs'', JBool rm_dirs)];
              payload = JObj ([(''tenant_id'', JInt tid), (''slug'', JStr (ten_slug t)),
                 (''linux_user'', JStr (ten_linux_user t)), (''dry_run'', JBool dry)] @ flags @
                 [(''reason'', JOptStr (str_or_null (Some reason)))]);
              jid = tbl_last_id (jobs (dbase w));
              w1 = insert_job (new_job tid Decommission dry actor (Some uuid) payload plan (now_s w)) w;
              w2 = append_provision_event jid LWarn (Some ''queued'')
                     (''Decommission request queued ('' @ mode_text dry @ '')'')
                     (Some (JObj ([(''actor'', JStr actor), (''reason'', JOptStr (str_or_null (Some reason)))] @ flags))) w1;
              w3 = tenant_audit ''tenant_decommission_requested'' actor tid
                     (JObj ([(''job_id'', JInt jid), (''dry_run'', JBool dry)] @ flags)) w2
          in Inr (w3, tid, jid))"

text \<open>\<open>POST /api/super/provision-jobs\<close>: any plan, for an existing tenant.\<close>

record queue_request =
  qb_tenant_id :: "json option"
  qb_dry_run :: "json option"
  qb_job_type :: "string option"
  qb_request :: "json option"
  qb_plan :: "provision_step list option"

definition job_type_of :: "string \<Rightarrow> job_type option" where
  "job_type_of s = (if s = ''bootstrap'' then Some Bootstrap else if s = ''update'' then Some Update
     else if s = ''decommission'' then Some Decommission else None)"

definition queue_job :: "queue_request \<Rightarrow> string \<Rightarrow> world \<Rightarrow> (nat \<times> string) + world \<times> int" where
  "queue_job b actor w =
     (case (case qb_tenant_id b of None \<Rightarrow> None | Some j \<Rightarrow>
              (case number_of j of None \<Rightarrow> None | Some q \<Rightarrow> row_id q)) of
        None \<Rightarrow> Inl (400, ''tenant_id is required'')
      | Some tid \<Rightarrow>
        if tid \<le> 0 then Inl (400, ''tenant_id is required'')
        else (case job_type_of (opt_or (qb_job_type b) ''bootstrap'') of
            None \<Rightarrow> Inl (400, ''Invalid job_type'')
          | Some ty \<Rightarrow>
        if tbl_get (tenants (dbase w)) tid = None then Inl (404, ''Tenant not found'')
        else Inr (insert_job (new_job tid ty (not_false (qb_dry_run b)) actor None
               (case truthy_data (qb_request b) of None \<Rightarrow> JObj [] | Some j \<Rightarrow> j)
               (case qb_plan b of None \<Rightarrow> [] | Some p \<Rightarrow> p) (now_s w)) w,
             tbl_last_id (jobs (dbase w)))))"

section \<open>Approving, rejecting, cancelling\<close>

datatype job_action = Approve | Reject | Cancel

fun job_action_of :: "string \<Rightarrow> job_action option" where
  "job_action_of s = (if s = ''approve'' then Some Approve else if s = ''reject'' then Some Reject
     else if s = ''cancel'' then Some Cancel else None)"

fun action_text :: "job_action \<Rightarrow> string" where
  "action_text Approve = ''approve''"
| "action_text Reject = ''reject''"
| "action_text Cancel = ''cancel''"

text \<open>The statuses an action starts from, and what it makes of the row.\<close>

fun action_from :: "job_action \<Rightarrow> job_status list" where
  "action_from Approve = [JQueued, JRejected, JFailed]"
| "action_from Reject = [JQueued, JApproved, JFailed]"
| "action_from Cancel = [JQueued, JApproved, JFailed, JRejected]"

fun action_row :: "job_action \<Rightarrow> string \<Rightarrow> int \<Rightarrow> provision_job \<Rightarrow> provision_job" where
  "action_row Approve actor now j =
     j\<lparr>job_status := JApproved, job_approved_by := Some actor, job_error := None, job_updated_at := now\<rparr>"
| "action_row Reject actor now j = j\<lparr>job_status := JRejected, job_updated_at := now\<rparr>"
| "action_row Cancel actor now j =
     j\<lparr>job_status := JCancelled, job_completed_at := Some now, job_updated_at := now\<rparr>"

fun action_event :: "job_action \<Rightarrow> event_level \<times> string \<times> string \<times> string" where
  "action_event Approve = (LInfo, ''approval'', ''Approved by '', ''provision_job_approved'')"
| "action_event Reject = (LWarn, ''approval'', ''Rejected by '', ''provision_job_rejected'')"
| "action_event Cancel = (LWarn, ''cancel'', ''Cancelled by '', ''provision_job_cancelled'')"

definition update_job :: "int \<Rightarrow> (provision_job \<Rightarrow> provision_job) \<Rightarrow> world \<Rightarrow> world" where
  "update_job jid f w = w\<lparr>dbase := (dbase w)\<lparr>jobs := tbl_update jid f (jobs (dbase w))\<rparr>\<rparr>"

definition set_tenant_status :: "int \<Rightarrow> tenant_status \<Rightarrow> world \<Rightarrow> world" where
  "set_tenant_status tid s w = w\<lparr>dbase := (dbase w)\<lparr>tenants :=
     tbl_update tid (\<lambda>t. t\<lparr>ten_status := s, ten_updated_at := now_s w\<rparr>) (tenants (dbase w))\<rparr>\<rparr>"

definition transition_job_status ::
  "int \<Rightarrow> string \<Rightarrow> job_action \<Rightarrow> string option \<Rightarrow> world \<Rightarrow> string + world" where
  "transition_job_status jid actor action reason w =
     (case get_provision_job jid w of None \<Rightarrow> Inl ''Job not found''
      | Some (_, j, t, _) \<Rightarrow>
        let why = js_trim (opt_or reason []) in
        if job_status j \<in> set [JRunning, JCompleted, JCancelled]
        then Inl (''Job status '' @ job_status_text (job_status j) @ '' is immutable'')
        else if job_status j \<notin> set (action_from action)
        then Inl (''Cannot '' @ action_text action @ '' job from status '' @ job_status_text (job_status j))
        else
          (case action_event action of (level, key, verb, audit) \<Rightarrow>
             Inr (tenant_audit audit actor (job_tenant_id j)
                    (JObj [(''job_id'', JInt jid), (''reason'', JOptStr (str_or_null (Some why)))])
                  (append_provision_event jid level (Some key)
                     (verb @ actor @ (if why = [] then [] else '': '' @ why))
                     (Some (JObj [(''actor'', JStr actor), (''reason'', JOptStr (str_or_null (Some why)))]))
                  (update_job jid (action_row action actor (now_s w)) w)))))"

section \<open>Running a step\<close>

record command_result =
  cr_stdout :: string
  cr_stderr :: string
  cr_code :: int
  cr_skipped :: bool

record daemon_response =
  rsp_ok :: bool
  rsp_code :: "int option"
  rsp_stdout :: "string option"
  rsp_stderr :: "string option"
  rsp_skipped :: bool
  rsp_error :: "string option"

text \<open>
  The two ways out of the process: the socket of the daemon (command, arguments, timeout,
  dry run, step key) and \<open>runCommand\<close> (command, arguments, timeout); either may reject.
\<close>

type_synonym daemon = "string \<Rightarrow> string list \<Rightarrow> int \<Rightarrow> bool \<Rightarrow> string \<Rightarrow> string + daemon_response"
type_synonym shell = "string \<Rightarrow> string list \<Rightarrow> int \<Rightarrow> string + command_result"

definition run_provisioner_command ::
  "env \<Rightarrow> daemon \<Rightarrow> string \<Rightarrow> string list \<Rightarrow> int \<Rightarrow> bool \<Rightarrow> string \<Rightarrow> string + command_result" where
  "run_provisioner_command e daemon command args timeout dry key =
     (if env_or e ''MC_PROVISIONER_TOKEN'' [] = [] then Inl ''MC_PROVISIONER_TOKEN is not configured''
      else case daemon command args timeout dry key of Inl m \<Rightarrow> Inl m
      | Inr r \<Rightarrow>
          if \<not> rsp_ok r
          then Inl (str_or (join_with '' | '' (filter (\<lambda>s. s \<noteq> [])
                  (map (\<lambda>x. opt_or x []) [rsp_error r, rsp_stderr r, rsp_stdout r]))) ''Provisioner command failed'')
          else Inr \<lparr>cr_stdout = opt_or (rsp_stdout r) [], cr_stderr = opt_or (rsp_stderr r) [],
                    cr_code = (case rsp_code r of None \<Rightarrow> 1 | Some c \<Rightarrow> c), cr_skipped = rsp_skipped r\<rparr>)"

definition skipped_result :: command_result where
  "skipped_result = \<lparr>cr_stdout = [], cr_stderr = [], cr_code = 0, cr_skipped = True\<rparr>"

definition step_timeout :: "provision_step \<Rightarrow> int" where
  "step_timeout s = (case ps_timeout_ms s of None \<Rightarrow> 15000 | Some t \<Rightarrow> if t = 0 then 15000 else t)"

definition run_provision_step ::
  "env \<Rightarrow> daemon \<Rightarrow> shell \<Rightarrow> bool \<Rightarrow> provision_step \<Rightarrow> string + command_result" where
  "run_provision_step e daemon shell dry s =
     (case ps_command s of [] \<Rightarrow> Inl (''Invalid command for step '' @ ps_key s)
      | command # args \<Rightarrow>
        if command = [] then Inl (''Invalid command for step '' @ ps_key s)
        else if ps_requires_root s \<and> js_lower (env_or e ''MC_SUPER_PROVISION_MODE'' ''daemon'') = ''daemon''
        then run_provisioner_command e daemon command args (step_timeout s) dry (ps_key s)
        else if dry then Inr skipped_result
        else if ps_requires_root s then shell ''sudo'' (''-n'' # command # args) (step_timeout s)
        else shell command args (step_timeout s))"

section \<open>Executing a job\<close>

text \<open>What \<open>executeProvisionJob\<close> keeps in its local variables while it awaits.\<close>

record execution =
  ex_job :: int
  ex_tenant :: int
  ex_type :: job_type
  ex_dry :: bool
  ex_previous :: tenant_status
  ex_actor :: string
  ex_plan :: "provision_step list"
  ex_results :: "json list"

text \<open>
  \<open>ensureProvisionArtifacts\<close>: the file it writes. The row of \<open>getProvisionJob\<close> has no
  gateway port, so only the request's own port counts.
\<close>

definition provision_artifact :: "string \<Rightarrow> provision_job \<Rightarrow> tenant \<Rightarrow> string + string \<times> string" where
  "provision_artifact data_dir j t =
     (let slug = js_trim (case jget (job_request j) ''slug'' of Some (JStr s) \<Rightarrow> str_or s (ten_slug t) | _ \<Rightarrow> ten_slug t);
          usr = js_trim (ten_linux_user t);
          home = js_trim (ten_openclaw_home t);
          port = (case jget (job_request j) ''gateway_port'' of None \<Rightarrow> Some 0 | Some v \<Rightarrow> number_of v) in
      if slug = [] then Inl ''Missing tenant slug for artifact generation''
      else if usr = [] then Inl ''Missing linux_user for artifact generation''
      else if home = [] then Inl ''Missing openclaw_home for artifact generation''
      else (case port of None \<Rightarrow> Inl ''Missing/invalid gateway_port for gateway unit provisioning''
        | Some q \<Rightarrow> (case row_id q of None \<Rightarrow> Inl ''Missing/invalid gateway_port for gateway unit provisioning''
        | Some n \<Rightarrow>
            if n < 1024 \<or> 65535 < n then Inl ''Missing/invalid gateway_port for gateway unit provisioning''
            else Inr (path_join [artifact_dir data_dir slug, ''openclaw-gateway.env''],
                  join_with [CHR 0x0A]
                    [''TENANT_SLUG='' @ slug, ''TENANT_USER='' @ usr, ''OPENCLAW_HOME='' @ home,
                     ''OPENCLAW_STATE_DIR='' @ home, ''OPENCLAW_CONFIG_PATH='' @ home @ ''/openclaw.json'',
                     ''OPENCLAW_GATEWAY_PORT='' @ show_int n, []]))))"

text \<open>The checks before the run, in the order of the code.\<close>

definition execution_check :: "string \<Rightarrow> string \<Rightarrow> provision_job \<Rightarrow> tenant \<Rightarrow> string option" where
  "execution_check data_dir actor j t =
     (let dry = job_dry_run j; approved_by = opt_or (job_approved_by j) [] in
      if job_status j \<noteq> JApproved
      then Some (''Job must be approved before execution. Current status: '' @ job_status_text (job_status j))
      else if job_plan j = [] then Some ''Job plan is empty''
      else if not_false (jget (job_request j) ''dry_run'') \<noteq> dry
      then Some ''Job dry_run metadata mismatch detected''
      else if approved_by = [] then Some ''Missing approver. Approve the job before run.''
      else if \<not> dry \<and> approved_by = job_requested_by j
      then Some ''Two-person rule violation: live jobs require an approver different from the requester.''
      else if \<not> dry \<and> approved_by = actor
      then Some ''Two-person rule violation: approver cannot be the execution runner for live jobs.''
      else if job_type j = Bootstrap
      then (case provision_artifact data_dir j t of Inl m \<Rightarrow> Some m | Inr f \<Rightarrow> None)
      else None)"

definition started_status :: "execution \<Rightarrow> tenant_status" where
  "started_status ex = (if ex_dry ex then ex_previous ex
     else if ex_type ex = Decommission then TDecommissioning else TProvisioning)"

definition completed_status :: "execution \<Rightarrow> tenant_status" where
  "completed_status ex = (if ex_dry ex then ex_previous ex
     else if ex_type ex = Decommission then TSuspended else TActive)"

definition begin_execution :: "env \<Rightarrow> string \<Rightarrow> int \<Rightarrow> string \<Rightarrow> world \<Rightarrow> string + world \<times> execution" where
  "begin_execution e data_dir jid actor w =
     (case get_provision_job jid w of None \<Rightarrow> Inl ''Job not found''
      | Some (_, j, t, _) \<Rightarrow>
     (case execution_check data_dir actor j t of Some m \<Rightarrow> Inl m
      | None \<Rightarrow>
        let ex = \<lparr>ex_job = jid, ex_tenant = job_tenant_id j, ex_type = job_type j, ex_dry = job_dry_run j,
                  ex_previous = ten_status t, ex_actor = actor, ex_plan = job_plan j, ex_results = []\<rparr>;
            w1 = update_job jid (\<lambda>j. j\<lparr>job_status := JRunning, job_started_at := Some (now_s w),
                   job_updated_at := now_s w, job_runner_host := Some (env_or e ''HOSTNAME'' ''unknown'')\<rparr>) w;
            w2 = set_tenant_status (ex_tenant ex) (started_status ex) w1;
            w3 = append_provision_event jid LInfo (Some ''start'')
                   (''Execution started by '' @ actor @ (if ex_dry ex then '' (dry-run)'' else [])) None w2
        in Inr (w3, ex)))"

definition job_detail :: "execution \<Rightarrow> (string \<times> json) list \<Rightarrow> json" where
  "job_detail ex middle = JObj ([(''job_id'', JInt (ex_job ex))] @ middle @
     [(''job_type'', JStr (job_type_text (ex_type ex)))])"

definition finish_execution :: "execution \<Rightarrow> world \<Rightarrow> world" where
  "finish_execution ex w =
     (let w1 = update_job (ex_job ex) (\<lambda>j. j\<lparr>job_status := JCompleted, job_completed_at := Some (now_s w),
                 job_result := Some (JObj [(''dry_run'', JBool (ex_dry ex)),
                    (''steps_executed'', JInt (int (length (ex_results ex)))), (''steps'', JArr (ex_results ex))]),
                 job_error := None, job_updated_at := now_s w\<rparr>) w;
          w2 = set_tenant_status (ex_tenant ex) (completed_status ex) w1;
          w3 = append_provision_event (ex_job ex) LInfo (Some ''finish'')
                 (job_type_text (ex_type ex) @ '' job completed ('' @ mode_text (ex_dry ex) @ '')'') None w2
      in tenant_audit ''tenant_bootstrap_completed'' (ex_actor ex) (ex_tenant ex)
           (job_detail ex [(''dry_run'', JBool (ex_dry ex))]) w3)"

definition fail_execution :: "execution \<Rightarrow> string \<Rightarrow> world \<Rightarrow> world" where
  "fail_execution ex m w =
     (let w1 = update_job (ex_job ex) (\<lambda>j. j\<lparr>job_status := JFailed, job_completed_at := Some (now_s w),
                 job_error := Some m,
                 job_result := Some (JObj [(''dry_run'', JBool (ex_dry ex)), (''steps'', JArr (ex_results ex))]),
                 job_updated_at := now_s w\<rparr>) w;
          w2 = set_tenant_status (ex_tenant ex) TError w1;
          w3 = append_provision_event (ex_job ex) LError (Some ''error'') m None w2
      in tenant_audit ''tenant_bootstrap_failed'' (ex_actor ex) (ex_tenant ex)
           (job_detail ex [(''error'', JStr m)]) w3)"

definition step_result_json :: "provision_step \<Rightarrow> command_result \<Rightarrow> json" where
  "step_result_json s r = JObj
     [(''key'', JStr (ps_key s)), (''ok'', JBool (cr_code r = 0)), (''skipped'', JBool (cr_skipped r)),
      (''stdout'', JStr (take 4000 (cr_stdout r))), (''stderr'', JStr (take 4000 (cr_stderr r)))]"

definition step_event :: "int \<Rightarrow> provision_step \<Rightarrow> command_result \<Rightarrow> world \<Rightarrow> world" where
  "step_event jid s r =
     (if cr_skipped r
      then append_provision_event jid LInfo (Some (ps_key s)) ''Dry-run: command execution skipped''
             (Some (JObj [(''command'', JArr (map JStr (ps_command s))),
                          (''requires_root'', JBool (ps_requires_root s))]))
      else append_provision_event jid LInfo (Some (ps_key s)) ''Completed''
             (Some (JObj [(''code'', JInt (cr_code r)), (''stdout_preview'', JStr (take 250 (cr_stdout r))),
                          (''stderr_preview'', JStr (take 250 (cr_stderr r)))])))"

definition exec_allowed :: "env \<Rightarrow> bool" where
  "exec_allowed e = (js_lower (env_or e ''MC_SUPER_PROVISION_EXEC'' []) = ''true'')"

datatype progress = More execution | Finished | Broke string

text \<open>One iteration of the loop, or the end of the run when the plan is used up.\<close>

definition advance_execution ::
  "env \<Rightarrow> (provision_step \<Rightarrow> string + command_result) \<Rightarrow> execution \<Rightarrow> world \<Rightarrow> world \<times> progress" where
  "advance_execution e outcome ex w =
     (case ex_plan ex of [] \<Rightarrow> (finish_execution ex w, Finished)
      | s # rest \<Rightarrow>
        let w1 = append_provision_event (ex_job ex) LInfo (Some (ps_key s)) (''Running: '' @ ps_title s) None w in
        if \<not> ex_dry ex \<and> \<not> exec_allowed e
        then (let m = ''Execution disabled. Set MC_SUPER_PROVISION_EXEC=true to allow non-dry-run provisioning.''
              in (fail_execution ex m w1, Broke m))
        else (case outcome s of Inl m \<Rightarrow> (fail_execution ex m w1, Broke m)
              | Inr r \<Rightarrow> (step_event (ex_job ex) s r w1,
                          More (ex\<lparr>ex_plan := rest, ex_results := ex_results ex @ [step_result_json s r]\<rparr>))))"

fun run_execution ::
  "nat \<Rightarrow> env \<Rightarrow> (provision_step \<Rightarrow> string + command_result) \<Rightarrow> execution \<Rightarrow> world \<Rightarrow> world \<times> progress" where
  "run_execution 0 e outcome ex w = (w, More ex)"
| "run_execution (Suc n) e outcome ex w =
     (case advance_execution e outcome ex w of
        (w', More ex') \<Rightarrow> run_execution n e outcome ex' w'
      | r \<Rightarrow> r)"

text \<open>A run nobody interferes with. The plan's length bounds the loop.\<close>

definition execute_provision_job ::
  "env \<Rightarrow> string \<Rightarrow> daemon \<Rightarrow> shell \<Rightarrow> int \<Rightarrow> string \<Rightarrow> world \<Rightarrow> world \<times> (string + job_view option)" where
  "execute_provision_job e data_dir daemon shell jid actor w =
     (case begin_execution e data_dir jid actor w of Inl m \<Rightarrow> (w, Inl m)
      | Inr (w1, ex) \<Rightarrow>
          (case run_execution (Suc (length (ex_plan ex))) e
                  (run_provision_step e daemon shell (ex_dry ex)) ex w1 of
             (w2, Finished) \<Rightarrow> (w2, Inr (get_provision_job jid w2))
           | (w2, Broke m) \<Rightarrow> (w2, Inl m)
           | (w2, More ex') \<Rightarrow> (w2, Inr None)))"

section \<open>Routes\<close>

text \<open>Bodies of the answers, by what they hold.\<close>

datatype prov_body =
    Tenants "(int \<times> tenant \<times> (int \<times> provision_job) option) list"
  | Jobs "(int \<times> provision_job \<times> tenant) list"
  | OneJob "job_view option"
  | Queued int "provision_job option"
  | Created "tenant option" "job_view option"

definition get_tenants :: "env \<Rightarrow> request \<Rightarrow> world \<Rightarrow> world \<times> prov_body response" where
  "get_tenants e r = with_role Admin e r (\<lambda>user w. (w, Reply 200 (Tenants (list_tenants w))))"

text \<open>A body that is not JSON is the error text of its parser.\<close>

definition post_tenants ::
  "string \<Rightarrow> string \<Rightarrow> string \<Rightarrow> string + bootstrap_request \<Rightarrow> env \<Rightarrow> request \<Rightarrow> world \<Rightarrow> world \<times> prov_body response" where
  "post_tenants data_dir cwd uuid body e r = with_role Admin e r (\<lambda>user w.
     (case (case body of Inl m \<Rightarrow> Inl m
            | Inr b \<Rightarrow> create_tenant_and_bootstrap_job e data_dir cwd uuid b (au_username user) w) of
        Inl m \<Rightarrow> (w, if js_includes ''UNIQUE'' m then Fail 409 ''Tenant slug or linux user already exists''
                    else Fail 400 (str_or m ''Failed to create tenant bootstrap job''))
      | Inr (w', tid, jid) \<Rightarrow>
          (w', Reply 201 (Created (tbl_get (tenants (dbase w')) tid) (get_provision_job jid w')))))"

definition post_decommission ::
  "string \<Rightarrow> string \<Rightarrow> decommission_request \<Rightarrow> env \<Rightarrow> request \<Rightarrow> world \<Rightarrow> world \<times> prov_body response" where
  "post_decommission uuid id_text b e r = with_role Admin e r (\<lambda>user w.
     (case route_id id_text of None \<Rightarrow> (w, Fail 400 ''Invalid tenant id'')
      | Some tid \<Rightarrow>
     (case create_tenant_decommission_job uuid tid b (au_username user) w of
        Inl m \<Rightarrow> (w, Fail 400 m)
      | Inr (w', tid', jid) \<Rightarrow>
          (w', Reply 201 (Created (tbl_get (tenants (dbase w)) tid') (get_provision_job jid w'))))))"

definition get_jobs :: "(string \<Rightarrow> string option) \<Rightarrow> env \<Rightarrow> request \<Rightarrow> world \<Rightarrow> world \<times> prov_body response" where
  "get_jobs query e r = with_role Admin e r (\<lambda>user w.
     (w, Reply 200 (Jobs (list_provision_jobs
        (case str_or_null (query ''tenant_id'') of None \<Rightarrow> None | Some s \<Rightarrow> parse_int s)
        (str_or_null (query ''status''))
        (map_option (\<lambda>n. min n 200) (parse_int (opt_or (query ''limit'') ''100''))) w))))"

definition post_jobs ::
  "string + queue_request \<Rightarrow> env \<Rightarrow> request \<Rightarrow> world \<Rightarrow> world \<times> prov_body response" where
  "post_jobs body e r = with_role Admin e r (\<lambda>user w.
     (case body of Inl m \<Rightarrow> (w, Fail 500 (str_or m ''Failed to queue job''))
      | Inr b \<Rightarrow>
     (case queue_job b (au_username user) w of
        Inl (status, m) \<Rightarrow> (w, Fail status m)
      | Inr (w', jid) \<Rightarrow> (w', Reply 201 (Queued jid (tbl_get (jobs (dbase w')) jid))))))"

definition get_job :: "string \<Rightarrow> env \<Rightarrow> request \<Rightarrow> world \<Rightarrow> world \<times> prov_body response" where
  "get_job id_text e r = with_role Admin e r (\<lambda>user w.
     (case route_id id_text of None \<Rightarrow> (w, Fail 400 ''Invalid job id'')
      | Some jid \<Rightarrow> (case get_provision_job jid w of None \<Rightarrow> (w, Fail 404 ''Job not found'')
          | Some v \<Rightarrow> (w, Reply 200 (OneJob (Some v))))))"

definition post_job_action ::
  "string \<Rightarrow> string \<Rightarrow> string option \<Rightarrow> env \<Rightarrow> request \<Rightarrow> world \<Rightarrow> world \<times> prov_body response" where
  "post_job_action id_text action reason e r = with_role Admin e r (\<lambda>user w.
     (case route_id id_text of None \<Rightarrow> (w, Fail 400 ''Invalid job id'')
      | Some jid \<Rightarrow>
     (case job_action_of action of
        None \<Rightarrow> (w, Fail 400 ''Invalid action. Use approve, reject, or cancel.'')
      | Some a \<Rightarrow>
     (case transition_job_status jid (au_username user) a reason w of
        Inl m \<Rightarrow> (w, Fail 400 m)
      | Inr w' \<Rightarrow> (w', Reply 200 (OneJob (get_provision_job jid w')))))))"

definition post_run ::
  "string \<Rightarrow> daemon \<Rightarrow> shell \<Rightarrow> string \<Rightarrow> env \<Rightarrow> request \<Rightarrow> world \<Rightarrow> world \<times> prov_body response" where
  "post_run data_dir daemon shell id_text e r = with_role Admin e r (\<lambda>user w.
     (case route_id id_text of None \<Rightarrow> (w, Fail 400 ''Invalid job id'')
      | Some jid \<Rightarrow>
     (case execute_provision_job e data_dir daemon shell jid (au_username user) w of
        (w', Inl m) \<Rightarrow> (w', Fail 400 (str_or m ''Failed to execute provisioning job''))
      | (w', Inr v) \<Rightarrow> (w', Reply 200 (OneJob v)))))"

section \<open>Interleaved operation\<close>

text \<open>
  The requests of several administrators, with the iterations of the runs under way between
  them: the state is the server's and the local variables of each run.
\<close>

datatype prov_op =
    OpCreate bootstrap_request string
  | OpDecommission int decommission_request string
  | OpQueue queue_request
  | OpTransition int job_action "string option"
  | OpBegin int
  | OpAdvance nat "provision_step \<Rightarrow> string + command_result"

definition drop_nth :: "nat \<Rightarrow> 'a list \<Rightarrow> 'a list" where
  "drop_nth k xs = take k xs @ drop (Suc k) xs"

fun prov_do ::
  "env \<Rightarrow> string \<Rightarrow> string \<Rightarrow> string \<Rightarrow> prov_op \<Rightarrow> world \<times> execution list \<Rightarrow> world \<times> execution list" where
  "prov_do e data_dir cwd actor (OpCreate b uuid) (w, exs) =
     (case create_tenant_and_bootstrap_job e data_dir cwd uuid b actor w of
        Inl m \<Rightarrow> (w, exs) | Inr (w', _) \<Rightarrow> (w', exs))"
| "prov_do e data_dir cwd actor (OpDecommission tid b uuid) (w, exs) =
     (case create_tenant_decommission_job uuid tid b actor w of
        Inl m \<Rightarrow> (w, exs) | Inr (w', _) \<Rightarrow> (w', exs))"
| "prov_do e data_dir cwd actor (OpQueue b) (w, exs) =
     (case queue_job b actor w of Inl m \<Rightarrow> (w, exs) | Inr (w', _) \<Rightarrow> (w', exs))"
| "prov_do e data_dir cwd actor (OpTransition jid a reason) (w, exs) =
     (case transition_job_status jid actor a reason w of Inl m \<Rightarrow> (w, exs) | Inr w' \<Rightarrow> (w', exs))"
| "prov_do e data_dir cwd actor (OpBegin jid) (w, exs) =
     (case begin_execution e data_dir jid actor w of Inl m \<Rightarrow> (w, exs) | Inr (w', ex) \<Rightarrow> (w', exs @ [ex]))"
| "prov_do e data_dir cwd actor (OpAdvance k outcome) (w, exs) =
     (if k < length exs
      then (case advance_execution e outcome (exs ! k) w of
              (w', More ex') \<Rightarrow> (w', exs[k := ex']) | (w', _) \<Rightarrow> (w', drop_nth k exs))
      else (w, exs))"

definition prov_step ::
  "env \<Rightarrow> string \<Rightarrow> string \<Rightarrow> int \<times> string \<times> prov_op \<Rightarrow> world \<times> execution list \<Rightarrow> world \<times> execution list" where
  "prov_step e data_dir cwd x s =
     (case x of (t, actor, op) \<Rightarrow> prov_do e data_dir cwd actor op ((fst s)\<lparr>clock := t\<rparr>, snd s))"

end
