(* ===== verification/Provisioning_Jobs.thy ===== *)
theory Provisioning_Jobs
  imports Provisioning
begin

text \<open>
  What holds of provisioning jobs: which rows each operation touches, the life cycle of a job
  as an invariant of interleaved operation (at most one run per job, the two-person rule, no
  change after a terminal status), that a run ends, what it leaves behind, and what a dry
  run can reach.
\<close>

section \<open>The rows each operation touches\<close>

lemma tenant_audit_frame [simp]:
  "jobs (dbase (tenant_audit a ac t d w)) = jobs (dbase w)"
  "tenants (dbase (tenant_audit a ac t d w)) = tenants (dbase w)"
  "clock (tenant_audit a ac t d w) = clock w"
  "now_s (tenant_audit a ac t d w) = now_s w"
  by (simp_all add: tenant_audit_def)

lemma set_tenant_status_frame [simp]:
  "jobs (dbase (set_tenant_status tid s w)) = jobs (dbase w)"
  "clock (set_tenant_status tid s w) = clock w"
  "now_s (set_tenant_status tid s w) = now_s w"
  "tenants (dbase (set_tenant_status tid s w)) =
     tbl_update tid (\<lambda>t. t\<lparr>ten_status := s, ten_updated_at := now_s w\<rparr>) (tenants (dbase w))"
  by (simp_all add: set_tenant_status_def now_s_def)

lemma update_job_frame [simp]:
  "jobs (dbase (update_job jid f w)) = tbl_update jid f (jobs (dbase w))"
  "tenants (dbase (update_job jid f w)) = tenants (dbase w)"
  "clock (update_job jid f w) = clock w"
  "now_s (update_job jid f w) = now_s w"
  by (simp_all add: update_job_def now_s_def)

lemma step_event_frame [simp]:
  "jobs (dbase (step_event jid s r w)) = jobs (dbase w)"
  "tenants (dbase (step_event jid s r w)) = tenants (dbase w)"
  "clock (step_event jid s r w) = clock w"
  by (simp_all add: step_event_def)

definition queues :: "provision_job table \<Rightarrow> provision_job table \<Rightarrow> bool" where
  "queues J J' \<longleftrightarrow> (\<exists>j. job_status j = JQueued \<and> J' = tbl_insert j J)"

lemma queues_new_job [simp]: "queues J (tbl_insert (new_job tid ty dry actor idem req plan now) J)"
  by (auto simp: queues_def new_job_def intro!: exI [of _ "new_job tid ty dry actor idem req plan now"])

lemma jobs_create_tenant:
  "create_tenant_and_bootstrap_job e d c u b actor w = Inr (w', x) \<Longrightarrow> queues (jobs (dbase w)) (jobs (dbase w'))"
  by (auto simp: create_tenant_and_bootstrap_job_def queue_bootstrap_def Let_def insert_job_def
      insert_tenant_def split: if_splits sum.splits option.splits)

lemma jobs_decommission:
  "create_tenant_decommission_job u tid b actor w = Inr (w', x) \<Longrightarrow> queues (jobs (dbase w)) (jobs (dbase w'))"
  by (auto simp: create_tenant_decommission_job_def Let_def insert_job_def split: if_splits option.splits)

lemma jobs_queue:
  "queue_job b actor w = Inr (w', x) \<Longrightarrow> queues (jobs (dbase w)) (jobs (dbase w'))"
  by (auto simp: queue_job_def insert_job_def split: if_splits option.splits)

lemma transition_cases:
  assumes "transition_job_status jid actor a reason w = Inr w'"
  obtains j where "tbl_get (jobs (dbase w)) jid = Some j"
    "job_status j \<notin> {JRunning, JCompleted, JCancelled}" "job_status j \<in> set (action_from a)"
    "jobs (dbase w') = tbl_update jid (action_row a actor (now_s w)) (jobs (dbase w))"
  using assms
  by (auto simp: transition_job_status_def get_provision_job_def Let_def
      split: option.splits if_splits prod.splits)

lemma begin_cases:
  assumes "begin_execution e data_dir jid actor w = Inr (w', ex)"
  obtains j t where "tbl_get (jobs (dbase w)) jid = Some j"
    "tbl_get (tenants (dbase w)) (job_tenant_id j) = Some t"
    "execution_check data_dir actor j t = None"
    "ex = \<lparr>ex_job = jid, ex_tenant = job_tenant_id j, ex_type = job_type j, ex_dry = job_dry_run j,
       ex_previous = ten_status t, ex_actor = actor, ex_plan = job_plan j, ex_results = []\<rparr>"
    "jobs (dbase w') = tbl_update jid (\<lambda>j. j\<lparr>job_status := JRunning, job_started_at := Some (now_s w),
       job_updated_at := now_s w, job_runner_host := Some (env_or e ''HOSTNAME'' ''unknown'')\<rparr>) (jobs (dbase w))"
    "tenants (dbase w') = tbl_update (job_tenant_id j)
       (\<lambda>t. t\<lparr>ten_status := started_status ex, ten_updated_at := now_s w\<rparr>) (tenants (dbase w))"
  using assms
  by (auto simp: begin_execution_def get_provision_job_def Let_def split: option.splits)

lemma execution_check_None:
  "execution_check data_dir actor j t = None \<longleftrightarrow>
     job_status j = JApproved \<and> job_plan j \<noteq> [] \<and>
     not_false (jget (job_request j) ''dry_run'') = job_dry_run j \<and>
     (\<exists>a. job_approved_by j = Some a \<and> a \<noteq> [] \<and>
        (job_dry_run j \<or> (a \<noteq> job_requested_by j \<and> a \<noteq> actor))) \<and>
     (job_type j = Bootstrap \<longrightarrow> (\<exists>f. provision_artifact data_dir j t = Inr f))"
  by (cases "job_approved_by j")
    (auto simp: execution_check_def Let_def opt_or_def str_or_def split: sum.splits)

definition finished_row :: "execution \<Rightarrow> int \<Rightarrow> provision_job \<Rightarrow> provision_job" where
  "finished_row ex now j = j\<lparr>job_status := JCompleted, job_completed_at := Some now,
     job_result := Some (JObj [(''dry_run'', JBool (ex_dry ex)),
        (''steps_executed'', JInt (int (length (ex_results ex)))), (''steps'', JArr (ex_results ex))]),
     job_error := None, job_updated_at := now\<rparr>"

definition failed_row :: "execution \<Rightarrow> string \<Rightarrow> int \<Rightarrow> provision_job \<Rightarrow> provision_job" where
  "failed_row ex m now j = j\<lparr>job_status := JFailed, job_completed_at := Some now, job_error := Some m,
     job_result := Some (JObj [(''dry_run'', JBool (ex_dry ex)), (''steps'', JArr (ex_results ex))]),
     job_updated_at := now\<rparr>"

lemma finish_execution_frame [simp]:
  "jobs (dbase (finish_execution ex w)) = tbl_update (ex_job ex) (finished_row ex (now_s w)) (jobs (dbase w))"
  "tenants (dbase (finish_execution ex w)) = tbl_update (ex_tenant ex)
     (\<lambda>t. t\<lparr>ten_status := completed_status ex, ten_updated_at := now_s w\<rparr>) (tenants (dbase w))"
  by (simp_all add: finish_execution_def Let_def finished_row_def [abs_def])

lemma fail_execution_frame [simp]:
  "jobs (dbase (fail_execution ex m w)) = tbl_update (ex_job ex) (failed_row ex m (now_s w)) (jobs (dbase w))"
  "tenants (dbase (fail_execution ex m w)) = tbl_update (ex_tenant ex)
     (\<lambda>t. t\<lparr>ten_status := TError, ten_updated_at := now_s w\<rparr>) (tenants (dbase w))"
  by (simp_all add: fail_execution_def Let_def failed_row_def [abs_def])

lemma advance_cases:
  assumes "advance_execution e outcome ex w = (w', p)"
  obtains (ended) "p = Finished" "ex_plan ex = []"
      "jobs (dbase w') = tbl_update (ex_job ex) (finished_row ex (now_s w)) (jobs (dbase w))"
      "tenants (dbase w') = tbl_update (ex_tenant ex)
         (\<lambda>t. t\<lparr>ten_status := completed_status ex, ten_updated_at := now_s w\<rparr>) (tenants (dbase w))"
  | (broke) m s rest where "p = Broke m" "ex_plan ex = s # rest"
      "\<not> ex_dry ex \<and> \<not> exec_allowed e \<or> outcome s = Inl m"
      "jobs (dbase w') = tbl_update (ex_job ex) (failed_row ex m (now_s w)) (jobs (dbase w))"
      "tenants (dbase w') = tbl_update (ex_tenant ex)
         (\<lambda>t. t\<lparr>ten_status := TError, ten_updated_at := now_s w\<rparr>) (tenants (dbase w))"
  | (more) s rest r where "ex_plan ex = s # rest" "outcome s = Inr r" "ex_dry ex \<or> exec_allowed e"
      "p = More (ex\<lparr>ex_plan := rest, ex_results := ex_results ex @ [step_result_json s r]\<rparr>)"
      "jobs (dbase w') = jobs (dbase w)" "tenants (dbase w') = tenants (dbase w)" "clock w' = clock w"
proof (cases "ex_plan ex")
  case Nil
  then show thesis using assms by (intro ended) (auto simp: advance_execution_def)
next
  case (Cons s rest)
  show thesis
  proof (cases "\<not> ex_dry ex \<and> \<not> exec_allowed e")
    case True
    then show thesis using assms Cons
      by (intro broke) (auto simp: advance_execution_def Let_def)
  next
    case False
    show thesis
    proof (cases "outcome s")
      case (Inl m)
      then show thesis using assms Cons False
        by (intro broke [of m]) (auto simp: advance_execution_def Let_def)
    next
      case (Inr r)
      then show thesis using assms Cons False
        by (intro more) (auto simp: advance_execution_def Let_def)
    qed
  qed
qed

section \<open>The life cycle as an invariant\<close>

text \<open>A live job under way or completed has an approver, and not the one who asked for it.\<close>

definition two_person :: "provision_job \<Rightarrow> bool" where
  "two_person j =
     (job_status j \<notin> set [JRunning, JCompleted] \<or> job_dry_run j \<or>
      (case job_approved_by j of None \<Rightarrow> False | Some a \<Rightarrow> a \<noteq> [] \<and> a \<noteq> job_requested_by j))"

definition under_way :: "provision_job table \<Rightarrow> execution \<Rightarrow> bool" where
  "under_way J ex = (case tbl_get J (ex_job ex) of None \<Rightarrow> False
     | Some j \<Rightarrow> job_status j = JRunning \<and> job_dry_run j = ex_dry ex)"

definition jobs_ok :: "provision_job table \<Rightarrow> execution list \<Rightarrow> bool" where
  "jobs_ok J exs =
     (tbl_ok J \<and> distinct (map ex_job exs) \<and> list_all (under_way J) exs \<and>
      list_all (\<lambda>x. two_person (snd x)) (rows J))"

lemma jobs_ok_iff: "jobs_ok J exs \<longleftrightarrow> tbl_ok J \<and> distinct (map ex_job exs) \<and>
     (\<forall>ex \<in> set exs. under_way J ex) \<and> (\<forall>i j. tbl_get J i = Some j \<longrightarrow> two_person j)"
  unfolding jobs_ok_def list_all_iff using tbl_get_iff [of J] by (metis (no_types, lifting) prod.collapse snd_conv)

lemma jobs_ok_insert:
  assumes "jobs_ok J exs" "queues J J'"
  shows "jobs_ok J' exs"
proof -
  obtain j where j: "job_status j = JQueued" "J' = tbl_insert j J" using assms(2) by (auto simp: queues_def)
  have "tbl_get J (next_id J) = None" using assms(1) by (simp add: jobs_ok_def)
  then have "under_way J ex \<Longrightarrow> under_way J' ex" for ex
    using assms(1) by (auto simp: j under_way_def jobs_ok_def tbl_simps tbl_last_id_def split: option.splits)
  then show ?thesis
    using assms(1) j by (auto simp: jobs_ok_iff tbl_simps two_person_def)
qed

lemma jobs_ok_update:
  assumes "jobs_ok J exs" "tbl_get J i = Some j" "job_status j \<noteq> JRunning" "two_person (f j)"
  shows "jobs_ok (tbl_update i f J) exs"
  using assms by (auto simp: jobs_ok_iff under_way_def tbl_simps split: option.splits)

lemma jobs_ok_begin:
  assumes "jobs_ok J exs" "tbl_get J i = Some j" "job_status j \<noteq> JRunning" "two_person (f j)"
    and "ex_job ex = i" "job_status (f j) = JRunning" "job_dry_run (f j) = ex_dry ex"
  shows "jobs_ok (tbl_update i f J) (exs @ [ex])"
  using assms by (auto simp: jobs_ok_iff under_way_def tbl_simps split: option.splits)

lemma drop_nth_props:
  assumes "distinct (map f xs)" "k < length xs"
  shows "distinct (map f (drop_nth k xs))" "x \<in> set (drop_nth k xs) \<Longrightarrow> x \<in> set xs \<and> f x \<noteq> f (xs ! k)"
proof -
  have xs: "xs = take k xs @ xs ! k # drop (Suc k) xs" using assms(2) by (rule id_take_nth_drop)
  have d: "distinct (map f (take k xs @ xs ! k # drop (Suc k) xs))" using assms(1) xs by simp
  then show "distinct (map f (drop_nth k xs))" by (simp add: drop_nth_def)
  assume "x \<in> set (drop_nth k xs)"
  then have "x \<in> set (take k xs) \<union> set (drop (Suc k) xs)" by (simp add: drop_nth_def)
  with d show "x \<in> set xs \<and> f x \<noteq> f (xs ! k)"
    by (auto dest: in_set_takeD in_set_dropD) (metis imageI)+
qed

lemma jobs_ok_end:
  assumes "jobs_ok J exs" "k < length exs" "\<And>j. tbl_get J (ex_job (exs ! k)) = Some j \<Longrightarrow> two_person j \<Longrightarrow>
      job_status j = JRunning \<Longrightarrow> two_person (f j)"
  shows "jobs_ok (tbl_update (ex_job (exs ! k)) f J) (drop_nth k exs)"
proof -
  have "under_way J (exs ! k)" using assms(1,2) by (auto simp: jobs_ok_iff)
  then have "two_person (f j)" if "tbl_get J (ex_job (exs ! k)) = Some j" for j
    using assms(1,3) that by (auto simp: under_way_def jobs_ok_iff)
  moreover have "under_way (tbl_update (ex_job (exs ! k)) f J) ex" if "ex \<in> set (drop_nth k exs)" for ex
    using assms(1) drop_nth_props(2) [of ex_job exs k ex] that assms(2)
    by (auto simp: jobs_ok_iff under_way_def tbl_simps split: option.splits)
  ultimately show ?thesis
    using assms(1) drop_nth_props(1) [of ex_job exs k] assms(2) by (auto simp: jobs_ok_iff tbl_simps)
qed

lemma jobs_ok_more:
  assumes "jobs_ok J exs" "k < length exs" "ex_job ex' = ex_job (exs ! k)" "ex_dry ex' = ex_dry (exs ! k)"
  shows "jobs_ok J (exs[k := ex'])"
proof -
  have "map ex_job (exs[k := ex']) = map ex_job exs"
    using assms(2,3) by (simp add: map_update list_update_id [of "map ex_job exs" k, simplified nth_map [OF assms(2)]])
  moreover have "under_way J (exs ! k)" using assms(1,2) by (auto simp: jobs_ok_iff)
  then have "under_way J ex'" using assms(3,4) by (auto simp: under_way_def split: option.splits)
  ultimately show ?thesis
    using assms(1) set_update_subset_insert [of exs k ex'] by (auto simp: jobs_ok_iff)
qed

definition prov_ok :: "world \<times> execution list \<Rightarrow> bool" where
  "prov_ok s = jobs_ok (jobs (dbase (fst s))) (snd s)"

text \<open>How one operation changes the jobs and the runs.\<close>

inductive job_change ::
  "provision_job table \<times> execution list \<Rightarrow> provision_job table \<times> execution list \<Rightarrow> bool" where
  stay: "job_change s s"
| queue: "queues J J' \<Longrightarrow> job_change (J, exs) (J', exs)"
| decide: "tbl_get J i = Some j \<Longrightarrow> job_status j \<notin> {JRunning, JCompleted, JCancelled} \<Longrightarrow>
    job_status j \<in> set (action_from a) \<Longrightarrow> job_change (J, exs) (tbl_update i (action_row a actor now) J, exs)"
| start: "tbl_get J i = Some j \<Longrightarrow> execution_check data_dir actor j t = None \<Longrightarrow>
    ex_job ex = i \<Longrightarrow> ex_dry ex = job_dry_run j \<Longrightarrow> ex_actor ex = actor \<Longrightarrow>
    job_change (J, exs) (tbl_update i (\<lambda>j. j\<lparr>job_status := JRunning, job_started_at := Some now,
      job_updated_at := now, job_runner_host := host\<rparr>) J, exs @ [ex])"
| finish: "k < length exs \<Longrightarrow> ex_plan (exs ! k) = [] \<Longrightarrow>
    job_change (J, exs) (tbl_update (ex_job (exs ! k)) (finished_row (exs ! k) now) J, drop_nth k exs)"
| fail: "k < length exs \<Longrightarrow>
    job_change (J, exs) (tbl_update (ex_job (exs ! k)) (failed_row (exs ! k) m now) J, drop_nth k exs)"
| more: "k < length exs \<Longrightarrow> ex_job ex' = ex_job (exs ! k) \<Longrightarrow> ex_dry ex' = ex_dry (exs ! k) \<Longrightarrow>
    ex_actor ex' = ex_actor (exs ! k) \<Longrightarrow> job_change (J, exs) (J, exs[k := ex'])"

inductive_cases job_changeE: "job_change (J, exs) s'"

lemma prov_do_change:
  "job_change (jobs (dbase w), exs)
     (jobs (dbase (fst (prov_do e data_dir cwd actor op (w, exs)))), snd (prov_do e data_dir cwd actor op (w, exs)))"
proof (cases op)
  case (OpCreate b uuid)
  then show ?thesis
    by (auto split: sum.splits intro: job_change.stay job_change.queue dest!: jobs_create_tenant)
next
  case (OpDecommission tid b uuid)
  then show ?thesis
    by (auto split: sum.splits intro: job_change.stay job_change.queue dest!: jobs_decommission)
next
  case (OpQueue b)
  then show ?thesis
    by (auto split: sum.splits intro: job_change.stay job_change.queue dest!: jobs_queue)
next
  case (OpTransition jid a reason)
  show ?thesis
  proof (cases "transition_job_status jid actor a reason w")
    case (Inr w')
    then show ?thesis
      by (rule transition_cases) (use OpTransition Inr in \<open>auto intro: job_change.decide\<close>)
  qed (use OpTransition in \<open>auto intro: job_change.stay\<close>)
next
  case (OpBegin jid)
  show ?thesis
  proof (cases "begin_execution e data_dir jid actor w")
    case (Inr x)
    obtain w' ex where x: "x = (w', ex)" by (cases x)
    from Inr show ?thesis unfolding x
      by (rule begin_cases) (use OpBegin Inr x in \<open>auto intro: job_change.start\<close>)
  qed (use OpBegin in \<open>auto intro: job_change.stay\<close>)
next
  case (OpAdvance k outcome)
  show ?thesis
  proof (cases "k < length exs")
    case True
    obtain w' p where a: "advance_execution e outcome (exs ! k) w = (w', p)" by fastforce
    then show ?thesis
      by (cases rule: advance_cases)
        (use OpAdvance True a in \<open>auto intro: job_change.finish job_change.fail job_change.more\<close>)
  qed (use OpAdvance in \<open>auto intro: job_change.stay\<close>)
qed

lemma job_change_ok:
  assumes "job_change s s'" "jobs_ok (fst s) (snd s)"
  shows "jobs_ok (fst s') (snd s')"
  using assms
proof (induction rule: job_change.induct)
  case (queue J J' exs)
  then show ?case using jobs_ok_insert by simp
next
  case (decide J i j a exs actor now)
  have "two_person (action_row a actor now j)"
    using decide by (cases a) (auto simp: two_person_def)
  with decide show ?case by (auto intro: jobs_ok_update)
next
  case (start J i j data_dir actor t ex exs now host)
  then show ?case
    by (auto simp: execution_check_None two_person_def intro!: jobs_ok_begin [where j = j])
next
  case (finish k exs J now)
  then show ?case
    by (auto simp: two_person_def finished_row_def intro!: jobs_ok_end split: option.splits)
next
  case (fail k exs J m now)
  then show ?case by (auto simp: two_person_def failed_row_def intro!: jobs_ok_end)
next
  case (more k exs ex' J)
  then show ?case using jobs_ok_more by simp
qed

lemma prov_step_ok: "prov_ok s \<Longrightarrow> prov_ok (prov_step e data_dir cwd x s)"
proof -
  assume s: "prov_ok s"
  obtain t actor op where x: "x = (t, actor, op)" by (cases x)
  have "job_change (jobs (dbase (fst s)), snd s)
      (jobs (dbase (fst (prov_step e data_dir cwd x s))), snd (prov_step e data_dir cwd x s))"
    using prov_do_change [of "(fst s)\<lparr>clock := t\<rparr>" "snd s" e data_dir cwd actor op]
    by (simp add: prov_step_def x)
  from job_change_ok [OF this] s show ?thesis by (simp add: prov_ok_def)
qed

text \<open>A completed or cancelled job is closed.\<close>

definition job_closed :: "int \<Rightarrow> world \<times> execution list \<Rightarrow> bool" where
  "job_closed i s = (case tbl_get (jobs (dbase (fst s))) i of None \<Rightarrow> False
     | Some j \<Rightarrow> job_status j \<in> set [JCompleted, JCancelled])"

lemma job_change_closed:
  assumes "job_change s s'" "jobs_ok (fst s) (snd s)" "tbl_get (fst s) i = Some j" "job_status j \<in> {JCompleted, JCancelled}"
  shows "tbl_get (fst s') i = Some j"
  using assms
proof (induction rule: job_change.induct)
  case (queue J J' exs)
  have "i \<noteq> next_id J" using queue by (auto simp: jobs_ok_def)
  with queue show ?case by (auto simp: queues_def tbl_simps tbl_last_id_def jobs_ok_def)
next
  case (finish k exs J now)
  then have "under_way J (exs ! k)" by (auto simp: jobs_ok_iff)
  with finish show ?case by (auto simp: under_way_def tbl_simps)
next
  case (fail k exs J m now)
  then have "under_way J (exs ! k)" by (auto simp: jobs_ok_iff)
  with fail show ?case by (auto simp: under_way_def tbl_simps)
qed (auto simp: tbl_simps execution_check_None)

lemma prov_step_change:
  "job_change (jobs (dbase (fst s)), snd s)
     (jobs (dbase (fst (prov_step e data_dir cwd x s))), snd (prov_step e data_dir cwd x s))"
proof -
  obtain t actor op where "x = (t, actor, op)" by (cases x)
  then show ?thesis
    using prov_do_change [of "(fst s)\<lparr>clock := t\<rparr>" "snd s" e data_dir cwd actor op]
    by (simp add: prov_step_def)
qed

lemma prov_step_closed:
  assumes "prov_ok s" "job_closed i s"
  shows "tbl_get (jobs (dbase (fst (prov_step e data_dir cwd x s)))) i = tbl_get (jobs (dbase (fst s))) i"
proof -
  obtain j where "tbl_get (jobs (dbase (fst s))) i = Some j" "job_status j \<in> {JCompleted, JCancelled}"
    using assms(2) by (auto simp: job_closed_def split: option.splits)
  with job_change_closed [OF prov_step_change, of s i j] assms(1) show ?thesis by (simp add: prov_ok_def)
qed

interpretation provisioning: absorbing_machine "prov_step e data_dir cwd" prov_ok
    "job_closed i" "\<lambda>s. tbl_get (jobs (dbase (fst s))) i"
proof
  fix s x assume s: "prov_ok s"
  then show "prov_ok (prov_step e data_dir cwd x s)" by (rule prov_step_ok)
  assume c: "job_closed i s"
  show "tbl_get (jobs (dbase (fst (prov_step e data_dir cwd x s)))) i = tbl_get (jobs (dbase (fst s))) i"
    by (rule prov_step_closed [OF s c])
  then show "job_closed i (prov_step e data_dir cwd x s)" using c by (simp add: job_closed_def)
qed

section \<open>Properties of the life cycle\<close>

text \<open>
  Claim C3. The two-person rule: whatever administrators do, in whatever order and with
  whatever runs under way between their requests, a live job that is running or completed
  was approved by somebody other than the one who requested it.
\<close>

theorem two_person_rule:
  assumes "prov_ok s" "tbl_get (jobs (dbase (fst (fold (prov_step e data_dir cwd) xs s)))) i = Some j"
    and "job_status j \<in> {JRunning, JCompleted}" "\<not> job_dry_run j"
  shows "\<exists>a. job_approved_by j = Some a \<and> a \<noteq> [] \<and> a \<noteq> job_requested_by j"
proof -
  have "prov_ok (fold (prov_step e data_dir cwd) xs s)" using assms(1) by (rule provisioning.run_inv)
  then have "two_person j" using assms(2) by (auto simp: prov_ok_def jobs_ok_iff)
  with assms(3,4) show ?thesis by (auto simp: two_person_def split: option.splits)
qed

text \<open>
  A run is exclusive: along any such sequence no two runs work on the same job, and
  every job with a run under way has the status running.
\<close>

theorem run_exclusive:
  assumes "prov_ok s" "fold (prov_step e data_dir cwd) xs s = (w, exs)"
  shows "distinct (map ex_job exs) \<and>
    list_all (\<lambda>ex. \<exists>j. tbl_get (jobs (dbase w)) (ex_job ex) = Some j \<and> job_status j = JRunning) exs"
proof -
  have "prov_ok (w, exs)" using provisioning.run_inv [OF assms(1)] assms(2) by metis
  then show ?thesis
    by (auto simp: prov_ok_def jobs_ok_def under_way_def list_all_iff split: option.splits)
qed

text \<open>
  Claim C4. Completed and cancelled are final: from the moment a job is in one of them, its
  row never changes again.
\<close>

theorem closed_job_frozen:
  assumes "prov_ok s" "tbl_get (jobs (dbase (fst s))) i = Some j" "job_status j \<in> {JCompleted, JCancelled}"
  shows "tbl_get (jobs (dbase (fst (fold (prov_step e data_dir cwd) xs s)))) i = Some j"
proof -
  have "job_closed i s" using assms(2,3) by (simp add: job_closed_def)
  from provisioning.run_closed [OF assms(1) this] assms(2) show ?thesis by simp
qed

section \<open>Samples\<close>

definition sample_tenant :: tenant where
  "sample_tenant = \<lparr>ten_slug = ''acme'', ten_display_name = ''Acme'', ten_linux_user = ''oc-acme'',
     ten_plan_tier = ''standard'', ten_status = TActive, ten_openclaw_home = ''/home/oc-acme/.openclaw'',
     ten_workspace_root = ''/home/oc-acme/workspace'', ten_gateway_port = Some 4000,
     ten_dashboard_port = None, ten_config = JObj [], ten_created_by = ''ada'', ten_owner_gateway = None,
     ten_created_at = 1, ten_updated_at = 1\<rparr>"

definition sample_job :: "bool \<Rightarrow> provision_job" where
  "sample_job dry = (new_job 1 Update dry ''ada'' None (JObj [(''dry_run'', JBool dry)])
     [step ''ping'' ''Ping'' [''/bin/true''] 10] 2)\<lparr>job_status := JApproved, job_approved_by := Some ''bo''\<rparr>"

definition sample_jobs :: "bool \<Rightarrow> world" where
  "sample_jobs dry = (world_at 5000)\<lparr>dbase := db_empty\<lparr>tenants := tbl_insert sample_tenant tbl_empty,
     jobs := tbl_insert (sample_job dry) tbl_empty\<rparr>\<rparr>"

definition exec_env :: env where
  "exec_env = [''MC_SUPER_PROVISION_EXEC'' \<mapsto> ''true'', ''MC_PROVISIONER_TOKEN'' \<mapsto> ''t'']"

definition sample_ops :: "(int \<times> string \<times> prov_op) list" where
  "sample_ops = [(6000, ''cy'', OpBegin 1), (7000, ''bo'', OpBegin 1),
     (8000, ''cy'', OpAdvance 0 (\<lambda>_. Inr \<lparr>cr_stdout = ''ok'', cr_stderr = [], cr_code = 0, cr_skipped = False\<rparr>)),
     (9000, ''cy'', OpAdvance 0 (\<lambda>_. Inl ''x''))]"

lemma sample_jobs_ok: "prov_ok (sample_jobs dry, [])"
  by (cases dry) code_simp+

lemma sample_run:
  "(case fold (prov_step exec_env ''/d'' ''/w'') sample_ops (sample_jobs False, []) of (w, exs) \<Rightarrow>
     exs = [] \<and> tbl_get (jobs (dbase w)) 1 = Some (the (tbl_get (jobs (dbase w)) 1)) \<and>
     (case the (tbl_get (jobs (dbase w)) 1) of j \<Rightarrow> job_status j = JCompleted \<and> \<not> job_dry_run j))"
  by code_simp

theorem two_person_rule_witness:
  "\<exists>j a. tbl_get (jobs (dbase (fst (fold (prov_step exec_env ''/d'' ''/w'') sample_ops (sample_jobs False, []))))) 1 = Some j
     \<and> job_status j = JCompleted \<and> \<not> job_dry_run j \<and> job_approved_by j = Some a \<and> a \<noteq> job_requested_by j"
proof -
  obtain j where j: "tbl_get (jobs (dbase (fst (fold (prov_step exec_env ''/d'' ''/w'') sample_ops (sample_jobs False, []))))) 1 = Some j"
    "job_status j = JCompleted" "\<not> job_dry_run j"
    using sample_run by (auto simp: case_prod_beta)
  then show ?thesis using two_person_rule [OF sample_jobs_ok j(1)] by auto
qed

theorem run_exclusive_witness:
  "\<exists>w exs. fold (prov_step exec_env ''/d'' ''/w'') (take 2 sample_ops) (sample_jobs False, []) = (w, exs) \<and>
     length exs = 1 \<and> distinct (map ex_job exs)"
proof -
  obtain w exs where run: "fold (prov_step exec_env ''/d'' ''/w'') (take 2 sample_ops) (sample_jobs False, []) = (w, exs)"
    by fastforce
  have "length (snd (fold (prov_step exec_env ''/d'' ''/w'') (take 2 sample_ops) (sample_jobs False, []))) = 1"
    by code_simp
  with run run_exclusive [OF sample_jobs_ok run] show ?thesis by auto
qed

definition cancelled_jobs :: world where
  "cancelled_jobs = update_job 1 (\<lambda>j. j\<lparr>job_status := JCancelled\<rparr>) (sample_jobs False)"

theorem closed_job_frozen_witness:
  "tbl_get (jobs (dbase (fst (fold (prov_step exec_env ''/d'' ''/w'')
     ((1, ''bo'', OpTransition 1 Approve None) # sample_ops) (cancelled_jobs, []))))) 1
   = Some ((sample_job False)\<lparr>job_status := JCancelled\<rparr>)"
proof (rule closed_job_frozen)
  show "prov_ok (cancelled_jobs, [])" by code_simp
  show "tbl_get (jobs (dbase (fst (cancelled_jobs, [] :: execution list)))) 1 = Some ((sample_job False)\<lparr>job_status := JCancelled\<rparr>)"
    by (simp add: cancelled_jobs_def sample_jobs_def world_at_def tbl_update_def tbl_empty_def tbl_get_def tbl_insert_def)
qed simp

section \<open>Beginning a run\<close>

lemma execution_check_if:
  "execution_check data_dir actor j t = None \<longleftrightarrow>
     (\<exists>a. job_status j = JApproved \<and> job_plan j \<noteq> [] \<and>
        not_false (jget (job_request j) ''dry_run'') = job_dry_run j \<and>
        job_approved_by j = Some a \<and> a \<noteq> [] \<and>
        (if job_dry_run j then True else a \<noteq> job_requested_by j \<and> a \<noteq> actor) \<and>
        (if job_type j = Bootstrap then \<exists>f. provision_artifact data_dir j t = Inr f else True))"
  by (cases "job_dry_run j"; cases "job_type j = Bootstrap") (auto simp: execution_check_None)

text \<open>
  When a run may begin: exactly for an approved job with a plan, whose recorded mode
  agrees with its request, that names an approver who, if the job is live, is neither the
  requester nor the one who runs it; a bootstrap job must also yield a valid gateway file.
\<close>

theorem run_begins_iff:
  "(\<exists>r. begin_execution e data_dir jid actor w = Inr r) \<longleftrightarrow>
     (\<exists>j t a. tbl_get (jobs (dbase w)) jid = Some j \<and> tbl_get (tenants (dbase w)) (job_tenant_id j) = Some t \<and>
        job_status j = JApproved \<and> job_plan j \<noteq> [] \<and>
        not_false (jget (job_request j) ''dry_run'') = job_dry_run j \<and>
        job_approved_by j = Some a \<and> a \<noteq> [] \<and>
        (if job_dry_run j then True else a \<noteq> job_requested_by j \<and> a \<noteq> actor) \<and>
        (if job_type j = Bootstrap then \<exists>f. provision_artifact data_dir j t = Inr f else True))"
proof -
  have "(\<exists>r. begin_execution e data_dir jid actor w = Inr r) \<longleftrightarrow>
     (\<exists>j t. tbl_get (jobs (dbase w)) jid = Some j \<and> tbl_get (tenants (dbase w)) (job_tenant_id j) = Some t \<and>
        execution_check data_dir actor j t = None)"
    by (auto simp: begin_execution_def get_provision_job_def Let_def split: option.splits)
  then show ?thesis
    unfolding execution_check_if by blast
qed

text \<open>
  The transition table: approve, reject and cancel succeed exactly from the statuses
  listed for them, never from running, completed or cancelled; on success they change the
  row of that job only, leave the tenants alone, and leave one event and one audit entry.
\<close>

theorem transition_table:
  "(case transition_job_status jid actor a reason w of
      Inl m \<Rightarrow> \<not> (\<exists>j t. tbl_get (jobs (dbase w)) jid = Some j \<and> tbl_get (tenants (dbase w)) (job_tenant_id j) = Some t \<and>
          job_status j \<in> set (case a of Approve \<Rightarrow> [JQueued, JRejected, JFailed] | Reject \<Rightarrow> [JQueued, JApproved, JFailed]
             | Cancel \<Rightarrow> [JQueued, JApproved, JRejected, JFailed]))
    | Inr w' \<Rightarrow> (\<exists>j t. tbl_get (jobs (dbase w)) jid = Some j \<and> tbl_get (tenants (dbase w)) (job_tenant_id j) = Some t \<and>
          job_status j \<in> set (case a of Approve \<Rightarrow> [JQueued, JRejected, JFailed] | Reject \<Rightarrow> [JQueued, JApproved, JFailed]
             | Cancel \<Rightarrow> [JQueued, JApproved, JRejected, JFailed])) \<and>
        jobs (dbase w') = tbl_update jid (action_row a actor (now_s w)) (jobs (dbase w)) \<and>
        tenants (dbase w') = tenants (dbase w) \<and>
        length (rows (provision_events (dbase w'))) = Suc (length (rows (provision_events (dbase w)))) \<and>
        length (rows (audit_log (dbase w'))) = Suc (length (rows (audit_log (dbase w)))))"
proof (cases "get_provision_job jid w")
  case None
  then show ?thesis
    by (auto simp: transition_job_status_def get_provision_job_def split: option.splits)
next
  case (Some v)
  obtain j t where v: "v = (jid, j, t, job_events jid w)" "tbl_get (jobs (dbase w)) jid = Some j"
    "tbl_get (tenants (dbase w)) (job_tenant_id j) = Some t"
    using Some by (auto simp: get_provision_job_def split: option.splits)
  show ?thesis
    by (cases a; cases "job_status j")
      (simp_all add: transition_job_status_def Some v Let_def tenant_audit_def append_provision_event_def
        update_job_def tbl_simps)
qed

section \<open>The course of a run\<close>

definition all_succeed :: "(provision_step \<Rightarrow> string + command_result) \<Rightarrow> provision_step list \<Rightarrow> bool" where
  "all_succeed outcome plan = list_all (\<lambda>s. case outcome s of Inl m \<Rightarrow> False | Inr r \<Rightarrow> True) plan"

definition job_status_at :: "int \<Rightarrow> world \<Rightarrow> job_status option" where
  "job_status_at i w = map_option job_status (tbl_get (jobs (dbase w)) i)"

definition tenant_status_at :: "int \<Rightarrow> world \<Rightarrow> tenant_status option" where
  "tenant_status_at i w = map_option ten_status (tbl_get (tenants (dbase w)) i)"

lemma run_execution_result:
  assumes "tbl_get (jobs (dbase w)) (ex_job ex) = Some j" "tbl_get (tenants (dbase w)) (ex_tenant ex) = Some t"
    and "length (ex_plan ex) < n"
  shows "case run_execution n e outcome ex w of (w', p) \<Rightarrow>
     if (ex_plan ex = [] \<or> ex_dry ex \<or> exec_allowed e) \<and> all_succeed outcome (ex_plan ex)
     then p = Finished \<and> job_status_at (ex_job ex) w' = Some JCompleted \<and>
          tenant_status_at (ex_tenant ex) w' = Some (completed_status ex)
     else (\<exists>m. p = Broke m) \<and> job_status_at (ex_job ex) w' = Some JFailed \<and>
          tenant_status_at (ex_tenant ex) w' = Some TError"
  using assms
proof (induction n arbitrary: ex w)
  case (Suc n)
  obtain w1 p where a: "advance_execution e outcome ex w = (w1, p)" by fastforce
  then show ?case
  proof (cases rule: advance_cases)
    case ended
    then show ?thesis using a Suc.prems
      by (simp add: all_succeed_def job_status_at_def tenant_status_at_def tbl_simps finished_row_def)
  next
    case (broke m s rest)
    then have "\<not> ((ex_plan ex = [] \<or> ex_dry ex \<or> exec_allowed e) \<and> all_succeed outcome (ex_plan ex))"
      by (auto simp: all_succeed_def)
    then show ?thesis using a Suc.prems broke
      by (simp add: job_status_at_def tenant_status_at_def tbl_simps failed_row_def)
  next
    case (more s rest r)
    let ?ex = "ex\<lparr>ex_plan := rest, ex_results := ex_results ex @ [step_result_json s r]\<rparr>"
    have "case run_execution n e outcome ?ex w1 of (w', p) \<Rightarrow>
       if (ex_plan ?ex = [] \<or> ex_dry ?ex \<or> exec_allowed e) \<and> all_succeed outcome (ex_plan ?ex)
       then p = Finished \<and> job_status_at (ex_job ?ex) w' = Some JCompleted \<and>
            tenant_status_at (ex_tenant ?ex) w' = Some (completed_status ?ex)
       else (\<exists>m. p = Broke m) \<and> job_status_at (ex_job ?ex) w' = Some JFailed \<and>
            tenant_status_at (ex_tenant ?ex) w' = Some TError"
      by (rule Suc.IH) (use Suc.prems more in auto)
    moreover have "completed_status ?ex = completed_status ex" by (simp add: completed_status_def)
    ultimately show ?thesis using more a by (auto simp: all_succeed_def)
  qed
qed simp


lemma begin_running:
  assumes "begin_execution e data_dir jid actor w = Inr (w', ex)"
  shows "ex_job ex = jid \<and> ex_plan ex \<noteq> [] \<and> (\<exists>j. tbl_get (jobs (dbase w')) (ex_job ex) = Some j) \<and>
     (\<exists>t. tbl_get (tenants (dbase w')) (ex_tenant ex) = Some t)"
  using assms by (rule begin_cases) (auto simp: tbl_simps execution_check_None)


definition echo_daemon :: daemon where
  "echo_daemon c a t dry k = Inr \<lparr>rsp_ok = True, rsp_code = Some 0, rsp_stdout = Some c, rsp_stderr = None,
     rsp_skipped = dry, rsp_error = None\<rparr>"

definition no_shell :: shell where
  "no_shell c a t = Inl ''no shell''"


section \<open>What a run can reach\<close>

lemma run_step_dry:
  assumes "\<And>c a t k. daemon c a t True k = daemon' c a t True k"
  shows "run_provision_step e daemon shell True s = run_provision_step e daemon' shell' True s"
  using assms by (simp add: run_provision_step_def run_provisioner_command_def split: list.splits)

lemma run_execution_disabled:
  assumes "\<not> exec_allowed e" "\<not> ex_dry ex"
  shows "run_execution n e outcome ex w = run_execution n e outcome' ex w"
  using assms by (cases n; cases "ex_plan ex") (simp_all add: advance_execution_def Let_def)

text \<open>
  A dry run executes nothing: its result does not depend on the shell at all, and on
  the daemon only through requests marked as dry runs. A live run while execution is not
  enabled depends on neither.
\<close>

theorem nothing_executed:
  assumes "tbl_get (jobs (dbase w)) jid = Some j"
    and "if job_dry_run j then \<forall>c a t k. daemon c a t True k = daemon' c a t True k else \<not> exec_allowed e"
  shows "execute_provision_job e data_dir daemon shell jid actor w = execute_provision_job e data_dir daemon' shell' jid actor w"
proof (cases "begin_execution e data_dir jid actor w")
  case (Inr x)
  obtain w1 ex where x: "x = (w1, ex)" by (cases x)
  have dry: "ex_dry ex = job_dry_run j"
    using Inr [unfolded x] assms(1) by (auto elim!: begin_cases)
  have "run_execution n e (run_provision_step e daemon shell (ex_dry ex)) ex w1
      = run_execution n e (run_provision_step e daemon' shell' (ex_dry ex)) ex w1" for n
  proof (cases "ex_dry ex")
    case True
    then have "run_provision_step e daemon shell True = run_provision_step e daemon' shell' True"
      using assms(2) dry run_step_dry [of daemon daemon'] by (intro ext) auto
    with True show ?thesis by simp
  next
    case False
    then show ?thesis using assms(2) dry by (intro run_execution_disabled) auto
  qed
  then show ?thesis by (simp add: execute_provision_job_def Inr x del: run_execution.simps)
qed (simp add: execute_provision_job_def)

theorem nothing_executed_witness:
  "execute_provision_job exec_env ''/d'' echo_daemon no_shell 1 ''cy'' (sample_jobs True)
   = execute_provision_job exec_env ''/d'' echo_daemon (\<lambda>c a t. Inl ''rm -rf'') 1 ''cy'' (sample_jobs True)"
proof (rule nothing_executed)
  show "tbl_get (jobs (dbase (sample_jobs True))) 1 = Some (sample_job True)"
    by (simp add: sample_jobs_def world_at_def tbl_get_def tbl_insert_def tbl_empty_def)
qed (simp add: sample_job_def new_job_def)

text \<open>A dry run that fails, here for want of a token, leaves an active tenant in error.\<close>

theorem dry_run_failure_marks_tenant:
  "tenant_status_at 1 (sample_jobs True) = Some TActive \<and>
   tenant_status_at 1 (fst (execute_provision_job (\<lambda>_. None) ''/d'' echo_daemon no_shell 1 ''cy'' (sample_jobs True))) = Some TError"
proof
  show "tenant_status_at 1 (sample_jobs True) = Some TActive" by code_simp
  show "tenant_status_at 1 (fst (execute_provision_job (\<lambda>_. None) ''/d'' echo_daemon no_shell 1 ''cy'' (sample_jobs True))) = Some TError"
    by code_simp
qed

end
