(* ===== verification/Json_Text.thy ===== *)
theory Json_Text
  imports Js_Values
begin

text \<open>
  \<open>JSON.stringify\<close> and number texts. A number is written in decimal notation, whole or with
  its exact fraction (the model's numbers are exact; at most twenty places are written, and
  the exponent notation the language uses from \<open>1e21\<close> on is not modelled).
\<close>

fun decimals :: "nat \<Rightarrow> rat \<Rightarrow> string" where
  "decimals 0 q = []"
| "decimals (Suc n) q =
     (if q = 0 then []
      else let d = \<lfloor>q * 10\<rfloor> in show_nat (nat d) @ decimals n (q * 10 - of_int d))"

definition number_text :: "rat \<Rightarrow> string" where
  "number_text q =
     (let a = \<bar>q\<bar>; i = \<lfloor>a\<rfloor>; f = a - of_int i
      in (if q < 0 then ''-'' else []) @ show_int i @ (if f = 0 then [] else CHR ''.'' # decimals 20 f))"

definition hex_char :: "nat \<Rightarrow> char" where
  "hex_char n = char_of (if n < 10 then 48 + n else 87 + n)"

definition escape_char :: "char \<Rightarrow> string" where
  "escape_char c =
     (let n = of_char c :: nat in
      if n = 34 \<or> n = 92 then [CHR 0x5C, c]
      else if n = 8 then [CHR 0x5C, CHR ''b''] else if n = 9 then [CHR 0x5C, CHR ''t'']
      else if n = 10 then [CHR 0x5C, CHR ''n''] else if n = 12 then [CHR 0x5C, CHR ''f'']
      else if n = 13 then [CHR 0x5C, CHR ''r'']
      else if n < 32 then [CHR 0x5C, CHR ''u'', CHR ''0'', CHR ''0'', hex_char (n div 16), hex_char (n mod 16)]
      else [c])"

definition string_text :: "string \<Rightarrow> string" where
  "string_text s = [CHR 0x22] @ concat (map escape_char s) @ [CHR 0x22]"

fun json_text :: "json \<Rightarrow> string" where
  "json_text JNull = ''null''"
| "json_text (JBool b) = (if b then ''true'' else ''false'')"
| "json_text (JNum q) = number_text q"
| "json_text (JStr s) = string_text s"
| "json_text (JArr xs) = ''['' @ join_with '','' (map json_text xs) @ '']''"
| "json_text (JObj kvs) =
     ''{'' @ join_with '','' (map (\<lambda>(k, v). string_text k @ '':'' @ json_text v) kvs) @ ''}''"

text \<open>\<open>String(v)\<close>.\<close>

fun js_string :: "json \<Rightarrow> string" where
  "js_string JNull = ''null''"
| "js_string (JBool b) = (if b then ''true'' else ''false'')"
| "js_string (JNum q) = number_text q"
| "js_string (JStr s) = s"
| "js_string (JArr xs) = join_with '','' (map (\<lambda>x. if x = JNull then [] else js_string x) xs)"
| "js_string (JObj m) = ''[object Object]''"

end
