(* ===== verification/Js_Floats.thy ===== *)
theory Js_Floats
  imports Js_Values "HOL-Library.Log_Nat"
begin

text \<open>
  Arithmetic of the language's numbers where its rounding shows: a quotient or product is
  rounded to a double (53 bits, ties to even; magnitudes of the normal range), and
  \<open>Math.round\<close> rounds to a whole number.
\<close>

text \<open>\<open>Math.round(x)\<close>: to the nearest whole number, halves up.\<close>

definition js_round :: "rat \<Rightarrow> int" where
  "js_round x = \<lfloor>x + 1 / 2\<rfloor>"

definition round_even :: "rat \<Rightarrow> int" where
  "round_even x =
     (let f = \<lfloor>x\<rfloor>; r = x - of_int f
      in if r < 1 / 2 \<or> (r = 1 / 2 \<and> even f) then f else f + 1)"

text \<open>The power of two by which a double nearest to a positive number is scaled.\<close>

definition double_exponent :: "rat \<Rightarrow> int" where
  "double_exponent q =
     (case quotient_of q of (n, d) \<Rightarrow>
      let k = bitlen n - bitlen d in if q < 2 powi k then k - 53 else k - 52)"

definition to_double :: "rat \<Rightarrow> rat" where
  "to_double q =
     (if q = 0 then 0
      else let e = double_exponent \<bar>q\<bar>
           in sgn q * of_int (round_even (\<bar>q\<bar> / 2 powi e)) * 2 powi e)"

lemma round_even_error: "\<bar>of_int (round_even x) - x\<bar> \<le> 1 / 2"
proof -
  have "of_int \<lfloor>x\<rfloor> \<le> x" "x < of_int \<lfloor>x\<rfloor> + 1" by linarith+
  then show ?thesis by (auto simp: round_even_def Let_def abs_le_iff)
qed

lemma round_even_int [simp]: "round_even (of_int i) = i"
  by (simp add: round_even_def)

lemma double_exponent_bounds:
  assumes "0 < q"
  shows "2 ^ 52 * 2 powi double_exponent q \<le> q" "q < 2 ^ 53 * 2 powi double_exponent q"
proof -
  obtain n d where nd: "quotient_of q = (n, d)" by fastforce
  then have q: "q = of_int n / of_int d" "0 < d" by (simp_all add: quotient_of_div quotient_of_denom_pos)
  then have n: "0 < n" using assms by (simp add: zero_less_divide_iff)
  let ?k = "bitlen n - bitlen d"
  have pow: "(2::rat) powi (bitlen i - 1) \<le> of_int i" "of_int i < (2::rat) powi bitlen i" if "0 < i" for i
  proof -
    have b: "2 ^ nat (bitlen i - 1) \<le> i" "i < 2 ^ nat (bitlen i)" "0 < bitlen i"
      using bitlen_bounds [OF that] that bitlen_eq_zero_iff [of i] bitlen_nonneg [of i] by linarith+
    have "of_int (2 ^ nat (bitlen i - 1)) \<le> (of_int i :: rat)" "of_int i < (of_int (2 ^ nat (bitlen i)) :: rat)"
      using b by (simp_all only: of_int_le_iff of_int_less_iff)
    then show "(2::rat) powi (bitlen i - 1) \<le> of_int i" "of_int i < (2::rat) powi bitlen i"
      using b(3) by (simp_all add: power_int_def)
  qed
  have lo: "2 powi (?k - 1) < q"
  proof -
    have "2 powi (?k - 1) * of_int d < 2 powi (?k - 1) * (2::rat) powi bitlen d"
      using pow(2) [OF q(2)] by simp
    also have "\<dots> = 2 powi (bitlen n - 1)" by (simp flip: power_int_add)
    also have "\<dots> \<le> of_int n" by (rule pow(1) [OF n])
    finally show ?thesis using q by (simp add: pos_less_divide_eq)
  qed
  have hi: "q < 2 powi (?k + 1)"
  proof -
    have "of_int n < (2::rat) powi bitlen n" by (rule pow(2) [OF n])
    also have "\<dots> = 2 powi (?k + 1) * 2 powi (bitlen d - 1)" by (simp flip: power_int_add)
    also have "\<dots> \<le> 2 powi (?k + 1) * of_int d" using pow(1) [OF q(2)] by simp
    finally show ?thesis using q by (simp add: pos_divide_less_eq)
  qed
  have shift: "2 ^ m * (2::rat) powi e = 2 powi (int m + e)" for m e by (simp add: power_int_add)
  show "2 ^ 52 * 2 powi double_exponent q \<le> q" "q < 2 ^ 53 * 2 powi double_exponent q"
    using lo hi unfolding shift by (auto simp: double_exponent_def nd Let_def algebra_simps)
qed

theorem to_double_error: "\<bar>to_double q - q\<bar> \<le> \<bar>q\<bar> / 2 ^ 53"
proof (cases "q = 0")
  case False
  define e where "e = double_exponent \<bar>q\<bar>"
  define p :: rat where "p = 2 powi e"
  have p: "0 < p" "2 ^ 52 * p \<le> \<bar>q\<bar>" using double_exponent_bounds(1) [of "\<bar>q\<bar>"] False by (simp_all add: p_def e_def)
  have q: "sgn q * (\<bar>q\<bar> / p) * p = q" using p(1) by (simp add: sgn_mult_abs)
  have "to_double q - q = sgn q * (of_int (round_even (\<bar>q\<bar> / p)) - \<bar>q\<bar> / p) * p"
    using q False by (simp add: to_double_def Let_def e_def [symmetric] p_def [symmetric] algebra_simps)
  then have "\<bar>to_double q - q\<bar> = \<bar>of_int (round_even (\<bar>q\<bar> / p)) - \<bar>q\<bar> / p\<bar> * p"
    using False p(1) by (simp add: abs_mult)
  also have "\<dots> \<le> 1 / 2 * p" using round_even_error p(1) by (intro mult_right_mono) auto
  also have "\<dots> \<le> \<bar>q\<bar> / 2 ^ 53" using p(2) by (simp add: field_simps)
  finally show ?thesis .
qed (simp add: to_double_def)

lemma to_double_one [simp]: "to_double 1 = 1"
  by code_simp

end
