(* ===== verification/Webhooks.thy ===== *)
theory Webhooks
  imports Tasks Json_Text Js_Floats
begin

text \<open>
  Outgoing webhooks: \<open>lib/webhooks.ts\<close> (event mapping, signed delivery, retries with
  backoff, circuit breaker, pruning) and the routes under \<open>app/api/webhooks\<close>. The HMAC, the
  HTTP client, \<open>Math.random\<close> and the URL parser are parameters. A delivery is cut in two:
  the request it sends, and what it records when the answer is there; deliveries under way
  at the same time record in any order.
\<close>

section \<open>Retry policy\<close>

definition backoff_seconds :: "int list" where
  "backoff_seconds = [30, 300, 1800, 7200, 28800]"

text \<open>\<open>parseInt(s, 10)\<close>.\<close>

definition parse_int10 :: "string \<Rightarrow> int option" where
  "parse_int10 s =
     (let t = dropWhile js_white s;
          neg = (t \<noteq> [] \<and> hd t = CHR ''-'');
          u = (if t \<noteq> [] \<and> (hd t = CHR ''-'' \<or> hd t = CHR ''+'') then tl t else t)
      in map_option (\<lambda>n. if neg then - int n else int n) (read_digits digit_val 10 None u))"

definition max_retries :: "env \<Rightarrow> int" where
  "max_retries e = (case parse_int10 (env_or e ''MC_WEBHOOK_MAX_RETRIES'' ''5'') of
     None \<Rightarrow> 5 | Some n \<Rightarrow> if n = 0 then 5 else n)"

definition next_retry_delay :: "nat \<Rightarrow> rat \<Rightarrow> int" where
  "next_retry_delay attempt random =
     (let base = backoff_seconds ! min attempt (length backoff_seconds - 1);
          jitter = of_int base * (1 / 5) * (2 * random - 1)
      in js_round (of_int base + jitter))"

section \<open>Signatures\<close>

definition signature_text :: "(string \<Rightarrow> string \<Rightarrow> string) \<Rightarrow> string \<Rightarrow> string \<Rightarrow> string" where
  "signature_text hmac secret body = ''sha256='' @ to_hex (hmac secret body)"

definition verify_webhook_signature ::
  "(string \<Rightarrow> string \<Rightarrow> string) \<Rightarrow> string \<Rightarrow> string \<Rightarrow> string option \<Rightarrow> bool" where
  "verify_webhook_signature hmac secret raw_body header =
     (case str_or_null header of None \<Rightarrow> False
      | Some sig \<Rightarrow>
          if secret = [] then False
          else
            let expected = signature_text hmac secret raw_body
            in if length sig \<noteq> length expected then False else timing_safe_equal sig expected)"

section \<open>Which events reach a webhook\<close>

definition event_map :: "string \<Rightarrow> string option" where
  "event_map ty = map_of
     [(''activity.created'', ''activity''), (''notification.created'', ''notification''),
      (''agent.status_changed'', ''agent.status_change''), (''audit.security'', ''security''),
      (''task.created'', ''activity.task_created''), (''task.updated'', ''activity.task_updated''),
      (''task.deleted'', ''activity.task_deleted'')] ty"

text \<open>\<open>event.data?.k\<close> if truthy; the fields read this way are texts in every event the program sends.\<close>

definition text_field :: "json \<Rightarrow> string \<Rightarrow> string option" where
  "text_field d k = (case jget d k of Some (JStr s) \<Rightarrow> str_or_null (Some s) | _ \<Rightarrow> None)"

text \<open>The webhook events one event of the bus causes, in the order they are fired.\<close>

definition webhook_events :: "server_event \<Rightarrow> string list" where
  "webhook_events ev =
     (case event_map (ev_type ev) of None \<Rightarrow> []
      | Some mapping \<Rightarrow>
          (let sub = (\<lambda>p k. if mapping = p then map_option (\<lambda>s. p @ ''.'' @ s) (text_field (ev_data ev) k) else None)
           in (case sub ''activity'' ''type'' of Some s \<Rightarrow> s
               | None \<Rightarrow> (case sub ''notification'' ''type'' of Some s \<Rightarrow> s
               | None \<Rightarrow> (case sub ''security'' ''action'' of Some s \<Rightarrow> s
               | None \<Rightarrow> mapping)))) #
          (if ev_type ev = ''agent.status_changed'' \<and> text_field (ev_data ev) ''status'' = Some ''error''
           then [''agent.error''] else []))"

text \<open>\<open>events.includes(x)\<close> of the parsed column: an array, or a text, which has \<open>includes\<close> too.\<close>

definition events_include :: "json option \<Rightarrow> string \<Rightarrow> bool" where
  "events_include evs x =
     (case evs of Some (JArr xs) \<Rightarrow> JStr x \<in> set xs
      | Some (JStr s) \<Rightarrow> js_includes x s
      | _ \<Rightarrow> False)"

definition hook_matches :: "string \<Rightarrow> webhook \<Rightarrow> bool" where
  "hook_matches event_type wh = (events_include (wh_events wh) ''*'' \<or> events_include (wh_events wh) event_type)"

definition matching_hooks :: "string \<Rightarrow> world \<Rightarrow> (int \<times> webhook) list" where
  "matching_hooks event_type w =
     filter (\<lambda>(i, wh). hook_matches event_type wh) (tbl_select wh_enabled (webhooks (dbase w)))"

section \<open>One delivery\<close>

text \<open>What \<open>fetch\<close> comes back with after some milliseconds: a response, or an error.\<close>

datatype fetch_outcome = Responded int "string option" | Threw_Error string string

definition delivery_body :: "string \<Rightarrow> json \<Rightarrow> world \<Rightarrow> json" where
  "delivery_body event_type payload w =
     JObj [(''event'', JStr event_type), (''timestamp'', JInt (now_s w)), (''data'', payload)]"

definition delivery_headers ::
  "(string \<Rightarrow> string \<Rightarrow> string) \<Rightarrow> string option \<Rightarrow> string \<Rightarrow> json \<Rightarrow> (string \<times> string) list" where
  "delivery_headers hmac secret event_type body =
     [(''Content-Type'', ''application/json''), (''User-Agent'', ''MissionControl-Webhook/1.0''),
      (''X-MC-Event'', event_type)] @
     (case str_or_null secret of None \<Rightarrow> []
      | Some s \<Rightarrow> [(''X-MC-Signature'', signature_text hmac s (json_text body))])"

record delivery_result =
  dr_success :: bool
  dr_status :: "int option"
  dr_response :: "string option"
  dr_error :: "string option"
  dr_duration :: int
  dr_delivery_id :: "int option"

definition outcome_result :: "fetch_outcome \<Rightarrow> int \<Rightarrow> delivery_result" where
  "outcome_result o1 duration =
     (case o1 of
        Responded status text \<Rightarrow>
          \<lparr>dr_success = (200 \<le> status \<and> status < 300), dr_status = Some status,
           dr_response = map_option (\<lambda>t. if 1000 < length t then take 1000 t @ ''...'' else t) text,
           dr_error = None, dr_duration = duration, dr_delivery_id = None\<rparr>
      | Threw_Error name message \<Rightarrow>
          \<lparr>dr_success = False, dr_status = None, dr_response = None,
           dr_error = Some (if name = ''AbortError'' then ''Timeout (10s)'' else message),
           dr_duration = duration, dr_delivery_id = None\<rparr>)"

definition update_hook :: "int \<Rightarrow> (webhook \<Rightarrow> webhook) \<Rightarrow> world \<Rightarrow> world" where
  "update_hook wid f w = w\<lparr>dbase := (dbase w)\<lparr>webhooks := tbl_update wid f (webhooks (dbase w))\<rparr>\<rparr>"

definition set_deliveries :: "delivery table \<Rightarrow> world \<Rightarrow> world" where
  "set_deliveries t w = w\<lparr>dbase := (dbase w)\<lparr>deliveries := t\<rparr>\<rparr>"

definition new_delivery :: "int \<Rightarrow> string \<Rightarrow> json \<Rightarrow> delivery_result \<Rightarrow> nat \<Rightarrow> int option \<Rightarrow> int \<Rightarrow> delivery" where
  "new_delivery wid event_type body r attempt parent now =
     \<lparr>dl_webhook_id = wid, dl_event_type = event_type, dl_payload = body,
      dl_status_code = dr_status r, dl_response_body = dr_response r, dl_error = dr_error r,
      dl_duration_ms = dr_duration r, dl_attempt = attempt, dl_next_retry_at = None,
      dl_is_retry = (0 < attempt), dl_parent = parent, dl_created_at = now\<rparr>"

text \<open>The newest 200 of a webhook stay.\<close>

definition prune_deliveries :: "(int list \<Rightarrow> int list) \<Rightarrow> int \<Rightarrow> delivery table \<Rightarrow> delivery table" where
  "prune_deliveries scan wid t =
     (let keep = map fst (take 200 (order_desc scan (\<lambda>(i, d). dl_created_at d)
                   (tbl_select (\<lambda>d. dl_webhook_id d = wid) t)))
      in tbl_delete_where (\<lambda>i d. dl_webhook_id d = wid \<and> i \<notin> set keep) t)"

text \<open>Failure counting, scheduling of the next attempt and the circuit breaker.\<close>

definition settle_delivery :: "env \<Rightarrow> rat \<Rightarrow> int \<Rightarrow> int \<Rightarrow> bool \<Rightarrow> nat \<Rightarrow> world \<Rightarrow> world" where
  "settle_delivery e random wid did success attempt w =
     (if success then update_hook wid (\<lambda>h. h\<lparr>wh_failures := 0\<rparr>) w
      else
        let w1 = update_hook wid (\<lambda>h. h\<lparr>wh_failures := wh_failures h + 1\<rparr>) w in
        if int attempt < max_retries e - 1
        then set_deliveries (tbl_update did
               (\<lambda>d. d\<lparr>dl_next_retry_at := Some (now_s w + next_retry_delay attempt random)\<rparr>)
               (deliveries (dbase w1))) w1
        else (case tbl_get (webhooks (dbase w1)) wid of None \<Rightarrow> w1
              | Some h \<Rightarrow>
                  if int (wh_failures h) \<ge> max_retries e
                  then update_hook wid (\<lambda>h. h\<lparr>wh_enabled := False, wh_updated_at := now_s w\<rparr>) w1
                  else w1))"

text \<open>
  What a delivery writes; nothing at all when its webhook is gone (the foreign key makes the
  insert throw, and the error is only logged).
\<close>

definition record_delivery ::
  "env \<Rightarrow> (int list \<Rightarrow> int list) \<Rightarrow> rat \<Rightarrow> int \<Rightarrow> string \<Rightarrow> json \<Rightarrow> delivery_result \<Rightarrow> nat \<Rightarrow> int option \<Rightarrow> bool \<Rightarrow>
   world \<Rightarrow> world \<times> delivery_result" where
  "record_delivery e scan random wid event_type body r attempt parent allow_retry w =
     (if tbl_get (webhooks (dbase w)) wid = None then (w, r)
      else
        let did = tbl_last_id (deliveries (dbase w));
            w1 = set_deliveries (tbl_insert (new_delivery wid event_type body r attempt parent (now_s w))
                   (deliveries (dbase w))) w;
            w2 = update_hook wid (\<lambda>h. h\<lparr>wh_last_fired_at := Some (now_s w),
                   wh_last_status := Some (case dr_status r of None \<Rightarrow> -1 | Some s \<Rightarrow> s),
                   wh_updated_at := now_s w\<rparr>) w1;
            w3 = (if allow_retry then settle_delivery e random wid did (dr_success r) attempt w2 else w2)
        in (set_deliveries (prune_deliveries scan wid (deliveries (dbase w3))) w3,
            r\<lparr>dr_delivery_id := Some did\<rparr>))"

text \<open>Everything outside the process that a delivery depends on.\<close>

record outside =
  out_hmac :: "string \<Rightarrow> string \<Rightarrow> string"
  out_fetch :: "string \<Rightarrow> (string \<times> string) list \<Rightarrow> string \<Rightarrow> int \<Rightarrow> fetch_outcome \<times> int"
  out_random :: "int \<Rightarrow> rat"
  out_scan :: "int list \<Rightarrow> int list"

text \<open>
  A delivery from request to record. The clock moves on by the duration of the request;
  \<open>out_random\<close> and \<open>out_fetch\<close> may depend on the time.
\<close>

definition deliver_webhook ::
  "env \<Rightarrow> outside \<Rightarrow> int \<Rightarrow> webhook \<Rightarrow> string \<Rightarrow> json \<Rightarrow> nat \<Rightarrow> int option \<Rightarrow> bool \<Rightarrow> world \<Rightarrow> world \<times> delivery_result" where
  "deliver_webhook e out wid wh event_type payload attempt parent allow_retry w =
     (let body = delivery_body event_type payload w;
          headers = delivery_headers (out_hmac out) (wh_secret wh) event_type body;
          (res, ms) = out_fetch out (wh_url wh) headers (json_text body) (clock w);
          w1 = w\<lparr>clock := clock w + ms\<rparr>
      in record_delivery e (out_scan out) (out_random out (clock w1)) wid event_type body
           (outcome_result res ms) attempt parent allow_retry w1)"

text \<open>
  \<open>fireWebhooksAsync\<close> sends to all matching webhooks at once: every request leaves at the
  time of the call, and each delivery is recorded when its answer is there. \<open>send_webhooks\<close>
  lists the requests with their answers, \<open>settle_webhooks\<close> records them in the order in
  which the answers arrive.
\<close>

type_synonym answer = "int \<times> string \<times> json \<times> fetch_outcome \<times> int"

definition send_webhooks :: "outside \<Rightarrow> string \<Rightarrow> json \<Rightarrow> world \<Rightarrow> answer list" where
  "send_webhooks out event_type payload w =
     map (\<lambda>(i, wh).
       let body = delivery_body event_type payload w;
           headers = delivery_headers (out_hmac out) (wh_secret wh) event_type body;
           (res, ms) = out_fetch out (wh_url wh) headers (json_text body) (clock w)
       in (i, event_type, body, res, ms)) (matching_hooks event_type w)"

definition record_answer :: "env \<Rightarrow> outside \<Rightarrow> int \<Rightarrow> answer \<Rightarrow> world \<Rightarrow> world" where
  "record_answer e out start a w =
     (case a of (i, event_type, body, res, ms) \<Rightarrow>
        fst (record_delivery e (out_scan out) (out_random out (start + ms)) i event_type body
          (outcome_result res ms) 0 None True (w\<lparr>clock := start + ms\<rparr>)))"

definition settle_webhooks :: "env \<Rightarrow> outside \<Rightarrow> answer list \<Rightarrow> world \<Rightarrow> world" where
  "settle_webhooks e out answers w =
     fold (record_answer e out (clock w)) (sort_key (\<lambda>(i, ty, body, res, ms). ms) answers) w"

definition fire_webhooks :: "env \<Rightarrow> outside \<Rightarrow> string \<Rightarrow> json \<Rightarrow> world \<Rightarrow> world" where
  "fire_webhooks e out event_type payload w =
     settle_webhooks e out (send_webhooks out event_type payload w) w"

text \<open>\<open>initWebhookListener\<close>: what the listener does with one event of the bus.\<close>

definition on_server_event :: "env \<Rightarrow> outside \<Rightarrow> server_event \<Rightarrow> world \<Rightarrow> world" where
  "on_server_event e out ev w =
     settle_webhooks e out
       (concat (map (\<lambda>ty. send_webhooks out ty (ev_data ev) w) (webhook_events ev))) w"

section \<open>Retries\<close>

definition pending_retries :: "(int list \<Rightarrow> int list) \<Rightarrow> world \<Rightarrow> (int \<times> delivery) list" where
  "pending_retries scan w =
     take 50 (scan_rows scan (filter (\<lambda>(i, d).
       (case tbl_get (webhooks (dbase w)) (dl_webhook_id d) of None \<Rightarrow> False | Some h \<Rightarrow> wh_enabled h) \<and>
       (case dl_next_retry_at d of None \<Rightarrow> False | Some t \<Rightarrow> t \<le> now_s w)) (rows (deliveries (dbase w)))))"

text \<open>\<open>parsed.data ?? parsed\<close>.\<close>

definition original_payload :: "json \<Rightarrow> json" where
  "original_payload p = (case jget p ''data'' of None \<Rightarrow> p | Some JNull \<Rightarrow> p | Some d \<Rightarrow> d)"

definition clear_retry :: "int \<Rightarrow> world \<Rightarrow> world" where
  "clear_retry did w = set_deliveries (tbl_update did (\<lambda>d. d\<lparr>dl_next_retry_at := None\<rparr>) (deliveries (dbase w))) w"

fun retry_loop ::
  "env \<Rightarrow> outside \<Rightarrow> (int \<times> delivery \<times> webhook) list \<Rightarrow> nat \<Rightarrow> nat \<Rightarrow> world \<Rightarrow> world \<times> nat \<times> nat" where
  "retry_loop e out [] ok failed w = (w, ok, failed)"
| "retry_loop e out ((did, d, wh) # xs) ok failed w =
     (let (w', r) = deliver_webhook e out (dl_webhook_id d) wh (dl_event_type d)
                      (original_payload (dl_payload d)) (dl_attempt d + 1) (Some did) True w
      in if dr_success r then retry_loop e out xs (ok + 1) failed w'
         else retry_loop e out xs ok (failed + 1) w')"

text \<open>Each row carries the webhook as the join found it.\<close>

definition with_hooks :: "world \<Rightarrow> (int \<times> delivery) list \<Rightarrow> (int \<times> delivery \<times> webhook) list" where
  "with_hooks w xs = map (\<lambda>(i, d). (i, d, the (tbl_get (webhooks (dbase w)) (dl_webhook_id d)))) xs"

definition process_webhook_retries :: "env \<Rightarrow> outside \<Rightarrow> world \<Rightarrow> world \<times> bool \<times> string" where
  "process_webhook_retries e out w =
     (let found = pending_retries (out_scan out) w in
      if found = [] then (w, True, ''No pending retries'')
      else
        let w1 = fold (\<lambda>(i, d). clear_retry i) found w;
            (w2, ok, failed) = retry_loop e out (with_hooks w found) 0 0 w1
        in (w2, True, ''Processed '' @ show_int (int (length found)) @ '' retries ('' @ show_int (int ok)
              @ '' ok, '' @ show_int (int failed) @ '' failed)''))"

section \<open>Routes\<close>

record hook_view =
  hv_id :: int
  hv_hook :: webhook
  hv_total :: nat
  hv_successful :: nat
  hv_failed :: nat
  hv_circuit_open :: bool

datatype hook_body =
    Hooks "hook_view list"
  | HookCreated int string string "string option" json
  | HookUpdated "string option"
  | HookDeleted
  | Deliveries "(int \<times> delivery \<times> string \<times> string) list" nat
  | Delivered delivery_result

text \<open>Six bullets (in UTF-8) in front of the last four characters.\<close>

definition mask_secret :: "string option \<Rightarrow> string option" where
  "mask_secret secret =
     map_option (\<lambda>s. concat (replicate 6 [char_of (226::nat), char_of (128::nat), char_of (162::nat)]) @ last_n 4 s)
       (str_or_null secret)"

definition status_2xx :: "delivery \<Rightarrow> bool" where
  "status_2xx d = (case dl_status_code d of None \<Rightarrow> False | Some s \<Rightarrow> 200 \<le> s \<and> s \<le> 299)"

definition hook_view_of :: "env \<Rightarrow> world \<Rightarrow> int \<times> webhook \<Rightarrow> hook_view" where
  "hook_view_of e w x =
     (case x of (i, wh) \<Rightarrow>
       let count = (\<lambda>P. tbl_count (\<lambda>d. dl_webhook_id d = i \<and> P d) (deliveries (dbase w)))
       in \<lparr>hv_id = i, hv_hook = wh\<lparr>wh_secret := mask_secret (wh_secret wh)\<rparr>,
           hv_total = count (\<lambda>d. True), hv_successful = count status_2xx,
           hv_failed = count (\<lambda>d. dl_error d \<noteq> None \<or> (dl_status_code d \<noteq> None \<and> \<not> status_2xx d)),
           hv_circuit_open = (int (wh_failures wh) \<ge> max_retries e)\<rparr>)"

text \<open>A column that does not hold JSON makes \<open>JSON.parse\<close> throw.\<close>

definition get_webhooks ::
  "(int list \<Rightarrow> int list) \<Rightarrow> env \<Rightarrow> request \<Rightarrow> world \<Rightarrow> world \<times> hook_body response" where
  "get_webhooks scan e r = with_role Admin e r (\<lambda>user w.
     let hooks = order_desc scan (\<lambda>(i, wh). wh_created_at wh) (rows (webhooks (dbase w))) in
     if list_ex (\<lambda>(i, wh). wh_events wh = None) hooks
     then (w, Fail 500 ''Failed to fetch webhooks'')
     else (w, Reply 200 (Hooks (map (hook_view_of e w) hooks))))"

record create_hook_body =
  ch_name :: string
  ch_url :: string
  ch_events :: "string list option"
  ch_generate_secret :: "bool option"

definition new_hook :: "create_hook_body \<Rightarrow> string option \<Rightarrow> string \<Rightarrow> int \<Rightarrow> webhook" where
  "new_hook b secret creator now =
     \<lparr>wh_name = ch_name b, wh_url = ch_url b, wh_secret = secret,
      wh_events = Some (JArr (map JStr (case ch_events b of None \<Rightarrow> [''*''] | Some es \<Rightarrow> es))),
      wh_enabled = True, wh_last_fired_at = None, wh_last_status = None, wh_created_by = creator,
      wh_created_at = now, wh_updated_at = now, wh_failures = 0\<rparr>"

definition set_hooks :: "webhook table \<Rightarrow> world \<Rightarrow> world" where
  "set_hooks t w = w\<lparr>dbase := (dbase w)\<lparr>webhooks := t\<rparr>\<rparr>"

definition create_hook :: "string \<Rightarrow> auth_user \<Rightarrow> create_hook_body \<Rightarrow> world \<Rightarrow> world \<times> hook_body response" where
  "create_hook rnd user b w =
     (let secret = (if ch_generate_secret b \<noteq> Some False then Some (to_hex rnd) else None);
          row = new_hook b secret (au_username user) (now_s w)
      in (set_hooks (tbl_insert row (webhooks (dbase w))) w,
          Reply 200 (HookCreated (tbl_last_id (webhooks (dbase w))) (ch_name b) (ch_url b) secret
            (the (wh_events row)))))"

definition post_webhooks ::
  "string \<Rightarrow> create_hook_body validated \<Rightarrow> env \<Rightarrow> request \<Rightarrow> world \<Rightarrow> world \<times> hook_body response" where
  "post_webhooks rnd body e r =
     with_role Admin e r (\<lambda>user. with_limit MutationLimiter e r (with_body body (create_hook rnd user)))"

text \<open>
  The fields of the body of an update, which is not validated; the id is a number or
  missing, and a missing field is \<open>None\<close>. A body that is not JSON is \<open>None\<close> as a whole.
\<close>

record update_hook_body =
  uh_id :: "rat option"
  uh_name :: "string option"
  uh_url :: "string option"
  uh_events :: "json option"
  uh_enabled :: "json option"
  uh_regenerate_secret :: bool
  uh_reset_circuit :: bool

definition apply_hook_update :: "string \<Rightarrow> int \<Rightarrow> update_hook_body \<Rightarrow> webhook \<Rightarrow> webhook" where
  "apply_hook_update rnd now b wh =
     wh\<lparr>wh_updated_at := now,
        wh_name := (case uh_name b of None \<Rightarrow> wh_name wh | Some x \<Rightarrow> x),
        wh_url := (case uh_url b of None \<Rightarrow> wh_url wh | Some x \<Rightarrow> x),
        wh_events := (case uh_events b of None \<Rightarrow> wh_events wh | Some x \<Rightarrow> Some x),
        wh_enabled := (if uh_reset_circuit b then True
                       else case uh_enabled b of None \<Rightarrow> wh_enabled wh | Some x \<Rightarrow> jtruthy x),
        wh_failures := (if uh_reset_circuit b then 0 else wh_failures wh),
        wh_secret := (if uh_regenerate_secret b then Some (to_hex rnd) else wh_secret wh)\<rparr>"

definition update_hook_with ::
  "(string \<Rightarrow> bool) \<Rightarrow> string \<Rightarrow> update_hook_body option \<Rightarrow> world \<Rightarrow> world \<times> hook_body response" where
  "update_hook_with url_ok rnd body w =
     (case body of None \<Rightarrow> (w, Fail 500 ''Failed to update webhook'')
      | Some b \<Rightarrow>
     (case body_id (uh_id b) of None \<Rightarrow> (w, Fail 400 ''Webhook ID is required'')
      | Some q \<Rightarrow>
     (case row_id q of None \<Rightarrow> (w, Fail 404 ''Webhook not found'')
      | Some i \<Rightarrow>
          if tbl_get (webhooks (dbase w)) i = None then (w, Fail 404 ''Webhook not found'')
          else if (case str_or_null (uh_url b) of None \<Rightarrow> False | Some u \<Rightarrow> \<not> url_ok u)
          then (w, Fail 400 ''Invalid URL'')
          else (update_hook i (apply_hook_update rnd (now_s w) b) w,
                Reply 200 (HookUpdated (if uh_regenerate_secret b then Some (to_hex rnd) else None))))))"

definition put_webhooks ::
  "(string \<Rightarrow> bool) \<Rightarrow> string \<Rightarrow> update_hook_body option \<Rightarrow> env \<Rightarrow> request \<Rightarrow> world \<Rightarrow> world \<times> hook_body response" where
  "put_webhooks url_ok rnd body e r =
     with_role Admin e r (\<lambda>user. with_limit MutationLimiter e r (update_hook_with url_ok rnd body))"

definition delete_hook_with :: "rat option option \<Rightarrow> world \<Rightarrow> world \<times> hook_body response" where
  "delete_hook_with body w =
     (case body of None \<Rightarrow> (w, Fail 400 ''Request body required'')
      | Some q0 \<Rightarrow>
     (case body_id q0 of None \<Rightarrow> (w, Fail 400 ''Webhook ID is required'')
      | Some q \<Rightarrow>
     (case row_id q of None \<Rightarrow> (w, Fail 404 ''Webhook not found'')
      | Some i \<Rightarrow>
          (let w1 = set_deliveries (tbl_delete_where (\<lambda>j d. dl_webhook_id d = i) (deliveries (dbase w))) w in
           if tbl_get (webhooks (dbase w1)) i = None then (w1, Fail 404 ''Webhook not found'')
           else (set_hooks (tbl_delete i (webhooks (dbase w1))) w1, Reply 200 HookDeleted)))))"

definition delete_webhooks :: "rat option option \<Rightarrow> env \<Rightarrow> request \<Rightarrow> world \<Rightarrow> world \<times> hook_body response" where
  "delete_webhooks body e r =
     with_role Admin e r (\<lambda>user. with_limit MutationLimiter e r (delete_hook_with body))"

text \<open>The webhook id of the query is compared with the decimal text of the column.\<close>

definition get_deliveries ::
  "(int list \<Rightarrow> int list) \<Rightarrow> (string \<Rightarrow> string option) \<Rightarrow> env \<Rightarrow> request \<Rightarrow> world \<Rightarrow> world \<times> hook_body response" where
  "get_deliveries scan query e r = with_role Admin e r (\<lambda>user w.
     let wanted = (\<lambda>d. case str_or_null (query ''webhook_id'') of None \<Rightarrow> True
                       | Some t \<Rightarrow> show_int (dl_webhook_id d) = t);
         hook = (\<lambda>d. tbl_get (webhooks (dbase w)) (dl_webhook_id d));
         found = order_desc scan (\<lambda>(i, d). dl_created_at d)
                   (tbl_select (\<lambda>d. wanted d \<and> hook d \<noteq> None) (deliveries (dbase w)))
     in case (parse_int (opt_or (query ''limit'') ''50''), parse_int (opt_or (query ''offset'') ''0'')) of
          (Some limit, Some offset) \<Rightarrow>
            (w, Reply 200 (Deliveries
               (map (\<lambda>(i, d). (i, d, wh_name (the (hook d)), wh_url (the (hook d))))
                 (sql_page (min limit 200) offset found))
               (tbl_count wanted (deliveries (dbase w)))))
        | _ \<Rightarrow> (w, Fail 500 ''Failed to fetch deliveries''))"

definition retry_delivery_with :: "env \<Rightarrow> outside \<Rightarrow> rat option option \<Rightarrow> world \<Rightarrow> world \<times> hook_body response" where
  "retry_delivery_with e out body w =
     (case body of None \<Rightarrow> (w, Fail 500 ''Failed to retry delivery'')
      | Some q0 \<Rightarrow>
     (case body_id q0 of None \<Rightarrow> (w, Fail 400 ''delivery_id is required'')
      | Some q \<Rightarrow>
     (case get_by_number (deliveries (dbase w)) q of None \<Rightarrow> (w, Fail 404 ''Delivery not found'')
      | Some d \<Rightarrow>
     (case tbl_get (webhooks (dbase w)) (dl_webhook_id d) of None \<Rightarrow> (w, Fail 404 ''Delivery not found'')
      | Some wh \<Rightarrow>
          (let (w', res) = deliver_webhook e out (dl_webhook_id d) wh (dl_event_type d)
                 (original_payload (dl_payload d)) (dl_attempt d + 1) (row_id q) False w
           in (w', Reply 200 (Delivered res)))))))"

definition post_retry :: "outside \<Rightarrow> rat option option \<Rightarrow> env \<Rightarrow> request \<Rightarrow> world \<Rightarrow> world \<times> hook_body response" where
  "post_retry out body e r = with_role Admin e r (\<lambda>user. retry_delivery_with e out body)"

definition ping_payload :: "int \<Rightarrow> webhook \<Rightarrow> string \<Rightarrow> json" where
  "ping_payload i wh username =
     JObj [(''message'', JStr ''This is a test webhook from JAIS Command Ops''),
           (''webhook_id'', JInt i), (''webhook_name'', JStr (wh_name wh)),
           (''triggered_by'', JStr username)]"

definition ping_hook_with :: "env \<Rightarrow> outside \<Rightarrow> rat option option \<Rightarrow> auth_user \<Rightarrow> world \<Rightarrow> world \<times> hook_body response" where
  "ping_hook_with e out body user w =
     (case body of None \<Rightarrow> (w, Fail 500 ''Failed to test webhook'')
      | Some q0 \<Rightarrow>
     (case body_id q0 of None \<Rightarrow> (w, Fail 400 ''Webhook ID is required'')
      | Some q \<Rightarrow>
     (case get_by_number (webhooks (dbase w)) q of None \<Rightarrow> (w, Fail 404 ''Webhook not found'')
      | Some wh \<Rightarrow>
          (let i = the (row_id q);
               (w', res) = deliver_webhook e out i wh ''test.ping''
                 (ping_payload i wh (au_username user)) 0 None False w
           in (w', Reply 200 (Delivered res))))))"

definition post_ping :: "outside \<Rightarrow> rat option option \<Rightarrow> env \<Rightarrow> request \<Rightarrow> world \<Rightarrow> world \<times> hook_body response" where
  "post_ping out body e r = with_role Admin e r (ping_hook_with e out body)"

end
