(* ===== verification/Webhook_Delivery.thy ===== *)
theory Webhook_Delivery
  imports Webhooks
begin

text \<open>
  What webhook delivery guarantees: the effect of a recorded delivery on its webhook and on
  the delivery table, the integrity of both tables under any interleaving of events, late
  answers, retries and administration, the retry and circuit breaker policy, and signatures.
\<close>

section \<open>The effect of recording a delivery\<close>

text \<open>Whether another attempt is scheduled, and whether the circuit opens.\<close>

definition reschedules :: "env \<Rightarrow> bool \<Rightarrow> bool \<Rightarrow> nat \<Rightarrow> bool" where
  "reschedules e allow_retry success attempt \<longleftrightarrow>
     allow_retry \<and> \<not> success \<and> int attempt < max_retries e - 1"

definition circuit_opens :: "env \<Rightarrow> bool \<Rightarrow> bool \<Rightarrow> nat \<Rightarrow> nat \<Rightarrow> bool" where
  "circuit_opens e allow_retry success attempt failures \<longleftrightarrow>
     allow_retry \<and> \<not> success \<and> max_retries e - 1 \<le> int attempt \<and> max_retries e \<le> int failures + 1"

definition hook_after :: "env \<Rightarrow> delivery_result \<Rightarrow> nat \<Rightarrow> bool \<Rightarrow> int \<Rightarrow> webhook \<Rightarrow> webhook" where
  "hook_after e r attempt allow_retry now h =
     h\<lparr>wh_last_fired_at := Some now,
       wh_last_status := Some (case dr_status r of None \<Rightarrow> -1 | Some s \<Rightarrow> s),
       wh_updated_at := now,
       wh_failures := (if \<not> allow_retry then wh_failures h
                       else if dr_success r then 0 else wh_failures h + 1),
       wh_enabled := (wh_enabled h \<and> \<not> circuit_opens e allow_retry (dr_success r) attempt (wh_failures h))\<rparr>"

lemma now_s_frames [simp]:
  "now_s (update_hook i f w) = now_s w" "now_s (set_deliveries t w) = now_s w"
  "now_s (set_hooks h w) = now_s w"
  by (simp_all add: update_hook_def set_deliveries_def set_hooks_def now_s_def)

lemma hook_frames [simp]:
  "deliveries (dbase (update_hook i f w)) = deliveries (dbase w)"
  "webhooks (dbase (update_hook i f w)) = tbl_update i f (webhooks (dbase w))"
  "webhooks (dbase (set_deliveries t w)) = webhooks (dbase w)"
  "deliveries (dbase (set_deliveries t w)) = t"
  "deliveries (dbase (set_hooks h w)) = deliveries (dbase w)"
  "webhooks (dbase (set_hooks h w)) = h"
  by (simp_all add: update_hook_def set_deliveries_def set_hooks_def)

lemma settle_hooks:
  "tbl_get (webhooks (dbase (settle_delivery e random wid did success attempt w))) j =
     (if j = wid then map_option (\<lambda>h.
        h\<lparr>wh_failures := (if success then 0 else wh_failures h + 1),
          wh_updated_at := (if circuit_opens e True success attempt (wh_failures h)
                            then now_s w else wh_updated_at h),
          wh_enabled := (wh_enabled h \<and> \<not> circuit_opens e True success attempt (wh_failures h))\<rparr>)
        (tbl_get (webhooks (dbase w)) j)
      else tbl_get (webhooks (dbase w)) j)"
  by (cases "tbl_get (webhooks (dbase w)) wid")
    (auto simp: settle_delivery_def Let_def tbl_simps circuit_opens_def)

lemma settle_ids [simp]:
  "tbl_ids (webhooks (dbase (settle_delivery e random wid did success attempt w))) = tbl_ids (webhooks (dbase w))"
  "next_id (webhooks (dbase (settle_delivery e random wid did success attempt w))) = next_id (webhooks (dbase w))"
  by (auto simp: settle_delivery_def Let_def split: option.splits)

lemma settle_deliveries:
  "deliveries (dbase (settle_delivery e random wid did success attempt w)) =
     (if reschedules e True success attempt
      then tbl_update did (\<lambda>d. d\<lparr>dl_next_retry_at := Some (now_s w + next_retry_delay attempt random)\<rparr>)
             (deliveries (dbase w))
      else deliveries (dbase w))"
  by (auto simp: settle_delivery_def Let_def reschedules_def split: option.splits)

text \<open>The webhooks after a delivery, and the table of deliveries after it.\<close>

lemma record_hooks:
  "tbl_get (webhooks (dbase (fst (record_delivery e scan random wid ty body r attempt parent allow w)))) j =
     (if j = wid then map_option (hook_after e r attempt allow (now_s w)) (tbl_get (webhooks (dbase w)) j)
      else tbl_get (webhooks (dbase w)) j)"
  by (cases "tbl_get (webhooks (dbase w)) wid")
    (auto simp: record_delivery_def Let_def settle_hooks tbl_simps hook_after_def circuit_opens_def)

lemma record_hook_ids [simp]:
  "tbl_ids (webhooks (dbase (fst (record_delivery e scan random wid ty body r attempt parent allow w)))) =
     tbl_ids (webhooks (dbase w))"
  "next_id (webhooks (dbase (fst (record_delivery e scan random wid ty body r attempt parent allow w)))) =
     next_id (webhooks (dbase w))"
  by (auto simp: record_delivery_def Let_def)

definition recorded_row ::
  "env \<Rightarrow> rat \<Rightarrow> int \<Rightarrow> string \<Rightarrow> json \<Rightarrow> delivery_result \<Rightarrow> nat \<Rightarrow> int option \<Rightarrow> bool \<Rightarrow> int \<Rightarrow> delivery" where
  "recorded_row e random wid ty body r attempt parent allow now =
     (new_delivery wid ty body r attempt parent now)\<lparr>dl_next_retry_at :=
        (if reschedules e allow (dr_success r) attempt
         then Some (now + next_retry_delay attempt random) else None)\<rparr>"

lemma recorded_row_sel [simp]:
  "dl_webhook_id (recorded_row e random wid ty body r attempt parent allow now) = wid"
  "dl_attempt (recorded_row e random wid ty body r attempt parent allow now) = attempt"
  "dl_is_retry (recorded_row e random wid ty body r attempt parent allow now) = (0 < attempt)"
  "dl_created_at (recorded_row e random wid ty body r attempt parent allow now) = now"
  by (simp_all add: recorded_row_def new_delivery_def)

lemma record_deliveries:
  assumes "tbl_ok (deliveries (dbase w))"
  shows "deliveries (dbase (fst (record_delivery e scan random wid ty body r attempt parent allow w))) =
    (if tbl_get (webhooks (dbase w)) wid = None then deliveries (dbase w)
     else prune_deliveries scan wid
       (tbl_insert (recorded_row e random wid ty body r attempt parent allow (now_s w)) (deliveries (dbase w))))"
  using tbl_update_fresh [OF assms]
  by (auto simp: record_delivery_def Let_def settle_deliveries recorded_row_def reschedules_def
      tbl_last_id_def new_delivery_def)

section \<open>Pruning\<close>

lemma rows_prune:
  "rows (prune_deliveries scan wid t) =
     filter (\<lambda>(i, d). dl_webhook_id d = wid \<longrightarrow>
       i \<in> set (map fst (take 200 (order_desc scan (\<lambda>(i, d). dl_created_at d)
                 (tbl_select (\<lambda>d. dl_webhook_id d = wid) t))))) (rows t)"
  by (auto simp: prune_deliveries_def Let_def tbl_delete_where_def intro!: filter_cong)

lemma next_id_prune [simp]: "next_id (prune_deliveries scan wid t) = next_id t"
  by (simp add: prune_deliveries_def Let_def)

lemma tbl_ok_prune [simp]: "tbl_ok t \<Longrightarrow> tbl_ok (prune_deliveries scan wid t)"
  by (simp add: prune_deliveries_def Let_def)

lemma prune_subset: "set (rows (prune_deliveries scan wid t)) \<subseteq> set (rows t)"
  by (auto simp: rows_prune)

lemma prune_others:
  "j \<noteq> wid \<Longrightarrow> tbl_select (\<lambda>d. dl_webhook_id d = j) (prune_deliveries scan wid t) =
     tbl_select (\<lambda>d. dl_webhook_id d = j) t"
  by (auto simp: tbl_select_def rows_prune intro!: filter_cong)

lemma prune_count:
  assumes "tbl_ok t"
  shows "tbl_count (\<lambda>d. dl_webhook_id d = wid) (prune_deliveries scan wid t) \<le> 200"
proof -
  define keep where "keep = map fst (take 200 (order_desc scan (\<lambda>(i, d). dl_created_at d)
                 (tbl_select (\<lambda>d. dl_webhook_id d = wid) t)))"
  let ?left = "tbl_select (\<lambda>d. dl_webhook_id d = wid) (prune_deliveries scan wid t)"
  have "distinct (map fst ?left)"
    using distinct_select tbl_ok_prune assms by blast
  moreover have "set (map fst ?left) \<subseteq> set keep"
    by (auto simp: tbl_select_def rows_prune keep_def intro: rev_image_eqI)
  ultimately have "length (map fst ?left) \<le> card (set keep)"
    by (metis List.finite_set card_mono distinct_card)
  also have "\<dots> \<le> 200"
    by (rule order_trans [OF card_length]) (simp add: keep_def)
  finally show ?thesis by (simp add: tbl_count_def)
qed

lemma prune_newest:
  assumes "scan_ok scan" "tbl_ok t"
    and gone: "(i, d) \<in> set (rows t)" "dl_webhook_id d = wid" "(i, d) \<notin> set (rows (prune_deliveries scan wid t))"
    and kept: "(j, d') \<in> set (rows (prune_deliveries scan wid t))" "dl_webhook_id d' = wid"
  shows "dl_created_at d \<le> dl_created_at d'"
proof -
  let ?S = "tbl_select (\<lambda>d. dl_webhook_id d = wid) t"
  define L where "L = order_desc scan (\<lambda>(i, d). dl_created_at d) ?S"
  have dist: "distinct (map fst (rows t))"
    using assms(2) by (simp add: tbl_ok_def tbl_ids_def)
  have set_L: "set L = set ?S"
    unfolding L_def by (rule set_order_desc) (use assms distinct_select in auto)
  have "(i, d) \<in> set L"
    using gone set_L by (simp add: tbl_select_def)
  moreover have "(i, d) \<notin> set (take 200 L)"
    using gone by (auto simp: rows_prune L_def intro: rev_image_eqI)
  ultimately have i: "(i, d) \<in> set (drop 200 L)"
    by (metis Un_iff append_take_drop_id set_append)
  obtain d2 where d2: "(j, d2) \<in> set (take 200 L)"
    using kept by (auto simp: rows_prune L_def)
  then have "(j, d2) \<in> set (rows t)"
    using set_L in_set_takeD by (fastforce simp: tbl_select_def)
  then have "d2 = d'"
    using dist kept prune_subset by (metis eq_key_imp_eq_value subsetD)
  then have j: "(j, d') \<in> set (take 200 L)" using d2 by simp
  have "sorted (map (\<lambda>x. - (case x of (i, d) \<Rightarrow> dl_created_at d)) (take 200 L @ drop 200 L))"
    unfolding append_take_drop_id L_def order_desc_def by (rule sorted_sort_key)
  then have "\<forall>x \<in> set (take 200 L). \<forall>y \<in> set (drop 200 L).
      - (case x of (i, d) \<Rightarrow> dl_created_at d) \<le> - (case y of (i, d) \<Rightarrow> dl_created_at d)"
    by (simp only: map_append sorted_append set_map ball_simps) blast
  from bspec [OF bspec [OF this j] i] show ?thesis by simp
qed

section \<open>Integrity of the tables\<close>

definition delivery_ok :: "env \<Rightarrow> webhook table \<Rightarrow> int \<times> delivery \<Rightarrow> bool" where
  "delivery_ok e hooks x =
     (dl_webhook_id (snd x) \<in> set (tbl_ids hooks) \<and>
      (dl_next_retry_at (snd x) \<noteq> None \<longrightarrow> int (dl_attempt (snd x)) < max_retries e - 1) \<and>
      (dl_is_retry (snd x) \<longleftrightarrow> 0 < dl_attempt (snd x)))"

definition hooks_ok :: "env \<Rightarrow> db \<Rightarrow> bool" where
  "hooks_ok e d \<longleftrightarrow> tbl_ok (webhooks d) \<and> tbl_ok (deliveries d) \<and>
     (\<forall>x \<in> set (rows (deliveries d)). delivery_ok e (webhooks d) x) \<and>
     (\<forall>i \<in> set (tbl_ids (webhooks d)). tbl_count (\<lambda>x. dl_webhook_id x = i) (deliveries d) \<le> 200)"

lemma tbl_get_ids: "tbl_get t i \<noteq> None \<longleftrightarrow> i \<in> set (tbl_ids t)"
  by (auto simp: tbl_get_def tbl_ids_def map_of_eq_None_iff)

lemma hooks_ok_cong:
  assumes "tbl_ids (webhooks d') = tbl_ids (webhooks d)" "next_id (webhooks d') = next_id (webhooks d)"
    "deliveries d' = deliveries d"
  shows "hooks_ok e d' = hooks_ok e d"
  using assms by (simp add: hooks_ok_def delivery_ok_def tbl_ok_def)

lemma record_delivery_ok:
  assumes ok: "hooks_ok e (dbase w)"
  shows "hooks_ok e (dbase (fst (record_delivery e scan random wid ty body r attempt parent allow w)))"
    (is "hooks_ok e ?d")
proof (cases "tbl_get (webhooks (dbase w)) wid = None")
  case True
  then show ?thesis using ok by (simp add: record_delivery_def)
next
  case False
  let ?row = "recorded_row e random wid ty body r attempt parent allow (now_s w)"
  let ?t = "tbl_insert ?row (deliveries (dbase w))"
  have del: "deliveries ?d = prune_deliveries scan wid ?t"
    using ok False by (subst record_deliveries) (auto simp: hooks_ok_def)
  have new: "delivery_ok e (webhooks ?d) (i, ?row)" for i
    using False tbl_get_ids [of "webhooks (dbase w)" wid]
    by (simp add: delivery_ok_def recorded_row_def reschedules_def new_delivery_def)
  have old: "delivery_ok e (webhooks ?d) x = delivery_ok e (webhooks (dbase w)) x" for x
    by (simp add: delivery_ok_def)
  have sub: "set (rows (deliveries ?d)) \<subseteq> insert (next_id (deliveries (dbase w)), ?row) (set (rows (deliveries (dbase w))))"
    using prune_subset [of scan wid ?t] by (simp only: del tbl_simps set_append) auto
  have "x \<in> set (rows (deliveries ?d)) \<Longrightarrow> delivery_ok e (webhooks ?d) x" for x
    using subsetD [OF sub, of x] new old ok by (simp only: hooks_ok_def) auto
  moreover have "i \<in> set (tbl_ids (webhooks ?d)) \<Longrightarrow>
      tbl_count (\<lambda>x. dl_webhook_id x = i) (deliveries ?d) \<le> 200" for i
    using ok prune_count [of ?t wid scan]
    by (cases "i = wid") (simp_all add: del tbl_count_def prune_others tbl_simps hooks_ok_def)
  ultimately show ?thesis
    using ok by (simp add: hooks_ok_def del tbl_ok_def [of "webhooks _"])
qed

lemma hooks_ok_clock [simp]: "hooks_ok e (dbase (w\<lparr>clock := t\<rparr>)) = hooks_ok e (dbase w)"
  by simp

lemma deliver_webhook_ok:
  "hooks_ok e (dbase w) \<Longrightarrow>
   hooks_ok e (dbase (fst (deliver_webhook e out wid wh ty payload attempt parent allow w)))"
  by (simp add: deliver_webhook_def Let_def case_prod_unfold record_delivery_ok)

lemma settle_webhooks_ok:
  assumes "hooks_ok e (dbase w)"
  shows "hooks_ok e (dbase (settle_webhooks e out answers w))"
proof -
  have "hooks_ok e (dbase w') \<Longrightarrow> hooks_ok e (dbase (fold (record_answer e out start) as w'))" for start as w'
    by (induction as arbitrary: w') (simp_all add: record_answer_def case_prod_unfold record_delivery_ok)
  then show ?thesis using assms by (simp add: settle_webhooks_def)
qed

lemma fire_webhooks_ok: "hooks_ok e (dbase w) \<Longrightarrow> hooks_ok e (dbase (fire_webhooks e out ty payload w))"
  by (simp add: fire_webhooks_def settle_webhooks_ok)

section \<open>Clearing and retrying\<close>

lemma hooks_ok_update_delivery:
  assumes "hooks_ok e d"
    and "\<And>x. dl_webhook_id (f x) = dl_webhook_id x" "\<And>x. dl_attempt (f x) = dl_attempt x"
        "\<And>x. dl_is_retry (f x) = dl_is_retry x" "\<And>x. dl_next_retry_at (f x) = None"
  shows "hooks_ok e (d\<lparr>deliveries := tbl_update k f (deliveries d)\<rparr>)"
proof -
  have "delivery_ok e hooks (i, f x)" if "delivery_ok e hooks (i, x)" for hooks i x
    using that by (simp add: delivery_ok_def assms)
  moreover have "tbl_count (\<lambda>x. dl_webhook_id x = i) (tbl_update k f (deliveries d)) =
      tbl_count (\<lambda>x. dl_webhook_id x = i) (deliveries d)" for i
    unfolding tbl_count_def tbl_select_def
    by (simp add: rows_update) (rule arg_cong [where f = length], rule filter_cong, auto simp: assms)
  ultimately show ?thesis
    using assms(1) by (auto simp: hooks_ok_def rows_update)
qed

lemma clear_retry_ok: "hooks_ok e (dbase w) \<Longrightarrow> hooks_ok e (dbase (clear_retry i w))"
  by (simp add: clear_retry_def set_deliveries_def hooks_ok_update_delivery)

abbreviation clear_all :: "(int \<times> delivery) list \<Rightarrow> world \<Rightarrow> world" where
  "clear_all xs w \<equiv> fold (\<lambda>(i, d). clear_retry i) xs w"

lemma clear_all_frames [simp]:
  "webhooks (dbase (clear_all xs w)) = webhooks (dbase w)"
  "next_id (deliveries (dbase (clear_all xs w))) = next_id (deliveries (dbase w))"
  by (induction xs arbitrary: w) (auto simp: clear_retry_def)

lemma clear_all_ok: "hooks_ok e (dbase w) \<Longrightarrow> hooks_ok e (dbase (clear_all xs w))"
  by (induction xs arbitrary: w) (auto simp: clear_retry_ok)

lemma clear_all_get:
  "tbl_get (deliveries (dbase (clear_all xs w))) j =
     map_option (\<lambda>d. if j \<in> fst ` set xs then d\<lparr>dl_next_retry_at := None\<rparr> else d)
       (tbl_get (deliveries (dbase w)) j)"
proof (induction xs arbitrary: w)
  case (Cons x xs)
  obtain i d where x: "x = (i, d)" by (cases x)
  show ?case
    unfolding x fold_simps prod.case comp_def Cons.IH
    by (cases "tbl_get (deliveries (dbase w)) j") (auto simp: clear_retry_def tbl_simps)
qed (simp add: option.map_ident)

text \<open>One delivery: one new row; the others stay, except those that are pruned.\<close>

lemma record_next_id:
  "hooks_ok e (dbase w) \<Longrightarrow>
   next_id (deliveries (dbase (fst (record_delivery e scan random wid ty body r attempt parent allow w)))) =
     next_id (deliveries (dbase w)) + (if tbl_get (webhooks (dbase w)) wid = None then 0 else 1)"
  by (subst record_deliveries) (auto simp: hooks_ok_def)

lemma record_get_old:
  assumes "hooks_ok e (dbase w)" "i < next_id (deliveries (dbase w))"
    "tbl_get (deliveries (dbase (fst (record_delivery e scan random wid ty body r attempt parent allow w)))) i = Some d"
  shows "tbl_get (deliveries (dbase w)) i = Some d"
proof -
  let ?d = "dbase (fst (record_delivery e scan random wid ty body r attempt parent allow w))"
  have ok: "tbl_ok (deliveries (dbase w))" "tbl_ok (deliveries ?d)"
    using assms(1) record_delivery_ok [OF assms(1)] by (auto simp: hooks_ok_def)
  have "(i, d) \<in> set (rows (deliveries ?d))"
    using assms(3) ok by (simp add: tbl_get_iff)
  then have "(i, d) \<in> set (rows (deliveries (dbase w)))"
    using prune_subset assms(2) unfolding record_deliveries [OF ok(1)]
    by (fastforce simp: tbl_simps split: if_splits)
  then show ?thesis using ok by (simp add: tbl_get_iff)
qed

lemmas record_get_old_later = record_get_old [where w = "w\<lparr>clock := t\<rparr>" for w t, simplified]

lemma deliver_next_id:
  "hooks_ok e (dbase w) \<Longrightarrow> tbl_get (webhooks (dbase w)) wid \<noteq> None \<Longrightarrow>
   next_id (deliveries (dbase (fst (deliver_webhook e out wid wh ty payload attempt parent allow w)))) =
     next_id (deliveries (dbase w)) + 1"
  by (simp add: deliver_webhook_def Let_def case_prod_unfold record_next_id del: not_None_eq)

lemma deliver_get_old:
  "hooks_ok e (dbase w) \<Longrightarrow> i < next_id (deliveries (dbase w)) \<Longrightarrow>
   tbl_get (deliveries (dbase (fst (deliver_webhook e out wid wh ty payload attempt parent allow w)))) i = Some d \<Longrightarrow>
   tbl_get (deliveries (dbase w)) i = Some d"
  by (simp add: deliver_webhook_def Let_def case_prod_unfold) (rule record_get_old_later; assumption)

lemma deliver_hook_ids [simp]:
  "tbl_ids (webhooks (dbase (fst (deliver_webhook e out wid wh ty payload attempt parent allow w)))) =
     tbl_ids (webhooks (dbase w))"
  by (simp add: deliver_webhook_def Let_def case_prod_unfold)

lemma retry_loop_run:
  assumes "hooks_ok e (dbase w)" "\<forall>(i, d, h) \<in> set xs. dl_webhook_id d \<in> set (tbl_ids (webhooks (dbase w)))"
    "retry_loop e out xs ok failed w = (w', ok', failed')"
  shows "hooks_ok e (dbase w') \<and> ok' + failed' = ok + failed + length xs \<and>
    next_id (deliveries (dbase w')) = next_id (deliveries (dbase w)) + int (length xs) \<and>
    (\<forall>i d. i < next_id (deliveries (dbase w)) \<longrightarrow> tbl_get (deliveries (dbase w')) i = Some d \<longrightarrow>
       tbl_get (deliveries (dbase w)) i = Some d)"
  using assms
proof (induction xs arbitrary: w ok failed)
  case (Cons x xs)
  obtain i d h where x: "x = (i, d, h)" by (cases x)
  obtain w1 r where r: "deliver_webhook e out (dl_webhook_id d) h (dl_event_type d)
      (original_payload (dl_payload d)) (Suc (dl_attempt d)) (Some i) True w = (w1, r)" by fastforce
  have hook: "tbl_get (webhooks (dbase w)) (dl_webhook_id d) \<noteq> None"
    using Cons.prems(2) tbl_get_ids [of "webhooks (dbase w)" "dl_webhook_id d"] by (simp add: x)
  have ok1: "hooks_ok e (dbase w1)"
    using deliver_webhook_ok [OF Cons.prems(1)] r by (metis fst_conv)
  have ids1: "tbl_ids (webhooks (dbase w1)) = tbl_ids (webhooks (dbase w))"
    using deliver_hook_ids r by (metis fst_conv)
  have next1: "next_id (deliveries (dbase w1)) = next_id (deliveries (dbase w)) + 1"
    using deliver_next_id [OF Cons.prems(1) hook] r by (metis fst_conv)
  have old1: "i < next_id (deliveries (dbase w)) \<Longrightarrow> tbl_get (deliveries (dbase w1)) i = Some d \<Longrightarrow>
      tbl_get (deliveries (dbase w)) i = Some d" for i d
    using deliver_get_old [OF Cons.prems(1)] r by (metis fst_conv)
  have "\<forall>(i, d, h) \<in> set xs. dl_webhook_id d \<in> set (tbl_ids (webhooks (dbase w1)))"
    using Cons.prems(2) by (simp add: ids1)
  then show ?case
    using Cons.IH [OF ok1, of "if dr_success r then ok + 1 else ok" "if dr_success r then failed else failed + 1"]
      Cons.prems(3) next1 old1
    by (simp add: x r split: if_splits)
qed simp

lemma process_retries_run:
  assumes "hooks_ok e (dbase w)" "scan_ok (out_scan out)"
    and run: "process_webhook_retries e out w = (w', b, m)"
  shows "hooks_ok e (dbase w') \<and>
    next_id (deliveries (dbase w')) = next_id (deliveries (dbase w)) + int (length (pending_retries (out_scan out) w)) \<and>
    (\<forall>(i, d) \<in> set (pending_retries (out_scan out) w). case tbl_get (deliveries (dbase w')) i of
       None \<Rightarrow> True | Some d' \<Rightarrow> dl_next_retry_at d' = None)"
proof (cases "pending_retries (out_scan out) w = []")
  case True
  then show ?thesis using run assms(1) by (simp add: process_webhook_retries_def)
next
  case False
  define found where "found = pending_retries (out_scan out) w"
  let ?w1 = "clear_all found w"
  obtain w2 ok failed where loop: "retry_loop e out (with_hooks w found) 0 0 ?w1 = (w2, ok, failed)"
    by (cases "retry_loop e out (with_hooks w found) 0 0 ?w1")
  have w': "w' = w2"
    using run False loop by (simp add: process_webhook_retries_def found_def)
  have dist: "distinct (map fst (rows (deliveries (dbase w))))"
    using assms(1) by (simp add: hooks_ok_def tbl_ok_def tbl_ids_def)
  have sub: "set found \<subseteq> set (rows (deliveries (dbase w)))"
    unfolding found_def pending_retries_def
    using set_scan_rows [OF assms(2) distinct_map_filter [OF dist]] by (auto dest!: in_set_takeD)
  have old: "i < next_id (deliveries (dbase ?w1))" if "(i, d) \<in> set found" for i d
    using that sub assms(1) by (force simp: hooks_ok_def tbl_ok_def tbl_ids_def)
  have "\<forall>(i, d, h) \<in> set (with_hooks w found). dl_webhook_id d \<in> set (tbl_ids (webhooks (dbase ?w1)))"
    using sub assms(1) by (force simp: with_hooks_def hooks_ok_def delivery_ok_def)
  note res = retry_loop_run [OF clear_all_ok [OF assms(1)] this loop]
  have "case tbl_get (deliveries (dbase w2)) i of None \<Rightarrow> True | Some d' \<Rightarrow> dl_next_retry_at d' = None"
    if "(i, d) \<in> set found" for i d
  proof (cases "tbl_get (deliveries (dbase w2)) i")
    case (Some d')
    then have "tbl_get (deliveries (dbase ?w1)) i = Some d'" using res old [OF that] by blast
    then show ?thesis using that Some by (force simp: clear_all_get)
  qed simp
  moreover have "length (with_hooks w found) = length found" by (simp add: with_hooks_def)
  ultimately show ?thesis using res by (auto simp: w' found_def)
qed

section \<open>Firing\<close>

lemma fire_frame:
  assumes "hooks_ok e (dbase w)" "set (map fst as) \<subseteq> set (tbl_ids (webhooks (dbase w)))"
  shows "next_id (deliveries (dbase (fold (record_answer e out start) as w))) =
      next_id (deliveries (dbase w)) + int (length as) \<and>
    (j \<notin> set (map fst as) \<longrightarrow>
      tbl_select (\<lambda>d. dl_webhook_id d = j) (deliveries (dbase (fold (record_answer e out start) as w))) =
        tbl_select (\<lambda>d. dl_webhook_id d = j) (deliveries (dbase w)) \<and>
      tbl_get (webhooks (dbase (fold (record_answer e out start) as w))) j = tbl_get (webhooks (dbase w)) j)"
  using assms
proof (induction as arbitrary: w)
  case (Cons a as)
  obtain i ty body res ms where a: "a = (i, ty, body, res, ms)" by (cases a)
  let ?w0 = "w\<lparr>clock := start + ms\<rparr>" and ?w1 = "record_answer e out start a w"
  have ok: "hooks_ok e (dbase ?w1)"
    using record_delivery_ok Cons.prems(1) by (simp add: a record_answer_def)
  have nxt: "next_id (deliveries (dbase ?w1)) = next_id (deliveries (dbase w)) + 1"
    using Cons.prems tbl_get_ids [of "webhooks (dbase w)" i]
    by (simp add: a record_answer_def record_next_id)
  have "tbl_ok (deliveries (dbase ?w0))" using Cons.prems(1) by (simp add: hooks_ok_def)
  then have sel: "i \<noteq> j \<Longrightarrow> tbl_select (\<lambda>d. dl_webhook_id d = j) (deliveries (dbase ?w1)) =
      tbl_select (\<lambda>d. dl_webhook_id d = j) (deliveries (dbase w))"
    by (simp add: a record_answer_def record_deliveries prune_others tbl_simps)
  have get: "i \<noteq> j \<Longrightarrow> tbl_get (webhooks (dbase ?w1)) j = tbl_get (webhooks (dbase w)) j"
    by (simp add: a record_answer_def record_hooks)
  have "set (map fst as) \<subseteq> set (tbl_ids (webhooks (dbase ?w1)))"
    using Cons.prems(2) by (simp add: a record_answer_def)
  from Cons.IH [OF ok this] show ?case
    using nxt sel get by (auto simp: a)
qed simp

section \<open>Webhooks as a machine\<close>

text \<open>
  Everything that changes the two tables, each at its time: an event of the bus, the answer
  to a request that was sent some time before (the order of answers is arbitrary), the
  retry task of the scheduler, and the requests of administrators.
\<close>

datatype hook_op =
    BusEvent server_event
  | LateAnswer int string json delivery_result nat "int option" bool
  | RetryTask
  | PostHook string "create_hook_body validated" request
  | PutHook "string \<Rightarrow> bool" string "update_hook_body option" request
  | DeleteHook "rat option option" request
  | PostRetry "rat option option" request
  | PostPing "rat option option" request

fun hook_do :: "env \<Rightarrow> outside \<Rightarrow> hook_op \<Rightarrow> world \<Rightarrow> world" where
  "hook_do e out (BusEvent ev) w = on_server_event e out ev w"
| "hook_do e out (LateAnswer wid ty body r attempt parent allow) w =
     fst (record_delivery e (out_scan out) (out_random out (clock w)) wid ty body r attempt parent allow w)"
| "hook_do e out RetryTask w = fst (process_webhook_retries e out w)"
| "hook_do e out (PostHook rnd b r) w = fst (post_webhooks rnd b e r w)"
| "hook_do e out (PutHook url_ok rnd b r) w = fst (put_webhooks url_ok rnd b e r w)"
| "hook_do e out (DeleteHook b r) w = fst (delete_webhooks b e r w)"
| "hook_do e out (PostRetry b r) w = fst (post_retry out b e r w)"
| "hook_do e out (PostPing b r) w = fst (post_ping out b e r w)"

definition hook_step :: "env \<Rightarrow> outside \<Rightarrow> int \<times> hook_op \<Rightarrow> world \<Rightarrow> world" where
  "hook_step e out x w = (case x of (t, op) \<Rightarrow> hook_do e out op (w\<lparr>clock := t\<rparr>))"

lemma tbl_ids_insert: "tbl_ids (tbl_insert r t) = tbl_ids t @ [next_id t]"
  by (simp add: tbl_ids_def tbl_insert_def)

lemma insert_hook_ok:
  assumes "hooks_ok e d"
  shows "hooks_ok e (d\<lparr>webhooks := tbl_insert h (webhooks d)\<rparr>)"
proof -
  have other: "next_id (webhooks d) \<noteq> dl_webhook_id (snd x)" if "x \<in> set (rows (deliveries d))" for x
    using that assms by (fastforce simp: hooks_ok_def delivery_ok_def tbl_ok_def)
  have "tbl_select (\<lambda>x. dl_webhook_id x = next_id (webhooks d)) (deliveries d) = []"
    using other by (force simp: tbl_select_def filter_empty_conv)
  moreover have "delivery_ok e (webhooks d) x \<Longrightarrow> delivery_ok e (tbl_insert h (webhooks d)) x" for x
    by (simp add: delivery_ok_def tbl_ids_insert)
  ultimately show ?thesis
    using assms by (simp add: hooks_ok_def tbl_ids_insert tbl_count_def)
qed

lemma create_hook_ok:
  "hooks_ok e (dbase w) \<Longrightarrow> hooks_ok e (dbase (fst (create_hook rnd user b w)))"
  by (simp add: create_hook_def Let_def set_hooks_def insert_hook_ok)

lemma update_hook_ok [simp]: "hooks_ok e (dbase (update_hook i f w)) = hooks_ok e (dbase w)"
  by (rule hooks_ok_cong) simp_all

lemma update_hook_with_ok:
  "hooks_ok e (dbase w) \<Longrightarrow> hooks_ok e (dbase (fst (update_hook_with url_ok rnd body w)))"
  by (simp add: update_hook_with_def split: option.splits)

lemma tbl_ids_delete: "tbl_ids (tbl_delete k t) = filter (\<lambda>i. i \<noteq> k) (tbl_ids t)"
  by (simp add: tbl_ids_def tbl_delete_def tbl_delete_where_def filter_map comp_def case_prod_unfold)

lemma length_filter_filter: "length (filter P (filter Q xs)) \<le> length (filter P xs)"
  by (induction xs) auto

lemma delete_rows_ok:
  assumes "hooks_ok e d"
  shows "hooks_ok e (d\<lparr>deliveries := tbl_delete_where (\<lambda>j x. dl_webhook_id x = i) (deliveries d)\<rparr>)"
    and "hooks_ok e (d\<lparr>deliveries := tbl_delete_where (\<lambda>j x. dl_webhook_id x = i) (deliveries d),
           webhooks := tbl_delete i (webhooks d)\<rparr>)"
proof -
  let ?t = "tbl_delete_where (\<lambda>j x. dl_webhook_id x = i) (deliveries d)"
  have "tbl_count (\<lambda>x. dl_webhook_id x = j) ?t \<le> tbl_count (\<lambda>x. dl_webhook_id x = j) (deliveries d)" for j
    by (simp add: tbl_count_def tbl_select_def tbl_delete_where_def length_filter_filter del: filter_filter)
  then have cap: "\<forall>j \<in> set (tbl_ids (webhooks d)). tbl_count (\<lambda>x. dl_webhook_id x = j) ?t \<le> 200"
    using assms by (fastforce simp: hooks_ok_def intro: order_trans)
  have rows: "set (rows ?t) = {x \<in> set (rows (deliveries d)). dl_webhook_id (snd x) \<noteq> i}"
    by (auto simp: tbl_delete_where_def)
  show "hooks_ok e (d\<lparr>deliveries := ?t\<rparr>)"
    using assms cap by (simp add: hooks_ok_def rows)
  show "hooks_ok e (d\<lparr>deliveries := ?t, webhooks := tbl_delete i (webhooks d)\<rparr>)"
    using assms cap by (auto simp: hooks_ok_def rows delivery_ok_def tbl_ids_delete)
qed

lemma delete_hook_with_ok:
  assumes "hooks_ok e (dbase w)"
  shows "hooks_ok e (dbase (fst (delete_hook_with body w)))"
  using assms delete_rows_ok [OF assms]
  by (auto simp: delete_hook_with_def Let_def set_deliveries_def set_hooks_def split: option.splits)

lemma retry_delivery_ok:
  "hooks_ok e (dbase w) \<Longrightarrow> hooks_ok e (dbase (fst (retry_delivery_with e out body w)))"
  by (auto simp: retry_delivery_with_def Let_def case_prod_unfold deliver_webhook_ok split: option.splits)

lemma ping_hook_ok:
  "hooks_ok e (dbase w) \<Longrightarrow> hooks_ok e (dbase (fst (ping_hook_with e out body user w)))"
  by (auto simp: ping_hook_with_def Let_def case_prod_unfold deliver_webhook_ok split: option.splits)

lemma retry_loop_ok:
  "hooks_ok e (dbase w) \<Longrightarrow> hooks_ok e (dbase (fst (retry_loop e out xs ok failed w)))"
proof (induction xs arbitrary: ok failed w)
  case (Cons x xs)
  obtain did d wh where "x = (did, d, wh)" by (cases x)
  then show ?case
    using Cons.IH [OF deliver_webhook_ok [OF Cons.prems]] by (simp add: Let_def case_prod_unfold)
qed simp

lemma process_retries_ok:
  "hooks_ok e (dbase w) \<Longrightarrow> hooks_ok e (dbase (fst (process_webhook_retries e out w)))"
  using retry_loop_ok [OF clear_all_ok] by (simp add: process_webhook_retries_def Let_def case_prod_unfold)

lemma hook_step_ok:
  assumes "hooks_ok e (dbase w)"
  shows "hooks_ok e (dbase (hook_step e out x w))"
proof -
  obtain t op where x: "x = (t, op)" by (cases x)
  have ok: "hooks_ok e (dbase (w\<lparr>clock := t\<rparr>))" using assms by simp
  note wrap = with_role_keeps [of "hooks_ok e", OF ok] with_limit_keeps [of "hooks_ok e"]
    with_body_keeps [of "hooks_ok e"]
  have "hooks_ok e (dbase (hook_do e out op (w\<lparr>clock := t\<rparr>)))"
  proof (cases op)
    case (BusEvent ev)
    with ok show ?thesis by (simp add: on_server_event_def settle_webhooks_ok)
  next
    case (LateAnswer wid ty body r attempt parent allow)
    with record_delivery_ok [OF ok] show ?thesis by simp
  next
    case RetryTask
    with process_retries_ok [OF ok] show ?thesis by simp
  next
    case (PostHook rnd b r)
    with ok show ?thesis by (auto simp: post_webhooks_def intro!: wrap create_hook_ok)
  next
    case (PutHook url_ok rnd b r)
    with ok show ?thesis by (auto simp: put_webhooks_def intro!: wrap update_hook_with_ok)
  next
    case (DeleteHook b r)
    with ok show ?thesis by (auto simp: delete_webhooks_def intro!: wrap delete_hook_with_ok)
  next
    case (PostRetry b r)
    with ok show ?thesis by (auto simp: post_retry_def intro!: wrap retry_delivery_ok)
  next
    case (PostPing b r)
    with ok show ?thesis by (auto simp: post_ping_def intro!: wrap ping_hook_ok)
  qed
  then show ?thesis by (simp add: x hook_step_def)
qed

interpretation webhook_tables: invariant_machine "hook_step e out" "\<lambda>w. hooks_ok e (dbase w)"
  by unfold_locales (rule hook_step_ok)

section \<open>Properties\<close>

definition sample_hook :: webhook where
  "sample_hook = \<lparr>wh_name = ''ci'', wh_url = ''http://h'', wh_secret = Some ''s'',
     wh_events = Some (JArr [JStr ''*'']), wh_enabled = True, wh_last_fired_at = None,
     wh_last_status = None, wh_created_by = ''ada'', wh_created_at = 1, wh_updated_at = 1, wh_failures = 0\<rparr>"

definition sample_pending :: delivery where
  "sample_pending = \<lparr>dl_webhook_id = 1, dl_event_type = ''activity.created'', dl_payload = JObj [(''data'', JInt 3)],
     dl_status_code = Some 500, dl_response_body = None, dl_error = None, dl_duration_ms = 4, dl_attempt = 0,
     dl_next_retry_at = Some 4, dl_is_retry = False, dl_parent = None, dl_created_at = 2\<rparr>"

definition sample_hooks :: world where
  "sample_hooks = (world_at 5000)\<lparr>dbase := db_empty\<lparr>webhooks := tbl_insert sample_hook tbl_empty,
     deliveries := tbl_insert sample_pending tbl_empty\<rparr>\<rparr>"

text \<open>An endpoint that is down, and one that answers.\<close>

definition sample_outside :: "fetch_outcome \<Rightarrow> outside" where
  "sample_outside o1 = \<lparr>out_hmac = (\<lambda>k m. k @ take 2 m), out_fetch = (\<lambda>u h b t. (o1, 7)),
     out_random = (\<lambda>t. 1 / 2), out_scan = (\<lambda>xs. xs)\<rparr>"

lemma sample_hooks_ok: "hooks_ok sample_env (dbase sample_hooks)"
  by code_simp

text \<open>
  Claim C8. Along any sequence of events, late answers, retry runs and administrative
  requests, every delivery belongs to an existing webhook, at most 200 are kept per webhook,
  a delivery that waits for its retry has attempts left, and the retry flag says whether the
  attempt number is positive.
\<close>

theorem webhook_integrity:
  assumes "hooks_ok e (dbase w)"
  shows "hooks_ok e (dbase (fold (hook_step e out) es w))"
  using assms by (rule webhook_tables.run_inv)

theorem webhook_integrity_witness:
  "hooks_ok sample_env (dbase (fold (hook_step sample_env (sample_outside (Responded 500 None)))
     [(5000, RetryTask), (6000, DeleteHook (Some (Some 1)) admin_request)] sample_hooks))"
  by (rule webhook_integrity [OF sample_hooks_ok])

text \<open>
  The exact effect of a recorded delivery on the webhooks. Only the webhook it
  belongs to changes: the time and the status of the last attempt are set; without retries
  allowed nothing else is; a success resets the count of failures, a failure adds one; and
  the webhook is disabled exactly by a failure that has no attempt left while the count has
  reached the maximum.
\<close>

theorem delivery_effect:
  "tbl_get (webhooks (dbase (fst (record_delivery e scan random wid ty body r attempt parent allow w)))) j =
     map_option (\<lambda>h. if j \<noteq> wid then h
       else h\<lparr>wh_last_fired_at := Some (now_s w),
              wh_last_status := Some (case dr_status r of None \<Rightarrow> -1 | Some s \<Rightarrow> s),
              wh_updated_at := now_s w,
              wh_failures := (if \<not> allow then wh_failures h
                              else if dr_success r then 0 else wh_failures h + 1),
              wh_enabled := (if allow \<and> \<not> dr_success r \<and> max_retries e - 1 \<le> int attempt \<and>
                                max_retries e \<le> int (wh_failures h) + 1
                             then False else wh_enabled h)\<rparr>)
       (tbl_get (webhooks (dbase w)) j)"
  by (cases "tbl_get (webhooks (dbase w)) j") (auto simp: record_hooks hook_after_def circuit_opens_def)

text \<open>The attempts of one delivery: attempt \<open>k\<close> at its time with its outcome.\<close>

type_synonym attempt = "int \<times> rat \<times> delivery_result \<times> int option"

definition attempt_chain ::
  "env \<Rightarrow> (int list \<Rightarrow> int list) \<Rightarrow> int \<Rightarrow> string \<Rightarrow> json \<Rightarrow> attempt list \<Rightarrow> world \<Rightarrow> world" where
  "attempt_chain e scan wid ty body xs w =
     fold (\<lambda>(k, t, random, r, parent) w.
         fst (record_delivery e scan random wid ty body r k parent True (w\<lparr>clock := t\<rparr>)))
       (enumerate 0 xs) w"

lemma attempt_chain_snoc:
  "attempt_chain e scan wid ty body (xs @ [(t, random, r, parent)]) w =
     fst (record_delivery e scan random wid ty body r (length xs) parent True
       ((attempt_chain e scan wid ty body xs w)\<lparr>clock := t\<rparr>))"
  by (simp add: attempt_chain_def enumerate_append_eq)

text \<open>
  A webhook whose endpoint keeps failing stays enabled, and counts its failures,
  through the first attempts of a delivery, and is disabled by the last of the configured
  number of attempts.
\<close>

theorem circuit_breaks_last:
  assumes "tbl_get (webhooks (dbase w)) wid = Some h" "wh_enabled h" "wh_failures h = 0"
    and "list_all (\<lambda>(t, random, r, parent). \<not> dr_success r) xs" "int (length xs) \<le> max_retries e" "0 < max_retries e"
  shows "map_option (\<lambda>h'. (wh_failures h', wh_enabled h'))
      (tbl_get (webhooks (dbase (attempt_chain e scan wid ty body xs w))) wid) =
    Some (length xs, int (length xs) < max_retries e)"
  using assms(4,5)
proof (induction xs rule: rev_induct)
  case Nil
  then show ?case using assms by (simp add: attempt_chain_def)
next
  case (snoc x xs)
  obtain t random r parent where x: "x = (t, random, r, parent)" by (cases x)
  obtain h' where "tbl_get (webhooks (dbase (attempt_chain e scan wid ty body xs w))) wid = Some h'"
      "wh_failures h' = length xs" "wh_enabled h'"
    using snoc by force
  then show ?case
    using snoc.prems unfolding x attempt_chain_snoc
    by (simp add: record_hooks hook_after_def circuit_opens_def) arith
qed

definition timed_out :: delivery_result where
  "timed_out = outcome_result (Threw_Error ''AbortError'' []) 10000"

theorem circuit_breaks_last_witness:
  "map_option (\<lambda>h'. (wh_failures h', wh_enabled h'))
     (tbl_get (webhooks (dbase (attempt_chain sample_env (\<lambda>xs. xs) 1 ''t'' JNull
        (replicate 5 (9000, 1 / 2, timed_out, None)) sample_hooks))) 1) = Some (5, False)"
proof -
  have max: "max_retries sample_env = 5" by code_simp
  have hook: "tbl_get (webhooks (dbase sample_hooks)) 1 = Some sample_hook" by code_simp
  have "list_all (\<lambda>(t, random, r, parent). \<not> dr_success r)
      (replicate 5 (9000 :: int, 1 / 2 :: rat, timed_out, None :: int option))" by code_simp
  from circuit_breaks_last [OF hook _ _ this, of sample_env "\<lambda>xs. xs" "''t''" JNull]
  show ?thesis by (simp add: max sample_hook_def)
qed

text \<open>
  Pruning: after a delivery is recorded its webhook has at most 200 deliveries, those
  of every other webhook are what they were, and no delivery that went is newer than one that
  stayed.
\<close>

theorem prune_keeps_newest:
  assumes "hooks_ok e (dbase w)" "scan_ok scan" "tbl_get (webhooks (dbase w)) wid \<noteq> None" "j \<noteq> wid"
    and "t = deliveries (dbase (fst (record_delivery e scan random wid ty body r attempt parent allow w)))"
  shows "tbl_count (\<lambda>d. dl_webhook_id d = wid) t \<le> 200 \<and>
    tbl_select (\<lambda>d. dl_webhook_id d = j) t = tbl_select (\<lambda>d. dl_webhook_id d = j) (deliveries (dbase w)) \<and>
    (\<forall>(i, gone) \<in> set (rows (deliveries (dbase w))) - set (rows t).
       list_all (\<lambda>(k, kept). dl_webhook_id kept = wid \<longrightarrow> dl_created_at gone \<le> dl_created_at kept) (rows t))"
proof -
  let ?t = "tbl_insert (recorded_row e random wid ty body r attempt parent allow (now_s w)) (deliveries (dbase w))"
  have ok: "tbl_ok (deliveries (dbase w))" using assms(1) by (simp add: hooks_ok_def)
  have t: "t = prune_deliveries scan wid ?t"
    unfolding assms(5) record_deliveries [OF ok] using assms(3) by auto
  have "dl_created_at gone \<le> dl_created_at kept"
    if "(i, gone) \<in> set (rows (deliveries (dbase w)))" "(i, gone) \<notin> set (rows t)"
       "(k, kept) \<in> set (rows t)" "dl_webhook_id kept = wid" for i gone k kept
  proof (rule prune_newest [OF assms(2) tbl_ok_insert [OF ok], of i gone])
    show "(i, gone) \<in> set (rows ?t)" using that by (simp add: tbl_simps)
    then show "dl_webhook_id gone = wid" using that(2) by (auto simp: t rows_prune)
  qed (use that in \<open>simp_all add: t\<close>)
  then have old: "\<forall>(i, gone) \<in> set (rows (deliveries (dbase w))) - set (rows t).
       list_all (\<lambda>(k, kept). dl_webhook_id kept = wid \<longrightarrow> dl_created_at gone \<le> dl_created_at kept) (rows t)"
    by (auto simp: list_all_iff)
  moreover have "tbl_count (\<lambda>d. dl_webhook_id d = wid) t \<le> 200"
    unfolding t by (rule prune_count) (simp add: ok)
  moreover have "tbl_select (\<lambda>d. dl_webhook_id d = j) t = tbl_select (\<lambda>d. dl_webhook_id d = j) (deliveries (dbase w))"
    using assms(4) by (simp add: t prune_others tbl_simps)
  ultimately show ?thesis by blast
qed

theorem prune_keeps_newest_witness:
  "tbl_count (\<lambda>d. dl_webhook_id d = 1)
     (deliveries (dbase (fst (record_delivery sample_env (\<lambda>xs. xs) (1 / 2) 1 ''t'' JNull timed_out 0 None True sample_hooks)))) \<le> 200"
proof -
  have "tbl_get (webhooks (dbase sample_hooks)) 1 \<noteq> None" by code_simp
  from prune_keeps_newest [OF sample_hooks_ok scan_ok_id this _ refl, of 2 "1 / 2" "''t''" JNull timed_out 0 None True]
  show ?thesis by simp
qed



text \<open>
  An event is delivered once to every enabled webhook that subscribes to it or to
  everything, and to no other: as many deliveries are recorded as webhooks match, and a
  webhook that does not match keeps its deliveries and its state.
\<close>

theorem event_fanout:
  assumes "hooks_ok e (dbase w)" "j \<notin> fst ` set (matching_hooks ty w)"
    and "d' = dbase (fire_webhooks e out ty payload w)"
  shows "next_id (deliveries d') = next_id (deliveries (dbase w)) + int (length (matching_hooks ty w)) \<and>
    tbl_select (\<lambda>d. dl_webhook_id d = j) (deliveries d') = tbl_select (\<lambda>d. dl_webhook_id d = j) (deliveries (dbase w)) \<and>
    tbl_get (webhooks d') j = tbl_get (webhooks (dbase w)) j"
proof -
  let ?as = "sort_key (\<lambda>(i, ty, body, res, ms). ms) (send_webhooks out ty payload w)"
  have ids: "map fst (send_webhooks out ty payload w) = map fst (matching_hooks ty w)"
    by (simp add: send_webhooks_def case_prod_unfold Let_def)
  then have as: "set (map fst ?as) = fst ` set (matching_hooks ty w)"
    by (metis list.set_map set_sort)
  have len: "length ?as = length (matching_hooks ty w)"
    using ids by (metis length_map length_sort)
  have "set (map fst ?as) \<subseteq> set (tbl_ids (webhooks (dbase w)))"
    unfolding as by (auto simp: matching_hooks_def tbl_select_def tbl_ids_def intro: rev_image_eqI)
  from fire_frame [OF assms(1) this, of out "clock w" j] show ?thesis
    using assms(2) by (simp only: assms(3) fire_webhooks_def settle_webhooks_def len as) blast
qed

theorem event_fanout_witness:
  "next_id (deliveries (dbase (fire_webhooks sample_env (sample_outside (Responded 200 None)) ''security'' JNull sample_hooks))) = 3"
proof -
  have "2 \<notin> fst ` set (matching_hooks ''security'' sample_hooks)"
    "length (matching_hooks ''security'' sample_hooks) = 1" "next_id (deliveries (dbase sample_hooks)) = 2"
    by code_simp+
  with event_fanout [OF sample_hooks_ok this(1) refl, of _ JNull] show ?thesis by simp
qed

text \<open>
  A receiver that checks the signature header of a delivery against the text it
  received accepts exactly if the webhook has a secret and the code of that text under the
  secret is the code of the text that was sent.
\<close>

theorem signature_checks:
  "verify_webhook_signature hmac secret received
     (map_of (delivery_headers hmac (Some secret) ty body) ''X-MC-Signature'') \<longleftrightarrow>
   secret \<noteq> [] \<and> hmac secret received = hmac secret (json_text body)"
proof -
  have "to_hex a = to_hex b \<longleftrightarrow> a = b" for a b by (metis from_to_hex)
  then show ?thesis
    by (auto simp: verify_webhook_signature_def delivery_headers_def str_or_null_def Let_def
        signature_text_def timing_safe_equal_iff)
qed

text \<open>
  The delay before a retry lies within a fifth of the base the schedule gives for the
  attempt, and past the end of the schedule its last entry counts.
\<close>

theorem retry_delay_bounds:
  assumes "0 \<le> random" "random < 1"
  shows "4 * backoff_seconds ! min attempt 4 \<le> 5 * next_retry_delay attempt random \<and>
    5 * next_retry_delay attempt random \<le> 6 * backoff_seconds ! min attempt 4"
proof -
  let ?b = "backoff_seconds ! min attempt 4"
  define x :: rat where "x = of_int ?b + of_int ?b * (1 / 5) * (2 * random - 1)"
  have "min attempt 4 \<in> {0, 1, 2, 3, 4}" by auto
  then obtain k where k: "?b = 5 * k" "0 \<le> k" by (auto simp: backoff_seconds_def intro: that [of "_ div 5"])
  have x: "x = of_int (4 * k) + 2 * (of_int k * random)"
    by (simp add: x_def k(1) algebra_simps)
  have "0 \<le> of_int k * random" "of_int k * random \<le> of_int k"
    using assms k(2) by (simp_all add: mult_left_le)
  then have "of_int (4 * k) \<le> x + 1 / 2" "x + 1 / 2 < of_int (6 * k + 1)"
    unfolding x by simp_all
  then have "4 * k \<le> js_round x" "js_round x \<le> 6 * k"
    by (simp_all only: js_round_def le_floor_iff) linarith
  moreover have "length backoff_seconds - 1 = 4" by (simp add: backoff_seconds_def)
  then have "next_retry_delay attempt random = js_round x"
    by (simp add: next_retry_delay_def Let_def x_def)
  ultimately show ?thesis by (simp add: k(1))
qed

theorem retry_delay_bounds_witness:
  "(4 * 30 :: int) \<le> 5 * next_retry_delay 0 (1 / 4) \<and> 5 * next_retry_delay 0 (1 / 4) \<le> 6 * 30"
  using retry_delay_bounds [of "1 / 4" 0] by (simp add: backoff_seconds_def)

end
