(* ===== verification/Pipelines.thy ===== *)
theory Pipelines
  imports Tasks
begin

text \<open>
  Workflow pipelines: \<open>app/api/pipelines/route.ts\<close> and \<open>app/api/pipelines/run/route.ts\<close>.
  Starting and advancing a run waits for the \<open>openclaw\<close> command; a request is therefore
  cut in two, what it does before the command and what it does when the command has ended,
  and other requests may be handled in between. The command is a parameter.
\<close>

section \<open>Running the command of a step\<close>

type_synonym openclaw = "string list \<Rightarrow> int \<Rightarrow> (string + string) \<times> int"

datatype spawn_result = SpawnOk string | SpawnFailed string

datatype pipe_body =
    RunList "(int \<times> pipeline_run \<times> string) list"
  | OneRun int pipeline_run
  | RunView int run_status "run_step list" "nat option" "spawn_result option"

definition spawn_args :: "string \<Rightarrow> template \<Rightarrow> nat \<Rightarrow> string list" where
  "spawn_args pipeline_name t idx =
     [''agent'', ''--message'',
      ''[Pipeline: '' @ pipeline_name @ '' | Step '' @ show_nat (idx + 1) @ ''] '' @ tpl_prompt t,
      ''--timeout'', show_int (tpl_timeout t), ''--json'']"

definition update_run :: "int \<Rightarrow> (pipeline_run \<Rightarrow> pipeline_run) \<Rightarrow> world \<Rightarrow> world" where
  "update_run i f w = w\<lparr>dbase := (dbase w)\<lparr>runs := tbl_update i f (runs (dbase w))\<rparr>\<rparr>"

text \<open>A request that waits for the command of a step; \<open>sp_start\<close> is set while a run is started.\<close>

record spawn =
  sp_run :: int
  sp_steps :: "run_step list"
  sp_index :: nat
  sp_args :: "string list"
  sp_start :: "(int \<times> string \<times> string) option"

definition spawned_step :: "int \<Rightarrow> nat \<Rightarrow> string + string \<Rightarrow> int \<Rightarrow> run_step \<Rightarrow> run_step" where
  "spawned_step run_id idx outcome now_ms s =
     (case outcome of
        Inr out \<Rightarrow> s\<lparr>rs_spawn_id := Some (''pipeline-'' @ show_int run_id @ ''-step-'' @ show_nat idx @ ''-'' @ show_int now_ms)\<rparr>
      | Inl m \<Rightarrow> s\<lparr>rs_error := Some m\<rparr>)"

definition spawn_result_of :: "string + string \<Rightarrow> spawn_result" where
  "spawn_result_of outcome = (case outcome of Inr out \<Rightarrow> SpawnOk (js_trim out) | Inl m \<Rightarrow> SpawnFailed m)"

text \<open>The rest of \<open>spawnStep\<close>: the snapshot it writes.\<close>

definition spawn_returns :: "spawn \<Rightarrow> string + string \<Rightarrow> world \<Rightarrow> world \<times> run_step list" where
  "spawn_returns sp outcome w =
     (let steps = (sp_steps sp)[sp_index sp :=
            spawned_step (sp_run sp) (sp_index sp) outcome (clock w) (sp_steps sp ! sp_index sp)]
      in (update_run (sp_run sp) (\<lambda>r. r\<lparr>run_steps := steps\<rparr>) w, steps))"

section \<open>Starting a run\<close>

definition new_run_step :: "db \<Rightarrow> int \<Rightarrow> nat \<Rightarrow> pipeline_step \<Rightarrow> run_step" where
  "new_run_step d now i s =
     \<lparr>rs_step_index = i, rs_template_id = pst_template_id s,
      rs_template_name = (case tbl_get (templates d) (pst_template_id s) of None \<Rightarrow> ''Unknown''
                          | Some t \<Rightarrow> str_or (tpl_name t) ''Unknown''),
      rs_on_failure = pst_on_failure s, rs_status = (if i = 0 then Running else Pending),
      rs_spawn_id = None, rs_started_at = (if i = 0 then Some now else None),
      rs_completed_at = None, rs_error = None\<rparr>"

definition run_snapshot :: "db \<Rightarrow> int \<Rightarrow> pipeline_step list \<Rightarrow> run_step list" where
  "run_snapshot d now steps = map (\<lambda>(i, s). new_run_step d now i s) (enumerate 0 steps)"

definition new_run :: "int \<Rightarrow> run_step list \<Rightarrow> string \<Rightarrow> int \<Rightarrow> pipeline_run" where
  "new_run pid steps triggered_by now =
     \<lparr>run_pipeline_id = pid, run_status = RunRunning, run_current_step = 0, run_steps = steps,
      run_started_at = Some now, run_completed_at = None, run_triggered_by = triggered_by,
      run_created_at = now\<rparr>"

definition insert_run :: "pipeline_run \<Rightarrow> world \<Rightarrow> world" where
  "insert_run r w = w\<lparr>dbase := (dbase w)\<lparr>runs := tbl_insert r (runs (dbase w))\<rparr>\<rparr>"

definition update_pipeline :: "int \<Rightarrow> (pipeline \<Rightarrow> pipeline) \<Rightarrow> world \<Rightarrow> world" where
  "update_pipeline i f w = w\<lparr>dbase := (dbase w)\<lparr>pipelines := tbl_update i f (pipelines (dbase w))\<rparr>\<rparr>"

text \<open>What \<open>startPipeline\<close> does once the first step is under way.\<close>

definition started ::
  "int \<Rightarrow> int \<Rightarrow> string \<Rightarrow> string \<Rightarrow> run_step list \<Rightarrow> spawn_result option \<Rightarrow> world \<Rightarrow> world \<times> pipe_body response" where
  "started run_id pid name triggered_by steps result w =
     (let data = JObj [(''run_id'', JInt run_id)];
          w1 = log_activity ''pipeline_started'' ''pipeline'' pid triggered_by (''Started pipeline: '' @ name) (Some data) w;
          w2 = broadcast ''activity.created''
                 (JObj [(''type'', JStr ''pipeline_started''), (''entity_type'', JStr ''pipeline''),
                        (''entity_id'', JInt pid),
                        (''description'', JStr (''Pipeline \"'' @ name @ ''\" started'')), (''data'', data)]) w1
      in (w2, Reply 201 (RunView run_id
            (if map rs_status (take 1 steps) = [Failed] then RunFailed else RunRunning) steps (Some 0) result)))"

text \<open>A request is answered, or waits for a command.\<close>

datatype 'b progress = Answered "'b response" | Waiting spawn

definition start_pipeline :: "rat option \<Rightarrow> string \<Rightarrow> world \<Rightarrow> world \<times> pipe_body progress" where
  "start_pipeline pipeline_id triggered_by w =
     (case Option.bind pipeline_id row_id of None \<Rightarrow> (w, Answered (Fail 404 ''Pipeline not found''))
      | Some pid \<Rightarrow>
     (case tbl_get (pipelines (dbase w)) pid of None \<Rightarrow> (w, Answered (Fail 404 ''Pipeline not found''))
      | Some p \<Rightarrow>
     (case pl_steps p of [] \<Rightarrow> (w, Answered (Fail 400 ''Pipeline has no steps''))
      | first # rest \<Rightarrow>
          (let now = now_s w;
               steps = run_snapshot (dbase w) now (pl_steps p);
               run_id = tbl_last_id (runs (dbase w));
               w1 = insert_run (new_run pid steps triggered_by now) w;
               w2 = update_pipeline pid (\<lambda>q. q\<lparr>pl_use_count := pl_use_count q + 1,
                      pl_last_used_at := Some now, pl_updated_at := now\<rparr>) w1
           in case tbl_get (templates (dbase w)) (pst_template_id first) of
                None \<Rightarrow> (let (w3, resp) = started run_id pid (pl_name p) triggered_by steps None w2
                         in (w3, Answered resp))
              | Some t \<Rightarrow> (w2, Waiting \<lparr>sp_run = run_id, sp_steps = steps, sp_index = 0,
                             sp_args = spawn_args (pl_name p) t 0,
                             sp_start = Some (pid, pl_name p, triggered_by)\<rparr>)))))"

section \<open>Advancing and cancelling a run\<close>

fun run_status_text :: "run_status \<Rightarrow> string" where
  "run_status_text RunPending = ''pending''"
| "run_status_text RunRunning = ''running''"
| "run_status_text RunCompleted = ''completed''"
| "run_status_text RunFailed = ''failed''"
| "run_status_text RunCancelled = ''cancelled''"

definition closed_step :: "bool \<Rightarrow> string option \<Rightarrow> int \<Rightarrow> run_step \<Rightarrow> run_step" where
  "closed_step success error_msg now s =
     s\<lparr>rs_status := (if success then Completed else Failed), rs_completed_at := Some now,
       rs_error := (case str_or_null error_msg of None \<Rightarrow> rs_error s | Some m \<Rightarrow> Some m)\<rparr>"

definition skip_from :: "nat \<Rightarrow> run_step list \<Rightarrow> run_step list" where
  "skip_from k steps = take k steps @ map (\<lambda>s. s\<lparr>rs_status := Skipped\<rparr>) (drop k steps)"

definition close_run :: "int \<Rightarrow> run_status \<Rightarrow> nat \<Rightarrow> run_step list \<Rightarrow> int \<Rightarrow> world \<Rightarrow> world" where
  "close_run i st cur steps now =
     update_run i (\<lambda>r. r\<lparr>run_status := st, run_current_step := cur, run_steps := steps, run_completed_at := Some now\<rparr>)"

text \<open>The end of \<open>advanceRun\<close>: the row and the answer.\<close>

definition advanced :: "int \<Rightarrow> nat \<Rightarrow> run_step list \<Rightarrow> spawn_result option \<Rightarrow> world \<Rightarrow> world \<times> pipe_body response" where
  "advanced run_id idx steps result w =
     (update_run run_id (\<lambda>r. r\<lparr>run_current_step := idx, run_steps := steps\<rparr>) w,
      Reply 200 (RunView run_id RunRunning steps (Some idx) result))"

text \<open>
  \<open>Crash\<close>: the current step is outside the snapshot. \<open>POST\<close> returns the promise of
  \<open>advanceRun\<close> without awaiting it, so its \<open>catch\<close> does not see the exception.
\<close>

definition advance_run :: "rat option \<Rightarrow> bool \<Rightarrow> string option \<Rightarrow> world \<Rightarrow> world \<times> pipe_body progress" where
  "advance_run run_id success error_msg w =
     (case body_id run_id of None \<Rightarrow> (w, Answered (Fail 400 ''run_id required''))
      | Some q \<Rightarrow>
     (case (row_id q, get_by_number (runs (dbase w)) q) of
        (Some i, Some r) \<Rightarrow>
          if run_status r \<noteq> RunRunning
          then (w, Answered (Fail 400 (''Run is '' @ run_status_text (run_status r) @ '', not running'')))
          else if length (run_steps r) \<le> run_current_step r then (w, Answered Crash)
          else
            let now = now_s w;
                cur = run_current_step r;
                steps = (run_steps r)[cur := closed_step success error_msg now (run_steps r ! cur)];
                nxt = cur + 1
            in if \<not> success \<and> rs_on_failure (steps ! cur) = Stop
               then (let skipped = skip_from nxt steps
                     in (close_run i RunFailed cur skipped now w, Answered (Reply 200 (RunView i RunFailed skipped None None))))
               else if length steps \<le> nxt
               then (broadcast ''activity.created''
                       (JObj [(''type'', JStr ''pipeline_completed''), (''entity_type'', JStr ''pipeline''),
                              (''entity_id'', JInt (run_pipeline_id r)),
                              (''description'', JStr (''Pipeline run #'' @ show_int i @ '' completed''))])
                       (close_run i RunCompleted cur steps now w),
                     Answered (Reply 200 (RunView i RunCompleted steps None None)))
               else
                 (let opened = steps[nxt := (steps ! nxt)\<lparr>rs_status := Running, rs_started_at := Some now\<rparr>]
                  in case tbl_get (templates (dbase w)) (rs_template_id (opened ! nxt)) of
                       None \<Rightarrow> (let (w', resp) = advanced i nxt opened None w in (w', Answered resp))
                     | Some t \<Rightarrow> (w, Waiting \<lparr>sp_run = i, sp_steps = opened, sp_index = nxt,
                         sp_args = spawn_args
                           (case tbl_get (pipelines (dbase w)) (run_pipeline_id r) of None \<Rightarrow> ''?''
                            | Some p \<Rightarrow> str_or (pl_name p) ''?'') t nxt,
                         sp_start = None\<rparr>))
      | _ \<Rightarrow> (w, Answered (Fail 404 ''Run not found''))))"

text \<open>The command has ended: what the waiting request still does.\<close>

definition finish_spawn :: "spawn \<Rightarrow> string + string \<Rightarrow> world \<Rightarrow> world \<times> pipe_body response" where
  "finish_spawn sp outcome w =
     (let (w1, steps) = spawn_returns sp outcome w;
          result = Some (spawn_result_of outcome)
      in case sp_start sp of
           Some (pid, name, triggered_by) \<Rightarrow> started (sp_run sp) pid name triggered_by steps result w1
         | None \<Rightarrow> advanced (sp_run sp) (sp_index sp) steps result w1)"

definition cancelled_step :: "int \<Rightarrow> run_step \<Rightarrow> run_step" where
  "cancelled_step now s = (if rs_status s \<in> {Pending, Running}
     then s\<lparr>rs_status := Skipped, rs_completed_at := Some now\<rparr> else s)"

definition cancel_run :: "rat option \<Rightarrow> world \<Rightarrow> world \<times> pipe_body response" where
  "cancel_run run_id w =
     (case body_id run_id of None \<Rightarrow> (w, Fail 400 ''run_id required'')
      | Some q \<Rightarrow>
     (case (row_id q, get_by_number (runs (dbase w)) q) of
        (Some i, Some r) \<Rightarrow>
          if run_status r \<noteq> RunRunning \<and> run_status r \<noteq> RunPending
          then (w, Fail 400 (''Run is '' @ run_status_text (run_status r) @ '', cannot cancel''))
          else
            let now = now_s w; steps = map (cancelled_step now) (run_steps r)
            in (update_run i (\<lambda>r. r\<lparr>run_status := RunCancelled, run_steps := steps, run_completed_at := Some now\<rparr>) w,
                Reply 200 (RunView i RunCancelled steps None None))
      | _ \<Rightarrow> (w, Fail 404 ''Run not found'')))"

section \<open>Requests on runs\<close>

text \<open>The body of \<open>POST /api/pipelines/run\<close>; ids are numbers or missing.\<close>

record run_request =
  rq_action :: string
  rq_pipeline_id :: "rat option"
  rq_run_id :: "rat option"
  rq_success :: "bool option"
  rq_error :: "string option"

definition begin_run_request :: "run_request option \<Rightarrow> auth_user \<Rightarrow> world \<Rightarrow> world \<times> pipe_body progress" where
  "begin_run_request body user w =
     (case body of None \<Rightarrow> (w, Answered (Fail 500 ''Failed to process pipeline run''))
      | Some b \<Rightarrow>
          if rq_action b = ''start'' then start_pipeline (rq_pipeline_id b) (str_or (au_username user) ''system'') w
          else if rq_action b = ''advance''
          then advance_run (rq_run_id b) (case rq_success b of None \<Rightarrow> True | Some s \<Rightarrow> s) (rq_error b) w
          else if rq_action b = ''cancel''
          then (let (w', resp) = cancel_run (rq_run_id b) w in (w', Answered resp))
          else (w, Answered (Fail 400 ''Invalid action. Use: start, advance, cancel'')))"

text \<open>A request from start to end with nothing in between; the command takes its time.\<close>

definition run_request_with :: "openclaw \<Rightarrow> run_request option \<Rightarrow> auth_user \<Rightarrow> world \<Rightarrow> world \<times> pipe_body response" where
  "run_request_with oc body user w =
     (case begin_run_request body user w of
        (w1, Answered resp) \<Rightarrow> (w1, resp)
      | (w1, Waiting sp) \<Rightarrow>
          (let (outcome, ms) = oc (sp_args sp) (clock w1)
           in finish_spawn sp outcome (w1\<lparr>clock := clock w1 + ms\<rparr>)))"

definition post_run_request ::
  "openclaw \<Rightarrow> run_request option \<Rightarrow> env \<Rightarrow> request \<Rightarrow> world \<Rightarrow> world \<times> pipe_body response" where
  "post_run_request oc body e r = with_role Operator e r (run_request_with oc body)"

text \<open>\<open>GET /api/pipelines/run\<close>; a limit or an id that is no number is a database error.\<close>

definition get_runs ::
  "(int list \<Rightarrow> int list) \<Rightarrow> (string \<Rightarrow> string option) \<Rightarrow> env \<Rightarrow> request \<Rightarrow> world \<Rightarrow> world \<times> pipe_body response" where
  "get_runs scan query e r = with_role Viewer e r (\<lambda>user w.
     (case str_or_null (query ''id'') of
        Some s \<Rightarrow>
          (case parse_int s of None \<Rightarrow> (w, Fail 404 ''Run not found'')
           | Some i \<Rightarrow> (case tbl_get (runs (dbase w)) i of None \<Rightarrow> (w, Fail 404 ''Run not found'')
               | Some row \<Rightarrow> (w, Reply 200 (OneRun i row))))
      | None \<Rightarrow>
          (let wanted = (\<lambda>row. case str_or_null (query ''pipeline_id'') of None \<Rightarrow> True
                          | Some s \<Rightarrow> parse_int s = Some (run_pipeline_id row));
               name = (\<lambda>row. case tbl_get (pipelines (dbase w)) (run_pipeline_id row) of
                          None \<Rightarrow> ''Deleted Pipeline'' | Some p \<Rightarrow> str_or (pl_name p) ''Deleted Pipeline'');
               found = order_desc scan (\<lambda>(i, row). run_created_at row) (tbl_select wanted (runs (dbase w)))
           in case parse_int (opt_or (query ''limit'') ''20'') of
                None \<Rightarrow> (w, Fail 500 ''Failed to fetch runs'')
              | Some limit \<Rightarrow>
                  (w, Reply 200 (RunList (map (\<lambda>(i, row). (i, row, name row)) (sql_page (min limit 200) 0 found)))))))"

section \<open>Pipelines\<close>

record run_counts =
  rc_total :: nat
  rc_completed :: nat
  rc_failed :: nat
  rc_running :: nat

datatype pipelines_body =
    PipelineList "(int \<times> pipeline \<times> string list \<times> run_counts) list"
  | OnePipeline int pipeline
  | PipelineDeleted

definition counts_of :: "db \<Rightarrow> int \<Rightarrow> run_counts" where
  "counts_of d pid =
     (let count = (\<lambda>P. tbl_count (\<lambda>r. run_pipeline_id r = pid \<and> P (run_status r)) (runs d))
      in \<lparr>rc_total = count (\<lambda>s. True), rc_completed = count (\<lambda>s. s = RunCompleted),
          rc_failed = count (\<lambda>s. s = RunFailed), rc_running = count (\<lambda>s. s = RunRunning)\<rparr>)"

text \<open>Each pipeline with the names of its templates; most used first, then last updated.\<close>

definition get_pipelines ::
  "(int list \<Rightarrow> int list) \<Rightarrow> env \<Rightarrow> request \<Rightarrow> world \<Rightarrow> world \<times> pipelines_body response" where
  "get_pipelines scan e r = with_role Viewer e r (\<lambda>user w.
     let d = dbase w;
         name = (\<lambda>s. case tbl_get (templates d) (pst_template_id s) of None \<Rightarrow> ''Unknown''
                     | Some t \<Rightarrow> str_or (tpl_name t) ''Unknown'');
         found = sort_key (\<lambda>(i, p). - int (pl_use_count p))
                   (order_desc scan (\<lambda>(i, p). pl_updated_at p) (rows (pipelines d)))
     in (w, Reply 200 (PipelineList (map (\<lambda>(i, p). (i, p, map name (pl_steps p), counts_of d i)) found))))"

record create_pipeline_body =
  cp_name :: string
  cp_description :: "string option"
  cp_steps :: "(rat \<times> on_failure) list"

definition templates_exist :: "db \<Rightarrow> rat list \<Rightarrow> bool" where
  "templates_exist d ids =
     (length (filter (\<lambda>(i, t). of_int i \<in> set ids) (rows (templates d))) = length (remdups ids))"

definition new_pipeline :: "create_pipeline_body \<Rightarrow> string \<Rightarrow> int \<Rightarrow> pipeline" where
  "new_pipeline b creator now =
     \<lparr>pl_name = cp_name b, pl_description = str_or_null (cp_description b),
      pl_steps = map (\<lambda>(q, f). \<lparr>pst_template_id = \<lfloor>q\<rfloor>, pst_on_failure = f\<rparr>) (cp_steps b),
      pl_created_by = creator, pl_created_at = now, pl_updated_at = now, pl_use_count = 0,
      pl_last_used_at = None\<rparr>"

definition create_pipeline :: "auth_user \<Rightarrow> create_pipeline_body \<Rightarrow> world \<Rightarrow> world \<times> pipelines_body response" where
  "create_pipeline user b w =
     (if \<not> templates_exist (dbase w) (map fst (cp_steps b))
      then (w, Fail 400 ''One or more template IDs not found'')
      else
        let creator = str_or (au_username user) ''system'';
            row = new_pipeline b creator (now_s w);
            pid = tbl_last_id (pipelines (dbase w));
            w1 = w\<lparr>dbase := (dbase w)\<lparr>pipelines := tbl_insert row (pipelines (dbase w))\<rparr>\<rparr>;
            w2 = log_activity ''pipeline_created'' ''pipeline'' pid creator (''Created pipeline: '' @ cp_name b) None w1
        in (w2, Reply 201 (OnePipeline pid row)))"

definition post_pipelines ::
  "create_pipeline_body validated \<Rightarrow> env \<Rightarrow> request \<Rightarrow> world \<Rightarrow> world \<times> pipelines_body response" where
  "post_pipelines body e r =
     with_role Operator e r (\<lambda>user. with_limit MutationLimiter e r (with_body body (create_pipeline user)))"

text \<open>The body of an update is not validated; it is taken to be well-typed where it is present.\<close>

record update_pipeline_body =
  up_id :: "rat option"
  up_name :: "string option"
  up_description :: "string option option"
  up_steps :: "pipeline_step list option"

definition apply_pipeline_update :: "update_pipeline_body \<Rightarrow> int \<Rightarrow> pipeline \<Rightarrow> pipeline" where
  "apply_pipeline_update b now p =
     (let used = (up_name b = None \<and> up_description b = None \<and> up_steps b = None)
      in p\<lparr>pl_name := (case up_name b of None \<Rightarrow> pl_name p | Some x \<Rightarrow> x),
           pl_description := (case up_description b of None \<Rightarrow> pl_description p | Some x \<Rightarrow> x),
           pl_steps := (case up_steps b of None \<Rightarrow> pl_steps p | Some x \<Rightarrow> x),
           pl_use_count := (if used then pl_use_count p + 1 else pl_use_count p),
           pl_last_used_at := (if used then Some now else pl_last_used_at p),
           pl_updated_at := now\<rparr>)"

definition put_pipelines ::
  "update_pipeline_body option \<Rightarrow> env \<Rightarrow> request \<Rightarrow> world \<Rightarrow> world \<times> pipelines_body response" where
  "put_pipelines body e r = with_role Operator e r (\<lambda>user w.
     (case body of None \<Rightarrow> (w, Fail 500 ''Failed to update pipeline'')
      | Some b \<Rightarrow>
     (case body_id (up_id b) of None \<Rightarrow> (w, Fail 400 ''Pipeline ID required'')
      | Some q \<Rightarrow>
     (case (row_id q, get_by_number (pipelines (dbase w)) q) of
        (Some i, Some p) \<Rightarrow>
          (update_pipeline i (apply_pipeline_update b (now_s w)) w,
           Reply 200 (OnePipeline i (apply_pipeline_update b (now_s w) p)))
      | _ \<Rightarrow> (w, Fail 404 ''Pipeline not found'')))))"

text \<open>
  The id goes through \<open>parseInt\<close>: the digits in front of the point. The runs of the pipeline
  go with it (foreign key).
\<close>

definition delete_pipeline_rows :: "int \<Rightarrow> world \<Rightarrow> world" where
  "delete_pipeline_rows i w = w\<lparr>dbase := (dbase w)\<lparr>pipelines := tbl_delete i (pipelines (dbase w)),
     runs := tbl_delete_where (\<lambda>j r. run_pipeline_id r = i) (runs (dbase w))\<rparr>\<rparr>"

definition truncate_id :: "rat \<Rightarrow> int" where
  "truncate_id q = (if q < 0 then - \<lfloor>- q\<rfloor> else \<lfloor>q\<rfloor>)"

definition delete_pipelines ::
  "rat option option \<Rightarrow> env \<Rightarrow> request \<Rightarrow> world \<Rightarrow> world \<times> pipelines_body response" where
  "delete_pipelines body e r = with_role Operator e r (\<lambda>user w.
     (case body of None \<Rightarrow> (w, Fail 400 ''Request body required'')
      | Some q0 \<Rightarrow>
     (case body_id q0 of None \<Rightarrow> (w, Fail 400 ''Pipeline ID required'')
      | Some q \<Rightarrow> (delete_pipeline_rows (truncate_id q) w, Reply 200 PipelineDeleted))))"

section \<open>Interleaved operation\<close>

text \<open>
  The server with its waiting requests. A request may be followed by others before its
  command ends; \<open>CommandEnds k\<close> ends the \<open>k\<close>-th of the commands that are running.
\<close>

record pipe_server =
  ps_world :: world
  ps_waiting :: "spawn list"

datatype pipe_op =
    RunRequest "run_request option" request
  | CommandEnds nat "string + string"
  | PostPipeline "create_pipeline_body validated" request
  | PutPipeline "update_pipeline_body option" request
  | DeletePipeline "rat option option" request

definition begin_with_role :: "run_request option \<Rightarrow> env \<Rightarrow> request \<Rightarrow> world \<Rightarrow> world \<times> pipe_body progress" where
  "begin_with_role body e r w =
     (case require_role e r Operator w of
        Granted u \<Rightarrow> begin_run_request body u w
      | Denied msg status \<Rightarrow> (w, Answered (Fail status msg))
      | Threw err \<Rightarrow> (w, Answered Crash))"

fun pipe_do :: "env \<Rightarrow> pipe_op \<Rightarrow> pipe_server \<Rightarrow> pipe_server" where
  "pipe_do e (RunRequest body r) s =
     (case begin_with_role body e r (ps_world s) of
        (w, Answered resp) \<Rightarrow> s\<lparr>ps_world := w\<rparr>
      | (w, Waiting sp) \<Rightarrow> s\<lparr>ps_world := w, ps_waiting := ps_waiting s @ [sp]\<rparr>)"
| "pipe_do e (CommandEnds k outcome) s =
     (if k < length (ps_waiting s)
      then s\<lparr>ps_world := fst (finish_spawn (ps_waiting s ! k) outcome (ps_world s)),
             ps_waiting := take k (ps_waiting s) @ drop (k + 1) (ps_waiting s)\<rparr>
      else s)"
| "pipe_do e (PostPipeline b r) s = s\<lparr>ps_world := fst (post_pipelines b e r (ps_world s))\<rparr>"
| "pipe_do e (PutPipeline b r) s = s\<lparr>ps_world := fst (put_pipelines b e r (ps_world s))\<rparr>"
| "pipe_do e (DeletePipeline b r) s = s\<lparr>ps_world := fst (delete_pipelines b e r (ps_world s))\<rparr>"

definition pipe_step :: "env \<Rightarrow> int \<times> pipe_op \<Rightarrow> pipe_server \<Rightarrow> pipe_server" where
  "pipe_step e x s = (case x of (t, op) \<Rightarrow> pipe_do e op (s\<lparr>ps_world := (ps_world s)\<lparr>clock := t\<rparr>\<rparr>))"

end
