(* ===== verification/Pipeline_Runs.thy ===== *)
theory Pipeline_Runs
  imports Pipelines
begin

text \<open>
  What pipeline runs guarantee: a run that is started and advanced one request after the
  other shows exactly the outcomes it was told (refinement of a list of outcomes) and ends;
  under arbitrary interleaving the rows stay well-formed and an ended run stays ended.
\<close>

section \<open>The specification: a list of outcomes\<close>

text \<open>
  Of the outcomes reported to a run, those that count: one per step, up to the first failure
  of a step whose policy is to stop.
\<close>

fun effective :: "on_failure list \<Rightarrow> bool list \<Rightarrow> bool list" where
  "effective [] bs = []"
| "effective (p # ps) [] = []"
| "effective (p # ps) (b # bs) = b # (if \<not> b \<and> p = Stop then [] else effective ps bs)"

definition stopped :: "on_failure list \<Rightarrow> bool list \<Rightarrow> bool" where
  "stopped ps outs \<longleftrightarrow> outs \<noteq> [] \<and> \<not> last outs \<and> ps ! (length outs - 1) = Stop"

definition ended :: "on_failure list \<Rightarrow> bool list \<Rightarrow> bool" where
  "ended ps outs \<longleftrightarrow> stopped ps outs \<or> length ps \<le> length outs"

definition step_shown :: "on_failure list \<Rightarrow> bool list \<Rightarrow> nat \<Rightarrow> step_status" where
  "step_shown ps outs i =
     (if i < length outs then if outs ! i then Completed else Failed
      else if stopped ps outs then Skipped
      else if i = length outs then Running else Pending)"

definition run_shows :: "on_failure list \<Rightarrow> bool list \<Rightarrow> pipeline_run \<Rightarrow> bool" where
  "run_shows ps outs r \<longleftrightarrow>
     ps \<noteq> [] \<and> length outs \<le> length ps \<and>
     map rs_on_failure (run_steps r) = ps \<and>
     map rs_status (run_steps r) = map (step_shown ps outs) [0..<length ps] \<and>
     run_status r = (if stopped ps outs then RunFailed
                     else if length outs = length ps then RunCompleted else RunRunning) \<and>
     run_current_step r = (if ended ps outs then length outs - 1 else length outs)"

lemma stopped_Cons: "bs \<noteq> [] \<Longrightarrow> stopped (p # ps) (b # bs) = stopped ps bs"
  by (cases bs) (auto simp: stopped_def)

lemma length_effective: "length (effective ps bs) \<le> length ps"
  by (induction ps bs rule: effective.induct) auto

lemma effective_Nil [simp]: "effective ps [] = []"
  by (cases ps) simp_all

lemma effective_snoc:
  "effective ps (bs @ [b]) =
     (if ended ps (effective ps bs) then effective ps bs else effective ps bs @ [b])"
proof (induction ps bs rule: effective.induct)
  case (3 p ps c bs)
  show ?case
  proof (cases "effective ps bs")
    case Nil
    with 3 show ?thesis by (auto simp: ended_def stopped_def)
  next
    case (Cons x xs)
    with 3 stopped_Cons [of "x # xs" p ps c] show ?thesis by (auto simp: ended_def stopped_def)
  qed
qed (auto simp: ended_def stopped_def)

lemma effective_ended: "length ps \<le> length bs \<Longrightarrow> ended ps (effective ps bs)"
proof (induction ps bs rule: effective.induct)
  case (3 p ps c bs)
  then show ?case
    by (cases "effective ps bs") (auto simp: ended_def stopped_def)
qed (auto simp: ended_def)

lemma run_shows_running: "run_shows ps outs r \<Longrightarrow> run_status r = RunRunning \<longleftrightarrow> \<not> ended ps outs"
  by (auto simp: run_shows_def ended_def)

section \<open>Lists of steps\<close>

lemma rs_status_closed [simp]: "rs_status (closed_step b m now s) = (if b then Completed else Failed)"
  and rs_policy_closed [simp]: "rs_on_failure (closed_step b m now s) = rs_on_failure s"
  and rs_index_closed [simp]: "rs_step_index (closed_step b m now s) = rs_step_index s"
  by (simp_all add: closed_step_def)

lemma rs_spawned [simp]:
  "rs_status (spawned_step i k out t s) = rs_status s"
  "rs_on_failure (spawned_step i k out t s) = rs_on_failure s"
  "rs_step_index (spawned_step i k out t s) = rs_step_index s"
  by (simp_all add: spawned_step_def split: sum.splits)

lemma length_skip_from [simp]: "length (skip_from k xs) = length xs"
  by (simp add: skip_from_def)

lemma nth_skip_from:
  "i < length xs \<Longrightarrow> skip_from k xs ! i = (if i < k then xs ! i else (xs ! i)\<lparr>rs_status := Skipped\<rparr>)"
  by (auto simp: skip_from_def nth_append min_def)

text \<open>Two snapshots compared step by step.\<close>

lemma run_showsI:
  assumes "ps \<noteq> []" "length outs \<le> length ps" "length (run_steps r) = length ps"
    and "\<And>i. i < length ps \<Longrightarrow> rs_on_failure (run_steps r ! i) = ps ! i"
    and "\<And>i. i < length ps \<Longrightarrow> rs_status (run_steps r ! i) = step_shown ps outs i"
    and "run_status r = (if stopped ps outs then RunFailed
           else if length outs = length ps then RunCompleted else RunRunning)"
    and "run_current_step r = (if ended ps outs then length outs - 1 else length outs)"
  shows "run_shows ps outs r"
  using assms by (auto simp: run_shows_def intro!: nth_equalityI)

lemma run_showsD:
  assumes "run_shows ps outs r"
  shows "length (run_steps r) = length ps"
    and "i < length ps \<Longrightarrow> rs_on_failure (run_steps r ! i) = ps ! i"
    and "i < length ps \<Longrightarrow> rs_status (run_steps r ! i) = step_shown ps outs i"
proof -
  show len: "length (run_steps r) = length ps"
    using assms unfolding run_shows_def by (metis length_map)
  show "i < length ps \<Longrightarrow> rs_on_failure (run_steps r ! i) = ps ! i"
    using assms len unfolding run_shows_def by (metis nth_map)
  assume i: "i < length ps"
  have "map rs_status (run_steps r) ! i = map (step_shown ps outs) [0..<length ps] ! i"
    using assms by (simp add: run_shows_def)
  then show "rs_status (run_steps r ! i) = step_shown ps outs i"
    using i len by simp
qed

section \<open>One request\<close>

definition advance_body :: "int \<Rightarrow> bool \<times> string option \<Rightarrow> run_request" where
  "advance_body i x = \<lparr>rq_action = ''advance'', rq_pipeline_id = None, rq_run_id = Some (of_int i),
     rq_success = Some (fst x), rq_error = snd x\<rparr>"

definition start_body :: "int \<Rightarrow> run_request" where
  "start_body pid = \<lparr>rq_action = ''start'', rq_pipeline_id = Some (of_int pid), rq_run_id = None,
     rq_success = None, rq_error = None\<rparr>"

lemma runs_update_run [simp]: "runs (dbase (update_run i f w)) = tbl_update i f (runs (dbase w))"
  and pipelines_update_run [simp]: "pipelines (dbase (update_run i f w)) = pipelines (dbase w)"
  by (simp_all add: update_run_def)

lemma runs_other [simp]:
  "runs (dbase (broadcast ty d w)) = runs (dbase w)"
  "runs (dbase (log_activity ty et i a ds dt w)) = runs (dbase w)"
  "runs (dbase (update_pipeline i f w)) = runs (dbase w)"
  "pipelines (dbase (broadcast ty d w)) = pipelines (dbase w)"
  "pipelines (dbase (log_activity ty et i a ds dt w)) = pipelines (dbase w)"
  by (simp_all add: broadcast_def log_activity_def update_pipeline_def Let_def)

lemma runs_started [simp]:
  "runs (dbase (fst (started i pid name by_user steps result w))) = runs (dbase w)"
  "pipelines (dbase (fst (started i pid name by_user steps result w))) = pipelines (dbase w)"
  by (simp_all add: started_def Let_def)

lemma get_by_number_int [simp]: "get_by_number t (of_int i) = tbl_get t i" "row_id (of_int i) = Some i"
  by (simp_all add: get_by_number_def row_id_def)

text \<open>The row of a running run after an \<open>advance\<close>, whatever the command of the next step did.\<close>

definition opened_steps :: "bool \<Rightarrow> string option \<Rightarrow> int \<Rightarrow> nat \<Rightarrow> run_step list \<Rightarrow> run_step list" where
  "opened_steps b m now cur steps =
     (let steps' = steps[cur := closed_step b m now (steps ! cur)]
      in steps'[cur + 1 := (steps' ! (cur + 1))\<lparr>rs_status := Running, rs_started_at := Some now\<rparr>])"

definition pipe_frame :: "world \<Rightarrow> pipeline table \<times> int" where
  "pipe_frame w = (pipelines (dbase w), next_id (runs (dbase w)))"

lemma pipe_frame_simps [simp]:
  "pipe_frame (update_run i f w) = pipe_frame w" "pipe_frame (broadcast ty d w) = pipe_frame w"
  "pipe_frame (log_activity ty et i' a ds dt w) = pipe_frame w"
  "pipe_frame (w\<lparr>clock := t\<rparr>) = pipe_frame w"
  by (simp_all add: pipe_frame_def)

lemma pipe_frame_finish [simp]: "pipe_frame (fst (finish_spawn sp outcome w)) = pipe_frame w"
  by (simp add: finish_spawn_def spawn_returns_def started_def advanced_def Let_def split: option.split)

lemma pipe_frame_advance: "pipe_frame (fst (advance_run q b m w)) = pipe_frame w"
  unfolding advance_run_def
  by (cases "body_id q"; simp)
    (simp add: Let_def close_run_def advanced_def split: option.split)

lemma advance_frame: "pipe_frame (fst (run_request_with oc (Some (advance_body i x)) user w)) = pipe_frame w"
proof -
  obtain w1 p where a: "begin_run_request (Some (advance_body i x)) user w = (w1, p)" by fastforce
  then have "pipe_frame w1 = pipe_frame w"
    using pipe_frame_advance by (auto simp: begin_run_request_def advance_body_def dest!: arg_cong [where f = fst])
  then show ?thesis
    by (cases p) (simp_all add: run_request_with_def a case_prod_unfold Let_def)
qed

lemma advance_row:
  assumes "tbl_get (runs (dbase w)) i = Some r" "i \<noteq> 0" "run_status r = RunRunning"
    and cur: "run_current_step r < length (run_steps r)"
  shows "\<exists>sp er. tbl_get (runs (dbase (fst (run_request_with oc (Some (advance_body i (b, m))) user w)))) i =
    Some (let now = now_s w; c = run_current_step r;
              steps = (run_steps r)[c := closed_step b m now (run_steps r ! c)]
      in if \<not> b \<and> rs_on_failure (run_steps r ! c) = Stop
         then r\<lparr>run_status := RunFailed, run_current_step := c, run_steps := skip_from (c + 1) steps, run_completed_at := Some now\<rparr>
         else if length (run_steps r) \<le> c + 1
         then r\<lparr>run_status := RunCompleted, run_current_step := c, run_steps := steps, run_completed_at := Some now\<rparr>
         else r\<lparr>run_current_step := c + 1,
                run_steps := (opened_steps b m now c (run_steps r))
                  [c + 1 := (opened_steps b m now c (run_steps r) ! (c + 1))\<lparr>rs_spawn_id := sp, rs_error := er\<rparr>]\<rparr>)"
    (is "\<exists>sp er. ?get = Some (?row sp er)")
proof -
  let ?c = "run_current_step r"
  let ?open = "opened_steps b m (now_s w) ?c (run_steps r)"
  have id: "body_id (Some (of_int i)) = Some (of_int i)" using assms(2) by (simp add: body_id_def)
  show ?thesis
  proof (cases "(\<not> b \<and> rs_on_failure (run_steps r ! ?c) = Stop) \<or> length (run_steps r) \<le> ?c + 1")
    case True
    then show ?thesis
      using assms id by (auto simp: run_request_with_def begin_run_request_def advance_body_def advance_run_def
          Let_def close_run_def tbl_simps)
  next
    case False
    then have nxt: "?c + 1 < length (run_steps r)" by simp
    show ?thesis
    proof (cases "tbl_get (templates (dbase w)) (rs_template_id (?open ! (?c + 1)))")
      case None
      have "?get = Some (?row (rs_spawn_id (?open ! (?c + 1))) (rs_error (?open ! (?c + 1))))"
        using assms id False None
        by (auto simp: run_request_with_def begin_run_request_def advance_body_def advance_run_def
          Let_def advanced_def tbl_simps opened_steps_def)
      then show ?thesis by blast
    next
      case (Some t)
      define sp where "sp = \<lparr>sp_run = i, sp_steps = ?open, sp_index = ?c + 1,
        sp_args = spawn_args (case tbl_get (pipelines (dbase w)) (run_pipeline_id r) of None \<Rightarrow> ''?''
                            | Some p \<Rightarrow> str_or (pl_name p) ''?'') t (?c + 1), sp_start = None\<rparr>"
      have "begin_run_request (Some (advance_body i (b, m))) user w = (w, Waiting sp)"
        using assms id False Some
        by (auto simp: begin_run_request_def advance_body_def advance_run_def Let_def opened_steps_def sp_def)
      moreover obtain outcome ms where "oc (sp_args sp) (clock w) = (outcome, ms)" by fastforce
      ultimately have "?get = Some (r\<lparr>run_current_step := ?c + 1, run_steps := ?open[?c + 1 :=
          spawned_step i (?c + 1) outcome (clock w + ms) (?open ! (?c + 1))]\<rparr>)"
        using assms(1) by (simp add: run_request_with_def finish_spawn_def spawn_returns_def sp_def
            advanced_def tbl_simps Let_def)
      also have "spawned_step i (?c + 1) outcome (clock w + ms) x = x\<lparr>
          rs_spawn_id := rs_spawn_id (spawned_step i (?c + 1) outcome (clock w + ms) x),
          rs_error := rs_error (spawned_step i (?c + 1) outcome (clock w + ms) x)\<rparr>" for x
        by (simp add: spawned_step_def split: sum.splits)
      finally show ?thesis using False by (auto simp: Let_def)
    qed
  qed
qed

lemma step_shown_snoc:
  assumes "\<not> ended ps outs" "i < length ps"
  shows "step_shown ps (outs @ [b]) i =
    (if i < length outs then step_shown ps outs i
     else if i = length outs then if b then Completed else Failed
     else if \<not> b \<and> ps ! length outs = Stop then Skipped
     else if i = length outs + 1 then Running else Pending)"
  using assms by (auto simp: step_shown_def stopped_def ended_def nth_append)

lemma advance_shows:
  assumes "tbl_get (runs (dbase w)) i = Some r" "i \<noteq> 0" "run_shows ps outs r" "\<not> ended ps outs"
  shows "\<exists>r'. tbl_get (runs (dbase (fst (run_request_with oc (Some (advance_body i (b, m))) user w)))) i = Some r' \<and>
    run_shows ps (outs @ [b]) r'"
proof -
  note sh = run_showsD [OF assms(3)]
  have cur: "run_current_step r = length outs" and lt: "length outs < length ps"
    and running: "run_status r = RunRunning" and ps: "ps \<noteq> []"
    using assms(3,4) by (auto simp: run_shows_def ended_def)
  let ?stop = "\<not> b \<and> ps ! length outs = Stop"
  have st: "stopped ps (outs @ [b]) \<longleftrightarrow> ?stop" by (simp add: stopped_def)
  have pol: "rs_on_failure (run_steps r ! length outs) = ps ! length outs" using sh(2) lt by simp
  have pending: "i < length ps \<Longrightarrow> length outs < i \<Longrightarrow> rs_status (run_steps r ! i) = Pending" for i
    using sh(3) assms(4) by (simp add: step_shown_def ended_def)
  obtain sp er where row: "tbl_get (runs (dbase (fst (run_request_with oc (Some (advance_body i (b, m))) user w)))) i =
    Some (let now = now_s w; c = run_current_step r;
              steps = (run_steps r)[c := closed_step b m now (run_steps r ! c)]
      in if \<not> b \<and> rs_on_failure (run_steps r ! c) = Stop
         then r\<lparr>run_status := RunFailed, run_current_step := c, run_steps := skip_from (c + 1) steps, run_completed_at := Some now\<rparr>
         else if length (run_steps r) \<le> c + 1
         then r\<lparr>run_status := RunCompleted, run_current_step := c, run_steps := steps, run_completed_at := Some now\<rparr>
         else r\<lparr>run_current_step := c + 1,
                run_steps := (opened_steps b m now c (run_steps r))
                  [c + 1 := (opened_steps b m now c (run_steps r) ! (c + 1))\<lparr>rs_spawn_id := sp, rs_error := er\<rparr>]\<rparr>)"
      (is "_ = Some ?row")
    using advance_row [OF assms(1,2) running, of oc b m user] cur lt sh(1) by auto
  have "run_shows ps (outs @ [b]) ?row"
  proof (rule run_showsI [OF ps])
    show "length (run_steps ?row) = length ps" using sh(1) by (simp add: Let_def opened_steps_def)
    fix k assume k: "k < length ps"
    show "rs_on_failure (run_steps ?row ! k) = ps ! k"
      using k sh(1,2) lt cur by (auto simp: Let_def opened_steps_def nth_list_update nth_skip_from)
    show "rs_status (run_steps ?row ! k) = step_shown ps (outs @ [b]) k"
      unfolding step_shown_snoc [OF assms(4) k]
      using k sh(1,3) lt cur pol pending
      by (auto simp: Let_def opened_steps_def nth_list_update nth_skip_from)
  qed (use lt cur pol running sh(1) st in \<open>auto simp: Let_def ended_def\<close>)
  with row show ?thesis by blast
qed

lemma advance_ended:
  assumes "tbl_get (runs (dbase w)) i = Some r" "i \<noteq> 0" "run_status r \<noteq> RunRunning"
  shows "fst (run_request_with oc (Some (advance_body i x)) user w) = w"
  using assms by (simp add: run_request_with_def begin_run_request_def advance_body_def advance_run_def body_id_def)

section \<open>A run from its start\<close>

definition run_advances :: "openclaw \<Rightarrow> int \<Rightarrow> auth_user \<Rightarrow> (bool \<times> string option) list \<Rightarrow> world \<Rightarrow> world" where
  "run_advances oc i user xs w = fold (\<lambda>x w. fst (run_request_with oc (Some (advance_body i x)) user w)) xs w"

lemma run_advances_shows:
  assumes "tbl_get (runs (dbase w)) i = Some r" "i \<noteq> 0" "run_shows ps [] r"
  shows "\<exists>r'. tbl_get (runs (dbase (run_advances oc i user xs w))) i = Some r' \<and>
    run_shows ps (effective ps (map fst xs)) r'"
proof (induction xs rule: rev_induct)
  case Nil
  then show ?case using assms by (simp add: run_advances_def)
next
  case (snoc x xs)
  obtain b m where x: "x = (b, m)" by (cases x)
  let ?w = "run_advances oc i user xs w"
  obtain r' where r': "tbl_get (runs (dbase ?w)) i = Some r'" "run_shows ps (effective ps (map fst xs)) r'"
    using snoc by blast
  have step: "run_advances oc i user (xs @ [x]) w = fst (run_request_with oc (Some (advance_body i x)) user ?w)"
    by (simp add: run_advances_def)
  show ?case
  proof (cases "ended ps (effective ps (map fst xs))")
    case True
    then have "run_status r' \<noteq> RunRunning" using run_shows_running [OF r'(2)] by simp
    from advance_ended [OF r'(1) assms(2) this] show ?thesis
      using r' True by (simp add: step effective_snoc)
  next
    case False
    from advance_shows [OF r'(1) assms(2) r'(2) False, of oc b m user] show ?thesis
      using False by (simp add: step [unfolded x] x effective_snoc)
  qed
qed

lemma snapshot_shows:
  assumes "steps \<noteq> []"
  shows "run_shows (map pst_on_failure steps) [] (new_run pid (run_snapshot d now steps) u t)"
  by (rule run_showsI) (use assms in \<open>auto simp: new_run_def run_snapshot_def new_run_step_def
      step_shown_def stopped_def ended_def nth_enumerate_eq\<close>)

lemma run_shows_cong:
  "map rs_on_failure (run_steps r') = map rs_on_failure (run_steps r) \<Longrightarrow>
   map rs_status (run_steps r') = map rs_status (run_steps r) \<Longrightarrow>
   run_status r' = run_status r \<Longrightarrow> run_current_step r' = run_current_step r \<Longrightarrow>
   run_shows ps outs r' = run_shows ps outs r"
  by (simp add: run_shows_def)

lemma start_shows:
  assumes "tbl_ok (runs (dbase w))" "tbl_get (pipelines (dbase w)) pid = Some p" "pl_steps p \<noteq> []"
  shows "\<exists>r. tbl_get (runs (dbase (fst (run_request_with oc (Some (start_body pid)) user w)))) (next_id (runs (dbase w))) = Some r \<and>
    run_shows (map pst_on_failure (pl_steps p)) [] r"
proof -
  obtain first rest where steps: "pl_steps p = first # rest" using assms(3) by (cases "pl_steps p") auto
  let ?snap = "run_snapshot (dbase w) (now_s w) (pl_steps p)"
  let ?run = "new_run pid ?snap (str_or (au_username user) ''system'') (now_s w)"
  note sh = snapshot_shows [OF assms(3), of pid "dbase w" "now_s w" "str_or (au_username user) ''system''" "now_s w"]
  show ?thesis
  proof (cases "tbl_get (templates (dbase w)) (pst_template_id first)")
    case None
    then have "tbl_get (runs (dbase (fst (run_request_with oc (Some (start_body pid)) user w)))) (next_id (runs (dbase w))) = Some ?run"
      using assms by (simp add: run_request_with_def begin_run_request_def start_body_def start_pipeline_def steps
          Let_def case_prod_unfold insert_run_def tbl_simps tbl_last_id_def)
    with sh show ?thesis by blast
  next
    case (Some t)
    have idx: "0 < length ?snap" by (simp add: run_snapshot_def steps)
    obtain outcome ms where oc: "oc (spawn_args (pl_name p) t 0) (clock w) = (outcome, ms)" by fastforce
    let ?steps = "?snap[0 := spawned_step (next_id (runs (dbase w))) 0 outcome (clock w + ms) (?snap ! 0)]"
    have "tbl_get (runs (dbase (fst (run_request_with oc (Some (start_body pid)) user w)))) (next_id (runs (dbase w))) =
        Some (?run\<lparr>run_steps := ?steps\<rparr>)"
      using assms Some by (simp add: run_request_with_def begin_run_request_def start_body_def start_pipeline_def steps
          Let_def case_prod_unfold insert_run_def tbl_simps tbl_last_id_def finish_spawn_def spawn_returns_def
          update_pipeline_def oc)
    moreover have "map rs_on_failure ?steps = map rs_on_failure ?snap" "map rs_status ?steps = map rs_status ?snap"
      using idx by (auto simp: map_update intro!: list_update_same_conv [THEN iffD2])
    then have "run_shows (map pst_on_failure (pl_steps p)) [] (?run\<lparr>run_steps := ?steps\<rparr>) =
        run_shows (map pst_on_failure (pl_steps p)) [] ?run"
      by (intro run_shows_cong) (simp_all add: new_run_def)
    ultimately show ?thesis using sh by blast
  qed
qed

section \<open>Arbitrary interleaving\<close>

text \<open>
  A row is well-formed if its steps carry their positions, the current step is one of them,
  and the time of completion is set exactly when the run is over.
\<close>

definition steps_ok :: "run_step list \<Rightarrow> bool" where
  "steps_ok steps \<longleftrightarrow> map rs_step_index steps = [0..<length steps]"

definition run_ok :: "pipeline_run \<Rightarrow> bool" where
  "run_ok r \<longleftrightarrow> steps_ok (run_steps r) \<and> run_current_step r < length (run_steps r) \<and>
     run_status r \<noteq> RunPending \<and> (run_status r = RunRunning \<longleftrightarrow> run_completed_at r = None)"

text \<open>A waiting request fits the row it will write, if that row still exists.\<close>

definition spawn_ok :: "db \<Rightarrow> spawn \<Rightarrow> bool" where
  "spawn_ok d sp \<longleftrightarrow> steps_ok (sp_steps sp) \<and> sp_index sp < length (sp_steps sp) \<and> sp_run sp < next_id (runs d) \<and>
     (case tbl_get (runs d) (sp_run sp) of None \<Rightarrow> True | Some r \<Rightarrow> length (run_steps r) = length (sp_steps sp))"

definition runs_ok :: "db \<Rightarrow> bool" where
  "runs_ok d \<longleftrightarrow> tbl_ok (runs d) \<and> tbl_ok (pipelines d) \<and>
     (\<forall>(i, r) \<in> set (rows (runs d)). run_ok r \<and> run_pipeline_id r \<in> set (tbl_ids (pipelines d)))"

definition pipes_ok :: "pipe_server \<Rightarrow> bool" where
  "pipes_ok s \<longleftrightarrow> runs_ok (dbase (ps_world s)) \<and> (\<forall>sp \<in> set (ps_waiting s). spawn_ok (dbase (ps_world s)) sp)"

text \<open>A row once its run is over: the two columns that never change again.\<close>

definition over :: "run_status \<Rightarrow> int option \<Rightarrow> pipeline_run \<Rightarrow> bool" where
  "over st t r \<longleftrightarrow> st \<noteq> RunRunning \<and> st \<noteq> RunPending \<and> run_status r = st \<and> run_completed_at r = t"

text \<open>
  All the operations change the table of runs by: nothing, one new row, an update of one row
  that keeps the length of its snapshot, or the removal of the runs of a pipeline.
\<close>

inductive run_change :: "db \<Rightarrow> db \<Rightarrow> bool" where
  Same: "runs d' = runs d \<Longrightarrow> tbl_ids (pipelines d') = tbl_ids (pipelines d) \<Longrightarrow>
     next_id (pipelines d') = next_id (pipelines d) \<Longrightarrow> run_change d d'"
| NewPipeline: "runs d' = runs d \<Longrightarrow> pipelines d' = tbl_insert p (pipelines d) \<Longrightarrow> run_change d d'"
| Started: "run_ok r \<Longrightarrow> run_pipeline_id r \<in> set (tbl_ids (pipelines d)) \<Longrightarrow>
     runs d' = tbl_insert r (runs d) \<Longrightarrow> tbl_ids (pipelines d') = tbl_ids (pipelines d) \<Longrightarrow>
     next_id (pipelines d') = next_id (pipelines d) \<Longrightarrow> run_change d d'"
| Changed: "(\<And>r. tbl_get (runs d) i = Some r \<Longrightarrow> run_ok r \<Longrightarrow>
       run_ok (f r) \<and> run_pipeline_id (f r) = run_pipeline_id r \<and> length (run_steps (f r)) = length (run_steps r) \<and>
       (run_status r \<noteq> RunRunning \<longrightarrow> run_status (f r) = run_status r \<and> run_completed_at (f r) = run_completed_at r)) \<Longrightarrow>
     runs d' = tbl_update i f (runs d) \<Longrightarrow> pipelines d' = pipelines d \<Longrightarrow> run_change d d'"
| Removed: "runs d' = tbl_delete_where (\<lambda>j r. run_pipeline_id r = k) (runs d) \<Longrightarrow>
     pipelines d' = tbl_delete k (pipelines d) \<Longrightarrow> run_change d d'"

inductive_cases run_changeE: "run_change d d'"

lemma tbl_ids_frame [simp]:
  "tbl_ids (tbl_delete k t) = filter (\<lambda>i. i \<noteq> k) (tbl_ids t)"
  "tbl_ids (tbl_insert r t) = tbl_ids t @ [next_id t]"
  by (simp_all add: tbl_ids_def tbl_insert_def tbl_delete_def tbl_delete_where_def filter_map comp_def case_prod_unfold)

lemma tbl_get_less: "tbl_ok t \<Longrightarrow> tbl_get t i = Some r \<Longrightarrow> i < next_id t"
  by (auto simp: tbl_ok_def tbl_ids_def dest!: tbl_get_mem)

text \<open>The rows of an ok database, by look-up.\<close>

lemma runs_ok_get:
  "runs_ok d \<longleftrightarrow> tbl_ok (runs d) \<and> tbl_ok (pipelines d) \<and>
     (\<forall>i r. tbl_get (runs d) i = Some r \<longrightarrow> run_ok r \<and> run_pipeline_id r \<in> set (tbl_ids (pipelines d)))"
  by (auto simp: runs_ok_def tbl_get_iff)

lemma tbl_ok_cong: "tbl_ids t = tbl_ids t' \<Longrightarrow> next_id t = next_id t' \<Longrightarrow> tbl_ok t = tbl_ok t'"
  by (simp add: tbl_ok_def)

text \<open>What a change does to one row.\<close>

lemma run_change_row:
  assumes "run_change d d'" "runs_ok d" "tbl_get (runs d') i = Some r'"
  shows "i = next_id (runs d) \<and> run_ok r' \<or>
    (\<exists>r. tbl_get (runs d) i = Some r \<and> run_ok r' \<and> run_pipeline_id r' = run_pipeline_id r \<and>
       length (run_steps r') = length (run_steps r) \<and>
       (run_status r \<noteq> RunRunning \<longrightarrow> run_status r' = run_status r \<and> run_completed_at r' = run_completed_at r))"
  using assms(1)
proof cases
  case (Changed k f)
  then show ?thesis using assms(2,3) by (force simp: runs_ok_get tbl_simps split: if_splits)
qed (use assms(2,3) in \<open>auto simp: runs_ok_get tbl_simps tbl_get_delete_where tbl_last_id_def split: if_splits\<close>)

lemma run_change_next: "run_change d d' \<Longrightarrow> next_id (runs d) \<le> next_id (runs d')"
  by (auto elim!: run_changeE)

lemma run_change_ok:
  assumes "run_change d d'" "runs_ok d"
  shows "runs_ok d'"
proof -
  have rows: "run_ok r" if "tbl_get (runs d') i = Some r" for i r
    using run_change_row [OF assms that] by auto
  show ?thesis
    using assms(1)
  proof cases
    case (Removed k)
    then show ?thesis using assms(2) rows by (auto simp: runs_ok_get tbl_get_delete_where)
  next
    case (Changed k f)
    then show ?thesis using assms(2) rows by (fastforce simp: runs_ok_get tbl_simps split: if_splits)
  next
    case (Started r)
    then show ?thesis using assms(2) rows tbl_ok_cong [of "pipelines d'" "pipelines d"]
      by (auto simp: runs_ok_get tbl_simps split: if_splits)
  next
    case Same
    then show ?thesis using assms(2) tbl_ok_cong [of "pipelines d'" "pipelines d"]
      by (simp add: runs_ok_get)
  next
    case (NewPipeline p)
    then show ?thesis using assms(2) by (auto simp: runs_ok_get)
  qed
qed

lemma run_change_spawn:
  assumes "run_change d d'" "runs_ok d" "spawn_ok d sp"
  shows "spawn_ok d' sp"
proof (cases "tbl_get (runs d') (sp_run sp)")
  case None
  then show ?thesis using assms(3) run_change_next [OF assms(1)] by (auto simp: spawn_ok_def)
next
  case (Some r')
  then show ?thesis
    using run_change_row [OF assms(1,2) Some] assms(3) run_change_next [OF assms(1)]
    by (auto simp: spawn_ok_def)
qed

text \<open>An ended run: still there with its status and time, or gone for good.\<close>

definition stays_over :: "int \<Rightarrow> run_status \<Rightarrow> int option \<Rightarrow> db \<Rightarrow> bool" where
  "stays_over i st t d \<longleftrightarrow> i < next_id (runs d) \<and>
     (case tbl_get (runs d) i of None \<Rightarrow> True | Some r \<Rightarrow> over st t r)"

lemma run_change_over:
  assumes "run_change d d'" "runs_ok d" "stays_over i st t d"
  shows "stays_over i st t d'"
proof (cases "tbl_get (runs d') i")
  case None
  then show ?thesis using assms(3) run_change_next [OF assms(1)] by (auto simp: stays_over_def)
next
  case (Some r')
  then show ?thesis
    using run_change_row [OF assms(1,2) Some] assms(3) run_change_next [OF assms(1)]
    by (auto simp: stays_over_def over_def)
qed

text \<open>The operations are such changes.\<close>

lemma pipelines_update_pipeline [simp]:
  "tbl_ids (pipelines (dbase (update_pipeline i f w))) = tbl_ids (pipelines (dbase w))"
  "next_id (pipelines (dbase (update_pipeline i f w))) = next_id (pipelines (dbase w))"
  by (simp_all add: update_pipeline_def)

lemma insert_run_frames [simp]:
  "runs (dbase (insert_run r w)) = tbl_insert r (runs (dbase w))"
  "pipelines (dbase (insert_run r w)) = pipelines (dbase w)"
  by (simp_all add: insert_run_def)

lemma map_update_self: "(map g xs)[i := g (xs ! i)] = map g xs"
  by (metis list_update_id map_update)

lemma steps_ok_update:
  "(\<And>s. rs_step_index (f s) = rs_step_index s) \<Longrightarrow> steps_ok (steps[i := f (steps ! i)]) = steps_ok steps"
  by (simp add: steps_ok_def map_update map_update_self)

lemma steps_ok_skip [simp]: "steps_ok (skip_from k steps) = steps_ok steps"
proof -
  have "map rs_step_index (skip_from k steps) = map rs_step_index (take k steps @ drop k steps)"
    by (simp only: skip_from_def map_append) simp
  then show ?thesis by (simp add: steps_ok_def)
qed

lemma steps_ok_closed [simp]: "steps_ok (steps[i := closed_step b m now (steps ! i)]) = steps_ok steps"
  by (rule steps_ok_update) simp

lemma steps_ok_opened [simp]:
  "steps_ok (steps[i := (steps ! i)\<lparr>rs_status := st, rs_started_at := t\<rparr>]) = steps_ok steps"
  by (rule steps_ok_update) simp

lemma steps_ok_opened_steps [simp]: "steps_ok (opened_steps b m now c steps) = steps_ok steps"
  by (simp only: opened_steps_def Let_def steps_ok_opened steps_ok_closed)

lemma length_opened_steps [simp]: "length (opened_steps b m now c steps) = length steps"
  by (simp add: opened_steps_def Let_def)

lemma steps_ok_cancelled [simp]: "steps_ok (map (cancelled_step now) steps) = steps_ok steps"
proof -
  have "rs_step_index (cancelled_step now s) = rs_step_index s" for s by (simp add: cancelled_step_def)
  then show ?thesis by (simp add: steps_ok_def comp_def)
qed

lemma snapshot_ok [simp]:
  "length (run_snapshot d now steps) = length steps" "steps_ok (run_snapshot d now steps)"
  by (auto simp: run_snapshot_def steps_ok_def new_run_step_def case_prod_unfold comp_def intro!: nth_equalityI
      simp: nth_enumerate_eq)

lemma run_change_refl [simp]: "run_change d d"
  by (simp add: run_change.Same)

lemma start_change:
  assumes "start_pipeline q u w = (w', p)" "runs_ok (dbase w)"
  shows "run_change (dbase w) (dbase w') \<and> (\<forall>sp. p = Waiting sp \<longrightarrow> spawn_ok (dbase w') sp)"
proof (cases "Option.bind q row_id")
  case None
  then show ?thesis using assms by (auto simp: start_pipeline_def)
next
  case (Some pid)
  note q = Some
  show ?thesis
  proof (cases "tbl_get (pipelines (dbase w)) pid")
    case None
    then show ?thesis using assms q by (auto simp: start_pipeline_def)
  next
    case (Some pl)
    show ?thesis
    proof (cases "pl_steps pl")
      case Nil
      then show ?thesis using assms q Some by (auto simp: start_pipeline_def)
    next
      case (Cons first rest)
      define snap where "snap = run_snapshot (dbase w) (now_s w) (pl_steps pl)"
      let ?r = "new_run pid snap u (now_s w)"
      have snap: "steps_ok snap" "length snap = length (pl_steps pl)" by (simp_all add: snap_def)
      have "pid \<in> set (tbl_ids (pipelines (dbase w)))"
        using Some tbl_get_mem by (force simp: tbl_ids_def)
      moreover have "run_ok ?r" using snap by (simp add: run_ok_def new_run_def Cons)
      moreover have "runs (dbase w') = tbl_insert ?r (runs (dbase w)) \<and>
          tbl_ids (pipelines (dbase w')) = tbl_ids (pipelines (dbase w)) \<and>
          next_id (pipelines (dbase w')) = next_id (pipelines (dbase w)) \<and>
          (\<forall>sp. p = Waiting sp \<longrightarrow> sp_steps sp = snap \<and> sp_index sp = 0 \<and> sp_run sp = next_id (runs (dbase w)))"
        using assms(1) q Some Cons
        by (cases "tbl_get (templates (dbase w)) (pst_template_id first)")
          (auto simp: start_pipeline_def Let_def case_prod_unfold snap_def tbl_last_id_def)
      moreover have "run_pipeline_id ?r = pid" "run_steps ?r = snap" by (simp_all add: new_run_def)
      moreover have "tbl_ok (runs (dbase w))" using assms(2) by (simp add: runs_ok_def)
      ultimately show ?thesis
        using snap Cons by (auto simp: spawn_ok_def tbl_simps tbl_last_id_def intro: run_change.Started)
    qed
  qed
qed

lemma run_change_running:
  assumes "tbl_get (runs d) i = Some r" "run_status r = RunRunning"
    and "run_ok (f r)" "run_pipeline_id (f r) = run_pipeline_id r" "length (run_steps (f r)) = length (run_steps r)"
    and "runs d' = tbl_update i f (runs d)" "pipelines d' = pipelines d"
  shows "run_change d d'"
  by (rule run_change.Changed [OF _ assms(6,7)]) (use assms in auto)

lemma advance_change:
  assumes "advance_run q b m w = (w', p)" "runs_ok (dbase w)"
  shows "run_change (dbase w) (dbase w') \<and> (\<forall>sp. p = Waiting sp \<longrightarrow> spawn_ok (dbase w') sp)"
proof -
  consider (refused) "w' = w" "\<And>sp. p \<noteq> Waiting sp"
    | (moved) q' i r where "body_id q = Some q'" "row_id q' = Some i" "get_by_number (runs (dbase w)) q' = Some r"
        "run_status r = RunRunning" "run_current_step r < length (run_steps r)"
    using assms(1) by (auto simp: advance_run_def split: option.splits if_splits)
  then show ?thesis
  proof cases
    case refused
    then show ?thesis by simp
  next
    case moved
    have r: "tbl_get (runs (dbase w)) i = Some r" using moved by (simp add: get_by_number_def)
    then have ok: "run_ok r" "i < next_id (runs (dbase w))"
      using assms(2) tbl_get_less by (auto simp: runs_ok_get)
    let ?c = "run_current_step r"
    let ?open = "opened_steps b m (now_s w) ?c (run_steps r)"
    have open_ok: "steps_ok ?open" "length ?open = length (run_steps r)"
      using ok by (simp_all add: run_ok_def)
    let ?closed = "(run_steps r)[?c := closed_step b m (now_s w) (run_steps r ! ?c)]"
    note change = run_change_running [OF r moved(4)]
    consider (stop) "\<not> b" "rs_on_failure (run_steps r ! ?c) = Stop"
      | (finish) "b \<or> rs_on_failure (run_steps r ! ?c) \<noteq> Stop" "length (run_steps r) \<le> ?c + 1"
      | (gone) "b \<or> rs_on_failure (run_steps r ! ?c) \<noteq> Stop" "?c + 1 < length (run_steps r)"
          "tbl_get (templates (dbase w)) (rs_template_id (?open ! (?c + 1))) = None"
      | (spawn) t where "b \<or> rs_on_failure (run_steps r ! ?c) \<noteq> Stop" "?c + 1 < length (run_steps r)"
          "tbl_get (templates (dbase w)) (rs_template_id (?open ! (?c + 1))) = Some t"
      by fastforce
    then show ?thesis
    proof cases
      case stop
      have "runs (dbase w') = tbl_update i (\<lambda>x. x\<lparr>run_status := RunFailed, run_current_step := ?c,
            run_steps := skip_from (?c + 1) ?closed, run_completed_at := Some (now_s w)\<rparr>) (runs (dbase w))"
          "pipelines (dbase w') = pipelines (dbase w)" "\<forall>sp. p \<noteq> Waiting sp"
        using assms(1) moved stop by (auto simp: advance_run_def Let_def close_run_def)
      with ok moved(5) show ?thesis
        by (intro conjI change) (auto simp: run_ok_def)
    next
      case finish
      then have "runs (dbase w') = tbl_update i (\<lambda>x. x\<lparr>run_status := RunCompleted, run_current_step := ?c,
            run_steps := ?closed, run_completed_at := Some (now_s w)\<rparr>) (runs (dbase w))"
          "pipelines (dbase w') = pipelines (dbase w)" "\<forall>sp. p \<noteq> Waiting sp"
        using assms(1) moved by (auto simp: advance_run_def Let_def close_run_def)
      with ok moved(5) show ?thesis
        by (intro conjI change) (auto simp: run_ok_def)
    next
      case gone
      then have "runs (dbase w') = tbl_update i (\<lambda>x. x\<lparr>run_current_step := ?c + 1, run_steps := ?open\<rparr>) (runs (dbase w))"
          "pipelines (dbase w') = pipelines (dbase w)" "\<forall>sp. p \<noteq> Waiting sp"
        using assms(1) moved by (auto simp: advance_run_def Let_def advanced_def opened_steps_def)
      with ok open_ok gone(2) show ?thesis
        by (intro conjI change) (auto simp: run_ok_def)
    next
      case (spawn t)
      then have "w' = w \<and> (\<forall>sp. p = Waiting sp \<longrightarrow> sp_steps sp = ?open \<and> sp_index sp = ?c + 1 \<and> sp_run sp = i)"
        using assms(1) moved by (auto simp: advance_run_def Let_def opened_steps_def)
      then show ?thesis using open_ok ok r spawn(2) by (auto simp: spawn_ok_def)
    qed
  qed
qed

lemma cancel_change:
  assumes "cancel_run q w = (w', resp)" "runs_ok (dbase w)"
  shows "run_change (dbase w) (dbase w')"
proof -
  consider (refused) "w' = w"
    | (moved) q' i r where "body_id q = Some q'" "row_id q' = Some i" "get_by_number (runs (dbase w)) q' = Some r"
        "run_status r = RunRunning \<or> run_status r = RunPending"
    using assms(1) by (auto simp: cancel_run_def Let_def split: option.splits if_splits)
  then show ?thesis
  proof cases
    case refused
    then show ?thesis by simp
  next
    case moved
    have r: "tbl_get (runs (dbase w)) i = Some r" using moved by (simp add: get_by_number_def)
    then have ok: "run_ok r" using assms(2) by (auto simp: runs_ok_get)
    then have "run_status r = RunRunning" using moved(4) by (auto simp: run_ok_def)
    moreover have "runs (dbase w') = tbl_update i (\<lambda>x. x\<lparr>run_status := RunCancelled,
          run_steps := map (cancelled_step (now_s w)) (run_steps r), run_completed_at := Some (now_s w)\<rparr>) (runs (dbase w))"
        "pipelines (dbase w') = pipelines (dbase w)"
      using assms(1) moved by (auto simp: cancel_run_def Let_def)
    ultimately show ?thesis
      using ok by (intro run_change_running [OF r]) (auto simp: run_ok_def)
  qed
qed

lemma tbl_update_twice: "tbl_update k f (tbl_update k g t) = tbl_update k (\<lambda>r. f (g r)) t"
  by (auto simp: tbl_update_def intro!: arg_cong [where f = "\<lambda>x. t\<lparr>rows := x\<rparr>"])

lemma finish_change:
  assumes "spawn_ok (dbase w) sp"
  shows "run_change (dbase w) (dbase (fst (finish_spawn sp outcome w)))"
proof -
  define steps where "steps = (sp_steps sp)[sp_index sp :=
      spawned_step (sp_run sp) (sp_index sp) outcome (clock w) (sp_steps sp ! sp_index sp)]"
  have steps: "steps_ok steps" "length steps = length (sp_steps sp)"
    using assms unfolding steps_def by (simp_all add: steps_ok_update spawn_ok_def)
  have fits: "length (run_steps r) = length steps" if "tbl_get (runs (dbase w)) (sp_run sp) = Some r" for r
    using that assms steps by (simp add: spawn_ok_def)
  have "runs (dbase (fst (finish_spawn sp outcome w))) = tbl_update (sp_run sp)
      (\<lambda>x. x\<lparr>run_current_step := (if sp_start sp = None then sp_index sp else run_current_step x), run_steps := steps\<rparr>)
      (runs (dbase w))"
    by (auto simp: finish_spawn_def spawn_returns_def advanced_def Let_def tbl_update_twice steps_def
        split: option.splits)
  moreover have "pipelines (dbase (fst (finish_spawn sp outcome w))) = pipelines (dbase w)"
    by (auto simp: finish_spawn_def spawn_returns_def advanced_def Let_def split: option.splits)
  ultimately show ?thesis
    by (rule run_change.Changed [rotated])
      (use steps fits assms in \<open>auto simp: run_ok_def spawn_ok_def\<close>)
qed

lemma begin_change:
  assumes "begin_with_role body e r w = (w', p)" "runs_ok (dbase w)"
  shows "run_change (dbase w) (dbase w') \<and> (\<forall>sp. p = Waiting sp \<longrightarrow> spawn_ok (dbase w') sp)"
  using assms
  by (auto simp: begin_with_role_def begin_run_request_def
      dest: start_change advance_change cancel_change
      split: access.splits option.splits if_splits prod.splits)

lemma with_role_change:
  assumes "\<And>u. run_change (dbase w) (dbase (fst (h u w)))"
  shows "run_change (dbase w) (dbase (fst (with_role m e r h w)))"
  using assms by (auto simp: with_role_def split: access.splits)

lemma with_limit_change:
  assumes "\<And>w. run_change (dbase w) (dbase (fst (h w)))"
  shows "run_change (dbase w) (dbase (fst (with_limit l e r h w)))"
proof -
  obtain w' a where c: "with_limit l e r h w = (w', a)" by fastforce
  then show ?thesis
  proof (cases rule: with_limit_cases)
    case limited
    then show ?thesis using c by simp
  next
    case (passed w1)
    then show ?thesis using c assms [of w1] by simp
  qed
qed

lemma create_pipeline_change: "run_change (dbase w) (dbase (fst (create_pipeline u b w)))"
  by (auto simp: create_pipeline_def Let_def intro: run_change.NewPipeline)

lemma put_pipelines_change: "run_change (dbase w) (dbase (fst (put_pipelines b e r w)))"
  unfolding put_pipelines_def
  by (rule with_role_change) (auto simp: update_pipeline_def intro: run_change.Same split: option.splits)

lemma delete_pipelines_change: "run_change (dbase w) (dbase (fst (delete_pipelines b e r w)))"
  unfolding delete_pipelines_def
  by (rule with_role_change) (auto simp: delete_pipeline_rows_def intro: run_change.Removed split: option.splits)

lemma post_pipelines_change: "run_change (dbase w) (dbase (fst (post_pipelines b e r w)))"
  unfolding post_pipelines_def
  by (intro with_role_change with_limit_change) (auto simp: with_body_def create_pipeline_change split: validated.splits)

text \<open>One step of the server: a change of the rows, and waiting requests that fit.\<close>

lemma pipe_step_change:
  assumes "pipes_ok s"
  shows "run_change (dbase (ps_world s)) (dbase (ps_world (pipe_step e x s))) \<and>
    (\<forall>sp \<in> set (ps_waiting (pipe_step e x s)). sp \<in> set (ps_waiting s) \<or> spawn_ok (dbase (ps_world (pipe_step e x s))) sp)"
proof -
  obtain t op where x: "x = (t, op)" by (cases x)
  let ?w = "(ps_world s)\<lparr>clock := t\<rparr>"
  have ok: "runs_ok (dbase ?w)" using assms by (simp add: pipes_ok_def)
  show ?thesis
  proof (cases op)
    case (RunRequest body r)
    obtain w' p where b: "begin_with_role body e r ?w = (w', p)" by fastforce
    from begin_change [OF this ok] show ?thesis
      by (cases p) (auto simp: x RunRequest pipe_step_def b)
  next
    case (CommandEnds k outcome)
    show ?thesis
    proof (cases "k < length (ps_waiting s)")
      case True
      then have "spawn_ok (dbase ?w) (ps_waiting s ! k)" using assms by (simp add: pipes_ok_def)
      from finish_change [OF this, of outcome] show ?thesis
        using True by (auto simp: x CommandEnds pipe_step_def dest: in_set_takeD in_set_dropD)
    qed (simp add: x CommandEnds pipe_step_def)
  next
    case (PostPipeline b r)
    from post_pipelines_change [of ?w b e r] show ?thesis by (simp add: x PostPipeline pipe_step_def)
  next
    case (PutPipeline b r)
    from put_pipelines_change [of ?w b e r] show ?thesis by (simp add: x PutPipeline pipe_step_def)
  next
    case (DeletePipeline b r)
    from delete_pipelines_change [of ?w b e r] show ?thesis by (simp add: x DeletePipeline pipe_step_def)
  qed
qed

lemma pipe_step_ok:
  assumes "pipes_ok s"
  shows "pipes_ok (pipe_step e x s)"
  using pipe_step_change [OF assms, of e x] assms run_change_ok run_change_spawn
  unfolding pipes_ok_def by blast

interpretation pipeline_server: absorbing_machine "pipe_step e" pipes_ok
  "\<lambda>s. stays_over i st t (dbase (ps_world s))" "\<lambda>s. ()"
proof unfold_locales
  fix s x assume ok: "pipes_ok s"
  then show "pipes_ok (pipe_step e x s)" by (rule pipe_step_ok)
  assume "stays_over i st t (dbase (ps_world s))"
  with pipe_step_change [OF ok, of e x] ok show "stays_over i st t (dbase (ps_world (pipe_step e x s)))"
    by (auto simp: pipes_ok_def intro: run_change_over)
qed simp

section \<open>Properties\<close>

definition sample_template :: template where
  "sample_template = \<lparr>tpl_name = ''t'', tpl_description = None, tpl_model = ''m'', tpl_prompt = ''go'', tpl_timeout = 9,
     tpl_agent_role = None, tpl_tags = None, tpl_created_by = ''ada'', tpl_created_at = 1, tpl_updated_at = 1,
     tpl_last_used_at = None, tpl_use_count = 0\<rparr>"

definition sample_pipeline :: pipeline where
  "sample_pipeline = \<lparr>pl_name = ''p'', pl_description = None,
     pl_steps = [\<lparr>pst_template_id = 1, pst_on_failure = Continue\<rparr>, \<lparr>pst_template_id = 1, pst_on_failure = Stop\<rparr>,
                 \<lparr>pst_template_id = 1, pst_on_failure = Stop\<rparr>],
     pl_created_by = ''ada'', pl_created_at = 1, pl_updated_at = 1, pl_use_count = 0, pl_last_used_at = None\<rparr>"

definition sample_pipes :: world where
  "sample_pipes = (world_at 5000)\<lparr>dbase := db_empty\<lparr>templates := tbl_insert sample_template tbl_empty,
     pipelines := tbl_insert sample_pipeline tbl_empty\<rparr>\<rparr>"

definition sample_openclaw :: openclaw where
  "sample_openclaw args t = (Inr ''ok'', 3)"

lemma sample_pipes_ok: "runs_ok (dbase sample_pipes)" "tbl_ok (runs (dbase sample_pipes))"
  "tbl_get (pipelines (dbase sample_pipes)) 1 = Some sample_pipeline"
  by code_simp+

text \<open>
  Claim C5. Refinement: a run that is started and then advanced with any sequence of outcomes,
  one request after the other, shows exactly the outcomes that count: the reported ones up to
  the first failure of a step with the policy to stop, at most one per step. Every step before
  shows its outcome, a stop skips the rest, otherwise the next step runs and the others wait;
  the status of the run and its current step are the ones of the specification.
\<close>

theorem pipeline_refines_outcomes:
  assumes "tbl_ok (runs (dbase w))" "tbl_get (pipelines (dbase w)) pid = Some p" "pl_steps p \<noteq> []"
    and "i = next_id (runs (dbase w))"
  shows "\<exists>r. tbl_get (runs (dbase (run_advances oc i user xs
               (fst (run_request_with oc (Some (start_body pid)) user w))))) i = Some r \<and>
    run_shows (map pst_on_failure (pl_steps p)) (effective (map pst_on_failure (pl_steps p)) (map fst xs)) r"
proof -
  from start_shows [OF assms(1-3)] obtain r where
    r: "tbl_get (runs (dbase (fst (run_request_with oc (Some (start_body pid)) user w)))) i = Some r"
      "run_shows (map pst_on_failure (pl_steps p)) [] r"
    unfolding assms(4) by blast
  have "i \<noteq> 0" using assms(1,4) by (simp add: tbl_ok_def)
  from run_advances_shows [OF r(1) this r(2)] show ?thesis .
qed

theorem pipeline_refines_outcomes_witness:
  "\<exists>r. tbl_get (runs (dbase (run_advances sample_openclaw 1 api_user [(False, None), (False, Some ''no''), (True, None)]
         (fst (run_request_with sample_openclaw (Some (start_body 1)) api_user sample_pipes))))) 1 = Some r \<and>
     run_shows [Continue, Stop, Stop] [False, False] r"
proof -
  have "pl_steps sample_pipeline \<noteq> []" "1 = next_id (runs (dbase sample_pipes))"
    "map pst_on_failure (pl_steps sample_pipeline) = [Continue, Stop, Stop]"
    by code_simp+
  from pipeline_refines_outcomes [OF sample_pipes_ok(2,3) this(1,2), of sample_openclaw api_user
      "[(False, None), (False, Some ''no''), (True, None)]"] this(3)
  show ?thesis by simp
qed

lemma run_ends_after:
  assumes "tbl_get (runs (dbase w)) i = Some r" "i \<noteq> 0" "run_shows ps [] r" "length ps \<le> length xs"
  shows "map_option run_status (tbl_get (runs (dbase (run_advances oc i user xs w))) i) =
    Some (if \<exists>k < length ps. \<not> fst (xs ! k) \<and> ps ! k = Stop then RunFailed else RunCompleted)"
proof -
  have stop: "stopped ps (effective ps bs) \<longleftrightarrow> (\<exists>k < length ps. \<not> bs ! k \<and> ps ! k = Stop)"
    if "length ps \<le> length bs" for bs
    using that
  proof (induction ps bs rule: effective.induct)
    case (3 p ps b bs)
    show ?case
    proof (cases "\<not> b \<and> p = Stop")
      case True
      then show ?thesis by (auto simp: stopped_def)
    next
      case False
      have "effective ps bs = [] \<longleftrightarrow> ps = []" using 3(2) by (cases ps; cases bs) auto
      then have "stopped (p # ps) (b # effective ps bs) = stopped ps (effective ps bs)"
        using False stopped_Cons by (cases "ps = []") (auto simp: stopped_def)
      then show ?thesis
        using 3 False by (auto simp: Ex_less_Suc2)
    qed
  qed (auto simp: stopped_def)
  obtain r' where r': "tbl_get (runs (dbase (run_advances oc i user xs w))) i = Some r'"
      "run_shows ps (effective ps (map fst xs)) r'"
    using run_advances_shows [OF assms(1-3)] by blast
  have "ended ps (effective ps (map fst xs))" by (rule effective_ended) (use assms(4) in simp)
  then have "run_status r' = (if stopped ps (effective ps (map fst xs)) then RunFailed else RunCompleted)"
    using r'(2) by (auto simp: run_shows_def ended_def)
  then show ?thesis
    using r'(1) stop [of "map fst xs"] assms(4) by (auto simp: nth_map)
qed

text \<open>
  Claim C31. A run ends: after its start and as many advances as its pipeline has steps,
  whatever they report and whatever the commands do, it is completed or failed, and it has
  failed exactly if a step with the policy to stop was reported as failed.
\<close>

theorem run_ends:
  assumes "tbl_ok (runs (dbase w))" "tbl_get (pipelines (dbase w)) pid = Some p" "pl_steps p \<noteq> []"
    and "i = next_id (runs (dbase w))" "length (pl_steps p) \<le> length xs"
  shows "map_option run_status (tbl_get (runs (dbase (run_advances oc i user xs
             (fst (run_request_with oc (Some (start_body pid)) user w))))) i) =
    Some (if \<exists>k < length (pl_steps p). \<not> fst (xs ! k) \<and> pst_on_failure (pl_steps p ! k) = Stop
          then RunFailed else RunCompleted)"
proof -
  from start_shows [OF assms(1-3)] obtain r where
    r: "tbl_get (runs (dbase (fst (run_request_with oc (Some (start_body pid)) user w)))) i = Some r"
      "run_shows (map pst_on_failure (pl_steps p)) [] r"
    unfolding assms(4) by blast
  have "i \<noteq> 0" using assms(1,4) by (simp add: tbl_ok_def)
  from run_ends_after [OF r(1) this r(2), of xs oc user] assms(5) show ?thesis
    by (auto simp: nth_map cong: conj_cong)
qed

theorem run_ends_witness:
  "map_option run_status (tbl_get (runs (dbase (run_advances sample_openclaw 1 api_user
     [(False, None), (True, None), (True, None)]
     (fst (run_request_with sample_openclaw (Some (start_body 1)) api_user sample_pipes))))) 1) = Some RunCompleted"
proof -
  have 1: "pl_steps sample_pipeline \<noteq> []" "1 = next_id (runs (dbase sample_pipes))"
    "length (pl_steps sample_pipeline) \<le> length [(False, None), (True, None), (True, None :: string option)]"
    by code_simp+
  have 2: "\<not> (\<exists>k < length (pl_steps sample_pipeline).
      \<not> fst ([(False, None), (True, None), (True, None :: string option)] ! k) \<and>
      pst_on_failure (pl_steps sample_pipeline ! k) = Stop)"
    by code_simp
  from run_ends [OF sample_pipes_ok(2,3) 1, of sample_openclaw api_user] 2 show ?thesis by simp
qed

definition sample_server :: pipe_server where
  "sample_server = \<lparr>ps_world = sample_pipes, ps_waiting = []\<rparr>"

lemma sample_server_ok: "pipes_ok sample_server"
  using sample_pipes_ok(1) by (simp add: pipes_ok_def sample_server_def)

text \<open>
  Well-formed rows under every interleaving of requests and ends of commands: each run
  belongs to a pipeline, its snapshot numbers its steps in order, its current step is one of
  them, no run is pending, and the time of completion is set exactly when the run is over;
  and every waiting request fits the row it will write.
\<close>

theorem runs_well_formed:
  assumes "pipes_ok s"
  shows "pipes_ok (fold (pipe_step e) xs s)"
  using assms by (rule pipeline_server.run_inv)

theorem runs_well_formed_witness:
  "pipes_ok (fold (pipe_step sample_env)
     [(5000, RunRequest (Some (start_body 1)) admin_request), (6000, CommandEnds 0 (Inr ''ok''))] sample_server)"
  by (rule runs_well_formed [OF sample_server_ok])

text \<open>
  A run that is over stays over: completed, failed or cancelled, under every
  interleaving it keeps its status and its time of completion until it is deleted with its
  pipeline, and a deleted run never comes back.
\<close>

theorem ended_run_stays:
  assumes "pipes_ok s" "i < next_id (runs (dbase (ps_world s)))"
    and "case tbl_get (runs (dbase (ps_world s))) i of None \<Rightarrow> True | Some r \<Rightarrow> over st t r"
  shows "case tbl_get (runs (dbase (ps_world (fold (pipe_step e) xs s)))) i of
      None \<Rightarrow> True | Some r \<Rightarrow> run_status r = st \<and> run_completed_at r = t \<and> tbl_get (runs (dbase (ps_world s))) i \<noteq> None"
proof -
  have "stays_over i st t (dbase (ps_world s))" using assms by (simp add: stays_over_def)
  from pipeline_server.run_closed [OF assms(1) this, of e xs]
  have over: "stays_over i st t (dbase (ps_world (fold (pipe_step e) xs s)))" by simp
  show ?thesis
  proof (cases "tbl_get (runs (dbase (ps_world s))) i")
    case None
    have "stays_over i RunCompleted (Some 0) (dbase (ps_world s))" "stays_over i RunFailed None (dbase (ps_world s))"
      using None assms(2) by (simp_all add: stays_over_def)
    from this [THEN pipeline_server.run_closed [OF assms(1)], of e xs] show ?thesis
      by (auto simp: stays_over_def over_def split: option.splits)
  next
    case (Some r)
    with over show ?thesis by (auto simp: stays_over_def over_def split: option.splits)
  qed
qed

definition cancel_body :: "int \<Rightarrow> run_request" where
  "cancel_body i = \<lparr>rq_action = ''cancel'', rq_pipeline_id = None, rq_run_id = Some (of_int i),
     rq_success = None, rq_error = None\<rparr>"

definition cancelled_server :: pipe_server where
  "cancelled_server = fold (pipe_step sample_env)
     [(5, RunRequest (Some (start_body 1)) admin_request),
      (6, RunRequest (Some (cancel_body 1)) admin_request)] sample_server"

lemma cancelled_server_run:
  "1 < next_id (runs (dbase (ps_world cancelled_server)))"
  "case tbl_get (runs (dbase (ps_world cancelled_server))) 1 of
     None \<Rightarrow> True | Some r \<Rightarrow> over RunCancelled (Some 0) r"
  by code_simp+

theorem ended_run_stays_witness:
  "case tbl_get (runs (dbase (ps_world (fold (pipe_step sample_env) [(7, CommandEnds 0 (Inr ''ok''))] cancelled_server)))) 1 of
     None \<Rightarrow> True | Some r \<Rightarrow> run_status r = RunCancelled \<and> run_completed_at r = Some 0 \<and>
       tbl_get (runs (dbase (ps_world cancelled_server))) 1 \<noteq> None"
proof -
  have "pipes_ok cancelled_server"
    unfolding cancelled_server_def by (rule pipeline_server.run_inv [OF sample_server_ok])
  from ended_run_stays [OF this cancelled_server_run] show ?thesis .
qed

text \<open>
  The status stays, but not the snapshot: the end of a command that was running when the run
  was cancelled writes its own copy of the steps back, so a cancelled run shows a running
  step again.
\<close>

lemma cancelled_run_revives_step:
  "map_option (\<lambda>r. (run_status r, map rs_status (run_steps r)))
     (tbl_get (runs (dbase (ps_world cancelled_server))) 1) = Some (RunCancelled, [Skipped, Skipped, Skipped])"
  "map_option (\<lambda>r. (run_status r, map rs_status (run_steps r)))
     (tbl_get (runs (dbase (ps_world (fold (pipe_step sample_env) [(7, CommandEnds 0 (Inr ''ok''))] cancelled_server)))) 1)
   = Some (RunCancelled, [Running, Pending, Pending])"
  by code_simp+

end
