(* ===== verification/Scheduler.thy ===== *)
theory Scheduler
  imports Webhooks Js_Numbers
begin

text \<open>
  The background scheduler: \<open>lib/scheduler.ts\<close> and \<open>app/api/scheduler/route.ts\<close>. A tick walks
  over the tasks and waits for each task it runs, and the timer starts the next tick whether
  the one before has ended or not; a tick is therefore a process with a position of its own.
  The body of a task counts as one step. The copy of the database file, the scan of Claude
  sessions and the network are parameters; the directory of the backups and the file of the
  token records are part of the state.
\<close>

section \<open>Settings\<close>

definition is_setting_enabled :: "string \<Rightarrow> bool \<Rightarrow> world \<Rightarrow> bool" where
  "is_setting_enabled key dflt w =
     (case map_of (settings (dbase w)) key of Some s \<Rightarrow> set_value s = ''true'' | None \<Rightarrow> dflt)"

text \<open>\<open>parseInt(row.value) || defaultValue\<close>.\<close>

definition get_setting_number :: "string \<Rightarrow> int \<Rightarrow> world \<Rightarrow> int" where
  "get_setting_number key dflt w =
     (case map_of (settings (dbase w)) key of None \<Rightarrow> dflt
      | Some s \<Rightarrow> (case parse_int (set_value s) of None \<Rightarrow> dflt | Some n \<Rightarrow> if n = 0 then dflt else n))"

section \<open>Tasks of the scheduler\<close>

datatype sched_id = Auto_Backup | Auto_Cleanup | Agent_Heartbeat | Webhook_Retry | Claude_Session_Scan

fun sched_id_text :: "sched_id \<Rightarrow> string" where
  "sched_id_text Auto_Backup = ''auto_backup''"
| "sched_id_text Auto_Cleanup = ''auto_cleanup''"
| "sched_id_text Agent_Heartbeat = ''agent_heartbeat''"
| "sched_id_text Webhook_Retry = ''webhook_retry''"
| "sched_id_text Claude_Session_Scan = ''claude_session_scan''"

fun setting_key :: "sched_id \<Rightarrow> string" where
  "setting_key Auto_Backup = ''general.auto_backup''"
| "setting_key Auto_Cleanup = ''general.auto_cleanup''"
| "setting_key Webhook_Retry = ''webhooks.retry_enabled''"
| "setting_key Claude_Session_Scan = ''general.claude_session_scan''"
| "setting_key Agent_Heartbeat = ''general.agent_heartbeat''"

definition default_enabled :: "sched_id \<Rightarrow> bool" where
  "default_enabled i \<longleftrightarrow> i = Agent_Heartbeat \<or> i = Webhook_Retry \<or> i = Claude_Session_Scan"

definition task_enabled :: "sched_id \<Rightarrow> world \<Rightarrow> bool" where
  "task_enabled i w = is_setting_enabled (setting_key i) (default_enabled i) w"

record sched_task =
  st_name :: string
  st_interval :: int
  st_last_run :: "int option"
  st_next_run :: int
  st_enabled :: bool
  st_running :: bool
  st_last_result :: "(bool \<times> string \<times> int) option"

text \<open>A tick: its time, the tasks it has not come to yet, and the task it waits for.\<close>

record tick_proc =
  tp_now :: int
  tp_rest :: "sched_id list"
  tp_current :: "sched_id option"

text \<open>
  \<open>sv_tasks\<close> in the order of the map; \<open>sv_backups\<close> are the files of the backup directory with
  their times of modification; \<open>sv_tokens\<close> is the content of the token file.
\<close>

record server =
  sv_world :: world
  sv_tasks :: "(sched_id \<times> sched_task) list"
  sv_timer :: bool
  sv_backups :: "(string \<times> int) list"
  sv_tokens :: "json option"
  sv_ticks :: "tick_proc list"

text \<open>
  The copy of the database (its size, or an error), and the scan of \<open>lib/claude-sessions.ts\<close>
  (its result, or an exception).
\<close>

record surroundings =
  su_hooks :: outside
  su_backup :: "int \<Rightarrow> string + int"
  su_claude :: "int \<Rightarrow> string + (bool \<times> string)"

definition on_world :: "(world \<Rightarrow> world) \<Rightarrow> server \<Rightarrow> server" where
  "on_world f s = s\<lparr>sv_world := f (sv_world s)\<rparr>"

section \<open>Backup\<close>

text \<open>\<open>xs.slice(n)\<close>.\<close>

definition slice_from :: "int \<Rightarrow> 'x list \<Rightarrow> 'x list" where
  "slice_from n xs = (if n < 0 then last_n (nat (- n)) xs else drop (nat n) xs)"

definition backup_stamp :: "int \<Rightarrow> string" where
  "backup_stamp ms =
     (let t = map (\<lambda>c. if c = CHR '':'' \<or> c = CHR ''.'' then CHR ''-'' else c) (iso_string ms);
          d = takeWhile (\<lambda>c. c \<noteq> CHR ''T'') t
      in take 19 (if d = t then t else d @ ''_'' @ drop (length d + 1) t))"

definition prune_backups :: "int \<Rightarrow> (string \<times> int) list \<Rightarrow> (string \<times> int) list" where
  "prune_backups max_backups files =
     (let ours = sort_key (\<lambda>f. - snd f)
            (filter (\<lambda>f. starts_with ''mc-backup-'' (fst f) \<and> ends_with ''.db'' (fst f)) files);
          gone = map fst (slice_from max_backups ours)
      in filter (\<lambda>f. fst f \<notin> set gone) files)"

definition run_backup :: "env \<Rightarrow> surroundings \<Rightarrow> string \<Rightarrow> server \<Rightarrow> server \<times> bool \<times> string" where
  "run_backup e su dir s =
     (let w = sv_world s;
          file = ''mc-backup-'' @ backup_stamp (clock w) @ ''.db''
      in case su_backup su (clock w) of
           Inl m \<Rightarrow> (s, False, ''Backup failed: '' @ m)
         | Inr bytes \<Rightarrow>
             (let w1 = log_audit_event ''auto_backup'' ''scheduler'' None None None
                         (Some (JObj [(''path'', JStr (dir @ ''/'' @ file)), (''size'', JInt bytes)])) None None w;
                  files = filter (\<lambda>f. fst f \<noteq> file) (sv_backups s) @ [(file, clock w)]
              in (s\<lparr>sv_world := w1,
                    sv_backups := prune_backups (get_setting_number ''general.backup_retention_count'' 10 w1) files\<rparr>,
                  True, ''Backup created ('' @ show_int (js_round (of_int bytes / 1024)) @ ''KB)'')))"

section \<open>Cleanup\<close>

text \<open>\<open>Number(process.env.X || d)\<close>; \<open>None\<close> is \<open>NaN\<close>.\<close>

definition retention_days :: "env \<Rightarrow> string \<Rightarrow> string \<Rightarrow> rat option" where
  "retention_days e key dflt = string_number (env_or e key dflt)"

text \<open>\<open>DELETE FROM t WHERE created_at < cutoff\<close>; a cutoff that is \<open>NaN\<close> deletes nothing.\<close>

definition stale :: "rat option \<Rightarrow> int \<Rightarrow> int \<Rightarrow> bool" where
  "stale days now created =
     (case days of None \<Rightarrow> False
      | Some d \<Rightarrow> 0 < d \<and> of_int created < of_int now - d * 86400)"

definition expire :: "rat option \<Rightarrow> int \<Rightarrow> ('r \<Rightarrow> int) \<Rightarrow> 'r table \<Rightarrow> 'r table \<times> nat" where
  "expire days now created t =
     (let t' = tbl_delete_where (\<lambda>i r. stale days now (created r)) t
      in (t', length (rows t) - length (rows t')))"

text \<open>The token file: an entry without a number as its time goes, too.\<close>

definition expire_tokens :: "rat option \<Rightarrow> int \<Rightarrow> json option \<Rightarrow> json option \<times> nat" where
  "expire_tokens days now_ms file =
     (case (days, file) of
        (Some d, Some (JArr rs)) \<Rightarrow>
          (if d \<le> 0 then (file, 0)
           else let kept = filter (\<lambda>r. case jget r ''timestamp'' of
                      Some (JNum t) \<Rightarrow> of_int now_ms - d * 86400000 \<le> t | _ \<Rightarrow> False) rs
                in (Some (JArr kept), length rs - length kept))
      | _ \<Rightarrow> (file, 0))"

definition run_cleanup :: "env \<Rightarrow> server \<Rightarrow> server \<times> bool \<times> string" where
  "run_cleanup e s =
     (let w = sv_world s; d = dbase w; now = now_s w;
          (acts, n1) = expire (retention_days e ''MC_RETAIN_ACTIVITIES_DAYS'' ''90'') now act_created_at (activities d);
          (auds, n2) = expire (retention_days e ''MC_RETAIN_AUDIT_DAYS'' ''365'') now aud_created_at (audit_log d);
          (ntfs, n3) = expire (retention_days e ''MC_RETAIN_NOTIFICATIONS_DAYS'' ''60'') now ntf_created_at (notifications d);
          (rns, n4) = expire (retention_days e ''MC_RETAIN_PIPELINE_RUNS_DAYS'' ''90'') now run_created_at (runs d);
          (toks, n5) = expire_tokens (retention_days e ''MC_RETAIN_TOKEN_USAGE_DAYS'' ''90'') (clock w) (sv_tokens s);
          total = n1 + n2 + n3 + n4 + n5;
          w1 = w\<lparr>dbase := d\<lparr>activities := acts, audit_log := auds, notifications := ntfs, runs := rns\<rparr>\<rparr>;
          w2 = (if 0 < total
                then log_audit_event ''auto_cleanup'' ''scheduler'' None None None
                       (Some (JObj [(''total_deleted'', JInt (int total))])) None None w1
                else w1)
      in (s\<lparr>sv_world := w2, sv_tokens := toks\<rparr>, True,
          ''Cleaned '' @ show_int (int total) @ '' stale record'' @ (if total = 1 then [] else ''s'')))"

section \<open>Heartbeat check\<close>

definition stale_agent :: "int \<Rightarrow> agent \<Rightarrow> bool" where
  "stale_agent threshold a \<longleftrightarrow> agent_status a \<noteq> ''offline'' \<and>
     (case agent_last_seen a of None \<Rightarrow> True | Some t \<Rightarrow> t < threshold)"

definition mark_offline :: "int \<Rightarrow> int \<times> agent \<Rightarrow> world \<Rightarrow> world" where
  "mark_offline timeout x w =
     (case x of (i, a) \<Rightarrow>
       let now = now_s w; d = dbase w;
           said = \<lparr>act_type = ''agent_status_change'', act_entity_type = ''agent'', act_entity_id = i,
                   act_actor = ''heartbeat'',
                   act_description = ''Agent \"'' @ agent_name a @ ''\" marked offline (no heartbeat for '' @ show_int timeout @ ''m)'',
                   act_data = None, act_created_at = now\<rparr>;
           note = notification_row ''system'' ''heartbeat'' (''Agent offline: '' @ agent_name a)
                    (''Agent \"'' @ agent_name a @ ''\" was marked offline after '' @ show_int timeout @ '' minutes without heartbeat'')
                    (Some ''agent'') (Some i) w
       in w\<lparr>dbase := d\<lparr>
            agents := tbl_update i (\<lambda>a. a\<lparr>agent_status := ''offline'', agent_updated_at := now\<rparr>) (agents d),
            activities := tbl_insert said (activities d),
            notifications := tbl_insert note (notifications d)\<rparr>\<rparr>)"

definition run_heartbeat_check :: "world \<Rightarrow> world \<times> bool \<times> string" where
  "run_heartbeat_check w =
     (let timeout = get_setting_number ''general.agent_timeout_minutes'' 10 w;
          found = tbl_select (stale_agent (now_s w - timeout * 60)) (agents (dbase w))
      in if found = [] then (w, True, ''All agents healthy'')
         else
           let names = map (\<lambda>(i, a). agent_name a) found;
               w1 = fold (mark_offline timeout) found w;
               w2 = log_audit_event ''heartbeat_check'' ''scheduler'' None None None
                      (Some (JObj [(''marked_offline'', JArr (map JStr names))])) None None w1
           in (w2, True, ''Marked '' @ show_int (int (length found)) @ '' agent(s) offline: '' @ join_with '', '' names))"

section \<open>Running a task\<close>

definition run_sched_task :: "env \<Rightarrow> surroundings \<Rightarrow> string \<Rightarrow> sched_id \<Rightarrow> server \<Rightarrow> server \<times> (string + (bool \<times> string))" where
  "run_sched_task e su dir i s =
     (case i of
        Auto_Backup \<Rightarrow> (let (s', r) = run_backup e su dir s in (s', Inr r))
      | Auto_Cleanup \<Rightarrow> (let (s', r) = run_cleanup e s in (s', Inr r))
      | Agent_Heartbeat \<Rightarrow> (let (w, r) = run_heartbeat_check (sv_world s) in (s\<lparr>sv_world := w\<rparr>, Inr r))
      | Webhook_Retry \<Rightarrow> (let (w, r) = process_webhook_retries e (su_hooks su) (sv_world s) in (s\<lparr>sv_world := w\<rparr>, Inr r))
      | Claude_Session_Scan \<Rightarrow> (s, su_claude su (clock (sv_world s))))"

section \<open>Initialisation\<close>

definition daily_ms :: int where
  "daily_ms = 24 * 60 * 60 * 1000"

definition five_minutes_ms :: int where
  "five_minutes_ms = 5 * 60 * 1000"

definition tick_ms :: int where
  "tick_ms = 60 * 1000"

text \<open>Milliseconds until the next time the clock shows the full hour (UTC).\<close>

definition get_next_daily_ms :: "int \<Rightarrow> int \<Rightarrow> int" where
  "get_next_daily_ms hour now =
     (let next = now div daily_ms * daily_ms + hour * 3600000
      in (if next \<le> now then next + daily_ms else next) - now)"

definition new_sched_task :: "string \<Rightarrow> int \<Rightarrow> int \<Rightarrow> sched_task" where
  "new_sched_task name interval next =
     \<lparr>st_name = name, st_interval = interval, st_last_run = None, st_next_run = next,
      st_enabled = True, st_running = False, st_last_result = None\<rparr>"

text \<open>\<open>initScheduler\<close> but for the synchronisation of agents it starts.\<close>

definition init_scheduler :: "server \<Rightarrow> server" where
  "init_scheduler s =
     (if sv_timer s then s
      else let now = clock (sv_world s) in
        s\<lparr>sv_tasks :=
            [(Auto_Backup, new_sched_task ''Auto Backup'' daily_ms (now + get_next_daily_ms 3 now)),
             (Auto_Cleanup, new_sched_task ''Auto Cleanup'' daily_ms (now + get_next_daily_ms 4 now)),
             (Agent_Heartbeat, new_sched_task ''Agent Heartbeat Check'' five_minutes_ms (now + five_minutes_ms)),
             (Webhook_Retry, new_sched_task ''Webhook Retry'' tick_ms (now + tick_ms)),
             (Claude_Session_Scan, new_sched_task ''Claude Session Scan'' tick_ms (now + 5000))],
          sv_timer := True\<rparr>)"

definition stop_scheduler :: "server \<Rightarrow> server" where
  "stop_scheduler s = s\<lparr>sv_timer := False\<rparr>"

section \<open>Ticks\<close>

definition set_task_state :: "sched_id \<Rightarrow> (sched_task \<Rightarrow> sched_task) \<Rightarrow> server \<Rightarrow> server" where
  "set_task_state i f s = s\<lparr>sv_tasks := map (\<lambda>(j, t). (j, if j = i then f t else t)) (sv_tasks s)\<rparr>"

definition due :: "int \<Rightarrow> sched_id \<Rightarrow> server \<Rightarrow> bool" where
  "due now i s \<longleftrightarrow> (case map_of (sv_tasks s) i of None \<Rightarrow> False
     | Some t \<Rightarrow> \<not> st_running t \<and> st_next_run t \<le> now \<and> task_enabled i (sv_world s))"

text \<open>In front of the \<open>await\<close>, and behind it.\<close>

definition begin_visit :: "sched_id \<Rightarrow> server \<Rightarrow> server" where
  "begin_visit i = set_task_state i (\<lambda>t. t\<lparr>st_running := True\<rparr>)"

definition end_visit :: "env \<Rightarrow> surroundings \<Rightarrow> string \<Rightarrow> int \<Rightarrow> sched_id \<Rightarrow> server \<Rightarrow> server" where
  "end_visit e su dir now i s =
     (let (s', r) = run_sched_task e su dir i s;
          result = (case r of Inr (ok, m) \<Rightarrow> (ok, m, now) | Inl m \<Rightarrow> (False, m, now))
      in set_task_state i (\<lambda>t. t\<lparr>st_last_result := Some result, st_running := False,
           st_last_run := Some now, st_next_run := now + st_interval t\<rparr>) s')"

text \<open>A tick with nothing in between.\<close>

definition visit :: "env \<Rightarrow> surroundings \<Rightarrow> string \<Rightarrow> int \<Rightarrow> sched_id \<Rightarrow> server \<Rightarrow> server" where
  "visit e su dir now i s = (if due now i s then end_visit e su dir now i (begin_visit i s) else s)"

definition tick :: "env \<Rightarrow> surroundings \<Rightarrow> string \<Rightarrow> server \<Rightarrow> server" where
  "tick e su dir s = fold (visit e su dir (clock (sv_world s))) (map fst (sv_tasks s)) s"

text \<open>Ticks in any interleaving: one starts, one moves on to its next task, one comes back.\<close>

datatype sched_op = Tick_Starts | Tick_Moves nat | Tick_Returns nat

fun sched_do :: "env \<Rightarrow> surroundings \<Rightarrow> string \<Rightarrow> sched_op \<Rightarrow> server \<Rightarrow> server" where
  "sched_do e su dir Tick_Starts s =
     (if sv_timer s
      then s\<lparr>sv_ticks := sv_ticks s @ [\<lparr>tp_now = clock (sv_world s), tp_rest = map fst (sv_tasks s), tp_current = None\<rparr>]\<rparr>
      else s)"
| "sched_do e su dir (Tick_Moves k) s =
     (if k < length (sv_ticks s) \<and> tp_current (sv_ticks s ! k) = None
      then (let p = sv_ticks s ! k in
        case tp_rest p of [] \<Rightarrow> s
        | i # rest \<Rightarrow>
            if due (tp_now p) i s
            then begin_visit i (s\<lparr>sv_ticks := (sv_ticks s)[k := p\<lparr>tp_rest := rest, tp_current := Some i\<rparr>]\<rparr>)
            else s\<lparr>sv_ticks := (sv_ticks s)[k := p\<lparr>tp_rest := rest\<rparr>]\<rparr>)
      else s)"
| "sched_do e su dir (Tick_Returns k) s =
     (if k < length (sv_ticks s)
      then (let p = sv_ticks s ! k in
        case tp_current p of None \<Rightarrow> s
        | Some i \<Rightarrow> end_visit e su dir (tp_now p) i (s\<lparr>sv_ticks := (sv_ticks s)[k := p\<lparr>tp_current := None\<rparr>]\<rparr>))
      else s)"

definition sched_step :: "env \<Rightarrow> surroundings \<Rightarrow> string \<Rightarrow> int \<times> sched_op \<Rightarrow> server \<Rightarrow> server" where
  "sched_step e su dir x s = (case x of (t, op) \<Rightarrow> sched_do e su dir op (on_world (\<lambda>w. w\<lparr>clock := t\<rparr>) s))"

section \<open>Status, manual trigger and routes\<close>

record sched_status =
  ss_id :: string
  ss_name :: string
  ss_enabled :: bool
  ss_last_run :: "int option"
  ss_next_run :: int
  ss_running :: bool
  ss_last_result :: "(bool \<times> string \<times> int) option"

definition get_scheduler_status :: "server \<Rightarrow> sched_status list" where
  "get_scheduler_status s = map (\<lambda>(i, t).
     \<lparr>ss_id = sched_id_text i, ss_name = st_name t, ss_enabled = task_enabled i (sv_world s),
      ss_last_run = st_last_run t, ss_next_run = st_next_run t, ss_running = st_running t,
      ss_last_result = st_last_result t\<rparr>) (sv_tasks s)"

definition sched_id_of :: "string \<Rightarrow> sched_id option" where
  "sched_id_of t = find (\<lambda>i. sched_id_text i = t)
     [Auto_Backup, Auto_Cleanup, Agent_Heartbeat, Webhook_Retry, Claude_Session_Scan]"

definition trigger_task :: "env \<Rightarrow> surroundings \<Rightarrow> string \<Rightarrow> string \<Rightarrow> server \<Rightarrow> server \<times> (string + (bool \<times> string))" where
  "trigger_task e su dir task_id s =
     (case sched_id_of task_id of
        None \<Rightarrow> (s, Inr (False, ''Unknown task: '' @ task_id))
      | Some i \<Rightarrow> run_sched_task e su dir i s)"

datatype sched_body = Sched_Tasks "sched_status list" | Sched_Result bool string

text \<open>The role check in front of a handler that works on the server.\<close>

definition server_with_role ::
  "role \<Rightarrow> env \<Rightarrow> request \<Rightarrow> (server \<Rightarrow> server \<times> 'b response) \<Rightarrow> server \<Rightarrow> server \<times> 'b response" where
  "server_with_role m e r h s =
     (case require_role e r m (sv_world s) of
        Granted u \<Rightarrow> h s
      | Denied msg status \<Rightarrow> (s, Fail status msg)
      | Threw err \<Rightarrow> (s, Crash))"

definition get_scheduler :: "env \<Rightarrow> request \<Rightarrow> server \<Rightarrow> server \<times> sched_body response" where
  "get_scheduler e r = server_with_role Admin e r (\<lambda>s. (s, Reply 200 (Sched_Tasks (get_scheduler_status s))))"

definition post_scheduler ::
  "surroundings \<Rightarrow> string \<Rightarrow> string option \<Rightarrow> env \<Rightarrow> request \<Rightarrow> server \<Rightarrow> server \<times> sched_body response" where
  "post_scheduler su dir task_id e r = server_with_role Admin e r (\<lambda>s.
     (case str_or_null task_id of
        Some t \<Rightarrow>
          if t \<in> {''auto_backup'', ''auto_cleanup'', ''agent_heartbeat''}
          then (case trigger_task e su dir t s of
                  (s', Inr (ok, m)) \<Rightarrow> (s', Reply (if ok then 200 else 500) (Sched_Result ok m))
                | (s', Inl m) \<Rightarrow> (s', Crash))
          else (s, Fail 400 ''task_id required: auto_backup, auto_cleanup, or agent_heartbeat'')
      | None \<Rightarrow> (s, Fail 400 ''task_id required: auto_backup, auto_cleanup, or agent_heartbeat'')))"

end
