(* ===== verification/Scheduler_Ticks.thy ===== *)
theory Scheduler_Ticks
  imports Scheduler
begin

text \<open>
  What the scheduler guarantees: overlapping ticks never run the same task twice at a time,
  a tick runs exactly the tasks that are due, and the heartbeat check takes exactly the
  silent agents offline.
\<close>

section \<open>Frames\<close>

lemma run_sched_task_frame [simp]:
  "sv_tasks (fst (run_sched_task e su dir i s)) = sv_tasks s"
  "sv_ticks (fst (run_sched_task e su dir i s)) = sv_ticks s"
  "sv_timer (fst (run_sched_task e su dir i s)) = sv_timer s"
  by (cases i; simp add: run_sched_task_def run_backup_def run_cleanup_def Let_def case_prod_unfold split: sum.split)+

lemma set_task_state_simps [simp]:
  "sv_ticks (set_task_state i f s) = sv_ticks s"
  "sv_world (set_task_state i f s) = sv_world s"
  "map fst (sv_tasks (set_task_state i f s)) = map fst (sv_tasks s)"
  by (simp_all add: set_task_state_def case_prod_unfold comp_def)

lemma map_of_set_task_state:
  "map_of (sv_tasks (set_task_state i f s)) j =
     (if j = i then map_option f (map_of (sv_tasks s) j) else map_of (sv_tasks s) j)"
  using map_of_map_value [of "\<lambda>j t. if j = i then f t else t" "sv_tasks s" j]
  by (simp add: set_task_state_def option.map_ident)

lemma end_visit_frame [simp]:
  "sv_ticks (end_visit e su dir now i s) = sv_ticks s"
  "map fst (sv_tasks (end_visit e su dir now i s)) = map fst (sv_tasks s)"
  by (simp_all add: end_visit_def Let_def case_prod_unfold)

lemma map_of_end_visit:
  "\<exists>res. map_of (sv_tasks (end_visit e su dir now i s)) j =
     (if j = i then map_option (\<lambda>t. t\<lparr>st_last_result := res, st_running := False, st_last_run := Some now,
                                      st_next_run := now + st_interval t\<rparr>) (map_of (sv_tasks s) j)
      else map_of (sv_tasks s) j)"
  by (auto simp: end_visit_def Let_def case_prod_unfold map_of_set_task_state)

section \<open>Exclusion\<close>

definition waiting_for :: "sched_id \<Rightarrow> server \<Rightarrow> nat" where
  "waiting_for i s = length (filter (\<lambda>p. tp_current p = Some i) (sv_ticks s))"

definition ticks_ok :: "server \<Rightarrow> bool" where
  "ticks_ok s \<longleftrightarrow> (\<forall>i. waiting_for i s =
     (case map_of (sv_tasks s) i of None \<Rightarrow> 0 | Some t \<Rightarrow> if st_running t then 1 else 0))"

lemma waiting_for_update:
  assumes "k < length ps"
  shows "length (filter (\<lambda>p. tp_current p = Some i) (ps[k := p])) + (if tp_current (ps ! k) = Some i then 1 else 0) =
    length (filter (\<lambda>p. tp_current p = Some i) ps) + (if tp_current p = Some i then 1 else 0)"
proof -
  have "ps = take k ps @ ps ! k # drop (Suc k) ps" using assms by (simp add: id_take_nth_drop)
  then have "filter (\<lambda>p. tp_current p = Some i) ps =
      filter (\<lambda>p. tp_current p = Some i) (take k ps @ ps ! k # drop (Suc k) ps)" by simp
  then show ?thesis using assms by (simp add: upd_conv_take_nth_drop)
qed

lemma sched_do_ok:
  assumes "ticks_ok s"
  shows "ticks_ok (sched_do e su dir op s)"
proof (cases op)
  case Tick_Starts
  with assms show ?thesis by (simp add: ticks_ok_def waiting_for_def)
next
  case (Tick_Moves k)
  show ?thesis
  proof (cases "k < length (sv_ticks s) \<and> tp_current (sv_ticks s ! k) = None \<and> tp_rest (sv_ticks s ! k) \<noteq> []")
    case False
    with assms show ?thesis by (auto simp: Tick_Moves Let_def split: list.splits)
  next
    case True
    then obtain i rest where rest: "tp_rest (sv_ticks s ! k) = i # rest" by (cases "tp_rest (sv_ticks s ! k)") auto
    let ?p = "sv_ticks s ! k"
    show ?thesis
    proof (cases "due (tp_now ?p) i s")
      case due: True
      let ?s = "s\<lparr>sv_ticks := (sv_ticks s)[k := ?p\<lparr>tp_rest := rest, tp_current := Some i\<rparr>]\<rparr>"
      have eq: "sched_do e su dir op s = begin_visit i ?s"
        using True rest due by (simp add: Tick_Moves Let_def)
      obtain t where t: "map_of (sv_tasks s) i = Some t" "\<not> st_running t"
        using due by (auto simp: due_def split: option.splits)
      have "waiting_for j (begin_visit i ?s) = waiting_for j s + (if j = i then 1 else 0)" for j
        using waiting_for_update [of k "sv_ticks s" j "?p\<lparr>tp_rest := rest, tp_current := Some i\<rparr>"] True
        by (auto simp: waiting_for_def begin_visit_def)
      then show ?thesis
        using assms t unfolding eq ticks_ok_def by (simp add: begin_visit_def map_of_set_task_state)
    next
      case False
      let ?s = "s\<lparr>sv_ticks := (sv_ticks s)[k := ?p\<lparr>tp_rest := rest\<rparr>]\<rparr>"
      have "sched_do e su dir op s = ?s" using True rest False by (simp add: Tick_Moves Let_def)
      moreover have "waiting_for j ?s = waiting_for j s" for j
        using waiting_for_update [of k "sv_ticks s" j "?p\<lparr>tp_rest := rest\<rparr>"] True by (simp add: waiting_for_def)
      ultimately show ?thesis using assms by (simp add: ticks_ok_def)
    qed
  qed
next
  case (Tick_Returns k)
  show ?thesis
  proof (cases "k < length (sv_ticks s) \<and> tp_current (sv_ticks s ! k) \<noteq> None")
    case False
    with assms show ?thesis by (auto simp: Tick_Returns Let_def split: option.splits)
  next
    case True
    let ?p = "sv_ticks s ! k"
    obtain i where i: "tp_current ?p = Some i" using True by blast
    let ?s = "s\<lparr>sv_ticks := (sv_ticks s)[k := ?p\<lparr>tp_current := None\<rparr>]\<rparr>"
    have eq: "sched_do e su dir op s = end_visit e su dir (tp_now ?p) i ?s"
      using True i by (simp add: Tick_Returns Let_def)
    have count: "waiting_for j s = waiting_for j ?s + (if j = i then 1 else 0)" for j
      using waiting_for_update [of k "sv_ticks s" j "?p\<lparr>tp_current := None\<rparr>"] True i
      by (cases "i = j") (auto simp: waiting_for_def)
    have same: "waiting_for j (end_visit e su dir (tp_now ?p) i ?s) = waiting_for j ?s" for j
      by (simp add: waiting_for_def)
    have i1: "waiting_for i ?s = 0" "map_of (sv_tasks s) i \<noteq> None"
      using assms count [of i] unfolding ticks_ok_def by (auto split: option.splits if_splits dest!: spec [of _ i])
    show ?thesis
      unfolding ticks_ok_def eq same
    proof
      fix j
      obtain res where "map_of (sv_tasks (end_visit e su dir (tp_now ?p) i ?s)) j =
          (if j = i then map_option (\<lambda>t. t\<lparr>st_last_result := res, st_running := False, st_last_run := Some (tp_now ?p),
              st_next_run := tp_now ?p + st_interval t\<rparr>) (map_of (sv_tasks ?s) j) else map_of (sv_tasks ?s) j)"
        using map_of_end_visit by blast
      then show "waiting_for j ?s = (case map_of (sv_tasks (end_visit e su dir (tp_now ?p) i ?s)) j of
          None \<Rightarrow> 0 | Some t \<Rightarrow> if st_running t then 1 else 0)"
        using assms count [of j] i1 unfolding ticks_ok_def
        by (cases "j = i") (auto split: option.splits)
    qed
  qed
qed

lemma ticks_ok_on_world [simp]: "ticks_ok (on_world f s) = ticks_ok s"
  by (simp add: ticks_ok_def waiting_for_def on_world_def)

lemma sched_step_ok: "ticks_ok s \<Longrightarrow> ticks_ok (sched_step e su dir x s)"
  by (cases x) (simp add: sched_step_def sched_do_ok)

interpretation scheduler: invariant_machine "sched_step e su dir" ticks_ok
  by unfold_locales (rule sched_step_ok)

section \<open>One tick\<close>

lemma settings_helpers [simp]:
  "settings (dbase (log_audit_event a ac ai tt ti d ip ua w)) = settings (dbase w)"
  "settings (dbase (update_hook i f w)) = settings (dbase w)"
  "settings (dbase (set_deliveries t w)) = settings (dbase w)"
  "settings (dbase (mark_offline timeout x w)) = settings (dbase w)"
  by (simp_all add: update_hook_def set_deliveries_def mark_offline_def case_prod_unfold Let_def)

lemma settings_settle [simp]: "settings (dbase (settle_delivery e random wid did ok attempt w)) = settings (dbase w)"
  by (simp add: settle_delivery_def Let_def split: option.split)

lemma settings_deliver [simp]:
  "settings (dbase (fst (deliver_webhook e out wid wh ty payload attempt parent allow w))) = settings (dbase w)"
  by (simp add: deliver_webhook_def record_delivery_def Let_def case_prod_unfold)

lemma settings_retry_loop [simp]: "settings (dbase (fst (retry_loop e out xs ok failed w))) = settings (dbase w)"
proof (induction xs arbitrary: ok failed w)
  case (Cons x xs)
  obtain did d wh where "x = (did, d, wh)" by (cases x)
  then show ?case using Cons.IH by (simp add: Let_def case_prod_unfold)
qed simp

lemma settings_clear [simp]: "settings (dbase (fold (\<lambda>p. clear_retry (fst p)) xs w)) = settings (dbase w)"
  by (induction xs arbitrary: w) (auto simp: clear_retry_def)

lemma settings_offline [simp]: "settings (dbase (fold (mark_offline timeout) xs w)) = settings (dbase w)"
  by (induction xs arbitrary: w) simp_all

text \<open>No task changes a setting.\<close>

lemma settings_run [simp]: "settings (dbase (sv_world (fst (run_sched_task e su dir i s)))) = settings (dbase (sv_world s))"
  by (cases i; simp add: run_sched_task_def run_backup_def run_cleanup_def run_heartbeat_check_def
      process_webhook_retries_def Let_def case_prod_unfold split: sum.split)

lemma settings_end_visit [simp]: "settings (dbase (sv_world (end_visit e su dir now i s))) = settings (dbase (sv_world s))"
  by (simp add: end_visit_def Let_def case_prod_unfold)

lemma settings_visit [simp]: "settings (dbase (sv_world (visit e su dir now i s))) = settings (dbase (sv_world s))"
  by (simp add: visit_def begin_visit_def)

lemma due_cong:
  "settings (dbase (sv_world s')) = settings (dbase (sv_world s)) \<Longrightarrow>
   map_of (sv_tasks s') i = map_of (sv_tasks s) i \<Longrightarrow> due now i s' = due now i s"
  by (simp add: due_def task_enabled_def is_setting_enabled_def split: option.split)

text \<open>The part of a task's entry the properties speak about.\<close>

definition times :: "sched_task \<Rightarrow> bool \<times> int option \<times> int \<times> int" where
  "times t = (st_running t, st_last_run t, st_next_run t, st_interval t)"

definition served :: "int \<Rightarrow> sched_task \<Rightarrow> bool \<times> int option \<times> int \<times> int" where
  "served now t = (False, Some now, now + st_interval t, st_interval t)"

lemma visit_times:
  "map_option times (map_of (sv_tasks (visit e su dir now i s)) j) =
     (if j = i \<and> due now i s then map_option (served now) (map_of (sv_tasks s) j)
      else map_option times (map_of (sv_tasks s) j))"
proof (cases "due now i s")
  case True
  obtain res where "map_of (sv_tasks (end_visit e su dir now i (begin_visit i s))) j =
     (if j = i then map_option (\<lambda>t. t\<lparr>st_last_result := res, st_running := False, st_last_run := Some now,
                                      st_next_run := now + st_interval t\<rparr>) (map_of (sv_tasks (begin_visit i s)) j)
      else map_of (sv_tasks (begin_visit i s)) j)"
    using map_of_end_visit by blast
  with True show ?thesis
    by (cases "map_of (sv_tasks s) j")
      (auto simp: visit_def begin_visit_def map_of_set_task_state times_def served_def)
qed (simp add: visit_def)

lemma visits_times:
  assumes "distinct is"
  shows "map_option times (map_of (sv_tasks (fold (visit e su dir now) is s)) j) =
     (if j \<in> set is \<and> due now j s then map_option (served now) (map_of (sv_tasks s) j)
      else map_option times (map_of (sv_tasks s) j))"
  using assms
proof (induction "is" rule: rev_induct)
  case (snoc i "is")
  let ?s = "fold (visit e su dir now) is s"
  have set: "settings (dbase (sv_world ?s)) = settings (dbase (sv_world s))"
    by (induction "is" arbitrary: s) simp_all
  show ?case
  proof (cases "j = i")
    case True
    then have "map_option times (map_of (sv_tasks ?s) i) = map_option times (map_of (sv_tasks s) i)"
      using snoc by simp
    then have "due now i ?s = due now i s"
        and "map_option (served now) (map_of (sv_tasks ?s) i) = map_option (served now) (map_of (sv_tasks s) i)"
      using set by (auto simp: due_def times_def served_def task_enabled_def is_setting_enabled_def map_option_case
          split: option.splits)
    with True snoc show ?thesis by (simp add: visit_times)
  next
    case False
    with snoc show ?thesis by (auto simp: visit_times)
  qed
qed simp

section \<open>Agents\<close>

lemma mark_offline_agents:
  "tbl_get (agents (dbase (fold (mark_offline timeout) xs w))) j =
     map_option (\<lambda>a. if j \<in> fst ` set xs then a\<lparr>agent_status := ''offline'', agent_updated_at := now_s w\<rparr> else a)
       (tbl_get (agents (dbase w)) j) \<and>
   now_s (fold (mark_offline timeout) xs w) = now_s w \<and>
   length (rows (notifications (dbase (fold (mark_offline timeout) xs w)))) =
     length (rows (notifications (dbase w))) + length xs"
proof (induction xs arbitrary: w)
  case (Cons x xs)
  obtain i a where x: "x = (i, a)" by (cases x)
  have one: "now_s (mark_offline timeout x w) = now_s w"
    "agents (dbase (mark_offline timeout x w)) =
       tbl_update i (\<lambda>a. a\<lparr>agent_status := ''offline'', agent_updated_at := now_s w\<rparr>) (agents (dbase w))"
    "length (rows (notifications (dbase (mark_offline timeout x w)))) = Suc (length (rows (notifications (dbase w))))"
    by (simp_all add: x mark_offline_def Let_def now_s_def tbl_simps)
  show ?case
    using Cons.IH [of "mark_offline timeout x w"] unfolding one fold_simps comp_def
    by (cases "tbl_get (agents (dbase w)) j") (auto simp: x tbl_simps)
qed (simp add: option.map_ident)

section \<open>Properties\<close>

definition sample_agent :: "string \<Rightarrow> string \<Rightarrow> int option \<Rightarrow> agent" where
  "sample_agent name status seen = \<lparr>agent_name = name, agent_role = ''r'', agent_session_key = None, agent_soul = None,
     agent_status = status, agent_last_seen = seen, agent_last_activity = None, agent_created_at = 1,
     agent_updated_at = 1, agent_config = None, agent_memory = []\<rparr>"

definition sample_crew :: world where
  "sample_crew = (world_at 2000000)\<lparr>dbase := db_empty\<lparr>agents :=
     tbl_insert (sample_agent ''bo'' ''idle'' (Some 1990)) (tbl_insert (sample_agent ''ada'' ''busy'' (Some 5)) tbl_empty)\<rparr>\<rparr>"

definition sample_scheduler :: server where
  "sample_scheduler = init_scheduler \<lparr>sv_world = sample_crew, sv_tasks = [], sv_timer = False, sv_backups = [],
     sv_tokens = None, sv_ticks = []\<rparr>"

definition sample_surroundings :: surroundings where
  "sample_surroundings = \<lparr>su_hooks = \<lparr>out_hmac = (\<lambda>k m. k), out_fetch = (\<lambda>u h b t. (Responded 200 None, 5)),
     out_random = (\<lambda>t. 0), out_scan = (\<lambda>xs. xs)\<rparr>, su_backup = (\<lambda>t. Inr 4096), su_claude = (\<lambda>t. Inr (True, ''ok''))\<rparr>"

text \<open>
  Claim C33. However many ticks of the timer overlap, and in whatever order they move on and
  come back, no task is being run by two of them at a time.
\<close>

theorem task_runs_exclusive:
  assumes "sv_ticks s = []" "list_all (\<lambda>(i, t). \<not> st_running t) (sv_tasks s)"
  shows "length (filter (\<lambda>p. tp_current p = Some i) (sv_ticks (fold (sched_step e su dir) xs s))) \<le> 1"
proof -
  have "ticks_ok s"
    using assms by (auto simp: ticks_ok_def waiting_for_def list_all_iff split: option.splits dest!: map_of_SomeD)
  then have "ticks_ok (fold (sched_step e su dir) xs s)" by (rule scheduler.run_inv)
  then show ?thesis
    by (auto simp: ticks_ok_def waiting_for_def dest!: spec [of _ i] split: option.splits if_splits)
qed

theorem task_runs_exclusive_witness:
  "length (filter (\<lambda>p. tp_current p = Some Webhook_Retry)
     (sv_ticks (fold (sched_step sample_env sample_surroundings ''/b'')
        [(2060000, Tick_Starts), (2060000, Tick_Moves 0), (2120000, Tick_Starts), (2120000, Tick_Moves 1)] sample_scheduler))) \<le> 1"
proof -
  have "sv_ticks sample_scheduler = []" "list_all (\<lambda>(i, t). \<not> st_running t) (sv_tasks sample_scheduler)"
    by (simp_all add: sample_scheduler_def init_scheduler_def new_sched_task_def Let_def)
  from task_runs_exclusive [OF this] show ?thesis .
qed



text \<open>
  The heartbeat check takes exactly the silent agents offline: those that are not
  offline and have not been seen since the configured number of minutes; every other agent is
  left alone, each agent taken offline causes one notification, and it says how many there were.
\<close>

theorem heartbeat_marks_silent:
  assumes "tbl_ok (agents (dbase w))"
    and "silent = stale_agent (now_s w - get_setting_number ''general.agent_timeout_minutes'' 10 w * 60)"
  shows "tbl_get (agents (dbase (fst (run_heartbeat_check w)))) i =
      map_option (\<lambda>a. if silent a then a\<lparr>agent_status := ''offline'', agent_updated_at := now_s w\<rparr> else a)
        (tbl_get (agents (dbase w)) i) \<and>
    length (rows (notifications (dbase (fst (run_heartbeat_check w))))) =
      length (rows (notifications (dbase w))) + tbl_count silent (agents (dbase w))"
proof -
  let ?found = "tbl_select silent (agents (dbase w))"
  have mem: "i \<in> fst ` set ?found \<longleftrightarrow> silent a" if "tbl_get (agents (dbase w)) i = Some a" for a
    using that assms(1) by (auto simp: tbl_select_def image_iff tbl_get_iff)
      (metis option.inject tbl_get_iff)
  show ?thesis
  proof (cases "?found = []")
    case True
    then have "fst (run_heartbeat_check w) = w"
      by (simp add: run_heartbeat_check_def Let_def flip: assms(2))
    with True mem show ?thesis
      by (cases "tbl_get (agents (dbase w)) i") (auto simp: tbl_count_def)
  next
    case False
    then have "agents (dbase (fst (run_heartbeat_check w))) =
        agents (dbase (fold (mark_offline (get_setting_number ''general.agent_timeout_minutes'' 10 w)) ?found w))"
      "notifications (dbase (fst (run_heartbeat_check w))) =
        notifications (dbase (fold (mark_offline (get_setting_number ''general.agent_timeout_minutes'' 10 w)) ?found w))"
      by (simp_all add: run_heartbeat_check_def Let_def flip: assms(2))
    with mem show ?thesis
      by (cases "tbl_get (agents (dbase w)) i") (simp_all add: mark_offline_agents tbl_count_def)
  qed
qed

theorem heartbeat_marks_silent_witness:
  "map_option agent_status (tbl_get (agents (dbase (fst (run_heartbeat_check sample_crew)))) 1) = Some ''offline'' \<and>
   map_option agent_status (tbl_get (agents (dbase (fst (run_heartbeat_check sample_crew)))) 2) = Some ''idle''"
proof -
  have "tbl_ok (agents (dbase sample_crew))" by code_simp
  note run = heartbeat_marks_silent [OF this refl]
  have "map_option (\<lambda>a. (agent_status a, stale_agent (now_s sample_crew - get_setting_number ''general.agent_timeout_minutes'' 10 sample_crew * 60) a))
      (tbl_get (agents (dbase sample_crew)) 1) = Some (''busy'', True)"
    "map_option (\<lambda>a. (agent_status a, stale_agent (now_s sample_crew - get_setting_number ''general.agent_timeout_minutes'' 10 sample_crew * 60) a))
      (tbl_get (agents (dbase sample_crew)) 2) = Some (''idle'', False)"
    by code_simp+
  with run [of 1] run [of 2] show ?thesis by auto
qed

text \<open>The daily tasks: the next full hour is ahead and at most a day away.\<close>

lemma next_daily_bounds:
  assumes "0 \<le> hour" "hour < 24"
  shows "0 < get_next_daily_ms hour now \<and> get_next_daily_ms hour now \<le> daily_ms \<and>
    (now + get_next_daily_ms hour now) mod daily_ms = hour * 3600000"
proof -
  have "now mod daily_ms = now - now div daily_ms * daily_ms" by (simp add: minus_div_mult_eq_mod)
  then have "0 \<le> now - now div daily_ms * daily_ms" "now - now div daily_ms * daily_ms < daily_ms"
    by (metis daily_ms_def pos_mod_sign zero_less_numeral mult_pos_pos, simp add: daily_ms_def flip: minus_div_mult_eq_mod)
  then show ?thesis
    using assms by (auto simp: get_next_daily_ms_def Let_def daily_ms_def)
qed

end
