(* ===== verification/Alerts.thy ===== *)
theory Alerts
  imports Tasks Js_Numbers Json_Text
begin

text \<open>
  Alert rules: \<open>app/api/alerts/route.ts\<close>. Rules are evaluated on request, one after the other,
  against the tables of agents, tasks and activities; a rule that has triggered rests for its
  cooldown. The handlers have no \<open>try\<close> around most of their work, so a body that is not an
  object makes them throw (\<open>Crash\<close>).
\<close>

section \<open>Values of columns\<close>

datatype sql_value = SNull | SInt int | SText string

definition opt_int :: "int option \<Rightarrow> sql_value" where
  "opt_int v = (case v of None \<Rightarrow> SNull | Some i \<Rightarrow> SInt i)"

definition opt_text :: "string option \<Rightarrow> sql_value" where
  "opt_text v = (case v of None \<Rightarrow> SNull | Some s \<Rightarrow> SText s)"

text \<open>The columns of \<open>SAFE_COLUMNS\<close>; any other name falls back to the id (\<open>safeColumn\<close>).\<close>

definition agent_column :: "string \<Rightarrow> int \<times> agent \<Rightarrow> sql_value" where
  "agent_column c x = (case x of (i, a) \<Rightarrow>
     if c = ''status'' then SText (agent_status a)
     else if c = ''role'' then SText (agent_role a)
     else if c = ''name'' then SText (agent_name a)
     else if c = ''last_seen'' then opt_int (agent_last_seen a)
     else if c = ''last_activity'' then opt_text (agent_last_activity a)
     else SInt i)"

definition task_column :: "string \<Rightarrow> int \<times> task \<Rightarrow> sql_value" where
  "task_column c x = (case x of (i, t) \<Rightarrow>
     if c = ''status'' then SText (status_text (task_status t))
     else if c = ''priority'' then SText (priority_text (task_priority t))
     else if c = ''assigned_to'' then opt_text (task_assigned_to t)
     else if c = ''title'' then SText (task_title t)
     else SInt i)"

definition activity_column :: "string \<Rightarrow> int \<times> activity \<Rightarrow> sql_value" where
  "activity_column c x = (case x of (i, a) \<Rightarrow>
     if c = ''type'' then SText (act_type a)
     else if c = ''actor'' then SText (act_actor a)
     else if c = ''entity_type'' then SText (act_entity_type a)
     else SInt i)"

text \<open>
  \<open>column = ?\<close> with a text: an integer column takes the text as a number if it spells one
  (not in hexadecimal). \<open>column < ?\<close> with a number: a text column compares with the text of the number,
  which is bound as a float.
\<close>

definition sql_eq_text :: "sql_value \<Rightarrow> string \<Rightarrow> bool" where
  "sql_eq_text v t = (case v of SNull \<Rightarrow> False | SText s \<Rightarrow> s = t | SInt i \<Rightarrow> sql_number t = Some (of_int i))"

fun text_less :: "string \<Rightarrow> string \<Rightarrow> bool" where
  "text_less [] t = (t \<noteq> [])"
| "text_less (c # cs) [] = False"
| "text_less (c # cs) (d # ds) = (of_char c < (of_char d :: nat) \<or> c = d \<and> text_less cs ds)"

definition sql_less_int :: "sql_value \<Rightarrow> int \<Rightarrow> bool" where
  "sql_less_int v n = (case v of SNull \<Rightarrow> False | SInt i \<Rightarrow> i < n | SText s \<Rightarrow> text_less s (show_int n @ ''.0''))"

section \<open>Evaluation of a rule\<close>

definition value_text :: "sql_value \<Rightarrow> string" where
  "value_text v = (case v of SNull \<Rightarrow> ''null'' | SInt i \<Rightarrow> show_int i | SText s \<Rightarrow> s)"

definition value_number :: "sql_value \<Rightarrow> rat option" where
  "value_number v = (case v of SNull \<Rightarrow> Some 0 | SInt i \<Rightarrow> Some (of_int i) | SText s \<Rightarrow> string_number s)"

text \<open>A comparison with \<open>NaN\<close> is false.\<close>

definition number_less :: "rat option \<Rightarrow> rat option \<Rightarrow> bool" where
  "number_less a b = (case (a, b) of (Some x, Some y) \<Rightarrow> x < y | _ \<Rightarrow> False)"

definition compare_value :: "sql_value \<Rightarrow> string \<Rightarrow> string \<Rightarrow> bool" where
  "compare_value actual operator expected =
     (if actual = SNull then False
      else if operator = ''equals'' then value_text actual = expected
      else if operator = ''not_equals'' then value_text actual \<noteq> expected
      else if operator = ''greater_than'' then number_less (string_number expected) (value_number actual)
      else if operator = ''less_than'' then number_less (value_number actual) (string_number expected)
      else if operator = ''contains'' then js_includes (js_lower expected) (js_lower (value_text actual))
      else False)"

definition count_above :: "nat \<Rightarrow> string \<Rightarrow> bool" where
  "count_above n t = (case parse_int t of None \<Rightarrow> False | Some m \<Rightarrow> m < int n)"

definition count_below :: "nat \<Rightarrow> string \<Rightarrow> bool" where
  "count_below n t = (case parse_int t of None \<Rightarrow> False | Some m \<Rightarrow> int n < m)"

definition evaluate_agent_rule :: "db \<Rightarrow> alert_rule \<Rightarrow> int \<Rightarrow> bool" where
  "evaluate_agent_rule d r now =
     (let col = agent_column (ar_field r);
          live = filter (\<lambda>(i, a). agent_status a \<noteq> ''offline'') (rows (agents d));
          n = length (filter (\<lambda>x. sql_eq_text (col x) (ar_value r)) (rows (agents d)))
      in if ar_operator r = ''count_above'' then count_above n (ar_value r)
         else if ar_operator r = ''count_below'' then count_below n (ar_value r)
         else if ar_operator r = ''age_minutes_above''
         then (case parse_int (ar_value r) of None \<Rightarrow> False
               | Some m \<Rightarrow> list_ex (\<lambda>x. sql_less_int (col x) (now - m * 60)) live)
         else list_ex (\<lambda>x. compare_value (col x) (ar_operator r) (ar_value r)) live)"

definition evaluate_task_rule :: "db \<Rightarrow> alert_rule \<Rightarrow> bool" where
  "evaluate_task_rule d r =
     (let col = task_column (ar_field r)
      in if ar_operator r = ''count_above''
         then count_above (length (filter (\<lambda>x. sql_eq_text (col x) (ar_value r)) (rows (tasks d)))) (ar_value r)
         else if ar_operator r = ''count_below'' then count_below (length (rows (tasks d))) (ar_value r)
         else list_ex (\<lambda>x. compare_value (col x) (ar_operator r) (ar_value r)) (rows (tasks d)))"

definition evaluate_session_rule :: "db \<Rightarrow> alert_rule \<Rightarrow> bool" where
  "evaluate_session_rule d r =
     (if ar_operator r = ''count_above''
      then count_above (tbl_count (\<lambda>a. agent_status a = ''busy'') (agents d)) (ar_value r)
      else False)"

definition evaluate_activity_rule :: "db \<Rightarrow> alert_rule \<Rightarrow> int \<Rightarrow> bool" where
  "evaluate_activity_rule d r now =
     (if ar_operator r = ''count_above''
      then count_above (length (filter (\<lambda>(i, a). now - 3600 < act_created_at a \<and>
             sql_eq_text (activity_column (ar_field r) (i, a)) (ar_value r)) (rows (activities d)))) (ar_value r)
      else False)"

definition evaluate_rule :: "db \<Rightarrow> alert_rule \<Rightarrow> int \<Rightarrow> bool" where
  "evaluate_rule d r now =
     (if ar_entity_type r = ''agent'' then evaluate_agent_rule d r now
      else if ar_entity_type r = ''task'' then evaluate_task_rule d r
      else if ar_entity_type r = ''session'' then evaluate_session_rule d r
      else if ar_entity_type r = ''activity'' then evaluate_activity_rule d r now
      else False)"

section \<open>Evaluation of all rules\<close>

record alert_result =
  al_rule_id :: int
  al_rule_name :: string
  al_triggered :: bool
  al_reason :: string

definition in_cooldown :: "int \<Rightarrow> alert_rule \<Rightarrow> bool" where
  "in_cooldown now r =
     (case ar_last_triggered_at r of None \<Rightarrow> False
      | Some t \<Rightarrow> t \<noteq> 0 \<and> of_int (now - t) < ar_cooldown r * 60)"

text \<open>
  The recipient of the notification. A configuration that is \<open>null\<close>, or a recipient the
  database cannot bind, makes the insert throw: no notification then. A recipient that is a
  number is left out.
\<close>

definition alert_recipient :: "json \<Rightarrow> string option" where
  "alert_recipient config =
     (if config = JNull then None
      else case jget config ''recipient'' of
        None \<Rightarrow> Some ''system''
      | Some j \<Rightarrow> if \<not> jtruthy j then Some ''system'' else (case j of JStr s \<Rightarrow> Some s | _ \<Rightarrow> None))"

definition alert_notification :: "int \<Rightarrow> alert_rule \<Rightarrow> string \<Rightarrow> world \<Rightarrow> notification" where
  "alert_notification i r recipient w =
     notification_row recipient ''alert'' (''Alert: '' @ ar_name r)
       (opt_or (ar_description r) (''Rule \"'' @ ar_name r @ ''\" triggered'')) (Some ''alert_rule'') (Some i) w"

definition trigger_rule :: "int \<Rightarrow> alert_rule \<Rightarrow> world \<Rightarrow> world" where
  "trigger_rule i r w =
     (let d = dbase w in w\<lparr>dbase := d\<lparr>
        alert_rules := tbl_update i (\<lambda>x. x\<lparr>ar_last_triggered_at := Some (now_s w),
                         ar_trigger_count := ar_trigger_count x + 1\<rparr>) (alert_rules d),
        notifications := (case alert_recipient (ar_action_config r) of None \<Rightarrow> notifications d
                          | Some to \<Rightarrow> tbl_insert (alert_notification i r to w) (notifications d))\<rparr>\<rparr>)"

fun evaluate_loop :: "(int \<times> alert_rule) list \<Rightarrow> world \<Rightarrow> world \<times> alert_result list" where
  "evaluate_loop [] w = (w, [])"
| "evaluate_loop ((i, r) # rs) w =
     (let now = now_s w;
          result = (\<lambda>b m. \<lparr>al_rule_id = i, al_rule_name = ar_name r, al_triggered = b, al_reason = m\<rparr>)
      in if in_cooldown now r
         then (let (w', out) = evaluate_loop rs w in (w', result False ''In cooldown'' # out))
         else if evaluate_rule (dbase w) r now
         then (let (w', out) = evaluate_loop rs (trigger_rule i r w) in (w', result True ''Condition met'' # out))
         else (let (w', out) = evaluate_loop rs w in (w', result False ''Condition not met'' # out)))"

datatype alert_body =
    Rules "(int \<times> alert_rule) list"
  | OneRule int alert_rule
  | Evaluated nat nat "alert_result list"
  | RuleDeleted bool

definition evaluate_rules :: "world \<Rightarrow> world \<times> alert_body response" where
  "evaluate_rules w =
     (let rules = tbl_select ar_enabled (alert_rules (dbase w));
          (w', results) = evaluate_loop rules w
      in (w', Reply 200 (Evaluated (length rules) (length (filter al_triggered results)) results)))"

section \<open>Routes\<close>

definition get_alerts :: "(int list \<Rightarrow> int list) \<Rightarrow> env \<Rightarrow> request \<Rightarrow> world \<Rightarrow> world \<times> alert_body response" where
  "get_alerts scan e r = with_role Viewer e r (\<lambda>user w.
     (w, Reply 200 (Rules (order_desc scan (\<lambda>(i, x). ar_created_at x) (rows (alert_rules (dbase w)))))))"

text \<open>The validated body of a creation; \<open>ca_action_config\<close> is an object.\<close>

record create_alert_body =
  ca_name :: string
  ca_description :: "string option"
  ca_entity_type :: string
  ca_field :: string
  ca_operator :: string
  ca_value :: string
  ca_action_type :: "string option"
  ca_action_config :: "(string \<times> json) list option"
  ca_cooldown :: "rat option"

text \<open>What \<open>POST\<close> finds in the body: no JSON, \<open>null\<close>, the evaluate action, or fields for a rule.\<close>

datatype alert_post =
    Alert_Bad_Json
  | Alert_Null
  | Alert_Evaluate
  | Alert_Create "create_alert_body validated"

definition new_rule :: "create_alert_body \<Rightarrow> string \<Rightarrow> int \<Rightarrow> alert_rule" where
  "new_rule b creator now =
     \<lparr>ar_name = ca_name b, ar_description = str_or_null (ca_description b), ar_enabled = True,
      ar_entity_type = ca_entity_type b, ar_field = ca_field b, ar_operator = ca_operator b,
      ar_value = ca_value b, ar_action_type = opt_or (ca_action_type b) ''notification'',
      ar_action_config = JObj (case ca_action_config b of None \<Rightarrow> [] | Some kvs \<Rightarrow> kvs),
      ar_cooldown = (case ca_cooldown b of None \<Rightarrow> 60 | Some c \<Rightarrow> if c = 0 then 60 else c),
      ar_last_triggered_at = None, ar_trigger_count = 0, ar_created_by = creator,
      ar_created_at = now, ar_updated_at = now\<rparr>"

text \<open>
  The audit row of this route is inserted directly, so nothing is broadcast; its detail is a
  plain text, which the model holds as a JSON string.
\<close>

definition audit_text :: "string \<Rightarrow> string \<Rightarrow> string \<Rightarrow> world \<Rightarrow> world" where
  "audit_text action actor text w = w\<lparr>dbase := (dbase w)\<lparr>audit_log :=
     tbl_insert (audit_row action actor None None None (Some (JStr text)) None None w) (audit_log (dbase w))\<rparr>\<rparr>"

definition set_rules :: "alert_rule table \<Rightarrow> world \<Rightarrow> world" where
  "set_rules t w = w\<lparr>dbase := (dbase w)\<lparr>alert_rules := t\<rparr>\<rparr>"

definition create_rule :: "auth_user \<Rightarrow> create_alert_body \<Rightarrow> world \<Rightarrow> world \<times> alert_body response" where
  "create_rule user b w =
     (let creator = str_or (au_username user) ''system'';
          row = new_rule b creator (now_s w);
          i = tbl_last_id (alert_rules (dbase w));
          w1 = set_rules (tbl_insert row (alert_rules (dbase w))) w
      in (audit_text ''alert_rule_created'' creator (''Created alert rule: '' @ ca_name b) w1, Reply 201 (OneRule i row)))"

definition post_alerts :: "alert_post \<Rightarrow> env \<Rightarrow> request \<Rightarrow> world \<Rightarrow> world \<times> alert_body response" where
  "post_alerts body e r = with_role Operator e r (\<lambda>user. with_limit MutationLimiter e r (\<lambda>w.
     (case body of
        Alert_Bad_Json \<Rightarrow> (w, Fail 400 ''Invalid request body'')
      | Alert_Null \<Rightarrow> (w, Crash)
      | Alert_Evaluate \<Rightarrow> evaluate_rules w
      | Alert_Create v \<Rightarrow> with_body v (create_rule user) w)))"

text \<open>The fields of an update, taken to be well-typed; \<open>ua_enabled\<close> is the number stored.\<close>

record update_alert_body =
  ua_id :: "rat option"
  ua_name :: "string option"
  ua_description :: "string option option"
  ua_enabled :: "int option"
  ua_entity_type :: "string option"
  ua_field :: "string option"
  ua_operator :: "string option"
  ua_value :: "string option"
  ua_action_type :: "string option"
  ua_action_config :: "json option"
  ua_cooldown :: "rat option"

definition no_rule_fields :: "update_alert_body \<Rightarrow> bool" where
  "no_rule_fields b \<longleftrightarrow> ua_name b = None \<and> ua_description b = None \<and> ua_enabled b = None \<and>
     ua_entity_type b = None \<and> ua_field b = None \<and> ua_operator b = None \<and> ua_value b = None \<and>
     ua_action_type b = None \<and> ua_action_config b = None \<and> ua_cooldown b = None"

definition given :: "'x option \<Rightarrow> 'x \<Rightarrow> 'x" where
  "given v x = (case v of None \<Rightarrow> x | Some y \<Rightarrow> y)"

definition apply_rule_update :: "update_alert_body \<Rightarrow> int \<Rightarrow> alert_rule \<Rightarrow> alert_rule" where
  "apply_rule_update b now r =
     r\<lparr>ar_name := given (ua_name b) (ar_name r), ar_description := given (ua_description b) (ar_description r),
       ar_enabled := given (map_option (\<lambda>n. n = 1) (ua_enabled b)) (ar_enabled r),
       ar_entity_type := given (ua_entity_type b) (ar_entity_type r), ar_field := given (ua_field b) (ar_field r),
       ar_operator := given (ua_operator b) (ar_operator r), ar_value := given (ua_value b) (ar_value r),
       ar_action_type := given (ua_action_type b) (ar_action_type r),
       ar_action_config := given (ua_action_config b) (ar_action_config r),
       ar_cooldown := given (ua_cooldown b) (ar_cooldown r), ar_updated_at := now\<rparr>"

definition update_rule_with :: "update_alert_body option \<Rightarrow> world \<Rightarrow> world \<times> alert_body response" where
  "update_rule_with body w =
     (case body of None \<Rightarrow> (w, Crash)
      | Some b \<Rightarrow>
     (case body_id (ua_id b) of None \<Rightarrow> (w, Fail 400 ''id is required'')
      | Some q \<Rightarrow>
     (case (row_id q, get_by_number (alert_rules (dbase w)) q) of
        (Some i, Some r) \<Rightarrow>
          if no_rule_fields b then (w, Fail 400 ''No valid fields to update'')
          else (set_rules (tbl_update i (apply_rule_update b (now_s w)) (alert_rules (dbase w))) w,
                Reply 200 (OneRule i (apply_rule_update b (now_s w) r)))
      | _ \<Rightarrow> (w, Fail 404 ''Rule not found''))))"

definition put_alerts :: "update_alert_body option \<Rightarrow> env \<Rightarrow> request \<Rightarrow> world \<Rightarrow> world \<times> alert_body response" where
  "put_alerts body e r =
     with_role Operator e r (\<lambda>user. with_limit MutationLimiter e r (update_rule_with body))"

definition delete_rule_with :: "auth_user \<Rightarrow> rat option option \<Rightarrow> world \<Rightarrow> world \<times> alert_body response" where
  "delete_rule_with user body w =
     (case body of None \<Rightarrow> (w, Crash)
      | Some q0 \<Rightarrow>
     (case body_id q0 of None \<Rightarrow> (w, Fail 400 ''id is required'')
      | Some q \<Rightarrow>
          (let existed = (get_by_number (alert_rules (dbase w)) q \<noteq> None);
               w1 = (case row_id q of None \<Rightarrow> w | Some i \<Rightarrow> set_rules (tbl_delete i (alert_rules (dbase w))) w);
               w2 = audit_text ''alert_rule_deleted'' (str_or (au_username user) ''system'')
                      (''Deleted alert rule #'' @ number_text q) w1
           in (w2, Reply 200 (RuleDeleted existed)))))"

definition delete_alerts :: "rat option option \<Rightarrow> env \<Rightarrow> request \<Rightarrow> world \<Rightarrow> world \<times> alert_body response" where
  "delete_alerts body e r =
     with_role Admin e r (\<lambda>user. with_limit MutationLimiter e r (delete_rule_with user body))"

end
