(* ===== verification/Alert_Rules.thy ===== *)
theory Alert_Rules
  imports Alerts
begin

text \<open>
  What the evaluation of alert rules guarantees: which rules trigger and what that changes,
  and that a rule triggers at most once within its cooldown.
\<close>

section \<open>One evaluation\<close>

definition fires :: "world \<Rightarrow> alert_rule \<Rightarrow> bool" where
  "fires w r \<longleftrightarrow> \<not> in_cooldown (now_s w) r \<and> evaluate_rule (dbase w) r (now_s w)"

definition triggered_rule :: "int \<Rightarrow> alert_rule \<Rightarrow> alert_rule" where
  "triggered_rule now r = r\<lparr>ar_last_triggered_at := Some now, ar_trigger_count := ar_trigger_count r + 1\<rparr>"

lemma trigger_rule_frame [simp]:
  "agents (dbase (trigger_rule i r w)) = agents (dbase w)"
  "tasks (dbase (trigger_rule i r w)) = tasks (dbase w)"
  "activities (dbase (trigger_rule i r w)) = activities (dbase w)"
  "now_s (trigger_rule i r w) = now_s w"
  by (simp_all add: trigger_rule_def Let_def now_s_def)

lemma trigger_rule_effect:
  "alert_rules (dbase (trigger_rule i r w)) = tbl_update i (triggered_rule (now_s w)) (alert_rules (dbase w))"
  "length (rows (notifications (dbase (trigger_rule i r w)))) =
     length (rows (notifications (dbase w))) + (if alert_recipient (ar_action_config r) = None then 0 else 1)"
  by (auto simp: trigger_rule_def Let_def triggered_rule_def [abs_def] tbl_simps split: option.splits)

text \<open>A trigger does not change what the other rules look at.\<close>

lemma evaluate_rule_trigger [simp]:
  "evaluate_rule (dbase (trigger_rule i r w)) x now = evaluate_rule (dbase w) x now"
  by (simp add: evaluate_rule_def evaluate_agent_rule_def evaluate_task_rule_def evaluate_session_rule_def
      evaluate_activity_rule_def)

lemma fires_trigger [simp]: "fires (trigger_rule i r w) x = fires w x"
  by (simp add: fires_def)

lemma evaluate_loop_rules:
  assumes "distinct (map fst rs)"
  shows "tbl_get (alert_rules (dbase (fst (evaluate_loop rs w)))) j =
     map_option (\<lambda>x. if \<exists>r. map_of rs j = Some r \<and> fires w r then triggered_rule (now_s w) x else x)
       (tbl_get (alert_rules (dbase w)) j)"
  using assms
proof (induction rs arbitrary: w)
  case (Cons x rs)
  obtain i r where x: "x = (i, r)" by (cases x)
  have fresh: "map_of rs i = None" using Cons.prems by (simp add: x map_of_eq_None_iff)
  show ?case
  proof (cases "fires w r")
    case True
    then have "fst (evaluate_loop (x # rs) w) = fst (evaluate_loop rs (trigger_rule i r w))"
      by (simp add: x fires_def Let_def case_prod_unfold)
    with True Cons fresh show ?thesis
      by (cases "tbl_get (alert_rules (dbase w)) j") (auto simp: x trigger_rule_effect tbl_simps)
  next
    case False
    then have "fst (evaluate_loop (x # rs) w) = fst (evaluate_loop rs w)"
      by (auto simp: x fires_def Let_def case_prod_unfold)
    with False Cons fresh show ?thesis
      by (cases "tbl_get (alert_rules (dbase w)) j") (auto simp: x)
  qed
qed (simp add: option.map_ident)

lemma evaluate_loop_notes:
  "length (rows (notifications (dbase (fst (evaluate_loop rs w))))) = length (rows (notifications (dbase w))) +
     length (filter (\<lambda>(i, r). fires w r \<and> alert_recipient (ar_action_config r) \<noteq> None) rs)"
proof (induction rs arbitrary: w)
  case (Cons x rs)
  obtain i r where x: "x = (i, r)" by (cases x)
  show ?case
  proof (cases "fires w r")
    case True
    then have "fst (evaluate_loop (x # rs) w) = fst (evaluate_loop rs (trigger_rule i r w))"
      by (simp add: x fires_def Let_def case_prod_unfold)
    with True Cons show ?thesis by (simp add: x trigger_rule_effect)
  next
    case False
    then have "fst (evaluate_loop (x # rs) w) = fst (evaluate_loop rs w)"
      by (auto simp: x fires_def Let_def case_prod_unfold)
    with False Cons show ?thesis by (simp add: x)
  qed
qed simp

lemma map_of_select:
  assumes "tbl_ok t"
  shows "map_of (tbl_select P t) i = Some r \<longleftrightarrow> tbl_get t i = Some r \<and> P r"
proof -
  have "distinct (map fst (tbl_select P t))" by (rule distinct_select [OF assms])
  then show ?thesis using assms by (auto simp: tbl_select_def tbl_get_iff)
qed

lemma evaluate_rules_row:
  assumes "tbl_ok (alert_rules (dbase w))"
  shows "tbl_get (alert_rules (dbase (fst (evaluate_rules w)))) i =
     map_option (\<lambda>r. if ar_enabled r \<and> fires w r then triggered_rule (now_s w) r else r)
       (tbl_get (alert_rules (dbase w)) i)"
  using evaluate_loop_rules [OF distinct_select [OF assms], of ar_enabled w i] map_of_select [OF assms]
  by (cases "tbl_get (alert_rules (dbase w)) i") (auto simp: evaluate_rules_def Let_def case_prod_unfold)

lemma evaluate_loop_ok: "tbl_ok (alert_rules (dbase w)) \<Longrightarrow> tbl_ok (alert_rules (dbase (fst (evaluate_loop rs w))))"
proof (induction rs arbitrary: w)
  case (Cons x rs)
  obtain i r where "x = (i, r)" by (cases x)
  with Cons show ?case by (simp add: Let_def case_prod_unfold trigger_rule_effect)
qed simp

section \<open>A series of evaluations\<close>

definition evaluate_at :: "int list \<Rightarrow> world \<Rightarrow> world" where
  "evaluate_at ts w = fold (\<lambda>t w. fst (evaluate_rules (w\<lparr>clock := t\<rparr>))) ts w"

lemma evaluate_at_ok: "tbl_ok (alert_rules (dbase w)) \<Longrightarrow> tbl_ok (alert_rules (dbase (evaluate_at ts w)))"
  by (induction ts arbitrary: w)
    (simp_all add: evaluate_at_def evaluate_rules_def Let_def case_prod_unfold evaluate_loop_ok)

section \<open>Properties\<close>

definition sample_rule :: alert_rule where
  "sample_rule = \<lparr>ar_name = ''busy'', ar_description = None, ar_enabled = True, ar_entity_type = ''task'',
     ar_field = ''title'', ar_operator = ''contains'', ar_value = ''X'', ar_action_type = ''notification'',
     ar_action_config = JObj [], ar_cooldown = 60, ar_last_triggered_at = None, ar_trigger_count = 0,
     ar_created_by = ''ada'', ar_created_at = 1, ar_updated_at = 1\<rparr>"

definition sample_todo :: task where
  "sample_todo = \<lparr>task_title = ''fix x'', task_description = None, task_status = Inbox, task_priority = Low,
     task_assigned_to = None, task_created_by = ''ada'', task_created_at = 1, task_updated_at = 1,
     task_due_date = None, task_estimated_hours = None, task_actual_hours = None, task_tags = None,
     task_metadata = None\<rparr>"

definition sample_alerts :: world where
  "sample_alerts = (world_at 5000)\<lparr>dbase := db_empty\<lparr>tasks := tbl_insert sample_todo tbl_empty,
     alert_rules := tbl_insert sample_rule tbl_empty\<rparr>\<rparr>"

lemma sample_alerts_ok: "tbl_ok (alert_rules (dbase sample_alerts))"
  by code_simp

text \<open>
  Claim C39. An evaluation triggers exactly the enabled rules that are not in their cooldown and
  whose condition holds in the tables as they were before it: these get the time and one more
  trigger, every other rule stays as it is, and as many notifications are added as triggered
  rules have a recipient.
\<close>

theorem evaluation_effect:
  assumes "tbl_ok (alert_rules (dbase w))"
    and "trig = (\<lambda>r. ar_enabled r \<and> \<not> in_cooldown (now_s w) r \<and> evaluate_rule (dbase w) r (now_s w))"
  shows "tbl_get (alert_rules (dbase (fst (evaluate_rules w)))) i =
      map_option (\<lambda>r. if trig r
          then r\<lparr>ar_last_triggered_at := Some (now_s w), ar_trigger_count := ar_trigger_count r + 1\<rparr> else r)
        (tbl_get (alert_rules (dbase w)) i) \<and>
    length (rows (notifications (dbase (fst (evaluate_rules w))))) =
      length (rows (notifications (dbase w))) +
      tbl_count (\<lambda>r. trig r \<and> alert_recipient (ar_action_config r) \<noteq> None) (alert_rules (dbase w))"
proof -
  have "filter (\<lambda>(i, r). fires w r \<and> alert_recipient (ar_action_config r) \<noteq> None) (tbl_select ar_enabled (alert_rules (dbase w))) =
      tbl_select (\<lambda>r. trig r \<and> alert_recipient (ar_action_config r) \<noteq> None) (alert_rules (dbase w))"
    by (auto simp: tbl_select_def fires_def assms(2) intro!: filter_cong)
  then show ?thesis
    using evaluate_rules_row [OF assms(1), of i]
    by (cases "tbl_get (alert_rules (dbase w)) i")
      (auto simp: fires_def triggered_rule_def assms(2) evaluate_rules_def Let_def case_prod_unfold
        evaluate_loop_notes tbl_count_def)
qed

theorem evaluation_effect_witness:
  "map_option ar_trigger_count (tbl_get (alert_rules (dbase (fst (evaluate_rules sample_alerts)))) 1) = Some 1"
proof -
  have "tbl_get (alert_rules (dbase sample_alerts)) 1 = Some sample_rule" by code_simp
  moreover have "ar_enabled sample_rule \<and> \<not> in_cooldown (now_s sample_alerts) sample_rule \<and>
      evaluate_rule (dbase sample_alerts) sample_rule (now_s sample_alerts)" by code_simp
  ultimately show ?thesis
    using evaluation_effect [OF sample_alerts_ok refl, of 1] by (simp add: sample_rule_def)
qed

text \<open>
  However often the rules are evaluated within the cooldown of a rule, and in whatever
  order the clock is read, the rule triggers at most once in that time.
\<close>

theorem once_per_cooldown:
  assumes "tbl_ok (alert_rules (dbase w))" "tbl_get (alert_rules (dbase w)) i = Some r" "0 < start"
    and "list_all (\<lambda>t. start \<le> t div 1000 \<and> of_int (t div 1000 - start) < ar_cooldown r * 60) ts"
  shows "case tbl_get (alert_rules (dbase (evaluate_at ts w))) i of None \<Rightarrow> False
     | Some r' \<Rightarrow> ar_trigger_count r' \<le> ar_trigger_count r + 1"
proof -
  have "\<exists>r'. tbl_get (alert_rules (dbase (evaluate_at ts w))) i = Some r' \<and> ar_cooldown r' = ar_cooldown r \<and>
      (ar_trigger_count r' = ar_trigger_count r \<or>
       ar_trigger_count r' = ar_trigger_count r + 1 \<and> (\<exists>s. ar_last_triggered_at r' = Some s \<and> start \<le> s))"
    using assms(4)
  proof (induction ts rule: rev_induct)
    case Nil
    then show ?case using assms(2) by (simp add: evaluate_at_def)
  next
    case (snoc t ts)
    let ?w = "(evaluate_at ts w)\<lparr>clock := t\<rparr>"
    from snoc obtain r' where r': "tbl_get (alert_rules (dbase ?w)) i = Some r'" "ar_cooldown r' = ar_cooldown r"
        "ar_trigger_count r' = ar_trigger_count r \<or>
         ar_trigger_count r' = ar_trigger_count r + 1 \<and> (\<exists>s. ar_last_triggered_at r' = Some s \<and> start \<le> s)"
      by auto
    have now: "start \<le> now_s ?w" "of_int (now_s ?w - start) < ar_cooldown r * 60"
      using snoc.prems by (simp_all add: now_s_def)
    have rest: "in_cooldown (now_s ?w) r'" if "ar_last_triggered_at r' = Some s" "start \<le> s" for s
    proof -
      have "rat_of_int (now_s ?w - s) \<le> of_int (now_s ?w - start)" using that(2) by simp
      then have "rat_of_int (now_s ?w - s) < ar_cooldown r * 60" using now(2) by (rule le_less_trans)
      then show ?thesis using that assms(3) r'(2) by (simp add: in_cooldown_def)
    qed
    have "tbl_ok (alert_rules (dbase ?w))" using evaluate_at_ok [OF assms(1)] by simp
    from evaluate_rules_row [OF this, of i] r' rest now(1) show ?case
      by (auto simp: evaluate_at_def triggered_rule_def fires_def)
  qed
  then show ?thesis by auto
qed

theorem once_per_cooldown_witness:
  "case tbl_get (alert_rules (dbase (evaluate_at [5000, 900000, 3600000] sample_alerts))) 1 of
     None \<Rightarrow> False | Some r' \<Rightarrow> ar_trigger_count r' \<le> 1"
proof -
  have "tbl_get (alert_rules (dbase sample_alerts)) 1 = Some sample_rule" by code_simp
  from once_per_cooldown [OF sample_alerts_ok this, of 5 "[5000, 900000, 3600000]"]
  show ?thesis by (auto simp: sample_rule_def split: option.splits)
qed

text \<open>
  The operator \<open>count_above\<close> on the status of tasks can never hold: the value is both the
  status that is counted and the number the count has to exceed.
\<close>

lemma status_count_never_triggers:
  assumes "ar_entity_type r = ''task''" "ar_field r = ''status''" "ar_operator r = ''count_above''"
    and "0 \<le> given (parse_int (ar_value r)) 0"
  shows "\<not> evaluate_rule d r now"
proof (cases "parse_int (ar_value r)")
  case (Some m)
  have "parse_int (status_text Inbox) = None" "parse_int (status_text Assigned) = None"
    "parse_int (status_text In_Progress) = None" "parse_int (status_text Review) = None"
    "parse_int (status_text Quality_Review) = None" "parse_int (status_text Done) = None"
    by code_simp+
  then have "parse_int (status_text s) = None" for s by (cases s) simp_all
  then have "status_text s \<noteq> ar_value r" for s using Some by (metis option.discI)
  then have "filter (\<lambda>x. sql_eq_text (task_column ''status'' x) (ar_value r)) (rows (tasks d)) = []"
    by (auto simp: filter_empty_conv task_column_def sql_eq_text_def)
  then show ?thesis
    using assms Some by (simp add: evaluate_rule_def evaluate_task_rule_def count_above_def given_def Let_def)
qed (use assms in \<open>simp add: evaluate_rule_def evaluate_task_rule_def count_above_def Let_def\<close>)

end
