(* ===== verification/Accounts.thy ===== *)
theory Accounts
  imports Tasks Js_Numbers Json_Text
begin

text \<open>
  The account routes under \<open>app/api/auth\<close>: login, logout, the own profile, the users, the
  requests for access, and the login through Google of \<open>lib/google-auth.ts\<close>. The key
  derivation, the random bytes and Google's answer to \<open>tokeninfo\<close> are arguments; bodies are
  taken to be well-typed, a body that is not a JSON object is \<open>None\<close>.
\<close>

section \<open>What the routes read and answer\<close>

definition request_ip :: "request \<Rightarrow> string" where
  "request_ip r = str_or (header_or r ''x-forwarded-for'' []) (header_or r ''x-real-ip'' ''unknown'')"

definition user_agent :: "request \<Rightarrow> string option" where
  "user_agent r = str_or_null (req_headers r ''user-agent'')"

record user_view =
  uv_id :: int
  uv_username :: string
  uv_display_name :: string
  uv_role :: string
  uv_provider :: string
  uv_email :: "string option"
  uv_avatar_url :: "string option"

definition view_of :: "auth_user \<Rightarrow> user_view" where
  "view_of u = \<lparr>uv_id = au_id u, uv_username = au_username u, uv_display_name = au_display_name u,
     uv_role = au_role u, uv_provider = opt_or (au_provider u) ''local'',
     uv_email = str_or_null (au_email u), uv_avatar_url = str_or_null (au_avatar_url u)\<rparr>"

text \<open>\<open>Logged_In\<close> carries the value and the options of the cookie that is set.\<close>

datatype account_body =
    Logged_In user_view string cookie_options
  | Logged_Out cookie_options
  | Me user_view
  | Profile user_view
  | User_List "auth_user list"
  | User_Saved user_view int
  | Success
  | Requests "(int \<times> access_request) list"
  | Granted_Access int user

definition with_current :: "env \<Rightarrow> request \<Rightarrow> (auth_user option \<Rightarrow> world \<Rightarrow> world \<times> 'b response) \<Rightarrow> world \<Rightarrow> world \<times> 'b response" where
  "with_current e r h w = (case get_user_from_request e r w of Inl err \<Rightarrow> (w, Crash) | Inr u \<Rightarrow> h u w)"

text \<open>\<open>if (!currentUser || currentUser.role !== 'admin') return ...\<close>.\<close>

definition with_admin :: "env \<Rightarrow> request \<Rightarrow> (auth_user \<Rightarrow> world \<Rightarrow> world \<times> 'b response) \<Rightarrow> world \<Rightarrow> world \<times> 'b response" where
  "with_admin e r h = with_current e r (\<lambda>cu w.
     case cu of None \<Rightarrow> (w, Fail 403 ''Admin access required'')
     | Some u \<Rightarrow> if au_role u \<noteq> ''admin'' then (w, Fail 403 ''Admin access required'') else h u w)"

section \<open>Login and logout\<close>

definition login_with ::
  "kdf \<Rightarrow> string \<Rightarrow> env \<Rightarrow> request \<Rightarrow> (string \<times> string) option \<Rightarrow> world \<Rightarrow> world \<times> account_body response" where
  "login_with scrypt rnd e r body w =
     (case body of None \<Rightarrow> (w, Fail 500 ''Internal server error'')
      | Some (username, password) \<Rightarrow>
          if username = [] \<or> password = [] then (w, Fail 400 ''Username and password are required'')
          else (case authenticate_user scrypt username password w of
            None \<Rightarrow>
              (log_audit_event ''login_failed'' username None None None None (Some (request_ip r)) (user_agent r) w,
               Fail 401 ''Invalid credentials'')
          | Some u \<Rightarrow>
              (case create_session rnd (au_id u) (Some (request_ip r)) (user_agent r) w of
                 None \<Rightarrow> (w, Fail 500 ''Internal server error'')
               | Some (w1, token, expires) \<Rightarrow>
                   (log_audit_event ''login'' (au_username u) (Some (au_id u)) None None None
                      (Some (request_ip r)) (user_agent r) w1,
                    Reply 200 (Logged_In (view_of u) token (session_cookie_options e (expires - now_s w1)))))))"

definition post_login ::
  "kdf \<Rightarrow> string \<Rightarrow> (string \<times> string) option \<Rightarrow> env \<Rightarrow> request \<Rightarrow> world \<Rightarrow> world \<times> account_body response" where
  "post_login scrypt rnd body e r = with_limit LoginLimiter e r (login_with scrypt rnd e r body)"

definition post_logout :: "env \<Rightarrow> request \<Rightarrow> world \<Rightarrow> world \<times> account_body response" where
  "post_logout e r = with_current e r (\<lambda>user w.
     (case parse_cookie (header_or r ''cookie'' []) ''mc-session'' of
        Inl err \<Rightarrow> (w, Crash)
      | Inr token \<Rightarrow>
          (let w1 = (case token of None \<Rightarrow> w | Some t \<Rightarrow> if t = [] then w else destroy_session t w);
               w2 = (case user of None \<Rightarrow> w1
                     | Some u \<Rightarrow> log_audit_event ''logout'' (au_username u) (Some (au_id u)) None None None
                         (Some (request_ip r)) None w1)
           in (w2, Reply 200 (Logged_Out (session_cookie_options e 0))))))"

section \<open>The own profile\<close>

definition get_me :: "env \<Rightarrow> request \<Rightarrow> world \<Rightarrow> world \<times> account_body response" where
  "get_me e r = with_role Viewer e r (\<lambda>_. with_current e r (\<lambda>user w.
     (case user of None \<Rightarrow> (w, Fail 401 ''Not authenticated'')
      | Some u \<Rightarrow> (w, Reply 200 (Me (view_of u))))))"

record profile_body =
  pb_current_password :: "string option"
  pb_new_password :: "string option"
  pb_display_name :: "string option"

text \<open>The checks in front of the update, in their order; the updates to make.\<close>

definition profile_updates :: "kdf \<Rightarrow> auth_user \<Rightarrow> profile_body \<Rightarrow> world \<Rightarrow> (nat \<times> string) + user_updates" where
  "profile_updates scrypt u b w =
     (let current = opt_or (pb_current_password b) [];
          new_pw = opt_or (pb_new_password b) [];
          stored = map_option usr_password_hash (tbl_get (users (dbase w)) (au_id u));
          name_check = (\<lambda>ups. case pb_display_name b of
              None \<Rightarrow> if ups = no_user_updates then Inl (400, ''No updates provided'') else Inr ups
            | Some n \<Rightarrow> if js_trim n = [] then Inl (400, ''Display name cannot be empty'')
                        else Inr (ups\<lparr>uu_display_name := Some (js_trim n)\<rparr>))
      in if new_pw = [] then name_check no_user_updates
         else if current = [] then Inl (400, ''Current password is required'')
         else if length new_pw < 8 then Inl (400, ''New password must be at least 8 characters'')
         else if (case stored of None \<Rightarrow> True | Some h \<Rightarrow> \<not> verify_password scrypt current h)
         then Inl (403, ''Current password is incorrect'')
         else name_check (no_user_updates\<lparr>uu_password := Some new_pw\<rparr>))"

definition patch_profile ::
  "kdf \<Rightarrow> string \<Rightarrow> request \<Rightarrow> auth_user \<Rightarrow> profile_body \<Rightarrow> world \<Rightarrow> world \<times> account_body response" where
  "patch_profile scrypt salt r u b w =
     (case profile_updates scrypt u b w of
        Inl (status, msg) \<Rightarrow> (w, Fail status msg)
      | Inr ups \<Rightarrow>
     (case update_user scrypt salt (au_id u) ups w of
        (w1, None) \<Rightarrow> (w1, Fail 404 ''User not found'')
      | (w1, Some u1) \<Rightarrow>
          (let w2 = (if uu_password ups = None then w1
                     else log_audit_event ''password_change'' (au_username u) (Some (au_id u)) None None None
                       (Some (request_ip r)) None w1);
               w3 = (case uu_display_name ups of None \<Rightarrow> w2
                     | Some n \<Rightarrow> log_audit_event ''profile_update'' (au_username u) (Some (au_id u)) None None
                         (Some (JObj [(''display_name'', JStr n)])) (Some (request_ip r)) None w2)
           in (w3, Reply 200 (Profile (view_of u1))))))"

definition patch_me ::
  "kdf \<Rightarrow> string \<Rightarrow> profile_body option \<Rightarrow> env \<Rightarrow> request \<Rightarrow> world \<Rightarrow> world \<times> account_body response" where
  "patch_me scrypt salt body e r = with_current e r (\<lambda>user w.
     (case user of None \<Rightarrow> (w, Fail 401 ''Not authenticated'')
      | Some u \<Rightarrow>
          if au_id u = 0 then (w, Fail 403 ''API key users cannot change passwords'')
          else (case body of None \<Rightarrow> (w, Fail 500 ''Failed to update profile'')
                | Some b \<Rightarrow> patch_profile scrypt salt r u b w)))"

section \<open>Users\<close>

definition get_users :: "(int list \<Rightarrow> int list) \<Rightarrow> env \<Rightarrow> request \<Rightarrow> world \<Rightarrow> world \<times> account_body response" where
  "get_users scan e r = with_role Viewer e r (\<lambda>_. with_admin e r (\<lambda>_ w.
     (w, Reply 200 (User_List (get_all_users scan w)))))"

datatype provider = Local_Login | Google_Login

fun provider_text :: "provider \<Rightarrow> string" where
  "provider_text Local_Login = ''local''"
| "provider_text Google_Login = ''google''"

record create_user_body =
  cu_username :: string
  cu_password :: string
  cu_display_name :: "string option"
  cu_role :: role
  cu_provider :: provider
  cu_email :: "string option"

definition plain_options :: user_options where
  "plain_options = \<lparr>uo_provider = None, uo_provider_user_id = None, uo_email = None, uo_avatar_url = None,
     uo_is_approved = None, uo_approved_by = None, uo_approved_at = None\<rparr>"

definition create_user_with ::
  "kdf \<Rightarrow> string \<Rightarrow> request \<Rightarrow> auth_user \<Rightarrow> create_user_body \<Rightarrow> world \<Rightarrow> world \<times> account_body response" where
  "create_user_with scrypt salt r cu b w =
     (case create_user scrypt salt (cu_username b) (cu_password b) (opt_or (cu_display_name b) (cu_username b))
             (role_text (cu_role b))
             (plain_options\<lparr>uo_provider := Some (provider_text (cu_provider b)), uo_email := str_or_null (cu_email b)\<rparr>) w of
        Inl msg \<Rightarrow>
          if js_includes ''UNIQUE constraint failed'' msg then (w, Fail 409 ''Username already exists'')
          else (w, Fail 500 ''Failed to create user'')
      | Inr (w1, u) \<Rightarrow>
          (log_audit_event ''user_create'' (au_username cu) (Some (au_id cu)) (Some ''user'') (Some (au_id u))
             (Some (JObj ([(''username'', JStr (cu_username b)), (''role'', JStr (role_text (cu_role b))),
                          (''provider'', JStr (provider_text (cu_provider b)))] @
                          opt_field ''email'' JStr (cu_email b))))
             (Some (request_ip r)) None w1,
           Reply 201 (User_Saved (view_of u) (case au_is_approved u of None \<Rightarrow> 1 | Some n \<Rightarrow> n))))"

definition post_users ::
  "kdf \<Rightarrow> string \<Rightarrow> create_user_body validated \<Rightarrow> env \<Rightarrow> request \<Rightarrow> world \<Rightarrow> world \<times> account_body response" where
  "post_users scrypt salt body e r = with_admin e r (\<lambda>cu.
     with_limit MutationLimiter e r (with_body body (create_user_with scrypt salt r cu)))"

text \<open>The id of a body: a number, or a text the database compares as the number it spells.\<close>

datatype id_value = Id_Num rat | Id_Text string

definition user_key :: "id_value \<Rightarrow> int option" where
  "user_key v = (case v of Id_Num q \<Rightarrow> row_id q
     | Id_Text s \<Rightarrow> (case sql_number s of None \<Rightarrow> None | Some q \<Rightarrow> row_id q))"

definition given_id :: "id_value option \<Rightarrow> id_value option" where
  "given_id v = (if v = Some (Id_Num 0) \<or> v = Some (Id_Text []) then None else v)"

record update_user_body =
  ub_id :: "id_value option"
  ub_display_name :: "string option"
  ub_role :: "string option"
  ub_password :: "string option"
  ub_is_approved :: "int option"
  ub_email :: "string option option"
  ub_avatar_url :: "string option option"

definition body_updates :: "update_user_body \<Rightarrow> user_updates" where
  "body_updates b = \<lparr>uu_display_name = ub_display_name b, uu_role = ub_role b,
     uu_password = str_or_null (ub_password b), uu_email = ub_email b, uu_avatar_url = ub_avatar_url b,
     uu_is_approved = ub_is_approved b\<rparr>"

definition update_user_with ::
  "kdf \<Rightarrow> string \<Rightarrow> request \<Rightarrow> update_user_body option \<Rightarrow> auth_user \<Rightarrow> world \<Rightarrow> world \<times> account_body response" where
  "update_user_with scrypt salt r body cu w =
     (case body of None \<Rightarrow> (w, Fail 500 ''Failed to update user'')
      | Some b \<Rightarrow>
     (case given_id (ub_id b) of None \<Rightarrow> (w, Fail 400 ''User ID is required'')
      | Some v \<Rightarrow>
          (let role = opt_or (ub_role b) [] in
           if role \<noteq> [] \<and> role \<notin> {''admin'', ''operator'', ''viewer''} then (w, Fail 400 ''Invalid role'')
           else if v = Id_Num (of_int (au_id cu)) \<and> role \<noteq> [] \<and> role \<noteq> au_role cu
           then (w, Fail 400 ''Cannot change your own role'')
           else (case user_key v of None \<Rightarrow> (w, Fail 404 ''User not found'')
             | Some i \<Rightarrow>
             (case update_user scrypt salt i (body_updates b) w of
                (w1, None) \<Rightarrow> (w1, Fail 404 ''User not found'')
              | (w1, Some u) \<Rightarrow>
                  (log_audit_event ''user_update'' (au_username cu) (Some (au_id cu)) (Some ''user'') (Some i)
                     (Some (JObj (opt_field ''display_name'' JStr (ub_display_name b) @
                        opt_field ''role'' JStr (ub_role b) @
                        [(''password_changed'', JBool (opt_or (ub_password b) [] \<noteq> []))] @
                        opt_field ''is_approved'' (\<lambda>n. JInt n) (ub_is_approved b))))
                     (Some (request_ip r)) None w1,
                   Reply 200 (User_Saved (view_of u) (case au_is_approved u of None \<Rightarrow> 1 | Some n \<Rightarrow> n))))))))"

definition put_users ::
  "kdf \<Rightarrow> string \<Rightarrow> update_user_body option \<Rightarrow> env \<Rightarrow> request \<Rightarrow> world \<Rightarrow> world \<times> account_body response" where
  "put_users scrypt salt body e r = with_admin e r (update_user_with scrypt salt r body)"

text \<open>\<open>parseInt(id)\<close> of the id's text; a \<open>NaN\<close> is bound as \<open>NULL\<close> and matches no row.\<close>

definition id_text :: "id_value \<Rightarrow> string" where
  "id_text v = (case v of Id_Num q \<Rightarrow> number_text q | Id_Text s \<Rightarrow> s)"

text \<open>\<open>None\<close>: not JSON; \<open>Some None\<close>: \<open>null\<close>; otherwise the id the object has.\<close>

definition delete_user_with ::
  "request \<Rightarrow> id_value option option option \<Rightarrow> auth_user \<Rightarrow> world \<Rightarrow> world \<times> account_body response" where
  "delete_user_with r body cu w =
     (case body of None \<Rightarrow> (w, Fail 400 ''Request body required'')
      | Some None \<Rightarrow> (w, Crash)
      | Some (Some v0) \<Rightarrow>
     (case given_id v0 of None \<Rightarrow> (w, Fail 400 ''User ID is required'')
      | Some v \<Rightarrow>
     (case parse_int (id_text v) of None \<Rightarrow> (w, Fail 404 ''User not found'')
      | Some i \<Rightarrow>
          if i = au_id cu then (w, Fail 400 ''Cannot delete your own account'')
          else (case delete_user i w of (w1, deleted) \<Rightarrow>
            if \<not> deleted then (w1, Fail 404 ''User not found'')
            else (log_audit_event ''user_delete'' (au_username cu) (Some (au_id cu)) (Some ''user'') (Some i) None
                    (Some (request_ip r)) None w1,
                  Reply 200 Success)))))"

definition delete_users ::
  "id_value option option option \<Rightarrow> env \<Rightarrow> request \<Rightarrow> world \<Rightarrow> world \<times> account_body response" where
  "delete_users body e r = with_admin e r (delete_user_with r body)"

section \<open>Requests for access\<close>

definition email_char :: "char \<Rightarrow> bool" where
  "email_char c = (let n = of_char c :: nat in
     (48 \<le> n \<and> n \<le> 57) \<or> (65 \<le> n \<and> n \<le> 90) \<or> (97 \<le> n \<and> n \<le> 122) \<or> c \<in> {CHR ''.'', CHR ''_'', CHR ''-''})"

definition make_username :: "string \<Rightarrow> string" where
  "make_username email =
     take 28 (str_or (js_lower (filter email_char (hd (split_on (CHR ''@'') email)))) ''user'')"

definition numbered :: "string \<Rightarrow> nat \<Rightarrow> string" where
  "numbered base i = take 24 base @ CHR ''-'' # show_nat i"

text \<open>Different numbers give different candidates, so the search for a free one ends.\<close>

lemma digit_val_digit: "d < 10 \<Longrightarrow> digit_val (char_of (48 + d)) = Some d"
  by (simp add: digit_val_def of_char_of)

lemma read_digits_snoc:
  assumes "read_digits digit_val 10 acc s = Some n" "d < 10" "list_all (\<lambda>c. digit_val c \<noteq> None) s" "s \<noteq> [] \<or> acc \<noteq> None"
  shows "read_digits digit_val 10 acc (s @ [char_of (48 + d)]) = Some (n * 10 + d)"
  using assms by (induction s arbitrary: acc) (auto simp: digit_val_digit split: option.splits)

lemma show_nat_reads:
  "read_digits digit_val 10 None (show_nat n) = Some n \<and> show_nat n \<noteq> [] \<and>
   list_all (\<lambda>c. digit_val c \<noteq> None) (show_nat n)"
proof (induction n rule: show_nat.induct)
  case (1 n)
  show ?case
  proof (cases "n < 10")
    case True
    then show ?thesis by (simp add: show_nat.simps [of n] digit_val_digit)
  next
    case False
    with 1 have ih: "read_digits digit_val 10 None (show_nat (n div 10)) = Some (n div 10)"
      "show_nat (n div 10) \<noteq> []" "list_all (\<lambda>c. digit_val c \<noteq> None) (show_nat (n div 10))" by auto
    have "n mod 10 < 10" by simp
    from read_digits_snoc [OF ih(1) this ih(3)] ih(2,3) False \<open>n mod 10 < 10\<close> show ?thesis
      by (simp add: show_nat.simps [of n] digit_val_digit)
  qed
qed

lemma show_nat_inj: "show_nat m = show_nat n \<longleftrightarrow> m = n"
  by (metis option.inject show_nat_reads)

lemma numbered_inj: "numbered b i = numbered b j \<longleftrightarrow> i = j"
  by (simp add: numbered_def show_nat_inj)

lemma taken_numbers:
  "card {j. i < j \<and> numbered b j \<in> set names} =
     card {j. Suc i < j \<and> numbered b j \<in> set names} + (if numbered b (Suc i) \<in> set names then 1 else 0)"
proof -
  have "inj (numbered b)" by (simp add: inj_def numbered_inj)
  then have "finite {j. numbered b j \<in> set names}"
    using finite_vimageI [of "set names" "numbered b"] by (simp add: vimage_def)
  then have fin: "finite {j. Suc i < j \<and> numbered b j \<in> set names}"
    by (rule rev_finite_subset) auto
  have "{j. i < j \<and> numbered b j \<in> set names} = {j. Suc i < j \<and> numbered b j \<in> set names} \<union>
      (if numbered b (Suc i) \<in> set names then {Suc i} else {})"
    by (auto simp: Suc_lessI) (metis Suc_lessI)
  then show ?thesis using fin by (simp add: card_insert_if)
qed

text \<open>The loop of \<open>ensureUniqueUsername\<close> after its \<open>i\<close>-th step, over the names in the table.\<close>

function free_username :: "string list \<Rightarrow> string \<Rightarrow> string \<Rightarrow> nat \<Rightarrow> string" where
  "free_username names base candidate i =
     (if candidate \<in> set names then free_username names base (numbered base (i + 1)) (i + 1) else candidate)"
  by pat_completeness auto
termination
proof (relation "measure (\<lambda>(names, base, candidate, i).
    card {j. i < j \<and> numbered base j \<in> set names} + (if candidate \<in> set names then 1 else 0))")
  fix names :: "string list" and base candidate :: string and i :: nat
  assume "candidate \<in> set names"
  then show "((names, base, numbered base (i + 1), i + 1), names, base, candidate, i)
      \<in> measure (\<lambda>(names, base, candidate, i). card {j. i < j \<and> numbered base j \<in> set names} +
          (if candidate \<in> set names then 1 else 0))"
    using taken_numbers [of i base names] by simp
qed simp

declare free_username.simps [simp del]

lemma free_username_fresh: "free_username names base candidate i \<notin> set names"
  by (induction names base candidate i rule: free_username.induct) (simp add: free_username.simps)

definition usernames :: "world \<Rightarrow> string list" where
  "usernames w = map (\<lambda>(i, u). usr_username u) (rows (users (dbase w)))"

definition ensure_unique_username :: "string \<Rightarrow> world \<Rightarrow> string" where
  "ensure_unique_username base w = free_username (usernames w) base base 0"

text \<open>The rows: the pending ones first (when all are asked for), then by last attempt and id, latest first.\<close>

definition newest_requests :: "(int \<times> access_request) list \<Rightarrow> (int \<times> access_request) list" where
  "newest_requests xs = sort_key (\<lambda>(i, a). - acc_last_attempt_at a) (sort_key (\<lambda>(i, a). - i) xs)"

definition get_access_requests :: "string option \<Rightarrow> env \<Rightarrow> request \<Rightarrow> world \<Rightarrow> world \<times> account_body response" where
  "get_access_requests status_param e r = with_role Viewer e r (\<lambda>_. with_admin e r (\<lambda>_ w.
     (let status = opt_or status_param ''all'';
          t = access_requests (dbase w)
      in (w, Reply 200 (Requests
           (if status = ''all''
            then sort_key (\<lambda>(i, a). if acc_status a = ''pending'' then 0 else (1::int)) (newest_requests (rows t))
            else newest_requests (tbl_select (\<lambda>a. acc_status a = status) t)))))))"

datatype access_action = Approve | Reject

record access_action_body =
  ab_request_id :: rat
  ab_action :: access_action
  ab_role :: role
  ab_note :: "string option"

definition set_requests :: "access_request table \<Rightarrow> world \<Rightarrow> world" where
  "set_requests t w = w\<lparr>dbase := (dbase w)\<lparr>access_requests := t\<rparr>\<rparr>"

lemma dbase_set_requests [simp]: "dbase (set_requests t w) = (dbase w)\<lparr>access_requests := t\<rparr>"
  by (simp add: set_requests_def)

definition set_users :: "user table \<Rightarrow> world \<Rightarrow> world" where
  "set_users t w = w\<lparr>dbase := (dbase w)\<lparr>users := t\<rparr>\<rparr>"

definition reject_access :: "auth_user \<Rightarrow> int \<Rightarrow> access_request \<Rightarrow> access_action_body \<Rightarrow> world \<Rightarrow> world" where
  "reject_access admin i a b w =
     log_audit_event ''access_request_rejected'' (au_username admin) (Some (au_id admin)) None None
       (Some (JObj ([(''request_id'', JNum (ab_request_id b)), (''email'', JStr (acc_email a))] @
          opt_field ''note'' JStr (ab_note b)))) None None
       (set_requests (tbl_update i (\<lambda>x. x\<lparr>acc_status := ''rejected'', acc_reviewed_by := Some (au_username admin),
            acc_reviewed_at := Some (now_s w), acc_review_note := ab_note b\<rparr>) (access_requests (dbase w))) w)"

text \<open>
  The account an approval is for: the first user with that email or that Google identity. It
  becomes a Google account with the given role, or a new account is made. The whole is one
  transaction; \<open>None\<close> is an exception, after which it is rolled back.
\<close>

definition matches_identity :: "string \<Rightarrow> string \<Rightarrow> user \<Rightarrow> bool" where
  "matches_identity email sub u \<longleftrightarrow> map_option js_lower (usr_email u) = Some email \<or>
     usr_provider u = ''google'' \<and> usr_provider_user_id u = Some sub"

definition grant_account ::
  "kdf \<Rightarrow> string \<Rightarrow> string \<Rightarrow> auth_user \<Rightarrow> access_request \<Rightarrow> role \<Rightarrow> world \<Rightarrow> (world \<times> int) option" where
  "grant_account scrypt rnd salt admin a role w =
     (let email = js_lower (acc_email a);
          sub = str_or_null (acc_provider_user_id a);
          display_name = opt_or (acc_display_name a) (str_or (hd (split_on (CHR ''@'') email)) ''Google User'');
          avatar = str_or_null (acc_avatar_url a)
      in case tbl_find (matches_identity email (opt_or sub [])) (users (dbase w)) of
           Some (i, u) \<Rightarrow>
             Some (set_users (tbl_update i (\<lambda>u. u\<lparr>usr_provider := ''google'', usr_provider_user_id := sub,
                 usr_email := Some email, usr_avatar_url := (case avatar of None \<Rightarrow> usr_avatar_url u | Some x \<Rightarrow> Some x),
                 usr_is_approved := 1, usr_role := role_text role, usr_approved_by := Some (au_username admin),
                 usr_approved_at := Some (now_s w), usr_updated_at := now_s w\<rparr>) (users (dbase w))) w, i)
         | None \<Rightarrow>
             (case create_user scrypt salt (ensure_unique_username (make_username email) w) (to_hex rnd) display_name
                 (role_text role) \<lparr>uo_provider = Some ''google'', uo_provider_user_id = sub, uo_email = Some email,
                    uo_avatar_url = avatar, uo_is_approved = Some 1, uo_approved_by = Some (au_username admin),
                    uo_approved_at = Some (now_s w)\<rparr> w of
                Inl msg \<Rightarrow> None
              | Inr (w1, u) \<Rightarrow> Some (w1, au_id u)))"

definition approve_access ::
  "kdf \<Rightarrow> string \<Rightarrow> string \<Rightarrow> auth_user \<Rightarrow> int \<Rightarrow> access_request \<Rightarrow> access_action_body \<Rightarrow> world \<Rightarrow>
   world \<times> account_body response" where
  "approve_access scrypt rnd salt admin i a b w =
     (case grant_account scrypt rnd salt admin a (ab_role b) w of
        None \<Rightarrow> (w, Crash)
      | Some (w1, uid) \<Rightarrow>
          (let w2 = set_requests (tbl_update i (\<lambda>x. x\<lparr>acc_status := ''approved'',
                 acc_reviewed_by := Some (au_username admin), acc_reviewed_at := Some (now_s w),
                 acc_review_note := ab_note b, acc_approved_user_id := Some uid\<rparr>) (access_requests (dbase w1))) w1;
               w3 = log_audit_event ''access_request_approved'' (au_username admin) (Some (au_id admin)) None None
                 (Some (JObj ([(''request_id'', JNum (ab_request_id b)), (''email'', JStr (js_lower (acc_email a))),
                    (''role'', JStr (role_text (ab_role b))), (''user_id'', JInt uid)] @
                    opt_field ''note'' JStr (ab_note b)))) None None w2
           in case tbl_get (users (dbase w2)) uid of
                None \<Rightarrow> (w3, Crash)
              | Some u \<Rightarrow> (w3, Reply 200 (Granted_Access uid u))))"

definition access_action_with ::
  "kdf \<Rightarrow> string \<Rightarrow> string \<Rightarrow> auth_user \<Rightarrow> access_action_body \<Rightarrow> world \<Rightarrow> world \<times> account_body response" where
  "access_action_with scrypt rnd salt admin b w =
     (case (row_id (ab_request_id b), get_by_number (access_requests (dbase w)) (ab_request_id b)) of
        (Some i, Some a) \<Rightarrow>
          (case ab_action b of
             Reject \<Rightarrow> (reject_access admin i a b w, Reply 200 Success)
           | Approve \<Rightarrow> approve_access scrypt rnd salt admin i a b w)
      | _ \<Rightarrow> (w, Fail 404 ''Request not found''))"

definition post_access_requests ::
  "kdf \<Rightarrow> string \<Rightarrow> string \<Rightarrow> access_action_body validated \<Rightarrow> env \<Rightarrow> request \<Rightarrow> world \<Rightarrow> world \<times> account_body response" where
  "post_access_requests scrypt rnd salt body e r = with_admin e r (\<lambda>admin.
     with_limit MutationLimiter e r (with_body body (access_action_with scrypt rnd salt admin)))"

section \<open>Login through Google\<close>

definition uri_plain :: "char \<Rightarrow> bool" where
  "uri_plain c = (let n = of_char c :: nat in
     (48 \<le> n \<and> n \<le> 57) \<or> (65 \<le> n \<and> n \<le> 90) \<or> (97 \<le> n \<and> n \<le> 122) \<or>
     c \<in> set ''-_.!~*'' \<or> c \<in> {CHR 0x27, CHR ''('', CHR '')''})"

definition upper_hex_digit :: "nat \<Rightarrow> char" where
  "upper_hex_digit n = char_of (if n < 10 then 48 + n else 55 + n)"

text \<open>\<open>encodeURIComponent\<close>, on the bytes of the UTF-8 encoding.\<close>

definition encode_uri :: "string \<Rightarrow> string" where
  "encode_uri s = concat (map (\<lambda>c. if uri_plain c then [c]
     else (let n = of_char c :: nat in [CHR ''%'', upper_hex_digit (n div 16), upper_hex_digit (n mod 16)])) s)"

record google_payload =
  gp_aud :: "string option"
  gp_email :: "string option"
  gp_sub :: "string option"
  gp_email_verified :: "json option"
  gp_name :: "string option"
  gp_picture :: "string option"

text \<open>What fetching \<open>tokeninfo\<close> gives: an exception, a status that is not ok, or an object.\<close>

datatype google_answer = Google_Threw string | Google_Not_Ok | Google_Payload google_payload

definition tokeninfo_url :: "string \<Rightarrow> string" where
  "tokeninfo_url token = ''https://oauth2.googleapis.com/tokeninfo?id_token='' @ encode_uri token"

definition google_audience :: "env \<Rightarrow> string" where
  "google_audience e = js_trim (opt_or (e ''GOOGLE_CLIENT_ID'') (env_or e ''NEXT_PUBLIC_GOOGLE_CLIENT_ID'' []))"

definition verify_google_id_token :: "(string \<Rightarrow> google_answer) \<Rightarrow> env \<Rightarrow> string \<Rightarrow> string + google_payload" where
  "verify_google_id_token fetch e id_token =
     (let token = js_trim id_token in
      if token = [] then Inl ''Missing Google credential''
      else case fetch (tokeninfo_url token) of
        Google_Threw msg \<Rightarrow> Inl msg
      | Google_Not_Ok \<Rightarrow> Inl ''Invalid Google token''
      | Google_Payload p \<Rightarrow>
          if google_audience e \<noteq> [] \<and> gp_aud p \<noteq> Some (google_audience e) then Inl ''Google token audience mismatch''
          else if str_or_null (gp_email p) = None \<or> str_or_null (gp_sub p) = None
          then Inl ''Google token missing required identity fields''
          else if gp_email_verified p \<noteq> Some (JBool True) \<and> gp_email_verified p \<noteq> Some (JStr ''true'')
          then Inl ''Google email is not verified''
          else Inr p)"

text \<open>\<open>INSERT ... ON CONFLICT(email, provider) DO UPDATE\<close>.\<close>

definition upsert_access_request ::
  "string \<Rightarrow> string \<Rightarrow> string \<Rightarrow> string option \<Rightarrow> world \<Rightarrow> world" where
  "upsert_access_request email sub display_name avatar w =
     (let t = access_requests (dbase w);
          key = (\<lambda>a. acc_email a = js_lower email \<and> acc_provider a = ''google'');
          now = now_s w
      in set_requests
          (if tbl_find key t = None
           then tbl_insert \<lparr>acc_provider = ''google'', acc_email = js_lower email, acc_provider_user_id = Some sub,
                  acc_display_name = Some display_name, acc_avatar_url = str_or_null avatar, acc_status = ''pending'',
                  acc_requested_at = now, acc_last_attempt_at = now, acc_attempt_count = 1, acc_reviewed_by = None,
                  acc_reviewed_at = None, acc_review_note = None, acc_approved_user_id = None\<rparr> t
           else tbl_update_where key (\<lambda>a. a\<lparr>acc_provider_user_id := Some sub, acc_display_name := Some display_name,
                  acc_avatar_url := str_or_null avatar, acc_status := ''pending'',
                  acc_attempt_count := acc_attempt_count a + 1, acc_last_attempt_at := now\<rparr>) t) w)"

text \<open>The identity of a payload, as it is compared and stored.\<close>

definition google_email :: "google_payload \<Rightarrow> string" where
  "google_email p = js_trim (js_lower (opt_or (gp_email p) []))"

definition google_sub :: "google_payload \<Rightarrow> string" where
  "google_sub p = js_trim (opt_or (gp_sub p) [])"

text \<open>What follows the answer of Google, in one step.\<close>

definition google_login_with :: "string \<Rightarrow> env \<Rightarrow> request \<Rightarrow> google_payload \<Rightarrow> world \<Rightarrow> world \<times> account_body response" where
  "google_login_with rnd e r p w =
     (let email = google_email p;
          sub = google_sub p;
          display_name = js_trim (opt_or (gp_name p) (str_or (hd (split_on (CHR ''@'') email)) ''Google User''));
          avatar = str_or_null (gp_picture p);
          pending = (log_audit_event ''google_login_pending_approval'' email None None None
              (Some (JObj [(''email'', JStr email), (''sub'', JStr sub)])) (Some (request_ip r)) (user_agent r)
              (upsert_access_request email sub display_name avatar w),
            Fail 403 ''Access request pending admin approval'')
      in case tbl_find (matches_identity email sub) (users (dbase w)) of
           None \<Rightarrow> pending
         | Some (i, u) \<Rightarrow>
             if usr_is_approved u \<noteq> 1 then pending
             else (let w1 = set_users (tbl_update i (\<lambda>u. u\<lparr>usr_provider := ''google'', usr_provider_user_id := Some sub,
                      usr_email := Some email, usr_avatar_url := (case avatar of None \<Rightarrow> usr_avatar_url u | Some x \<Rightarrow> Some x),
                      usr_updated_at := now_s w\<rparr>) (users (dbase w))) w
                   in case create_session rnd i (Some (request_ip r)) (user_agent r) w1 of
                        None \<Rightarrow> (w1, Fail 400 ''UNIQUE constraint failed: user_sessions.token'')
                      | Some (w2, token, expires) \<Rightarrow>
                          (log_audit_event ''login_google'' (usr_username u) (Some i) None None None
                             (Some (request_ip r)) (user_agent r) w2,
                           Reply 200 (Logged_In \<lparr>uv_id = i, uv_username = usr_username u,
                               uv_display_name = usr_display_name u, uv_role = usr_role u, uv_provider = ''google'',
                               uv_email = Some email, uv_avatar_url = avatar\<rparr>
                             token (session_cookie_options e (expires - now_s w2))))))"

definition post_google ::
  "(string \<Rightarrow> google_answer) \<Rightarrow> string \<Rightarrow> string \<Rightarrow> env \<Rightarrow> request \<Rightarrow> world \<Rightarrow> world \<times> account_body response" where
  "post_google fetch rnd credential e r w =
     (case verify_google_id_token fetch e credential of
        Inl msg \<Rightarrow> (w, Fail 400 (str_or msg ''Google login failed''))
      | Inr p \<Rightarrow> google_login_with rnd e r p w)"

end
