(* ===== verification/Account_Rules.thy ===== *)
theory Account_Rules
  imports Accounts
begin

text \<open>
  What the account routes guarantee under any sequence of requests: the integrity of users,
  sessions and requests for access, who gets a session, and that an approved request for
  access leads to a login with the granted role.
\<close>

section \<open>Integrity of the tables\<close>

definition request_key :: "int \<times> access_request \<Rightarrow> string \<times> string" where
  "request_key x = (acc_email (snd x), acc_provider (snd x))"

definition accounts_ok :: "db \<Rightarrow> bool" where
  "accounts_ok d \<longleftrightarrow> tbl_ok (users d) \<and> tbl_ok (sessions d) \<and> tbl_ok (access_requests d) \<and>
     distinct (map (usr_username \<circ> snd) (rows (users d))) \<and>
     distinct (map (ses_token \<circ> snd) (rows (sessions d))) \<and>
     distinct (map request_key (rows (access_requests d))) \<and>
     (\<forall>(j, s) \<in> set (rows (sessions d)). tbl_get (users d) (ses_user_id s) \<noteq> None) \<and>
     (\<forall>(j, a) \<in> set (rows (access_requests d)). \<forall>uid. acc_approved_user_id a = Some uid \<longrightarrow> tbl_get (users d) uid \<noteq> None)"

lemma accounts_ok_auth: "accounts_ok (dbase w) \<Longrightarrow> auth_ok w"
  by (simp add: accounts_ok_def auth_ok_def tokens_unique_def comp_def case_prod_unfold)

lemma accounts_ok_audit [simp]: "accounts_ok (d\<lparr>audit_log := x\<rparr>) = accounts_ok d"
  by (simp add: accounts_ok_def)

lemma map_keep_update:
  assumes "\<And>r. g (f r) = g r"
  shows "map (g \<circ> snd) (rows (tbl_update k f t)) = map (g \<circ> snd) (rows t)"
  using assms by (auto simp: rows_update)

lemma users_update_ok:
  assumes "accounts_ok d" "\<And>u. usr_username (f u) = usr_username u"
  shows "accounts_ok (d\<lparr>users := tbl_update i f (users d)\<rparr>)"
  using assms map_keep_update [of usr_username f i "users d"]
  by (auto simp: accounts_ok_def tbl_simps split: if_splits)

lemma user_insert_ok:
  assumes "accounts_ok d" "usr_username u \<notin> set (map (usr_username \<circ> snd) (rows (users d)))"
  shows "accounts_ok (d\<lparr>users := tbl_insert u (users d)\<rparr>)"
proof -
  have "tbl_get (tbl_insert u (users d)) i \<noteq> None" if "tbl_get (users d) i \<noteq> None" for i
    using assms(1) that by (simp add: accounts_ok_def tbl_simps)
  then show ?thesis using assms by (fastforce simp: accounts_ok_def rows_insert)
qed

lemma sessions_delete_ok:
  "accounts_ok d \<Longrightarrow> accounts_ok (d\<lparr>sessions := tbl_delete_where P (sessions d)\<rparr>)"
  by (auto simp: accounts_ok_def tbl_rows_delete_where intro!: distinct_map_filterI)

lemma session_insert_ok:
  assumes "accounts_ok d" "ses_token s \<notin> set (map (ses_token \<circ> snd) (rows (sessions d)))"
    and "tbl_get (users d) (ses_user_id s) \<noteq> None"
  shows "accounts_ok (d\<lparr>sessions := tbl_insert s (sessions d)\<rparr>)"
  using assms by (auto simp: accounts_ok_def rows_insert)

lemma requests_update_ok:
  assumes "accounts_ok d" "\<And>a. acc_email (f a) = acc_email a \<and> acc_provider (f a) = acc_provider a"
    and "\<And>a uid. acc_approved_user_id (f a) = Some uid \<Longrightarrow>
      acc_approved_user_id a = Some uid \<or> tbl_get (users d) uid \<noteq> None"
  shows "accounts_ok (d\<lparr>access_requests := tbl_update i f (access_requests d)\<rparr>)"
    and "accounts_ok (d\<lparr>access_requests := tbl_update_where P f (access_requests d)\<rparr>)"
proof -
  have "map request_key (rows (tbl_update i f (access_requests d))) = map request_key (rows (access_requests d))"
    "map request_key (rows (tbl_update_where P f (access_requests d))) = map request_key (rows (access_requests d))"
    using assms(2) by (auto simp: rows_update rows_update_where request_key_def)
  moreover have "tbl_get (users d) uid \<noteq> None"
    if "(j, a) \<in> set (rows (tbl_update i f (access_requests d))) \<union> set (rows (tbl_update_where P f (access_requests d)))"
      "acc_approved_user_id a = Some uid" for j a uid
  proof -
    have "\<exists>a'. (j, a') \<in> set (rows (access_requests d)) \<and> (a = a' \<or> a = f a')"
      using that(1) by (auto simp: rows_update rows_update_where split: if_splits)
    then obtain a' where "(j, a') \<in> set (rows (access_requests d))" "a = a' \<or> a = f a'" by blast
    then show ?thesis using assms(1,3) that(2) by (fastforce simp: accounts_ok_def)
  qed
  ultimately show "accounts_ok (d\<lparr>access_requests := tbl_update i f (access_requests d)\<rparr>)"
    "accounts_ok (d\<lparr>access_requests := tbl_update_where P f (access_requests d)\<rparr>)"
    using assms(1) by (simp_all add: accounts_ok_def) blast+
qed

lemma request_insert_ok:
  assumes "accounts_ok d" "(acc_email a, acc_provider a) \<notin> set (map request_key (rows (access_requests d)))"
    and "acc_approved_user_id a = None"
  shows "accounts_ok (d\<lparr>access_requests := tbl_insert a (access_requests d)\<rparr>)"
  using assms by (auto simp: accounts_ok_def rows_insert request_key_def)

section \<open>The operations keep it\<close>

lemma create_session_accounts_ok:
  assumes "create_session rnd uid ip ua w = Some (w', tok, ex)" "accounts_ok (dbase w)"
  shows "accounts_ok (dbase w')"
proof -
  let ?row = "\<lparr>ses_token = to_hex rnd, ses_user_id = uid, ses_expires_at = now_s w + session_duration,
    ses_created_at = now_s w, ses_ip = str_or_null ip, ses_user_agent = str_or_null ua\<rparr>"
  let ?d = "(dbase w)\<lparr>sessions := tbl_insert ?row (sessions (dbase w))\<rparr>"
  let ?f = "\<lambda>u. u\<lparr>usr_last_login_at := Some (now_s w), usr_updated_at := now_s w\<rparr>"
  have "to_hex rnd \<notin> set (map (ses_token \<circ> snd) (rows (sessions (dbase w))))" "tbl_get (users (dbase w)) uid \<noteq> None"
    and w': "w' = w\<lparr>dbase := ?d\<lparr>users := tbl_update uid ?f (users ?d)\<rparr>
      \<lparr>sessions := tbl_delete_where (\<lambda>i s. ses_expires_at s < now_s w) (sessions ?d)\<rparr>\<rparr>"
    using assms(1) by (auto simp: create_session_def Let_def tbl_find_None_iff split: if_splits)
  then have "accounts_ok ?d" using assms(2) by (intro session_insert_ok) simp_all
  then have "accounts_ok (?d\<lparr>users := tbl_update uid ?f (users ?d)\<rparr>)" by (rule users_update_ok) simp
  from sessions_delete_ok [OF this] show ?thesis by (simp add: w')
qed

lemma update_user_accounts_ok:
  "accounts_ok (dbase w) \<Longrightarrow> accounts_ok (dbase (fst (update_user scrypt salt i up w)))"
  using users_update_ok [of "dbase w" "apply_user_updates scrypt salt (now_s w) up" i]
  by (simp add: update_user_def Let_def apply_user_updates_def)

lemma create_user_accounts_ok:
  assumes "create_user scrypt salt name pw dn role opts w = Inr (w', u)" "accounts_ok (dbase w)"
  shows "accounts_ok (dbase w')"
    and "au_id u = next_id (users (dbase w))" "tbl_get (users (dbase w')) (au_id u) \<noteq> None"
proof -
  from assms(1) have "name \<notin> set (map (usr_username \<circ> snd) (rows (users (dbase w))))"
    by (auto simp: create_user_def Let_def tbl_find_None_iff split: if_splits)
  then show "accounts_ok (dbase w')"
    using assms by (auto simp: create_user_def Let_def split: if_splits intro!: user_insert_ok)
  show "au_id u = next_id (users (dbase w))" "tbl_get (users (dbase w')) (au_id u) \<noteq> None"
    using assms by (auto simp: create_user_def Let_def accounts_ok_def tbl_simps tbl_last_id_def split: if_splits)
qed

lemma delete_user_accounts_ok:
  assumes "accounts_ok (dbase w)"
  shows "accounts_ok (dbase (fst (delete_user i w)))"
proof (cases "tbl_get (users (dbase w)) i")
  case None
  have "tbl_delete i (users (dbase w)) = users (dbase w)"
  proof -
    have "filter (\<lambda>(j, r). \<not> j = i) (rows (users (dbase w))) = rows (users (dbase w))"
      using None by (force simp: filter_id_conv tbl_get_def map_of_eq_None_iff)
    then show ?thesis by (simp add: tbl_delete_def tbl_delete_where_def)
  qed
  then show ?thesis
    using sessions_delete_ok [OF assms] None
    by (simp add: delete_user_def Let_def destroy_all_user_sessions_def)
next
  case (Some u)
  let ?d = "dbase (fst (delete_user i w))"
  let ?clear = "\<lambda>a. a\<lparr>acc_approved_user_id := None\<rparr>"
  have rows: "rows (users ?d) = filter (\<lambda>(j, r). \<not> j = i) (rows (users (dbase w)))"
    "rows (sessions ?d) = filter (\<lambda>(j, s). \<not> ses_user_id s = i) (rows (sessions (dbase w)))"
    "access_requests ?d = tbl_update_where (\<lambda>a. acc_approved_user_id a = Some i) ?clear (access_requests (dbase w))"
    using Some by (simp_all add: delete_user_def Let_def destroy_all_user_sessions_def tbl_delete_def
        tbl_rows_delete_where)
  have gets: "tbl_get (users ?d) j = (if j = i then None else tbl_get (users (dbase w)) j)" for j
    using Some by (simp add: delete_user_def Let_def destroy_all_user_sessions_def tbl_simps)
  have oks: "tbl_ok (users ?d)" "tbl_ok (sessions ?d)" "tbl_ok (access_requests ?d)"
    using assms Some by (simp_all add: accounts_ok_def delete_user_def Let_def destroy_all_user_sessions_def)
  have keys: "map request_key (rows (access_requests ?d)) = map request_key (rows (access_requests (dbase w)))"
    by (auto simp: rows rows_update_where request_key_def)
  have refs: "\<forall>(j, a) \<in> set (rows (access_requests ?d)). \<forall>uid. acc_approved_user_id a = Some uid \<longrightarrow>
      tbl_get (users ?d) uid \<noteq> None"
    using assms by (fastforce simp: rows rows_update_where gets accounts_ok_def split: if_splits)
  have sess: "\<forall>(j, s) \<in> set (rows (sessions ?d)). tbl_get (users ?d) (ses_user_id s) \<noteq> None"
    using assms by (auto simp: rows gets accounts_ok_def)
  have "distinct (map (usr_username \<circ> snd) (rows (users ?d)))" "distinct (map (ses_token \<circ> snd) (rows (sessions ?d)))"
    using assms by (auto simp: rows(1,2) accounts_ok_def intro!: distinct_map_filterI)
  with keys refs sess oks assms show ?thesis by (simp only: accounts_ok_def simp_thms)
qed

lemma grant_account_ok:
  assumes "grant_account scrypt rnd salt admin a role w = Some (w', uid)" "accounts_ok (dbase w)"
  shows "accounts_ok (dbase w') \<and> tbl_get (users (dbase w')) uid \<noteq> None"
proof (cases "tbl_find (matches_identity (js_lower (acc_email a)) (opt_or (str_or_null (acc_provider_user_id a)) [])) (users (dbase w))")
  case None
  with assms(1) obtain nm pw dn opts u where "create_user scrypt salt nm pw dn (role_text role) opts w = Inr (w', u)" "uid = au_id u"
    by (auto simp: grant_account_def Let_def split: sum.splits)
  with create_user_accounts_ok(1,3) [OF this(1) assms(2)] show ?thesis by simp
next
  case (Some x)
  obtain i u where x: "x = (i, u)" by (cases x)
  have "(i, u) \<in> set (rows (users (dbase w)))" using Some x by (auto dest: tbl_find_SomeD)
  then have "tbl_get (users (dbase w)) i = Some u" using assms(2) by (simp add: accounts_ok_def tbl_get_iff)
  then show ?thesis
    using assms Some x by (auto simp: grant_account_def Let_def set_users_def tbl_simps intro!: users_update_ok)
qed

lemma upsert_accounts_ok:
  assumes "accounts_ok (dbase w)"
  shows "accounts_ok (dbase (upsert_access_request email sub dn avatar w))"
proof (cases "tbl_find (\<lambda>a. acc_email a = js_lower email \<and> acc_provider a = ''google'') (access_requests (dbase w))")
  case None
  then have "(js_lower email, ''google'') \<notin> set (map request_key (rows (access_requests (dbase w))))"
    by (force simp: tbl_find_None_iff request_key_def)
  with request_insert_ok [OF assms] None show ?thesis
    by (simp add: upsert_access_request_def Let_def set_requests_def)
next
  case (Some x)
  then show ?thesis
    using assms by (auto simp: upsert_access_request_def Let_def set_requests_def intro!: requests_update_ok(2))
qed

lemma google_login_accounts_ok:
  assumes "accounts_ok (dbase w)"
  shows "accounts_ok (dbase (fst (google_login_with rnd e r p w)))"
proof (cases "tbl_find (matches_identity (google_email p) (google_sub p)) (users (dbase w))")
  case None
  then show ?thesis using assms by (simp add: google_login_with_def Let_def upsert_accounts_ok)
next
  case (Some x)
  obtain i u where x: "x = (i, u)" by (cases x)
  show ?thesis
  proof (cases "usr_is_approved u = 1")
    case False
    then show ?thesis using assms Some x by (simp add: google_login_with_def Let_def upsert_accounts_ok)
  next
    case True
    let ?f = "\<lambda>u. u\<lparr>usr_provider := ''google'', usr_provider_user_id := Some (google_sub p),
      usr_email := Some (google_email p),
      usr_avatar_url := (case str_or_null (gp_picture p) of None \<Rightarrow> usr_avatar_url u | Some x \<Rightarrow> Some x),
      usr_updated_at := now_s w\<rparr>"
    have "accounts_ok (dbase (set_users (tbl_update i ?f (users (dbase w))) w))"
      using assms by (auto simp: set_users_def intro!: users_update_ok)
    with True show ?thesis
      using Some x by (auto simp: google_login_with_def Let_def split: option.splits dest: create_session_accounts_ok)
  qed
qed

section \<open>All requests\<close>

datatype account_event =
    Login "(string \<times> string) option" string
  | Logout
  | Patch_Me "profile_body option" string
  | Post_Users "create_user_body validated" string
  | Put_Users "update_user_body option" string
  | Delete_Users "id_value option option option"
  | Access_Action "access_action_body validated" string string
  | Google_Login_With string string
  | Wait int

text \<open>One request, or time passing. The texts are the random bytes of the request.\<close>

definition account_step ::
  "kdf \<Rightarrow> (string \<Rightarrow> google_answer) \<Rightarrow> env \<Rightarrow> account_event \<times> request \<Rightarrow> world \<Rightarrow> world" where
  "account_step scrypt fetch e ev w =
     (case ev of (x, r) \<Rightarrow> (case x of
        Login b rnd \<Rightarrow> fst (post_login scrypt rnd b e r w)
      | Logout \<Rightarrow> fst (post_logout e r w)
      | Patch_Me b salt \<Rightarrow> fst (patch_me scrypt salt b e r w)
      | Post_Users b salt \<Rightarrow> fst (post_users scrypt salt b e r w)
      | Put_Users b salt \<Rightarrow> fst (put_users scrypt salt b e r w)
      | Delete_Users b \<Rightarrow> fst (delete_users b e r w)
      | Access_Action b rnd salt \<Rightarrow> fst (post_access_requests scrypt rnd salt b e r w)
      | Google_Login_With cred rnd \<Rightarrow> fst (post_google fetch rnd cred e r w)
      | Wait ms \<Rightarrow> w\<lparr>clock := clock w + ms\<rparr>))"

lemma with_current_keeps:
  assumes "Q (dbase w)" "\<And>u. Q (dbase (fst (h u w)))"
  shows "Q (dbase (fst (with_current e r h w)))"
  using assms by (auto simp: with_current_def split: sum.splits)

lemma with_admin_keeps:
  assumes "Q (dbase w)" "\<And>u. Q (dbase (fst (h u w)))"
  shows "Q (dbase (fst (with_admin e r h w)))"
  unfolding with_admin_def by (rule with_current_keeps) (use assms in \<open>auto split: option.splits\<close>)

lemma login_accounts_ok:
  "accounts_ok (dbase w) \<Longrightarrow> accounts_ok (dbase (fst (login_with scrypt rnd e r b w)))"
  by (auto simp: login_with_def split: option.splits dest: create_session_accounts_ok)

lemma destroy_session_accounts_ok:
  "accounts_ok (dbase w) \<Longrightarrow> accounts_ok (dbase (destroy_session t w))"
  by (simp add: destroy_session_def sessions_delete_ok)

lemma logout_accounts_ok:
  assumes "accounts_ok (dbase w)"
  shows "accounts_ok (dbase (fst (post_logout e r w)))"
  unfolding post_logout_def
  by (rule with_current_keeps)
    (use assms in \<open>auto simp: Let_def destroy_session_accounts_ok split: sum.splits option.splits\<close>)

lemma patch_profile_ok:
  assumes "accounts_ok (dbase w)"
  shows "accounts_ok (dbase (fst (patch_profile scrypt salt r u b w)))"
proof (cases "profile_updates scrypt u b w")
  case (Inl x)
  then show ?thesis using assms by (cases x) (simp add: patch_profile_def)
next
  case (Inr ups)
  obtain w1 u1 where up: "update_user scrypt salt (au_id u) ups w = (w1, u1)" by fastforce
  then have "accounts_ok (dbase w1)"
    using update_user_accounts_ok [OF assms, of scrypt salt "au_id u" ups] by simp
  then show ?thesis
    using Inr up by (cases u1; cases "uu_display_name ups") (simp_all add: patch_profile_def Let_def)
qed

lemma patch_me_accounts_ok:
  assumes "accounts_ok (dbase w)"
  shows "accounts_ok (dbase (fst (patch_me scrypt salt b e r w)))"
  unfolding patch_me_def
  by (rule with_current_keeps) (use assms in \<open>auto simp: patch_profile_ok split: option.splits\<close>)

lemma create_user_with_ok:
  "accounts_ok (dbase w) \<Longrightarrow> accounts_ok (dbase (fst (create_user_with scrypt salt r cu b w)))"
  by (auto simp: create_user_with_def split: sum.splits dest: create_user_accounts_ok(1))

lemma update_user_with_ok:
  assumes "accounts_ok (dbase w)"
  shows "accounts_ok (dbase (fst (update_user_with scrypt salt r b cu w)))"
proof -
  have "accounts_ok (dbase (fst (case update_user scrypt salt i ups w of
      (w1, None) \<Rightarrow> (w1, Fail 404 m) | (w1, Some u) \<Rightarrow> (log_audit_event ac ar ai tt ti dt ip ua w1, x u :: account_body response))))"
    for i ups m ac ar ai tt ti dt ip ua x
    using update_user_accounts_ok [OF assms, of scrypt salt i ups]
    by (cases "update_user scrypt salt i ups w"; cases "snd (update_user scrypt salt i ups w)") simp_all
  with assms show ?thesis by (auto simp: update_user_with_def Let_def split: option.splits)
qed

lemma delete_user_with_ok:
  assumes "accounts_ok (dbase w)"
  shows "accounts_ok (dbase (fst (delete_user_with r b cu w)))"
proof -
  have "accounts_ok (dbase (fst (case delete_user i w of (w1, deleted) \<Rightarrow>
      if \<not> deleted then (w1, Fail 404 m) else (log_audit_event ac ar ai tt ti dt ip ua w1, x :: account_body response))))"
    for i m ac ar ai tt ti dt ip ua x
    using delete_user_accounts_ok [OF assms, of i] by (cases "delete_user i w") simp
  with assms show ?thesis by (auto simp: delete_user_with_def split: option.splits)
qed

lemma approve_accounts_ok:
  assumes "accounts_ok (dbase w)"
  shows "accounts_ok (dbase (fst (approve_access scrypt rnd salt admin i a b w)))"
proof (cases "grant_account scrypt rnd salt admin a (ab_role b) w")
  case (Some x)
  obtain w1 uid where x: "x = (w1, uid)" by (cases x)
  have "accounts_ok (dbase w1)" "tbl_get (users (dbase w1)) uid \<noteq> None"
    using grant_account_ok [OF _ assms] Some x by simp_all
  then have "accounts_ok (dbase (set_requests (tbl_update i (\<lambda>x. x\<lparr>acc_status := ''approved'',
      acc_reviewed_by := Some (au_username admin), acc_reviewed_at := Some (now_s w),
      acc_review_note := ab_note b, acc_approved_user_id := Some uid\<rparr>) (access_requests (dbase w1))) w1))"
    unfolding dbase_set_requests by (intro requests_update_ok(1)) simp_all
  with \<open>tbl_get (users (dbase w1)) uid \<noteq> None\<close> Some x show ?thesis
    by (cases "tbl_get (users (dbase w1)) uid") (simp_all add: approve_access_def Let_def set_requests_def)
qed (use assms in \<open>simp add: approve_access_def\<close>)

lemma access_action_ok:
  assumes "accounts_ok (dbase w)"
  shows "accounts_ok (dbase (fst (access_action_with scrypt rnd salt admin b w)))"
proof -
  have "accounts_ok (dbase (reject_access admin i a b w))" for i a
    using assms by (auto simp: reject_access_def set_requests_def intro!: requests_update_ok(1))
  then show ?thesis
    using assms by (auto simp: access_action_with_def approve_accounts_ok split: option.splits access_action.splits)
qed

lemma account_step_ok:
  assumes "accounts_ok (dbase w)"
  shows "accounts_ok (dbase (account_step scrypt fetch e ev w))"
proof -
  obtain x r where ev: "ev = (x, r)" by (cases ev)
  note wrap = with_admin_keeps [of accounts_ok, OF assms] with_limit_keeps [of accounts_ok, OF assms]
    with_limit_keeps [of accounts_ok] with_body_keeps [of accounts_ok]
  have "accounts_ok (dbase (fst (post_users scrypt salt b e r w)))" for b salt
    unfolding post_users_def by (intro wrap assms) (auto intro: wrap create_user_with_ok)
  moreover have "accounts_ok (dbase (fst (put_users scrypt salt b e r w)))" for b salt
    unfolding put_users_def by (intro wrap update_user_with_ok assms)
  moreover have "accounts_ok (dbase (fst (delete_users b e r w)))" for b
    unfolding delete_users_def by (intro wrap delete_user_with_ok assms)
  moreover have "accounts_ok (dbase (fst (post_access_requests scrypt rnd salt b e r w)))" for b rnd salt
    unfolding post_access_requests_def by (intro wrap assms) (auto intro: wrap access_action_ok)
  moreover have "accounts_ok (dbase (fst (post_login scrypt rnd b e r w)))" for b rnd
    unfolding post_login_def by (intro wrap login_accounts_ok)
  moreover have "accounts_ok (dbase (fst (post_google fetch rnd c e r w)))" for c rnd
    using assms by (auto simp: post_google_def google_login_accounts_ok split: sum.splits)
  ultimately show ?thesis
    using assms
    by (cases x) (simp_all add: ev account_step_def logout_accounts_ok patch_me_accounts_ok)
qed

interpretation accounts: invariant_machine "account_step scrypt fetch e" "\<lambda>w. accounts_ok (dbase w)"
  for scrypt fetch e
  by unfold_locales (rule account_step_ok)

section \<open>Who is let in\<close>

lemma tbl_find_Some_split:
  "tbl_find P t = Some (i, u) \<longleftrightarrow>
     (\<exists>xs ys. rows t = xs @ (i, u) # ys \<and> P u \<and> (\<forall>x \<in> set xs. \<not> P (snd x)))"
proof -
  have "tbl_find P t = Some (i, u) \<longleftrightarrow> (\<exists>zs. tbl_select P t = (i, u) # zs)"
    by (auto simp: tbl_find_def split: list.splits)
  also have "\<dots> \<longleftrightarrow> (\<exists>xs ys. rows t = xs @ (i, u) # ys \<and> P u \<and> (\<forall>x \<in> set xs. \<not> P (snd x)))"
    by (simp add: tbl_select_def filter_eq_Cons_iff case_prod_unfold) blast
  finally show ?thesis .
qed

lemma tbl_find_update:
  assumes "tbl_ok t" "tbl_find P t = Some (i, u)" "P (f u)"
  shows "tbl_find P (tbl_update i f t) = Some (i, f u)"
proof -
  obtain xs ys where r: "rows t = xs @ (i, u) # ys" "\<forall>x \<in> set xs. \<not> P (snd x)"
    using assms(2) by (auto simp: tbl_find_Some_split)
  have "i \<notin> fst ` set xs" using assms(1) r(1) by (auto simp: tbl_ok_def tbl_ids_def)
  then have "map (\<lambda>(j, x). (j, if j = i then f x else x)) xs = xs" by (intro map_idI) force
  then have "rows (tbl_update i f t) = xs @ (i, f u) # map (\<lambda>(j, x). (j, if j = i then f x else x)) ys"
    by (simp add: rows_update r)
  then show ?thesis using r(2) assms(3) by (auto simp: tbl_find_Some_split)
qed

lemma tbl_find_insert:
  "tbl_find P t = None \<Longrightarrow> P u \<Longrightarrow> tbl_find P (tbl_insert u t) = Some (next_id t, u)"
  by (auto simp: tbl_find_def tbl_select_insert split: list.splits)

lemma tbl_find_get: "tbl_ok t \<Longrightarrow> tbl_find P t = Some (i, u) \<Longrightarrow> tbl_get t i = Some u \<and> P u"
  using tbl_find_SomeD [of P t i u] by (simp add: tbl_get_iff)

text \<open>A session that was just opened is valid, for the user it was opened for.\<close>

lemma opened_session_valid:
  assumes "create_session rnd uid ip ua w = Some (w', tok, ex)" "accounts_ok (dbase w)" "rnd \<noteq> []"
    and "tbl_get (users (dbase w)) uid = Some u"
  shows "\<exists>au sid. validate_session tok w' = Some (au, sid) \<and> au_id au = uid \<and> au_role au = usr_role u"
proof -
  obtain row where row: "tok = to_hex rnd" "ex = now_s w + session_duration"
    "ses_user_id row = uid" "ses_expires_at row = ex" "ses_token row = tok"
    "\<And>i s. ses_token s = tok \<Longrightarrow> (i, s) \<in> set (rows (sessions (dbase w'))) \<longleftrightarrow>
       i = next_id (sessions (dbase w)) \<and> s = row"
    using create_session_rows [OF assms(1) accounts_ok_auth [OF assms(2)]] by metis
  have "\<exists>u'. tbl_get (users (dbase w')) uid = Some u' \<and> usr_role u' = usr_role u" "now_s w' = now_s w"
    using assms(1,4) by (auto simp: create_session_def Let_def tbl_simps now_s_def split: if_splits)
  then obtain u' where u': "tbl_get (users (dbase w')) uid = Some u'" "usr_role u' = usr_role u" "now_s w' < ex"
    using row(2) by (auto simp: session_duration_def)
  have "auth_ok w'" by (rule accounts_ok_auth [OF create_session_accounts_ok [OF assms(1,2)]])
  note iff = validate_session_iff [OF this, of tok "auth_user_of uid u'" "next_id (sessions (dbase w))"]
  have "(next_id (sessions (dbase w)), row) \<in> set (rows (sessions (dbase w')))" "tok \<noteq> []"
    using row(6) [OF row(5)] row(1) assms(3) by simp_all
  then have "validate_session tok w' = Some (auth_user_of uid u', next_id (sessions (dbase w)))"
    unfolding iff using row(3-5) u' by blast
  then show ?thesis using u'(2) by (simp add: auth_user_of_def)
qed

lemma validate_session_audit [simp]:
  "validate_session tok (log_audit_event ac ar ai tt ti dt ip ua w) = validate_session tok w"
  by (auto simp: validate_session_def Let_def split: list.split)

definition google_update :: "google_payload \<Rightarrow> int \<Rightarrow> user \<Rightarrow> user" where
  "google_update p now u = u\<lparr>usr_provider := ''google'', usr_provider_user_id := Some (google_sub p),
     usr_email := Some (google_email p),
     usr_avatar_url := (case str_or_null (gp_picture p) of None \<Rightarrow> usr_avatar_url u | Some x \<Rightarrow> Some x),
     usr_updated_at := now\<rparr>"

text \<open>The three ways a login through Google ends, once the token is verified.\<close>

lemma google_login_cases:
  assumes "google_login_with rnd e r p w = (w', a)"
  obtains (pending) "\<not> (\<exists>i u. tbl_find (matches_identity (google_email p) (google_sub p)) (users (dbase w)) = Some (i, u)
        \<and> usr_is_approved u = 1)" "sessions (dbase w') = sessions (dbase w)" "a = Fail 403 ''Access request pending admin approval''"
  | (failed) "sessions (dbase w') = sessions (dbase w)" "a = Fail 400 ''UNIQUE constraint failed: user_sessions.token''"
  | (opened) i u w1 w2 tok ex v where "tbl_find (matches_identity (google_email p) (google_sub p)) (users (dbase w)) = Some (i, u)"
      "usr_is_approved u = 1"
      "w1 = set_users (tbl_update i (google_update p (now_s w)) (users (dbase w))) w"
      "create_session rnd i (Some (request_ip r)) (user_agent r) w1 = Some (w2, tok, ex)"
      "w' = log_audit_event ''login_google'' (usr_username u) (Some i) None None None (Some (request_ip r)) (user_agent r) w2"
      "a = Reply 200 (Logged_In v tok (session_cookie_options e (ex - now_s w2)))"
      "uv_id v = i" "uv_role v = usr_role u"
proof (cases "\<exists>i u. tbl_find (matches_identity (google_email p) (google_sub p)) (users (dbase w)) = Some (i, u) \<and> usr_is_approved u = 1")
  case False
  then have "w' = fst (google_login_with rnd e r p w)" "sessions (dbase w') = sessions (dbase w)"
    "a = Fail 403 ''Access request pending admin approval''"
    using assms by (auto simp: google_login_with_def Let_def google_email_def google_sub_def upsert_access_request_def
        split: option.splits prod.splits if_splits)
  with False show thesis by (intro pending)
next
  case True
  then obtain i u where u: "tbl_find (matches_identity (google_email p) (google_sub p)) (users (dbase w)) = Some (i, u)"
    "usr_is_approved u = 1" by blast
  define w1 where "w1 = set_users (tbl_update i (google_update p (now_s w)) (users (dbase w))) w"
  have upd: "(\<lambda>u. u\<lparr>usr_provider := ''google'', usr_provider_user_id := Some (js_trim (opt_or (gp_sub p) [])),
      usr_email := Some (js_trim (js_lower (opt_or (gp_email p) []))),
      usr_avatar_url := (case str_or_null (gp_picture p) of None \<Rightarrow> usr_avatar_url u | Some x \<Rightarrow> Some x),
      usr_updated_at := now_s w\<rparr>) = google_update p (now_s w)"
    by (simp add: google_update_def [abs_def] google_email_def google_sub_def)
  show thesis
  proof (cases "create_session rnd i (Some (request_ip r)) (user_agent r) w1")
    case None
    then have "w' = w1" "a = Fail 400 ''UNIQUE constraint failed: user_sessions.token''"
      using assms u by (simp_all add: google_login_with_def Let_def google_email_def google_sub_def w1_def google_update_def [abs_def])
    then show thesis by (intro failed) (simp_all add: w1_def set_users_def)
  next
    case (Some x)
    obtain w2 tok ex where x: "x = (w2, tok, ex)" by (cases x)
    show thesis
      by (rule opened [OF u w1_def Some [unfolded x], where v = "\<lparr>uv_id = i, uv_username = usr_username u,
          uv_display_name = usr_display_name u, uv_role = usr_role u, uv_provider = ''google'',
          uv_email = Some (google_email p), uv_avatar_url = str_or_null (gp_picture p)\<rparr>"])
        (use assms u Some x in \<open>simp_all add: google_login_with_def Let_def google_email_def google_sub_def w1_def google_update_def [abs_def]\<close>)
  qed
qed

lemma login_opened:
  assumes "login_with scrypt rnd e r body w = (w', Reply 200 (Logged_In v tok co))" "tbl_ok (users (dbase w))"
  obtains name pw u w1 ex where "body = Some (name, pw)" "tbl_get (users (dbase w)) (uv_id v) = Some u"
    "usr_username u = name" "usr_is_approved u = 1" "verify_password scrypt pw (usr_password_hash u)"
    "create_session rnd (uv_id v) (Some (request_ip r)) (user_agent r) w = Some (w1, tok, ex)"
    "w' = log_audit_event ''login'' name (Some (uv_id v)) None None None (Some (request_ip r)) (user_agent r) w1"
proof -
  obtain name pw where b: "body = Some (name, pw)"
    using assms(1) by (auto simp: login_with_def split: option.splits)
  with assms(1) obtain au where au: "authenticate_user scrypt name pw w = Some au"
    by (auto simp: login_with_def split: option.splits if_splits)
  then obtain i u where u: "tbl_find (\<lambda>u. usr_username u = name) (users (dbase w)) = Some (i, u)"
    "usr_is_approved u = 1" "verify_password scrypt pw (usr_password_hash u)" "au = auth_user_of i u"
    by (auto simp: authenticate_user_def split: option.splits if_splits)
  have get: "tbl_get (users (dbase w)) i = Some u" "usr_username u = name"
    using tbl_find_get [OF assms(2) u(1)] by simp_all
  obtain w1 tok' ex where c: "create_session rnd i (Some (request_ip r)) (user_agent r) w = Some (w1, tok', ex)"
    using assms(1) b au u(4) by (auto simp: login_with_def split: option.splits if_splits)
  with assms(1) b au u(4) get have "uv_id v = i" "tok = tok'"
    "w' = log_audit_event ''login'' name (Some i) None None None (Some (request_ip r)) (user_agent r) w1"
    by (auto simp: login_with_def view_of_def auth_user_of_def split: if_splits)
  with that [OF b] u get c show thesis by simp
qed

section \<open>From a request for access to a login\<close>

lemma lower_char_idem: "lower_char (lower_char c) = lower_char c"
proof -
  have "(of_char (char_of (of_char c + 32 :: nat)) :: nat) = of_char c + 32" if "of_char c \<le> (90 :: nat)"
    using that by (simp add: of_char_of)
  then show ?thesis by (simp add: lower_char_def Let_def)
qed

lemma js_lower_trim: "js_lower (js_trim (js_lower s)) = js_trim (js_lower s)"
proof -
  have "set (js_trim x) \<subseteq> set x" for x
    by (auto simp: js_trim_def dest!: set_dropWhileD)
  then have "set (js_trim (js_lower s)) \<subseteq> lower_char ` set s"
    using js_lower_def set_map by metis
  then show ?thesis
    unfolding js_lower_def by (intro map_idI) (auto simp: lower_char_idem)
qed

definition granted_user :: "auth_user \<Rightarrow> role \<Rightarrow> string \<Rightarrow> string \<Rightarrow> user \<Rightarrow> bool" where
  "granted_user admin role email sub u \<longleftrightarrow> usr_role u = role_text role \<and> usr_is_approved u = 1 \<and>
     usr_provider u = ''google'' \<and> usr_provider_user_id u = Some sub \<and> usr_email u = Some email"

text \<open>A granted account is the first with that identity, approved and of the granted role.\<close>

lemma grant_account_found:
  assumes "accounts_ok (dbase w)" "acc_email a = email" "js_lower email = email"
    and "acc_provider_user_id a = Some sub" "sub \<noteq> []" "email \<noteq> []" "length rnd = 24"
  shows "\<exists>w1 uid u. grant_account scrypt rnd salt admin a role w = Some (w1, uid) \<and>
    tbl_find (matches_identity email sub) (users (dbase w1)) = Some (uid, u) \<and> granted_user admin role email sub u \<and>
    sessions (dbase w1) = sessions (dbase w)"
proof -
  have sub: "str_or_null (Some sub) = Some sub" "opt_or (Some sub) [] = sub"
    using assms(5) by (simp_all add: opt_or_def str_or_def)
  have ok: "tbl_ok (users (dbase w))" using assms(1) by (simp add: accounts_ok_def)
  show ?thesis
  proof (cases "tbl_find (matches_identity email sub) (users (dbase w))")
    case (Some x)
    obtain i u where x: "x = (i, u)" by (cases x)
    let ?f = "\<lambda>u. u\<lparr>usr_provider := ''google'', usr_provider_user_id := Some sub,
      usr_email := Some email, usr_avatar_url := (case str_or_null (acc_avatar_url a) of None \<Rightarrow> usr_avatar_url u | Some x \<Rightarrow> Some x),
      usr_is_approved := 1, usr_role := role_text role, usr_approved_by := Some (au_username admin),
      usr_approved_at := Some (now_s w), usr_updated_at := now_s w\<rparr>"
    have "tbl_find (matches_identity email sub) (tbl_update i ?f (users (dbase w))) = Some (i, ?f u)"
      using Some x by (intro tbl_find_update [OF ok]) (simp_all add: matches_identity_def)
    then show ?thesis
      using Some x assms(2-4)
      by (simp add: sub grant_account_def Let_def set_users_def granted_user_def)
  next
    case None
    let ?name = "ensure_unique_username (make_username email) w"
    have "?name \<notin> set (usernames w)" unfolding ensure_unique_username_def by (rule free_username_fresh)
    then have free: "tbl_find (\<lambda>u. usr_username u = ?name) (users (dbase w)) = None"
      by (force simp: usernames_def tbl_find_None_iff)
    have "length (to_hex rnd) = 48" using assms(7) by (simp add: to_hex_def length_concat comp_def Let_def sum_list_triv)
    then show ?thesis
      using None assms(2-6) free
      by (auto simp: sub grant_account_def Let_def create_user_def granted_user_def tbl_find_insert matches_identity_def
          opt_or_def str_or_def tbl_last_id_def)
  qed
qed

lemma grant_account_clock: "grant_account scrypt rnd salt admin a role w = Some (w1, uid) \<Longrightarrow> clock w1 = clock w"
  by (auto simp: grant_account_def create_user_def set_users_def Let_def split: option.splits sum.splits if_splits)

text \<open>A verified identity whose first match is approved is let in, unless the token is taken.\<close>

lemma google_login_opens:
  assumes "tbl_find (matches_identity (google_email p) (google_sub p)) (users (dbase w)) = Some (i, u)"
    and "usr_is_approved u = 1" "tbl_ok (users (dbase w))"
    and "tbl_find (\<lambda>s. ses_token s = to_hex rnd) (sessions (dbase w)) = None"
  shows "\<exists>w2 v co. google_login_with rnd e r p w = (w2, Reply 200 (Logged_In v (to_hex rnd) co)) \<and>
    uv_id v = i \<and> uv_role v = usr_role u"
proof -
  have "tbl_get (users (dbase w)) i = Some u" using tbl_find_get [OF assms(3,1)] by simp
  then show ?thesis
    using assms by (auto simp: google_login_with_def Let_def create_session_def set_users_def tbl_simps)
qed

text \<open>No update of a user ends its sessions: not a new password, not a withdrawn approval.\<close>

lemma updates_keep_sessions:
  assumes "auth_ok w" "validate_session tok w = Some (u, sid)"
  shows "\<exists>u'. validate_session tok (fst (update_user scrypt salt i up w)) = Some (u', sid) \<and> au_id u' = au_id u"
proof (cases "up = no_user_updates")
  case True
  then show ?thesis using assms by (simp add: update_user_def)
next
  case False
  let ?w = "fst (update_user scrypt salt i up w)"
  have d: "sessions (dbase ?w) = sessions (dbase w)" "now_s ?w = now_s w"
    "users (dbase ?w) = tbl_update i (apply_user_updates scrypt salt (now_s w) up) (users (dbase w))"
    using False by (simp_all add: update_user_def Let_def now_s_def)
  then have "auth_ok ?w" using assms(1) by (simp add: auth_ok_def tokens_unique_def)
  note iff = validate_session_iff [OF this] validate_session_iff [OF assms(1)]
  from assms(2) obtain s x where s: "(sid, s) \<in> set (rows (sessions (dbase w)))" "ses_token s = tok" "tok \<noteq> []"
    "now_s w < ses_expires_at s" "tbl_get (users (dbase w)) (ses_user_id s) = Some x" "u = auth_user_of (ses_user_id s) x"
    unfolding iff(2) by blast
  then obtain x' where "tbl_get (users (dbase ?w)) (ses_user_id s) = Some x'"
    by (cases "ses_user_id s = i") (simp_all add: d(3) tbl_simps)
  then have "validate_session tok ?w = Some (auth_user_of (ses_user_id s) x', sid)"
    unfolding iff(1) d(1,2) using s(1-4) by blast
  then show ?thesis using s(6) by simp
qed

section \<open>Properties\<close>

definition sample_kdf :: kdf where
  "sample_kdf p s = CHR ''k'' # p @ s"

definition sample_account :: user where
  "sample_account = sample_user\<lparr>usr_password_hash := hash_password sample_kdf ''s'' ''pw'', usr_email := Some ''ada@x.org''\<rparr>"

definition sample_accounts :: world where
  "sample_accounts = (world_at 5000)\<lparr>dbase := db_empty\<lparr>users := tbl_insert sample_account tbl_empty\<rparr>\<rparr>"

lemma sample_accounts_ok: "accounts_ok (dbase sample_accounts)"
  by (simp add: accounts_ok_def sample_accounts_def world_at_def db_empty_def rows_insert)
    (simp add: tbl_empty_def)

definition sample_payload :: google_payload where
  "sample_payload = \<lparr>gp_aud = None, gp_email = Some ''Bob@x.org'', gp_sub = Some ''7'',
     gp_email_verified = Some (JBool True), gp_name = None, gp_picture = None\<rparr>"

definition ada_payload :: google_payload where
  "ada_payload = sample_payload\<lparr>gp_email := Some '' Ada@x.org''\<rparr>"

definition sample_access :: access_request where
  "sample_access = \<lparr>acc_provider = ''google'', acc_email = ''bob@x.org'', acc_provider_user_id = Some ''7'',
     acc_display_name = Some ''bob'', acc_avatar_url = None, acc_status = ''pending'', acc_requested_at = 1,
     acc_last_attempt_at = 1, acc_attempt_count = 1, acc_reviewed_by = None, acc_reviewed_at = None,
     acc_review_note = None, acc_approved_user_id = None\<rparr>"

text \<open>
  The guard that keeps an administrator from changing the own role compares the id of the
  body with \<open>===\<close>: the id as a text passes it, and the database still finds the row.
\<close>

definition demotion :: "id_value \<Rightarrow> update_user_body" where
  "demotion v = \<lparr>ub_id = Some v, ub_display_name = None, ub_role = Some ''viewer'', ub_password = None,
     ub_is_approved = None, ub_email = None, ub_avatar_url = None\<rparr>"

lemma own_role_by_text_id:
  "snd (update_user_with sample_kdf [] sample_request (Some (demotion (Id_Num 1)))
      ((auth_user_of 1 sample_account)\<lparr>au_role := ''admin''\<rparr>) sample_accounts) = Fail 400 ''Cannot change your own role''"
  "case snd (update_user_with sample_kdf [] sample_request (Some (demotion (Id_Text ''1'')))
      ((auth_user_of 1 sample_account)\<lparr>au_role := ''admin''\<rparr>) sample_accounts) of
     Reply s (User_Saved v n) \<Rightarrow> uv_id v = 1 \<and> uv_role v = ''viewer'' | _ \<Rightarrow> False"
proof -
  have key: "user_key (Id_Num 1) = Some 1" "user_key (Id_Text ''1'') = Some 1"
    by (simp_all add: user_key_def row_id_def sql_number_def js_trim_def js_white_def string_number_def
        unsigned_number_def mantissa_def all_digits_def digits_value_def digit_val_def Let_def)
  note defs = update_user_with_def given_id_def demotion_def opt_or_def str_or_def auth_user_of_def Let_def key
  show "snd (update_user_with sample_kdf [] sample_request (Some (demotion (Id_Num 1)))
      ((auth_user_of 1 sample_account)\<lparr>au_role := ''admin''\<rparr>) sample_accounts) = Fail 400 ''Cannot change your own role''"
    by (simp add: defs)
  have "tbl_get (users (dbase sample_accounts)) 1 = Some sample_account"
    by (simp add: sample_accounts_def tbl_get_def tbl_insert_def tbl_empty_def world_at_def db_empty_def)
  then show "case snd (update_user_with sample_kdf [] sample_request (Some (demotion (Id_Text ''1'')))
      ((auth_user_of 1 sample_account)\<lparr>au_role := ''admin''\<rparr>) sample_accounts) of
     Reply s (User_Saved v n) \<Rightarrow> uv_id v = 1 \<and> uv_role v = ''viewer'' | _ \<Rightarrow> False"
    by (simp add: defs update_user_def body_updates_def no_user_updates_def get_user_by_id_def tbl_simps
        apply_user_updates_def view_of_def)
qed

text \<open>
  Claim C15. Whatever requests the account routes serve, in whatever order: user names and session
  tokens stay unique, no email has two requests for access, every session belongs to a user
  that exists, and so does every user an approved request points to.
\<close>

theorem accounts_integrity:
  assumes "accounts_ok (dbase w)" "d = dbase (fold (account_step scrypt fetch e) evs w)"
  shows "distinct (map (usr_username \<circ> snd) (rows (users d))) \<and>
    distinct (map (ses_token \<circ> snd) (rows (sessions d))) \<and>
    distinct (map request_key (rows (access_requests d))) \<and>
    list_all (\<lambda>(j, s). tbl_get (users d) (ses_user_id s) \<noteq> None) (rows (sessions d)) \<and>
    list_all (\<lambda>(j, a). case acc_approved_user_id a of None \<Rightarrow> True | Some uid \<Rightarrow> tbl_get (users d) uid \<noteq> None)
      (rows (access_requests d))"
  using accounts.run_inv [of w scrypt fetch e evs] assms
  by (auto simp: accounts_ok_def list_all_iff split: option.splits)

theorem accounts_integrity_witness:
  "distinct (map (usr_username \<circ> snd) (rows (users (dbase (fold
     (account_step sample_kdf (\<lambda>_. Google_Payload sample_payload) sample_env)
     [(Login (Some (''ada'', ''pw'')) ''r'', sample_request), (Google_Login_With ''c'' ''q'', sample_request),
      (Access_Action (VData \<lparr>ab_request_id = 1, ab_action = Approve, ab_role = Operator, ab_note = None\<rparr>)
        (replicate 24 CHR ''x'') ''s'', admin_request)] sample_accounts)))))"
  using accounts_integrity [OF sample_accounts_ok refl] by blast

text \<open>
  Claim C14. A login, with a password or through Google, is answered with a session only for an
  approved user: one with that name and a password that verifies, or one with the email or
  the Google identity of a token that Google confirmed for this application. The session in
  the answer is valid at once, for that very user with the role stored for it.
\<close>

theorem login_sound:
  assumes "accounts_ok (dbase w)" "rnd \<noteq> []"
    and "post_login scrypt rnd body e r w = (w', Reply 200 (Logged_In v tok co)) \<or>
      post_google fetch rnd cred e r w = (w', Reply 200 (Logged_In v tok co))"
  shows "\<exists>u au sid. tbl_get (users (dbase w)) (uv_id v) = Some u \<and> usr_is_approved u = 1 \<and>
    validate_session tok w' = Some (au, sid) \<and> au_id au = uv_id v \<and> au_role au = usr_role u \<and>
    ((\<exists>name pw. body = Some (name, pw) \<and> usr_username u = name \<and> verify_password scrypt pw (usr_password_hash u)) \<or>
     (\<exists>p. verify_google_id_token fetch e cred = Inr p \<and> matches_identity (google_email p) (google_sub p) u))"
  using assms(3)
proof
  assume "post_login scrypt rnd body e r w = (w', Reply 200 (Logged_In v tok co))"
  then show ?thesis
    unfolding post_login_def
  proof (cases rule: with_limit_cases)
    case (passed w0)
    have ok: "accounts_ok (dbase w0)" "tbl_ok (users (dbase w0))"
      using assms(1) passed(1) by (simp_all add: accounts_ok_def)
    from login_opened [OF passed(4) ok(2)] obtain name pw u w1 ex where l: "body = Some (name, pw)"
      "tbl_get (users (dbase w0)) (uv_id v) = Some u" "usr_username u = name" "usr_is_approved u = 1"
      "verify_password scrypt pw (usr_password_hash u)"
      "create_session rnd (uv_id v) (Some (request_ip r)) (user_agent r) w0 = Some (w1, tok, ex)"
      "w' = log_audit_event ''login'' name (Some (uv_id v)) None None None (Some (request_ip r)) (user_agent r) w1" .
    from opened_session_valid [OF l(6) ok(1) assms(2) l(2)] l passed(1) show ?thesis by auto
  qed simp
next
  assume "post_google fetch rnd cred e r w = (w', Reply 200 (Logged_In v tok co))"
  then obtain p where p: "verify_google_id_token fetch e cred = Inr p"
    "google_login_with rnd e r p w = (w', Reply 200 (Logged_In v tok co))"
    by (auto simp: post_google_def split: sum.splits)
  from p(2) show ?thesis
  proof (cases rule: google_login_cases)
    case (opened i u w1 w2 tok' ex v')
    have ok: "tbl_ok (users (dbase w))" using assms(1) by (simp add: accounts_ok_def)
    note find = tbl_find_get [OF ok opened(1)]
    have "accounts_ok (dbase w1)"
      unfolding opened(3) set_users_def using users_update_ok [OF assms(1), of "google_update p (now_s w)" i]
      by (simp add: google_update_def)
    moreover have "tbl_get (users (dbase w1)) i = Some (google_update p (now_s w) u)"
      using find by (simp add: opened(3) set_users_def tbl_simps)
    ultimately obtain au sid where "validate_session tok' w2 = Some (au, sid)" "au_id au = i" "au_role au = usr_role u"
      using opened_session_valid [OF opened(4) _ assms(2)] by (auto simp: google_update_def)
    then show ?thesis using find opened p(1) by auto
  qed simp_all
qed

theorem login_sound_witness:
  "\<exists>w' v tok co u au sid. post_google (\<lambda>_. Google_Payload ada_payload) ''r'' ''c'' sample_env sample_request sample_accounts
      = (w', Reply 200 (Logged_In v tok co)) \<and> tbl_get (users (dbase sample_accounts)) (uv_id v) = Some u \<and>
    usr_is_approved u = 1 \<and> validate_session tok w' = Some (au, sid) \<and> au_id au = uv_id v"
proof -
  have email: "google_email ada_payload = ''ada@x.org''" "js_lower ''ada@x.org'' = ''ada@x.org''" by code_simp+
  have find: "tbl_find (matches_identity (google_email ada_payload) (google_sub ada_payload)) (users (dbase sample_accounts))
      = Some (1, sample_account)"
    by (simp add: email matches_identity_def sample_accounts_def world_at_def db_empty_def tbl_find_def tbl_select_insert
        sample_account_def) (simp add: tbl_select_def tbl_empty_def)
  have verified: "verify_google_id_token (\<lambda>_. Google_Payload ada_payload) sample_env ''c'' = Inr ada_payload"
    by (simp add: verify_google_id_token_def google_audience_def sample_env_def env_or_def opt_or_def str_or_def
        js_trim_def js_white_def ada_payload_def sample_payload_def str_or_null_def)
  have "tbl_find (\<lambda>s. ses_token s = to_hex ''r'') (sessions (dbase sample_accounts)) = None"
    by (simp add: sample_accounts_def world_at_def db_empty_def tbl_find_None_iff) (simp add: tbl_empty_def)
  from google_login_opens [OF find _ _ this, of sample_env sample_request] sample_accounts_ok
  obtain w2 v co where "google_login_with ''r'' sample_env sample_request ada_payload sample_accounts
      = (w2, Reply 200 (Logged_In v (to_hex ''r'') co))"
    by (auto simp: accounts_ok_def sample_account_def sample_user_def)
  then have run: "post_google (\<lambda>_. Google_Payload ada_payload) ''r'' ''c'' sample_env sample_request sample_accounts
      = (w2, Reply 200 (Logged_In v (to_hex ''r'') co))"
    by (simp add: post_google_def verified)
  show ?thesis
    using login_sound [OF sample_accounts_ok _ disjI2 [OF run]] run by blast
qed

text \<open>
  When an administrator approves a request for access, the very next login with the
  Google identity of that request succeeds, for the account the approval names and with the
  role it grants, whether the account existed before or not.
\<close>

theorem approval_leads_to_login:
  assumes "accounts_ok (dbase w)"
    and "acc_email a = google_email p" "acc_provider_user_id a = Some (google_sub p)" "google_sub p \<noteq> []" "google_email p \<noteq> []"
    and "length rnd = 24"
    and "tbl_find (\<lambda>s. ses_token s = to_hex rnd') (sessions (dbase w)) = None"
  shows "\<exists>w1 uid u w2 v co. approve_access scrypt rnd salt admin i a b w = (w1, Reply 200 (Granted_Access uid u)) \<and>
    google_login_with rnd' e r p w1 = (w2, Reply 200 (Logged_In v (to_hex rnd') co)) \<and>
    uv_id v = uid \<and> uv_role v = role_text (ab_role b)"
proof -
  have low: "js_lower (google_email p) = google_email p" by (simp add: google_email_def js_lower_trim)
  obtain w0 uid u where g: "grant_account scrypt rnd salt admin a (ab_role b) w = Some (w0, uid)"
    "tbl_find (matches_identity (google_email p) (google_sub p)) (users (dbase w0)) = Some (uid, u)"
    "granted_user admin (ab_role b) (google_email p) (google_sub p) u" "sessions (dbase w0) = sessions (dbase w)"
    using grant_account_found [OF assms(1,2) low assms(3-6)] by blast
  have ok: "tbl_ok (users (dbase w0))" using grant_account_ok [OF g(1) assms(1)] by (simp add: accounts_ok_def)
  have get: "tbl_get (users (dbase w0)) uid = Some u" using tbl_find_get [OF ok g(2)] by simp
  obtain w1 where w1: "approve_access scrypt rnd salt admin i a b w = (w1, Reply 200 (Granted_Access uid u))"
    "users (dbase w1) = users (dbase w0)" "sessions (dbase w1) = sessions (dbase w0)"
    using g(1) get by (simp add: approve_access_def Let_def)
  from google_login_opens [of p w1 uid u rnd' e r] w1(2,3) g ok assms(7)
  obtain w2 v co where "google_login_with rnd' e r p w1 = (w2, Reply 200 (Logged_In v (to_hex rnd') co))"
    "uv_id v = uid" "uv_role v = usr_role u"
    by (auto simp: granted_user_def)
  with w1(1) g(3) show ?thesis by (auto simp: granted_user_def)
qed

theorem approval_leads_to_login_witness:
  "\<exists>w1 uid u w2 v co. approve_access sample_kdf (replicate 24 CHR ''x'') ''s'' api_user 1 sample_access
      \<lparr>ab_request_id = 1, ab_action = Approve, ab_role = Operator, ab_note = None\<rparr> sample_accounts
      = (w1, Reply 200 (Granted_Access uid u)) \<and>
    google_login_with ''q'' sample_env sample_request sample_payload w1 = (w2, Reply 200 (Logged_In v (to_hex ''q'') co)) \<and>
    uv_id v = uid \<and> uv_role v = ''operator''"
proof -
  have "acc_email sample_access = google_email sample_payload" "google_email sample_payload \<noteq> []"
    "acc_provider_user_id sample_access = Some (google_sub sample_payload)" "google_sub sample_payload \<noteq> []"
    by code_simp+
  moreover have "tbl_find (\<lambda>s. ses_token s = to_hex ''q'') (sessions (dbase sample_accounts)) = None"
    by (simp add: sample_accounts_def world_at_def db_empty_def tbl_find_None_iff) (simp add: tbl_empty_def)
  ultimately show ?thesis
    using approval_leads_to_login [OF sample_accounts_ok, of sample_access sample_payload "replicate 24 CHR ''x''" "''q''" sample_kdf "''s''" api_user 1
        "\<lparr>ab_request_id = 1, ab_action = Approve, ab_role = Operator, ab_note = None\<rparr>" sample_env sample_request]
    by simp
qed

end
