(* ===== verification/Js_Objects.thy ===== *)
theory Js_Objects
  imports Js_Values
begin

text \<open>
  JavaScript objects as lists of properties with distinct names in the order of their
  insertion: assignment, spreading, and what \<open>JSON.stringify\<close> keeps. A property may be there
  with the value \<open>undefined\<close> (\<open>None\<close>) until the object is serialised. Names that look like array
  indices are not moved to the front, and \<open>__proto__\<close> is an ordinary name.
\<close>

type_synonym 'v props = "(string \<times> 'v) list"
type_synonym obj = "json props"

text \<open>\<open>o[k] = v\<close>: a property that exists keeps its place.\<close>

fun obj_set :: "string \<Rightarrow> 'v \<Rightarrow> 'v props \<Rightarrow> 'v props" where
  "obj_set k v [] = [(k, v)]"
| "obj_set k v ((k', v') # ob) = (if k' = k then (k, v) # ob else (k', v') # obj_set k v ob)"

text \<open>\<open>{ ...o, ...updates }\<close>.\<close>

definition spread :: "'v props \<Rightarrow> 'v props \<Rightarrow> 'v props" where
  "spread ob updates = fold (\<lambda>(k, v). obj_set k v) updates ob"

definition fld :: "obj \<Rightarrow> string \<Rightarrow> json" where
  "fld ob k = (case map_of ob k of None \<Rightarrow> JNull | Some v \<Rightarrow> v)"

fun members :: "json \<Rightarrow> obj" where
  "members (JObj kvs) = kvs"
| "members _ = []"

text \<open>Serialising drops the properties that are \<open>undefined\<close>.\<close>

definition defined :: "'v option props \<Rightarrow> 'v props" where
  "defined ps = concat (map (\<lambda>(k, v). case v of None \<Rightarrow> [] | Some x \<Rightarrow> [(k, x)]) ps)"

definition given :: "'v props \<Rightarrow> 'v option props" where
  "given = map (\<lambda>(k, v). (k, Some v))"

section \<open>Reading what was written\<close>

lemma map_of_obj_set: "map_of (obj_set k v ob) k' = (if k' = k then Some v else map_of ob k')"
  by (induction ob) auto

lemma map_of_spread: "map_of (spread ob u) k = (case map_of (rev u) k of Some v \<Rightarrow> Some v | None \<Rightarrow> map_of ob k)"
proof (induction u rule: rev_induct)
  case (snoc x u)
  obtain k' v where x: "x = (k', v)" by (cases x)
  have "spread ob (u @ [(k', v)]) = obj_set k' v (spread ob u)" by (simp add: spread_def)
  with snoc x show ?case by (simp add: map_of_obj_set)
qed (simp add: spread_def)

lemma map_of_rev_distinct: "distinct (map fst u) \<Longrightarrow> map_of (rev u) k = map_of u k"
proof (induction u)
  case (Cons x u)
  obtain k' v where x: "x = (k', v)" by (cases x)
  have none: "map_of u k' = None" using Cons.prems by (simp add: x map_of_eq_None_iff)
  show ?case
    using Cons none by (cases "k = k'") (auto simp: x map_add_def split: option.splits)
qed simp

lemma map_of_spread_distinct:
  "distinct (map fst u) \<Longrightarrow> map_of (spread ob u) k = (case map_of u k of Some v \<Rightarrow> Some v | None \<Rightarrow> map_of ob k)"
  by (simp add: map_of_spread map_of_rev_distinct)

lemma obj_set_same: "map_of ob k = Some v \<Longrightarrow> obj_set k v ob = ob"
  by (induction ob) (auto split: if_splits)

lemma keys_obj_set: "fst ` set (obj_set k v ob) = insert k (fst ` set ob)"
proof (induction ob)
  case (Cons x ob)
  obtain k' v' where x: "x = (k', v')" by (cases x)
  show ?case by (simp add: x Cons image_Un insert_commute)
qed simp

lemma distinct_obj_set: "distinct (map fst ob) \<Longrightarrow> distinct (map fst (obj_set k v ob))"
proof (induction ob)
  case (Cons x ob)
  obtain k' v' where x: "x = (k', v')" by (cases x)
  show ?case using Cons keys_obj_set [of k v ob] by (auto simp: x image_iff)
qed simp

lemma spread_Nil [simp]: "spread ob [] = ob"
  by (simp add: spread_def)

end
