(* ===== verification/Client_Store.thy ===== *)
theory Client_Store
  imports Tasks Js_Objects
begin

text \<open>
  The state container of the browser (\<open>store/index.ts\<close>): the slices that hold data, and the
  operations on them. Items are JavaScript objects; a
  comparison with \<open>===\<close> of ids is the equality of JSON values. The clock in milliseconds
  is an argument where the code reads it. Which event of the server calls which operation
  (\<open>lib/use-server-events.ts\<close>) is the last section.
\<close>

section \<open>Items\<close>

definition has_id :: "json \<Rightarrow> obj \<Rightarrow> bool" where
  "has_id i ob \<longleftrightarrow> map_of ob ''id'' = Some i"

text \<open>\<open>xs.map(x => x.id === id ? { ...x, ...updates } : x)\<close>, and the same for a selected item.\<close>

definition update_by_id :: "json \<Rightarrow> obj \<Rightarrow> obj list \<Rightarrow> obj list" where
  "update_by_id i updates = map (\<lambda>x. if has_id i x then spread x updates else x)"

definition update_selected :: "json \<Rightarrow> obj \<Rightarrow> obj option \<Rightarrow> obj option" where
  "update_selected i updates = map_option (\<lambda>x. if has_id i x then spread x updates else x)"

definition drop_by_id :: "json \<Rightarrow> obj list \<Rightarrow> obj list" where
  "drop_by_id i = filter (\<lambda>x. \<not> has_id i x)"

definition drop_selected :: "json \<Rightarrow> obj option \<Rightarrow> obj option" where
  "drop_selected i x = (case x of None \<Rightarrow> None | Some ob \<Rightarrow> if has_id i ob then None else Some ob)"

section \<open>The state\<close>

record store =
  st_connection :: obj
  st_last_message :: json
  st_sessions :: "obj list"
  st_selected_session :: "string option"
  st_logs :: "obj list"
  st_log_filters :: obj
  st_spawn_requests :: "obj list"
  st_cron_jobs :: "obj list"
  st_memory_files :: "obj list"
  st_selected_memory_file :: "string option"
  st_memory_content :: "string option"
  st_tasks :: "obj list"
  st_selected_task :: "obj option"
  st_agents :: "obj list"
  st_selected_agent :: "obj option"
  st_activities :: "obj list"
  st_notifications :: "obj list"
  st_unread :: int
  st_task_comments :: "int \<Rightarrow> obj list option"
  st_chat_messages :: "obj list"
  st_conversations :: "obj list"
  st_active_conversation :: "string option"
  st_standup_reports :: "obj list"
  st_current_standup :: "obj option"
  st_current_user :: "obj option"

definition initial_store :: store where
  "initial_store =
     \<lparr>st_connection = [(''isConnected'', JBool False), (''url'', JStr []), (''reconnectAttempts'', JInt 0)],
      st_last_message = JNull, st_sessions = [], st_selected_session = None, st_logs = [], st_log_filters = [],
      st_spawn_requests = [], st_cron_jobs = [], st_memory_files = [], st_selected_memory_file = None,
      st_memory_content = None, st_tasks = [], st_selected_task = None, st_agents = [], st_selected_agent = None,
      st_activities = [], st_notifications = [], st_unread = 0, st_task_comments = (\<lambda>_. None),
      st_chat_messages = [], st_conversations = [], st_active_conversation = None, st_standup_reports = [],
      st_current_standup = None, st_current_user = None\<rparr>"

section \<open>Connection, sessions, logs\<close>

definition set_connection :: "obj \<Rightarrow> store \<Rightarrow> store" where
  "set_connection c s = s\<lparr>st_connection := spread (st_connection s) c\<rparr>"

definition set_last_message :: "json \<Rightarrow> store \<Rightarrow> store" where
  "set_last_message m s = s\<lparr>st_last_message := m\<rparr>"

definition set_sessions :: "obj list \<Rightarrow> store \<Rightarrow> store" where
  "set_sessions xs s = s\<lparr>st_sessions := xs\<rparr>"

definition set_selected_session :: "string option \<Rightarrow> store \<Rightarrow> store" where
  "set_selected_session x s = s\<lparr>st_selected_session := x\<rparr>"

definition update_session :: "json \<Rightarrow> obj \<Rightarrow> store \<Rightarrow> store" where
  "update_session i u s = s\<lparr>st_sessions := update_by_id i u (st_sessions s)\<rparr>"

text \<open>A log entry with a known id replaces the first one with that id.\<close>

fun replace_first :: "('x \<Rightarrow> bool) \<Rightarrow> 'x \<Rightarrow> 'x list \<Rightarrow> 'x list option" where
  "replace_first P y [] = None"
| "replace_first P y (x # xs) = (if P x then Some (y # xs) else map_option ((#) x) (replace_first P y xs))"

definition add_log :: "obj \<Rightarrow> store \<Rightarrow> store" where
  "add_log l s = s\<lparr>st_logs :=
     (case replace_first (\<lambda>x. map_of x ''id'' = map_of l ''id'') l (st_logs s) of
        Some logs \<Rightarrow> logs
      | None \<Rightarrow> take 1000 (l # st_logs s))\<rparr>"

definition set_log_filters :: "obj \<Rightarrow> store \<Rightarrow> store" where
  "set_log_filters f s = s\<lparr>st_log_filters := spread (st_log_filters s) f\<rparr>"

definition clear_logs :: "store \<Rightarrow> store" where
  "clear_logs s = s\<lparr>st_logs := []\<rparr>"

section \<open>Spawn requests, cron jobs, memory files, users\<close>

definition add_spawn_request :: "obj \<Rightarrow> store \<Rightarrow> store" where
  "add_spawn_request x s = s\<lparr>st_spawn_requests := x # st_spawn_requests s\<rparr>"

definition update_spawn_request :: "json \<Rightarrow> obj \<Rightarrow> store \<Rightarrow> store" where
  "update_spawn_request i u s = s\<lparr>st_spawn_requests := update_by_id i u (st_spawn_requests s)\<rparr>"

definition set_cron_jobs :: "obj list \<Rightarrow> store \<Rightarrow> store" where
  "set_cron_jobs xs s = s\<lparr>st_cron_jobs := xs\<rparr>"

definition update_cron_job :: "string \<Rightarrow> obj \<Rightarrow> store \<Rightarrow> store" where
  "update_cron_job name u s = s\<lparr>st_cron_jobs :=
     map (\<lambda>x. if map_of x ''name'' = Some (JStr name) then spread x u else x) (st_cron_jobs s)\<rparr>"

definition set_memory_files :: "obj list \<Rightarrow> store \<Rightarrow> store" where
  "set_memory_files xs s = s\<lparr>st_memory_files := xs\<rparr>"

definition set_selected_memory_file :: "string option \<Rightarrow> store \<Rightarrow> store" where
  "set_selected_memory_file x s = s\<lparr>st_selected_memory_file := x\<rparr>"

definition set_memory_content :: "string option \<Rightarrow> store \<Rightarrow> store" where
  "set_memory_content x s = s\<lparr>st_memory_content := x\<rparr>"

definition set_current_user :: "obj option \<Rightarrow> store \<Rightarrow> store" where
  "set_current_user x s = s\<lparr>st_current_user := x\<rparr>"

section \<open>Tasks and agents\<close>

definition store_tasks :: "obj list \<Rightarrow> store \<Rightarrow> store" where
  "store_tasks xs s = s\<lparr>st_tasks := xs\<rparr>"

definition set_selected_task :: "obj option \<Rightarrow> store \<Rightarrow> store" where
  "set_selected_task x s = s\<lparr>st_selected_task := x\<rparr>"

definition add_task :: "obj \<Rightarrow> store \<Rightarrow> store" where
  "add_task x s = s\<lparr>st_tasks := x # st_tasks s\<rparr>"

definition store_update_task :: "json \<Rightarrow> obj \<Rightarrow> store \<Rightarrow> store" where
  "store_update_task i u s = s\<lparr>st_tasks := update_by_id i u (st_tasks s),
     st_selected_task := update_selected i u (st_selected_task s)\<rparr>"

definition store_delete_task :: "json \<Rightarrow> store \<Rightarrow> store" where
  "store_delete_task i s = s\<lparr>st_tasks := drop_by_id i (st_tasks s),
     st_selected_task := drop_selected i (st_selected_task s)\<rparr>"

definition set_agents :: "obj list \<Rightarrow> store \<Rightarrow> store" where
  "set_agents xs s = s\<lparr>st_agents := xs\<rparr>"

definition set_selected_agent :: "obj option \<Rightarrow> store \<Rightarrow> store" where
  "set_selected_agent x s = s\<lparr>st_selected_agent := x\<rparr>"

definition add_agent :: "obj \<Rightarrow> store \<Rightarrow> store" where
  "add_agent x s = s\<lparr>st_agents := x # st_agents s\<rparr>"

definition store_update_agent :: "json \<Rightarrow> obj \<Rightarrow> store \<Rightarrow> store" where
  "store_update_agent i u s = s\<lparr>st_agents := update_by_id i u (st_agents s),
     st_selected_agent := update_selected i u (st_selected_agent s)\<rparr>"

definition store_delete_agent :: "json \<Rightarrow> store \<Rightarrow> store" where
  "store_delete_agent i s = s\<lparr>st_agents := drop_by_id i (st_agents s),
     st_selected_agent := drop_selected i (st_selected_agent s)\<rparr>"

section \<open>Activities and notifications\<close>

definition set_activities :: "obj list \<Rightarrow> store \<Rightarrow> store" where
  "set_activities xs s = s\<lparr>st_activities := xs\<rparr>"

definition add_activity :: "obj \<Rightarrow> store \<Rightarrow> store" where
  "add_activity x s = s\<lparr>st_activities := take 1000 (x # st_activities s)\<rparr>"

definition is_unread :: "obj \<Rightarrow> bool" where
  "is_unread x \<longleftrightarrow> \<not> jtruthy (fld x ''read_at'')"

definition set_notifications :: "obj list \<Rightarrow> store \<Rightarrow> store" where
  "set_notifications xs s = s\<lparr>st_notifications := xs, st_unread := int (length (filter is_unread xs))\<rparr>"

definition add_notification :: "obj \<Rightarrow> store \<Rightarrow> store" where
  "add_notification x s = s\<lparr>st_notifications := x # st_notifications s, st_unread := st_unread s + 1\<rparr>"

definition store_mark_read :: "int \<Rightarrow> json \<Rightarrow> store \<Rightarrow> store" where
  "store_mark_read now_ms i s = s\<lparr>
     st_notifications := update_by_id i [(''read_at'', JInt (now_ms div 1000))] (st_notifications s),
     st_unread := max 0 (st_unread s - 1)\<rparr>"

definition store_mark_all_read :: "int \<Rightarrow> store \<Rightarrow> store" where
  "store_mark_all_read now_ms s = s\<lparr>
     st_notifications := map (\<lambda>x. if is_unread x then spread x [(''read_at'', JInt (now_ms div 1000))] else x)
       (st_notifications s),
     st_unread := 0\<rparr>"

section \<open>Comments, chat, standups\<close>

definition set_task_comments :: "int \<Rightarrow> obj list \<Rightarrow> store \<Rightarrow> store" where
  "set_task_comments tid xs s = s\<lparr>st_task_comments := (st_task_comments s)(tid := Some xs)\<rparr>"

definition add_task_comment :: "int \<Rightarrow> obj \<Rightarrow> store \<Rightarrow> store" where
  "add_task_comment tid x s = s\<lparr>st_task_comments := (st_task_comments s)(tid :=
     Some (x # (case st_task_comments s tid of None \<Rightarrow> [] | Some xs \<Rightarrow> xs)))\<rparr>"

definition set_chat_messages :: "obj list \<Rightarrow> store \<Rightarrow> store" where
  "set_chat_messages xs s = s\<lparr>st_chat_messages := last_n 500 xs\<rparr>"

definition server_id :: "obj \<Rightarrow> bool" where
  "server_id m = (case map_of m ''id'' of Some (JNum q) \<Rightarrow> 0 < q | _ \<Rightarrow> False)"

definition add_chat_message :: "obj \<Rightarrow> store \<Rightarrow> store" where
  "add_chat_message m s =
     (if server_id m \<and> list_ex (\<lambda>x. map_of x ''id'' = map_of m ''id'') (st_chat_messages s) then s
      else s\<lparr>st_chat_messages := last_n 500 (st_chat_messages s @ [m]),
             st_conversations := map (\<lambda>c. if map_of c ''id'' = map_of m ''conversation_id''
               then spread c [(''lastMessage'', JObj m), (''updatedAt'', fld m ''created_at'')] else c)
               (st_conversations s)\<rparr>)"

definition replace_pending_message :: "json \<Rightarrow> obj \<Rightarrow> store \<Rightarrow> store" where
  "replace_pending_message i m s = s\<lparr>st_chat_messages :=
     map (\<lambda>x. if has_id i x then spread m [(''pendingStatus'', JStr ''sent'')] else x) (st_chat_messages s)\<rparr>"

definition update_pending_message :: "json \<Rightarrow> obj \<Rightarrow> store \<Rightarrow> store" where
  "update_pending_message i u s = s\<lparr>st_chat_messages := update_by_id i u (st_chat_messages s)\<rparr>"

definition remove_pending_message :: "json \<Rightarrow> store \<Rightarrow> store" where
  "remove_pending_message i s = s\<lparr>st_chat_messages := drop_by_id i (st_chat_messages s)\<rparr>"

definition set_conversations :: "obj list \<Rightarrow> store \<Rightarrow> store" where
  "set_conversations xs s = s\<lparr>st_conversations := xs\<rparr>"

definition set_active_conversation :: "string option \<Rightarrow> store \<Rightarrow> store" where
  "set_active_conversation x s = s\<lparr>st_active_conversation := x\<rparr>"

definition mark_conversation_read :: "int \<Rightarrow> string \<Rightarrow> store \<Rightarrow> store" where
  "mark_conversation_read now_ms c s = s\<lparr>
     st_conversations := map (\<lambda>x. if has_id (JStr c) x then spread x [(''unreadCount'', JInt 0)] else x)
       (st_conversations s),
     st_chat_messages := map (\<lambda>m. if map_of m ''conversation_id'' = Some (JStr c) \<and> is_unread m
       then spread m [(''read_at'', JInt (now_ms div 1000))] else m) (st_chat_messages s)\<rparr>"

definition set_standup_reports :: "obj list \<Rightarrow> store \<Rightarrow> store" where
  "set_standup_reports xs s = s\<lparr>st_standup_reports := xs\<rparr>"

definition set_current_standup :: "obj option \<Rightarrow> store \<Rightarrow> store" where
  "set_current_standup x s = s\<lparr>st_current_standup := x\<rparr>"

section \<open>Events of the server\<close>

text \<open>\<open>event.data?.id\<close> if it is truthy.\<close>

definition event_id :: "json \<Rightarrow> json option" where
  "event_id d = (case jget d ''id'' of None \<Rightarrow> None | Some i \<Rightarrow> if jtruthy i then Some i else None)"

text \<open>A property of an object literal: left out where its value is \<open>undefined\<close>.\<close>

definition pick :: "json \<Rightarrow> string \<Rightarrow> obj" where
  "pick d k = (case jget d k of None \<Rightarrow> [] | Some v \<Rightarrow> [(k, v)])"

definition pick_or :: "json \<Rightarrow> string \<Rightarrow> json \<Rightarrow> obj" where
  "pick_or d k v = [(k, if jtruthy_opt (jget d k) then the (jget d k) else v)]"

definition chat_of :: "int \<Rightarrow> json \<Rightarrow> json \<Rightarrow> obj" where
  "chat_of now_ms i d = [(''id'', i)] @ pick d ''conversation_id'' @ pick d ''from_agent'' @ pick d ''to_agent'' @
     pick d ''content'' @ pick_or d ''message_type'' (JStr ''text'') @ pick d ''metadata'' @ pick d ''read_at'' @
     pick_or d ''created_at'' (JInt (now_ms div 1000))"

definition notification_of :: "int \<Rightarrow> json \<Rightarrow> json \<Rightarrow> obj" where
  "notification_of now_ms i d = [(''id'', i)] @ pick_or d ''recipient'' (JStr ''operator'') @
     pick_or d ''type'' (JStr ''info'') @ pick_or d ''title'' (JStr []) @ pick_or d ''message'' (JStr []) @
     pick d ''source_type'' @ pick d ''source_id'' @ pick_or d ''created_at'' (JInt (now_ms div 1000))"

definition activity_of :: "int \<Rightarrow> json \<Rightarrow> json \<Rightarrow> obj" where
  "activity_of now_ms i d = [(''id'', i)] @ pick d ''type'' @ pick d ''entity_type'' @ pick d ''entity_id'' @
     pick d ''actor'' @ pick d ''description'' @ pick d ''data'' @ pick_or d ''created_at'' (JInt (now_ms div 1000))"

definition dispatch :: "int \<Rightarrow> server_event \<Rightarrow> store \<Rightarrow> store" where
  "dispatch now_ms ev s =
     (let d = ev_data ev; ty = ev_type ev in
      if ty = ''task.created'' then add_task (members d) s
      else if ty = ''agent.created'' then add_agent (members d) s
      else case event_id d of None \<Rightarrow> s
      | Some i \<Rightarrow>
          if ty = ''task.updated'' then store_update_task i (members d) s
          else if ty = ''task.status_changed''
          then store_update_task i (pick d ''status'' @ pick d ''updated_at'') s
          else if ty = ''task.deleted'' then store_delete_task i s
          else if ty = ''agent.updated'' \<or> ty = ''agent.status_changed'' then store_update_agent i (members d) s
          else if ty = ''chat.message'' then add_chat_message (chat_of now_ms i d) s
          else if ty = ''notification.created'' then add_notification (notification_of now_ms i d) s
          else if ty = ''activity.created'' then add_activity (activity_of now_ms i d) s
          else s)"

end
