(* ===== verification/Live_Updates.thy ===== *)
theory Live_Updates
  imports Client_Store Task_Board
begin

text \<open>
  The browser follows the server: a store that shows the tasks of the database and is fed
  the events the server broadcasts shows the tasks of the database afterwards, whatever
  requests the task routes served in between. The relation \<open>mirrors\<close> is the simulation, the
  requests of \<open>Tasks\<close> are the steps on one side, the dispatched events those on the other.
\<close>

section \<open>The tasks of a store\<close>

definition shows_task :: "obj \<Rightarrow> int \<Rightarrow> task \<Rightarrow> bool" where
  "shows_task x i t \<longleftrightarrow> (\<forall>k. map_of x k = jget (task_json i t) k)"

text \<open>Under every id, the store has an object exactly if there is a row, and it has its fields.\<close>

definition mirrored :: "obj list \<Rightarrow> int \<Rightarrow> task option \<Rightarrow> bool" where
  "mirrored xs i r = (case r of
     None \<Rightarrow> find (has_id (JInt i)) xs = None
   | Some t \<Rightarrow> (\<exists>x. find (has_id (JInt i)) xs = Some x \<and> shows_task x i t))"

definition mirrors :: "obj list \<Rightarrow> (int \<Rightarrow> task option) \<Rightarrow> bool" where
  "mirrors xs g \<longleftrightarrow> (\<forall>i. mirrored xs i (g i))"

lemma mirrored_cong: "find (has_id (JInt i)) xs = find (has_id (JInt i)) ys \<Longrightarrow> mirrored xs i r = mirrored ys i r"
  by (simp add: mirrored_def split: option.split)

text \<open>What an event does to the tasks of a store.\<close>

definition apply_event :: "server_event \<Rightarrow> obj list \<Rightarrow> obj list" where
  "apply_event ev xs =
     (let d = ev_data ev; ty = ev_type ev in
      if ty = ''task.created'' then members d # xs
      else case event_id d of None \<Rightarrow> xs
      | Some i \<Rightarrow>
          if ty = ''task.updated'' then update_by_id i (members d) xs
          else if ty = ''task.status_changed'' then update_by_id i (pick d ''status'' @ pick d ''updated_at'') xs
          else if ty = ''task.deleted'' then drop_by_id i xs
          else xs)"

lemma st_tasks_dispatch: "st_tasks (dispatch now ev s) = apply_event ev (st_tasks s)"
  by (simp add: dispatch_def apply_event_def Let_def add_task_def add_agent_def store_update_task_def
      store_delete_task_def store_update_agent_def add_chat_message_def add_notification_def add_activity_def
      split: option.split)

lemma st_tasks_fold: "st_tasks (fold (dispatch now) es s) = fold apply_event es (st_tasks s)"
  by (induction es arbitrary: s) (simp_all add: st_tasks_dispatch)

definition task_event :: "server_event \<Rightarrow> bool" where
  "task_event ev \<longleftrightarrow> ev_type ev \<in> {''task.created'', ''task.updated'', ''task.status_changed'', ''task.deleted''}"

lemma apply_quiet: "\<not> task_event ev \<Longrightarrow> apply_event ev xs = xs"
  by (simp add: task_event_def apply_event_def Let_def split: option.split)

lemma fold_quiet: "list_all (\<lambda>ev. \<not> task_event ev) es \<Longrightarrow> fold apply_event es xs = xs"
  by (induction es) (simp_all add: apply_quiet)

section \<open>The four events\<close>

lemma has_id_spread:
  assumes "map_of (rev u) ''id'' = None \<or> map_of (rev u) ''id'' = Some i" "has_id i x"
  shows "has_id j (spread x u) = has_id j x"
  using assms by (auto simp: has_id_def map_of_spread)

lemma find_update_by_id:
  assumes "map_of (rev u) ''id'' = None \<or> map_of (rev u) ''id'' = Some i"
  shows "find (has_id j) (update_by_id i u xs) =
    (if j = i then map_option (\<lambda>x. spread x u) (find (has_id j) xs) else find (has_id j) xs)"
proof (induction xs)
  case (Cons x xs)
  have "has_id i x \<and> has_id j x \<Longrightarrow> j = i" by (auto simp: has_id_def)
  with Cons has_id_spread [OF assms, of x j] show ?case by (auto simp: update_by_id_def)
qed (simp add: update_by_id_def)

lemma find_drop_by_id:
  "find (has_id j) (drop_by_id i xs) = (if j = i then None else find (has_id j) xs)"
  by (induction xs) (auto simp: drop_by_id_def has_id_def [abs_def])

lemma distinct_task_members: "distinct (map fst (members (task_json i t)))"
  by (simp add: task_json_def)

lemma members_task_json: "jget (task_json i t) k = map_of (members (task_json i t)) k"
  by (simp add: task_json_def)

lemma task_json_id: "jget (task_json i t) ''id'' = Some (JInt i)"
  by (simp add: task_json_def)

lemma shows_members: "shows_task (members (task_json i t)) i t"
  by (simp add: shows_task_def members_task_json)

lemma mirrors_created:
  assumes "mirrors xs g" "g i = None"
  shows "mirrors (members (task_json i t) # xs) (g(i \<mapsto> t))"
proof -
  have "has_id (JInt j) (members (task_json i t)) \<longleftrightarrow> j = i" for j
    using task_json_id [of i t] by (auto simp: has_id_def members_task_json)
  then have "mirrored (members (task_json i t) # xs) j ((g(i \<mapsto> t)) j)" for j
    using assms(1) shows_members mirrored_cong [of j "members (task_json i t) # xs" xs]
    by (cases "j = i") (simp_all add: mirrors_def mirrored_def [of _ i])
  then show ?thesis by (simp add: mirrors_def)
qed

lemma spread_shows:
  assumes "shows_task x i t"
  shows "shows_task (spread x (members (task_json i t'))) i t'"
proof -
  have "map_of (members (task_json i t')) k = None \<longleftrightarrow> map_of (members (task_json i t)) k = None" for k
    by (simp add: task_json_def)
  then show ?thesis
    using assms by (auto simp: shows_task_def map_of_spread_distinct [OF distinct_task_members] members_task_json
        split: option.split) metis
qed

lemma mirrors_updated:
  assumes "mirrors xs g" "g i = Some t"
  shows "mirrors (update_by_id (JInt i) (members (task_json i t')) xs) (g(i \<mapsto> t'))"
proof -
  have "map_of (rev (members (task_json i t'))) ''id'' = Some (JInt i)"
    using task_json_id [of i t'] by (simp add: map_of_rev_distinct distinct_task_members members_task_json)
  note find = find_update_by_id [OF disjI2, OF this]
  obtain x where x: "find (has_id (JInt i)) xs = Some x" "shows_task x i t"
    using spec [OF assms(1) [unfolded mirrors_def], of i] assms(2) by (auto simp: mirrored_def)
  have "mirrored (update_by_id (JInt i) (members (task_json i t')) xs) j ((g(i \<mapsto> t')) j)" for j
  proof (cases "j = i")
    case True
    then show ?thesis using x spread_shows [OF x(2)] by (simp add: find mirrored_def)
  next
    case False
    then show ?thesis
      using assms(1) mirrored_cong [of j "update_by_id (JInt i) (members (task_json i t')) xs" xs]
      by (simp add: find mirrors_def)
  qed
  then show ?thesis by (simp add: mirrors_def)
qed

lemma spread_moved:
  assumes "shows_task x j t"
  shows "shows_task (spread x [(''status'', JStr (status_text s)), (''updated_at'', JInt now)]) j
    (t\<lparr>task_status := s, task_updated_at := now\<rparr>)"
  using assms by (auto simp: shows_task_def map_of_spread task_json_def)

lemma mirrors_moved:
  assumes "mirrors xs g"
  shows "mirrors (update_by_id (JInt i) [(''status'', JStr (status_text s)), (''updated_at'', JInt now)] xs)
    (\<lambda>j. map_option (moved [(i, s)] now j) (g j))"
  unfolding mirrors_def
proof
  fix j
  let ?u = "[(''status'', JStr (status_text s)), (''updated_at'', JInt now)]"
  have find: "find (has_id (JInt j)) (update_by_id (JInt i) ?u xs) =
      (if j = i then map_option (\<lambda>x. spread x ?u) (find (has_id (JInt j)) xs) else find (has_id (JInt j)) xs)" for j
    by (subst find_update_by_id) auto
  have j: "mirrored xs j (g j)" using assms by (simp add: mirrors_def)
  show "mirrored (update_by_id (JInt i) ?u xs) j (map_option (moved [(i, s)] now j) (g j))"
  proof (cases "j = i")
    case True
    have m: "moved [(i, s)] now i t = t\<lparr>task_status := s, task_updated_at := now\<rparr>" for t
      by (simp add: moved_def)
    show ?thesis
      using j spread_moved [of _ i _ s now] unfolding True mirrored_def find
      by (cases "g i") (auto simp: m)
  next
    case False
    then have "moved [(i, s)] now j t = t" for t by (simp add: moved_def)
    then have "map_option (moved [(i, s)] now j) (g j) = g j" by (cases "g j") simp_all
    then show ?thesis using j False mirrored_cong [of j "update_by_id (JInt i) ?u xs" xs] by (simp add: find)
  qed
qed

lemma mirrors_deleted:
  assumes "mirrors xs g"
  shows "mirrors (drop_by_id (JInt i) xs) (\<lambda>j. if j = i then None else g j)"
proof -
  have "mirrored (drop_by_id (JInt i) xs) j (if j = i then None else g j)" for j
    using assms mirrored_cong [of j "drop_by_id (JInt i) xs" xs]
    by (cases "j = i") (simp_all add: mirrors_def find_drop_by_id mirrored_def [of _ i])
  then show ?thesis by (simp add: mirrors_def)
qed

section \<open>Handlers that announce nothing about tasks\<close>

definition task_row :: "world \<Rightarrow> int \<Rightarrow> task option" where
  "task_row w = tbl_get (tasks (dbase w))"

definition quiet :: "world \<Rightarrow> world \<Rightarrow> bool" where
  "quiet w w' \<longleftrightarrow> task_row w' = task_row w \<and>
     (\<exists>es. bus w' = bus w @ es \<and> list_all (\<lambda>ev. \<not> task_event ev) es)"

lemma quiet_refl [simp]: "quiet w w"
  by (simp add: quiet_def)

lemma quiet_trans: "quiet w1 w2 \<Longrightarrow> quiet w2 w3 \<Longrightarrow> quiet w1 w3"
  by (auto simp: quiet_def)

lemma quiet_frame: "tasks (dbase w') = tasks (dbase w) \<Longrightarrow> bus w' = bus w \<Longrightarrow> quiet w w'"
  by (simp add: quiet_def task_row_def)

lemma quiet_fold: "(\<And>x w. quiet w (f x w)) \<Longrightarrow> quiet w (fold f xs w)"
  by (induction xs arbitrary: w) (auto intro: quiet_trans)

lemma quiet_broadcast [simp]:
  "ty \<notin> {''task.created'', ''task.updated'', ''task.status_changed'', ''task.deleted''} \<Longrightarrow>
   quiet w (broadcast ty d w)"
  by (simp add: quiet_def task_row_def task_event_def)

lemma quiet_log_activity [simp]: "quiet w (log_activity ty et eid actor desc d w)"
  unfolding log_activity_def Let_def
  by (rule quiet_trans [OF quiet_frame quiet_broadcast]) simp_all

lemma quiet_create_notification [simp]: "quiet w (create_notification r ty ti m st si w)"
  unfolding create_notification_def Let_def
  by (rule quiet_trans [OF quiet_frame quiet_broadcast]) simp_all

lemma quiet_ensure_subscription [simp]: "quiet w (ensure_subscription tid n w)"
  by (rule quiet_frame) simp_all

lemma quiet_fold_after: "quiet w w' \<Longrightarrow> (\<And>x w. quiet w (f x w)) \<Longrightarrow> quiet w (fold f xs w')"
  by (rule quiet_trans [OF _ quiet_fold])

text \<open>The same after earlier quiet work, as introduction rules.\<close>

lemmas quiet_after =
  quiet_trans [OF _ quiet_log_activity] quiet_trans [OF _ quiet_create_notification]
  quiet_trans [OF _ quiet_ensure_subscription] quiet_fold_after

lemma quiet_notify_assignment [simp]: "quiet w (notify_assignment tid ti a w)"
  by (auto simp: notify_assignment_def split: option.split intro!: quiet_after)

lemma quiet_notify_status_change [simp]: "quiet w (notify_status_change tid b t w)"
  by (simp add: notify_status_change_def split: option.split)

lemma quiet_log_task_created [simp]: "quiet w (log_task_created tid c b w)"
  by (simp add: log_task_created_def)

lemma quiet_log_task_changes [simp]: "quiet w (log_task_changes e r tid b t w)"
  by (simp add: log_task_changes_def Let_def)

lemma quiet_log_move [simp]: "quiet w (log_move tid actor old s w)"
  by (simp add: log_move_def split: option.split)

lemma quiet_subscribe_all [simp]: "quiet w (subscribe_all tid author ms a w)"
  by (auto simp: subscribe_all_def Let_def split: option.split intro!: quiet_after)

lemma quiet_notify_comment [simp]: "quiet w (notify_comment author ti c ms cid s w)"
  by (simp add: notify_comment_def Let_def)

lemmas quiet_board_after = quiet_after
  quiet_trans [OF _ quiet_notify_assignment] quiet_trans [OF _ quiet_notify_status_change]
  quiet_trans [OF _ quiet_log_task_created] quiet_trans [OF _ quiet_log_task_changes]
  quiet_trans [OF _ quiet_subscribe_all] quiet_trans [OF _ quiet_log_move]

lemma quiet_log_comment: "quiet w (log_comment tid t b w)"
  unfolding log_comment_def Let_def
  by (rule quiet_trans [OF quiet_frame quiet_log_activity]) (simp_all add: insert_comment_def)

lemma quiet_record_comment: "quiet w (record_comment tid t b w)"
  unfolding record_comment_def Let_def
  by (intro quiet_board_after quiet_log_comment quiet_notify_comment)

lemma quiet_add_comment: "quiet w (fst (add_comment_with id_text body w))"
  by (simp add: add_comment_with_def with_body_def quiet_record_comment split: option.split validated.split)

lemma quiet_broadcast_loop: "quiet w (fst (broadcast_loop oc tid t author m as n k w))"
  by (induction oc tid t author m as n k w rule: broadcast_loop.induct)
    (auto split: option.split intro: quiet_trans [OF quiet_create_notification])

lemma quiet_broadcast_task: "quiet w (fst (broadcast_task_with scan oc id_text body w))"
  by (simp add: broadcast_task_with_def Let_def case_prod_unfold
      quiet_trans [OF quiet_broadcast_loop quiet_log_activity] split: option.split)

lemma quiet_review: "quiet w (fst (review_with b w))"
proof -
  have "quiet w (insert_review q w)" for q
    by (rule quiet_frame) (simp_all add: insert_review_def)
  then show ?thesis
    by (simp add: review_with_def Let_def quiet_trans [OF _ quiet_log_activity] split: option.split)
qed

section \<open>The simulation\<close>

definition follows :: "world \<Rightarrow> world \<Rightarrow> bool" where
  "follows w w' \<longleftrightarrow> (\<exists>es. bus w' = bus w @ es \<and>
     (\<forall>xs. mirrors xs (task_row w) \<longrightarrow> mirrors (fold apply_event es xs) (task_row w')))"

lemma follows_trans: "follows w1 w2 \<Longrightarrow> follows w2 w3 \<Longrightarrow> follows w1 w3"
  by (fastforce simp: follows_def)

lemma quiet_follows: "quiet w w' \<Longrightarrow> follows w w'"
  by (auto simp: quiet_def follows_def fold_quiet)

text \<open>A change of the tasks, followed by quiet work and the event that announces it.\<close>

lemma follows_event:
  assumes "bus w1 = bus w" "quiet w1 w2"
    and "\<And>xs c. mirrors xs (task_row w) \<Longrightarrow>
      mirrors (apply_event \<lparr>ev_type = ty, ev_data = d, ev_timestamp = c\<rparr> xs) (task_row w1)"
  shows "follows w (broadcast ty d w2)"
proof -
  obtain es where es: "bus w2 = bus w @ es" "list_all (\<lambda>ev. \<not> task_event ev) es" "task_row w2 = task_row w1"
    using assms(1,2) by (auto simp: quiet_def)
  have "bus (broadcast ty d w2) = bus w @ es @ [\<lparr>ev_type = ty, ev_data = d, ev_timestamp = clock w2\<rparr>]"
    using es(1) by simp
  moreover have "task_row (broadcast ty d w2) = task_row w1"
    using es(3) by (simp add: task_row_def)
  ultimately show ?thesis
    using assms(3) fold_quiet [OF es(2)] unfolding follows_def by fastforce
qed

lemma follows_create:
  assumes "tbl_ok (tasks (dbase w))"
  shows "follows w (fst (create_task_with user b w))"
proof -
  define c where "c = (case ct_created_by b of Some c \<Rightarrow> c | None \<Rightarrow> str_or (au_username user) ''system'')"
  define tid where "tid = tbl_last_id (tasks (dbase w))"
  define t where "t = new_task b c (now_s w)"
  have row: "task_row (insert_task t w) = (task_row w)(tid \<mapsto> t)"
    using assms by (auto simp: task_row_def insert_task_def tid_def tbl_simps)
  have none: "task_row w tid = None"
    using assms by (simp add: task_row_def tid_def tbl_last_id_def)
  have "follows w (broadcast ''task.created'' (task_json tid t)
      (notify_assignment tid (ct_title b) (ct_assigned_to b) (ensure_subscription tid c
        (log_task_created tid c b (insert_task t w)))))"
  proof (rule follows_event)
    show "quiet (insert_task t w) (notify_assignment tid (ct_title b) (ct_assigned_to b)
        (ensure_subscription tid c (log_task_created tid c b (insert_task t w))))"
      by (intro quiet_board_after quiet_refl)
  qed (simp_all add: insert_task_def apply_event_def Let_def row [unfolded insert_task_def] mirrors_created none)
  then show ?thesis
    by (simp add: create_task_with_def Let_def quiet_follows c_def [symmetric] tid_def [symmetric] t_def [symmetric])
qed

lemma event_id_task: "i \<noteq> 0 \<Longrightarrow> event_id (task_json i t) = Some (JInt i)"
  by (simp add: event_id_def task_json_id)

lemma task_id_nonzero: "tbl_ok (tasks (dbase w)) \<Longrightarrow> task_row w i = Some t \<Longrightarrow> i \<noteq> 0"
  by (auto simp: task_row_def tbl_get_iff tbl_ok_def tbl_ids_def)

lemma follows_update:
  assumes "tbl_ok (tasks (dbase w))"
  shows "follows w (fst (update_task_with scan e r id_text b w))"
proof -
  have change: "follows w (broadcast ''task.updated'' (task_json tid (apply_task_update b (now_s w) t))
      (log_task_changes e r tid b t (notify_assignment tid ti a (notify_status_change tid b t (set_task tid b w)))))"
    if t: "task_row w tid = Some t" for tid t ti a
  proof (rule follows_event)
    have row: "task_row (set_task tid b w) = (task_row w)(tid \<mapsto> apply_task_update b (now_s w) t)"
      using t by (auto simp: task_row_def set_task_def tbl_simps)
    show "mirrors (apply_event \<lparr>ev_type = ''task.updated'',
        ev_data = task_json tid (apply_task_update b (now_s w) t), ev_timestamp = c\<rparr> xs) (task_row (set_task tid b w))"
      if "mirrors xs (task_row w)" for xs c
      using mirrors_updated [OF that t] task_id_nonzero [OF assms t]
      by (simp add: apply_event_def event_id_task row)
  qed (intro quiet_board_after quiet_refl | simp add: set_task_def)+
  then show ?thesis
    by (simp add: update_task_with_def Let_def quiet_follows task_row_def split: option.split)
qed

lemma follows_delete:
  assumes "tbl_ok (tasks (dbase w))"
  shows "follows w (fst (delete_task_with e r id_text w))"
proof -
  have change: "follows w (broadcast ''task.deleted'' (JObj [(''id'', JInt tid), (''title'', JStr ti)])
      (log_activity ty et eid actor desc d (delete_task_rows tid w)))"
    if t: "task_row w tid = Some t" for tid t ti ty et eid actor desc d
  proof (rule follows_event)
    have row: "task_row (delete_task_rows tid w) = (\<lambda>j. if j = tid then None else task_row w j)"
      by (auto simp: task_row_def delete_task_rows_def Let_def tbl_simps fun_eq_iff)
    show "mirrors (apply_event \<lparr>ev_type = ''task.deleted'',
        ev_data = JObj [(''id'', JInt tid), (''title'', JStr ti)], ev_timestamp = c\<rparr> xs) (task_row (delete_task_rows tid w))"
      if "mirrors xs (task_row w)" for xs c
      using mirrors_deleted [OF that, of tid] task_id_nonzero [OF assms t]
      by (simp add: apply_event_def event_id_def row)
  qed (simp_all add: delete_task_rows_def Let_def)
  then show ?thesis
    by (simp add: delete_task_with_def Let_def quiet_follows task_row_def split: option.split)
qed

text \<open>Bulk moves: the events of the moves come after the transaction, in the order of the batch.\<close>

definition move_event :: "int \<Rightarrow> int \<Rightarrow> int \<times> task_status \<Rightarrow> server_event" where
  "move_event now c x = \<lparr>ev_type = ''task.status_changed'',
     ev_data = JObj [(''id'', JInt (fst x)), (''status'', JStr (status_text (snd x))), (''updated_at'', JInt now)],
     ev_timestamp = c\<rparr>"

lemma apply_move_event: "apply_event (move_event now c (i, s)) xs =
    (if i = 0 then xs else update_by_id (JInt i) [(''status'', JStr (status_text s)), (''updated_at'', JInt now)] xs)"
  by (simp add: apply_event_def move_event_def event_id_def pick_def)

lemma mirrors_moves:
  assumes "mirrors xs g" "g 0 = None"
  shows "mirrors (fold apply_event (map (move_event now c) ms) xs) (\<lambda>j. map_option (moved ms now j) (g j))"
  using assms
proof (induction ms arbitrary: xs g)
  case Nil
  then show ?case by (simp add: option.map_ident)
next
  case (Cons m ms)
  obtain i s where m: "m = (i, s)" by (cases m)
  let ?g = "\<lambda>j. map_option (moved [(i, s)] now j) (g j)"
  have "?g = g" if "i = 0"
    using Cons.prems(2) that by (auto simp: fun_eq_iff moved_def map_option_case split: option.split)
  then have step: "mirrors (apply_event (move_event now c (i, s)) xs) ?g"
    using mirrors_moved [OF Cons.prems(1), of i s now] Cons.prems(1) by (auto simp: apply_move_event)
  have "mirrors (fold apply_event (map (move_event now c) ms) (apply_event (move_event now c (i, s)) xs))
      (\<lambda>j. map_option (moved ms now j) (?g j))"
    using Cons.IH [OF step] Cons.prems(2) by simp
  then show ?case by (simp add: m option.map_comp comp_def moved_Cons)
qed

lemma bus_fold_moves:
  "bus (fold (\<lambda>(tid, s). broadcast ''task.status_changed''
      (JObj [(''id'', JInt tid), (''status'', JStr (status_text s)), (''updated_at'', JInt now)])) ms w)
   = bus w @ map (move_event now (clock w)) ms"
  by (induction ms arbitrary: w) (auto simp: move_event_def)

lemma bulk_loop_bus:
  "\<exists>es. bus (fst (bulk_loop scan actor ms w)) = bus w @ es \<and> list_all (\<lambda>ev. \<not> task_event ev) es"
proof (induction scan actor ms w rule: bulk_loop.induct)
  case (2 scan actor tid s ms w)
  let ?w2 = "log_move tid actor (tbl_get (tasks (dbase w)) tid) s (move_task tid s w)"
  obtain es where es: "bus ?w2 = bus w @ es" "list_all (\<lambda>ev. \<not> task_event ev) es"
    using quiet_log_move [of "move_task tid s w" tid actor "tbl_get (tasks (dbase w)) tid" s]
    by (auto simp: quiet_def move_task_def)
  show ?case
  proof (cases "s = Done \<and> \<not> has_aegis_approval scan tid w")
    case False
    then show ?thesis using 2 [OF refl False] es by (auto simp: Let_def)
  qed (simp add: Let_def)
qed simp

lemma follows_bulk:
  assumes "tbl_ok (tasks (dbase w))"
  shows "follows w (fst (bulk_update_with scan user ms w))"
proof -
  obtain w1 res where l: "bulk_loop scan (au_username user) ms w = (w1, res)" by fastforce
  obtain es where es: "bus w1 = bus w @ es" "list_all (\<lambda>ev. \<not> task_event ev) es"
    using bulk_loop_bus [of scan "au_username user" ms w] l by auto
  show ?thesis
  proof (cases res)
    case None
    have rows: "task_row w1 = (\<lambda>j. map_option (moved ms (now_s w) j) (task_row w j))"
      using bulk_loop_result [where scan = scan and actor = "au_username user" and xs = ms and w = w] l None by (auto simp: task_row_def fun_eq_iff)
    have zero: "task_row w 0 = None" using task_id_nonzero [OF assms, of 0] by (cases "task_row w 0") auto
    let ?w2 = "fold (\<lambda>(tid, s). broadcast ''task.status_changed''
      (JObj [(''id'', JInt tid), (''status'', JStr (status_text s)), (''updated_at'', JInt (now_s w))])) ms w1"
    have "bus ?w2 = bus w @ es @ map (move_event (now_s w) (clock w1)) ms" by (simp add: bus_fold_moves es)
    moreover have "task_row ?w2 = task_row w1" by (simp add: task_row_def)
    ultimately have "follows w ?w2"
      using mirrors_moves [where g = "task_row w", OF _ zero] by (auto simp: follows_def fold_quiet [OF es(2)] rows)
    then show ?thesis using l None by (simp add: bulk_update_with_def bulk_transaction_def)
  next
    case (Some tid)
    have "quiet w (w1\<lparr>dbase := dbase w\<rparr>)" using es by (simp add: quiet_def task_row_def)
    then show ?thesis
      using l Some by (simp add: bulk_update_with_def bulk_transaction_def quiet_follows)
  qed
qed

section \<open>Requests\<close>

definition served :: "world \<Rightarrow> world \<Rightarrow> bool" where
  "served w w' \<longleftrightarrow> (tbl_ok (tasks (dbase w)) \<longrightarrow> follows w w')"

lemma with_role_served: "(\<And>u. served w (fst (h u w))) \<Longrightarrow> served w (fst (with_role m e r h w))"
  by (auto simp: with_role_def served_def quiet_follows split: access.split)

lemma with_body_served: "(\<And>b. served w (fst (h b w))) \<Longrightarrow> served w (fst (with_body v h w))"
  by (auto simp: with_body_def served_def quiet_follows split: validated.split)

lemma served_frame:
  "served w1 w' \<Longrightarrow> dbase w1 = dbase w \<Longrightarrow> bus w1 = bus w \<Longrightarrow> served w w'"
  by (simp add: served_def follows_def task_row_def)

lemma with_limit_served:
  assumes "\<And>w. served w (fst (h w))"
  shows "served w (fst (with_limit l e r h w))"
proof -
  obtain w' a where c: "with_limit l e r h w = (w', a)" by fastforce
  then show ?thesis
  proof (cases rule: with_limit_cases)
    case limited
    then show ?thesis using c by (simp add: served_def quiet_follows quiet_frame)
  next
    case (passed w1)
    then show ?thesis using c served_frame [OF assms, of w1 w] by simp
  qed
qed

lemma task_handler_served: "served w (fst (task_handler scan oc e r op w))"
proof -
  note wrap = with_role_served with_limit_served with_body_served
  have quietly: "quiet w w' \<Longrightarrow> served w w'" for w w' by (simp add: served_def quiet_follows)
  show ?thesis
    by (cases op)
      (auto simp: post_task_def put_tasks_def put_task_def delete_task_def post_comment_def post_broadcast_def
        post_review_def intro!: wrap quietly [OF quiet_add_comment] quietly [OF quiet_broadcast_task]
        quietly [OF quiet_review], auto simp: served_def follows_create follows_bulk follows_update follows_delete)
qed

lemma task_step_follows:
  assumes "board_ok (dbase w)"
  shows "follows w (task_step scan oc e x w)"
proof -
  obtain t r op where x: "x = (t, r, op)" by (cases x)
  have "served w (task_step scan oc e x w)"
    using served_frame [OF task_handler_served [of "w\<lparr>clock := t\<rparr>"]] by (simp add: x task_step_def)
  then show ?thesis using assms by (simp add: served_def board_ok_def)
qed

lemma task_steps_follow:
  "board_ok (dbase w) \<Longrightarrow> follows w (fold (task_step scan oc e) xs w)"
proof (induction xs arbitrary: w)
  case Nil
  then show ?case by (simp add: quiet_follows)
next
  case (Cons x xs)
  then show ?case
    using follows_trans [OF task_step_follows Cons.IH, of w scan oc e x] task_step_ok [of w scan oc e x] by simp
qed


definition board_store :: store where
  "board_store = initial_store\<lparr>st_tasks := [members (task_json 1 sample_task)]\<rparr>"

lemma board_store_mirrors: "mirrors (st_tasks board_store) (tbl_get (tasks (dbase sample_board)))"
proof -
  have "tbl_get (tasks (dbase sample_board)) = (\<lambda>i. None)(1 \<mapsto> sample_task)"
    by (auto simp: sample_board_def tbl_simps fun_eq_iff tbl_empty_def tbl_insert_def tbl_get_def)
  then show ?thesis
    using mirrors_created [of "[]" "\<lambda>i. None" 1 sample_task]
    by (simp add: board_store_def mirrors_def mirrored_def)
qed


section \<open>What the dispatch leaves out\<close>

text \<open>The deletion of an agent is announced, and ignored.\<close>

lemma agent_deletion_ignored: "ev_type ev = ''agent.deleted'' \<Longrightarrow> dispatch now ev s = s"
  by (simp add: dispatch_def Let_def split: option.split)

text \<open>The bell counts a notification down each time it is marked, also when it is read.\<close>

lemma mark_read_counts_twice:
  "0 < st_unread s \<Longrightarrow> st_unread (store_mark_read now i s) = st_unread s - 1"
  by (simp add: store_mark_read_def)

text \<open>Bounds of the lists.\<close>

lemma replace_first_length: "replace_first P y xs = Some ys \<Longrightarrow> length ys = length xs"
  by (induction xs arbitrary: ys) (auto split: if_splits)

lemma store_bounds:
  "length (st_logs s) \<le> 1000 \<Longrightarrow> length (st_logs (add_log l s)) \<le> 1000"
  "length (st_activities (add_activity x s)) \<le> 1000"
  "length (st_chat_messages s) \<le> 500 \<Longrightarrow> length (st_chat_messages (add_chat_message m s)) \<le> 500"
  by (auto simp: add_log_def add_activity_def add_chat_message_def last_n_def replace_first_length split: option.split)

end
