(* ===== verification/Agent_Config.thy ===== *)
theory Agent_Config
  imports Db_Helpers Js_Objects
begin

text \<open>
  Agents as the gateway knows them: the templates of \<open>lib/agent-templates.ts\<close>, and the exchange
  with the file \<open>openclaw.json\<close> in \<open>lib/agent-sync.ts\<close>. The file is a state of its own: whether
  its directory is configured, its parsed content or the error that reading it gives, and
  the error that writing it gives (the content then stays). Its \<open>agents.list\<close> is an array of
  objects, and the names in it are strings, as the interface of the code declares.
\<close>

section \<open>Templates\<close>

definition strs :: "string list \<Rightarrow> json" where
  "strs xs = JArr (map JStr xs)"

record agent_template =
  tpl_type :: string
  tpl_label :: string
  tpl_description :: string
  tpl_emoji :: string
  tpl_model_tier :: string
  tpl_tool_count :: int
  tpl_config :: obj

definition coding_tools :: "string list" where
  "coding_tools = [''read'', ''write'', ''edit'', ''apply_patch'', ''exec'', ''bash'', ''process'']"

definition browser_tools :: "string list" where
  "browser_tools = [''browser'', ''web'']"

definition memory_tools :: "string list" where
  "memory_tools = [''memory_search'', ''memory_get'']"

definition session_tools :: "string list" where
  "session_tools = [''agents_list'', ''sessions_list'', ''sessions_history'', ''sessions_send'', ''sessions_spawn'', ''session_status'']"

definition subagent_tools :: "string list" where
  "subagent_tools = [''subagents'', ''lobster'', ''llm-task'']"

definition thinking_tools :: "string list" where
  "thinking_tools = [''thinking'', ''reactions'', ''skills'']"

definition common_deny :: "string list" where
  "common_deny = [''clawhub'', ''cron'', ''gateway'', ''nodes'']"

definition sonnet_fallbacks :: "string list" where
  "sonnet_fallbacks =
     [''openrouter/anthropic/claude-sonnet-4'', ''moonshot/kimi-k2-thinking'', ''openrouter/moonshotai/kimi-k2.5'',
      ''nvidia/moonshotai/kimi-k2-instruct'', ''openai/codex-mini-latest'', ''ollama/qwen2.5-coder:14b'']"

definition opus_fallbacks :: "string list" where
  "opus_fallbacks =
     [''anthropic/claude-sonnet-4-20250514'', ''moonshot/kimi-k2-thinking'', ''nvidia/moonshotai/kimi-k2-instruct'',
      ''openrouter/moonshotai/kimi-k2.5'', ''openai/codex-mini-latest'']"

definition haiku_fallbacks :: "string list" where
  "haiku_fallbacks = [''anthropic/claude-sonnet-4-20250514'', ''ollama/qwen2.5-coder:14b'', ''openai/codex-mini-latest'']"

text \<open>The nested literals of a template, in the order of the source.\<close>

definition model_config :: "string \<Rightarrow> string list \<Rightarrow> string \<times> json" where
  "model_config primary fallbacks = (''model'', JObj [(''primary'', JStr primary), (''fallbacks'', strs fallbacks)])"

definition identity_config :: "string \<Rightarrow> string \<Rightarrow> string \<times> json" where
  "identity_config theme emoji =
     (''identity'', JObj [(''name'', JStr []), (''theme'', JStr theme), (''emoji'', JStr emoji)])"

definition sandbox_config :: "string \<Rightarrow> string \<Rightarrow> string option \<Rightarrow> string \<times> json" where
  "sandbox_config mode access network =
     (''sandbox'', JObj ([(''mode'', JStr mode), (''workspaceAccess'', JStr access), (''scope'', JStr ''agent'')] @
        (case network of None \<Rightarrow> [] | Some n \<Rightarrow> [(''docker'', JObj [(''network'', JStr n)])])))"

definition tools_config :: "string list \<Rightarrow> string list \<Rightarrow> string \<times> json" where
  "tools_config allow deny = (''tools'', JObj [(''allow'', strs allow), (''deny'', strs deny)])"

definition memory_config :: "string list \<Rightarrow> bool \<Rightarrow> string \<times> json" where
  "memory_config sources session_memory =
     (''memorySearch'', JObj ((''sources'', strs sources) #
        (if session_memory then [(''experimental'', JObj [(''sessionMemory'', JBool True)])] else [])))"

definition orchestrator_template :: agent_template where
  "orchestrator_template =
     \<lparr>tpl_type = ''orchestrator'', tpl_label = ''Orchestrator'',
      tpl_description = ''Primary coordinator with full tool access. Routes tasks to specialist agents and manages workflows.'',
      tpl_emoji = [CHR 0xF0, CHR 0x9F, CHR 0xA7, CHR 0xAD], tpl_model_tier = ''opus'', tpl_tool_count = 23,
      tpl_config =
        [model_config ''anthropic/claude-opus-4-5'' opus_fallbacks,
         identity_config ''operator strategist'' [CHR 0xF0, CHR 0x9F, CHR 0xA7, CHR 0xAD],
         (''subagents'', JObj [(''allowAgents'', strs [])]),
         sandbox_config ''non-main'' ''rw'' None,
         tools_config (coding_tools @ browser_tools @ memory_tools @ session_tools @ subagent_tools @ thinking_tools)
           common_deny,
         memory_config [''memory'', ''sessions''] True]\<rparr>"

definition developer_template :: agent_template where
  "developer_template =
     \<lparr>tpl_type = ''developer'', tpl_label = ''Developer'',
      tpl_description = ''Full-stack builder with Docker bridge networking, exec/write access, and subagent spawning.'',
      tpl_emoji = [CHR 0xF0, CHR 0x9F, CHR 0x9B, CHR 0xA0, CHR 0xEF, CHR 0xB8, CHR 0x8F],
      tpl_model_tier = ''sonnet'', tpl_tool_count = 21,
      tpl_config =
        [model_config ''anthropic/claude-sonnet-4-20250514'' sonnet_fallbacks,
         identity_config ''builder engineer'' [CHR 0xF0, CHR 0x9F, CHR 0x9B, CHR 0xA0, CHR 0xEF, CHR 0xB8, CHR 0x8F],
         (''subagents'', JObj [(''allowAgents'', strs []), (''model'', JStr ''openai/codex-mini-latest'')]),
         sandbox_config ''all'' ''rw'' (Some ''bridge''),
         tools_config (coding_tools @ browser_tools @ memory_tools @
             [''agents_list'', ''sessions_spawn'', ''sessions_history'', ''session_status''] @ subagent_tools @ thinking_tools)
           (common_deny @ [''sessions_send'']),
         memory_config [''memory'', ''sessions''] True]\<rparr>"

definition specialist_template :: agent_template where
  "specialist_template =
     \<lparr>tpl_type = ''specialist-dev'', tpl_label = ''Specialist Dev'',
      tpl_description = ''Focused developer for specific domains (frontend, backend, blockchain). Docker bridge + write access.'',
      tpl_emoji = [CHR 0xE2, CHR 0x9A, CHR 0x99, CHR 0xEF, CHR 0xB8, CHR 0x8F],
      tpl_model_tier = ''sonnet'', tpl_tool_count = 15,
      tpl_config =
        [model_config ''anthropic/claude-sonnet-4-20250514'' sonnet_fallbacks,
         identity_config ''specialist developer'' [CHR 0xE2, CHR 0x9A, CHR 0x99, CHR 0xEF, CHR 0xB8, CHR 0x8F],
         (''subagents'', JObj [(''model'', JStr ''openai/codex-mini-latest'')]),
         sandbox_config ''all'' ''rw'' (Some ''bridge''),
         tools_config (coding_tools @ memory_tools @ [''agents_list'', ''sessions_spawn'', ''session_status''] @
             [''subagents'', ''llm-task''] @ [''thinking'', ''reactions'', ''skills''])
           (common_deny @ [''sessions_send'', ''browser'', ''web'', ''lobster'']),
         memory_config [''memory'', ''sessions''] True]\<rparr>"

definition reviewer_template :: agent_template where
  "reviewer_template =
     \<lparr>tpl_type = ''reviewer'', tpl_label = ''Reviewer / QA'',
      tpl_description = ''Read-only access for code review, quality gates, and auditing. Lightweight Haiku model.'',
      tpl_emoji = [CHR 0xF0, CHR 0x9F, CHR 0x94, CHR 0xAC], tpl_model_tier = ''haiku'', tpl_tool_count = 7,
      tpl_config =
        [model_config ''anthropic/claude-haiku-4-5'' haiku_fallbacks,
         identity_config ''quality reviewer'' [CHR 0xF0, CHR 0x9F, CHR 0x94, CHR 0xAC],
         sandbox_config ''all'' ''ro'' None,
         tools_config [''read'', ''memory_search'', ''memory_get'', ''agents_list'', ''thinking'', ''reactions'', ''skills'']
           (common_deny @ [''write'', ''edit'', ''apply_patch'', ''exec'', ''bash'', ''process'',
              ''browser'', ''web'', ''sessions_send'', ''sessions_spawn'', ''lobster'']),
         memory_config [''memory''] False]\<rparr>"

definition researcher_template :: agent_template where
  "researcher_template =
     \<lparr>tpl_type = ''researcher'', tpl_label = ''Researcher'',
      tpl_description = ''Browser and web access for research tasks. No workspace or code execution.'',
      tpl_emoji = [CHR 0xF0, CHR 0x9F, CHR 0x94, CHR 0x8D], tpl_model_tier = ''sonnet'', tpl_tool_count = 8,
      tpl_config =
        [model_config ''anthropic/claude-sonnet-4-20250514'' sonnet_fallbacks,
         identity_config ''research analyst'' [CHR 0xF0, CHR 0x9F, CHR 0x94, CHR 0x8D],
         sandbox_config ''all'' ''none'' None,
         tools_config [''browser'', ''web'', ''memory_search'', ''memory_get'', ''agents_list'', ''thinking'', ''reactions'', ''skills'']
           (common_deny @ [''read'', ''write'', ''edit'', ''apply_patch'', ''exec'', ''bash'', ''process'',
              ''sessions_send'', ''sessions_spawn'', ''lobster'']),
         memory_config [''memory'', ''sessions''] False]\<rparr>"

definition content_template :: agent_template where
  "content_template =
     \<lparr>tpl_type = ''content-creator'', tpl_label = ''Content Creator'',
      tpl_description = ''Write and edit access for content generation. No code execution or browser.'',
      tpl_emoji = [CHR 0xE2, CHR 0x9C, CHR 0x8F, CHR 0xEF, CHR 0xB8, CHR 0x8F], tpl_model_tier = ''haiku'', tpl_tool_count = 9,
      tpl_config =
        [model_config ''anthropic/claude-haiku-4-5'' haiku_fallbacks,
         identity_config ''content creator'' [CHR 0xE2, CHR 0x9C, CHR 0x8F, CHR 0xEF, CHR 0xB8, CHR 0x8F],
         sandbox_config ''all'' ''none'' None,
         tools_config [''write'', ''edit'', ''memory_search'', ''memory_get'', ''agents_list'', ''thinking'', ''reactions'', ''skills'', ''web'']
           (common_deny @ [''read'', ''apply_patch'', ''exec'', ''bash'', ''process'',
              ''browser'', ''sessions_send'', ''sessions_spawn'', ''lobster'', ''subagents'', ''llm-task'']),
         memory_config [''memory''] False]\<rparr>"

definition auditor_template :: agent_template where
  "auditor_template =
     \<lparr>tpl_type = ''security-auditor'', tpl_label = ''Security Auditor'',
      tpl_description = ''Read-only workspace with bash for security scanning. No write access to prevent tampering.'',
      tpl_emoji = [CHR 0xF0, CHR 0x9F, CHR 0x9B, CHR 0xA1, CHR 0xEF, CHR 0xB8, CHR 0x8F],
      tpl_model_tier = ''sonnet'', tpl_tool_count = 10,
      tpl_config =
        [model_config ''anthropic/claude-sonnet-4-20250514'' sonnet_fallbacks,
         identity_config ''security auditor'' [CHR 0xF0, CHR 0x9F, CHR 0x9B, CHR 0xA1, CHR 0xEF, CHR 0xB8, CHR 0x8F],
         sandbox_config ''all'' ''ro'' None,
         tools_config [''read'', ''exec'', ''bash'', ''memory_search'', ''memory_get'', ''agents_list'', ''thinking'',
             ''reactions'', ''skills'', ''web'']
           (common_deny @ [''write'', ''edit'', ''apply_patch'', ''process'',
              ''browser'', ''sessions_send'', ''sessions_spawn'', ''lobster'', ''subagents'', ''llm-task'']),
         memory_config [''memory''] False]\<rparr>"

definition agent_templates :: "agent_template list" where
  "agent_templates = [orchestrator_template, developer_template, specialist_template, reviewer_template,
     researcher_template, content_template, auditor_template]"

definition get_template :: "string \<Rightarrow> agent_template option" where
  "get_template ty = find (\<lambda>t. tpl_type t = ty) agent_templates"

section \<open>Building a configuration\<close>

text \<open>\<open>config.k.f = v\<close>, where \<open>config.k\<close> is an object; and only if \<open>v\<close> is truthy.\<close>

definition set_in :: "string \<Rightarrow> string \<Rightarrow> json \<Rightarrow> obj \<Rightarrow> obj" where
  "set_in k f v ob = obj_set k (JObj (obj_set f v (members (fld ob k)))) ob"

definition set_if :: "string \<Rightarrow> string \<Rightarrow> json option \<Rightarrow> obj \<Rightarrow> obj" where
  "set_if k f v ob = (case v of None \<Rightarrow> ob | Some j \<Rightarrow> if jtruthy j then set_in k f j ob else ob)"

text \<open>An identity whose name is set to \<open>undefined\<close> has no name when it is serialised.\<close>

definition name_identity :: "json option \<Rightarrow> obj \<Rightarrow> obj" where
  "name_identity v ob = (case v of Some j \<Rightarrow> set_in ''identity'' ''name'' j ob
     | None \<Rightarrow> obj_set ''identity'' (JObj (filter (\<lambda>(k, _). k \<noteq> ''name'') (members (fld ob ''identity'')))) ob)"

definition build_agent_config :: "agent_template \<Rightarrow> obj \<Rightarrow> json option props" where
  "build_agent_config tpl ov =
     (let c1 = name_identity (map_of ov ''name'') (tpl_config tpl);
          c2 = set_if ''identity'' ''emoji'' (map_of ov ''emoji'') c1;
          c3 = set_if ''identity'' ''theme'' (map_of ov ''theme'') c2;
          c4 = set_if ''model'' ''primary'' (map_of ov ''model'') c3;
          c5 = set_if ''sandbox'' ''workspaceAccess'' (map_of ov ''workspaceAccess'') c4;
          c6 = set_if ''sandbox'' ''mode'' (map_of ov ''sandboxMode'') c5;
          c7 = (if jtruthy_opt (map_of ov ''dockerNetwork'')
                then set_in ''sandbox'' ''docker'' (JObj [(''network'', fld ov ''dockerNetwork'')]) c6 else c6);
          c8 = (if jtruthy_opt (map_of c7 ''subagents'')
                then set_if ''subagents'' ''allowAgents'' (map_of ov ''subagentAllowAgents'') c7 else c7)
      in spread [(''id'', map_of ov ''id''), (''name'', map_of ov ''name''),
                 (''workspace'', map_of ov ''workspace''), (''agentDir'', map_of ov ''agentDir'')] (given c8))"

section \<open>The gateway's file\<close>

record gateway_file =
  gf_home :: bool
  gf_content :: "string + obj"
  gf_write_error :: "string option"

definition agent_list :: "obj \<Rightarrow> obj list" where
  "agent_list p =
     (case map_of p ''agents'' of
        Some a \<Rightarrow> (case jget a ''list'' of Some (JArr xs) \<Rightarrow> map members xs | _ \<Rightarrow> [])
      | None \<Rightarrow> [])"

definition read_openclaw_agents :: "gateway_file \<Rightarrow> string + obj list" where
  "read_openclaw_agents gf =
     (if \<not> gf_home gf then Inl ''OPENCLAW_HOME not configured''
      else case gf_content gf of Inl e \<Rightarrow> Inl e | Inr p \<Rightarrow> Inr (agent_list p))"

text \<open>\<open>deepMerge\<close>: objects are merged where both sides have one, anything else is overwritten.\<close>

fun is_obj :: "json option \<Rightarrow> bool" where
  "is_obj (Some (JObj _)) = True"
| "is_obj _ = False"

function deep_merge :: "obj \<Rightarrow> obj \<Rightarrow> obj" where
  "deep_merge target source = fold
     (\<lambda>(k, v). obj_set k (if is_obj (Some v) \<and> is_obj (map_of target k)
        then JObj (deep_merge (members (fld target k)) (members v)) else v)) source target"
  by pat_completeness auto

lemma size_member:
  assumes "(k, v) \<in> set ob" "is_obj (Some v)"
  shows "size_list (size_prod (\<lambda>_. 0) size) (members v) < size_list (size_prod (\<lambda>_. 0) size) (ob :: obj)"
proof -
  obtain kvs where v: "v = JObj kvs" using assms(2) by (cases v) auto
  have "size_prod (\<lambda>_. 0) size (k, v) \<le> size_list (size_prod (\<lambda>_. 0) size) ob"
    using assms(1) by (rule size_list_estimation'[OF _ order_refl])
  then show ?thesis by (simp add: v)
qed

termination deep_merge
  by (relation "measure (\<lambda>(t, s). size_list (size_prod (\<lambda>_. 0) size) s)") (auto intro: size_member)

declare deep_merge.simps [simp del]

text \<open>\<open>writeAgentToConfig\<close>: the entry with the same id is merged into, or one is appended.\<close>

fun replace_at :: "('x \<Rightarrow> bool) \<Rightarrow> ('x \<Rightarrow> 'x) \<Rightarrow> 'x list \<Rightarrow> 'x list option" where
  "replace_at P f [] = None"
| "replace_at P f (x # xs) = (if P x then Some (f x # xs) else map_option ((#) x) (replace_at P f xs))"

definition merge_into_list :: "obj \<Rightarrow> obj list \<Rightarrow> obj list" where
  "merge_into_list c xs =
     (case replace_at (\<lambda>a. map_of a ''id'' = map_of c ''id'') (\<lambda>a. deep_merge a c) xs of
        Some ys \<Rightarrow> ys | None \<Rightarrow> xs @ [c])"

definition updated_file :: "obj \<Rightarrow> obj \<Rightarrow> obj" where
  "updated_file c p =
     (let p1 = (if jtruthy_opt (map_of p ''agents'') then p else obj_set ''agents'' (JObj []) p);
          a1 = members (fld p1 ''agents'');
          a2 = (if jtruthy_opt (map_of a1 ''list'') then a1 else obj_set ''list'' (JArr []) a1);
          xs = (case fld a2 ''list'' of JArr ys \<Rightarrow> map members ys | _ \<Rightarrow> [])
      in obj_set ''agents'' (JObj (obj_set ''list'' (JArr (map JObj (merge_into_list c xs))) a2)) p1)"

definition write_agent_to_config :: "obj \<Rightarrow> gateway_file \<Rightarrow> gateway_file \<times> string option" where
  "write_agent_to_config c gf =
     (if \<not> gf_home gf then (gf, Some ''OPENCLAW_HOME not configured'')
      else case gf_content gf of Inl e \<Rightarrow> (gf, Some e)
      | Inr p \<Rightarrow>
          (case gf_write_error gf of Some e \<Rightarrow> (gf, Some e)
           | None \<Rightarrow> (gf\<lparr>gf_content := Inr (updated_file c p)\<rparr>, None)))"

section \<open>Synchronising the agents\<close>

definition json_or :: "json option \<Rightarrow> json option \<Rightarrow> json option" where
  "json_or a b = (if jtruthy_opt a then a else b)"

fun text_of :: "json option \<Rightarrow> string" where
  "text_of (Some (JStr s)) = s"
| "text_of _ = []"

text \<open>The name, the role and the configuration an entry of the file stands for.\<close>

definition map_agent_to_mc :: "obj \<Rightarrow> string \<times> string \<times> obj" where
  "map_agent_to_mc a =
     (let identity = fld a ''identity'' in
      (text_of (json_or (jget identity ''name'') (json_or (map_of a ''name'') (map_of a ''id''))),
       text_of (json_or (jget identity ''theme'') (Some (JStr ''agent''))),
       defined [(''openclawId'', map_of a ''id''), (''model'', map_of a ''model''), (''identity'', map_of a ''identity''),
          (''sandbox'', map_of a ''sandbox''), (''tools'', map_of a ''tools''), (''subagents'', map_of a ''subagents''),
          (''memorySearch'', map_of a ''memorySearch''), (''workspace'', map_of a ''workspace''),
          (''agentDir'', map_of a ''agentDir''), (''isDefault'', json_or (map_of a ''default'') (Some (JBool False)))]))"

datatype sync_action = Created | Updated | Unchanged

record sync_result =
  sr_synced :: nat
  sr_created :: nat
  sr_updated :: nat
  sr_agents :: "(json option \<times> string \<times> sync_action) list"
  sr_error :: "string option"

definition synced_agent :: "string \<Rightarrow> string \<Rightarrow> obj \<Rightarrow> int \<Rightarrow> agent" where
  "synced_agent name role cfg now =
     \<lparr>agent_name = name, agent_role = role, agent_session_key = None, agent_soul = None,
      agent_status = ''offline'', agent_last_seen = None, agent_last_activity = None,
      agent_created_at = now, agent_updated_at = now, agent_config = Some (JObj cfg), agent_memory = []\<rparr>"

definition sync_one :: "int \<Rightarrow> obj \<Rightarrow> agent table \<Rightarrow> agent table \<times> sync_action" where
  "sync_one now a t =
     (case map_agent_to_mc a of (name, role, cfg) \<Rightarrow> (
      case tbl_find (\<lambda>g. agent_name g = name) t of
        Some (i, g) \<Rightarrow>
          if (case agent_config g of None \<Rightarrow> JObj [] | Some c \<Rightarrow> c) \<noteq> JObj cfg \<or> agent_role g \<noteq> role
          then (tbl_update_where (\<lambda>g. agent_name g = name)
                  (\<lambda>g. g\<lparr>agent_role := role, agent_config := Some (JObj cfg), agent_updated_at := now\<rparr>) t, Updated)
          else (t, Unchanged)
      | None \<Rightarrow> (tbl_insert (synced_agent name role cfg now) t, Created)))"

fun sync_loop :: "int \<Rightarrow> obj list \<Rightarrow> agent table \<Rightarrow> agent table \<times> (json option \<times> string \<times> sync_action) list" where
  "sync_loop now [] t = (t, [])"
| "sync_loop now (a # as) t =
     (let (t1, act) = sync_one now a t; (t2, rs) = sync_loop now as t1
      in (t2, (map_of a ''id'', fst (map_agent_to_mc a), act) # rs))"

definition count_action :: "sync_action \<Rightarrow> (json option \<times> string \<times> sync_action) list \<Rightarrow> nat" where
  "count_action act rs = length (filter (\<lambda>(_, _, a). a = act) rs)"

definition sync_agents_from_config :: "string \<Rightarrow> gateway_file \<Rightarrow> world \<Rightarrow> world \<times> sync_result" where
  "sync_agents_from_config actor gf w =
     (case read_openclaw_agents gf of
        Inl e \<Rightarrow> (w, \<lparr>sr_synced = 0, sr_created = 0, sr_updated = 0, sr_agents = [], sr_error = Some e\<rparr>)
      | Inr as \<Rightarrow>
          if as = [] then (w, \<lparr>sr_synced = 0, sr_created = 0, sr_updated = 0, sr_agents = [], sr_error = None\<rparr>)
          else
            let (t, rs) = sync_loop (now_s w) as (agents (dbase w));
                w1 = w\<lparr>dbase := (dbase w)\<lparr>agents := t\<rparr>\<rparr>;
                synced = length as; created = count_action Created rs; updated = count_action Updated rs;
                w2 = (if created > 0 \<or> updated > 0
                  then broadcast ''agent.created'' (JObj [(''type'', JStr ''sync''), (''synced'', JInt (int synced)),
                           (''created'', JInt (int created)), (''updated'', JInt (int updated))])
                         (log_audit_event ''agent_config_sync'' actor None None None
                           (Some (JObj [(''synced'', JInt (int synced)), (''created'', JInt (int created)),
                              (''updated'', JInt (int updated)),
                              (''agents'', strs (map (\<lambda>(_, n, _). n) (filter (\<lambda>(_, _, a). a \<noteq> Unchanged) rs)))]))
                           None None w1)
                  else w1)
            in (w2, \<lparr>sr_synced = synced, sr_created = created, sr_updated = updated, sr_agents = rs, sr_error = None\<rparr>))"

record sync_diff =
  sd_in_config :: nat
  sd_in_mc :: nat
  sd_new :: "string list"
  sd_updated :: "string list"
  sd_only_in_mc :: "string list"

definition preview_sync_diff :: "gateway_file \<Rightarrow> world \<Rightarrow> sync_diff" where
  "preview_sync_diff gf w =
     (case read_openclaw_agents gf of
        Inl e \<Rightarrow> \<lparr>sd_in_config = 0, sd_in_mc = 0, sd_new = [], sd_updated = [], sd_only_in_mc = []\<rparr>
      | Inr as \<Rightarrow>
          let mc = map snd (rows (agents (dbase w)));
              mapped = map map_agent_to_mc as;
              found = (\<lambda>n. find (\<lambda>g. agent_name g = n) mc)
          in \<lparr>sd_in_config = length as, sd_in_mc = length mc,
              sd_new = map fst (filter (\<lambda>(n, _). found n = None) mapped),
              sd_updated = map fst (filter (\<lambda>(n, role, cfg). case found n of None \<Rightarrow> False
                 | Some g \<Rightarrow> agent_config g \<noteq> Some (JObj cfg) \<or> agent_role g \<noteq> role) mapped),
              sd_only_in_mc = filter (\<lambda>n. n \<notin> set (map fst mapped)) (map agent_name mc)\<rparr>)"

end
