(* ===== verification/Agents.thy ===== *)
theory Agents
  imports Agent_Config Tasks Js_Numbers
begin

text \<open>
  The register of agents: \<open>app/api/agents/route.ts\<close>, \<open>agents/[id]/route.ts\<close>, \<open>agents/sync\<close> and
  \<open>connect/route.ts\<close>. Requests that write to the gateway's file answer with the file as it is
  afterwards; when no reply comes it is as before. Reading and writing the file is one step.
  Bodies are well-typed: an optional field of a body that no schema validates is \<open>None\<close> when
  it is missing, and \<open>Some None\<close> when it is \<open>null\<close>. (An identity that a template has built
  without a name is written without one; an entry of the file that has a name keeps it.)
\<close>

section \<open>Rows as objects\<close>

text \<open>\<open>SELECT *\<close>, with the configuration parsed.\<close>

definition agent_fields :: "db \<Rightarrow> int \<Rightarrow> agent \<Rightarrow> json \<Rightarrow> obj" where
  "agent_fields d i a cfg =
     [(''id'', JInt i), (''name'', JStr (agent_name a)), (''role'', JStr (agent_role a)),
      (''session_key'', JOptStr (agent_session_key a)), (''soul_content'', JOptStr (agent_soul a)),
      (''status'', JStr (agent_status a)), (''last_seen'', JOptInt (agent_last_seen a)),
      (''last_activity'', JOptStr (agent_last_activity a)), (''created_at'', JInt (agent_created_at a)),
      (''updated_at'', JInt (agent_updated_at a)), (''config'', cfg)] @
     (if memory_column d then [(''working_memory'', JStr (agent_memory a))] else [])"

definition parsed_config :: "agent \<Rightarrow> json" where
  "parsed_config a = (case agent_config a of None \<Rightarrow> JObj [] | Some c \<Rightarrow> c)"

definition agent_json :: "db \<Rightarrow> int \<Rightarrow> agent \<Rightarrow> obj" where
  "agent_json d i a = agent_fields d i a (parsed_config a)"

definition stats_json :: "nat \<Rightarrow> nat \<Rightarrow> nat \<Rightarrow> nat \<Rightarrow> string \<times> json" where
  "stats_json every assigned in_progress completed =
     (''taskStats'', JObj [(''total'', JInt (int every)), (''assigned'', JInt (int assigned)),
        (''in_progress'', JInt (int in_progress)), (''completed'', JInt (int completed))])"

definition task_stats :: "string \<Rightarrow> db \<Rightarrow> string \<times> json" where
  "task_stats name d =
     (let mine = (\<lambda>P. tbl_count (\<lambda>t. task_assigned_to t = Some name \<and> P (task_status t)) (tasks d))
      in stats_json (mine (\<lambda>_. True)) (mine (\<lambda>s. s = Assigned)) (mine (\<lambda>s. s = In_Progress)) (mine (\<lambda>s. s = Done)))"

text \<open>An agent by the \<open>[id]\<close> of a path: a text that is no number is a name.\<close>

definition find_agent :: "string \<Rightarrow> world \<Rightarrow> (int \<times> agent) option" where
  "find_agent id_text w =
     (case string_number id_text of
        None \<Rightarrow> tbl_find (\<lambda>a. agent_name a = id_text) (agents (dbase w))
      | Some q \<Rightarrow>
          (case row_id q of None \<Rightarrow> None
           | Some i \<Rightarrow> map_option (Pair i) (tbl_get (agents (dbase w)) i)))"

definition set_agent :: "int \<Rightarrow> (agent \<Rightarrow> agent) \<Rightarrow> world \<Rightarrow> world" where
  "set_agent i f w = w\<lparr>dbase := (dbase w)\<lparr>agents := tbl_update i f (agents (dbase w))\<rparr>\<rparr>"

text \<open>The session key is unique where there is one.\<close>

definition key_taken :: "string option \<Rightarrow> (int \<Rightarrow> bool) \<Rightarrow> db \<Rightarrow> bool" where
  "key_taken k other d =
     (case k of None \<Rightarrow> False
      | Some s \<Rightarrow> list_ex (\<lambda>(i, a). other i \<and> agent_session_key a = Some s) (rows (agents d)))"

section \<open>Listing agents\<close>

definition agent_matches :: "string option \<Rightarrow> string option \<Rightarrow> agent \<Rightarrow> bool" where
  "agent_matches status role a = (param_ok status (Some (agent_status a)) \<and> param_ok role (Some (agent_role a)))"

definition get_agents ::
  "(int list \<Rightarrow> int list) \<Rightarrow> (string \<Rightarrow> string option) \<Rightarrow> env \<Rightarrow> request \<Rightarrow> world \<Rightarrow> world \<times> json response" where
  "get_agents scan query e r = with_role Viewer e r (\<lambda>user w.
     let P = agent_matches (query ''status'') (query ''role'') in
     (case (parse_int (opt_or (query ''limit'') ''50''), parse_int (opt_or (query ''offset'') ''0'')) of
        (Some l, Some offset) \<Rightarrow>
          let limit = min l 200; d = dbase w;
              found = page_rows limit offset
                (order_desc scan (\<lambda>(i, a). agent_created_at a) (tbl_select P (agents d)))
          in (w, Reply 200 (JObj
               [(''agents'', JArr (map (\<lambda>(i, a). JObj (agent_json d i a @ [task_stats (agent_name a) d])) found)),
                (''total'', JInt (int (tbl_count P (agents d)))),
                (''page'', if limit = 0 then JNull else JInt (offset div limit + 1)),
                (''limit'', JInt limit)]))
      | _ \<Rightarrow> (w, Fail 500 ''Failed to fetch agents'')))"

definition get_agent :: "string \<Rightarrow> env \<Rightarrow> request \<Rightarrow> world \<Rightarrow> world \<times> json response" where
  "get_agent id_text e r = with_role Viewer e r (\<lambda>user w.
     (case find_agent id_text w of
        None \<Rightarrow> (w, Fail 404 ''Agent not found'')
      | Some (i, a) \<Rightarrow> (w, Reply 200 (JObj [(''agent'', JObj (agent_json (dbase w) i a))]))))"

section \<open>Creating an agent\<close>

record create_agent_body =
  ca_name :: string
  ca_role :: "string option"
  ca_session_key :: "string option"
  ca_soul :: "string option"
  ca_status :: string
  ca_config :: obj
  ca_template :: "string option"
  ca_gateway_config :: "obj option"
  ca_write :: bool

text \<open>Resolve the template: the final role, if any, and the final configuration.\<close>

definition resolve_template :: "create_agent_body \<Rightarrow> string option \<times> obj" where
  "resolve_template b =
     (case str_or_null (ca_template b) of
        Some ty \<Rightarrow>
          (case get_template ty of
             Some tpl \<Rightarrow>
               (let built = build_agent_config tpl (case ca_gateway_config b of None \<Rightarrow> [] | Some g \<Rightarrow> g)
                in (if ca_role b \<noteq> None then ca_role b
                    else Some (text_of (json_or (jget (fld (tpl_config tpl) ''identity'') ''theme'') (Some (JStr (tpl_type tpl))))),
                    defined (spread built (given (ca_config b)))))
           | None \<Rightarrow> (ca_role b, ca_config b))
      | None \<Rightarrow>
          (ca_role b, case ca_gateway_config b of None \<Rightarrow> ca_config b | Some g \<Rightarrow> spread (ca_config b) g))"

definition new_agent :: "create_agent_body \<Rightarrow> string \<Rightarrow> obj \<Rightarrow> int \<Rightarrow> agent" where
  "new_agent b role cfg now =
     \<lparr>agent_name = ca_name b, agent_role = role, agent_session_key = ca_session_key b, agent_soul = ca_soul b,
      agent_status = ca_status b, agent_last_seen = None, agent_last_activity = None,
      agent_created_at = now, agent_updated_at = now, agent_config = Some (JObj cfg), agent_memory = []\<rparr>"

definition insert_agent :: "agent \<Rightarrow> world \<Rightarrow> world" where
  "insert_agent a w = w\<lparr>dbase := (dbase w)\<lparr>agents := tbl_insert a (agents (dbase w))\<rparr>\<rparr>"

text \<open>\<open>name.toLowerCase().replace(/\s+/g, '-')\<close>.\<close>

fun dash_white :: "bool \<Rightarrow> string \<Rightarrow> string" where
  "dash_white in_white [] = []"
| "dash_white in_white (c # cs) =
     (if js_white c then (if in_white then dash_white True cs else CHR ''-'' # dash_white True cs)
      else c # dash_white False cs)"

definition openclaw_id :: "string \<Rightarrow> string" where
  "openclaw_id name = dash_white False (js_lower name)"

text \<open>The parts of a configuration that the gateway takes.\<close>

definition gateway_parts :: "obj \<Rightarrow> obj" where
  "gateway_parts cfg = filter (\<lambda>(k, v). jtruthy v)
     (concat (map (\<lambda>k. case map_of cfg k of None \<Rightarrow> [] | Some v \<Rightarrow> [(k, v)])
        [''model'', ''identity'', ''sandbox'', ''tools'', ''subagents'', ''memorySearch'']))"

definition create_agent_with ::
  "env \<Rightarrow> request \<Rightarrow> gateway_file \<Rightarrow> create_agent_body \<Rightarrow> world \<Rightarrow> world \<times> (gateway_file \<times> json) response" where
  "create_agent_with e r gf b w =
     (case resolve_template b of (final_role, cfg) \<Rightarrow>
     (case str_or_null final_role of
        None \<Rightarrow> (w, Fail 400 ''Name and role are required'')
      | Some role \<Rightarrow>
        if ca_name b = [] then (w, Fail 400 ''Name and role are required'')
        else if tbl_find (\<lambda>a. agent_name a = ca_name b) (agents (dbase w)) \<noteq> None
        then (w, Fail 409 ''Agent name already exists'')
        else if key_taken (ca_session_key b) (\<lambda>_. True) (dbase w) then (w, Fail 500 ''Failed to create agent'')
        else
          let name = ca_name b;
              i = tbl_last_id (agents (dbase w));
              a = new_agent b role cfg (now_s w);
              tpl = str_or_null (ca_template b);
              w1 = insert_agent a w;
              w2 = log_activity ''agent_created'' ''agent'' i (actor_name e r w1)
                     (''Created agent: '' @ name @ '' ('' @ role @ '')'' @
                      (case tpl of None \<Rightarrow> [] | Some t \<Rightarrow> '' from template: '' @ t))
                     (Some (JObj ([(''name'', JStr name), (''role'', JStr role), (''status'', JStr (ca_status b))] @
                        opt_field ''session_key'' JStr (ca_session_key b) @ [(''template'', JOptStr tpl)]))) w1;
              parsed = JObj (agent_json (dbase w2) i a @ [stats_json 0 0 0 0]);
              w3 = broadcast ''agent.created'' parsed w2;
              oid = openclaw_id name
          in if \<not> ca_write b then (w3, Reply 201 (gf, JObj [(''agent'', parsed)]))
             else (case write_agent_to_config ([(''id'', JStr oid), (''name'', JStr name)] @ gateway_parts cfg) gf of
               (gf', Some err) \<Rightarrow>
                 (w3, Reply 201 (gf', JObj [(''agent'', parsed),
                    (''warning'', JStr (''Agent created in MC but gateway write failed: '' @ err))]))
             | (gf', None) \<Rightarrow>
                 (log_audit_event ''agent_gateway_create'' (actor_name e r w3) None (Some ''agent'') (Some i)
                    (Some (JObj [(''name'', JStr name), (''openclaw_id'', JStr oid), (''template'', JOptStr tpl)]))
                    (Some (header_or r ''x-forwarded-for'' ''unknown'')) None w3,
                  Reply 201 (gf', JObj [(''agent'', parsed)])))))"

definition post_agent ::
  "create_agent_body validated \<Rightarrow> env \<Rightarrow> request \<Rightarrow> gateway_file \<Rightarrow> world \<Rightarrow> world \<times> (gateway_file \<times> json) response" where
  "post_agent body e r gf = with_role Operator e r (\<lambda>user.
     with_limit MutationLimiter e r (with_body body (create_agent_with e r gf)))"

section \<open>Updating an agent by its name\<close>

record agent_update_body =
  ua_name :: "string option"
  ua_status :: "string option option"
  ua_last_activity :: "string option option"
  ua_config :: "json option"
  ua_session_key :: "string option option"
  ua_soul :: "string option option"
  ua_role :: "string option option"

definition apply_agent_update :: "agent_update_body \<Rightarrow> int \<Rightarrow> agent \<Rightarrow> agent" where
  "apply_agent_update b now a = a\<lparr>
     agent_status := (case ua_status b of Some (Some s) \<Rightarrow> s | _ \<Rightarrow> agent_status a),
     agent_last_seen := (if ua_status b = None then agent_last_seen a else Some now),
     agent_last_activity := (case ua_last_activity b of None \<Rightarrow> agent_last_activity a | Some x \<Rightarrow> x),
     agent_config := (case ua_config b of None \<Rightarrow> agent_config a | Some c \<Rightarrow> Some c),
     agent_session_key := (case ua_session_key b of None \<Rightarrow> agent_session_key a | Some k \<Rightarrow> k),
     agent_soul := (case ua_soul b of None \<Rightarrow> agent_soul a | Some x \<Rightarrow> x),
     agent_role := (case ua_role b of Some (Some x) \<Rightarrow> x | _ \<Rightarrow> agent_role a),
     agent_updated_at := now\<rparr>"

definition no_agent_fields :: "agent_update_body \<Rightarrow> bool" where
  "no_agent_fields b \<longleftrightarrow> ua_status b = None \<and> ua_last_activity b = None \<and> ua_config b = None \<and>
     ua_session_key b = None \<and> ua_soul b = None \<and> ua_role b = None"

text \<open>A status or role that is \<open>null\<close>, or the session key of another agent, makes the update throw.\<close>

definition agent_update_throws :: "agent_update_body \<Rightarrow> int \<Rightarrow> db \<Rightarrow> bool" where
  "agent_update_throws b i d \<longleftrightarrow> ua_status b = Some None \<or> ua_role b = Some None \<or>
     key_taken (case ua_session_key b of None \<Rightarrow> None | Some k \<Rightarrow> k) (\<lambda>j. j \<noteq> i) d"

definition update_agent_with :: "agent_update_body option \<Rightarrow> world \<Rightarrow> world \<times> json response" where
  "update_agent_with body w =
     (case body of None \<Rightarrow> (w, Fail 500 ''Failed to update agent'')
      | Some b \<Rightarrow>
     (case str_or_null (ua_name b) of
        None \<Rightarrow> (w, Fail 400 ''Agent name is required'')
      | Some name \<Rightarrow>
     (case tbl_find (\<lambda>a. agent_name a = name) (agents (dbase w)) of
        None \<Rightarrow> (w, Fail 404 ''Agent not found'')
      | Some (i, a) \<Rightarrow>
        if no_agent_fields b then (w, Fail 400 ''No fields to update'')
        else if agent_update_throws b i (dbase w) then (w, Fail 500 ''Failed to update agent'')
        else
          let status = (case ua_status b of Some s \<Rightarrow> s | None \<Rightarrow> None);
              w1 = set_agent i (apply_agent_update b (now_s w)) w;
              w2 = (case status of None \<Rightarrow> w1
                    | Some s \<Rightarrow>
                        if s = agent_status a then w1
                        else log_activity ''agent_status_change'' ''agent'' i name
                          (''Agent status changed from '' @ agent_status a @ '' to '' @ s)
                          (Some (JObj ([(''oldStatus'', JStr (agent_status a)), (''newStatus'', JStr s)] @
                             opt_field ''last_activity'' (\<lambda>x. JOptStr x) (ua_last_activity b)))) w1);
              w3 = broadcast ''agent.updated''
                     (JObj ([(''id'', JInt i), (''name'', JStr name)] @ opt_field ''status'' JStr status @
                        opt_field ''last_activity'' (\<lambda>x. JOptStr x) (ua_last_activity b) @
                        opt_field ''role'' (\<lambda>x. JOptStr x) (ua_role b) @ [(''updated_at'', JInt (now_s w))])) w2
          in (w3, Reply 200 (JObj [(''success'', JBool True)])))))"

definition put_agents :: "agent_update_body option \<Rightarrow> env \<Rightarrow> request \<Rightarrow> world \<Rightarrow> world \<times> json response" where
  "put_agents body e r = with_role Operator e r (\<lambda>user. with_limit MutationLimiter e r (update_agent_with body))"

section \<open>Configuring and deleting one agent\<close>

record agent_config_body =
  gb_role :: "string option option"
  gb_gateway_config :: "obj option"
  gb_write :: "bool option"

text \<open>The body is \<open>Inl\<close> the message of the exception when it cannot be read.\<close>

definition configure_agent_with ::
  "string \<Rightarrow> string + agent_config_body \<Rightarrow> request \<Rightarrow> gateway_file \<Rightarrow> auth_user \<Rightarrow> world \<Rightarrow>
   world \<times> (gateway_file \<times> json) response" where
  "configure_agent_with id_text body r gf user w =
     (case body of Inl msg \<Rightarrow> (w, Fail 500 (str_or msg ''Failed to update agent''))
      | Inr b \<Rightarrow>
     (case find_agent id_text w of
        None \<Rightarrow> (w, Fail 404 ''Agent not found'')
      | Some (i, a) \<Rightarrow>
        if gb_role b = Some None then (w, Fail 500 ''NOT NULL constraint failed: agents.role'')
        else
          let now = now_s w;
              existing = parsed_config a;
              cfg = (case gb_gateway_config b of None \<Rightarrow> existing | Some g \<Rightarrow> JObj (spread (members existing) g));
              w1 = set_agent i (\<lambda>x. x\<lparr>agent_updated_at := now,
                     agent_role := (case gb_role b of Some (Some s) \<Rightarrow> s | _ \<Rightarrow> agent_role x),
                     agent_config := (if gb_gateway_config b = None then agent_config x else Some cfg)\<rparr>) w;
              shown = JObj (spread (agent_fields (dbase w) i a cfg)
                 [(''config'', cfg), (''role'', JStr (case gb_role b of Some (Some s) \<Rightarrow> str_or s (agent_role a) | _ \<Rightarrow> agent_role a)),
                  (''updated_at'', JInt now)]);
              finish = (\<lambda>gf' w.
                 (broadcast ''agent.updated''
                    (JObj [(''id'', JInt i), (''name'', JStr (agent_name a)), (''config'', cfg), (''updated_at'', JInt now)])
                    (log_activity ''agent_config_updated'' ''agent'' i (au_username user)
                       (''Config updated for agent '' @ agent_name a @ (if gb_write b = Some True then '' (+ gateway)'' else []))
                       (Some (JObj ((''fields'', strs (map fst (case gb_gateway_config b of None \<Rightarrow> [] | Some g \<Rightarrow> g))) #
                                    opt_field ''write_to_gateway'' JBool (gb_write b)))) w),
                  Reply 200 (gf', JObj [(''success'', JBool True), (''agent'', shown)])));
              warn = (\<lambda>gf' err. (w1, Reply 200 (gf', JObj
                 [(''warning'', JStr (''Agent updated in MC but gateway write failed: '' @ err)), (''agent'', shown)])))
          in (case (gb_write b, gb_gateway_config b) of
                (Some True, Some g) \<Rightarrow>
                  if existing = JNull then warn gf (''Cannot read properties of null (reading '' @ [CHR 0x27] @ ''openclawId'' @ [CHR 0x27] @ '')'')
                  else
                    let oid = (case json_or (jget existing ''openclawId'') (Some (JStr (openclaw_id (agent_name a)))) of
                                 Some v \<Rightarrow> v | None \<Rightarrow> JNull)
                    in (case write_agent_to_config ((''id'', oid) # gateway_parts g) gf of
                          (gf', Some err) \<Rightarrow> warn gf' err
                        | (gf', None) \<Rightarrow>
                            finish gf' (log_audit_event ''agent_config_writeback'' (au_username user) (Some (au_id user))
                              (Some ''agent'') (Some i)
                              (Some (JObj [(''agent_name'', JStr (agent_name a)), (''openclaw_id'', oid), (''fields'', strs (map fst g))]))
                              (Some (header_or r ''x-forwarded-for'' (header_or r ''x-real-ip'' ''unknown''))) None w1))
              | _ \<Rightarrow> finish gf w1)))"

definition put_agent ::
  "string \<Rightarrow> string + agent_config_body \<Rightarrow> env \<Rightarrow> request \<Rightarrow> gateway_file \<Rightarrow> world \<Rightarrow>
   world \<times> (gateway_file \<times> json) response" where
  "put_agent id_text body e r gf = with_role Operator e r (\<lambda>user. configure_agent_with id_text body r gf user)"

text \<open>The connections of an agent go with it.\<close>

definition delete_agent_row :: "int \<Rightarrow> world \<Rightarrow> world" where
  "delete_agent_row i w = w\<lparr>dbase := (dbase w)\<lparr>agents := tbl_delete i (agents (dbase w)),
     connections := tbl_delete_where (\<lambda>_ c. con_agent_id c = i) (connections (dbase w))\<rparr>\<rparr>"

definition delete_agent_with :: "string \<Rightarrow> auth_user \<Rightarrow> world \<Rightarrow> world \<times> json response" where
  "delete_agent_with id_text user w =
     (case find_agent id_text w of
        None \<Rightarrow> (w, Fail 404 ''Agent not found'')
      | Some (i, a) \<Rightarrow>
          (broadcast ''agent.deleted'' (JObj [(''id'', JInt i), (''name'', JStr (agent_name a))])
             (log_activity ''agent_deleted'' ''agent'' i (au_username user) (''Deleted agent: '' @ agent_name a)
                (Some (JObj [(''name'', JStr (agent_name a)), (''role'', JStr (agent_role a))]))
                (delete_agent_row i w)),
           Reply 200 (JObj [(''success'', JBool True), (''deleted'', JStr (agent_name a))])))"

definition delete_agent :: "string \<Rightarrow> env \<Rightarrow> request \<Rightarrow> world \<Rightarrow> world \<times> json response" where
  "delete_agent id_text e r = with_role Admin e r (delete_agent_with id_text)"

end
