(* ===== verification/Paths.thy ===== *)
theory Paths
  imports Js_Values "HOL-Library.Sublist"
begin

text \<open>
  \<open>lib/paths.ts\<close>: a path below a base directory. \<open>path.resolve\<close> of POSIX systems is modelled on
  the segments of a path: empty segments and \<open>.\<close> are dropped, \<open>..\<close> goes up. The routes that
  take file names from a request go through \<open>resolve_within\<close>.
\<close>

definition path_sep :: char where
  "path_sep = CHR ''/''"

definition is_absolute :: "string \<Rightarrow> bool" where
  "is_absolute p = starts_with [path_sep] p"

text \<open>Walking along segments, with the segments passed so far in reverse.\<close>

fun walk :: "string list \<Rightarrow> string list \<Rightarrow> string list" where
  "walk acc [] = rev acc"
| "walk acc (s # ss) =
     (if s = [] \<or> s = ''.'' then walk acc ss
      else if s = ''..'' then walk (tl acc) ss
      else walk (s # acc) ss)"

definition segments :: "string \<Rightarrow> string list" where
  "segments p = walk [] (split_on path_sep p)"

definition path_text :: "string list \<Rightarrow> string" where
  "path_text ss = (if ss = [] then [path_sep] else concat (map (\<lambda>s. path_sep # s) ss))"

text \<open>\<open>path.resolve(base, p)\<close> for an absolute \<open>base\<close>.\<close>

definition path_resolve :: "string \<Rightarrow> string \<Rightarrow> string" where
  "path_resolve base p = path_text (segments (if is_absolute p then p else base @ path_sep # p))"

definition resolve_within :: "string \<Rightarrow> string \<Rightarrow> string \<Rightarrow> string option" where
  "resolve_within cwd base_dir relative_path =
     (let base = path_resolve cwd base_dir;
          resolved = path_resolve base relative_path
      in if \<not> starts_with (base @ [path_sep]) resolved \<and> resolved \<noteq> base then None else Some resolved)"

section \<open>Segments of a resolved path\<close>

definition plain :: "string \<Rightarrow> bool" where
  "plain s \<longleftrightarrow> s \<noteq> [] \<and> s \<noteq> ''.'' \<and> s \<noteq> ''..'' \<and> path_sep \<notin> set s"

lemma split_on_no_sep: "s \<in> set (split_on c t) \<Longrightarrow> c \<notin> set s"
proof (induction t arbitrary: s)
  case (Cons a t)
  then show ?case by (cases "split_on c t") (auto split: if_splits)
qed simp

lemma walk_plain:
  "list_all plain acc \<Longrightarrow> \<forall>s \<in> set ss. path_sep \<notin> set s \<Longrightarrow> list_all plain (walk acc ss)"
proof (induction acc ss rule: walk.induct)
  case (2 acc s ss)
  have "list_all plain (tl acc)" using 2(4) by (cases acc) auto
  moreover have "plain s" if "s \<noteq> []" "s \<noteq> ''.''" "s \<noteq> ''..''"
    using that 2(5) by (simp add: plain_def)
  ultimately show ?case using 2 by simp
qed (auto simp: list_all_iff)

lemma segments_plain: "list_all plain (segments p)"
  using split_on_no_sep [of _ path_sep p] by (simp add: segments_def walk_plain)

lemma path_text_prefix:
  assumes "list_all plain bs" "list_all plain ss"
    and "concat (map (\<lambda>s. path_sep # s) ss) = concat (map (\<lambda>s. path_sep # s) bs) @ rest"
    and "rest = [] \<or> hd rest = path_sep"
  shows "prefix bs ss"
  using assms
proof (induction bs arbitrary: ss)
  case (Cons b bs)
  then obtain s ss' where ss: "ss = s # ss'" by (cases ss) auto
  have eq: "s @ concat (map (\<lambda>s. path_sep # s) ss') = b @ concat (map (\<lambda>s. path_sep # s) bs) @ rest"
    using Cons.prems(3) by (simp add: ss)
  have no: "path_sep \<notin> set s" "path_sep \<notin> set b" using Cons.prems by (simp_all add: ss plain_def)
  have start: "xs = [] \<or> hd xs = path_sep" if "xs = concat (map (\<lambda>s. path_sep # s) ss)" for xs ss
    using that by (cases ss) auto
  let ?x = "concat (map (\<lambda>s. path_sep # s) ss')" and ?y = "concat (map (\<lambda>s. path_sep # s) bs) @ rest"
  have x: "takeWhile (\<lambda>c. c \<noteq> path_sep) (s @ ?x) = s"
    using no(1) start [of ?x ss'] by (cases ?x) (auto simp: takeWhile_append)
  have y: "takeWhile (\<lambda>c. c \<noteq> path_sep) (b @ ?y) = b"
    using no(2) start [of "concat (map (\<lambda>s. path_sep # s) bs)" bs] Cons.prems(4) by (cases ?y; cases bs) (auto simp: takeWhile_append)
  have "s = b" using x y eq by metis
  then have "?x = ?y" using eq by simp
  then have "prefix bs ss'" using Cons.IH [of ss'] Cons.prems by (simp add: ss)
  then show ?case by (simp add: ss \<open>s = b\<close>)
qed simp

lemma path_text_inj_prefix:
  assumes "list_all plain bs" "list_all plain ss" "starts_with (path_text bs @ [path_sep]) (path_text ss) \<or> path_text ss = path_text bs"
  shows "prefix bs ss"
proof (cases "bs = []")
  case False
  then obtain b bs' where b: "bs = b # bs'" "b \<noteq> []" using assms(1) by (cases bs) (auto simp: plain_def)
  have "ss \<noteq> []"
    using assms(3) b by (auto simp: path_text_def starts_with_iff append_eq_Cons_conv)
  obtain rest where "path_text ss = path_text bs @ rest" "rest = [] \<or> hd rest = path_sep"
    using assms(3) by (auto simp: starts_with_iff)
  then show ?thesis
    using path_text_prefix [OF assms(1,2)] False \<open>ss \<noteq> []\<close> by (simp add: path_text_def)
qed simp

text \<open>
  Claim C30. No way out of the base directory: whatever a request puts into the relative path,
  a path that \<open>resolve_within\<close> returns leads through the segments of the base directory, in
  their order, and has no segment that is \<open>..\<close> or contains a separator.
\<close>

theorem resolve_within_safe:
  assumes "resolve_within cwd base_dir relative_path = Some p"
  shows "\<exists>ss. p = path_text ss \<and> list_all plain ss \<and>
    prefix (segments (if is_absolute base_dir then base_dir else cwd @ path_sep # base_dir)) ss"
proof -
  let ?base = "segments (if is_absolute base_dir then base_dir else cwd @ path_sep # base_dir)"
  obtain ss where ss: "p = path_text ss" "list_all plain ss"
    and "starts_with (path_text ?base @ [path_sep]) (path_text ss) \<or> path_text ss = path_text ?base"
    using assms segments_plain
    by (fastforce simp: resolve_within_def Let_def path_resolve_def split: if_splits)
  then show ?thesis using path_text_inj_prefix [OF segments_plain] by blast
qed

theorem resolve_within_safe_witness:
  "resolve_within ''/srv'' ''/srv/souls'' ''../souls/./dev.md'' = Some ''/srv/souls/dev.md'' \<and>
   resolve_within ''/srv'' ''/srv/souls'' ''../souls2/dev.md'' = None \<and>
   (\<exists>ss. ''/srv/souls/dev.md'' = path_text ss \<and> prefix [''srv'', ''souls''] ss)"
proof -
  have r: "resolve_within ''/srv'' ''/srv/souls'' ''../souls/./dev.md'' = Some ''/srv/souls/dev.md''"
    "resolve_within ''/srv'' ''/srv/souls'' ''../souls2/dev.md'' = None"
    by code_simp+
  have b: "segments (if is_absolute ''/srv/souls'' then ''/srv/souls'' else ''/srv'' @ path_sep # ''/srv/souls'') = [''srv'', ''souls'']"
    by code_simp
  show ?thesis using resolve_within_safe [OF r(1)] r unfolding b by blast
qed

end
