(* ===== verification/Agent_Work.thy ===== *)
theory Agent_Work
  imports Agents Paths Json_Text "HOL-Library.List_Lexorder" "HOL-Library.Char_ord"
begin

text \<open>
  What agents do and what is done with them: the routes \<open>connect\<close>, \<open>agents/sync\<close>,
  \<open>agents/[id]/heartbeat\<close>, \<open>agents/[id]/wake\<close>, \<open>agents/message\<close>, \<open>agents/[id]/memory\<close> and
  \<open>agents/[id]/soul\<close>. The outcome of the \<open>openclaw\<close> command (standard output and error, or a
  failure), the random connection id and the directory of the soul templates are arguments;
  a request that waits for the command is cut in what it does before and after.
\<close>

section \<open>Direct connections\<close>

record connect_body =
  cn_tool_name :: string
  cn_tool_version :: "string option"
  cn_agent_name :: string
  cn_agent_role :: "string option"
  cn_metadata :: "obj option"

text \<open>Find or create the agent; an agent that exists is set online.\<close>

definition connect_agent :: "connect_body \<Rightarrow> world \<Rightarrow> world \<times> int" where
  "connect_agent b w =
     (let name = cn_agent_name b; now = now_s w in
      case tbl_find (\<lambda>a. agent_name a = name) (agents (dbase w)) of
        None \<Rightarrow>
          (let i = tbl_last_id (agents (dbase w));
               w1 = insert_agent \<lparr>agent_name = name, agent_role = opt_or (cn_agent_role b) ''cli'', agent_session_key = None,
                 agent_soul = None, agent_status = ''online'', agent_last_seen = None, agent_last_activity = None,
                 agent_created_at = now, agent_updated_at = now, agent_config = None, agent_memory = []\<rparr> w
           in (broadcast ''agent.created'' (JObj [(''id'', JInt i), (''name'', JStr name)])
                 (log_activity ''agent_created'' ''agent'' i ''system''
                   (''Auto-created agent '' @ quote name @ '' via direct CLI connection'') None w1), i))
      | Some (i, a) \<Rightarrow>
          (broadcast ''agent.status_changed''
             (JObj [(''id'', JInt i), (''name'', JStr (agent_name a)), (''status'', JStr ''online'')])
             (set_agent i (\<lambda>x. x\<lparr>agent_status := ''online'', agent_updated_at := now\<rparr>) w), i))"

definition set_connections :: "direct_connection table \<Rightarrow> world \<Rightarrow> world" where
  "set_connections t w = w\<lparr>dbase := (dbase w)\<lparr>connections := t\<rparr>\<rparr>"

definition new_connection :: "connect_body \<Rightarrow> int \<Rightarrow> string \<Rightarrow> int \<Rightarrow> direct_connection" where
  "new_connection b i uuid now =
     \<lparr>con_agent_id = i, con_tool_name = cn_tool_name b, con_tool_version = str_or_null (cn_tool_version b),
      con_connection_id = uuid, con_status = Connected, con_last_heartbeat = Some now,
      con_metadata = map_option JObj (cn_metadata b), con_created_at = now, con_updated_at = now\<rparr>"

text \<open>A connection id that is in use makes the insertion throw.\<close>

definition connect_with :: "string \<Rightarrow> connect_body \<Rightarrow> world \<Rightarrow> world \<times> json response" where
  "connect_with uuid b w =
     (case connect_agent b w of (w1, i) \<Rightarrow>
      let now = now_s w;
          w2 = set_connections (tbl_update_where (\<lambda>c. con_agent_id c = i \<and> con_status c = Connected)
                 (\<lambda>c. c\<lparr>con_status := Disconnected, con_updated_at := now\<rparr>) (connections (dbase w1))) w1
      in if tbl_find (\<lambda>c. con_connection_id c = uuid) (connections (dbase w2)) \<noteq> None then (w2, Crash)
         else
           let w3 = set_connections (tbl_insert (new_connection b i uuid now) (connections (dbase w2))) w2;
               w4 = log_activity ''connection_created'' ''agent'' i (cn_agent_name b)
                      (''CLI connection established via '' @ cn_tool_name b @
                       (case str_or_null (cn_tool_version b) of None \<Rightarrow> [] | Some v \<Rightarrow> '' v'' @ v)) None w3;
               w5 = broadcast ''connection.created''
                      (JObj [(''connection_id'', JStr uuid), (''agent_id'', JInt i),
                             (''agent_name'', JStr (cn_agent_name b)), (''tool_name'', JStr (cn_tool_name b))]) w4
           in (w5, Reply 200 (JObj
                [(''connection_id'', JStr uuid), (''agent_id'', JInt i), (''agent_name'', JStr (cn_agent_name b)),
                 (''status'', JStr ''connected''), (''sse_url'', JStr ''/api/events''),
                 (''heartbeat_url'', JStr (''/api/agents/'' @ show_int i @ ''/heartbeat'')),
                 (''token_report_url'', JStr ''/api/tokens'')])))"

definition post_connect :: "string \<Rightarrow> connect_body validated \<Rightarrow> env \<Rightarrow> request \<Rightarrow> world \<Rightarrow> world \<times> json response" where
  "post_connect uuid body e r = with_role Operator e r (\<lambda>user. with_body body (connect_with uuid))"

text \<open>The connections with the name, status and role of their agents.\<close>

definition list_connections ::
  "(int list \<Rightarrow> int list) \<Rightarrow> db \<Rightarrow> ((int \<times> direct_connection) \<times> string \<times> string \<times> string) list" where
  "list_connections scan d = concat (map
     (\<lambda>(i, c). case tbl_get (agents d) (con_agent_id c) of None \<Rightarrow> []
        | Some a \<Rightarrow> [((i, c), agent_name a, agent_status a, agent_role a)])
     (order_desc scan (\<lambda>(i, c). con_created_at c) (rows (connections d))))"

definition get_connections ::
  "(int list \<Rightarrow> int list) \<Rightarrow> env \<Rightarrow> request \<Rightarrow> world \<Rightarrow>
   world \<times> ((int \<times> direct_connection) \<times> string \<times> string \<times> string) list response" where
  "get_connections scan e r = with_role Viewer e r (\<lambda>user w. (w, Reply 200 (list_connections scan (dbase w))))"

text \<open>\<open>None\<close>: the body is not JSON; \<open>Some None\<close>: it has no connection id.\<close>

definition disconnect_with :: "string option option \<Rightarrow> world \<Rightarrow> world \<times> json response" where
  "disconnect_with body w =
     (case body of None \<Rightarrow> (w, Fail 400 ''Invalid request body'')
      | Some v \<Rightarrow>
     (case str_or_null v of None \<Rightarrow> (w, Fail 400 ''connection_id is required'')
      | Some cid \<Rightarrow>
     (case tbl_find (\<lambda>c. con_connection_id c = cid) (connections (dbase w)) of
        None \<Rightarrow> (w, Fail 404 ''Connection not found'')
      | Some (k, c) \<Rightarrow>
          (let now = now_s w; i = con_agent_id c;
               w1 = set_connections (tbl_update_where (\<lambda>c. con_connection_id c = cid)
                      (\<lambda>c. c\<lparr>con_status := Disconnected, con_updated_at := now\<rparr>) (connections (dbase w))) w;
               others = tbl_count (\<lambda>c. con_agent_id c = i \<and> con_status c = Connected \<and> con_connection_id c \<noteq> cid)
                          (connections (dbase w1));
               w2 = (if others = 0 then set_agent i (\<lambda>a. a\<lparr>agent_status := ''offline'', agent_updated_at := now\<rparr>) w1 else w1);
               name = map_option agent_name (tbl_get (agents (dbase w2)) i);
               w3 = log_activity ''connection_disconnected'' ''agent'' i (opt_or name ''unknown'')
                      (''CLI connection disconnected ('' @ con_tool_name c @ '')'') None w2;
               w4 = broadcast ''connection.disconnected''
                      (JObj ([(''connection_id'', JStr cid), (''agent_id'', JInt i)] @ opt_field ''agent_name'' JStr name)) w3
           in (w4, Reply 200 (JObj [(''status'', JStr ''disconnected''), (''connection_id'', JStr cid)]))))))"

definition delete_connect :: "string option option \<Rightarrow> env \<Rightarrow> request \<Rightarrow> world \<Rightarrow> world \<times> json response" where
  "delete_connect body e r = with_role Operator e r (\<lambda>user. disconnect_with body)"

section \<open>Synchronising on request\<close>

definition post_sync :: "env \<Rightarrow> request \<Rightarrow> gateway_file \<Rightarrow> world \<Rightarrow> world \<times> sync_result response" where
  "post_sync e r gf = with_role Admin e r (\<lambda>user w.
     (case sync_agents_from_config (au_username user) gf w of (w1, res) \<Rightarrow>
        (w1, case str_or_null (sr_error res) of Some err \<Rightarrow> Fail 500 err | None \<Rightarrow> Reply 200 res)))"

definition get_sync :: "env \<Rightarrow> request \<Rightarrow> gateway_file \<Rightarrow> world \<Rightarrow> world \<times> sync_diff response" where
  "get_sync e r gf = with_role Admin e r (\<lambda>user w. (w, Reply 200 (preview_sync_diff gf w)))"

section \<open>Heartbeats\<close>

text \<open>\<open>LIKE\<close> of SQLite: \<open>%\<close> is any text, \<open>_\<close> any character, letters count without their case.\<close>

fun sql_like :: "string \<Rightarrow> string \<Rightarrow> bool" where
  "sql_like [] s = (s = [])"
| "sql_like (p # ps) s =
     (if p = CHR ''%'' then sql_like ps s \<or> (case s of [] \<Rightarrow> False | c # cs \<Rightarrow> sql_like (p # ps) cs)
      else (case s of [] \<Rightarrow> False
            | c # cs \<Rightarrow> (p = CHR ''_'' \<or> lower_char p = lower_char c) \<and> sql_like ps cs))"

definition containing :: "string \<Rightarrow> string" where
  "containing s = ''%'' @ s @ ''%''"

definition mentions_text :: "comment \<Rightarrow> string option" where
  "mentions_text c = map_option (\<lambda>ms. json_text (JArr (map JStr ms))) (com_mentions c)"

definition recent_mentions :: "(int list \<Rightarrow> int list) \<Rightarrow> string \<Rightarrow> int \<Rightarrow> db \<Rightarrow> (int \<times> comment) list" where
  "recent_mentions scan name since d = take 10 (order_desc scan (\<lambda>(i, c). com_created_at c)
     (tbl_select (\<lambda>c. tbl_get (tasks d) (com_task_id c) \<noteq> None \<and> com_created_at c > since \<and>
        (case mentions_text c of None \<Rightarrow> False | Some t \<Rightarrow> sql_like (containing (quote name)) t)) (comments d)))"

text \<open>\<open>ORDER BY priority DESC, created_at ASC\<close>: the priority is compared as a text.\<close>

definition assigned_tasks :: "(int list \<Rightarrow> int list) \<Rightarrow> string \<Rightarrow> db \<Rightarrow> (int \<times> task) list" where
  "assigned_tasks scan name d = take 10 (rev (sort_key (\<lambda>(i, t). priority_text (task_priority t))
     (rev (order_asc scan (\<lambda>(i, t). task_created_at t)
        (tbl_select (\<lambda>t. task_assigned_to t = Some name \<and> task_status t \<in> {Assigned, In_Progress}) (tasks d))))))"

definition urgent_activities :: "(int list \<Rightarrow> int list) \<Rightarrow> string \<Rightarrow> int \<Rightarrow> db \<Rightarrow> (int \<times> activity) list" where
  "urgent_activities scan name since d = take 5 (order_desc scan (\<lambda>(i, a). act_created_at a)
     (tbl_select (\<lambda>a. act_type a \<in> {''task_created'', ''task_assigned'', ''high_priority_alert''} \<and>
        act_created_at a > since \<and> sql_like (containing name) (act_description a)) (activities d)))"

definition work_item :: "string \<Rightarrow> nat \<Rightarrow> obj list \<Rightarrow> (string \<times> nat \<times> obj list) list" where
  "work_item ty n items = (if n = 0 then [] else [(ty, n, items)])"

definition work_items :: "(int list \<Rightarrow> int list) \<Rightarrow> string \<Rightarrow> world \<Rightarrow> (string \<times> nat \<times> obj list) list" where
  "work_items scan name w =
     (let d = dbase w; since = now_s w - 4 * 60 * 60;
          ms = recent_mentions scan name since d;
          ts = assigned_tasks scan name d;
          ns = get_unread_notifications scan name w;
          us = urgent_activities scan name since d
      in work_item ''mentions'' (length ms) (map (\<lambda>(i, c).
            [(''id'', JInt i),
             (''task_title'', case tbl_get (tasks d) (com_task_id c) of Some t \<Rightarrow> JStr (task_title t) | None \<Rightarrow> JNull),
             (''author'', JStr (com_author c)), (''content'', JStr (take 100 (com_content c) @ ''...'')),
             (''created_at'', JInt (com_created_at c))]) ms) @
         work_item ''assigned_tasks'' (length ts) (map (\<lambda>(i, t).
            [(''id'', JInt i), (''title'', JStr (task_title t)), (''status'', JStr (status_text (task_status t))),
             (''priority'', JStr (priority_text (task_priority t))), (''due_date'', JOptNum (task_due_date t))]) ts) @
         work_item ''notifications'' (length ns) (map (\<lambda>(i, n).
            [(''id'', JInt i), (''type'', JStr (ntf_type n)), (''title'', JStr (ntf_title n)),
             (''message'', JStr (ntf_message n)), (''created_at'', JInt (ntf_created_at n))]) (take 5 ns)) @
         work_item ''urgent_activities'' (length us) (map (\<lambda>(i, a).
            [(''id'', JInt i), (''type'', JStr (act_type a)), (''description'', JStr (act_description a)),
             (''created_at'', JInt (act_created_at a))]) us))"

definition heartbeat_reply :: "string \<Rightarrow> int \<Rightarrow> (string \<times> nat \<times> obj list) list \<Rightarrow> json" where
  "heartbeat_reply name now items =
     (if items = [] then JObj [(''status'', JStr ''HEARTBEAT_OK''), (''agent'', JStr name), (''checked_at'', JInt now),
        (''message'', JStr ''No work items found'')]
      else JObj [(''status'', JStr ''WORK_ITEMS_FOUND''), (''agent'', JStr name), (''checked_at'', JInt now),
        (''work_items'', JArr (map (\<lambda>(ty, n, xs).
           JObj [(''type'', JStr ty), (''count'', JInt (int n)), (''items'', JArr (map JObj xs))]) items)),
        (''total_items'', JInt (int (\<Sum>(ty, n, xs)\<leftarrow>items. n)))])"

definition heartbeat_with :: "(int list \<Rightarrow> int list) \<Rightarrow> string \<Rightarrow> world \<Rightarrow> world \<times> json response" where
  "heartbeat_with scan id_text w =
     (case find_agent id_text w of
        None \<Rightarrow> (w, Fail 404 ''Agent not found'')
      | Some (i, a) \<Rightarrow>
          (let name = agent_name a;
               items = work_items scan name w;
               w1 = update_agent_status name ''idle'' (Some ''Heartbeat check'') w;
               w2 = log_activity ''agent_heartbeat'' ''agent'' i name
                      (''Heartbeat check completed - '' @
                       (if items = [] then ''no work items'' else show_nat (length items) @ '' work items found''))
                      (Some (JObj [(''workItemsCount'', JInt (int (length items))), (''workItemTypes'', strs (map fst items))])) w1
           in (w2, Reply 200 (heartbeat_reply name (now_s w) items))))"

definition get_heartbeat ::
  "(int list \<Rightarrow> int list) \<Rightarrow> string \<Rightarrow> env \<Rightarrow> request \<Rightarrow> world \<Rightarrow> world \<times> json response" where
  "get_heartbeat scan id_text e r = with_role Viewer e r (\<lambda>user. heartbeat_with scan id_text)"

record heartbeat_body =
  hb_connection_id :: "string option"
  hb_tokens :: "(string option \<times> rat option \<times> rat option) option"

definition touch_connection :: "string option \<Rightarrow> world \<Rightarrow> world" where
  "touch_connection v w =
     (case str_or_null v of None \<Rightarrow> w
      | Some cid \<Rightarrow> set_connections (tbl_update_where (\<lambda>c. con_connection_id c = cid \<and> con_status c = Connected)
          (\<lambda>c. c\<lparr>con_last_heartbeat := Some (now_s w), con_updated_at := now_s w\<rparr>) (connections (dbase w))) w)"

definition record_tokens :: "string \<Rightarrow> heartbeat_body \<Rightarrow> world \<Rightarrow> world \<times> bool" where
  "record_tokens id_text b w =
     (case hb_tokens b of
        Some (Some model, Some inp, Some out) \<Rightarrow>
          if model = [] then (w, False)
          else (case find_agent id_text w of
            None \<Rightarrow> (w, False)
          | Some (i, a) \<Rightarrow>
              (w\<lparr>dbase := (dbase w)\<lparr>token_usage := tbl_insert
                 \<lparr>tok_model = model, tok_session_id = agent_name a @ '':cli'', tok_input = inp, tok_output = out,
                  tok_created_at = now_s w\<rparr> (token_usage (dbase w))\<rparr>\<rparr>, True))
      | _ \<Rightarrow> (w, False))"

text \<open>Whatever the heartbeat answers, an error too, is sent with status 200.\<close>

definition with_token_flag :: "bool \<Rightarrow> json response \<Rightarrow> json response" where
  "with_token_flag done_tokens a =
     (case a of
        Reply s j \<Rightarrow> Reply 200 (JObj (spread (members j) [(''token_recorded'', JBool done_tokens)]))
      | Err s m ds \<Rightarrow> Reply 200 (JObj [(''error'', JStr m), (''token_recorded'', JBool done_tokens)])
      | Crash \<Rightarrow> Crash)"

text \<open>\<open>None\<close> is a body that is not JSON; it counts as an empty one.\<close>

definition post_heartbeat ::
  "(int list \<Rightarrow> int list) \<Rightarrow> string \<Rightarrow> heartbeat_body option \<Rightarrow> env \<Rightarrow> request \<Rightarrow> world \<Rightarrow> world \<times> json response" where
  "post_heartbeat scan id_text body e r = with_role Operator e r (\<lambda>user w.
     (let b = (case body of None \<Rightarrow> \<lparr>hb_connection_id = None, hb_tokens = None\<rparr> | Some b \<Rightarrow> b) in
      case record_tokens id_text b (touch_connection (hb_connection_id b) w) of (w1, recorded) \<Rightarrow>
      (case get_heartbeat scan id_text e r w1 of (w2, a) \<Rightarrow> (w2, with_token_flag recorded a))))"

section \<open>Waking an agent and sending it a message\<close>

text \<open>What the command gives: its standard output and error, or \<open>None\<close> when it fails.\<close>

type_synonym command_result = "(string \<times> string) option"

definition send_args :: "string \<Rightarrow> string \<Rightarrow> string list" where
  "send_args key message = [''gateway'', ''sessions_send'', ''--session'', key, ''--message'', message]"

text \<open>Before the command: a refusal, or the agent's name and key and the message.\<close>

definition wake_begin :: "string \<Rightarrow> string option \<Rightarrow> world \<Rightarrow> (nat \<times> string) + (string \<times> string \<times> string)" where
  "wake_begin id_text message w =
     (case find_agent id_text w of
        None \<Rightarrow> Inl (404, ''Agent not found'')
      | Some (i, a) \<Rightarrow>
     (case str_or_null (agent_session_key a) of
        None \<Rightarrow> Inl (400, ''Agent has no session key configured'')
      | Some key \<Rightarrow> Inr (agent_name a, key,
          str_or (js_trim (opt_or message []))
            (''Wake up check-in for '' @ agent_name a @ ''. Please review assigned tasks and notifications.''))))"

definition wake_end :: "string \<Rightarrow> string \<Rightarrow> command_result \<Rightarrow> world \<Rightarrow> world \<times> json response" where
  "wake_end name key result w =
     (case result of
        None \<Rightarrow> (w, Fail 500 ''Failed to wake agent'')
      | Some (out, err) \<Rightarrow>
          if js_includes ''error'' err then (w, Fail 500 (str_or (js_trim err) ''Failed to wake agent''))
          else (update_agent_status name ''idle'' (Some ''Manual wake'') w,
                Reply 200 (JObj [(''success'', JBool True), (''session_key'', JStr key), (''stdout'', JStr (js_trim out))])))"

definition post_wake ::
  "(string list \<Rightarrow> command_result) \<Rightarrow> string \<Rightarrow> string option \<Rightarrow> env \<Rightarrow> request \<Rightarrow> world \<Rightarrow> world \<times> json response" where
  "post_wake openclaw id_text message e r = with_role Operator e r (\<lambda>user w.
     (case wake_begin id_text message w of
        Inl (status, msg) \<Rightarrow> (w, Fail status msg)
      | Inr (name, key, text) \<Rightarrow> wake_end name key (openclaw (send_args key text)) w))"

record message_body =
  mb_to :: string
  mb_message :: string
  mb_from :: string

definition message_begin :: "message_body \<Rightarrow> world \<Rightarrow> (nat \<times> string) + (int \<times> string)" where
  "message_begin b w =
     (case tbl_find (\<lambda>a. agent_name a = mb_to b) (agents (dbase w)) of
        None \<Rightarrow> Inl (404, ''Recipient agent not found'')
      | Some (i, a) \<Rightarrow>
     (case str_or_null (agent_session_key a) of
        None \<Rightarrow> Inl (400, ''Recipient agent has no session key configured'')
      | Some key \<Rightarrow> Inr (i, key)))"

definition message_end :: "message_body \<Rightarrow> int \<Rightarrow> command_result \<Rightarrow> world \<Rightarrow> world \<times> json response" where
  "message_end b i result w =
     (if result = None then (w, Fail 500 ''Failed to send message'')
      else
        let w1 = create_notification (mb_to b) ''message'' ''Direct Message''
                   (mb_from b @ '': '' @ take 200 (mb_message b) @ (if length (mb_message b) > 200 then ''...'' else []))
                   (Some ''agent'') (Some i) w;
            w2 = log_activity ''agent_message'' ''agent'' i (mb_from b) (''Sent message to '' @ mb_to b)
                   (Some (JObj [(''to'', JStr (mb_to b))])) w1
        in (w2, Reply 200 (JObj [(''success'', JBool True)])))"

definition post_message ::
  "(string list \<Rightarrow> command_result) \<Rightarrow> message_body validated \<Rightarrow> env \<Rightarrow> request \<Rightarrow> world \<Rightarrow> world \<times> json response" where
  "post_message openclaw body e r = with_role Operator e r (\<lambda>user. with_limit MutationLimiter e r (with_body body (\<lambda>b w.
     (case message_begin b w of
        Inl (status, msg) \<Rightarrow> (w, Fail status msg)
      | Inr (i, key) \<Rightarrow>
          message_end b i (openclaw (send_args key (''Message from '' @ mb_from b @ '': '' @ mb_message b))) w))))"

end
