(* ===== verification/Agent_Notes.thy ===== *)
theory Agent_Notes
  imports Agents Paths
begin

text \<open>
  What is written down about an agent: its working memory (\<open>agents/[id]/memory\<close>) and its SOUL
  document with the templates of it (\<open>agents/[id]/soul\<close>). The first request that touches the
  memory adds the column. Some statements compare the id of the path, a text, with the id
  column: the database reads the text as a number, but not in hexadecimal. The directory of
  the templates is an argument: its configured path, whether it exists, the names in it, and
  the content of a path, which may be missing or unreadable.
\<close>

section \<open>Statements with the id of the path\<close>

definition row_matches :: "string \<Rightarrow> int \<Rightarrow> agent \<Rightarrow> bool" where
  "row_matches id_text i a =
     (if string_number id_text = None then agent_name a = id_text else sql_number id_text = Some (of_int i))"

definition update_matching :: "string \<Rightarrow> (agent \<Rightarrow> agent) \<Rightarrow> world \<Rightarrow> world" where
  "update_matching id_text f w = w\<lparr>dbase := (dbase w)\<lparr>agents := (agents (dbase w))\<lparr>rows :=
     map (\<lambda>(i, a). (i, if row_matches id_text i a then f a else a)) (rows (agents (dbase w)))\<rparr>\<rparr>\<rparr>"

definition memory_of :: "string \<Rightarrow> world \<Rightarrow> string" where
  "memory_of id_text w =
     (case find (\<lambda>(i, a). row_matches id_text i a) (rows (agents (dbase w))) of
        None \<Rightarrow> [] | Some (i, a) \<Rightarrow> agent_memory a)"

section \<open>Working memory\<close>

definition add_memory_column :: "world \<Rightarrow> world" where
  "add_memory_column w = w\<lparr>dbase := (dbase w)\<lparr>memory_column := True\<rparr>\<rparr>"

definition agent_ref :: "int \<Rightarrow> agent \<Rightarrow> string \<times> json" where
  "agent_ref i a = (''agent'', JObj [(''id'', JInt i), (''name'', JStr (agent_name a)), (''role'', JStr (agent_role a))])"

definition get_memory :: "string \<Rightarrow> env \<Rightarrow> request \<Rightarrow> world \<Rightarrow> world \<times> json response" where
  "get_memory id_text e r = with_role Viewer e r (\<lambda>user w.
     (case find_agent id_text w of
        None \<Rightarrow> (w, Fail 404 ''Agent not found'')
      | Some (i, a) \<Rightarrow>
          (let w1 = add_memory_column w; m = memory_of id_text w1
           in (w1, Reply 200 (JObj [agent_ref i a, (''working_memory'', JStr m),
                (''updated_at'', JInt (agent_updated_at a)), (''size'', JInt (int (length m)))])))))"

record memory_body =
  mm_text :: "string option option"
  mm_append :: bool

text \<open>In append mode a missing text is written as the word it is converted to.\<close>

definition memory_content :: "memory_body \<Rightarrow> string \<Rightarrow> int \<Rightarrow> string" where
  "memory_content b current now_ms =
     (if mm_append b
      then current @ (if current = [] then [] else [CHR 0x0A, CHR 0x0A]) @ ''## '' @ iso_string now_ms @ [CHR 0x0A] @
        (case mm_text b of None \<Rightarrow> ''undefined'' | Some None \<Rightarrow> ''null'' | Some (Some t) \<Rightarrow> t)
      else (case mm_text b of Some (Some t) \<Rightarrow> t | _ \<Rightarrow> []))"

definition put_memory_with :: "string \<Rightarrow> memory_body option \<Rightarrow> world \<Rightarrow> world \<times> json response" where
  "put_memory_with id_text body w =
     (case body of None \<Rightarrow> (w, Fail 500 ''Failed to update working memory'')
      | Some b \<Rightarrow>
     (case find_agent id_text w of
        None \<Rightarrow> (w, Fail 404 ''Agent not found'')
      | Some (i, a) \<Rightarrow>
          (let w1 = add_memory_column w;
               content = memory_content b (memory_of id_text w1) (clock w);
               now = now_s w;
               verb = (if mm_append b then ''appended'' else ''updated'');
               w2 = update_matching id_text (\<lambda>x. x\<lparr>agent_memory := content, agent_updated_at := now\<rparr>) w1;
               w3 = log_activity ''agent_memory_updated'' ''agent'' i (agent_name a)
                      (''Working memory '' @ verb @ '' for agent '' @ agent_name a)
                      (Some (JObj [(''content_length'', JInt (int (length content))),
                                   (''append_mode'', JBool (mm_append b)), (''timestamp'', JInt now)])) w2
           in (w3, Reply 200 (JObj [(''success'', JBool True),
                (''message'', JStr (''Working memory '' @ verb @ '' for '' @ agent_name a)),
                (''working_memory'', JStr content), (''updated_at'', JInt now), (''size'', JInt (int (length content)))])))))"

definition put_memory :: "string \<Rightarrow> memory_body option \<Rightarrow> env \<Rightarrow> request \<Rightarrow> world \<Rightarrow> world \<times> json response" where
  "put_memory id_text body e r = with_role Operator e r (\<lambda>user. put_memory_with id_text body)"

text \<open>Clearing does not add the column: before it is there, the statement fails.\<close>

definition delete_memory_with :: "string \<Rightarrow> world \<Rightarrow> world \<times> json response" where
  "delete_memory_with id_text w =
     (case find_agent id_text w of
        None \<Rightarrow> (w, Fail 404 ''Agent not found'')
      | Some (i, a) \<Rightarrow>
          if \<not> memory_column (dbase w) then (w, Fail 500 ''Failed to clear working memory'')
          else
            let now = now_s w;
                w1 = update_matching id_text (\<lambda>x. x\<lparr>agent_memory := [], agent_updated_at := now\<rparr>) w;
                w2 = log_activity ''agent_memory_cleared'' ''agent'' i (agent_name a)
                       (''Working memory cleared for agent '' @ agent_name a) (Some (JObj [(''timestamp'', JInt now)])) w1
            in (w2, Reply 200 (JObj [(''success'', JBool True),
                 (''message'', JStr (''Working memory cleared for '' @ agent_name a)),
                 (''working_memory'', JStr []), (''updated_at'', JInt now)])))"

definition delete_memory :: "string \<Rightarrow> env \<Rightarrow> request \<Rightarrow> world \<Rightarrow> world \<times> json response" where
  "delete_memory id_text e r = with_role Operator e r (\<lambda>user. delete_memory_with id_text)"

section \<open>Replacing placeholders\<close>

text \<open>A replacement text with the patterns \<open>$$\<close>, \<open>$&\<close>, \<open>$`\<close> and \<open>$'\<close>.\<close>

fun expand_pattern :: "string \<Rightarrow> string \<Rightarrow> string \<Rightarrow> string \<Rightarrow> string" where
  "expand_pattern before found after [] = []"
| "expand_pattern before found after [c] = [c]"
| "expand_pattern before found after (c # d # cs) =
     (if c \<noteq> CHR ''$'' then c # expand_pattern before found after (d # cs)
      else if d = CHR ''$'' then CHR ''$'' # expand_pattern before found after cs
      else if d = CHR ''&'' then found @ expand_pattern before found after cs
      else if d = CHR 0x60 then before @ expand_pattern before found after cs
      else if d = CHR 0x27 then after @ expand_pattern before found after cs
      else c # expand_pattern before found after (d # cs))"

text \<open>\<open>s.replace(/pat/g, rep)\<close> for a literal pattern.\<close>

function replace_every :: "string \<Rightarrow> string \<Rightarrow> string \<Rightarrow> string \<Rightarrow> string" where
  "replace_every pat rep before s =
     (if s = [] then []
      else if pat \<noteq> [] \<and> starts_with pat s
      then expand_pattern before pat (drop (length pat) s) rep @ replace_every pat rep (before @ pat) (drop (length pat) s)
      else hd s # replace_every pat rep (before @ [hd s]) (tl s))"
  by pat_completeness auto
termination
  by (relation "measure (\<lambda>(_, _, _, s). length s)") auto

declare replace_every.simps [simp del]

text \<open>\<open>file.replace('.md', '')\<close>: the first occurrence.\<close>

fun drop_first :: "string \<Rightarrow> string \<Rightarrow> string" where
  "drop_first pat [] = []"
| "drop_first pat (c # cs) = (if starts_with pat (c # cs) then drop (length pat) (c # cs) else c # drop_first pat cs)"

section \<open>SOUL documents\<close>

datatype file_content = Missing | Unreadable | Content string

record soul_dir =
  sd_path :: string
  sd_cwd :: string
  sd_exists :: bool
  sd_names :: "string list option"
  sd_file :: "string \<Rightarrow> file_content"

definition soul_names :: "soul_dir \<Rightarrow> string list option" where
  "soul_names sd = map_option (\<lambda>ns. filter (ends_with ''.md'') ns) (sd_names sd)"

definition available_templates :: "soul_dir \<Rightarrow> string list" where
  "available_templates sd =
     (if sd_path sd = [] \<or> \<not> sd_exists sd then []
      else case soul_names sd of None \<Rightarrow> [] | Some ns \<Rightarrow> map (drop_first ''.md'') ns)"

definition get_soul :: "soul_dir \<Rightarrow> string \<Rightarrow> env \<Rightarrow> request \<Rightarrow> world \<Rightarrow> world \<times> json response" where
  "get_soul sd id_text e r = with_role Viewer e r (\<lambda>user w.
     (case find_agent id_text w of
        None \<Rightarrow> (w, Fail 404 ''Agent not found'')
      | Some (i, a) \<Rightarrow> (w, Reply 200 (JObj [agent_ref i a, (''soul_content'', JStr (opt_or (agent_soul a) [])),
          (''available_templates'', strs (available_templates sd)), (''updated_at'', JInt (agent_updated_at a))]))))"

record soul_body =
  sb_content :: "string option option"
  sb_template :: "string option"

text \<open>The path of a template, and its text with the placeholders filled in.\<close>

definition soul_template_path :: "soul_dir \<Rightarrow> string \<Rightarrow> string option" where
  "soul_template_path sd name = resolve_within (sd_cwd sd) (sd_path sd) (name @ ''.md'')"

definition fill_template :: "agent \<Rightarrow> int \<Rightarrow> string \<Rightarrow> string" where
  "fill_template a now_ms text =
     replace_every ''{{TIMESTAMP}}'' (iso_string now_ms) []
       (replace_every ''{{AGENT_ROLE}}'' (agent_role a) []
         (replace_every ''{{AGENT_NAME}}'' (agent_name a) [] text))"

definition soul_text :: "soul_dir \<Rightarrow> soul_body \<Rightarrow> agent \<Rightarrow> int \<Rightarrow> (nat \<times> string) + string option" where
  "soul_text sd b a now_ms =
     (case str_or_null (sb_template b) of
        None \<Rightarrow> Inr (case sb_content b of None \<Rightarrow> None | Some c \<Rightarrow> c)
      | Some name \<Rightarrow>
          if sd_path sd = [] then Inl (500, ''Templates directory not configured'')
          else (case soul_template_path sd name of
            None \<Rightarrow> Inl (400, ''Invalid template name'')
          | Some p \<Rightarrow> (case sd_file sd p of
              Missing \<Rightarrow> Inl (404, ''Template not found'')
            | Unreadable \<Rightarrow> Inl (500, ''Failed to load template'')
            | Content t \<Rightarrow> Inr (Some (fill_template a now_ms t)))))"

definition put_soul_with :: "soul_dir \<Rightarrow> string \<Rightarrow> soul_body option \<Rightarrow> env \<Rightarrow> request \<Rightarrow> world \<Rightarrow> world \<times> json response" where
  "put_soul_with sd id_text body e r w =
     (case body of None \<Rightarrow> (w, Fail 500 ''Failed to update SOUL content'')
      | Some b \<Rightarrow>
     (case find_agent id_text w of
        None \<Rightarrow> (w, Fail 404 ''Agent not found'')
      | Some (i, a) \<Rightarrow>
     (case soul_text sd b a (clock w) of
        Inl (status, msg) \<Rightarrow> (w, Fail status msg)
      | Inr text \<Rightarrow>
          (let now = now_s w; tpl = str_or_null (sb_template b);
               w1 = update_matching id_text (\<lambda>x. x\<lparr>agent_soul := text, agent_updated_at := now\<rparr>) w;
               w2 = log_activity ''agent_soul_updated'' ''agent'' i (actor_name e r w1)
                      (''SOUL content updated for agent '' @ agent_name a @
                       (case tpl of None \<Rightarrow> [] | Some t \<Rightarrow> '' using template: '' @ t))
                      (Some (JObj [(''template_used'', JOptStr tpl),
                         (''content_length'', JInt (int (length (opt_or text [])))),
                         (''previous_content_length'', JInt (int (length (opt_or (agent_soul a) []))))])) w1
           in (w2, Reply 200 (JObj ([(''success'', JBool True),
                (''message'', JStr (''SOUL content updated for '' @ agent_name a))] @
                (if tpl = None \<and> sb_content b = None then [] else [(''soul_content'', JOptStr text)]) @
                [(''updated_at'', JInt now)])))))))"

definition put_soul ::
  "soul_dir \<Rightarrow> string \<Rightarrow> soul_body option \<Rightarrow> env \<Rightarrow> request \<Rightarrow> world \<Rightarrow> world \<times> json response" where
  "put_soul sd id_text body e r = with_role Operator e r (\<lambda>user. put_soul_with sd id_text body e r)"

text \<open>The description of a template: its first line, without the marks of a heading.\<close>

definition template_description :: "string \<Rightarrow> string \<Rightarrow> string" where
  "template_description name text =
     (let line = hd (split_on (CHR 0x0A) text) in
      if starts_with ''#'' line then dropWhile js_white (dropWhile (\<lambda>c. c = CHR ''#'') line)
      else name @ '' template'')"

text \<open>\<open>path.join(dir, file)\<close> for the name of a file in the directory.\<close>

fun describe_templates :: "soul_dir \<Rightarrow> string list \<Rightarrow> json list option" where
  "describe_templates sd [] = Some []"
| "describe_templates sd (n # ns) =
     (case sd_file sd (path_resolve (path_resolve (sd_cwd sd) (sd_path sd)) n) of
        Content t \<Rightarrow> map_option (\<lambda>js.
          JObj [(''name'', JStr (drop_first ''.md'' n)), (''description'', JStr (template_description (drop_first ''.md'' n) t)),
                (''size'', JInt (int (length t)))] # js) (describe_templates sd ns)
      | _ \<Rightarrow> None)"

text \<open>\<open>PATCH\<close>: any request is answered, no role is asked for.\<close>

definition patch_soul :: "soul_dir \<Rightarrow> (string \<Rightarrow> string option) \<Rightarrow> world \<Rightarrow> world \<times> json response" where
  "patch_soul sd query w =
     (w, if sd_path sd = [] \<or> \<not> sd_exists sd
         then Reply 200 (JObj [(''templates'', JArr []), (''message'', JStr ''Templates directory not found'')])
         else (case str_or_null (query ''template'') of
           Some name \<Rightarrow>
             (case soul_template_path sd name of
                None \<Rightarrow> Fail 400 ''Invalid template name''
              | Some p \<Rightarrow> (case sd_file sd p of
                  Missing \<Rightarrow> Fail 404 ''Template not found''
                | Unreadable \<Rightarrow> Fail 500 ''Failed to fetch templates''
                | Content t \<Rightarrow> Reply 200 (JObj [(''template_name'', JStr name), (''content'', JStr t)])))
         | None \<Rightarrow>
             (case Option.bind (soul_names sd) (describe_templates sd) of
                None \<Rightarrow> Fail 500 ''Failed to fetch templates''
              | Some js \<Rightarrow> Reply 200 (JObj [(''templates'', JArr js)]))))"

end
