(* ===== verification/Agent_Sync.thy ===== *)
theory Agent_Sync
  imports Agent_Config
begin

text \<open>
  What the exchange with the gateway's file guarantees: the merge of a written entry keeps
  what it does not mention and is idempotent; a synchronisation brings the agents in line with
  the file, leaves the others alone, and a second one has nothing to do; the templates are
  consistent and no override of a template changes its tools.
\<close>

section \<open>Merging\<close>

definition merge_member :: "obj \<Rightarrow> string \<Rightarrow> json \<Rightarrow> json" where
  "merge_member t k v = (if is_obj (Some v) \<and> is_obj (map_of t k)
     then JObj (deep_merge (members (fld t k)) (members v)) else v)"

lemma deep_merge_spread: "deep_merge t s = spread t (map (\<lambda>(k, v). (k, merge_member t k v)) s)"
  by (simp add: deep_merge.simps [of t s] spread_def merge_member_def fold_map comp_def case_prod_unfold)

text \<open>Objects whose property names are distinct, at every level of objects.\<close>

fun wf_json :: "json \<Rightarrow> bool" where
  "wf_json (JObj kvs) \<longleftrightarrow> distinct (map fst kvs) \<and> (\<forall>x \<in> set kvs. wf_json (snd x))"
| "wf_json _ \<longleftrightarrow> True"

lemma map_of_merge:
  assumes "distinct (map fst s)"
  shows "map_of (deep_merge t s) k = (case map_of s k of None \<Rightarrow> map_of t k | Some v \<Rightarrow> Some (merge_member t k v))"
proof -
  have "map_of (map (\<lambda>(k, v). (k, merge_member t k v)) s) k = map_option (merge_member t k) (map_of s k)"
    by (induction s) auto
  moreover have "distinct (map fst (map (\<lambda>(k, v). (k, merge_member t k v)) s))"
    using assms by (simp add: comp_def case_prod_unfold)
  ultimately show ?thesis
    by (simp add: deep_merge_spread map_of_spread_distinct split: option.split)
qed

lemma spread_idle: "(\<And>k v. (k, v) \<in> set u \<Longrightarrow> map_of ob k = Some v) \<Longrightarrow> spread ob u = ob"
proof (induction u)
  case (Cons x u)
  obtain k v where x: "x = (k, v)" by (cases x)
  have "spread ob (x # u) = spread (obj_set k v ob) u" by (simp add: spread_def x)
  also have "obj_set k v ob = ob" using Cons.prems [of k v] by (simp add: x obj_set_same)
  finally show ?case using Cons by simp
qed simp

lemma is_obj_iff: "is_obj x \<longleftrightarrow> (\<exists>m. x = Some (JObj m))"
  by (cases x rule: is_obj.cases) auto

text \<open>Induction over nested objects.\<close>

lemma obj_induct:
  assumes "\<And>ob :: obj. (\<And>k m. (k, JObj m) \<in> set ob \<Longrightarrow> P m) \<Longrightarrow> P ob"
  shows "P ob"
proof (induction ob rule: measure_induct_rule [of "size_list (size_prod (\<lambda>_. 0) size)"])
  case (less ob)
  show ?case
  proof (rule assms)
    fix k m assume "(k, JObj m) \<in> set ob"
    from size_member [OF this] show "P m" by (intro less) simp
  qed
qed

lemma wf_member: "wf_json (JObj s) \<Longrightarrow> (k, v) \<in> set s \<Longrightarrow> wf_json v"
  by force

lemma merge_member_leaf: "\<not> is_obj (Some v) \<Longrightarrow> merge_member t k v = v"
  by (simp add: merge_member_def)

lemma merge_member_obj:
  "merge_member t k (JObj m) = (case map_of t k of Some (JObj a) \<Rightarrow> JObj (deep_merge a m) | _ \<Rightarrow> JObj m)"
  by (cases "map_of t k" rule: is_obj.cases) (auto simp: merge_member_def fld_def)

lemma deep_merge_self: "wf_json (JObj s) \<Longrightarrow> deep_merge s s = s"
proof (induction s rule: obj_induct)
  case (1 s)
  have "map_of s k = Some (merge_member s k v)" if "(k, v) \<in> set s" for k v
  proof -
    have k: "map_of s k = Some v" using 1(2) that by simp
    show ?thesis
    proof (cases "is_obj (Some v)")
      case True
      then obtain m where m: "v = JObj m" by (auto simp: is_obj_iff)
      then show ?thesis using k 1(1) [of k m] wf_member [OF 1(2) that] that by (simp add: merge_member_obj)
    qed (simp add: k merge_member_leaf)
  qed
  then show ?case by (auto simp: deep_merge_spread intro!: spread_idle)
qed

lemma deep_merge_again: "wf_json (JObj s) \<Longrightarrow> deep_merge (deep_merge t s) s = deep_merge t s"
proof (induction s arbitrary: t rule: obj_induct)
  case (1 s)
  let ?m = "deep_merge t s"
  have "map_of ?m k = Some (merge_member ?m k v)" if "(k, v) \<in> set s" for k v
  proof -
    have k: "map_of ?m k = Some (merge_member t k v)" using 1(2) that by (simp add: map_of_merge)
    show ?thesis
    proof (cases "is_obj (Some v)")
      case True
      then obtain m where m: "v = JObj m" by (auto simp: is_obj_iff)
      then show ?thesis
        using k 1(1) [of k m] deep_merge_self [of m] wf_member [OF 1(2) that] that
        by (cases "map_of t k" rule: is_obj.cases) (auto simp: merge_member_obj)
    qed (simp add: k merge_member_leaf)
  qed
  then show ?case by (subst deep_merge_spread) (auto intro!: spread_idle)
qed

text \<open>Reading along a path.\<close>

fun at_path :: "json \<Rightarrow> string list \<Rightarrow> json option" where
  "at_path j [] = Some j"
| "at_path j (k # ks) = (case jget j k of None \<Rightarrow> None | Some v \<Rightarrow> at_path v ks)"

lemma merged_leaf:
  assumes "wf_json (JObj s)" "at_path (JObj s) p = Some v" "\<not> is_obj (Some v)"
  shows "at_path (JObj (deep_merge t s)) p = Some v"
  using assms
proof (induction s arbitrary: p t rule: obj_induct)
  case (1 s)
  obtain k ks where p: "p = k # ks" using 1(3,4) by (cases p) auto
  obtain x where x: "map_of s k = Some x" "at_path x ks = Some v"
    using 1(3) by (auto simp: p split: option.splits)
  have k: "map_of (deep_merge t s) k = Some (merge_member t k x)" using 1(2) x by (simp add: map_of_merge)
  show ?case
  proof (cases "is_obj (Some x)")
    case True
    then obtain m where m: "x = JObj m" by (auto simp: is_obj_iff)
    have mem: "(k, JObj m) \<in> set s" using map_of_SomeD [OF x(1)] m by simp
    from 1(1) [OF mem wf_member [OF 1(2) mem]] x k m 1(4) show ?thesis
      by (cases "map_of t k" rule: is_obj.cases) (auto simp: p merge_member_obj)
  qed (simp add: p k x merge_member_leaf)
qed

text \<open>A path of the target that the source does not speak about.\<close>

lemma merged_rest:
  assumes "wf_json (JObj s)" "at_path (JObj t) p = Some v" "at_path (JObj s) p = None"
    and "\<And>q x. at_path (JObj s) q = Some x \<Longrightarrow> q = take (length q) p \<Longrightarrow> is_obj (Some x)"
  shows "at_path (JObj (deep_merge t s)) p = Some v"
  using assms
proof (induction s arbitrary: p t rule: obj_induct)
  case (1 s)
  obtain k ks where p: "p = k # ks" using 1(4) by (cases p) auto
  obtain y where y: "map_of t k = Some y" "at_path y ks = Some v"
    using 1(3) by (auto simp: p split: option.splits)
  show ?case
  proof (cases "map_of s k")
    case None
    then show ?thesis using y 1(2) by (simp add: p map_of_merge)
  next
    case (Some x)
    have "is_obj (Some x)" using 1(5) [of "[k]" x] Some by (simp add: p)
    then obtain m where m: "x = JObj m" by (auto simp: is_obj_iff)
    have ks: "ks \<noteq> []" "at_path (JObj m) ks = None" using 1(4) Some m by (auto simp: p)
    then obtain a where a: "y = JObj a" using y(2) by (cases ks; cases y) auto
    have mem: "(k, JObj m) \<in> set s" using map_of_SomeD [OF Some] m by simp
    have "at_path (JObj (deep_merge a m)) ks = Some v"
    proof (rule 1(1) [OF mem wf_member [OF 1(2) mem]])
      show "is_obj (Some z)" if "at_path (JObj m) q = Some z" "q = take (length q) ks" for q z
        using 1(5) [of "k # q" z] that Some m by (simp add: p)
    qed (use y a ks in simp_all)
    then show ?thesis using Some y a m 1(2) by (simp add: p map_of_merge merge_member_obj)
  qed
qed

section \<open>Writing an agent back\<close>

lemma replace_at_again:
  "replace_at P f xs = Some ys \<Longrightarrow> (\<And>x. P x \<Longrightarrow> P (f x) \<and> f (f x) = f x) \<Longrightarrow> replace_at P f ys = Some ys"
  by (induction xs arbitrary: ys) (auto split: if_splits)

lemma replace_at_None: "replace_at P f xs = None \<longleftrightarrow> (\<forall>x \<in> set xs. \<not> P x)"
  by (induction xs) auto

lemma replace_at_append: "\<forall>x \<in> set xs. \<not> P x \<Longrightarrow> replace_at P f (xs @ [y]) = (if P y then Some (xs @ [f y]) else None)"
  by (induction xs) auto

lemma merge_keeps_id:
  assumes "wf_json (JObj c)" "\<not> is_obj (map_of c ''id'')" "map_of a ''id'' = map_of c ''id''"
  shows "map_of (deep_merge a c) ''id'' = map_of c ''id''"
  using assms by (auto simp: map_of_merge merge_member_leaf split: option.split)

lemma merge_into_list_again:
  assumes "wf_json (JObj c)" "\<not> is_obj (map_of c ''id'')"
  shows "merge_into_list c (merge_into_list c xs) = merge_into_list c xs"
proof (cases "replace_at (\<lambda>a. map_of a ''id'' = map_of c ''id'') (\<lambda>a. deep_merge a c) xs")
  case None
  then have "\<forall>a \<in> set xs. map_of a ''id'' \<noteq> map_of c ''id''" by (simp add: replace_at_None)
  from replace_at_append [OF this, of "\<lambda>a. deep_merge a c" c] show ?thesis
    by (simp add: merge_into_list_def None deep_merge_self [OF assms(1)])
next
  case (Some ys)
  from replace_at_again [OF this] show ?thesis
    using Some merge_keeps_id [OF assms] deep_merge_again [OF assms(1)] by (simp add: merge_into_list_def)
qed

text \<open>\<open>agents\<close> and \<open>agents.list\<close>, where they are, have the types the code expects.\<close>

definition list_shape :: "json option \<Rightarrow> bool" where
  "list_shape l \<longleftrightarrow> \<not> jtruthy_opt l \<or> (\<exists>ms. l = Some (JArr (map JObj ms)))"

definition file_shape :: "obj \<Rightarrow> bool" where
  "file_shape p \<longleftrightarrow> \<not> jtruthy_opt (map_of p ''agents'') \<or>
     (\<exists>m. map_of p ''agents'' = Some (JObj m) \<and> list_shape (map_of m ''list''))"

lemma agent_list_updated:
  assumes "file_shape p"
  shows "agent_list (updated_file c p) = merge_into_list c (agent_list p)"
    and "file_shape (updated_file c p)"
    and "k \<noteq> ''agents'' \<Longrightarrow> map_of (updated_file c p) k = map_of p k"
proof -
  have members_JObj: "members \<circ> JObj = id" by (simp add: fun_eq_iff)
  have shape: "(\<exists>m. map_of p ''agents'' = Some (JObj m) \<and> (\<not> jtruthy_opt (map_of m ''list'') \<or>
      (\<exists>ms. map_of m ''list'' = Some (JArr (map JObj ms))))) \<or> \<not> jtruthy_opt (map_of p ''agents'')"
    using assms by (auto simp: file_shape_def list_shape_def)
  have falsy: "\<not> jtruthy_opt v \<Longrightarrow> (case v of Some a \<Rightarrow> (case jget a ''list'' of Some (JArr xs) \<Rightarrow> map members xs | _ \<Rightarrow> []) | None \<Rightarrow> []) = []" for v
    by (cases v; cases "the v") (auto simp: jtruthy_opt_def)
  have falsy_list: "\<not> jtruthy_opt v \<Longrightarrow> (case v of Some (JArr xs) \<Rightarrow> map members xs | _ \<Rightarrow> []) = []" for v
    by (cases v; cases "the v") (auto simp: jtruthy_opt_def)
  show "agent_list (updated_file c p) = merge_into_list c (agent_list p)"
    using shape falsy [of "map_of p ''agents''"] falsy_list
    by (auto simp: agent_list_def updated_file_def Let_def map_of_obj_set fld_def members_JObj jtruthy_opt_def)
  show "file_shape (updated_file c p)"
    by (auto simp: file_shape_def list_shape_def updated_file_def Let_def map_of_obj_set)
  show "k \<noteq> ''agents'' \<Longrightarrow> map_of (updated_file c p) k = map_of p k"
    by (simp add: updated_file_def Let_def map_of_obj_set)
qed

lemma updated_file_again:
  assumes "wf_json (JObj c)" "\<not> is_obj (map_of c ''id'')" "file_shape p"
  shows "updated_file c (updated_file c p) = updated_file c p"
proof -
  let ?q = "updated_file c p"
  let ?ms = "merge_into_list c (agent_list p)"
  obtain a where a: "map_of ?q ''agents'' = Some (JObj a)" "jtruthy_opt (map_of a ''list'')"
      "\<exists>ys. map_of a ''list'' = Some (JArr (map JObj ys))"
    by (auto simp: updated_file_def Let_def map_of_obj_set jtruthy_opt_def)
  then obtain ys where l: "map_of a ''list'' = Some (JArr (map JObj ys))" by blast
  have "ys = ?ms"
    using agent_list_updated(1) [OF assms(3), of c] a(1) l by (simp add: agent_list_def comp_def)
  then have "merge_into_list c ys = ys" using merge_into_list_again [OF assms(1,2)] by simp
  then show ?thesis
    using a l by (subst updated_file_def)
      (simp add: Let_def fld_def jtruthy_opt_def obj_set_same comp_def)
qed

lemma merge_into_list_entry:
  assumes "wf_json (JObj c)" "\<not> is_obj (map_of c ''id'')"
  shows "\<exists>a \<in> set (merge_into_list c xs). map_of a ''id'' = map_of c ''id'' \<and>
    (\<forall>p v. at_path (JObj c) p = Some v \<longrightarrow> \<not> is_obj (Some v) \<longrightarrow> at_path (JObj a) p = Some v)"
proof (cases "replace_at (\<lambda>a. map_of a ''id'' = map_of c ''id'') (\<lambda>a. deep_merge a c) xs")
  case None
  then show ?thesis by (auto simp: merge_into_list_def)
next
  case (Some ys)
  have "\<exists>a \<in> set xs. map_of a ''id'' = map_of c ''id'' \<and> deep_merge a c \<in> set ys"
    using Some by (induction xs arbitrary: ys) (auto split: if_splits)
  then obtain a where a: "map_of a ''id'' = map_of c ''id''" "deep_merge a c \<in> set ys" by blast
  show ?thesis
    unfolding merge_into_list_def Some option.case
    using merge_keeps_id [OF assms a(1)] merged_leaf [OF assms(1), of _ _ a] a(2)
    by (intro bexI [of _ "deep_merge a c"]) auto
qed

lemma merge_into_list_others:
  assumes "wf_json (JObj c)" "\<not> is_obj (map_of c ''id'')"
  shows "filter (\<lambda>a. map_of a ''id'' \<noteq> map_of c ''id'') (merge_into_list c xs) =
    filter (\<lambda>a. map_of a ''id'' \<noteq> map_of c ''id'') xs"
proof (cases "replace_at (\<lambda>a. map_of a ''id'' = map_of c ''id'') (\<lambda>a. deep_merge a c) xs")
  case (Some ys)
  then have "filter (\<lambda>a. map_of a ''id'' \<noteq> map_of c ''id'') ys = filter (\<lambda>a. map_of a ''id'' \<noteq> map_of c ''id'') xs"
    using merge_keeps_id [OF assms] by (induction xs arbitrary: ys) (auto split: if_splits)
  then show ?thesis by (simp add: merge_into_list_def Some)
qed (simp add: merge_into_list_def)


definition sample_entries :: "obj list" where
  "sample_entries =
     [[(''id'', JStr ''bo''), (''model'', JObj [(''primary'', JStr ''opus''), (''fallbacks'', JArr [])])],
      [(''id'', JStr ''cy'')]]"

definition sample_file :: obj where
  "sample_file = [(''agents'', JObj [(''list'', JArr (map JObj sample_entries))]), (''port'', JInt 1)]"

definition sample_gateway :: gateway_file where
  "sample_gateway = \<lparr>gf_home = True, gf_content = Inr sample_file, gf_write_error = None\<rparr>"

lemma sample_file_shape: "file_shape sample_file"
  by (auto simp: sample_file_def file_shape_def list_shape_def)


section \<open>Synchronising\<close>

definition agent_named :: "string \<Rightarrow> agent table \<Rightarrow> (int \<times> agent) option" where
  "agent_named n t = tbl_find (\<lambda>g. agent_name g = n) t"

text \<open>The row of an entry's name has the role and the configuration the entry stands for.\<close>

definition in_line :: "agent table \<Rightarrow> obj \<Rightarrow> bool" where
  "in_line t a = (case map_agent_to_mc a of (n, r, c) \<Rightarrow>
     (case agent_named n t of None \<Rightarrow> False
      | Some (i, g) \<Rightarrow> agent_role g = r \<and> agent_config g = Some (JObj c)))"

abbreviation entry_name :: "obj \<Rightarrow> string" where
  "entry_name a \<equiv> fst (map_agent_to_mc a)"

lemma find_map_snd: "find P (map snd xs) = map_option snd (find (\<lambda>x. P (snd x)) xs)"
  by (induction xs) auto

lemma hd_filter_find: "(case filter Q xs of [] \<Rightarrow> None | x # ys \<Rightarrow> Some x) = find Q xs"
  by (induction xs) auto

lemma tbl_find_find: "tbl_find P t = find (\<lambda>x. P (snd x)) (rows t)"
  by (simp add: tbl_find_def tbl_select_def hd_filter_find case_prod_unfold)

lemma find_snoc: "find P (xs @ [y]) = (case find P xs of Some x \<Rightarrow> Some x | None \<Rightarrow> if P y then Some y else None)"
  by (induction xs) auto

lemma json_or_Some: "\<exists>v. json_or a (Some b) = Some v"
  by (cases a) (simp_all add: json_or_def jtruthy_opt_def)

lemma config_nonempty: "map_agent_to_mc a = (n, r, c) \<Longrightarrow> c \<noteq> []"
proof -
  obtain v where "json_or (map_of a ''default'') (Some (JBool False)) = Some v" using json_or_Some by blast
  then show "map_agent_to_mc a = (n, r, c) \<Longrightarrow> ?thesis"
    by (auto simp: map_agent_to_mc_def Let_def defined_def)
qed

lemma agent_named_insert:
  "agent_named m (tbl_insert g t) =
     (case agent_named m t of Some x \<Rightarrow> Some x | None \<Rightarrow> if agent_name g = m then Some (next_id t, g) else None)"
  by (simp add: agent_named_def tbl_find_find rows_insert find_snoc)

lemma agent_named_update_where:
  assumes "\<And>g. agent_name (f g) = agent_name g"
  shows "agent_named m (tbl_update_where (\<lambda>g. agent_name g = n) f t) =
     (if m = n then map_option (\<lambda>(i, g). (i, f g)) (agent_named m t) else agent_named m t)"
proof -
  have "find (\<lambda>x. agent_name (snd x) = m) (map (\<lambda>(i, r). (i, if agent_name r = n then f r else r)) xs) =
      (if m = n then map_option (\<lambda>(i, g). (i, f g)) (find (\<lambda>x. agent_name (snd x) = m) xs)
       else find (\<lambda>x. agent_name (snd x) = m) xs)" for xs :: "(int \<times> agent) list"
    using assms by (induction xs) auto
  then show ?thesis by (simp add: agent_named_def tbl_find_find rows_update_where)
qed

lemma sync_one_in_line: "in_line (fst (sync_one now a t)) a"
proof -
  obtain n r c where m: "map_agent_to_mc a = (n, r, c)" by (cases "map_agent_to_mc a") auto
  show ?thesis
  proof (cases "agent_named n t")
    case None
    then show ?thesis
      by (simp add: in_line_def sync_one_def m agent_named_def [symmetric] agent_named_insert synced_agent_def)
  next
    case (Some x)
    then show ?thesis
      using config_nonempty [OF m] by (cases x; cases "agent_config (snd x)")
        (auto simp: in_line_def sync_one_def m agent_named_def [symmetric] agent_named_update_where)
  qed
qed

lemma sync_one_other:
  assumes "m \<noteq> entry_name a"
  shows "agent_named m (fst (sync_one now a t)) = agent_named m t"
proof -
  obtain n r c where m: "map_agent_to_mc a = (n, r, c)" by (cases "map_agent_to_mc a") auto
  show ?thesis
    using assms by (cases "agent_named n t")
      (auto simp: sync_one_def m agent_named_def [symmetric] agent_named_insert agent_named_update_where
        synced_agent_def split: option.split)
qed

lemma sync_one_idle: "in_line t a \<Longrightarrow> sync_one now a t = (t, Unchanged)"
  by (auto simp: in_line_def sync_one_def agent_named_def [symmetric] split: option.splits prod.splits)

lemma sync_loop_other: "m \<notin> entry_name ` set as \<Longrightarrow> agent_named m (fst (sync_loop now as t)) = agent_named m t"
  by (induction as arbitrary: t) (auto simp: case_prod_unfold Let_def sync_one_other)

lemma in_line_cong: "agent_named (entry_name a) t = agent_named (entry_name a) t' \<Longrightarrow> in_line t a = in_line t' a"
  by (simp add: in_line_def case_prod_unfold)

lemma sync_loop_in_line:
  "distinct (map entry_name as) \<Longrightarrow> list_all (in_line (fst (sync_loop now as t))) as"
proof (induction as arbitrary: t)
  case (Cons a as)
  let ?t1 = "fst (sync_one now a t)"
  have "in_line (fst (sync_loop now as ?t1)) a"
    using sync_one_in_line [of now a t] Cons.prems
      in_line_cong [of a "fst (sync_loop now as ?t1)" ?t1] sync_loop_other [of "entry_name a" as now ?t1]
    by (simp add: image_iff)
  then show ?case using Cons by (simp add: case_prod_unfold Let_def)
qed simp

lemma sync_loop_idle:
  "list_all (in_line t) as \<Longrightarrow> sync_loop now as t = (t, map (\<lambda>a. (map_of a ''id'', entry_name a, Unchanged)) as)"
  by (induction as) (simp_all add: sync_one_idle)

lemma count_unchanged:
  "act \<noteq> Unchanged \<Longrightarrow> count_action act (map (\<lambda>a. (f a, g a, Unchanged)) as) = 0"
  by (simp add: count_action_def)

lemma sync_idle:
  assumes "read_openclaw_agents gf = Inr as" "list_all (in_line (agents (dbase w))) as"
  shows "fst (sync_agents_from_config actor gf w) = w"
  using assms by (simp add: sync_agents_from_config_def sync_loop_idle count_unchanged Let_def)

lemma sync_agents_table:
  "read_openclaw_agents gf = Inr as \<Longrightarrow>
   agents (dbase (fst (sync_agents_from_config actor gf w))) = fst (sync_loop (now_s w) as (agents (dbase w)))"
  by (simp add: sync_agents_from_config_def case_prod_unfold Let_def log_audit_event_def)

lemma preview_in_line:
  assumes "read_openclaw_agents gf = Inr as" "list_all (in_line (agents (dbase w))) as"
  shows "sd_new (preview_sync_diff gf w) = [] \<and> sd_updated (preview_sync_diff gf w) = []"
proof -
  have "find (\<lambda>g. agent_name g = n) (map snd (rows (agents (dbase w)))) = map_option snd (agent_named n (agents (dbase w)))" for n
    by (simp add: agent_named_def tbl_find_find find_map_snd)
  then show ?thesis
    using assms by (auto simp: preview_sync_diff_def Let_def filter_empty_conv list_all_iff in_line_def
        split: option.splits prod.splits)
qed



text \<open>Two entries under one name are written in turn by every synchronisation.\<close>

lemma sync_flaps:
  assumes "map_agent_to_mc a = (n, r, c)" "map_agent_to_mc b = (n, r', c')" "c \<noteq> c'"
  shows "count_action Updated (snd (sync_loop now [a, b] (fst (sync_loop now' [a, b] t)))) = 2"
proof -
  have step: "in_line t1 b \<Longrightarrow> sync_one now a t1 = (fst (sync_one now a t1), Updated)"
    "in_line t1 a \<Longrightarrow> sync_one now b t1 = (fst (sync_one now b t1), Updated)" for now t1
    using assms by (auto simp: in_line_def sync_one_def agent_named_def [symmetric] split: option.splits)
  have "in_line (fst (sync_loop now' [a, b] t)) b"
    using sync_one_in_line by (simp add: case_prod_unfold Let_def)
  from step(1) [OF this, of now] step(2) [OF sync_one_in_line] show ?thesis
    by (auto simp: case_prod_unfold Let_def count_action_def prod_eq_iff)
qed

section \<open>Templates\<close>

lemma distinct_set_in: "distinct (map fst ob) \<Longrightarrow> distinct (map fst (set_in k f v ob))"
  by (simp add: set_in_def distinct_obj_set)

lemma distinct_set_if: "distinct (map fst ob) \<Longrightarrow> distinct (map fst (set_if k f v ob))"
  by (simp add: set_if_def distinct_set_in split: option.split)

lemma distinct_name_identity: "distinct (map fst ob) \<Longrightarrow> distinct (map fst (name_identity v ob))"
  by (simp add: name_identity_def distinct_set_in distinct_obj_set split: option.split)

lemma map_of_set_in: "k' \<noteq> k \<Longrightarrow> map_of (set_in k f v ob) k' = map_of ob k'"
  by (simp add: set_in_def map_of_obj_set)

lemma map_of_set_if: "k' \<noteq> k \<Longrightarrow> map_of (set_if k f v ob) k' = map_of ob k'"
  by (simp add: set_if_def map_of_set_in split: option.split)

lemma map_of_name_identity: "k' \<noteq> ''identity'' \<Longrightarrow> map_of (name_identity v ob) k' = map_of ob k'"
  by (simp add: name_identity_def map_of_set_in map_of_obj_set split: option.split)

lemma map_of_given: "map_of (given ob) k = map_option Some (map_of ob k)"
  by (induction ob) (auto simp: given_def)

text \<open>What building a configuration leaves as the template has it.\<close>

lemma build_keeps:
  assumes "distinct (map fst (tpl_config tpl))" "k \<notin> {''id'', ''name'', ''workspace'', ''agentDir'', ''identity'', ''model'', ''sandbox'', ''subagents''}"
  shows "map_of (build_agent_config tpl ov) k = map_option Some (map_of (tpl_config tpl) k)"
proof -
  have given: "map_of (spread [(''id'', a), (''name'', b), (''workspace'', c), (''agentDir'', d)] (given ob)) k
      = map_option Some (map_of ob k)" if "distinct (map fst ob)" for ob a b c d
    using that assms(2)
    by (simp add: map_of_spread_distinct given_def comp_def case_prod_unfold map_of_given [unfolded given_def case_prod_unfold]
        split: option.split)
  show ?thesis
    unfolding build_agent_config_def Let_def
    using assms by (subst given)
      (simp_all add: distinct_set_if distinct_set_in distinct_name_identity map_of_set_if map_of_set_in map_of_name_identity)
qed

lemma strs_eq [simp]: "strs xs = strs ys \<longleftrightarrow> xs = ys"
proof -
  have "inj JStr" by (simp add: inj_def)
  then show ?thesis by (simp add: strs_def inj_map_eq_map)
qed

lemmas template_defs = orchestrator_template_def developer_template_def specialist_template_def
  reviewer_template_def researcher_template_def content_template_def auditor_template_def

lemmas member_defs = model_config_def identity_config_def sandbox_config_def tools_config_def memory_config_def

lemma get_template_cases: "get_template ty = Some tpl \<Longrightarrow> tpl \<in> set agent_templates \<and> tpl_type tpl = ty"
  by (auto simp: get_template_def find_Some_iff)

lemma template_tools_ok:
  assumes "tpl \<in> set agent_templates"
  shows "distinct (map fst (tpl_config tpl)) \<and>
    (\<exists>allow deny. map_of (tpl_config tpl) ''tools'' = Some (JObj [(''allow'', strs allow), (''deny'', strs deny)]) \<and>
       set allow \<inter> set deny = {} \<and> set common_deny \<subseteq> set deny)"
  using assms unfolding agent_templates_def
  by (auto simp: template_defs member_defs common_deny_def coding_tools_def browser_tools_def
      memory_tools_def session_tools_def subagent_tools_def thinking_tools_def)

text \<open>
  The tools of a template: whatever overrides a configuration is built with, its
  tools are those of the template; no template allows a tool that it denies, and every one
  denies the tools that administer the gateway.
\<close>

theorem template_tools:
  assumes "get_template ty = Some tpl"
  shows "\<exists>allow deny. map_of (build_agent_config tpl ov) ''tools'' = Some (Some (JObj [(''allow'', strs allow), (''deny'', strs deny)])) \<and>
    map_of (tpl_config tpl) ''tools'' = Some (JObj [(''allow'', strs allow), (''deny'', strs deny)]) \<and>
    set allow \<inter> set deny = {} \<and> set common_deny \<subseteq> set deny"
proof -
  have mem: "tpl \<in> set agent_templates" using get_template_cases [OF assms] by blast
  have "map_of (build_agent_config tpl ov) ''tools'' = map_option Some (map_of (tpl_config tpl) ''tools'')"
    using template_tools_ok [OF mem] by (intro build_keeps) simp_all
  then show ?thesis using template_tools_ok [OF mem] by (elim conjE exE) simp
qed

theorem template_tools_witness:
  "\<exists>allow deny. map_of (build_agent_config reviewer_template [(''tools'', JNull), (''sandboxMode'', JStr ''non-main'')]) ''tools''
     = Some (Some (JObj [(''allow'', strs allow), (''deny'', strs deny)])) \<and> set allow \<inter> set deny = {}"
proof -
  have "get_template ''reviewer'' = Some reviewer_template"
    by (simp add: get_template_def agent_templates_def template_defs)
  from template_tools [OF this, of "[(''tools'', JNull), (''sandboxMode'', JStr ''non-main'')]"] show ?thesis by blast
qed

text \<open>The number of tools that a template shows is the number it allows, but for one.\<close>

lemma specialist_tool_count:
  "tpl_tool_count specialist_template = 15 \<and>
   (case jget (fld (tpl_config specialist_template) ''tools'') ''allow'' of Some (JArr xs) \<Rightarrow> length xs = 17 | _ \<Rightarrow> False)"
  by code_simp

end
