(* ===== verification/Agent_Register.thy ===== *)
theory Agent_Register
  imports Agent_Work Agent_Notes Agent_Sync Task_Board
begin

text \<open>
  Properties of the register of agents. Its tables stay well-formed under every request that
  writes them: names, session keys and connection ids are unique, an agent has at most one open
  connection, and no connection outlives its agent. A mention in a comment reaches the next
  heartbeat of the agent.
\<close>

section \<open>Unique columns\<close>

definition unique_by :: "('r \<Rightarrow> 'k option) \<Rightarrow> 'r table \<Rightarrow> bool" where
  "unique_by key t \<longleftrightarrow> (\<forall>i j a b. tbl_get t i = Some a \<and> tbl_get t j = Some b \<and> key a \<noteq> None \<and> key a = key b \<longrightarrow> i = j)"

lemma unique_byD:
  "unique_by key t \<Longrightarrow> tbl_get t i = Some a \<Longrightarrow> tbl_get t j = Some b \<Longrightarrow> key a \<noteq> None \<Longrightarrow> key a = key b \<Longrightarrow> i = j"
  unfolding unique_by_def by blast

lemma unique_by_sub:
  assumes "unique_by key t"
    and "\<And>i b. tbl_get t' i = Some b \<Longrightarrow> key b \<noteq> None \<Longrightarrow> \<exists>a. tbl_get t i = Some a \<and> key a = key b"
  shows "unique_by key t'"
  using assms unfolding unique_by_def by metis

lemma unique_byI:
  "(\<And>i j a b. tbl_get t i = Some a \<Longrightarrow> tbl_get t j = Some b \<Longrightarrow> key a \<noteq> None \<Longrightarrow> key a = key b \<Longrightarrow> i = j) \<Longrightarrow> unique_by key t"
  unfolding unique_by_def by blast

lemma unique_by_insert:
  assumes "tbl_ok t" "unique_by key t" "\<And>i a. tbl_get t i = Some a \<Longrightarrow> key r \<noteq> None \<Longrightarrow> key a \<noteq> key r"
  shows "unique_by key (tbl_insert r t)"
proof (rule unique_byI)
  fix i j a b
  assume "tbl_get (tbl_insert r t) i = Some a" "tbl_get (tbl_insert r t) j = Some b" "key a \<noteq> None" "key a = key b"
  then show "i = j"
    using assms(3) [of i a] assms(3) [of j b] unique_byD [OF assms(2), of i a j b]
    by (auto simp: tbl_get_insert [OF assms(1)] split: if_splits)
qed

lemma unique_by_update:
  assumes "unique_by key t"
    and "\<And>a j b. tbl_get t i = Some a \<Longrightarrow> tbl_get t j = Some b \<Longrightarrow> j \<noteq> i \<Longrightarrow> key (f a) \<noteq> None \<Longrightarrow> key (f a) \<noteq> key b"
  shows "unique_by key (tbl_update i f t)"
  using assms unfolding unique_by_def by (auto simp: tbl_get_update split: if_splits) metis+

lemma unique_by_update_where:
  assumes "unique_by key t" "\<And>a. P a \<Longrightarrow> key (f a) = key a \<or> key (f a) = None"
  shows "unique_by key (tbl_update_where P f t)"
  by (rule unique_by_sub [OF assms(1)]) (use assms(2) in \<open>force simp: tbl_get_update_where split: if_splits\<close>)

lemma tbl_get_update_whereD:
  "tbl_get (tbl_update_where P f t) i = Some r \<Longrightarrow> \<exists>a. tbl_get t i = Some a \<and> (P a \<and> r = f a \<or> \<not> P a \<and> r = a)"
  by (auto simp: tbl_get_update_where)

lemma unique_by_delete_where: "tbl_ok t \<Longrightarrow> unique_by key t \<Longrightarrow> unique_by key (tbl_delete_where P t)"
  by (erule unique_by_sub) (simp add: tbl_get_delete_where)

lemma tbl_find_NoneD: "tbl_find P t = None \<Longrightarrow> tbl_get t i = Some r \<Longrightarrow> \<not> P r"
  using tbl_get_mem [of t i r] by (auto simp: tbl_find_None_iff)

section \<open>Well-formed registers\<close>

definition agents_ok :: "agent table \<Rightarrow> bool" where
  "agents_ok t \<longleftrightarrow> tbl_ok t \<and> unique_by (\<lambda>a. Some (agent_name a)) t \<and> unique_by agent_session_key t"

text \<open>The agent a connection is open for.\<close>

definition live :: "direct_connection \<Rightarrow> int option" where
  "live c = (if con_status c = Connected then Some (con_agent_id c) else None)"

definition connections_ok :: "direct_connection table \<Rightarrow> bool" where
  "connections_ok t \<longleftrightarrow> tbl_ok t \<and> unique_by (\<lambda>c. Some (con_connection_id c)) t \<and> unique_by live t"

definition register_ok :: "db \<Rightarrow> bool" where
  "register_ok d \<longleftrightarrow> agents_ok (agents d) \<and> connections_ok (connections d) \<and>
     (\<forall>i c. tbl_get (connections d) i = Some c \<longrightarrow> tbl_get (agents d) (con_agent_id c) \<noteq> None)"

lemma register_ok_frame [simp]:
  "register_ok (d\<lparr>activities := x\<rparr>) = register_ok d"
  "register_ok (d\<lparr>notifications := n\<rparr>) = register_ok d"
  "register_ok (d\<lparr>audit_log := l\<rparr>) = register_ok d"
  "register_ok (d\<lparr>token_usage := u\<rparr>) = register_ok d"
  "register_ok (d\<lparr>memory_column := m\<rparr>) = register_ok d"
  by (simp_all add: register_ok_def)

lemma register_agents:
  assumes "register_ok d" "agents_ok t" "\<And>i. tbl_get (agents d) i \<noteq> None \<Longrightarrow> tbl_get t i \<noteq> None"
  shows "register_ok (d\<lparr>agents := t\<rparr>)"
  using assms by (simp add: register_ok_def)

lemma register_connections:
  assumes "register_ok d" "connections_ok t"
    and "\<And>i c. tbl_get t i = Some c \<Longrightarrow> tbl_get (agents d) (con_agent_id c) \<noteq> None"
  shows "register_ok (d\<lparr>connections := t\<rparr>)"
  using assms by (simp add: register_ok_def)

text \<open>Updates that leave the name and the session key alone.\<close>

definition keeps_identity :: "(agent \<Rightarrow> agent) \<Rightarrow> bool" where
  "keeps_identity f \<longleftrightarrow> (\<forall>a. agent_name (f a) = agent_name a \<and> agent_session_key (f a) = agent_session_key a)"

lemma agents_ok_sub:
  assumes "agents_ok t" "tbl_ok t'"
    and "\<And>i b. tbl_get t' i = Some b \<Longrightarrow>
      \<exists>a. tbl_get t i = Some a \<and> agent_name a = agent_name b \<and> agent_session_key a = agent_session_key b"
  shows "agents_ok t'"
  using assms unfolding agents_ok_def by (auto intro!: unique_by_sub [where t = t and t' = t'])

lemma agents_ok_update_where: "agents_ok t \<Longrightarrow> keeps_identity f \<Longrightarrow> agents_ok (tbl_update_where P f t)"
  by (rule agents_ok_sub) (auto simp: agents_ok_def tbl_get_update_where keeps_identity_def split: if_splits)

lemma agents_ok_update: "agents_ok t \<Longrightarrow> keeps_identity f \<Longrightarrow> agents_ok (tbl_update i f t)"
  by (rule agents_ok_sub) (auto simp: agents_ok_def tbl_get_update keeps_identity_def split: if_splits)

lemma agents_ok_insert:
  assumes "agents_ok t" "tbl_find (\<lambda>a. agent_name a = agent_name r) t = None"
    and "\<And>i a. tbl_get t i = Some a \<Longrightarrow> agent_session_key r \<noteq> None \<Longrightarrow> agent_session_key a \<noteq> agent_session_key r"
  shows "agents_ok (tbl_insert r t)"
  using assms tbl_find_NoneD [OF assms(2)] unfolding agents_ok_def by (auto intro!: unique_by_insert)

lemma set_agent_ok:
  "register_ok (dbase w) \<Longrightarrow> keeps_identity f \<Longrightarrow> register_ok (dbase (set_agent i f w))"
  unfolding set_agent_def
  by (auto intro!: register_agents agents_ok_update simp: tbl_get_update) (auto simp: register_ok_def)

lemma update_agent_status_ok:
  "register_ok (dbase w) \<Longrightarrow> register_ok (dbase (update_agent_status name status act w))"
proof -
  assume ok: "register_ok (dbase w)"
  have "register_ok ((dbase w)\<lparr>agents := tbl_update_where (\<lambda>a. agent_name a = name)
      (\<lambda>a. a\<lparr>agent_status := status, agent_last_seen := Some (now_s w), agent_last_activity := act,
         agent_updated_at := now_s w\<rparr>) (agents (dbase w))\<rparr>)"
    using ok by (intro register_agents agents_ok_update_where) (auto simp: register_ok_def keeps_identity_def tbl_get_update_where)
  then show ?thesis by (simp add: update_agent_status_def Let_def split: option.split)
qed

lemma insert_agent_ok:
  assumes "register_ok (dbase w)" "tbl_find (\<lambda>a. agent_name a = agent_name r) (agents (dbase w)) = None"
    and "\<not> key_taken (agent_session_key r) (\<lambda>_. True) (dbase w)"
  shows "register_ok (dbase (insert_agent r w))"
proof -
  have "agent_session_key a \<noteq> agent_session_key r"
    if "tbl_get (agents (dbase w)) i = Some a" "agent_session_key r \<noteq> None" for i a
    using that assms(3) tbl_get_mem [OF that(1)] by (fastforce simp: key_taken_def list_ex_iff)
  then have "agents_ok (tbl_insert r (agents (dbase w)))"
    using assms by (intro agents_ok_insert) (auto simp: register_ok_def)
  then show ?thesis
    using assms(1) unfolding insert_agent_def
    by (auto intro!: register_agents) (auto simp: register_ok_def agents_ok_def tbl_get_insert)
qed

lemma update_matching_ok:
  assumes "register_ok (dbase w)" "keeps_identity f"
  shows "register_ok (dbase (update_matching id_text f w))"
proof -
  let ?t = "(agents (dbase w))\<lparr>rows := map (\<lambda>(i, a). (i, if row_matches id_text i a then f a else a)) (rows (agents (dbase w)))\<rparr>"
  have get: "tbl_get ?t i = map_option (\<lambda>a. if row_matches id_text i a then f a else a) (tbl_get (agents (dbase w)) i)" for i
    using map_of_map_value [of "\<lambda>i a. if row_matches id_text i a then f a else a" "rows (agents (dbase w))" i]
    by (simp add: tbl_get_def)
  have "tbl_ids ?t = tbl_ids (agents (dbase w))" by (simp add: tbl_ids_def case_prod_beta comp_def)
  then have "tbl_ok ?t" using assms(1) by (simp add: tbl_ok_def register_ok_def agents_ok_def)
  then have "agents_ok ?t"
    using assms by (intro agents_ok_sub [of "agents (dbase w)" ?t]) (auto simp: register_ok_def get keeps_identity_def split: if_splits)
  then show ?thesis
    using assms(1) unfolding update_matching_def by (auto intro!: register_agents simp: get)
qed

section \<open>Requests keep the register well-formed\<close>

lemma set_connections_frame [simp]:
  "agents (dbase (set_connections t w)) = agents (dbase w)"
  "connections (dbase (set_connections t w)) = t"
  "now_s (set_connections t w) = now_s w"
  by (simp_all add: set_connections_def now_s_def)

lemma set_connections_ok:
  assumes "register_ok (dbase w)" "connections_ok t"
    and "\<And>i c. tbl_get t i = Some c \<Longrightarrow> tbl_get (agents (dbase w)) (con_agent_id c) \<noteq> None"
  shows "register_ok (dbase (set_connections t w))"
  using assms by (simp add: set_connections_def register_connections)

text \<open>Touching or closing connections, whichever they are.\<close>

lemma update_connections_ok:
  assumes ok: "register_ok (dbase w)"
    and f: "\<And>c. P c \<Longrightarrow> con_connection_id (f c) = con_connection_id c \<and> con_agent_id (f c) = con_agent_id c \<and>
      (con_status (f c) = con_status c \<or> con_status (f c) = Disconnected)"
  shows "register_ok (dbase (set_connections (tbl_update_where P f (connections (dbase w))) w))"
proof (rule set_connections_ok [OF ok])
  have "live (f c) = live c \<or> live (f c) = None" if "P c" for c
    using f [OF that] by (auto simp: live_def)
  then show "connections_ok (tbl_update_where P f (connections (dbase w)))"
    using ok f unfolding connections_ok_def register_ok_def
    by (simp add: unique_by_update_where)
next
  fix i c
  assume "tbl_get (tbl_update_where P f (connections (dbase w))) i = Some c"
  then obtain c' where "tbl_get (connections (dbase w)) i = Some c'" "con_agent_id c = con_agent_id c'"
    using f by (auto simp: tbl_get_update_where)
  then show "tbl_get (agents (dbase w)) (con_agent_id c) \<noteq> None" using ok by (simp add: register_ok_def)
qed

lemma connect_agent_ok:
  assumes "register_ok (dbase w)" "connect_agent b w = (w1, i)"
  shows "register_ok (dbase w1)" "tbl_get (agents (dbase w1)) i \<noteq> None"
proof -
  have ok: "tbl_ok (agents (dbase w))" using assms(1) by (simp add: register_ok_def agents_ok_def)
  show "register_ok (dbase w1)"
    using assms insert_agent_ok [OF assms(1)] set_agent_ok [OF assms(1)]
    by (auto simp: connect_agent_def Let_def key_taken_def keeps_identity_def split: option.splits)
  show "tbl_get (agents (dbase w1)) i \<noteq> None"
    using assms(2) ok
    by (auto simp: connect_agent_def Let_def insert_agent_def set_agent_def tbl_get_insert tbl_get_update tbl_get_iff
        split: option.splits dest!: tbl_find_SomeD)
qed

lemma connect_ok:
  assumes ok: "register_ok (dbase w)"
  shows "register_ok (dbase (fst (connect_with uuid b w)))"
proof -
  obtain w1 i where c: "connect_agent b w = (w1, i)" by fastforce
  note ok1 = connect_agent_ok [OF ok c]
  define t where "t = tbl_update_where (\<lambda>c. con_agent_id c = i \<and> con_status c = Connected)
    (\<lambda>c. c\<lparr>con_status := Disconnected, con_updated_at := now_s w\<rparr>) (connections (dbase w1))"
  define w2 where "w2 = set_connections t w1"
  have ok2: "register_ok (dbase w2)"
    unfolding w2_def t_def by (rule update_connections_ok [OF ok1(1)]) simp
  have closed: "live c \<noteq> Some i" if "tbl_get t k = Some c" for k c
    using tbl_get_update_whereD [OF that [unfolded t_def]] by (elim exE conjE disjE, simp add: live_def, simp add: live_def, blast)
  have t: "connections (dbase w2) = t" "agents (dbase w2) = agents (dbase w1)" by (simp_all add: w2_def)
  let ?n = "new_connection b i uuid (now_s w)"
  have n: "live ?n = Some i" "con_connection_id ?n = uuid" by (simp_all add: new_connection_def live_def)
  have t_ok: "tbl_ok t" "unique_by (\<lambda>c. Some (con_connection_id c)) t" "unique_by live t"
    using ok2 by (simp_all add: register_ok_def connections_ok_def t)
  have "connections_ok (tbl_insert ?n t)" if "tbl_find (\<lambda>c. con_connection_id c = uuid) t = None"
    unfolding connections_ok_def
    using unique_by_insert [OF t_ok(1,3), of ?n] unique_by_insert [OF t_ok(1,2), of ?n] closed tbl_find_NoneD [OF that] t_ok(1)
    by (simp add: n)
  moreover have "tbl_get (agents (dbase w1)) (con_agent_id c) \<noteq> None"
    if "tbl_get (tbl_insert (new_connection b i uuid (now_s w)) t) k = Some c" for k c
    using that ok2 ok1(2) unfolding register_ok_def connections_ok_def t
    by (auto simp: tbl_get_insert new_connection_def split: if_splits)
  ultimately have "register_ok (dbase (set_connections (tbl_insert (new_connection b i uuid (now_s w)) t) w2))"
    if "tbl_find (\<lambda>c. con_connection_id c = uuid) t = None"
    using that ok2 by (intro set_connections_ok) (auto simp: t)
  then show ?thesis
    using ok2 by (cases "tbl_find (\<lambda>c. con_connection_id c = uuid) t = None")
      (simp_all add: connect_with_def c Let_def w2_def [symmetric] t_def [symmetric] t)
qed

lemma disconnect_ok:
  assumes "register_ok (dbase w)"
  shows "register_ok (dbase (fst (disconnect_with body w)))"
proof -
  have "register_ok (dbase (set_connections (tbl_update_where (\<lambda>c. con_connection_id c = cid)
      (\<lambda>c. c\<lparr>con_status := Disconnected, con_updated_at := now_s w\<rparr>) (connections (dbase w))) w))" for cid
    by (rule update_connections_ok [OF assms]) simp
  then show ?thesis
    using assms by (auto simp: disconnect_with_def Let_def set_agent_ok keeps_identity_def split: option.splits)
qed

lemma touch_connection_ok: "register_ok (dbase w) \<Longrightarrow> register_ok (dbase (touch_connection v w))"
  by (auto simp: touch_connection_def intro!: update_connections_ok split: option.splits)

lemma record_tokens_ok: "register_ok (dbase w) \<Longrightarrow> register_ok (dbase (fst (record_tokens id_text b w)))"
  by (auto simp: record_tokens_def split: option.splits)

lemma heartbeat_ok: "register_ok (dbase w) \<Longrightarrow> register_ok (dbase (fst (heartbeat_with scan id_text w)))"
  by (auto simp: heartbeat_with_def Let_def update_agent_status_ok split: option.splits)

lemma get_heartbeat_ok: "register_ok (dbase w) \<Longrightarrow> register_ok (dbase (fst (get_heartbeat scan id_text e r w)))"
  unfolding get_heartbeat_def by (intro with_role_keeps [of register_ok] heartbeat_ok)

lemma post_heartbeat_ok:
  assumes "register_ok (dbase w)"
  shows "register_ok (dbase (fst (post_heartbeat scan id_text body e r w)))"
proof -
  have "register_ok (dbase (fst (get_heartbeat scan id_text e r (fst (record_tokens id_text b (touch_connection v w))))))" for b v
    using assms by (intro get_heartbeat_ok record_tokens_ok touch_connection_ok)
  then show ?thesis
    unfolding post_heartbeat_def
    by (intro with_role_keeps [of register_ok] assms) (simp add: Let_def case_prod_unfold)
qed

lemma create_agent_ok:
  assumes "register_ok (dbase w)"
  shows "register_ok (dbase (fst (create_agent_with e r gf b w)))"
proof -
  have "register_ok (dbase (insert_agent (new_agent b role cfg (now_s w)) w))"
    if "tbl_find (\<lambda>a. agent_name a = ca_name b) (agents (dbase w)) = None"
       "\<not> key_taken (ca_session_key b) (\<lambda>_. True) (dbase w)" for role cfg
    using that by (intro insert_agent_ok assms) (simp_all add: new_agent_def)
  then show ?thesis
    using assms
    by (cases "tbl_find (\<lambda>a. agent_name a = ca_name b) (agents (dbase w)) = None";
        cases "key_taken (ca_session_key b) (\<lambda>_. True) (dbase w)")
      (simp_all add: create_agent_with_def Let_def split: prod.split option.split)
qed

lemma agent_update_ok:
  assumes ok: "register_ok (dbase w)" and free: "\<not> agent_update_throws b i (dbase w)"
  shows "register_ok (dbase (set_agent i (apply_agent_update b now) w))"
proof -
  let ?t = "agents (dbase w)" and ?f = "apply_agent_update b now"
  have name: "agent_name (?f a) = agent_name a" for a by (simp add: apply_agent_update_def)
  have t: "tbl_ok ?t" "unique_by (\<lambda>a. Some (agent_name a)) ?t" "unique_by agent_session_key ?t"
    using ok by (simp_all add: register_ok_def agents_ok_def)
  have key: "agent_session_key (?f a) \<noteq> agent_session_key x"
    if "tbl_get ?t i = Some a" "tbl_get ?t j = Some x" "j \<noteq> i" "agent_session_key (?f a) \<noteq> None" for a j x
  proof (cases "ua_session_key b")
    case None
    then have "agent_session_key (?f a) = agent_session_key a" by (simp add: apply_agent_update_def)
    then show ?thesis using unique_byD [OF t(3) that(1,2)] that(3,4) by metis
  next
    case (Some k)
    then have "agent_session_key (?f a) = k" by (simp add: apply_agent_update_def)
    moreover have "\<not> key_taken k (\<lambda>j. j \<noteq> i) (dbase w)" using free Some by (simp add: agent_update_throws_def)
    ultimately show ?thesis
      using that(3,4) tbl_get_mem [OF that(2)] by (cases k) (auto simp: key_taken_def list_ex_iff)
  qed
  have "unique_by (\<lambda>a. Some (agent_name a)) (tbl_update i ?f ?t)"
    using t(2) by (intro unique_by_update) (auto simp: name dest: unique_byD)
  moreover have "unique_by agent_session_key (tbl_update i ?f ?t)"
    by (rule unique_by_update [OF t(3)]) (rule key)
  ultimately have "agents_ok (tbl_update i ?f ?t)" using t(1) by (simp add: agents_ok_def)
  then show ?thesis
    unfolding set_agent_def by (auto intro!: register_agents [OF ok] simp: tbl_get_update)
qed

lemma update_agent_ok:
  "register_ok (dbase w) \<Longrightarrow> register_ok (dbase (fst (update_agent_with body w)))"
  by (auto simp: update_agent_with_def Let_def agent_update_ok split: option.splits)

lemma configure_agent_ok:
  "register_ok (dbase w) \<Longrightarrow> register_ok (dbase (fst (configure_agent_with id_text body r gf user w)))"
  by (simp add: configure_agent_with_def Let_def set_agent_ok keeps_identity_def
      split: sum.split option.split bool.split prod.split)

lemma delete_agent_ok:
  assumes "register_ok (dbase w)"
  shows "register_ok (dbase (fst (delete_agent_with id_text user w)))"
proof -
  define t where "t i = tbl_delete i (agents (dbase w))" for i
  define cs where "cs i = tbl_delete_where (\<lambda>_ c. con_agent_id c = i) (connections (dbase w))" for i
  have ok: "tbl_ok (agents (dbase w))" "tbl_ok (connections (dbase w))"
    using assms by (simp_all add: register_ok_def agents_ok_def connections_ok_def)
  have "agents_ok (t i)" for i
    unfolding t_def
    by (rule agents_ok_sub [of "agents (dbase w)"])
      (use assms in \<open>auto simp: register_ok_def ok tbl_get_delete split: if_splits\<close>)
  moreover have "connections_ok (cs i)" for i
    using assms by (simp add: cs_def register_ok_def connections_ok_def unique_by_delete_where)
  moreover have "tbl_get (t i) (con_agent_id c) \<noteq> None" if "tbl_get (cs i) j = Some c" for i j c
    using that assms by (auto simp: t_def cs_def tbl_get_delete_where [OF ok(2)] tbl_get_delete register_ok_def)
  ultimately have "register_ok (dbase (delete_agent_row i w))" for i
    by (simp add: delete_agent_row_def register_ok_def t_def cs_def)
  then show ?thesis using assms by (auto simp: delete_agent_with_def split: option.splits)
qed

lemma sync_one_ok:
  assumes "agents_ok t"
  shows "agents_ok (fst (sync_one now a t)) \<and> (\<forall>i. tbl_get t i \<noteq> None \<longrightarrow> tbl_get (fst (sync_one now a t)) i \<noteq> None)"
proof -
  obtain name role cfg where m: "map_agent_to_mc a = (name, role, cfg)" by (metis prod_cases3)
  have "agents_ok (tbl_insert (synced_agent name role cfg now) t)" if "tbl_find (\<lambda>g. agent_name g = name) t = None"
    by (rule agents_ok_insert) (use assms that in \<open>simp_all add: synced_agent_def\<close>)
  moreover have "tbl_ok t" using assms by (simp add: agents_ok_def)
  ultimately show ?thesis
    using assms
    by (simp add: sync_one_def m agents_ok_update_where keeps_identity_def tbl_get_update_where tbl_get_insert split: option.split)
qed

lemma sync_loop_ok:
  "agents_ok t \<Longrightarrow> agents_ok (fst (sync_loop now as t)) \<and> (\<forall>i. tbl_get t i \<noteq> None \<longrightarrow> tbl_get (fst (sync_loop now as t)) i \<noteq> None)"
proof (induction as arbitrary: t)
  case (Cons a as)
  have "fst (sync_loop now (a # as) t) = fst (sync_loop now as (fst (sync_one now a t)))"
    by (simp add: case_prod_unfold Let_def)
  then show ?case using sync_one_ok [OF Cons.prems, of now a] Cons.IH [of "fst (sync_one now a t)"] by metis
qed simp

lemma sync_ok:
  assumes "register_ok (dbase w)"
  shows "register_ok (dbase (fst (sync_agents_from_config actor gf w)))"
proof -
  have "agents_ok (agents (dbase w))" using assms by (simp add: register_ok_def)
  then have "register_ok ((dbase w)\<lparr>agents := fst (sync_loop now as (agents (dbase w)))\<rparr>)" for now as
    using sync_loop_ok by (intro register_agents assms) blast+
  then show ?thesis
    using assms by (auto simp: sync_agents_from_config_def Let_def case_prod_unfold split: sum.splits)
qed

lemma notes_ok:
  assumes "register_ok (dbase w)"
  shows "register_ok (dbase (fst (put_memory_with id_text mb w)))"
    "register_ok (dbase (fst (delete_memory_with id_text w)))"
    "register_ok (dbase (fst (put_soul_with sd id_text sb e r w)))"
  using assms
  by (auto simp: put_memory_with_def delete_memory_with_def put_soul_with_def Let_def add_memory_column_def keeps_identity_def
      intro!: update_matching_ok split: option.splits sum.splits)

section \<open>The register as a machine\<close>

text \<open>
  The requests that write the register. What the gateway's file, the templates' directory and
  the command hold or answer when they are asked is part of the event; the answer of the
  command comes in an event of its own, so that other requests may run while it is awaited.
\<close>

datatype agent_op =
    PostAgent "create_agent_body validated" gateway_file
  | PutAgents "agent_update_body option"
  | PutAgent string "string + agent_config_body" gateway_file
  | DeleteAgent string
  | PostConnect string "connect_body validated"
  | DeleteConnect "string option option"
  | PostSync gateway_file
  | GetHeartbeat string
  | PostHeartbeat string "heartbeat_body option"
  | WakeAnswered string string command_result
  | MessageAnswered message_body int command_result
  | GetMemory string
  | PutMemory string "memory_body option"
  | DeleteMemory string
  | PutSoul soul_dir string "soul_body option"

fun agent_handler :: "(int list \<Rightarrow> int list) \<Rightarrow> env \<Rightarrow> request \<Rightarrow> agent_op \<Rightarrow> world \<Rightarrow> world" where
  "agent_handler scan e r (PostAgent b gf) w = fst (post_agent b e r gf w)"
| "agent_handler scan e r (PutAgents b) w = fst (put_agents b e r w)"
| "agent_handler scan e r (PutAgent i b gf) w = fst (put_agent i b e r gf w)"
| "agent_handler scan e r (DeleteAgent i) w = fst (delete_agent i e r w)"
| "agent_handler scan e r (PostConnect uuid b) w = fst (post_connect uuid b e r w)"
| "agent_handler scan e r (DeleteConnect b) w = fst (delete_connect b e r w)"
| "agent_handler scan e r (PostSync gf) w = fst (post_sync e r gf w)"
| "agent_handler scan e r (GetHeartbeat i) w = fst (get_heartbeat scan i e r w)"
| "agent_handler scan e r (PostHeartbeat i b) w = fst (post_heartbeat scan i b e r w)"
| "agent_handler scan e r (WakeAnswered name key res) w = fst (wake_end name key res w)"
| "agent_handler scan e r (MessageAnswered b i res) w = fst (message_end b i res w)"
| "agent_handler scan e r (GetMemory i) w = fst (get_memory i e r w)"
| "agent_handler scan e r (PutMemory i b) w = fst (put_memory i b e r w)"
| "agent_handler scan e r (DeleteMemory i) w = fst (delete_memory i e r w)"
| "agent_handler scan e r (PutSoul sd i b) w = fst (put_soul sd i b e r w)"

definition agent_step :: "(int list \<Rightarrow> int list) \<Rightarrow> env \<Rightarrow> int \<times> request \<times> agent_op \<Rightarrow> world \<Rightarrow> world" where
  "agent_step scan e x w = (case x of (t, r, op) \<Rightarrow> agent_handler scan e r op (w\<lparr>clock := t\<rparr>))"

lemma agent_handler_ok:
  assumes ok: "register_ok (dbase w)"
  shows "register_ok (dbase (agent_handler scan e r op w))"
proof -
  note wrap = with_role_keeps [of register_ok, OF ok] with_limit_keeps [of register_ok] with_body_keeps [of register_ok]
  show ?thesis
  proof (cases op)
    case (PostAgent b gf)
    with ok show ?thesis by (auto simp: post_agent_def intro!: wrap create_agent_ok)
  next
    case (PutAgents b)
    with ok show ?thesis by (auto simp: put_agents_def intro!: wrap update_agent_ok)
  next
    case (PutAgent i b gf)
    with ok show ?thesis by (auto simp: put_agent_def intro!: wrap configure_agent_ok)
  next
    case (DeleteAgent i)
    with ok show ?thesis by (auto simp: delete_agent_def intro!: wrap delete_agent_ok)
  next
    case (PostConnect uuid b)
    with ok show ?thesis by (auto simp: post_connect_def intro!: wrap connect_ok)
  next
    case (DeleteConnect b)
    with ok show ?thesis by (auto simp: delete_connect_def intro!: wrap disconnect_ok)
  next
    case (PostSync gf)
    with ok show ?thesis by (auto simp: post_sync_def case_prod_unfold intro!: wrap sync_ok)
  next
    case (WakeAnswered name key res)
    with ok show ?thesis by (auto simp: wake_end_def update_agent_status_ok split: option.splits)
  next
    case (MessageAnswered b i res)
    with ok show ?thesis by (auto simp: message_end_def Let_def)
  next
    case (GetMemory i)
    with ok show ?thesis by (auto simp: get_memory_def add_memory_column_def Let_def intro!: wrap split: option.splits)
  next
    case (PutMemory i b)
    with ok show ?thesis by (auto simp: put_memory_def intro!: wrap notes_ok)
  next
    case (DeleteMemory i)
    with ok show ?thesis by (auto simp: delete_memory_def intro!: wrap notes_ok)
  next
    case (PutSoul sd i b)
    with ok show ?thesis by (auto simp: put_soul_def intro!: wrap notes_ok)
  qed (use ok in \<open>simp_all add: get_heartbeat_ok post_heartbeat_ok\<close>)
qed

interpretation register: invariant_machine "agent_step scan e" "\<lambda>w. register_ok (dbase w)"
  by unfold_locales (auto simp: agent_step_def intro!: agent_handler_ok)

text \<open>
  Claim C16. The register of agents stays consistent. Whatever requests create, update, configure,
  connect, disconnect, synchronise or delete agents, in any order, each at its own time and
  with its own headers and body, accepted or not: no two agents share a name or a session key,
  no two connections share an id, an agent has at most one open connection, and every
  connection belongs to an agent that exists.
\<close>

theorem register_integrity:
  fixes w :: world and scan :: "int list \<Rightarrow> int list" and e :: env and xs :: "(int \<times> request \<times> agent_op) list"
  assumes "register_ok (dbase w)"
  defines "d \<equiv> dbase (fold (agent_step scan e) xs w)"
  shows "(\<forall>i j a b. tbl_get (agents d) i = Some a \<and> tbl_get (agents d) j = Some b \<and>
       (agent_name a = agent_name b \<or> agent_session_key a \<noteq> None \<and> agent_session_key a = agent_session_key b) \<longrightarrow> i = j) \<and>
     (\<forall>i j c c'. tbl_get (connections d) i = Some c \<and> tbl_get (connections d) j = Some c' \<and>
       (con_connection_id c = con_connection_id c' \<or>
        con_status c = Connected \<and> con_status c' = Connected \<and> con_agent_id c = con_agent_id c') \<longrightarrow> i = j) \<and>
     (\<forall>i c. tbl_get (connections d) i = Some c \<longrightarrow> tbl_get (agents d) (con_agent_id c) \<noteq> None)"
proof -
  have ok: "register_ok d" unfolding d_def by (rule register.run_inv) (rule assms(1))
  have "i = j" if "tbl_get (agents d) i = Some a" "tbl_get (agents d) j = Some b"
      "agent_name a = agent_name b \<or> agent_session_key a \<noteq> None \<and> agent_session_key a = agent_session_key b" for i j a b
    using that(3) ok unique_byD [OF _ that(1,2), of "\<lambda>a. Some (agent_name a)"] unique_byD [OF _ that(1,2), of agent_session_key]
    unfolding register_ok_def agents_ok_def by fastforce
  moreover have "i = j" if "tbl_get (connections d) i = Some c" "tbl_get (connections d) j = Some c'"
      "con_connection_id c = con_connection_id c' \<or>
       con_status c = Connected \<and> con_status c' = Connected \<and> con_agent_id c = con_agent_id c'" for i j c c'
    using that(3) ok unique_byD [OF _ that(1,2), of "\<lambda>c. Some (con_connection_id c)"] unique_byD [OF _ that(1,2), of live]
    unfolding register_ok_def connections_ok_def live_def by fastforce
  ultimately show ?thesis using ok unfolding register_ok_def by blast
qed

definition sample_cli :: connect_body where
  "sample_cli = \<lparr>cn_tool_name = ''claude'', cn_tool_version = None, cn_agent_name = ''ada'', cn_agent_role = None, cn_metadata = None\<rparr>"

definition two_connects :: "(int \<times> request \<times> agent_op) list" where
  "two_connects = [(6000, admin_request, PostConnect ''c1'' (VData sample_cli)), (7000, admin_request, PostConnect ''c2'' (VData sample_cli))]"

theorem register_integrity_witness:
  "\<exists>c c'. tbl_get (connections (dbase (fold (agent_step (\<lambda>xs. xs) sample_env) two_connects (world_at 5000)))) 1 = Some c \<and>
     tbl_get (connections (dbase (fold (agent_step (\<lambda>xs. xs) sample_env) two_connects (world_at 5000)))) 2 = Some c' \<and>
     con_agent_id c = con_agent_id c' \<and> con_status c' = Connected \<and> con_status c = Disconnected"
proof -
  let ?d = "dbase (fold (agent_step (\<lambda>xs. xs) sample_env) two_connects (world_at 5000))"
  have e: "agents (dbase (world_at 5000)) = tbl_empty" "connections (dbase (world_at 5000)) = tbl_empty" by code_simp+
  have ok: "register_ok (dbase (world_at 5000))"
    by (simp add: e register_ok_def agents_ok_def connections_ok_def unique_by_def)
  have "map_option con_agent_id (tbl_get (connections ?d) 1) = Some 1"
    "map_option (\<lambda>c. (con_agent_id c, con_status c)) (tbl_get (connections ?d) 2) = Some (1, Connected)" by code_simp+
  then obtain c c' where c: "tbl_get (connections ?d) 1 = Some c" "tbl_get (connections ?d) 2 = Some c'"
      "con_agent_id c = 1" "con_agent_id c' = 1" "con_status c' = Connected"
    by auto
  have "\<not> (con_status c = Connected \<and> con_status c' = Connected \<and> con_agent_id c = con_agent_id c')"
  proof
    assume *: "con_status c = Connected \<and> con_status c' = Connected \<and> con_agent_id c = con_agent_id c'"
    have "(1::int) = 2"
      by (rule register_integrity [OF ok, THEN conjunct2, THEN conjunct1, rule_format, OF conjI [OF c(1) conjI [OF c(2) disjI2 [OF *]]]])
    then show False by simp
  qed
  then have "con_status c = Disconnected" using c(3-5) by (cases "con_status c") auto
  then show ?thesis using c by simp
qed

section \<open>What the heartbeat sorts and answers\<close>

text \<open>The priorities come in the order of their texts, from the last letter to the first: critical tasks are last.\<close>

lemma priority_order: "rev (sort_key priority_text [Critical, High, Medium, Low]) = [Medium, Low, High, Critical]"
  by code_simp

text \<open>A heartbeat that is posted answers an unknown agent with status 200.\<close>

lemma unknown_agent_heartbeat:
  assumes "find_agent id_text w = None"
  shows "with_token_flag False (snd (heartbeat_with scan id_text w)) =
    Reply 200 (JObj [(''error'', JStr ''Agent not found''), (''token_recorded'', JBool False)])"
  using assms by (simp add: heartbeat_with_def with_token_flag_def)

text \<open>An id in hexadecimal finds its agent; the statement that should update it matches no row.\<close>

lemma hexadecimal_id:
  "string_number ''0x1'' = Some 1" "\<not> row_matches ''0x1'' 1 a"
proof -
  show n: "string_number ''0x1'' = Some 1" by code_simp
  have "sql_number ''0x1'' = None" by code_simp
  then show "\<not> row_matches ''0x1'' 1 a" by (simp add: row_matches_def n)
qed

end
