(* ===== verification/Notifications.thy ===== *)
theory Notifications
  imports Agents Js_Floats
begin

text \<open>
  The routes over the notifications: reading, marking as read or delivered and deleting them
  (\<open>app/api/notifications/route.ts\<close>), and the delivery to the sessions of the agents
  (\<open>notifications/deliver/route.ts\<close>). Bodies are well-typed; \<open>None\<close> is a body that cannot be
  read. The \<open>openclaw\<close> command is an argument: for the notification and the command line it
  gives the time at which the command ends and what it answers. \<open>toLocaleString\<close>, which
  depends on the host's language and time zone, is an argument as well.
\<close>

section \<open>Reading\<close>

definition notification_json :: "int \<Rightarrow> notification \<Rightarrow> obj" where
  "notification_json i n =
     [(''id'', JInt i), (''recipient'', JStr (ntf_recipient n)), (''type'', JStr (ntf_type n)),
      (''title'', JStr (ntf_title n)), (''message'', JStr (ntf_message n)),
      (''source_type'', JOptStr (ntf_source_type n)), (''source_id'', JOptInt (ntf_source_id n)),
      (''read_at'', JOptInt (ntf_read_at n)), (''delivered_at'', JOptInt (ntf_delivered_at n)),
      (''created_at'', JInt (ntf_created_at n))]"

text \<open>What a notification is about: a task, a comment with its task, or an agent.\<close>

definition task_source :: "db \<Rightarrow> int \<Rightarrow> json" where
  "task_source d i =
     (case tbl_get (tasks d) i of None \<Rightarrow> JNull
      | Some t \<Rightarrow> JObj [(''type'', JStr ''task''), (''id'', JInt i), (''title'', JStr (task_title t)),
          (''status'', JStr (status_text (task_status t)))])"

definition comment_source :: "db \<Rightarrow> int \<Rightarrow> json" where
  "comment_source d i =
     (case tbl_get (comments d) i of None \<Rightarrow> JNull
      | Some c \<Rightarrow> JObj [(''type'', JStr ''comment''), (''id'', JInt i), (''content'', JStr (com_content c)),
          (''task_id'', JInt (com_task_id c)),
          (''task_title'', JOptStr (map_option task_title (tbl_get (tasks d) (com_task_id c)))),
          (''content_preview'', JStr (take 100 (com_content c)))])"

definition agent_source :: "db \<Rightarrow> int \<Rightarrow> json" where
  "agent_source d i =
     (case tbl_get (agents d) i of None \<Rightarrow> JNull
      | Some a \<Rightarrow> JObj [(''type'', JStr ''agent''), (''id'', JInt i), (''name'', JStr (agent_name a)),
          (''role'', JStr (agent_role a)), (''status'', JStr (agent_status a))])"

definition source_details :: "db \<Rightarrow> notification \<Rightarrow> json" where
  "source_details d n =
     (case (ntf_source_type n, ntf_source_id n) of
        (Some ty, Some i) \<Rightarrow>
          if i = 0 then JNull
          else if ty = ''task'' then task_source d i
          else if ty = ''comment'' then comment_source d i
          else if ty = ''agent'' then agent_source d i
          else JNull
      | _ \<Rightarrow> JNull)"

definition notification_matches :: "string \<Rightarrow> bool \<Rightarrow> string option \<Rightarrow> notification \<Rightarrow> bool" where
  "notification_matches recipient unread_only ty n \<longleftrightarrow>
     ntf_recipient n = recipient \<and> (unread_only \<longrightarrow> ntf_read_at n = None) \<and> param_ok ty (Some (ntf_type n))"

definition get_notifications ::
  "(int list \<Rightarrow> int list) \<Rightarrow> (string \<Rightarrow> string option) \<Rightarrow> env \<Rightarrow> request \<Rightarrow> world \<Rightarrow> world \<times> json response" where
  "get_notifications scan query e r = with_role Viewer e r (\<lambda>user w.
     (case str_or_null (query ''recipient'') of
        None \<Rightarrow> (w, Fail 400 ''Recipient is required'')
      | Some recipient \<Rightarrow>
          let P = notification_matches recipient (query ''unread_only'' = Some ''true'') (query ''type'') in
          (case (parse_int (opt_or (query ''limit'') ''50''), parse_int (opt_or (query ''offset'') ''0'')) of
             (Some l, Some offset) \<Rightarrow>
               let limit = min l 500; d = dbase w;
                   found = page_rows limit offset
                     (order_desc scan (\<lambda>(i, n). ntf_created_at n) (tbl_select P (notifications d)))
               in (w, Reply 200 (JObj
                    [(''notifications'', JArr (map (\<lambda>(i, n).
                        JObj (notification_json i n @ [(''source'', source_details d n)])) found)),
                     (''total'', JInt (int (tbl_count P (notifications d)))),
                     (''page'', if limit = 0 then JNull else JInt (offset div limit + 1)),
                     (''limit'', JInt limit),
                     (''unreadCount'', JInt (int (tbl_count (notification_matches recipient True None) (notifications d))))]))
           | _ \<Rightarrow> (w, Fail 500 ''Failed to fetch notifications''))))"

section \<open>Marking and deleting\<close>

definition set_notification_rows :: "notification table \<Rightarrow> world \<Rightarrow> world" where
  "set_notification_rows t w = w\<lparr>dbase := (dbase w)\<lparr>notifications := t\<rparr>\<rparr>"

text \<open>\<open>UPDATE notifications SET f WHERE P\<close>, where the condition may mention the id.\<close>

definition update_notifications ::
  "(int \<Rightarrow> notification \<Rightarrow> bool) \<Rightarrow> (notification \<Rightarrow> notification) \<Rightarrow> world \<Rightarrow> world \<times> nat" where
  "update_notifications P f w =
     (let t = notifications (dbase w)
      in (set_notification_rows (t\<lparr>rows := map (\<lambda>(i, n). (i, if P i n then f n else n)) (rows t)\<rparr>) w,
          length (filter (\<lambda>(i, n). P i n) (rows t))))"

definition remove_notifications :: "(int \<Rightarrow> notification \<Rightarrow> bool) \<Rightarrow> world \<Rightarrow> world \<times> nat" where
  "remove_notifications P w =
     (let t = notifications (dbase w)
      in (set_notification_rows (tbl_delete_where P t) w, length (filter (\<lambda>(i, n). P i n) (rows t))))"

record notification_body =
  nb_ids :: "int list option"
  nb_recipient :: "string option"
  nb_mark_all :: bool
  nb_older_than :: "int option"

definition mark_read_reply :: "world \<times> nat \<Rightarrow> world \<times> json response" where
  "mark_read_reply x = (fst x, Reply 200 (JObj [(''success'', JBool True), (''markedAsRead'', JInt (int (snd x)))]))"

definition mark_read_with :: "notification_body option \<Rightarrow> world \<Rightarrow> world \<times> json response" where
  "mark_read_with body w =
     (case body of None \<Rightarrow> (w, Fail 500 ''Failed to update notifications'')
      | Some b \<Rightarrow>
          (let read = (\<lambda>n. n\<lparr>ntf_read_at := Some (now_s w)\<rparr>) in
           case (if nb_mark_all b then str_or_null (nb_recipient b) else None, nb_ids b) of
             (Some recipient, _) \<Rightarrow>
               mark_read_reply (update_notifications (\<lambda>i n. ntf_recipient n = recipient \<and> ntf_read_at n = None) read w)
           | (None, Some ids) \<Rightarrow>
               mark_read_reply (update_notifications (\<lambda>i n. i \<in> set ids \<and> ntf_read_at n = None) read w)
           | (None, None) \<Rightarrow> (w, Fail 400 ''Either provide ids array or recipient with markAllRead=true'')))"

definition put_notifications :: "notification_body option \<Rightarrow> env \<Rightarrow> request \<Rightarrow> world \<Rightarrow> world \<times> json response" where
  "put_notifications body e r = with_role Operator e r (\<lambda>user. with_limit MutationLimiter e r (mark_read_with body))"

definition deleted_reply :: "world \<times> nat \<Rightarrow> world \<times> json response" where
  "deleted_reply x = (fst x, Reply 200 (JObj [(''success'', JBool True), (''deleted'', JInt (int (snd x)))]))"

definition delete_notifications_with :: "notification_body option \<Rightarrow> world \<Rightarrow> world \<times> json response" where
  "delete_notifications_with body w =
     (case body of None \<Rightarrow> (w, Fail 500 ''Failed to delete notifications'')
      | Some b \<Rightarrow>
     (case nb_ids b of
        Some ids \<Rightarrow> deleted_reply (remove_notifications (\<lambda>i n. i \<in> set ids) w)
      | None \<Rightarrow>
     (case (str_or_null (nb_recipient b), nb_older_than b) of
        (Some recipient, Some t) \<Rightarrow>
          if t = 0 then (w, Fail 400 ''Either provide ids array or recipient with olderThan timestamp'')
          else deleted_reply (remove_notifications (\<lambda>i n. ntf_recipient n = recipient \<and> ntf_created_at n < t) w)
      | _ \<Rightarrow> (w, Fail 400 ''Either provide ids array or recipient with olderThan timestamp''))))"

definition delete_notifications :: "notification_body option \<Rightarrow> env \<Rightarrow> request \<Rightarrow> world \<Rightarrow> world \<times> json response" where
  "delete_notifications body e r =
     with_role Admin e r (\<lambda>user. with_limit MutationLimiter e r (delete_notifications_with body))"

text \<open>The schema admits only the action \<open>mark-delivered\<close>; the body is the name of the agent.\<close>

definition mark_delivered_with :: "(int list \<Rightarrow> int list) \<Rightarrow> string \<Rightarrow> world \<Rightarrow> world \<times> json response" where
  "mark_delivered_with scan agent_ref w =
     (let now = now_s w;
          x = update_notifications (\<lambda>i n. ntf_recipient n = agent_ref \<and> ntf_delivered_at n = None)
                (\<lambda>n. n\<lparr>ntf_delivered_at := Some now\<rparr>) w;
          found = order_desc scan (\<lambda>(i, n). ntf_created_at n)
                (tbl_select (\<lambda>n. ntf_recipient n = agent_ref \<and> ntf_delivered_at n = Some now) (notifications (dbase (fst x))))
      in (fst x, Reply 200 (JObj [(''success'', JBool True), (''delivered'', JInt (int (snd x))),
            (''notifications'', JArr (map (\<lambda>(i, n). JObj (notification_json i n)) found))])))"

definition post_notifications ::
  "(int list \<Rightarrow> int list) \<Rightarrow> string validated \<Rightarrow> env \<Rightarrow> request \<Rightarrow> world \<Rightarrow> world \<times> json response" where
  "post_notifications scan body e r = with_role Operator e r (\<lambda>user.
     with_limit MutationLimiter e r (with_body body (mark_delivered_with scan)))"

section \<open>Delivery\<close>

definition bell :: string where
  "bell = [CHR 0xF0, CHR 0x9F, CHR 0x94, CHR 0x94]"

definition memo :: string where
  "memo = [CHR 0xF0, CHR 0x9F, CHR 0x93, CHR 0x9D]"

definition clipboard :: string where
  "clipboard = [CHR 0xF0, CHR 0x9F, CHR 0x93, CHR 0x8B]"

definition alarm_clock :: string where
  "alarm_clock = [CHR 0xE2, CHR 0x8F, CHR 0xB0]"

definition link_sign :: string where
  "link_sign = [CHR 0xF0, CHR 0x9F, CHR 0x94, CHR 0x97]"

definition type_line :: "string \<Rightarrow> string" where
  "type_line ty =
     (if ty = ''mention'' then memo @ '' You were mentioned in a comment'' @ [CHR 0x0A]
      else if ty = ''assignment'' then clipboard @ '' You have been assigned a new task'' @ [CHR 0x0A]
      else if ty = ''due_date'' then alarm_clock @ '' Task deadline approaching'' @ [CHR 0x0A]
      else [])"

definition source_line :: "notification \<Rightarrow> string" where
  "source_line n =
     (case (str_or_null (ntf_source_type n), ntf_source_id n) of
        (Some ty, Some i) \<Rightarrow>
          if i = 0 then [] else link_sign @ '' Related '' @ ty @ '' ID: '' @ show_int i @ [CHR 0x0A]
      | _ \<Rightarrow> [])"

definition format_notification_message :: "(int \<Rightarrow> string) \<Rightarrow> notification \<Rightarrow> string" where
  "format_notification_message locale_time n =
     bell @ '' **'' @ ntf_title n @ ''**'' @ [CHR 0x0A, CHR 0x0A] @ ntf_message n @ [CHR 0x0A, CHR 0x0A] @
     type_line (ntf_type n) @ source_line n @ alarm_clock @ '' '' @ locale_time (ntf_created_at n * 1000)"

text \<open>What a command answers: the message of its failure, or its standard output and error.\<close>

type_synonym command_outcome = "string + (string \<times> string)"

definition delivery_args :: "(int \<Rightarrow> string) \<Rightarrow> string \<Rightarrow> notification \<Rightarrow> string list" where
  "delivery_args locale_time key n =
     [''gateway'', ''sessions_send'', ''--session'', key, ''--message'', format_notification_message locale_time n]"

text \<open>The message of the error that counts, \<open>None\<close> when the command has succeeded.\<close>

definition command_error :: "command_outcome \<Rightarrow> string option" where
  "command_error x =
     (case x of Inl msg \<Rightarrow> Some (''Command failed: '' @ msg)
      | Inr (out, err) \<Rightarrow>
          if js_includes ''error'' err then Some (''Command failed: OpenClaw error: '' @ err) else None)"

record deliver_body =
  dl_agent_filter :: "string option"
  dl_limit :: int
  dl_dry_run :: bool

text \<open>The undelivered notifications with the session keys of their agents.\<close>

definition delivery_queue ::
  "(int list \<Rightarrow> int list) \<Rightarrow> deliver_body \<Rightarrow> db \<Rightarrow> (int \<times> notification \<times> string option) list" where
  "delivery_queue scan b d = map
     (\<lambda>(i, n). (i, n, Option.bind (tbl_find (\<lambda>a. agent_name a = ntf_recipient n) (agents d)) (\<lambda>(j, a). agent_session_key a)))
     (page_rows (dl_limit b) 0 (order_asc scan (\<lambda>(i, n). ntf_created_at n)
       (tbl_select (\<lambda>n. ntf_delivered_at n = None \<and> param_ok (dl_agent_filter b) (Some (ntf_recipient n))) (notifications d))))"

text \<open>How far a request has come: its results and its errors, in order.\<close>

record delivery_run =
  run_results :: "json list"
  run_errors :: "json list"

definition delivery_failed :: "int \<Rightarrow> notification \<Rightarrow> string \<Rightarrow> delivery_run \<Rightarrow> delivery_run" where
  "delivery_failed i n msg s = s\<lparr>run_errors := run_errors s @ [JObj [(''notification_id'', JInt i),
     (''recipient'', JStr (ntf_recipient n)), (''error'', JStr msg)]]\<rparr>"

definition mark_delivered :: "int \<Rightarrow> world \<Rightarrow> world" where
  "mark_delivered i w =
     set_notification_rows (tbl_update i (\<lambda>n. n\<lparr>ntf_delivered_at := Some (now_s w)\<rparr>) (notifications (dbase w))) w"

definition delivery_done :: "int \<Rightarrow> notification \<Rightarrow> string \<Rightarrow> string \<Rightarrow> delivery_run \<Rightarrow> world \<Rightarrow> world \<times> delivery_run" where
  "delivery_done i n key out s w =
     (log_activity ''notification_delivered'' ''notification'' i ''system''
        (''Notification delivered to '' @ ntf_recipient n)
        (Some (JObj [(''notification_type'', JStr (ntf_type n)), (''session_key'', JStr key), (''title'', JStr (ntf_title n))]))
        (mark_delivered i w),
      s\<lparr>run_results := run_results s @ [JObj [(''notification_id'', JInt i), (''recipient'', JStr (ntf_recipient n)),
         (''session_key'', JStr key), (''delivered_at'', JInt (now_s w)), (''status'', JStr ''delivered''),
         (''stdout'', JStr (take 200 out))]]\<rparr>)"

text \<open>One notification, from the command's answer at time \<open>t\<close> on.\<close>

definition delivery_answer ::
  "int \<Rightarrow> notification \<Rightarrow> string \<Rightarrow> int \<times> command_outcome \<Rightarrow> delivery_run \<Rightarrow> world \<Rightarrow> world \<times> delivery_run" where
  "delivery_answer i n key answer s w =
     (case answer of (t, x) \<Rightarrow>
      (case command_error x of
         Some msg \<Rightarrow> (w\<lparr>clock := t\<rparr>, delivery_failed i n msg s)
       | None \<Rightarrow> delivery_done i n key (case x of Inl _ \<Rightarrow> [] | Inr (out, err) \<Rightarrow> out) s (w\<lparr>clock := t\<rparr>)))"

definition deliver_one ::
  "(int \<Rightarrow> string) \<Rightarrow> (int \<Rightarrow> string list \<Rightarrow> int \<times> command_outcome) \<Rightarrow> bool \<Rightarrow> int \<times> notification \<times> string option \<Rightarrow>
   world \<times> delivery_run \<Rightarrow> world \<times> delivery_run" where
  "deliver_one locale_time openclaw dry item st =
     (case item of (i, n, k) \<Rightarrow> case st of (w, s) \<Rightarrow>
      (case str_or_null k of
         None \<Rightarrow> (w, delivery_failed i n ''Agent has no session key configured'' s)
       | Some key \<Rightarrow>
           if dry then (w, s\<lparr>run_results := run_results s @ [JObj [(''notification_id'', JInt i),
             (''recipient'', JStr (ntf_recipient n)), (''session_key'', JStr key), (''status'', JStr ''dry_run''),
             (''message'', JStr (format_notification_message locale_time n))]]\<rparr>)
           else delivery_answer i n key (openclaw i (delivery_args locale_time key n)) s w))"

definition delivery_summary :: "deliver_body \<Rightarrow> nat \<Rightarrow> world \<times> delivery_run \<Rightarrow> world \<times> json response" where
  "delivery_summary b total_items st =
     (case st of (w, s) \<Rightarrow>
      let processed = JInt (int total_items); ok = JInt (int (length (run_results s)));
          failed = JInt (int (length (run_errors s))); dry = JBool (dl_dry_run b)
      in (log_activity ''notification_delivery_batch'' ''system'' 0 ''notification_daemon''
            (''Processed '' @ show_nat total_items @ '' notifications: '' @ show_nat (length (run_results s)) @ '' delivered, '' @
             show_nat (length (run_errors s)) @ '' failed'')
            (Some (JObj [(''total_processed'', processed), (''delivered'', ok), (''errors'', failed), (''dry_run'', dry),
               (''agent_filter'', JOptStr (str_or_null (dl_agent_filter b)))])) w,
          Reply 200 (JObj [(''status'', JStr ''success''),
            (''message'', JStr (''Processed '' @ show_nat total_items @ '' notifications'')),
            (''total_processed'', processed), (''delivered'', ok), (''errors'', failed), (''dry_run'', dry),
            (''delivery_results'', JArr (run_results s)), (''error_details'', JArr (run_errors s))])))"

definition deliver_with ::
  "(int list \<Rightarrow> int list) \<Rightarrow> (int \<Rightarrow> string) \<Rightarrow> (int \<Rightarrow> string list \<Rightarrow> int \<times> command_outcome) \<Rightarrow> deliver_body option \<Rightarrow>
   world \<Rightarrow> world \<times> json response" where
  "deliver_with scan locale_time openclaw body w =
     (case body of None \<Rightarrow> (w, Fail 500 ''Failed to deliver notifications'')
      | Some b \<Rightarrow>
          (let queue = delivery_queue scan b (dbase w) in
           if queue = [] then (w, Reply 200 (JObj [(''status'', JStr ''success''),
             (''message'', JStr ''No undelivered notifications found''), (''processed'', JInt 0), (''delivered'', JInt 0),
             (''errors'', JArr [])]))
           else delivery_summary b (length queue)
             (fold (deliver_one locale_time openclaw (dl_dry_run b)) queue (w, \<lparr>run_results = [], run_errors = []\<rparr>))))"

definition post_deliver ::
  "(int list \<Rightarrow> int list) \<Rightarrow> (int \<Rightarrow> string) \<Rightarrow> (int \<Rightarrow> string list \<Rightarrow> int \<times> command_outcome) \<Rightarrow> deliver_body option \<Rightarrow>
   env \<Rightarrow> request \<Rightarrow> world \<Rightarrow> world \<times> json response" where
  "post_deliver scan locale_time openclaw body e r =
     with_role Operator e r (\<lambda>user. deliver_with scan locale_time openclaw body)"

section \<open>Delivery statistics\<close>

definition pending_agents :: "(int list \<Rightarrow> int list) \<Rightarrow> db \<Rightarrow> json list" where
  "pending_agents scan d =
     (let waiting = tbl_select (\<lambda>n. ntf_delivered_at n = None) (notifications d);
          count = (\<lambda>s. length (filter (\<lambda>(i, n). ntf_recipient n = s) waiting))
      in map (\<lambda>s. JObj [(''recipient'', JStr s),
             (''session_key'', JOptStr (Option.bind (tbl_find (\<lambda>a. agent_name a = s) (agents d)) (\<lambda>(j, a). agent_session_key a))),
             (''pending_count'', JInt (int (count s)))])
           (sort_key (\<lambda>s. - int (count s)) (remdups (map (\<lambda>(i, n). ntf_recipient n) (scan_rows scan waiting)))))"

definition recent_deliveries :: "(int list \<Rightarrow> int list) \<Rightarrow> string option \<Rightarrow> db \<Rightarrow> json list" where
  "recent_deliveries scan agent_ref d = map
     (\<lambda>(i, n). JObj [(''recipient'', JStr (ntf_recipient n)), (''type'', JStr (ntf_type n)), (''title'', JStr (ntf_title n)),
        (''delivered_at'', JOptInt (ntf_delivered_at n)), (''created_at'', JInt (ntf_created_at n))])
     (take 10 (order_desc scan (\<lambda>(i, n). case ntf_delivered_at n of None \<Rightarrow> 0 | Some t \<Rightarrow> t)
        (tbl_select (\<lambda>n. ntf_delivered_at n \<noteq> None \<and> param_ok agent_ref (Some (ntf_recipient n))) (notifications d))))"

definition get_deliver ::
  "(int list \<Rightarrow> int list) \<Rightarrow> (string \<Rightarrow> string option) \<Rightarrow> env \<Rightarrow> request \<Rightarrow> world \<Rightarrow> world \<times> json response" where
  "get_deliver scan query e r = with_role Viewer e r (\<lambda>user w.
     (let d = dbase w; agent_ref = query ''agent'';
          count = (\<lambda>P. tbl_count (\<lambda>n. param_ok agent_ref (Some (ntf_recipient n)) \<and> P (ntf_delivered_at n)) (notifications d));
          every = count (\<lambda>_. True); sent = count (\<lambda>t. t \<noteq> None)
      in (w, Reply 200 (JObj
           [(''statistics'', JObj [(''total'', JInt (int every)), (''delivered'', JInt (int sent)),
               (''undelivered'', JInt (int (count (\<lambda>t. t = None)))),
               (''delivery_rate'', JInt (if every > 0 then js_round (to_double (to_double (of_nat sent / of_nat every) * 100)) else 0))]),
            (''agents_with_pending'', JArr (pending_agents scan d)),
            (''recent_deliveries'', JArr (recent_deliveries scan agent_ref d)),
            (''agent_filter'', JOptStr agent_ref)]))))"

end
