(* ===== verification/Notice_Delivery.thy ===== *)
theory Notice_Delivery
  imports Notifications Agent_Work Task_Board
begin

text \<open>
  Properties of the notifications: what a delivery run does to the rows and what it reports,
  what marking as read does, and that a mention stays in the heartbeats of the agent until it
  is read or deleted.
\<close>

section \<open>Rows under the statements\<close>

lemma set_notification_rows_frame [simp]:
  "notifications (dbase (set_notification_rows t w)) = t"
  "agents (dbase (set_notification_rows t w)) = agents (dbase w)"
  "tasks (dbase (set_notification_rows t w)) = tasks (dbase w)"
  "now_s (set_notification_rows t w) = now_s w"
  "clock (set_notification_rows t w) = clock w"
  by (simp_all add: set_notification_rows_def now_s_def)

lemma get_update_notifications:
  "tbl_get (notifications (dbase (fst (update_notifications P f w)))) i =
     map_option (\<lambda>n. if P i n then f n else n) (tbl_get (notifications (dbase w)) i)"
  using map_of_map_value [of "\<lambda>i n. if P i n then f n else n" "rows (notifications (dbase w))" i]
  by (simp add: update_notifications_def Let_def tbl_get_def)

lemma rows_update_notifications:
  "rows (notifications (dbase (fst (update_notifications P f w)))) =
     map (\<lambda>(i, n). (i, if P i n then f n else n)) (rows (notifications (dbase w)))"
  by (simp add: update_notifications_def Let_def)

lemma tbl_ok_update_notifications [simp]:
  "tbl_ok (notifications (dbase (fst (update_notifications P f w)))) = tbl_ok (notifications (dbase w))"
  by (simp add: tbl_ok_def tbl_ids_def update_notifications_def Let_def case_prod_beta comp_def)

section \<open>A delivery run\<close>

text \<open>What becomes of a queued item: delivered at a time, or not.\<close>

definition delivered_at ::
  "(int \<Rightarrow> string) \<Rightarrow> (int \<Rightarrow> string list \<Rightarrow> int \<times> command_outcome) \<Rightarrow> bool \<Rightarrow> int \<times> notification \<times> string option \<Rightarrow> int option" where
  "delivered_at locale_time openclaw dry item =
     (case item of (i, n, k) \<Rightarrow>
      (case str_or_null k of None \<Rightarrow> None
       | Some key \<Rightarrow>
           (case openclaw i (delivery_args locale_time key n) of (t, x) \<Rightarrow>
              if dry \<or> command_error x \<noteq> None then None else Some (t div 1000))))"

lemma mark_delivered_frame [simp]:
  "notifications (dbase (mark_delivered i w)) = tbl_update i (\<lambda>n. n\<lparr>ntf_delivered_at := Some (now_s w)\<rparr>) (notifications (dbase w))"
  by (simp add: mark_delivered_def)

lemma deliver_one_cases:
  obtains (skipped) "delivered_at locale_time openclaw dry (i, n, k) = None"
      "dbase (fst (deliver_one locale_time openclaw dry (i, n, k) (w, s))) = dbase w"
      "length (run_results (snd (deliver_one locale_time openclaw dry (i, n, k) (w, s)))) = length (run_results s)"
      "length (run_errors (snd (deliver_one locale_time openclaw dry (i, n, k) (w, s)))) = Suc (length (run_errors s))"
  | (shown) "dry" "delivered_at locale_time openclaw dry (i, n, k) = None"
      "dbase (fst (deliver_one locale_time openclaw dry (i, n, k) (w, s))) = dbase w"
      "length (run_results (snd (deliver_one locale_time openclaw dry (i, n, k) (w, s)))) = Suc (length (run_results s))"
      "run_errors (snd (deliver_one locale_time openclaw dry (i, n, k) (w, s))) = run_errors s"
  | (sent) t where "delivered_at locale_time openclaw dry (i, n, k) = Some t"
      "notifications (dbase (fst (deliver_one locale_time openclaw dry (i, n, k) (w, s)))) =
         tbl_update i (\<lambda>n. n\<lparr>ntf_delivered_at := Some t\<rparr>) (notifications (dbase w))"
      "length (run_results (snd (deliver_one locale_time openclaw dry (i, n, k) (w, s)))) = Suc (length (run_results s))"
      "run_errors (snd (deliver_one locale_time openclaw dry (i, n, k) (w, s))) = run_errors s"
proof (cases "str_or_null k")
  case None
  then show ?thesis by (intro skipped) (simp_all add: deliver_one_def delivered_at_def delivery_failed_def)
next
  case (Some key)
  then have key: "k = Some key" "key \<noteq> []" by simp_all
  obtain t x where c: "openclaw i (delivery_args locale_time key n) = (t, x)" by fastforce
  show ?thesis
  proof (cases dry)
    case True
    then show ?thesis by (intro shown) (simp_all add: deliver_one_def delivered_at_def str_or_null_def key c)
  next
    case False
    then show ?thesis
    proof (cases "command_error x")
      case None
      then show ?thesis using False
        by (intro sent [of "t div 1000"])
          (simp_all add: str_or_null_def key deliver_one_def delivered_at_def delivery_answer_def delivery_done_def c now_s_def)
    next
      case (Some msg)
      then show ?thesis using False
        by (intro skipped) (simp_all add: str_or_null_def key deliver_one_def delivered_at_def delivery_answer_def delivery_failed_def c)
    qed
  qed
qed

lemma deliver_one_rows:
  "notifications (dbase (fst (deliver_one locale_time openclaw dry (i, x) st))) =
     (case delivered_at locale_time openclaw dry (i, x) of None \<Rightarrow> notifications (dbase (fst st))
      | Some t \<Rightarrow> tbl_update i (\<lambda>n. n\<lparr>ntf_delivered_at := Some t\<rparr>) (notifications (dbase (fst st))))"
  by (cases x; cases st; rule deliver_one_cases [of locale_time openclaw dry i "fst x" "snd x" "fst st" "snd st"]) simp_all

lemma deliver_one_counts:
  "length (run_results (snd (deliver_one locale_time openclaw dry item st))) +
   length (run_errors (snd (deliver_one locale_time openclaw dry item st))) =
     Suc (length (run_results (snd st)) + length (run_errors (snd st)))"
  by (cases item; cases st;
      rule deliver_one_cases [of locale_time openclaw dry "fst item" "fst (snd item)" "snd (snd item)" "fst st" "snd st"]) simp_all

lemma deliver_one_results:
  "length (run_results (snd (deliver_one locale_time openclaw False item st))) =
     length (run_results (snd st)) + (if delivered_at locale_time openclaw False item = None then 0 else 1)"
  by (cases item; cases st;
      rule deliver_one_cases [of locale_time openclaw False "fst item" "fst (snd item)" "snd (snd item)" "fst st" "snd st"]) simp_all

lemma deliver_fold:
  assumes "distinct (map fst items)"
  shows "tbl_get (notifications (dbase (fst (fold (deliver_one locale_time openclaw dry) items st)))) i =
     (case map_of items i of None \<Rightarrow> tbl_get (notifications (dbase (fst st))) i
      | Some x \<Rightarrow> (case delivered_at locale_time openclaw dry (i, x) of None \<Rightarrow> tbl_get (notifications (dbase (fst st))) i
          | Some t \<Rightarrow> map_option (\<lambda>n. n\<lparr>ntf_delivered_at := Some t\<rparr>) (tbl_get (notifications (dbase (fst st))) i)))"
  using assms
proof (induction items arbitrary: st)
  case (Cons y ys)
  obtain j x where y: "y = (j, x)" by (cases y)
  show ?case
  proof (cases "i = j")
    case True
    then have "map_of ys i = None" using Cons.prems by (auto simp: y map_of_eq_None_iff)
    then show ?thesis
      using Cons by (simp add: y True deliver_one_rows tbl_get_update split: option.split)
  next
    case False
    then show ?thesis
      using Cons by (simp add: y deliver_one_rows tbl_get_update split: option.split)
  qed
qed simp

lemma deliver_fold_ok:
  "tbl_ok (notifications (dbase (fst st))) \<Longrightarrow>
   tbl_ok (notifications (dbase (fst (fold (deliver_one locale_time openclaw dry) items st))))"
proof (induction items arbitrary: st)
  case (Cons y ys)
  then show ?case by (cases y) (simp add: deliver_one_rows split: option.split)
qed simp

lemma deliver_fold_counts:
  "length (run_results (snd (fold (deliver_one locale_time openclaw dry) items st))) +
   length (run_errors (snd (fold (deliver_one locale_time openclaw dry) items st))) =
     length items + (length (run_results (snd st)) + length (run_errors (snd st)))"
  by (induction items arbitrary: st) (simp_all add: deliver_one_counts)

lemma deliver_fold_results:
  "length (run_results (snd (fold (deliver_one locale_time openclaw False) items st))) =
     length (run_results (snd st)) + length (filter (\<lambda>x. delivered_at locale_time openclaw False x \<noteq> None) items)"
  by (induction items arbitrary: st) (simp_all add: deliver_one_results)

text \<open>The queue: undelivered rows, each once.\<close>

lemma page_rows_sub: "set (page_rows l k xs) \<subseteq> set xs" "distinct (map fst xs) \<Longrightarrow> distinct (map fst (page_rows l k xs))"
proof -
  show "set (page_rows l k xs) \<subseteq> set xs"
    by (auto simp: page_rows_def Let_def dest: in_set_takeD in_set_dropD)
  show "distinct (map fst (page_rows l k xs))" if "distinct (map fst xs)"
    using that by (simp add: page_rows_def Let_def take_map [symmetric] drop_map [symmetric])
qed

lemma distinct_order_asc:
  assumes "scan_ok scan" "distinct (map fst xs)"
  shows "distinct (map fst (order_asc scan key xs))"
proof -
  have "mset (map fst (order_asc scan key xs)) = mset (map fst xs)"
    using mset_scan_rows [OF assms] by (simp add: order_asc_def)
  then show ?thesis using assms(2) by (metis mset_eq_imp_distinct_iff)
qed

lemma delivery_queue_item:
  assumes "tbl_ok (notifications d)" "scan_ok scan" "(i, n, k) \<in> set (delivery_queue scan b d)"
  shows "tbl_get (notifications d) i = Some n" "ntf_delivered_at n = None"
    "k = Option.bind (tbl_find (\<lambda>a. agent_name a = ntf_recipient n) (agents d)) (\<lambda>(j, a). agent_session_key a)"
    "param_ok (dl_agent_filter b) (Some (ntf_recipient n))"
proof -
  let ?P = "\<lambda>n. ntf_delivered_at n = None \<and> param_ok (dl_agent_filter b) (Some (ntf_recipient n))"
  have mem: "(i, n) \<in> set (order_asc scan (\<lambda>(i, n). ntf_created_at n) (tbl_select ?P (notifications d)))"
    using assms(3) page_rows_sub(1) by (auto simp: delivery_queue_def)
  then have "(i, n) \<in> set (tbl_select ?P (notifications d))"
    using set_order_asc [OF assms(2) distinct_select [OF assms(1)]] by blast
  then show "tbl_get (notifications d) i = Some n" "ntf_delivered_at n = None" "param_ok (dl_agent_filter b) (Some (ntf_recipient n))"
    using assms(1) by (simp_all add: tbl_select_def tbl_get_iff)
  show "k = Option.bind (tbl_find (\<lambda>a. agent_name a = ntf_recipient n) (agents d)) (\<lambda>(j, a). agent_session_key a)"
    using assms(3) by (auto simp: delivery_queue_def)
qed

lemma distinct_delivery_queue:
  assumes "tbl_ok (notifications d)" "scan_ok scan"
  shows "distinct (map fst (delivery_queue scan b d))"
  using page_rows_sub(2) [OF distinct_order_asc [OF assms(2) distinct_select [OF assms(1)]]]
  by (simp add: delivery_queue_def comp_def case_prod_beta)

lemma notifications_summary [simp]:
  "notifications (dbase (fst (delivery_summary b k st))) = notifications (dbase (fst st))"
  by (cases st) (simp add: delivery_summary_def Let_def)

text \<open>
  Claim C22. A delivery run does what it reports. Each notification of its queue whose agent has
  a session key and whose command succeeds is marked as delivered at the time the command ended;
  every other notification is as before, all of them in a dry run. The reply counts every item of
  the queue once, as delivered or as an error, and (unless the run is dry) the delivered ones are
  those that were marked; a run of the same kind that follows does not send them again.
\<close>

theorem delivery_run_exact:
  fixes b :: deliver_body and w :: world
  assumes ok: "tbl_ok (notifications (dbase w))" "scan_ok scan"
    and run: "deliver_with scan locale_time openclaw (Some b) w = (w', Reply 200 j)"
  defines "queue \<equiv> delivery_queue scan b (dbase w)"
    and "sent_at \<equiv> delivered_at locale_time openclaw (dl_dry_run b)"
  shows "(\<forall>i. tbl_get (notifications (dbase w')) i =
       (case map_of queue i of None \<Rightarrow> tbl_get (notifications (dbase w)) i
        | Some (n, k) \<Rightarrow> Some (case sent_at (i, n, k) of None \<Rightarrow> n | Some t \<Rightarrow> n\<lparr>ntf_delivered_at := Some t\<rparr>))) \<and>
     (queue \<noteq> [] \<longrightarrow> (\<exists>sent failed. map_of (members j) ''total_processed'' = Some (JInt (int (length queue))) \<and>
       map_of (members j) ''delivered'' = Some (JInt (int sent)) \<and> map_of (members j) ''errors'' = Some (JInt (int failed)) \<and>
       sent + failed = length queue \<and> (\<not> dl_dry_run b \<longrightarrow> sent = length (filter (\<lambda>x. sent_at x \<noteq> None) queue)))) \<and>
     (\<forall>x \<in> set queue. sent_at x \<noteq> None \<longrightarrow> fst x \<notin> fst ` set (delivery_queue scan b (dbase w')))"
proof (intro conjI allI impI ballI)
  let ?st = "fold (deliver_one locale_time openclaw (dl_dry_run b)) queue (w, \<lparr>run_results = [], run_errors = []\<rparr>)"
  have w': "notifications (dbase w') = notifications (dbase (fst ?st))"
  proof (cases "queue = []")
    case False
    then have "fst (delivery_summary b (length queue) ?st) = w'"
      using run by (simp add: deliver_with_def Let_def queue_def)
    then show ?thesis by (metis notifications_summary)
  qed (use run in \<open>auto simp: deliver_with_def Let_def queue_def [symmetric]\<close>)
  show rows: "tbl_get (notifications (dbase w')) i =
       (case map_of queue i of None \<Rightarrow> tbl_get (notifications (dbase w)) i
        | Some (n, k) \<Rightarrow> Some (case sent_at (i, n, k) of None \<Rightarrow> n | Some t \<Rightarrow> n\<lparr>ntf_delivered_at := Some t\<rparr>))" for i
    using delivery_queue_item(1) [OF ok] distinct_delivery_queue [OF ok, of b]
    by (auto simp: w' deliver_fold queue_def sent_at_def split: option.split dest: map_of_SomeD)
  show "\<exists>sent failed. map_of (members j) ''total_processed'' = Some (JInt (int (length queue))) \<and>
       map_of (members j) ''delivered'' = Some (JInt (int sent)) \<and> map_of (members j) ''errors'' = Some (JInt (int failed)) \<and>
       sent + failed = length queue \<and> (\<not> dl_dry_run b \<longrightarrow> sent = length (filter (\<lambda>x. sent_at x \<noteq> None) queue))" if "queue \<noteq> []"
  proof -
    have "delivery_summary b (length queue) ?st = (w', Reply 200 j)"
      using run that by (simp add: deliver_with_def Let_def queue_def)
    then have "map_of (members j) ''total_processed'' = Some (JInt (int (length queue)))"
      "map_of (members j) ''delivered'' = Some (JInt (int (length (run_results (snd ?st)))))"
      "map_of (members j) ''errors'' = Some (JInt (int (length (run_errors (snd ?st)))))"
      by (auto simp: delivery_summary_def case_prod_beta Let_def)
    then show ?thesis
      using deliver_fold_counts [of locale_time openclaw "dl_dry_run b" queue] deliver_fold_results [of locale_time openclaw queue]
      by (auto simp: sent_at_def)
  qed
  fix x
  assume x: "x \<in> set queue" "sent_at x \<noteq> None"
  obtain i n k where xi: "x = (i, n, k)" by (cases x)
  have "map_of queue i = Some (n, k)"
    using x(1) distinct_delivery_queue [OF ok, of b] by (simp add: xi queue_def)
  then obtain m where "tbl_get (notifications (dbase w')) i = Some m" "ntf_delivered_at m \<noteq> None"
    using rows [of i] x(2) by (auto simp: xi split: option.splits)
  moreover have "tbl_ok (notifications (dbase w'))" unfolding w' by (rule deliver_fold_ok) (use ok in simp)
  ultimately show "fst x \<notin> fst ` set (delivery_queue scan b (dbase w'))"
    using delivery_queue_item(1,2) [OF _ ok(2)] by (fastforce simp: xi)
qed

text \<open>Two agents, one of them with a session key, and a notification for each.\<close>

definition sample_agent :: "string \<Rightarrow> string option \<Rightarrow> agent" where
  "sample_agent name key = \<lparr>agent_name = name, agent_role = ''dev'', agent_session_key = key, agent_soul = None,
     agent_status = ''idle'', agent_last_seen = None, agent_last_activity = None, agent_created_at = 1, agent_updated_at = 1,
     agent_config = None, agent_memory = []\<rparr>"

definition sample_office :: world where
  "sample_office = create_notification ''bo'' ''mention'' ''T'' ''M'' (Some ''comment'') (Some 4)
     (create_notification ''cy'' ''assignment'' ''T'' ''M'' None None
       ((world_at 5000)\<lparr>dbase := db_empty\<lparr>agents :=
          tbl_insert (sample_agent ''cy'' None) (tbl_insert (sample_agent ''bo'' (Some ''s1'')) tbl_empty)\<rparr>\<rparr>))"

definition deliver_all :: deliver_body where
  "deliver_all = \<lparr>dl_agent_filter = None, dl_limit = 50, dl_dry_run = False\<rparr>"

theorem delivery_run_exact_witness:
  "\<exists>w' j. deliver_with (\<lambda>xs. xs) show_int (\<lambda>i args. (9000, Inr (''ok'', []))) (Some deliver_all) sample_office = (w', Reply 200 j) \<and>
     map_option ntf_delivered_at (tbl_get (notifications (dbase w')) 1) = Some None \<and>
     map_option ntf_delivered_at (tbl_get (notifications (dbase w')) 2) = Some (Some 9) \<and>
     2 \<notin> fst ` set (delivery_queue (\<lambda>xs. xs) deliver_all (dbase w'))"
proof -
  let ?oc = "\<lambda>i args. (9000, Inr (''ok'', []))"
  obtain w' a where run: "deliver_with (\<lambda>xs. xs) show_int ?oc (Some deliver_all) sample_office = (w', a)" by fastforce
  have "resp_status (snd (deliver_with (\<lambda>xs. xs) show_int ?oc (Some deliver_all) sample_office)) = 200" by code_simp
  then obtain j where a: "a = Reply 200 j" using run by (cases a) (auto simp: deliver_with_def Let_def delivery_summary_def split: if_splits prod.splits)
  have ok: "tbl_ok (notifications (dbase sample_office))" by code_simp
  let ?n = "\<lambda>i. the (tbl_get (notifications (dbase sample_office)) i)"
  have q: "delivery_queue (\<lambda>xs. xs) deliver_all (dbase sample_office) = [(1, ?n 1, None), (2, ?n 2, Some ''s1'')]"
    and at: "map (delivered_at show_int ?oc False) (delivery_queue (\<lambda>xs. xs) deliver_all (dbase sample_office)) = [None, Some 9]"
    and fresh: "ntf_delivered_at (?n 1) = None" and d: "dl_dry_run deliver_all = False" by code_simp+
  note effect = delivery_run_exact [OF ok scan_ok_id run [unfolded a], unfolded d q]
  have exact: "\<forall>i. tbl_get (notifications (dbase w')) i =
       (case map_of [(1, ?n 1, None), (2, ?n 2, Some ''s1'')] i of None \<Rightarrow> tbl_get (notifications (dbase sample_office)) i
        | Some (n, k) \<Rightarrow> Some (case delivered_at show_int ?oc False (i, n, k) of None \<Rightarrow> n | Some t \<Rightarrow> n\<lparr>ntf_delivered_at := Some t\<rparr>))"
    "\<forall>x \<in> set [(1, ?n 1, None), (2, ?n 2, Some ''s1'')]. delivered_at show_int ?oc False x \<noteq> None \<longrightarrow>
       fst x \<notin> fst ` set (delivery_queue (\<lambda>xs. xs) deliver_all (dbase w'))"
    by (rule effect [THEN conjunct1], rule effect [THEN conjunct2, THEN conjunct2])
  show ?thesis
    using run exact(1) [THEN spec, of 1] exact(1) [THEN spec, of 2] exact(2) at fresh by (simp add: a q)
qed

text \<open>Another request may have delivered an item of the queue meanwhile; it is delivered again.\<close>

lemma stale_item_sent_again:
  assumes "tbl_get (notifications (dbase w)) i = Some m" "ntf_delivered_at m \<noteq> None"
    and "delivered_at locale_time openclaw False (i, n, k) = Some t"
  shows "map_option ntf_delivered_at
    (tbl_get (notifications (dbase (fst (deliver_one locale_time openclaw False (i, n, k) (w, s))))) i) = Some (Some t)"
  using assms by (simp add: deliver_one_rows tbl_get_update)

section \<open>Marking everything as read\<close>

lemma mark_all_read_settles:
  fixes w :: world
  assumes "nb_mark_all b" "nb_recipient b = Some s" "s \<noteq> []"
  defines "w' \<equiv> fst (mark_read_with (Some b) w)"
  shows "snd (mark_read_with (Some b) w) = Reply 200 (JObj [(''success'', JBool True),
      (''markedAsRead'', JInt (int (tbl_count (notification_matches s True None) (notifications (dbase w)))))])"
    and "tbl_count (notification_matches s True None) (notifications (dbase w')) = 0"
    and "tbl_get (notifications (dbase w)) i = Some n \<Longrightarrow> ntf_recipient n \<noteq> s \<or> ntf_read_at n \<noteq> None \<Longrightarrow>
      tbl_get (notifications (dbase w')) i = Some n"
proof -
  have m: "notification_matches s True None = (\<lambda>n. ntf_recipient n = s \<and> ntf_read_at n = None)"
    by (simp add: fun_eq_iff notification_matches_def param_ok_def)
  have r: "mark_read_with (Some b) w = mark_read_reply (update_notifications
      (\<lambda>i n. ntf_recipient n = s \<and> ntf_read_at n = None) (\<lambda>n. n\<lparr>ntf_read_at := Some (now_s w)\<rparr>) w)"
    using assms(1-3) by (simp add: mark_read_with_def str_or_null_def)
  show "snd (mark_read_with (Some b) w) = Reply 200 (JObj [(''success'', JBool True),
      (''markedAsRead'', JInt (int (tbl_count (notification_matches s True None) (notifications (dbase w)))))])"
    by (simp add: r m mark_read_reply_def update_notifications_def Let_def tbl_count_def tbl_select_def)
  show "tbl_count (notification_matches s True None) (notifications (dbase w')) = 0"
    unfolding w'_def r m mark_read_reply_def fst_conv
    by (auto simp: tbl_count_def tbl_select_def rows_update_notifications filter_empty_conv split: if_splits)
  show "tbl_get (notifications (dbase w)) i = Some n \<Longrightarrow> ntf_recipient n \<noteq> s \<or> ntf_read_at n \<noteq> None \<Longrightarrow>
      tbl_get (notifications (dbase w')) i = Some n"
    unfolding w'_def r mark_read_reply_def fst_conv by (auto simp: get_update_notifications)
qed

section \<open>Notifications that stay\<close>

text \<open>Nothing of a notification changes but the time of its delivery.\<close>

definition undated :: "notification \<Rightarrow> notification" where
  "undated n = n\<lparr>ntf_delivered_at := None\<rparr>"

lemma undated_date [simp]: "undated (n\<lparr>ntf_delivered_at := t\<rparr>) = undated n"
  by (simp add: undated_def)

lemma undated_fields:
  "undated n = undated m \<Longrightarrow> ntf_recipient n = ntf_recipient m \<and> ntf_type n = ntf_type m \<and> ntf_read_at n = ntf_read_at m"
  by (cases n; cases m) (simp add: undated_def)

definition notices_kept :: "db \<Rightarrow> db \<Rightarrow> bool" where
  "notices_kept d d' \<longleftrightarrow> tbl_ok (notifications d') \<and>
     (\<forall>i n. tbl_get (notifications d) i = Some n \<longrightarrow>
        (\<exists>m. tbl_get (notifications d') i = Some m \<and> undated m = undated n))"

lemma notices_kept_refl: "tbl_ok (notifications d) \<Longrightarrow> notices_kept d d"
  by (simp add: notices_kept_def)

lemma notices_kept_step:
  assumes "notices_kept d d'" "tbl_ok (notifications d'')"
    and "\<And>i n. tbl_get (notifications d') i = Some n \<Longrightarrow> \<exists>m. tbl_get (notifications d'') i = Some m \<and> undated m = undated n"
  shows "notices_kept d d''"
  using assms unfolding notices_kept_def by metis

lemma notices_kept_cong: "notifications d' = notifications d'' \<Longrightarrow> notices_kept d d' = notices_kept d d''"
  by (simp add: notices_kept_def)

lemma notices_kept_ok: "notices_kept d d' \<Longrightarrow> tbl_ok (notifications d')"
  by (simp add: notices_kept_def)

lemma notices_kept_create:
  assumes "notices_kept d (dbase w)"
  shows "notices_kept d (dbase (create_notification r ty ti m st si w))"
  by (rule notices_kept_step [OF assms]) (use notices_kept_ok [OF assms] in \<open>auto simp: tbl_get_insert tbl_last_id_def\<close>)

lemma notices_kept_update:
  assumes "notices_kept d (dbase w)" "\<And>n. undated (f n) = undated n"
  shows "notices_kept d (dbase (fst (update_notifications P f w)))"
  by (rule notices_kept_step [OF assms(1)]) (use notices_kept_ok [OF assms(1)] assms(2) in \<open>auto simp: get_update_notifications\<close>)

lemma notices_kept_deliver:
  assumes "notices_kept d (dbase (fst st))"
  shows "notices_kept d (dbase (fst (fold (deliver_one locale_time openclaw dry) items st)))"
  using assms
proof (induction items arbitrary: st)
  case (Cons y ys)
  obtain i x where y: "y = (i, x)" by (cases y)
  have "notices_kept d (dbase (fst (deliver_one locale_time openclaw dry y st)))"
    by (rule notices_kept_step [OF Cons.prems])
      (use notices_kept_ok [OF Cons.prems] in \<open>auto simp: y deliver_one_rows tbl_get_update split: option.split\<close>)
  then show ?case using Cons.IH by simp
qed simp

lemma deliver_kept:
  assumes "notices_kept d (dbase w)"
  shows "notices_kept d (dbase (fst (deliver_with scan locale_time openclaw body w)))"
proof (cases body)
  case (Some b)
  have "notices_kept d (dbase (fst (delivery_summary b k (fold (deliver_one locale_time openclaw (dl_dry_run b)) q (w, s)))))" for k q s
    using notices_kept_deliver [of d "(w, s)"] assms by (simp add: notices_kept_cong [OF notifications_summary])
  then show ?thesis using assms by (simp add: deliver_with_def Some Let_def)
qed (use assms in \<open>simp add: deliver_with_def\<close>)

lemma notifications_log_comment [simp]: "notifications (dbase (log_comment tid t b w)) = notifications (dbase w)"
  by (simp add: log_comment_def Let_def insert_comment_def)

lemma notices_kept_notify:
  "notices_kept d (dbase w) \<Longrightarrow> notices_kept d (dbase (fold (notify_comment author title content ms cid) ss w))"
  by (induction ss arbitrary: w) (simp_all add: notify_comment_def Let_def notices_kept_create del: create_notification_frame)

lemma record_comment_kept:
  assumes "notices_kept d (dbase w)"
  shows "notices_kept d (dbase (record_comment tid t b w))"
proof -
  have "notices_kept d (dbase (subscribe_all tid author ms a (log_comment tid t b w)))" for author ms a
    by (rule notices_kept_cong [THEN iffD2, OF _ assms]) simp
  then show ?thesis unfolding record_comment_def Let_def by (intro notices_kept_notify)
qed

lemma add_comment_kept:
  "notices_kept d (dbase w) \<Longrightarrow> notices_kept d (dbase (fst (add_comment_with id_text body w)))"
  by (simp add: add_comment_with_def with_body_def record_comment_kept split: option.split validated.split)

lemma mark_delivered_kept:
  "notices_kept d (dbase w) \<Longrightarrow> notices_kept d (dbase (fst (mark_delivered_with scan s w)))"
  by (simp add: mark_delivered_with_def Let_def notices_kept_update)

lemma update_agent_status_notifications [simp]:
  "notifications (dbase (update_agent_status name st act w)) = notifications (dbase w)"
  by (simp add: update_agent_status_def Let_def split: option.split)

lemma heartbeat_kept:
  assumes "notices_kept d (dbase w)"
  shows "notices_kept d (dbase (fst (heartbeat_with scan id_text w)))"
proof -
  have "notifications (dbase (fst (heartbeat_with scan id_text w))) = notifications (dbase w)"
    by (simp add: heartbeat_with_def Let_def split: option.split)
  then show ?thesis using assms notices_kept_cong by blast
qed

lemma message_kept:
  assumes "notices_kept d (dbase w)"
  shows "notices_kept d (dbase (fst (message_end b i res w)))"
proof (cases res)
  case (Some x)
  show ?thesis
    by (rule notices_kept_cong [THEN iffD2, OF _ notices_kept_create [OF assms, of "mb_to b" "''message''" "''Direct Message''"]])
      (simp add: message_end_def Let_def Some)
qed (use assms in \<open>simp add: message_end_def\<close>)

section \<open>A mention reaches the heartbeats\<close>

text \<open>Requests on the notifications, and those that come between them.\<close>

datatype notice_op =
    ReadNotices "notification_body option"
  | DropNotices "notification_body option"
  | MarkDelivered "string validated"
  | Deliver "deliver_body option"
  | Remark string "comment_body validated"
  | Beat string
  | BeatReport string "heartbeat_body option"
  | SentMessage message_body int command_result

fun notice_handler ::
  "(int list \<Rightarrow> int list) \<Rightarrow> (int \<Rightarrow> string) \<Rightarrow> (int \<Rightarrow> string list \<Rightarrow> int \<times> command_outcome) \<Rightarrow> env \<Rightarrow> request \<Rightarrow>
   notice_op \<Rightarrow> world \<Rightarrow> world" where
  "notice_handler scan lt oc e r (ReadNotices b) w = fst (put_notifications b e r w)"
| "notice_handler scan lt oc e r (DropNotices b) w = fst (delete_notifications b e r w)"
| "notice_handler scan lt oc e r (MarkDelivered b) w = fst (post_notifications scan b e r w)"
| "notice_handler scan lt oc e r (Deliver b) w = fst (post_deliver scan lt oc b e r w)"
| "notice_handler scan lt oc e r (Remark i b) w = fst (post_comment i b e r w)"
| "notice_handler scan lt oc e r (Beat i) w = fst (get_heartbeat scan i e r w)"
| "notice_handler scan lt oc e r (BeatReport i b) w = fst (post_heartbeat scan i b e r w)"
| "notice_handler scan lt oc e r (SentMessage b i res) w = fst (message_end b i res w)"

definition notice_step ::
  "(int list \<Rightarrow> int list) \<Rightarrow> (int \<Rightarrow> string) \<Rightarrow> (int \<Rightarrow> string list \<Rightarrow> int \<times> command_outcome) \<Rightarrow> env \<Rightarrow>
   int \<times> request \<times> notice_op \<Rightarrow> world \<Rightarrow> world" where
  "notice_step scan lt oc e x w = (case x of (t, r, op) \<Rightarrow> notice_handler scan lt oc e r op (w\<lparr>clock := t\<rparr>))"

text \<open>The request neither marks the notification \<open>i\<close> of \<open>s\<close> as read nor deletes it.\<close>

fun spares :: "int \<Rightarrow> string \<Rightarrow> notice_op \<Rightarrow> bool" where
  "spares i s (ReadNotices b) =
     (case b of None \<Rightarrow> True
      | Some b \<Rightarrow> \<not> (nb_mark_all b \<and> nb_recipient b = Some s) \<and> (case nb_ids b of None \<Rightarrow> True | Some ids \<Rightarrow> i \<notin> set ids))"
| "spares i s (DropNotices b) =
     (case b of None \<Rightarrow> True
      | Some b \<Rightarrow> (case nb_ids b of None \<Rightarrow> nb_recipient b \<noteq> Some s | Some ids \<Rightarrow> i \<notin> set ids))"
| "spares i s _ = True"

definition unread_mention :: "int \<Rightarrow> string \<Rightarrow> db \<Rightarrow> bool" where
  "unread_mention i s d \<longleftrightarrow> tbl_ok (notifications d) \<and>
     (case tbl_get (notifications d) i of None \<Rightarrow> False
      | Some n \<Rightarrow> ntf_recipient n = s \<and> ntf_type n = ''mention'' \<and> ntf_read_at n = None)"

lemma unread_mention_kept: "unread_mention i s d \<Longrightarrow> notices_kept d d' \<Longrightarrow> unread_mention i s d'"
  unfolding unread_mention_def notices_kept_def
  by (auto split: option.splits) (metis option.sel option.distinct(1) undated_fields)+

lemma touch_record_notifications [simp]:
  "notifications (dbase (touch_connection v w)) = notifications (dbase w)"
  "notifications (dbase (fst (record_tokens id_text b w))) = notifications (dbase w)"
  by (auto simp: touch_connection_def set_connections_def record_tokens_def split: option.splits)

lemma post_heartbeat_kept:
  assumes "notices_kept d (dbase w)"
  shows "notices_kept d (dbase (fst (post_heartbeat scan id_text body e r w)))"
proof -
  have "notices_kept d (dbase (fst (get_heartbeat scan id_text e r (fst (record_tokens id_text b (touch_connection v w))))))" for b v
    unfolding get_heartbeat_def
    by (intro with_role_keeps [of "notices_kept d"] heartbeat_kept; rule notices_kept_cong [THEN iffD2, OF _ assms]; simp)
  then show ?thesis
    unfolding post_heartbeat_def
    by (intro with_role_keeps [of "notices_kept d"] assms) (simp add: Let_def case_prod_unfold)
qed

lemma mark_read_spares:
  assumes "unread_mention i s (dbase w)" "spares i s (ReadNotices b)"
  shows "unread_mention i s (dbase (fst (mark_read_with b w)))"
  using assms
  by (auto simp: mark_read_with_def mark_read_reply_def unread_mention_def get_update_notifications str_or_null_def Let_def
      split: option.splits if_splits)

lemma remove_notifications_get:
  assumes "tbl_ok (notifications (dbase w))"
  shows "tbl_get (notifications (dbase (fst (remove_notifications P w)))) i = Some n \<longleftrightarrow>
     tbl_get (notifications (dbase w)) i = Some n \<and> \<not> P i n"
    "tbl_ok (notifications (dbase (fst (remove_notifications P w))))"
proof -
  let ?t = "notifications (dbase w)"
  have "tbl_ok (tbl_delete_where P ?t)" using assms by simp
  then show "tbl_get (notifications (dbase (fst (remove_notifications P w)))) i = Some n \<longleftrightarrow>
     tbl_get (notifications (dbase w)) i = Some n \<and> \<not> P i n"
    using tbl_get_iff [of "tbl_delete_where P ?t" i n] tbl_get_iff [OF assms, of i n]
    by (simp add: remove_notifications_def Let_def) (simp add: tbl_delete_where_def)
  show "tbl_ok (notifications (dbase (fst (remove_notifications P w))))"
    using assms by (simp add: remove_notifications_def Let_def)
qed

lemma unread_mention_remove:
  assumes "unread_mention i s (dbase w)" "\<And>n. tbl_get (notifications (dbase w)) i = Some n \<Longrightarrow> \<not> P i n"
  shows "unread_mention i s (dbase (fst (remove_notifications P w)))"
proof -
  obtain n where n: "tbl_ok (notifications (dbase w))" "tbl_get (notifications (dbase w)) i = Some n"
      "ntf_recipient n = s" "ntf_type n = ''mention''" "ntf_read_at n = None"
    using assms(1) by (auto simp: unread_mention_def split: option.splits)
  then have "tbl_get (notifications (dbase (fst (remove_notifications P w)))) i = Some n"
    using assms(2) by (simp add: remove_notifications_get(1))
  then show ?thesis using n remove_notifications_get(2) by (simp add: unread_mention_def)
qed

lemma delete_spares:
  assumes m: "unread_mention i s (dbase w)" and "spares i s (DropNotices b)"
  shows "unread_mention i s (dbase (fst (delete_notifications_with b w)))"
proof -
  have "ntf_recipient n = s" if "tbl_get (notifications (dbase w)) i = Some n" for n
    using m that by (simp add: unread_mention_def)
  then show ?thesis
    using assms
    by (auto simp: delete_notifications_with_def deleted_reply_def intro!: unread_mention_remove split: option.splits)
qed

lemma notice_step_spares:
  assumes "unread_mention i s (dbase w)" "spares i s (snd (snd x))"
  shows "unread_mention i s (dbase (notice_step scan lt oc e x w))"
proof -
  obtain t r op where x: "x = (t, r, op)" by (cases x)
  define w0 where "w0 = w\<lparr>clock := t\<rparr>"
  have m: "unread_mention i s (dbase w0)" and sp: "spares i s op" using assms by (simp_all add: w0_def x)
  have kept: "notices_kept (dbase w0) (dbase w0)" using m by (simp add: notices_kept_refl unread_mention_def)
  note um = with_role_keeps [of "unread_mention i s", OF m] with_limit_keeps [of "unread_mention i s", OF m]
  note nk = with_role_keeps [of "notices_kept (dbase w0)", OF kept] with_limit_keeps [of "notices_kept (dbase w0)"]
    with_body_keeps [of "notices_kept (dbase w0)"]
  have "unread_mention i s (dbase (notice_handler scan lt oc e r op w0))"
  proof (cases op)
    case (ReadNotices b)
    then show ?thesis using sp by (auto simp: put_notifications_def intro!: um mark_read_spares)
  next
    case (DropNotices b)
    then show ?thesis using sp by (auto simp: delete_notifications_def intro!: um delete_spares)
  next
    case (MarkDelivered b)
    then show ?thesis
      by (auto simp: post_notifications_def intro!: unread_mention_kept [OF m] nk kept mark_delivered_kept)
  next
    case (Deliver b)
    then show ?thesis by (auto simp: post_deliver_def intro!: unread_mention_kept [OF m] nk kept deliver_kept)
  next
    case (Remark j b)
    then show ?thesis by (auto simp: post_comment_def intro!: unread_mention_kept [OF m] nk kept add_comment_kept)
  next
    case (Beat j)
    then show ?thesis by (auto simp: get_heartbeat_def intro!: unread_mention_kept [OF m] nk kept heartbeat_kept)
  next
    case (BeatReport j b)
    then show ?thesis by (auto intro!: unread_mention_kept [OF m] kept post_heartbeat_kept)
  next
    case (SentMessage b j res)
    then show ?thesis by (auto intro!: unread_mention_kept [OF m] kept message_kept)
  qed
  then show ?thesis by (simp add: notice_step_def x w0_def)
qed

lemma notice_run_spares:
  "unread_mention i s (dbase w) \<Longrightarrow> list_all (\<lambda>x. spares i s (snd (snd x))) xs \<Longrightarrow>
   unread_mention i s (dbase (fold (notice_step scan lt oc e) xs w))"
  by (induction xs arbitrary: w) (simp_all add: notice_step_spares)

lemma unread_mention_notify:
  "tbl_ok (notifications (dbase w)) \<Longrightarrow> s \<in> set ss \<Longrightarrow> s \<in> set ms \<Longrightarrow>
   \<exists>i. tbl_get (notifications (dbase w)) i = None \<and>
       unread_mention i s (dbase (fold (notify_comment author title content ms cid) ss w))"
proof (induction ss arbitrary: w)
  case (Cons x ss)
  let ?w = "notify_comment author title content ms cid x w" and ?i = "next_id (notifications (dbase w))"
  have ok: "tbl_ok (notifications (dbase ?w))" using Cons.prems(1) by (simp add: notify_comment_def Let_def)
  show ?case
  proof (cases "x = s")
    case True
    have "unread_mention ?i s (dbase ?w)"
      using Cons.prems ok
      by (simp add: True unread_mention_def notify_comment_def Let_def tbl_get_insert tbl_last_id_def notification_row_def)
    then have "unread_mention ?i s (dbase (fold (notify_comment author title content ms cid) ss ?w))"
      using notices_kept_notify [OF notices_kept_refl [OF ok]] unread_mention_kept by blast
    moreover have "tbl_get (notifications (dbase w)) ?i = None" using Cons.prems(1) by simp
    ultimately show ?thesis by auto
  next
    case False
    then obtain i where i: "tbl_get (notifications (dbase ?w)) i = None"
      "unread_mention i s (dbase (fold (notify_comment author title content ms cid) ss ?w))"
      using Cons.IH [OF ok] Cons.prems by auto
    have "tbl_get (notifications (dbase w)) i = None"
      using Cons.prems(1) i(1) by (simp add: notify_comment_def Let_def tbl_get_insert split: if_splits)
    then show ?thesis using i(2) by auto
  qed
qed simp

lemma unread_mention_listed:
  assumes "unread_mention i s (dbase w)" "scan_ok scan"
  shows "i \<in> fst ` set (get_unread_notifications scan s w)"
proof -
  obtain n where n: "tbl_ok (notifications (dbase w))" "tbl_get (notifications (dbase w)) i = Some n"
      "ntf_recipient n = s" "ntf_read_at n = None"
    using assms(1) by (auto simp: unread_mention_def split: option.splits)
  then have "(i, n) \<in> set (tbl_select (\<lambda>n. ntf_recipient n = s \<and> ntf_read_at n = None) (notifications (dbase w)))"
    by (simp add: tbl_select_def tbl_get_iff)
  then show ?thesis
    using set_order_desc [OF assms(2) distinct_select [OF n(1)]] unfolding get_unread_notifications_def by force
qed

lemma heartbeat_reports:
  assumes "i \<in> fst ` set (get_unread_notifications scan (agent_name a) w)" "find_agent id_text w = Some (k, a)"
  shows "\<exists>reply n xs. snd (heartbeat_with scan id_text w) = Reply 200 reply \<and>
     map_of (members reply) ''status'' = Some (JStr ''WORK_ITEMS_FOUND'') \<and>
     (''notifications'', n, xs) \<in> set (work_items scan (agent_name a) w) \<and> n = length (get_unread_notifications scan (agent_name a) w)"
proof -
  let ?ns = "get_unread_notifications scan (agent_name a) w"
  have ne: "?ns \<noteq> []" using assms(1) by auto
  then have item: "\<exists>xs. (''notifications'', length ?ns, xs) \<in> set (work_items scan (agent_name a) w)"
    by (auto simp: work_items_def Let_def work_item_def)
  then have "work_items scan (agent_name a) w \<noteq> []" by auto
  then have "snd (heartbeat_with scan id_text w) = Reply 200 (heartbeat_reply (agent_name a) (now_s w) (work_items scan (agent_name a) w))"
    "map_of (members (heartbeat_reply (agent_name a) (now_s w) (work_items scan (agent_name a) w))) ''status'' = Some (JStr ''WORK_ITEMS_FOUND'')"
    using assms(2) by (simp_all add: heartbeat_with_def Let_def heartbeat_reply_def)
  then show ?thesis using item by blast
qed



end
