(* ===== verification/Settings.thy ===== *)
theory Settings
  imports Scheduler Json_Text Js_Objects "HOL-Library.List_Lexorder" "HOL-Library.Char_ord" "HOL-Library.Product_Lexorder"
begin

text \<open>
  The route \<open>app/api/settings/route.ts\<close>: the settings an administrator may change, their
  defaults, and the text under which a value is stored. A request's settings are in the order
  of \<open>Object.entries\<close>, each key once. The scheduler reads the same rows.
\<close>

section \<open>Definitions and defaults\<close>

record setting_def =
  sdf_category :: string
  sdf_description :: string
  sdf_default :: string

text \<open>\<open>String(Number(process.env.KEY || dflt))\<close>.\<close>

definition config_number :: "env \<Rightarrow> string \<Rightarrow> string \<Rightarrow> string" where
  "config_number e key dflt =
     (case string_number (env_or e key dflt) of None \<Rightarrow> ''NaN'' | Some q \<Rightarrow> number_text q)"

definition retention_setting :: "string \<Rightarrow> string \<Rightarrow> setting_def" where
  "retention_setting description dflt =
     \<lparr>sdf_category = ''retention'', sdf_description = description, sdf_default = dflt\<rparr>"

definition gateway_setting :: "string \<Rightarrow> string \<Rightarrow> setting_def" where
  "gateway_setting description dflt =
     \<lparr>sdf_category = ''gateway'', sdf_description = description, sdf_default = dflt\<rparr>"

definition general_setting :: "string \<Rightarrow> string \<Rightarrow> setting_def" where
  "general_setting description dflt =
     \<lparr>sdf_category = ''general'', sdf_description = description, sdf_default = dflt\<rparr>"

definition setting_definitions :: "env \<Rightarrow> (string \<times> setting_def) list" where
  "setting_definitions e =
     [(''retention.activities_days'', retention_setting ''Days to keep activity records''
         (config_number e ''MC_RETAIN_ACTIVITIES_DAYS'' ''90'')),
      (''retention.audit_log_days'', retention_setting ''Days to keep audit log entries''
         (config_number e ''MC_RETAIN_AUDIT_DAYS'' ''365'')),
      (''retention.logs_days'', retention_setting ''Days to keep log files''
         (config_number e ''MC_RETAIN_LOGS_DAYS'' ''30'')),
      (''retention.notifications_days'', retention_setting ''Days to keep notifications''
         (config_number e ''MC_RETAIN_NOTIFICATIONS_DAYS'' ''60'')),
      (''retention.pipeline_runs_days'', retention_setting ''Days to keep pipeline run history''
         (config_number e ''MC_RETAIN_PIPELINE_RUNS_DAYS'' ''90'')),
      (''retention.token_usage_days'', retention_setting ''Days to keep token usage data''
         (config_number e ''MC_RETAIN_TOKEN_USAGE_DAYS'' ''90'')),
      (''gateway.host'', gateway_setting ''Gateway hostname'' (env_or e ''OPENCLAW_GATEWAY_HOST'' ''127.0.0.1'')),
      (''gateway.port'', gateway_setting ''Gateway port number'' (config_number e ''OPENCLAW_GATEWAY_PORT'' ''18789'')),
      (''general.site_name'', general_setting ''JAIS Command Ops display name'' ''JAIS Command Ops''),
      (''general.auto_cleanup'', general_setting ''Enable automatic data cleanup'' ''false''),
      (''general.auto_backup'', general_setting ''Enable automatic daily backups'' ''false''),
      (''general.backup_retention_count'', general_setting ''Number of backup files to keep'' ''10'')]"

text \<open>Members every object has: looking such a key up among the definitions finds something.\<close>

definition object_members :: "string list" where
  "object_members = [''constructor'', ''__defineGetter__'', ''__defineSetter__'', ''hasOwnProperty'', ''__lookupGetter__'',
     ''__lookupSetter__'', ''isPrototypeOf'', ''propertyIsEnumerable'', ''toString'', ''valueOf'', ''__proto__'', ''toLocaleString'']"

section \<open>Reading\<close>

definition setting_view ::
  "string \<Rightarrow> string \<Rightarrow> string \<Rightarrow> string \<Rightarrow> string option \<Rightarrow> int option \<Rightarrow> bool \<Rightarrow> string \<times> obj" where
  "setting_view key val description category updated_by updated_at is_default =
     (category, [(''key'', JStr key), (''value'', JStr val), (''description'', JStr description), (''category'', JStr category),
        (''updated_by'', JOptStr updated_by), (''updated_at'', JOptInt updated_at), (''is_default'', JBool is_default)])"

definition defined_setting :: "(string \<times> setting) list \<Rightarrow> string \<times> setting_def \<Rightarrow> string \<times> obj" where
  "defined_setting rs x =
     (case x of (key, df) \<Rightarrow>
      (case map_of rs key of
         None \<Rightarrow> setting_view key (sdf_default df) (sdf_description df) (sdf_category df) None None True
       | Some s \<Rightarrow> setting_view key (set_value s)
           (case set_description s of None \<Rightarrow> sdf_description df | Some t \<Rightarrow> t) (set_category s)
           (set_updated_by s) (Some (set_updated_at s)) False))"

definition custom_setting :: "string \<times> setting \<Rightarrow> string \<times> obj" where
  "custom_setting x =
     (case x of (key, s) \<Rightarrow> setting_view key (set_value s) (case set_description s of None \<Rightarrow> [] | Some t \<Rightarrow> t)
        (set_category s) (set_updated_by s) (Some (set_updated_at s)) False)"

definition list_settings :: "env \<Rightarrow> (string \<times> setting) list \<Rightarrow> (string \<times> obj) list" where
  "list_settings e stored =
     (let rs = sort_key (\<lambda>(key, s). (set_category s, key)) stored
      in map (defined_setting rs) (setting_definitions e) @
         map custom_setting (filter (\<lambda>(key, s). key \<notin> fst ` set (setting_definitions e) \<and> key \<notin> set object_members) rs))"

definition group_settings :: "(string \<times> obj) list \<Rightarrow> json" where
  "group_settings views = JObj (map (\<lambda>c. (c, JArr (map (\<lambda>(c', v). JObj v) (filter (\<lambda>(c', v). c' = c) views))))
     (js_set (map fst views)))"

definition get_settings :: "env \<Rightarrow> request \<Rightarrow> world \<Rightarrow> world \<times> json response" where
  "get_settings e r = with_role Admin e r (\<lambda>user w.
     (let views = list_settings e (settings (dbase w))
      in (w, Reply 200 (JObj [(''settings'', JArr (map (\<lambda>(c, v). JObj v) views)), (''grouped'', group_settings views)]))))"

section \<open>Writing\<close>

definition new_setting :: "env \<Rightarrow> string \<Rightarrow> string \<Rightarrow> string \<Rightarrow> int \<Rightarrow> setting" where
  "new_setting e key val user now =
     (let df = map_of (setting_definitions e) key
      in \<lparr>set_value = val, set_description = map_option sdf_description df,
          set_category = (case df of None \<Rightarrow> ''custom'' | Some d \<Rightarrow> sdf_category d),
          set_updated_by = Some user, set_updated_at = now\<rparr>)"

text \<open>\<open>INSERT ... ON CONFLICT(key) DO UPDATE\<close>.\<close>

definition upsert_setting ::
  "env \<Rightarrow> string \<Rightarrow> string \<Rightarrow> string \<Rightarrow> int \<Rightarrow> (string \<times> setting) list \<Rightarrow> (string \<times> setting) list" where
  "upsert_setting e key val user now rs =
     (if map_of rs key = None then rs @ [(key, new_setting e key val user now)]
      else map (\<lambda>(k, s). (k, if k = key then s\<lparr>set_value := val, set_updated_by := Some user, set_updated_at := now\<rparr> else s)) rs)"

fun save_settings ::
  "env \<Rightarrow> string \<Rightarrow> int \<Rightarrow> obj \<Rightarrow> (string \<times> setting) list \<Rightarrow> (string \<times> setting) list \<times> (string \<times> json) list" where
  "save_settings e user now [] rs = (rs, [])"
| "save_settings e user now ((key, v) # kvs) rs =
     (let change = (key, JObj [(''old'', JOptStr (map_option set_value (map_of rs key))), (''new'', JStr (js_string v))])
      in case save_settings e user now kvs (upsert_setting e key (js_string v) user now rs) of
           (rs', changes) \<Rightarrow> (rs', change # changes))"

definition set_settings :: "(string \<times> setting) list \<Rightarrow> world \<Rightarrow> world" where
  "set_settings rs w = w\<lparr>dbase := (dbase w)\<lparr>settings := rs\<rparr>\<rparr>"

definition caller_ip :: "request \<Rightarrow> string" where
  "caller_ip r = header_or r ''x-forwarded-for'' (header_or r ''x-real-ip'' ''unknown'')"

definition put_settings_with :: "env \<Rightarrow> request \<Rightarrow> auth_user \<Rightarrow> obj \<Rightarrow> world \<Rightarrow> world \<times> json response" where
  "put_settings_with e r user kvs w =
     (case save_settings e (au_username user) (now_s w) kvs (settings (dbase w)) of (rs, changes) \<Rightarrow>
      let keys = JArr (map (\<lambda>(k, v). JStr k) kvs)
      in (log_audit_event ''settings_update'' (au_username user) (Some (au_id user)) None None
            (Some (JObj [(''updated_keys'', keys), (''changes'', JObj changes)])) (Some (caller_ip r)) None (set_settings rs w),
          Reply 200 (JObj [(''updated'', keys), (''count'', JInt (int (length kvs)))])))"

definition put_settings :: "obj validated \<Rightarrow> env \<Rightarrow> request \<Rightarrow> world \<Rightarrow> world \<times> json response" where
  "put_settings body e r = with_role Admin e r (\<lambda>user.
     with_limit MutationLimiter e r (with_body body (put_settings_with e r user)))"

text \<open>\<open>None\<close>: the body is not JSON; \<open>Some None\<close>: it has no key.\<close>

definition reset_setting_with ::
  "env \<Rightarrow> request \<Rightarrow> auth_user \<Rightarrow> string option option \<Rightarrow> world \<Rightarrow> world \<times> json response" where
  "reset_setting_with e r user body w =
     (case body of None \<Rightarrow> (w, Fail 400 ''Request body required'')
      | Some v \<Rightarrow>
     (case str_or_null v of None \<Rightarrow> (w, Fail 400 ''key parameter required'')
      | Some key \<Rightarrow>
     (case map_of (settings (dbase w)) key of
        None \<Rightarrow> (w, Fail 404 ''Setting not found or already at default'')
      | Some s \<Rightarrow>
          (log_audit_event ''settings_reset'' (au_username user) (Some (au_id user)) None None
             (Some (JObj [(''key'', JStr key), (''old_value'', JStr (set_value s))])) (Some (caller_ip r)) None
             (set_settings (filter (\<lambda>(k, s). k \<noteq> key) (settings (dbase w))) w),
           Reply 200 (JObj [(''reset'', JStr key),
             (''default_value'', JOptStr (map_option sdf_default (map_of (setting_definitions e) key)))])))))"

definition delete_settings ::
  "string option option \<Rightarrow> env \<Rightarrow> request \<Rightarrow> world \<Rightarrow> world \<times> json response" where
  "delete_settings body e r = with_role Admin e r (\<lambda>user.
     with_limit MutationLimiter e r (reset_setting_with e r user body))"

end
