(* ===== verification/Setting_Rules.thy ===== *)
theory Setting_Rules
  imports Settings Scheduler_Ticks
begin

text \<open>
  What a change of the settings does: to the rows, to the list an administrator sees, and to the
  scheduler, which reads the same rows.
\<close>

section \<open>Rows\<close>

lemma map_of_upsert:
  "map_of (upsert_setting e key val user now rs) k =
     (if k = key then Some (case map_of rs key of None \<Rightarrow> new_setting e key val user now
        | Some s \<Rightarrow> s\<lparr>set_value := val, set_updated_by := Some user, set_updated_at := now\<rparr>)
      else map_of rs k)"
proof (cases "map_of rs key")
  case None
  then have "key \<notin> fst ` set rs" by (simp add: map_of_eq_None_iff)
  then show ?thesis
    using map_of_append_fresh [of key rs] map_of_append_other [of k key rs] None
    by (simp add: upsert_setting_def del: map_of_append)
next
  case (Some s)
  then show ?thesis
    using map_of_map_value [of "\<lambda>k s. if k = key then s\<lparr>set_value := val, set_updated_by := Some user, set_updated_at := now\<rparr> else s" rs k]
    by (simp add: upsert_setting_def option.map_ident)
qed

lemma keys_upsert:
  "distinct (map fst rs) \<Longrightarrow> distinct (map fst (upsert_setting e key val user now rs))"
proof (cases "map_of rs key")
  case None
  then show "distinct (map fst rs) \<Longrightarrow> ?thesis" by (simp add: upsert_setting_def map_of_eq_None_iff)
next
  case (Some s)
  then show "distinct (map fst rs) \<Longrightarrow> ?thesis" by (simp add: upsert_setting_def case_prod_beta comp_def)
qed

lemma save_settings_value:
  "distinct (map fst kvs) \<Longrightarrow>
   map_option set_value (map_of (fst (save_settings e user now kvs rs)) k) =
     (case map_of kvs k of None \<Rightarrow> map_option set_value (map_of rs k) | Some v \<Rightarrow> Some (js_string v))"
proof (induction kvs arbitrary: rs)
  case (Cons x kvs)
  obtain key v where x: "x = (key, v)" by (cases x)
  have none: "k = key \<Longrightarrow> map_of kvs k = None" using Cons.prems by (auto simp: x map_of_eq_None_iff)
  have "map_option set_value (map_of (upsert_setting e key (js_string v) user now rs) k) =
      (if k = key then Some (js_string v) else map_option set_value (map_of rs k))"
    by (simp add: map_of_upsert new_setting_def Let_def split: option.split)
  then show ?case using Cons none by (cases "k = key"; cases "map_of kvs k") (simp_all add: x Let_def case_prod_beta)
qed simp

lemma save_settings_keys:
  "distinct (map fst rs) \<Longrightarrow> distinct (map fst (fst (save_settings e user now kvs rs)))"
proof (induction kvs arbitrary: rs)
  case (Cons x kvs)
  then show ?case by (cases x) (simp add: Let_def case_prod_beta keys_upsert)
qed simp

lemma set_settings_frame [simp]:
  "settings (dbase (set_settings rs w)) = rs" "now_s (set_settings rs w) = now_s w"
  by (simp_all add: set_settings_def now_s_def)

section \<open>The list of settings\<close>

text \<open>Value and default flag under which a key is listed.\<close>

definition shown_setting :: "env \<Rightarrow> (string \<times> setting) list \<Rightarrow> string \<Rightarrow> (json \<times> json) option" where
  "shown_setting e rs key =
     map_option (\<lambda>v. (fld (snd v) ''value'', fld (snd v) ''is_default''))
       (find (\<lambda>v. map_of (snd v) ''key'' = Some (JStr key)) (list_settings e rs))"

lemma view_fields [simp]:
  "map_of (snd (setting_view k v ds c ub ua df)) ''key'' = Some (JStr k)"
  "fld (snd (setting_view k v ds c ub ua df)) ''value'' = JStr v"
  "fld (snd (setting_view k v ds c ub ua df)) ''is_default'' = JBool df"
  by (simp_all add: setting_view_def fld_def)

lemma defined_setting_key [simp]: "map_of (snd (defined_setting rs x)) ''key'' = Some (JStr (fst x))"
  by (cases x) (simp add: defined_setting_def split: option.split)

lemma custom_setting_key [simp]: "map_of (snd (custom_setting x)) ''key'' = Some (JStr (fst x))"
  by (cases x) (simp add: custom_setting_def)

lemma find_key:
  assumes "\<And>x. map_of (snd (f x)) ''key'' = Some (JStr (fst x))"
  shows "find (\<lambda>v. map_of (snd v) ''key'' = Some (JStr key)) (map f xs) =
    map_option (\<lambda>y. f (key, y)) (map_of xs key)"
  by (induction xs) (auto simp: assms)

lemma find_append: "find P (xs @ ys) = (case find P xs of None \<Rightarrow> find P ys | Some x \<Rightarrow> Some x)"
  by (induction xs) auto

lemma map_of_sort_key:
  assumes "distinct (map fst rs)"
  shows "map_of (sort_key f rs) = map_of rs"
proof -
  have "mset (map fst (sort_key f rs)) = mset (map fst rs)" by simp
  then have d: "distinct (map fst (sort_key f rs))" using assms by (metis mset_eq_imp_distinct_iff)
  have "set (sort_key f rs) = set rs" by simp
  then show ?thesis using map_of_inject_set [OF d assms] by simp
qed

lemma shown_setting_eq:
  assumes "distinct (map fst rs)" "key \<notin> set object_members"
  shows "shown_setting e rs key =
    (case map_of rs key of Some s \<Rightarrow> Some (JStr (set_value s), JBool False)
     | None \<Rightarrow> map_option (\<lambda>df. (JStr (sdf_default df), JBool True)) (map_of (setting_definitions e) key))"
proof -
  let ?rs = "sort_key (\<lambda>(key, s). (set_category s, key)) rs" and ?ds = "setting_definitions e"
  let ?Q = "\<lambda>k. k \<notin> fst ` set ?ds \<and> k \<notin> set object_members"
  have m: "map_of ?rs = map_of rs" by (rule map_of_sort_key [OF assms(1)])
  have c: "map_of (filter (\<lambda>(k, s). ?Q k) ?rs) key = (if ?Q key then map_of rs key else None)"
    using map_of_filter_fst [of ?Q ?rs key] by (simp only: m)
  have "find (\<lambda>v. map_of (snd v) ''key'' = Some (JStr key)) (list_settings e rs) =
      (case map_of ?ds key of Some df \<Rightarrow> Some (defined_setting ?rs (key, df))
       | None \<Rightarrow> map_option (\<lambda>s. custom_setting (key, s)) (map_of rs key))"
    using assms(2)
    by (simp add: list_settings_def Let_def find_append find_key c split: option.split)
      (auto simp: map_of_eq_None_iff)
  then show ?thesis
    by (cases "map_of ?ds key"; cases "map_of rs key")
      (simp_all add: shown_setting_def defined_setting_def custom_setting_def m)
qed

text \<open>A stored setting whose key is a member of every object is not listed.\<close>

lemma hidden_setting:
  assumes "key \<in> set object_members"
  shows "shown_setting e rs key = None"
proof -
  have "key \<notin> fst ` set (setting_definitions e)"
    using assms by (auto simp: object_members_def setting_definitions_def)
  then have "map_of (setting_definitions e) key = None" by (simp add: map_of_eq_None_iff)
  moreover have "map_of (filter (\<lambda>(k, s). k \<notin> fst ` set (setting_definitions e) \<and> k \<notin> set object_members) rs') key = None" for rs' :: "(string \<times> setting) list"
    using assms by (auto simp: map_of_eq_None_iff)
  ultimately show ?thesis
    by (simp add: shown_setting_def list_settings_def Let_def find_append find_key case_prod_beta)
qed

text \<open>The retention settings are not what the cleanup reads.\<close>

lemma cleanup_ignores_settings:
  "snd (run_cleanup e (s\<lparr>sv_world := set_settings rs (sv_world s)\<rparr>)) = snd (run_cleanup e s)"
  by (simp add: run_cleanup_def Let_def case_prod_beta set_settings_def now_s_def)

section \<open>Changes take effect\<close>


definition backup_on :: obj where
  "backup_on = [(''general.auto_backup'', JBool True), (''general.site_name'', JStr ''HQ'')]"


end
