(* ===== verification/Workflows.thy ===== *)
theory Workflows
  imports Pipelines Js_Objects
begin

text \<open>
  The route \<open>app/api/workflows/route.ts\<close>: the templates the pipelines are made of. Bodies are
  well-typed (timeouts are whole seconds); of an update's fields \<open>None\<close> is missing, and only
  the nullable columns may be set to \<open>null\<close>.
\<close>

definition template_json :: "int \<Rightarrow> template \<Rightarrow> obj" where
  "template_json i t =
     [(''id'', JInt i), (''name'', JStr (tpl_name t)), (''description'', JOptStr (tpl_description t)),
      (''model'', JStr (tpl_model t)), (''task_prompt'', JStr (tpl_prompt t)), (''timeout_seconds'', JInt (tpl_timeout t)),
      (''agent_role'', JOptStr (tpl_agent_role t)),
      (''tags'', JArr (map JStr (case tpl_tags t of None \<Rightarrow> [] | Some ts \<Rightarrow> ts))),
      (''created_by'', JStr (tpl_created_by t)), (''created_at'', JInt (tpl_created_at t)),
      (''updated_at'', JInt (tpl_updated_at t)), (''last_used_at'', JOptInt (tpl_last_used_at t)),
      (''use_count'', JInt (int (tpl_use_count t)))]"

definition get_workflows :: "(int list \<Rightarrow> int list) \<Rightarrow> env \<Rightarrow> request \<Rightarrow> world \<Rightarrow> world \<times> json response" where
  "get_workflows scan e r = with_role Viewer e r (\<lambda>user w.
     (let found = sort_key (\<lambda>(i, t). - int (tpl_use_count t))
                    (order_desc scan (\<lambda>(i, t). tpl_updated_at t) (rows (templates (dbase w))))
      in (w, Reply 200 (JObj [(''templates'', JArr (map (\<lambda>(i, t). JObj (template_json i t)) found))]))))"

record create_workflow_body =
  cw_name :: string
  cw_prompt :: string
  cw_description :: "string option"
  cw_model :: string
  cw_timeout :: int
  cw_agent_role :: "string option"
  cw_tags :: "string list"

definition new_template :: "create_workflow_body \<Rightarrow> string \<Rightarrow> int \<Rightarrow> template" where
  "new_template b creator now =
     \<lparr>tpl_name = cw_name b, tpl_description = str_or_null (cw_description b), tpl_model = cw_model b,
      tpl_prompt = cw_prompt b, tpl_timeout = cw_timeout b, tpl_agent_role = str_or_null (cw_agent_role b),
      tpl_tags = Some (cw_tags b), tpl_created_by = creator, tpl_created_at = now, tpl_updated_at = now,
      tpl_last_used_at = None, tpl_use_count = 0\<rparr>"

definition set_templates :: "template table \<Rightarrow> world \<Rightarrow> world" where
  "set_templates t w = w\<lparr>dbase := (dbase w)\<lparr>templates := t\<rparr>\<rparr>"

definition create_workflow :: "auth_user \<Rightarrow> create_workflow_body \<Rightarrow> world \<Rightarrow> world \<times> json response" where
  "create_workflow user b w =
     (let creator = str_or (au_username user) ''system'';
          i = tbl_last_id (templates (dbase w));
          t = new_template b creator (now_s w);
          w1 = set_templates (tbl_insert t (templates (dbase w))) w;
          w2 = log_activity ''workflow_created'' ''workflow'' i creator (''Created workflow template: '' @ cw_name b) None w1
      in (w2, Reply 201 (JObj [(''template'', JObj (template_json i t))])))"

definition post_workflows :: "create_workflow_body validated \<Rightarrow> env \<Rightarrow> request \<Rightarrow> world \<Rightarrow> world \<times> json response" where
  "post_workflows body e r = with_role Operator e r (\<lambda>user. with_limit MutationLimiter e r (with_body body (create_workflow user)))"

record update_workflow_body =
  uw_id :: "rat option"
  uw_name :: "string option"
  uw_description :: "string option option"
  uw_model :: "string option"
  uw_prompt :: "string option"
  uw_timeout :: "int option"
  uw_agent_role :: "string option option"
  uw_tags :: "string list option"

text \<open>An update without any field counts as a use of the template.\<close>

definition no_template_fields :: "update_workflow_body \<Rightarrow> bool" where
  "no_template_fields b \<longleftrightarrow> uw_name b = None \<and> uw_description b = None \<and> uw_model b = None \<and> uw_prompt b = None \<and>
     uw_timeout b = None \<and> uw_agent_role b = None \<and> uw_tags b = None"

definition apply_template_update :: "update_workflow_body \<Rightarrow> int \<Rightarrow> template \<Rightarrow> template" where
  "apply_template_update b now t = t\<lparr>
     tpl_name := (case uw_name b of None \<Rightarrow> tpl_name t | Some x \<Rightarrow> x),
     tpl_description := (case uw_description b of None \<Rightarrow> tpl_description t | Some x \<Rightarrow> x),
     tpl_model := (case uw_model b of None \<Rightarrow> tpl_model t | Some x \<Rightarrow> x),
     tpl_prompt := (case uw_prompt b of None \<Rightarrow> tpl_prompt t | Some x \<Rightarrow> x),
     tpl_timeout := (case uw_timeout b of None \<Rightarrow> tpl_timeout t | Some x \<Rightarrow> x),
     tpl_agent_role := (case uw_agent_role b of None \<Rightarrow> tpl_agent_role t | Some x \<Rightarrow> x),
     tpl_tags := (case uw_tags b of None \<Rightarrow> tpl_tags t | Some x \<Rightarrow> Some x),
     tpl_use_count := (if no_template_fields b then tpl_use_count t + 1 else tpl_use_count t),
     tpl_last_used_at := (if no_template_fields b then Some now else tpl_last_used_at t),
     tpl_updated_at := now\<rparr>"

definition update_workflow :: "update_workflow_body option \<Rightarrow> world \<Rightarrow> world \<times> json response" where
  "update_workflow body w =
     (case body of None \<Rightarrow> (w, Fail 500 ''Failed to update template'')
      | Some b \<Rightarrow>
     (case body_id (uw_id b) of None \<Rightarrow> (w, Fail 400 ''Template ID is required'')
      | Some q \<Rightarrow>
     (case row_id q of None \<Rightarrow> (w, Fail 404 ''Template not found'')
      | Some i \<Rightarrow>
     (case tbl_get (templates (dbase w)) i of None \<Rightarrow> (w, Fail 404 ''Template not found'')
      | Some t \<Rightarrow>
          (set_templates (tbl_update i (apply_template_update b (now_s w)) (templates (dbase w))) w,
           Reply 200 (JObj [(''template'', JObj (template_json i (apply_template_update b (now_s w) t)))]))))))"

definition put_workflows :: "update_workflow_body option \<Rightarrow> env \<Rightarrow> request \<Rightarrow> world \<Rightarrow> world \<times> json response" where
  "put_workflows body e r = with_role Operator e r (\<lambda>user. update_workflow body)"

text \<open>\<open>None\<close>: the body is not JSON; the id is cut to a whole number. A missing row is no error.\<close>

definition delete_workflow :: "rat option option \<Rightarrow> world \<Rightarrow> world \<times> json response" where
  "delete_workflow body w =
     (case body of None \<Rightarrow> (w, Fail 400 ''Request body required'')
      | Some v \<Rightarrow>
     (case body_id v of None \<Rightarrow> (w, Fail 400 ''Template ID is required'')
      | Some q \<Rightarrow>
          (set_templates (tbl_delete (if q < 0 then - \<lfloor>- q\<rfloor> else \<lfloor>q\<rfloor>) (templates (dbase w))) w,
           Reply 200 (JObj [(''success'', JBool True)]))))"

definition delete_workflows :: "rat option option \<Rightarrow> env \<Rightarrow> request \<Rightarrow> world \<Rightarrow> world \<times> json response" where
  "delete_workflows body e r = with_role Operator e r (\<lambda>user. delete_workflow body)"

text \<open>Nothing keeps a template that a pipeline uses: its steps then name no template.\<close>

lemma deleted_template_missing:
  assumes "row_id q = Some i" "q \<noteq> 0"
  shows "tbl_get (templates (dbase (fst (delete_workflow (Some (Some q)) w)))) i = None"
    "pipelines (dbase (fst (delete_workflow (Some (Some q)) w))) = pipelines (dbase w)"
proof -
  have "q = of_int i" using assms(1) by (auto simp: row_id_def split: if_splits)
  then show "tbl_get (templates (dbase (fst (delete_workflow (Some (Some q)) w)))) i = None"
    "pipelines (dbase (fst (delete_workflow (Some (Some q)) w))) = pipelines (dbase w)"
    using assms(2) by (simp_all add: delete_workflow_def body_id_def set_templates_def tbl_simps)
qed

end
