(* ===== verification/Json_Parse.thy ===== *)
theory Json_Parse
  imports Json_Text Js_Objects Js_Numbers
begin

text \<open>
  \<open>JSON.parse\<close>: a scanner that cuts the text into tokens, and a machine with a stack of open
  arrays and objects that reads them. \<open>None\<close> is the exception. A repeated key keeps its first
  place and takes the last value. A surrogate that has no partner is replaced by U+FFFD, which
  is what such a string becomes when it is written in UTF-8.
\<close>

section \<open>Strings\<close>

definition utf8_bytes :: "nat \<Rightarrow> string" where
  "utf8_bytes n =
     (if n < 128 then [char_of n]
      else if n < 2048 then [char_of (192 + n div 64), char_of (128 + n mod 64)]
      else if n < 65536 then
        [char_of (224 + n div 4096), char_of (128 + n div 64 mod 64), char_of (128 + n mod 64)]
      else [char_of (240 + n div 262144), char_of (128 + n div 4096 mod 64),
            char_of (128 + n div 64 mod 64), char_of (128 + n mod 64)])"

fun hex4 :: "string \<Rightarrow> (nat \<times> string) option" where
  "hex4 (a # b # c # d # r) =
     (case (hex_val a, hex_val b, hex_val c, hex_val d) of
        (Some i, Some j, Some k, Some l) \<Rightarrow> Some (((i * 16 + j) * 16 + k) * 16 + l, r)
      | _ \<Rightarrow> None)"
| "hex4 _ = None"

fun low_surrogate :: "string \<Rightarrow> (nat \<times> string) option" where
  "low_surrogate (b # u # r) =
     (if b = CHR 0x5C \<and> u = CHR ''u''
      then (case hex4 r of None \<Rightarrow> None
            | Some (m, r') \<Rightarrow> if 56320 \<le> m \<and> m \<le> 57343 then Some (m, r') else None)
      else None)"
| "low_surrogate _ = None"

definition simple_escape :: "char \<Rightarrow> char option" where
  "simple_escape c =
     (if c = CHR 0x22 \<or> c = CHR 0x5C \<or> c = CHR ''/'' then Some c
      else if c = CHR ''b'' then Some (CHR 0x08) else if c = CHR ''f'' then Some (CHR 0x0C)
      else if c = CHR ''n'' then Some (CHR 0x0A) else if c = CHR ''r'' then Some (CHR 0x0D)
      else if c = CHR ''t'' then Some (CHR 0x09) else None)"

text \<open>What follows a backslash: the bytes it stands for, and the rest.\<close>

fun read_escape :: "string \<Rightarrow> (string \<times> string) option" where
  "read_escape [] = None"
| "read_escape (c # cs) =
     (if c = CHR ''u'' then
        (case hex4 cs of None \<Rightarrow> None
         | Some (n, r) \<Rightarrow>
             if 55296 \<le> n \<and> n \<le> 56319 then
               (case low_surrogate r of None \<Rightarrow> Some (utf8_bytes 65533, r)
                | Some (m, r') \<Rightarrow> Some (utf8_bytes (65536 + (n - 55296) * 1024 + (m - 56320)), r'))
             else if 56320 \<le> n \<and> n \<le> 57343 then Some (utf8_bytes 65533, r)
             else Some (utf8_bytes n, r))
      else map_option (\<lambda>x. ([x], cs)) (simple_escape c))"

lemma hex4_shorter: "hex4 s = Some (n, r) \<Longrightarrow> length r < length s"
  by (induction s rule: hex4.induct) (auto split: option.splits)

lemma low_surrogate_shorter: "low_surrogate s = Some (n, r) \<Longrightarrow> length r < length s"
  by (induction s rule: low_surrogate.induct) (auto dest!: hex4_shorter split: option.splits if_splits)

lemma read_escape_shorter: "read_escape s = Some (out, r) \<Longrightarrow> length r < length s"
  by (cases s) (auto dest!: hex4_shorter low_surrogate_shorter split: option.splits if_splits)

text \<open>The inside of a string literal up to its closing quotation mark, and the rest.\<close>

function read_string :: "string \<Rightarrow> (string \<times> string) option" where
  "read_string [] = None"
| "read_string (c # cs) =
     (if c = CHR 0x22 then Some ([], cs)
      else if of_char c < (32::nat) then None
      else if c = CHR 0x5C then
        (case read_escape cs of None \<Rightarrow> None
         | Some (out, r) \<Rightarrow> map_option (\<lambda>(s, r'). (out @ s, r')) (read_string r))
      else map_option (\<lambda>(s, r'). (c # s, r')) (read_string cs))"
  by pat_completeness auto
termination
  by (relation "measure length") (auto dest!: read_escape_shorter)

lemma read_string_shorter: "read_string s = Some (out, r) \<Longrightarrow> length r < length s"
proof (induction s arbitrary: out r rule: read_string.induct)
  case (2 c cs)
  show ?case
  proof (cases "c = CHR 0x5C")
    case True
    with 2(3) obtain o1 r1 o2 where e: "read_escape cs = Some (o1, r1)" "read_string r1 = Some (o2, r)"
      by (auto split: option.splits)
    have c: "c \<noteq> CHR 0x22" "\<not> of_char c < (32::nat)" using True by simp_all
    have "length r < length r1" by (rule 2(1) [OF c True e(1) refl e(2)])
    with read_escape_shorter [OF e(1)] show ?thesis by simp
  next
    case False
    show ?thesis
    proof (cases "c = CHR 0x22 \<or> of_char c < (32::nat)")
      case True
      then show ?thesis using 2(3) by (auto split: if_splits)
    next
      case other: False
      then obtain o1 where "read_string cs = Some (o1, r)" using 2(3) False by auto
      with 2(2) [of o1 r] False other show ?thesis by simp
    qed
  qed
qed simp

section \<open>Tokens\<close>

datatype token = Punct char | Scalar json

definition json_white :: "char \<Rightarrow> bool" where
  "json_white c = (c = CHR '' '' \<or> c = CHR 0x09 \<or> c = CHR 0x0A \<or> c = CHR 0x0D)"

definition punct_char :: "char \<Rightarrow> bool" where
  "punct_char c = (c \<in> set ''{}[],:'')"

definition number_char :: "char \<Rightarrow> bool" where
  "number_char c = (digit_val c \<noteq> None \<or> c \<in> set ''+-.eE'')"

text \<open>The number a run of such characters spells: no leading zero, and a digit on each side of the point.\<close>

definition json_number :: "string \<Rightarrow> rat option" where
  "json_number s =
     (let neg = (s \<noteq> [] \<and> hd s = CHR ''-'');
          u = (if neg then tl s else s);
          m = takeWhile (\<lambda>c. c \<noteq> CHR ''e'' \<and> c \<noteq> CHR ''E'') u;
          i = takeWhile (\<lambda>c. digit_val c \<noteq> None) m;
          f = drop (length i) m
      in if i = [] \<or> (hd i = CHR ''0'' \<and> length i \<noteq> 1) \<or> f = ''.'' then None
         else map_option (\<lambda>q. if neg then - q else q) (unsigned_number u))"

function tokens_of :: "string \<Rightarrow> token list option" where
  "tokens_of [] = Some []"
| "tokens_of (c # cs) =
     (if json_white c then tokens_of cs
      else if punct_char c then map_option (Cons (Punct c)) (tokens_of cs)
      else if c = CHR 0x22 then
        (case read_string cs of None \<Rightarrow> None
         | Some (s, r) \<Rightarrow> map_option (Cons (Scalar (JStr s))) (tokens_of r))
      else if number_char c then
        (case json_number (c # takeWhile number_char cs) of None \<Rightarrow> None
         | Some q \<Rightarrow> map_option (Cons (Scalar (JNum q))) (tokens_of (dropWhile number_char cs)))
      else if starts_with ''true'' (c # cs) then map_option (Cons (Scalar (JBool True))) (tokens_of (drop 3 cs))
      else if starts_with ''false'' (c # cs) then map_option (Cons (Scalar (JBool False))) (tokens_of (drop 4 cs))
      else if starts_with ''null'' (c # cs) then map_option (Cons (Scalar JNull)) (tokens_of (drop 3 cs))
      else None)"
  by pat_completeness auto
termination
  by (relation "measure length")
    (auto dest!: read_string_shorter simp: length_dropWhile_le less_Suc_eq_le)

section \<open>The machine\<close>

datatype frame = In_Array "json list" | In_Object obj string

datatype parser_state =
    Expect "frame list"
  | First_Elem "frame list"
  | First_Key "frame list"
  | Next_Key obj "frame list"
  | Colon obj string "frame list"
  | Elems "json list" "frame list"
  | Fields obj "frame list"
  | Finished json

fun complete_value :: "json \<Rightarrow> frame list \<Rightarrow> parser_state" where
  "complete_value v [] = Finished v"
| "complete_value v (In_Array xs # fs) = Elems (xs @ [v]) fs"
| "complete_value v (In_Object ob k # fs) = Fields (obj_set k v ob) fs"

fun expect_value :: "token \<Rightarrow> frame list \<Rightarrow> parser_state option" where
  "expect_value (Scalar v) fs = Some (complete_value v fs)"
| "expect_value (Punct c) fs =
     (if c = CHR ''['' then Some (First_Elem fs) else if c = CHR ''{'' then Some (First_Key fs) else None)"

fun expect_key :: "token \<Rightarrow> obj \<Rightarrow> frame list \<Rightarrow> parser_state option" where
  "expect_key (Scalar (JStr k)) ob fs = Some (Colon ob k fs)"
| "expect_key _ ob fs = None"

fun json_step :: "token \<Rightarrow> parser_state \<Rightarrow> parser_state option" where
  "json_step t (Expect fs) = expect_value t fs"
| "json_step t (First_Elem fs) =
     (if t = Punct (CHR '']'') then Some (complete_value (JArr []) fs) else expect_value t (In_Array [] # fs))"
| "json_step t (First_Key fs) =
     (if t = Punct (CHR ''}'') then Some (complete_value (JObj []) fs) else expect_key t [] fs)"
| "json_step t (Next_Key ob fs) = expect_key t ob fs"
| "json_step t (Colon ob k fs) = (if t = Punct (CHR '':'') then Some (Expect (In_Object ob k # fs)) else None)"
| "json_step t (Elems xs fs) =
     (if t = Punct (CHR '','') then Some (Expect (In_Array xs # fs))
      else if t = Punct (CHR '']'') then Some (complete_value (JArr xs) fs) else None)"
| "json_step t (Fields ob fs) =
     (if t = Punct (CHR '','') then Some (Next_Key ob fs)
      else if t = Punct (CHR ''}'') then Some (complete_value (JObj ob) fs) else None)"
| "json_step t (Finished v) = None"

fun json_run :: "token list \<Rightarrow> parser_state \<Rightarrow> parser_state option" where
  "json_run [] st = Some st"
| "json_run (t # ts) st = (case json_step t st of None \<Rightarrow> None | Some st' \<Rightarrow> json_run ts st')"

definition parse_json :: "string \<Rightarrow> json option" where
  "parse_json s =
     (case tokens_of s of None \<Rightarrow> None
      | Some ts \<Rightarrow> (case json_run ts (Expect []) of Some (Finished v) \<Rightarrow> Some v | _ \<Rightarrow> None))"

end
