(* ===== verification/Gateway_Sessions.thy ===== *)
theory Gateway_Sessions
  imports Agent_Config Json_Parse
begin

text \<open>
  The gateway's session stores on disk (\<open>lib/sessions.ts\<close>) and running its command line program
  (\<open>lib/command.ts\<close>). The directory of the agents is an argument: the names it lists, each with
  the text of its \<open>sessions/sessions.json\<close>, \<open>None\<close> where there is no such file. Times that are
  not numbers count as 0, and the keys of a store are those of a JSON object.
\<close>

section \<open>Commands\<close>

text \<open>How a child process ends: it could not be started, or it has closed with an exit code
  (\<open>None\<close> when a signal, such as that of the time limit, ended it) and the collected output.\<close>

datatype child_end = Not_Started string | Closed "int option" string string

text \<open>The promise: the output and error streams, or an error with its message and the two streams
  (which the error of a process that never started does not carry).\<close>

datatype command_promise = Resolved string string | Rejected string "string option" "string option"

definition run_command :: "string \<Rightarrow> string list \<Rightarrow> child_end \<Rightarrow> command_promise" where
  "run_command command args ending =
     (case ending of
        Not_Started msg \<Rightarrow> Rejected msg None None
      | Closed code out err \<Rightarrow>
          if code = Some 0 then Resolved out err
          else Rejected (''Command failed ('' @ command @ '' '' @ join_with '' '' args @ ''): '' @ str_or err out)
                 (Some out) (Some err))"

section \<open>Sessions\<close>

record gateway_session =
  gs_key :: string
  gs_agent :: string
  gs_session_id :: json
  gs_updated_at :: json
  gs_chat_type :: json
  gs_channel :: json
  gs_model :: json
  gs_total_tokens :: json
  gs_input_tokens :: json
  gs_output_tokens :: json
  gs_context_tokens :: json
  gs_active :: bool

text \<open>\<open>a || b\<close> with a value at the end.\<close>

definition or_else :: "json option \<Rightarrow> json \<Rightarrow> json" where
  "or_else a d = (case a of None \<Rightarrow> d | Some j \<Rightarrow> if jtruthy j then j else d)"

text \<open>\<open>Object.entries\<close>, which throws for \<open>null\<close>.\<close>

fun object_entries :: "json \<Rightarrow> (string \<times> json) list option" where
  "object_entries JNull = None"
| "object_entries (JObj kvs) = Some kvs"
| "object_entries (JArr xs) = Some (map (\<lambda>i. (show_nat i, xs ! i)) [0..<length xs])"
| "object_entries (JStr s) = Some (map (\<lambda>i. (show_nat i, JStr [s ! i])) [0..<length s])"
| "object_entries _ = Some []"

definition session_of :: "int \<Rightarrow> rat option \<Rightarrow> string \<Rightarrow> string \<Rightarrow> json \<Rightarrow> gateway_session" where
  "session_of now window dir_name key s =
     (let updated = or_else (jget s ''updatedAt'') (JNum 0)
      in \<lparr>gs_key = key, gs_agent = dir_name, gs_session_id = or_else (jget s ''sessionId'') (JStr []),
          gs_updated_at = updated, gs_chat_type = or_else (jget s ''chatType'') (JStr ''unknown''),
          gs_channel = or_else (Option.bind (jget s ''deliveryContext'') (\<lambda>c. jget c ''channel''))
            (or_else (jget s ''lastChannel'') (or_else (jget s ''channel'') (JStr []))),
          gs_model = or_else (jget s ''model'') (JStr []),
          gs_total_tokens = or_else (jget s ''totalTokens'') (JNum 0),
          gs_input_tokens = or_else (jget s ''inputTokens'') (JNum 0),
          gs_output_tokens = or_else (jget s ''outputTokens'') (JNum 0),
          gs_context_tokens = or_else (jget s ''contextTokens'') (JNum 0),
          gs_active = (case number_of updated of None \<Rightarrow> False
            | Some u \<Rightarrow> (case window of None \<Rightarrow> True | Some d \<Rightarrow> of_int now - u < d))\<rparr>)"

text \<open>The entries of one file up to the first that throws (a \<open>null\<close>).\<close>

definition store_sessions :: "int \<Rightarrow> rat option \<Rightarrow> string \<Rightarrow> string \<Rightarrow> gateway_session list" where
  "store_sessions now window dir_name raw =
     (case Option.bind (parse_json raw) object_entries of
        None \<Rightarrow> []
      | Some entries \<Rightarrow>
          map (\<lambda>(key, s). session_of now window dir_name key s) (takeWhile (\<lambda>(key, s). s \<noteq> JNull) entries))"

definition updated_number :: "gateway_session \<Rightarrow> rat" where
  "updated_number s = (case number_of (gs_updated_at s) of None \<Rightarrow> 0 | Some u \<Rightarrow> u)"

text \<open>\<open>window\<close> is \<open>activeWithinMs\<close>, \<open>None\<close> for \<open>Infinity\<close>. The directory is \<open>None\<close> when it is not
  there or cannot be read.\<close>

definition get_all_gateway_sessions ::
  "string \<Rightarrow> (string \<times> string option) list option \<Rightarrow> rat option \<Rightarrow> int \<Rightarrow> gateway_session list" where
  "get_all_gateway_sessions home dirs window now =
     (if home = [] then []
      else (case dirs of None \<Rightarrow> []
      | Some ds \<Rightarrow>
          sort_key (\<lambda>s. - updated_number s)
            (concat (map (\<lambda>(name, file). case file of None \<Rightarrow> [] | Some raw \<Rightarrow> store_sessions now window name raw) ds))))"

section \<open>Live status of the agents\<close>

datatype live_status = LiveActive | LiveIdle | LiveOffline

record live_entry =
  le_status :: live_status
  le_last_activity :: json
  le_channel :: json

definition live_status_of :: "int \<Rightarrow> gateway_session \<Rightarrow> live_status" where
  "live_status_of now s =
     (let age = of_int now - updated_number s
      in if age < 5 * 60 * 1000 then LiveActive
         else if age < 60 * 60 * 1000 then LiveIdle
         else LiveOffline)"

definition note_session :: "int \<Rightarrow> gateway_session \<Rightarrow> live_entry props \<Rightarrow> live_entry props" where
  "note_session now s m =
     (case map_of m (gs_agent s) of
        Some old \<Rightarrow>
          if updated_number s > (case number_of (le_last_activity old) of None \<Rightarrow> 0 | Some u \<Rightarrow> u)
          then obj_set (gs_agent s) \<lparr>le_status = live_status_of now s, le_last_activity = gs_updated_at s, le_channel = gs_channel s\<rparr> m
          else m
      | None \<Rightarrow>
          obj_set (gs_agent s) \<lparr>le_status = live_status_of now s, le_last_activity = gs_updated_at s, le_channel = gs_channel s\<rparr> m)"

definition get_agent_live_statuses ::
  "string \<Rightarrow> (string \<times> string option) list option \<Rightarrow> int \<Rightarrow> live_entry props" where
  "get_agent_live_statuses home dirs now =
     fold (note_session now) (get_all_gateway_sessions home dirs (Some 3600000) now) []"

section \<open>The newest session decides\<close>

lemma sessions_newest_first:
  "sorted_wrt (\<lambda>s t. updated_number t \<le> updated_number s) (get_all_gateway_sessions home dirs window now)"
proof -
  have "sorted_wrt (\<lambda>s t. updated_number t \<le> updated_number s) (sort_key (\<lambda>s. - updated_number s) xs)" for xs
    using sorted_sort_key [of "\<lambda>s. - updated_number s" xs] by (simp add: sorted_map)
  then show ?thesis by (simp add: get_all_gateway_sessions_def split: option.split)
qed

lemma note_session_find:
  "map_of (note_session now s m) a =
     (if a = gs_agent s \<and> (case map_of m a of None \<Rightarrow> True
         | Some old \<Rightarrow> updated_number s > (case number_of (le_last_activity old) of None \<Rightarrow> 0 | Some u \<Rightarrow> u))
      then Some \<lparr>le_status = live_status_of now s, le_last_activity = gs_updated_at s, le_channel = gs_channel s\<rparr>
      else map_of m a)"
  by (auto simp: note_session_def map_of_obj_set split: option.splits)

lemma notes_keep_newest:
  assumes "sorted_wrt (\<lambda>s t. updated_number t \<le> updated_number s) ss"
    and "case map_of m a of None \<Rightarrow> True
         | Some old \<Rightarrow> list_all (\<lambda>s. updated_number s \<le> (case number_of (le_last_activity old) of None \<Rightarrow> 0 | Some u \<Rightarrow> u)) ss"
  shows "map_of (fold (note_session now) ss m) a =
     (case map_of m a of Some old \<Rightarrow> Some old
      | None \<Rightarrow> map_option (\<lambda>s. \<lparr>le_status = live_status_of now s, le_last_activity = gs_updated_at s, le_channel = gs_channel s\<rparr>)
                  (List.find (\<lambda>s. gs_agent s = a) ss))"
  using assms
proof (induction ss arbitrary: m)
  case (Cons s ss)
  let ?m = "note_session now s m"
  have "case map_of ?m a of None \<Rightarrow> True
      | Some old \<Rightarrow> list_all (\<lambda>s. updated_number s \<le> (case number_of (le_last_activity old) of None \<Rightarrow> 0 | Some u \<Rightarrow> u)) ss"
    using Cons.prems by (auto simp: note_session_find list_all_iff updated_number_def split: option.splits)
  then have "map_of (fold (note_session now) ss ?m) a =
     (case map_of ?m a of Some old \<Rightarrow> Some old
      | None \<Rightarrow> map_option (\<lambda>s. \<lparr>le_status = live_status_of now s, le_last_activity = gs_updated_at s, le_channel = gs_channel s\<rparr>)
                  (List.find (\<lambda>s. gs_agent s = a) ss))"
    using Cons.IH [of ?m] Cons.prems(1) by simp
  then show ?case
    using Cons.prems(2) by (auto simp: note_session_find split: option.splits)
qed (simp split: option.splits)

text \<open>An agent's live status is that of its most recently updated session.\<close>

theorem live_status_newest:
  "map_of (get_agent_live_statuses home dirs now) a =
     map_option (\<lambda>s. \<lparr>le_status = live_status_of now s, le_last_activity = gs_updated_at s, le_channel = gs_channel s\<rparr>)
       (List.find (\<lambda>s. gs_agent s = a) (get_all_gateway_sessions home dirs (Some 3600000) now))"
  unfolding get_agent_live_statuses_def by (simp add: notes_keep_newest sessions_newest_first)

end
