(* ===== verification/Chat.thy ===== *)
theory Chat
  imports Agents Gateway_Sessions
begin

text \<open>
  The chat: \<open>app/api/chat/messages/route.ts\<close>, \<open>chat/messages/[id]/route.ts\<close> and
  \<open>chat/conversations/route.ts\<close>. Sending a message may call the gateway's command twice, and other
  requests run while it waits, so the handler is cut at the two awaits: \<open>begin_message\<close>, and
  \<open>gateway_returns\<close> for each answer. The fields the handler trims may hold any JSON value; the
  type and the conversation of a message are texts where they are given.
\<close>

section \<open>Messages\<close>

definition chat_json :: "int \<Rightarrow> chat_message \<Rightarrow> json" where
  "chat_json i m = JObj
     [(''id'', JInt i), (''conversation_id'', JStr (msg_conversation_id m)), (''from_agent'', JStr (msg_from m)),
      (''to_agent'', JOptStr (msg_to m)), (''content'', JStr (msg_content m)), (''message_type'', JStr (msg_type m)),
      (''metadata'', case msg_metadata m of None \<Rightarrow> JNull | Some j \<Rightarrow> j), (''read_at'', JOptInt (msg_read_at m)),
      (''created_at'', JInt (msg_created_at m))]"

definition new_chat_message ::
  "string \<Rightarrow> string \<Rightarrow> string option \<Rightarrow> string \<Rightarrow> string \<Rightarrow> json option \<Rightarrow> world \<Rightarrow> chat_message" where
  "new_chat_message conv sender receiver content ty meta w =
     \<lparr>msg_conversation_id = conv, msg_from = sender, msg_to = receiver, msg_content = content,
      msg_type = ty, msg_metadata = truthy_data meta, msg_read_at = None, msg_created_at = now_s w\<rparr>"

definition insert_message :: "chat_message \<Rightarrow> world \<Rightarrow> world" where
  "insert_message m w = w\<lparr>dbase := (dbase w)\<lparr>messages := tbl_insert m (messages (dbase w))\<rparr>\<rparr>"

definition create_chat_reply ::
  "string \<Rightarrow> string \<Rightarrow> string \<Rightarrow> string \<Rightarrow> string \<Rightarrow> json option \<Rightarrow> world \<Rightarrow> world" where
  "create_chat_reply conv from_name to_name content ty meta w =
     (let m = new_chat_message conv from_name (Some to_name) content ty meta w
      in broadcast ''chat.message'' (chat_json (tbl_last_id (messages (dbase w))) m) (insert_message m w))"

section \<open>Answers of the gateway\<close>

definition coordinator_agent :: "env \<Rightarrow> string" where
  "coordinator_agent e =
     str_or (js_trim (env_or e ''MC_COORDINATOR_AGENT'' (env_or e ''NEXT_PUBLIC_COORDINATOR_AGENT'' ''coordinator'')))
       ''coordinator''"

text \<open>The JSON value between the first opening and the last closing brace.\<close>

definition parse_gateway_json :: "string \<Rightarrow> json option" where
  "parse_gateway_json raw =
     (let opened = dropWhile (\<lambda>c. c \<noteq> CHR ''{'') (js_trim raw);
          inner = rev (dropWhile (\<lambda>c. c \<noteq> CHR ''}'') (rev opened))
      in if inner = [] then None else parse_json inner)"

text \<open>\<open>typeof v === 'string' && v.trim()\<close>, for the first value that passes.\<close>

fun first_text :: "json option list \<Rightarrow> string option" where
  "first_text [] = None"
| "first_text (Some (JStr s) # vs) = (if js_trim s = [] then first_text vs else Some (js_trim s))"
| "first_text (v # vs) = first_text vs"

definition extract_reply_text :: "json option \<Rightarrow> string option" where
  "extract_reply_text payload =
     (case payload of None \<Rightarrow> None
      | Some p \<Rightarrow>
          (case first_text (map (jget p) [''text'', ''message'', ''response'', ''output'', ''result'']) of
             Some t \<Rightarrow> Some t
           | None \<Rightarrow>
               (case jget p ''output'' of None \<Rightarrow> None
                | Some out \<Rightarrow> first_text (map (jget out) [''text'', ''message'', ''content'']))))"

definition payload_run_id :: "json option \<Rightarrow> string option" where
  "payload_run_id payload =
     (case Option.bind payload (\<lambda>p. jget p ''runId'') of Some (JStr s) \<Rightarrow> str_or_null (Some s) | _ \<Rightarrow> None)"

definition wait_status :: "json option \<Rightarrow> string" where
  "wait_status payload = js_lower (js_string (or_else (Option.bind payload (\<lambda>p. jget p ''status'')) (JStr [])))"

definition payload_error :: "json option \<Rightarrow> string option" where
  "payload_error payload = (case Option.bind payload (\<lambda>p. jget p ''error'') of Some (JStr s) \<Rightarrow> Some s | _ \<Rightarrow> None)"

section \<open>Sending a message\<close>

record chat_body =
  pm_from :: "json option"
  pm_to :: "json option"
  pm_content :: "json option"
  pm_type :: "string option"
  pm_conversation :: "string option"
  pm_metadata :: "json option"
  pm_forward :: "json option"

text \<open>\<open>v ? v.trim() : null\<close>; \<open>Inl\<close> is the exception of a value that has no such method.\<close>

definition trimmed :: "json option \<Rightarrow> unit + string option" where
  "trimmed v =
     (if \<not> jtruthy_opt v then Inr None
      else (case v of Some (JStr s) \<Rightarrow> Inr (Some (js_trim s)) | _ \<Rightarrow> Inl ()))"

text \<open>What the request remembers while it waits; the session key or, without one, the agent's
  name at the gateway.\<close>

record chat_send =
  cs_message :: int
  cs_conversation :: string
  cs_from :: string
  cs_session :: "json option"
  cs_agent_id :: string

record forward_info =
  fw_delivered :: bool
  fw_reason :: "string option"
  fw_session :: "json option"
  fw_run :: "string option"

definition forward_json :: "forward_info option \<Rightarrow> json" where
  "forward_json f =
     (case f of None \<Rightarrow> JNull
      | Some i \<Rightarrow> JObj ([(''attempted'', JBool True), (''delivered'', JBool (fw_delivered i))] @
          (case fw_reason i of None \<Rightarrow> [] | Some s \<Rightarrow> [(''reason'', JStr s)]) @
          (case fw_session i of None \<Rightarrow> [] | Some j \<Rightarrow> [(''session'', j)]) @
          (case fw_run i of None \<Rightarrow> [] | Some s \<Rightarrow> [(''runId'', JStr s)])))"

datatype chat_pending = Sending chat_send | Awaiting_Run chat_send forward_info string

datatype chat_step = Chat_Answered "json response" | Chat_Calling "string list" chat_pending

text \<open>The end of the handler: the stored message is read back, broadcast and returned.\<close>

definition finish_message :: "int \<Rightarrow> forward_info option \<Rightarrow> world \<Rightarrow> world \<times> chat_step" where
  "finish_message mid f w =
     (case tbl_get (messages (dbase w)) mid of
        None \<Rightarrow> (w, Chat_Answered (Fail 500 ''Failed to send message''))
      | Some m \<Rightarrow>
          (broadcast ''chat.message'' (chat_json mid m) w,
           Chat_Answered (Reply 201 (JObj [(''message'', chat_json mid m), (''forward'', forward_json f)]))))"

text \<open>The session of the recipient: that of its row, or else one of the stores on disk.\<close>

definition chat_session :: "(int \<times> agent) option \<Rightarrow> string \<Rightarrow> gateway_session list \<Rightarrow> json option" where
  "chat_session found to_name stores =
     (case Option.bind found (\<lambda>(i, a). str_or_null (agent_session_key a)) of
        Some k \<Rightarrow> Some (JStr k)
      | None \<Rightarrow>
          (case List.find (\<lambda>s. js_lower (gs_agent s) = js_lower to_name) stores of
             None \<Rightarrow> None
           | Some s \<Rightarrow>
               (case json_or (Some (JStr (gs_key s))) (Some (gs_session_id s)) of
                  None \<Rightarrow> None | Some j \<Rightarrow> if jtruthy j then Some j else None)))"

text \<open>The configured name at the gateway, or one made from the recipient's name.\<close>

definition chat_agent_id :: "(int \<times> agent) option \<Rightarrow> string \<Rightarrow> string" where
  "chat_agent_id found to_name =
     (case Option.bind (Option.bind found (\<lambda>(i, a). agent_config a)) (\<lambda>cfg. jget cfg ''openclawId'') of
        Some (JStr s) \<Rightarrow> str_or s (openclaw_id to_name)
      | _ \<Rightarrow> openclaw_id to_name)"

definition send_call :: "chat_send \<Rightarrow> string \<Rightarrow> int \<Rightarrow> string list" where
  "send_call c content now_ms =
     [''gateway'', ''call'', ''agent'', ''--timeout'', ''10000'', ''--params'',
      json_text (JObj ([(''message'', JStr (''Message from '' @ cs_from c @ '': '' @ content)),
         (''idempotencyKey'', JStr (''mc-'' @ show_int (cs_message c) @ ''-'' @ show_int now_ms)),
         (''deliver'', JBool False)] @
         (case cs_session c of Some k \<Rightarrow> [(''sessionKey'', k)] | None \<Rightarrow> [(''agentId'', JStr (cs_agent_id c))]))),
      ''--json'']"

definition wait_call :: "string \<Rightarrow> string list" where
  "wait_call run_id =
     [''gateway'', ''call'', ''agent.wait'', ''--timeout'', ''8000'', ''--params'',
      json_text (JObj [(''runId'', JStr run_id), (''timeoutMs'', JNum 6000)]), ''--json'']"

text \<open>The rows and events of the message itself: the activity, and the notification of a recipient.\<close>

definition record_message :: "string \<Rightarrow> string \<Rightarrow> string option \<Rightarrow> string \<Rightarrow> string \<Rightarrow> json option \<Rightarrow> world \<Rightarrow> world" where
  "record_message conv sender receiver content ty meta w =
     (let mid = tbl_last_id (messages (dbase w));
          w1 = insert_message (new_chat_message conv sender receiver content ty meta w) w;
          w2 = log_activity ''chat_message'' ''message'' mid sender
                 (''Sent '' @ ty @ '' message'' @ (case str_or_null receiver of Some t \<Rightarrow> '' to '' @ t | None \<Rightarrow> '' (broadcast)''))
                 (Some (JObj [(''conversation_id'', JStr conv), (''to'', JOptStr receiver), (''message_type'', JStr ty)])) w1
      in (case str_or_null receiver of None \<Rightarrow> w2
          | Some t \<Rightarrow> create_notification t ''chat_message'' (''Message from '' @ sender)
                       (take 200 content @ (if length content > 200 then ''...'' else []))
                       (Some ''message'') (Some mid) w2))"

text \<open>\<open>SELECT * FROM agents WHERE lower(name) = lower(?)\<close>: the first one the engine visits.\<close>

definition agent_by_lower_name :: "(int list \<Rightarrow> int list) \<Rightarrow> string \<Rightarrow> db \<Rightarrow> (int \<times> agent) option" where
  "agent_by_lower_name scan name d =
     (case scan_rows scan (tbl_select (\<lambda>a. js_lower (agent_name a) = js_lower name) (agents d)) of
        [] \<Rightarrow> None | x # _ \<Rightarrow> Some x)"

definition coordinator_thread :: "string \<Rightarrow> bool" where
  "coordinator_thread conv = starts_with ''coord:'' conv"

definition status_reply :: "env \<Rightarrow> chat_send \<Rightarrow> string \<Rightarrow> string \<Rightarrow> obj \<Rightarrow> world \<Rightarrow> world" where
  "status_reply e c ty content meta =
     create_chat_reply (cs_conversation c) (coordinator_agent e) (cs_from c) content ty (Some (JObj meta))"

definition begin_message_with ::
  "env \<Rightarrow> (int list \<Rightarrow> int list) \<Rightarrow> gateway_session list \<Rightarrow> chat_body option \<Rightarrow> world \<Rightarrow> world \<times> chat_step" where
  "begin_message_with e scan stores body w =
     (case body of None \<Rightarrow> (w, Chat_Answered (Fail 500 ''Failed to send message''))
      | Some b \<Rightarrow>
     (case (trimmed (pm_from b), trimmed (pm_to b), trimmed (pm_content b)) of
        (Inr from_text, Inr receiver, Inr content_text) \<Rightarrow>
          let sender = opt_or from_text []; content = opt_or content_text [];
              ty = opt_or (pm_type b) ''text'';
              conv = opt_or (pm_conversation b) (''conv_'' @ show_int (clock w))
          in if sender = [] \<or> content = []
             then (w, Chat_Answered (Fail 400 ([CHR 0x22] @ ''from'' @ [CHR 0x22] @ '' and '' @ [CHR 0x22] @ ''content'' @
                      [CHR 0x22] @ '' are required'')))
             else
               let mid = tbl_last_id (messages (dbase w));
                   w1 = record_message conv sender receiver content ty (pm_metadata b) w
               in (case str_or_null receiver of
                     None \<Rightarrow> finish_message mid None w1
                   | Some t \<Rightarrow>
                       if \<not> jtruthy_opt (pm_forward b) then finish_message mid None w1
                       else
                         let found = agent_by_lower_name scan t (dbase w1);
                             c = \<lparr>cs_message = mid, cs_conversation = conv, cs_from = sender,
                                  cs_session = chat_session found t stores, cs_agent_id = chat_agent_id found t\<rparr>
                         in if cs_session c = None \<and> cs_agent_id c = []
                            then finish_message mid
                                   (Some \<lparr>fw_delivered = False, fw_reason = Some ''no_active_session'', fw_session = None, fw_run = None\<rparr>)
                                   (if coordinator_thread conv
                                    then status_reply e c ''status''
                                           ''I received your message, but my live coordinator session is offline right now. Start/restore the coordinator session and retry.''
                                           [(''status'', JStr ''offline''), (''reason'', JStr ''no_active_session'')] w1
                                    else w1)
                            else (w1, Chat_Calling (send_call c content (clock w1)) (Sending c)))
      | _ \<Rightarrow> (w, Chat_Answered (Fail 500 ''Failed to send message''))))"

definition begin_message ::
  "(int list \<Rightarrow> int list) \<Rightarrow> gateway_session list \<Rightarrow> chat_body option \<Rightarrow> env \<Rightarrow> request \<Rightarrow> world \<Rightarrow> world \<times> chat_step" where
  "begin_message scan stores body e r w =
     (case require_role e r Operator w of
        Granted u \<Rightarrow> begin_message_with e scan stores body w
      | Denied msg status \<Rightarrow> (w, Chat_Answered (Fail status msg))
      | Threw err \<Rightarrow> (w, Chat_Answered Crash))"

text \<open>What the first call has come to.\<close>

definition accepted_text :: "string \<Rightarrow> bool" where
  "accepted_text out =
     (js_includes ([CHR 0x22] @ ''status'' @ [CHR 0x22] @ '': '' @ [CHR 0x22] @ ''accepted'' @ [CHR 0x22]) out \<or>
      js_includes ([CHR 0x22] @ ''status'' @ [CHR 0x22] @ '':'' @ [CHR 0x22] @ ''accepted'' @ [CHR 0x22]) out)"

definition forward_outcome :: "chat_send \<Rightarrow> command_promise \<Rightarrow> forward_info" where
  "forward_outcome c p =
     (let delivered = (\<lambda>out. \<lparr>fw_delivered = True, fw_reason = None,
            fw_session = (case cs_session c of Some k \<Rightarrow> Some k | None \<Rightarrow> map_option JStr (str_or_null (Some (cs_agent_id c)))),
            fw_run = payload_run_id (parse_gateway_json out)\<rparr>)
      in case p of
           Resolved out err \<Rightarrow> delivered out
         | Rejected msg out err \<Rightarrow>
             if accepted_text (opt_or out []) then delivered (opt_or out [])
             else \<lparr>fw_delivered = False, fw_reason = Some ''gateway_send_failed'', fw_session = None, fw_run = None\<rparr>)"

definition send_returns :: "env \<Rightarrow> chat_send \<Rightarrow> command_promise \<Rightarrow> world \<Rightarrow> world \<times> chat_step" where
  "send_returns e c p w =
     (let f = forward_outcome c p in
      if \<not> fw_delivered f then
        finish_message (cs_message c) (Some f)
          (if coordinator_thread (cs_conversation c)
           then status_reply e c ''status''
                  ''I received your message, but delivery to the live coordinator runtime failed. Please restart the coordinator/gateway session and retry.''
                  [(''status'', JStr ''delivery_failed''), (''reason'', JStr ''gateway_send_failed'')] w
           else w)
      else if \<not> coordinator_thread (cs_conversation c) then finish_message (cs_message c) (Some f) w
      else
        let w1 = status_reply e c ''status'' ''Received. I am coordinating downstream agents now.''
                   [(''status'', JStr ''accepted''), (''runId'', JOptStr (fw_run f))] w
        in (case fw_run f of
              None \<Rightarrow> finish_message (cs_message c) (Some f) w1
            | Some run_id \<Rightarrow> (w1, Chat_Calling (wait_call run_id) (Awaiting_Run c f run_id))))"

text \<open>What the second call has come to: the type, the text and the status of the reply.\<close>

definition run_feedback :: "command_promise \<Rightarrow> string \<times> string \<times> string" where
  "run_feedback p =
     (case p of
        Resolved out err \<Rightarrow>
          let payload = parse_gateway_json out; status = wait_status payload in
          if status = ''error'' then
            (''status'', ''I received your message, but execution failed: '' @
               (case payload_error payload of Some s \<Rightarrow> s | None \<Rightarrow> ''Unknown runtime error''), ''error'')
          else if status = ''timeout'' then
            (''status'', ''I received your message and I am still processing it. I will post results as soon as execution completes.'',
             ''processing'')
          else (case extract_reply_text payload of
                  Some t \<Rightarrow> (''text'', t, str_or status ''completed'')
                | None \<Rightarrow> (''status'', ''Execution accepted and completed. No textual response payload was returned by the runtime.'',
                     str_or status ''completed''))
      | Rejected msg out err \<Rightarrow>
          (''status'', ''I received your message, but I could not retrieve completion output yet: '' @
             (case payload_error (parse_gateway_json (opt_or out [])) of Some s \<Rightarrow> s
              | None \<Rightarrow> js_trim (opt_or err (opt_or out ''Unable to read completion status from coordinator runtime.''))),
           ''unknown''))"

definition wait_returns :: "env \<Rightarrow> chat_send \<Rightarrow> forward_info \<Rightarrow> string \<Rightarrow> command_promise \<Rightarrow> world \<Rightarrow> world \<times> chat_step" where
  "wait_returns e c f run_id p w =
     (case run_feedback p of (ty, text, status) \<Rightarrow>
        finish_message (cs_message c) (Some f)
          (status_reply e c ty text [(''status'', JStr status), (''runId'', JStr run_id)] w))"

fun gateway_returns :: "env \<Rightarrow> chat_pending \<Rightarrow> command_promise \<Rightarrow> world \<Rightarrow> world \<times> chat_step" where
  "gateway_returns e (Sending c) p w = send_returns e c p w"
| "gateway_returns e (Awaiting_Run c f run_id) p w = wait_returns e c f run_id p w"

section \<open>Reading messages\<close>

definition since_ok :: "string option \<Rightarrow> int \<Rightarrow> bool" where
  "since_ok since t =
     (case str_or_null since of None \<Rightarrow> True
      | Some s \<Rightarrow> (case parse_int s of None \<Rightarrow> False | Some n \<Rightarrow> t > n))"

definition chat_matches :: "(string \<Rightarrow> string option) \<Rightarrow> chat_message \<Rightarrow> bool" where
  "chat_matches query m =
     (param_ok (query ''conversation_id'') (Some (msg_conversation_id m)) \<and>
      param_ok (query ''from_agent'') (Some (msg_from m)) \<and> param_ok (query ''to_agent'') (msg_to m) \<and>
      since_ok (query ''since'') (msg_created_at m))"

definition get_messages ::
  "(int list \<Rightarrow> int list) \<Rightarrow> (string \<Rightarrow> string option) \<Rightarrow> env \<Rightarrow> request \<Rightarrow> world \<Rightarrow> world \<times> json response" where
  "get_messages scan query e r = with_role Viewer e r (\<lambda>user w.
     (case (parse_int (opt_or (query ''limit'') ''50''), parse_int (opt_or (query ''offset'') ''0'')) of
        (Some l, Some offset) \<Rightarrow>
          let limit = min l 200; d = dbase w;
              found = page_rows limit offset
                (order_asc scan (\<lambda>(i, m). msg_created_at m) (tbl_select (chat_matches query) (messages d)))
          in (w, Reply 200 (JObj
               [(''messages'', JArr (map (\<lambda>(i, m). chat_json i m) found)),
                (''total'', JInt (int (tbl_count (chat_matches query) (messages d)))),
                (''page'', if limit = 0 then JNull else JInt (offset div limit + 1)),
                (''limit'', JInt limit)]))
      | _ \<Rightarrow> (w, Fail 500 ''Failed to fetch messages'')))"

definition message_by :: "string \<Rightarrow> db \<Rightarrow> (int \<times> chat_message) option" where
  "message_by id_text d =
     (case parse_int id_text of None \<Rightarrow> None
      | Some i \<Rightarrow> map_option (Pair i) (tbl_get (messages d) i))"

definition get_message :: "string \<Rightarrow> env \<Rightarrow> request \<Rightarrow> world \<Rightarrow> world \<times> json response" where
  "get_message id_text e r = with_role Viewer e r (\<lambda>user w.
     (case message_by id_text (dbase w) of
        None \<Rightarrow> (w, Fail 404 ''Message not found'')
      | Some (i, m) \<Rightarrow> (w, Reply 200 (JObj [(''message'', chat_json i m)]))))"

text \<open>The body is the field \<open>read\<close>; \<open>None\<close> is a body that cannot be read.\<close>

definition read_message_with :: "string \<Rightarrow> json option option \<Rightarrow> world \<Rightarrow> world \<times> json response" where
  "read_message_with id_text body w =
     (case body of None \<Rightarrow> (w, Fail 500 ''Failed to update message'')
      | Some read \<Rightarrow>
     (case message_by id_text (dbase w) of
        None \<Rightarrow> (w, Fail 404 ''Message not found'')
      | Some (i, m) \<Rightarrow>
          let m' = (if jtruthy_opt read then m\<lparr>msg_read_at := Some (now_s w)\<rparr> else m);
              w' = (if jtruthy_opt read
                    then w\<lparr>dbase := (dbase w)\<lparr>messages :=
                           tbl_update i (\<lambda>m. m\<lparr>msg_read_at := Some (now_s w)\<rparr>) (messages (dbase w))\<rparr>\<rparr>
                    else w)
          in (w', Reply 200 (JObj [(''message'', chat_json i m')]))))"

definition patch_message :: "string \<Rightarrow> json option option \<Rightarrow> env \<Rightarrow> request \<Rightarrow> world \<Rightarrow> world \<times> json response" where
  "patch_message id_text body e r = with_role Operator e r (\<lambda>user. read_message_with id_text body)"

section \<open>Conversations\<close>

text \<open>The messages a participant sees in the list: sent, received, or sent to everyone.\<close>

definition concerns :: "string option \<Rightarrow> chat_message \<Rightarrow> bool" where
  "concerns agent_ref m =
     (case str_or_null agent_ref of None \<Rightarrow> True
      | Some a \<Rightarrow> msg_from m = a \<or> msg_to m = Some a \<or> msg_to m = None)"

record conversation =
  cv_id :: string
  cv_last_at :: int
  cv_messages :: nat
  cv_participants :: nat
  cv_unread :: nat

definition conversation_of :: "string option \<Rightarrow> string \<Rightarrow> chat_message list \<Rightarrow> conversation" where
  "conversation_of agent_ref conv ms =
     \<lparr>cv_id = conv, cv_last_at = Max (set (map msg_created_at ms)), cv_messages = length ms,
      cv_participants = length (remdups (map msg_from ms)) +
        length (remdups (concat (map (\<lambda>m. case msg_to m of None \<Rightarrow> [] | Some t \<Rightarrow> [t]) ms))),
      cv_unread = (case str_or_null agent_ref of None \<Rightarrow> 0
        | Some a \<Rightarrow> length (filter (\<lambda>m. msg_to m = Some a \<and> msg_read_at m = None) ms))\<rparr>"

definition conversation_list :: "(int list \<Rightarrow> int list) \<Rightarrow> string option \<Rightarrow> db \<Rightarrow> conversation list" where
  "conversation_list scan agent_ref d =
     (let seen = map snd (scan_rows scan (tbl_select (concerns agent_ref) (messages d)))
      in sort_key (\<lambda>c. - cv_last_at c)
           (map (\<lambda>conv. conversation_of agent_ref conv (filter (\<lambda>m. msg_conversation_id m = conv) seen))
             (remdups (map msg_conversation_id seen))))"

definition last_message :: "(int list \<Rightarrow> int list) \<Rightarrow> string \<Rightarrow> db \<Rightarrow> json" where
  "last_message scan conv d =
     (case order_desc scan (\<lambda>(i, m). msg_created_at m) (tbl_select (\<lambda>m. msg_conversation_id m = conv) (messages d)) of
        [] \<Rightarrow> JNull | (i, m) # _ \<Rightarrow> chat_json i m)"

definition conversation_json :: "(int list \<Rightarrow> int list) \<Rightarrow> db \<Rightarrow> conversation \<Rightarrow> json" where
  "conversation_json scan d c = JObj
     [(''conversation_id'', JStr (cv_id c)), (''last_message_at'', JInt (cv_last_at c)),
      (''message_count'', JInt (int (cv_messages c))), (''participant_count'', JInt (int (cv_participants c))),
      (''unread_count'', JInt (int (cv_unread c))), (''last_message'', last_message scan (cv_id c) d)]"

definition get_conversations ::
  "(int list \<Rightarrow> int list) \<Rightarrow> (string \<Rightarrow> string option) \<Rightarrow> env \<Rightarrow> request \<Rightarrow> world \<Rightarrow> world \<times> json response" where
  "get_conversations scan query e r = with_role Viewer e r (\<lambda>user w.
     (case (parse_int (opt_or (query ''limit'') ''50''), parse_int (opt_or (query ''offset'') ''0'')) of
        (Some l, Some offset) \<Rightarrow>
          let limit = min l 200; every = conversation_list scan (query ''agent'') (dbase w)
          in (w, Reply 200 (JObj
               [(''conversations'', JArr (map (conversation_json scan (dbase w)) (page_rows limit offset every))),
                (''total'', JInt (int (length every))),
                (''page'', if limit = 0 then JNull else JInt (offset div limit + 1)),
                (''limit'', JInt limit)]))
      | _ \<Rightarrow> (w, Fail 500 ''Failed to fetch conversations'')))"

end
