(* ===== verification/Json_Round_Trip.thy ===== *)
theory Json_Round_Trip
  imports Json_Parse
begin

text \<open>
  \<open>JSON.parse\<close> takes back what \<open>JSON.stringify\<close> writes, for values with whole numbers whose
  objects do not repeat a key: every text is cut into the tokens of its value, and the machine
  reads these tokens as that value whatever is open around it.
\<close>

fun plain_json :: "json \<Rightarrow> bool" where
  "plain_json JNull = True"
| "plain_json (JBool b) = True"
| "plain_json (JNum q) = (q = of_int \<lfloor>q\<rfloor>)"
| "plain_json (JStr s) = True"
| "plain_json (JArr xs) = list_all plain_json xs"
| "plain_json (JObj kvs) = (distinct (map fst kvs) \<and> list_all (\<lambda>(k, v). plain_json v) kvs)"

section \<open>Strings and numbers\<close>

lemma hex_val_hex_char: "n < 16 \<Longrightarrow> hex_val (hex_char n) = Some n"
  by (auto simp: hex_val_def hex_char_def of_char_of Let_def)

lemma hex4_control:
  assumes "n < 32"
  shows "hex4 (CHR ''0'' # CHR ''0'' # hex_char (n div 16) # hex_char (n mod 16) # r) = Some (n, r)"
proof -
  have "hex_val (CHR ''0'') = Some 0" by code_simp
  moreover have "hex_val (hex_char (n div 16)) = Some (n div 16)" "hex_val (hex_char (n mod 16)) = Some (n mod 16)"
    using assms by (intro hex_val_hex_char; simp)+
  ultimately show ?thesis by simp
qed

lemma read_string_simple:
  assumes "simple_escape x = Some c"
  shows "read_string ([CHR 0x5C, x] @ r) = map_option (\<lambda>(s, r'). (c # s, r')) (read_string r)"
proof -
  have "simple_escape (CHR ''u'') = None" by code_simp
  then have "x \<noteq> CHR ''u''" using assms by auto
  then show ?thesis using assms by (simp add: case_prod_beta)
qed

lemma read_string_escape:
  "read_string (escape_char c @ r) = map_option (\<lambda>(s, r'). (c # s, r')) (read_string r)"
proof -
  define n where "n = (of_char c :: nat)"
  have c: "c = char_of n" by (simp add: n_def)
  consider x where "escape_char c = [CHR 0x5C, x]" "simple_escape x = Some c"
    | "n < 32" "n \<noteq> 8" "n \<noteq> 9" "n \<noteq> 10" "n \<noteq> 12" "n \<noteq> 13"
    | "32 \<le> n" "n \<noteq> 34" "n \<noteq> 92"
  proof -
    let ?named = "[34, 92, 8, 9, 10, 12, 13 :: nat]"
    have "list_all (\<lambda>m. length (escape_char (char_of m)) = 2 \<and> hd (escape_char (char_of m)) = CHR 0x5C \<and>
        simple_escape (last (escape_char (char_of m))) = Some (char_of m)) ?named" by code_simp
    then have "escape_char c = [CHR 0x5C, last (escape_char c)] \<and> simple_escape (last (escape_char c)) = Some c"
      if "n \<in> set ?named"
      using that unfolding c list_all_iff by (auto simp: length_Suc_conv numeral_2_eq_2)
    then show ?thesis using that by (cases "n \<in> set ?named"; cases "n < 32") auto
  qed
  then show ?thesis
  proof cases
    case 1
    then show ?thesis using read_string_simple by simp
  next
    case 2
    have "utf8_bytes n = [c]" using 2 by (simp add: utf8_bytes_def c)
    then show ?thesis
      using 2 hex4_control [OF 2(1)]
      by (simp add: escape_char_def Let_def n_def [symmetric] case_prod_beta split: option.splits)
  next
    case 3
    then have "c \<noteq> CHR 0x22" "c \<noteq> CHR 0x5C" by (auto simp: n_def)
    then show ?thesis using 3 by (simp add: escape_char_def Let_def n_def [symmetric])
  qed
qed

lemma read_string_text: "read_string (concat (map escape_char s) @ CHR 0x22 # r) = Some (s, r)"
  by (induction s) (simp_all add: read_string_escape)

lemma tokens_of_string_text: "tokens_of (string_text s @ r) = map_option (Cons (Scalar (JStr s))) (tokens_of r)"
proof -
  have "\<not> json_white (CHR 0x22)" "\<not> punct_char (CHR 0x22)" by code_simp+
  then show ?thesis by (simp add: string_text_def read_string_text)
qed

text \<open>The digits of a whole number spell it, and begin with a zero only for zero.\<close>

lemma show_nat_digits:
  "all_digits (show_nat n) \<and> digits_value (show_nat n) = n \<and> show_nat n \<noteq> [] \<and>
   (hd (show_nat n) = CHR ''0'' \<longrightarrow> n = 0)"
proof (induction n rule: show_nat.induct)
  case (1 n)
  have digit: "digit_val (char_of (48 + d)) = Some d" if "d < 10" for d :: nat
    using that by (simp add: digit_val_def of_char_of)
  have zero: "(char_of (48 + d) = CHR ''0'') = (d = 0)" if "d < 10" for d :: nat
  proof
    assume "char_of (48 + d) = CHR ''0''"
    then have "(of_char (char_of (48 + d) :: char) :: nat) = of_char (CHR ''0'')" by simp
    then show "d = 0" using that by (simp add: of_char_of)
  next
    have "char_of (48 :: nat) = CHR ''0''" by code_simp
    then show "char_of (48 + d) = CHR ''0''" if "d = 0" using that by simp
  qed
  show ?case
  proof (cases "n < 10")
    case True
    then show ?thesis by (simp add: show_nat.simps [of n] digit zero all_digits_def digits_value_def)
  next
    case False
    have "n mod 10 < 10" "n div 10 \<noteq> 0" using False by auto
    then show ?thesis
      using 1 [OF False] False digit [of "n mod 10"]
      by (simp add: show_nat.simps [of n] all_digits_def digits_value_def)
  qed
qed

definition number_free :: "string \<Rightarrow> bool" where
  "number_free r = (r = [] \<or> \<not> number_char (hd r))"

lemma takeWhile_number: "list_all number_char s \<Longrightarrow> number_free r \<Longrightarrow> takeWhile number_char (s @ r) = s"
  by (cases r) (auto simp: number_free_def list_all_iff takeWhile_append2 takeWhile_eq_all_conv)

lemma dropWhile_number: "list_all number_char s \<Longrightarrow> number_free r \<Longrightarrow> dropWhile number_char (s @ r) = r"
  by (cases r) (auto simp: number_free_def list_all_iff dropWhile_append2)

lemma number_text_int: "number_text (of_int i) = show_int i"
  by (auto simp: number_text_def show_int_def Let_def)

lemma show_int_number: "list_all number_char (show_int i) \<and> show_int i \<noteq> []"
  using show_nat_digits [of "nat i"] show_nat_digits [of "nat (- i)"]
  by (auto simp: show_int_def all_digits_def number_char_def list_all_iff)

lemma digit_not: "digit_val c \<noteq> None \<Longrightarrow> c \<noteq> CHR ''e'' \<and> c \<noteq> CHR ''E'' \<and> c \<noteq> CHR ''-'' \<and> c \<noteq> CHR ''+''"
  by (auto simp: digit_val_def Let_def split: if_splits)

lemma json_number_digits:
  fixes s :: string and n :: nat
  assumes s: "s = show_nat n"
  shows "unsigned_number s = Some (of_nat n)" "takeWhile (\<lambda>c. c \<noteq> CHR ''e'' \<and> c \<noteq> CHR ''E'') s = s"
    "takeWhile (\<lambda>c. digit_val c \<noteq> None) s = s" "hd s \<noteq> CHR ''-''"
proof -
  have d: "list_all (\<lambda>c. digit_val c \<noteq> None) s" "s \<noteq> []" "digits_value s = n"
    using show_nat_digits [of n] by (simp_all add: s all_digits_def)
  show e: "takeWhile (\<lambda>c. c \<noteq> CHR ''e'' \<and> c \<noteq> CHR ''E'') s = s"
    using d(1) digit_not by (auto simp: takeWhile_eq_all_conv list_all_iff)
  show t: "takeWhile (\<lambda>c. digit_val c \<noteq> None) s = s"
    using d(1) by (auto simp: takeWhile_eq_all_conv list_all_iff)
  have "mantissa s = Some (of_nat n)" unfolding mantissa_def Let_def t by (simp add: d)
  then show "unsigned_number s = Some (of_nat n)" unfolding unsigned_number_def Let_def e by simp
  show "hd s \<noteq> CHR ''-''" using d(1,2) digit_not by (cases s) auto
qed

lemma json_number_int: "json_number (show_int i) = Some (of_int i)"
proof -
  have lead: "\<not> (show_nat n = [] \<or> (hd (show_nat n) = CHR ''0'' \<and> length (show_nat n) \<noteq> 1) \<or> ([] :: string) = ''.'')" for n
    using show_nat_digits [of n] show_nat.simps [of 0] by auto
  show ?thesis
  proof (cases "i < 0")
    case True
    then have "show_int i = CHR ''-'' # show_nat (nat (- i))" by (simp add: show_int_def)
    then show ?thesis
      unfolding json_number_def Let_def
      by (simp only: list.sel list.simps simp_thms if_True json_number_digits [OF refl] lead if_False drop_all order_refl
          option.map) (use True lead [of "nat (- i)"] in simp)
  next
    case False
    then have s: "show_int i = show_nat (nat i)" by (simp add: show_int_def)
    show ?thesis
      unfolding json_number_def Let_def s
      by (simp only: json_number_digits [OF refl] simp_thms lead if_False drop_all order_refl option.map) (use False in simp)
  qed
qed

lemma tokens_of_int:
  assumes "number_free r"
  shows "tokens_of (show_int i @ r) = map_option (Cons (Scalar (JNum (of_int i)))) (tokens_of r)"
proof -
  obtain c cs where s: "show_int i = c # cs" using show_int_number [of i] by (cases "show_int i") auto
  have n: "number_char c" "list_all number_char cs" using show_int_number [of i] by (simp_all add: s)
  have "\<not> json_white c \<and> \<not> punct_char c \<and> c \<noteq> CHR 0x22"
    using n(1) by (auto simp: number_char_def json_white_def punct_char_def digit_val_def Let_def split: if_splits)
  then show ?thesis
    using n json_number_int [of i] by (simp add: s takeWhile_number dropWhile_number assms)
qed

section \<open>Tokens of a value\<close>

fun separated :: "'a \<Rightarrow> 'a list list \<Rightarrow> 'a list" where
  "separated c [] = []"
| "separated c [xs] = xs"
| "separated c (xs # ys # rest) = xs @ c # separated c (ys # rest)"

lemma join_with_separated: "join_with [c] xs = separated c xs"
  by (induction c xs rule: separated.induct) (simp_all add: join_with_def)

fun json_tokens :: "json \<Rightarrow> token list" where
  "json_tokens (JArr xs) = Punct (CHR ''['') # separated (Punct (CHR '','')) (map json_tokens xs) @ [Punct (CHR '']'')]"
| "json_tokens (JObj kvs) =
     Punct (CHR ''{'') # separated (Punct (CHR '',''))
       (map (\<lambda>(k, v). Scalar (JStr k) # Punct (CHR '':'') # json_tokens v) kvs) @ [Punct (CHR ''}'')]"
| "json_tokens v = [Scalar v]"

lemma number_free_simps [simp]:
  "number_free []" "number_free (CHR '','' # r)" "number_free (CHR '']'' # r)" "number_free (CHR ''}'' # r)"
  by (simp_all add: number_free_def number_char_def digit_val_def)

lemma tokens_of_punct:
  "punct_char c \<Longrightarrow> tokens_of (c # r) = map_option (Cons (Punct c)) (tokens_of r)"
  by (auto simp: punct_char_def json_white_def)

lemma punct_chars [simp]:
  "punct_char (CHR '','')" "punct_char (CHR '':'')" "punct_char (CHR ''['')" "punct_char (CHR '']'')"
  "punct_char (CHR ''{'')" "punct_char (CHR ''}'')"
  by (simp_all add: punct_char_def)

lemma tokens_of_word:
  "tokens_of (''null'' @ r) = map_option (Cons (Scalar JNull)) (tokens_of r)"
  "tokens_of (''true'' @ r) = map_option (Cons (Scalar (JBool True))) (tokens_of r)"
  "tokens_of (''false'' @ r) = map_option (Cons (Scalar (JBool False))) (tokens_of r)"
  by (simp_all add: json_white_def punct_char_def number_char_def digit_val_def)

text \<open>Cutting a text, whatever follows it.\<close>

definition cut_as :: "string \<Rightarrow> token list \<Rightarrow> bool" where
  "cut_as s ts = (\<forall>r. number_free r \<longrightarrow> tokens_of (s @ r) = map_option (\<lambda>us. ts @ us) (tokens_of r))"

lemma cut_as_separated:
  "list_all (\<lambda>(s, ts). cut_as s ts) xs \<Longrightarrow>
   cut_as (separated (CHR '','') (map fst xs)) (separated (Punct (CHR '','')) (map snd xs))"
proof (induction "CHR '',''" "map fst xs" arbitrary: xs rule: separated.induct)
  case 1
  then show ?case by (simp add: cut_as_def option.map_ident)
next
  case 2
  then show ?case by auto
next
  case (3 a b rest)
  then obtain x y ys where xs: "xs = x # y # ys" "fst x = a" "fst y = b" "map fst ys = rest" by (auto simp: map_eq_Cons_conv)
  have "cut_as (separated (CHR '','') (b # rest)) (separated (Punct (CHR '','')) (map snd (y # ys)))"
    using 3(1) [of "y # ys"] 3(2,3) xs by simp
  moreover have "cut_as a (snd x)" using 3(3) xs by (auto simp: case_prod_beta)
  ultimately show ?case
    using xs by (simp add: cut_as_def tokens_of_punct option.map_comp comp_def del: tokens_of.simps)
qed

lemma cut_as_member:
  assumes "cut_as s ts"
  shows "cut_as (string_text k @ CHR '':'' # s) (Scalar (JStr k) # Punct (CHR '':'') # ts)"
  unfolding cut_as_def
proof (intro allI impI)
  fix r assume "number_free r"
  then show "tokens_of ((string_text k @ CHR '':'' # s) @ r) =
      map_option (\<lambda>us. (Scalar (JStr k) # Punct (CHR '':'') # ts) @ us) (tokens_of r)"
    using assms by (cases "tokens_of r")
      (simp_all add: cut_as_def tokens_of_string_text tokens_of_punct del: tokens_of.simps)
qed

lemma tokens_of_json_text: "plain_json v \<Longrightarrow> cut_as (json_text v) (json_tokens v)"
proof (induction v)
  case (JNum q)
  then obtain i where "q = of_int i" by auto
  then show ?case by (simp add: cut_as_def number_text_int tokens_of_int)
next
  case (JStr s)
  then show ?case by (simp add: cut_as_def tokens_of_string_text)
next
  case (JArr xs)
  have "list_all (\<lambda>(s, ts). cut_as s ts) (map (\<lambda>v. (json_text v, json_tokens v)) xs)"
    using JArr by (auto simp: list_all_iff)
  from cut_as_separated [OF this] show ?case
    by (simp add: cut_as_def tokens_of_punct option.map_comp comp_def join_with_separated del: tokens_of.simps)
next
  case (JObj kvs)
  have "list_all (\<lambda>(s, ts). cut_as s ts)
      (map (\<lambda>(k, v). (string_text k @ '':'' @ json_text v, Scalar (JStr k) # Punct (CHR '':'') # json_tokens v)) kvs)"
    unfolding list_all_iff list.set_map ball_simps
  proof (intro ballI)
    fix x assume x: "x \<in> set kvs"
    then have "cut_as (json_text (snd x)) (json_tokens (snd x))"
      using JObj(1) [of x "snd x"] JObj(2) by (auto simp: list_all_iff snds.simps)
    then show "case (case x of (k, v) \<Rightarrow> (string_text k @ '':'' @ json_text v, Scalar (JStr k) # Punct (CHR '':'') # json_tokens v))
        of (s, ts) \<Rightarrow> cut_as s ts"
      by (simp add: cut_as_member case_prod_beta)
  qed
  from cut_as_separated [OF this]
  have "cut_as (separated (CHR '','') (map (\<lambda>(k, v). string_text k @ '':'' @ json_text v) kvs))
      (separated (Punct (CHR '','')) (map (\<lambda>(k, v). Scalar (JStr k) # Punct (CHR '':'') # json_tokens v) kvs))"
    by (simp add: case_prod_unfold comp_def)
  then show ?case
    by (simp add: cut_as_def tokens_of_punct option.map_comp comp_def join_with_separated del: tokens_of.simps)
next
  case JNull
  then show ?case using tokens_of_word(1) by (simp add: cut_as_def del: tokens_of.simps)
next
  case (JBool b)
  then show ?case using tokens_of_word(2,3) by (simp add: cut_as_def del: tokens_of.simps)
qed

section \<open>Reading the tokens\<close>

lemma json_run_append:
  "json_run (ts @ us) st = (case json_run ts st of None \<Rightarrow> None | Some st' \<Rightarrow> json_run us st')"
  by (induction ts arbitrary: st) (simp_all split: option.splits)

text \<open>Reading a value, whatever is open around it.\<close>

definition reads :: "json \<Rightarrow> bool" where
  "reads v = (\<forall>fs. json_run (json_tokens v) (Expect fs) = Some (complete_value v fs))"

lemma json_tokens_Cons: "\<exists>t ts. json_tokens v = t # ts \<and> t \<noteq> Punct (CHR '']'')"
  by (cases v) simp_all

lemma first_elem:
  assumes "reads v"
  shows "json_run (json_tokens v) (First_Elem fs) = Some (Elems [v] fs)"
proof -
  obtain t ts where "json_tokens v = t # ts" "t \<noteq> Punct (CHR '']'')" using json_tokens_Cons by blast
  then have "json_run (json_tokens v) (First_Elem fs) = json_run (json_tokens v) (Expect (In_Array [] # fs))" by simp
  then show ?thesis using assms by (simp add: reads_def)
qed

lemma read_elems:
  "list_all reads xs \<Longrightarrow> xs \<noteq> [] \<Longrightarrow>
   json_run (separated (Punct (CHR '','')) (map json_tokens xs)) (Expect (In_Array ys # fs)) = Some (Elems (ys @ xs) fs)"
proof (induction xs arbitrary: ys rule: induct_list012)
  case (2 x)
  then show ?case by (simp add: reads_def)
next
  case (3 x y zs)
  then have "json_run (json_tokens x) (Expect (In_Array ys # fs)) = Some (Elems (ys @ [x]) fs)" by (simp add: reads_def)
  then show ?case using 3 by (simp add: json_run_append)
qed simp

lemma read_array:
  assumes "list_all reads xs"
  shows "reads (JArr xs)"
proof (cases xs)
  case Nil
  then show ?thesis by (simp add: reads_def)
next
  case (Cons x ys)
  have first: "json_run (json_tokens x) (First_Elem fs) = Some (Elems [x] fs)" for fs
    using first_elem assms Cons by simp
  show ?thesis
  proof (cases ys)
    case Nil
    then show ?thesis using first Cons by (simp add: reads_def json_run_append)
  next
    case (Cons y zs)
    then show ?thesis
      using first assms read_elems [of ys "[x]"] \<open>xs = x # ys\<close> by (simp add: reads_def json_run_append)
  qed
qed

abbreviation member_tokens :: "string \<times> json \<Rightarrow> token list" where
  "member_tokens \<equiv> \<lambda>(k, v). Scalar (JStr k) # Punct (CHR '':'') # json_tokens v"

lemma read_fields:
  "list_all (\<lambda>(k, v). reads v) kvs \<Longrightarrow> kvs \<noteq> [] \<Longrightarrow>
   json_run (separated (Punct (CHR '','')) (map member_tokens kvs)) (Next_Key ob fs) = Some (Fields (spread ob kvs) fs)"
proof (induction kvs arbitrary: ob rule: induct_list012)
  case (2 x)
  then show ?case by (cases x) (simp add: reads_def spread_def)
next
  case (3 x y zs)
  obtain k v where x: "x = (k, v)" by (cases x)
  have "json_run (json_tokens v) (Expect (In_Object ob k # fs)) = Some (Fields (obj_set k v ob) fs)"
    using 3(3) by (simp add: reads_def x)
  then show ?case using 3 by (simp add: json_run_append x spread_def)
qed simp

lemma obj_set_fresh: "k \<notin> fst ` set ob \<Longrightarrow> obj_set k v ob = ob @ [(k, v)]"
  by (induction ob) auto

lemma spread_fresh: "distinct (map fst (ob @ kvs)) \<Longrightarrow> spread ob kvs = ob @ kvs"
proof (induction kvs arbitrary: ob)
  case (Cons x kvs)
  obtain k v where x: "x = (k, v)" by (cases x)
  have "spread ob (x # kvs) = spread (ob @ [(k, v)]) kvs"
    using Cons.prems by (simp add: spread_def x obj_set_fresh)
  then show ?case using Cons.IH [of "ob @ [(k, v)]"] Cons.prems by (simp add: x)
qed simp

lemma read_object:
  assumes "list_all (\<lambda>(k, v). reads v) kvs" "distinct (map fst kvs)"
  shows "reads (JObj kvs)"
proof (cases kvs)
  case Nil
  then show ?thesis by (simp add: reads_def)
next
  case (Cons x ys)
  obtain t ts where t: "separated (Punct (CHR '','')) (map member_tokens kvs) = t # ts" "t \<noteq> Punct (CHR ''}'')"
    by (cases x; cases ys) (simp_all add: Cons)
  then have first: "json_run (t # ts) (First_Key fs) = Some (Fields kvs fs)" for fs
    using read_fields [OF assms(1), of "[]" fs] spread_fresh [of "[]" kvs] assms(2) Cons by simp
  have "json_run ((t # ts) @ [Punct (CHR ''}'')]) (First_Key fs) = Some (complete_value (JObj kvs) fs)" for fs
    unfolding json_run_append first by simp
  then show ?thesis unfolding reads_def json_tokens.simps t(1) by simp
qed

lemma plain_reads: "plain_json v \<Longrightarrow> reads v"
proof (induction v)
  case (JArr xs)
  then show ?case by (intro read_array) (simp add: list_all_iff)
next
  case (JObj kvs)
  then show ?case by (intro read_object) (fastforce simp: list_all_iff)+
qed (simp_all add: reads_def)

theorem parse_json_text: "plain_json v \<Longrightarrow> parse_json (json_text v) = Some v"
proof -
  assume "plain_json v"
  then have "tokens_of (json_text v) = Some (json_tokens v)" "json_run (json_tokens v) (Expect []) = Some (Finished v)"
    using tokens_of_json_text [of v] plain_reads [of v] unfolding cut_as_def reads_def
    by (auto dest!: spec [of _ "[]"])
  then show ?thesis by (simp add: parse_json_def)
qed

interpretation json_format: text_format json_text parse_json plain_json
  by unfold_locales (rule parse_json_text)

end
