(* ===== verification/Js_Text_Facts.thy ===== *)
theory Js_Text_Facts
  imports Js_Values
begin

text \<open>What trimming, splitting and joining do to a text.\<close>

section \<open>Trimming\<close>

lemma js_trim_parts: "\<exists>a b. s = a @ js_trim s @ b \<and> list_all js_white a \<and> list_all js_white b"
proof (intro exI conjI)
  let ?t = "dropWhile js_white s"
  have "s = takeWhile js_white s @ ?t" by simp
  also have "?t = js_trim s @ rev (takeWhile js_white (rev ?t))"
    unfolding js_trim_def by (metis rev_append rev_rev_ident takeWhile_dropWhile_id)
  finally show "s = takeWhile js_white s @ js_trim s @ rev (takeWhile js_white (rev ?t))" .
qed (auto simp: list_all_iff dest: set_takeWhileD)

lemma set_js_trim: "set (js_trim s) \<subseteq> set s"
  using js_trim_parts [of s] by (metis Un_iff set_append subsetI)

lemma js_trim_first: "js_trim s \<noteq> [] \<Longrightarrow> \<not> js_white (hd (js_trim s))"
proof -
  assume ne: "js_trim s \<noteq> []"
  let ?t = "dropWhile js_white s"
  obtain b where t: "?t = js_trim s @ b"
    unfolding js_trim_def by (metis rev_append rev_rev_ident takeWhile_dropWhile_id)
  have "?t \<noteq> []" using ne t by auto
  then have "\<not> js_white (hd ?t)" by (rule hd_dropWhile)
  then show ?thesis using ne by (simp add: t hd_append)
qed

lemma js_trim_last: "js_trim s \<noteq> [] \<Longrightarrow> \<not> js_white (last (js_trim s))"
  unfolding js_trim_def by (simp add: last_rev hd_dropWhile)

lemma dropWhile_keeps: "xs = [] \<or> \<not> P (hd xs) \<Longrightarrow> dropWhile P xs = xs"
  by (cases xs) auto

lemma js_trim_id: "s = [] \<or> \<not> js_white (hd s) \<and> \<not> js_white (last s) \<Longrightarrow> js_trim s = s"
proof -
  assume ends: "s = [] \<or> \<not> js_white (hd s) \<and> \<not> js_white (last s)"
  then have "dropWhile js_white s = s" "dropWhile js_white (rev s) = rev s"
    by (intro dropWhile_keeps, auto simp: hd_rev)+
  then show ?thesis by (simp add: js_trim_def)
qed

lemma js_trim_starts: "\<not> js_white c \<Longrightarrow> \<exists>rest. js_trim (c # s) = c # rest"
  by (simp add: js_trim_def dropWhile_append) (metis rev_rev_ident)

lemma js_trim_twice [simp]: "js_trim (js_trim s) = js_trim s"
  using js_trim_first js_trim_last by (intro js_trim_id) blast

lemma js_trim_skips:
  assumes "list_all js_white a" "\<not> js_white c"
  shows "\<exists>rest. js_trim (a @ c # s) = c # rest"
proof -
  have "dropWhile js_white (a @ c # s) = dropWhile js_white (c # s)"
    using assms by (induction a) simp_all
  then have "js_trim (a @ c # s) = js_trim (c # s)" by (simp only: js_trim_def)
  then show ?thesis using js_trim_starts [OF assms(2)] by simp
qed

lemma js_trim_Nil_iff: "js_trim s = [] \<longleftrightarrow> list_all js_white s"
proof
  assume "js_trim s = []"
  then show "list_all js_white s" using js_trim_parts [of s] by auto
qed (auto simp: js_trim_def list_all_iff dest: set_dropWhileD)

section \<open>Splitting and joining\<close>

lemma split_on_here: "d \<notin> set a \<Longrightarrow> split_on d (a @ d # b) = a # split_on d b"
  by (induction a) auto

lemma split_on_whole: "d \<notin> set a \<Longrightarrow> split_on d a = [a]"
  by (induction a) auto

lemma split_join:
  assumes "ws \<noteq> []" "list_all (\<lambda>w. d \<notin> set w) ws"
  shows "split_on d (join_with [d] ws) = ws"
  using assms
proof (induction ws rule: induct_list012)
  case (3 a b ws)
  then show ?case by (simp add: join_with_def split_on_here)
qed (simp_all add: join_with_def split_on_whole)

lemma split_parts: "s \<in> set (split_on d t) \<Longrightarrow> d \<notin> set s \<and> set s \<subseteq> set t"
proof (induction t arbitrary: s)
  case (Cons a t)
  obtain w ws where t: "split_on d t = w # ws" by (cases "split_on d t") auto
  have "d \<notin> set w \<and> set w \<subseteq> set t" "\<And>v. v \<in> set ws \<Longrightarrow> d \<notin> set v \<and> set v \<subseteq> set t"
    using Cons.IH t by simp_all
  then show ?case using Cons.prems t by (auto split: if_splits)
qed simp

lemma join_split: "join_with [d] (split_on d t) = t"
proof (induction t)
  case (Cons a t)
  then show ?case by (cases "split_on d t") (auto simp: join_with_def)
qed (simp add: join_with_def)

end
