(* ===== verification/Chat_Rules.thy ===== *)
theory Chat_Rules
  imports Chat Json_Round_Trip Js_Text_Facts
begin

text \<open>
  What the chat guarantees: the gateway's answer is found in the text around it, no answer or
  failure of the gateway loses a message, and a coordinator thread always shows feedback. The
  requests and the answers of the gateway interleave in any order; \<open>chat_state\<close> holds the requests
  that wait.
\<close>

section \<open>The gateway's answer in its output\<close>

lemma dropWhile_first: "c \<notin> set pre \<Longrightarrow> dropWhile (\<lambda>x. x \<noteq> c) (pre @ c # rest) = c # rest"
  by (induction pre) auto

lemma js_white_plain: "\<not> js_white (CHR ''{'')" "\<not> js_white (CHR ''}'')"
  by code_simp+

lemma dropWhile_white: "\<not> js_white c \<Longrightarrow> \<exists>pre'. dropWhile js_white (pre @ c # rest) = pre' @ c # rest \<and> set pre' \<subseteq> set pre"
proof (induction pre)
  case (Cons x pre)
  then show ?case
  proof (cases "js_white x")
    case False
    then have "dropWhile js_white ((x # pre) @ c # rest) = (x # pre) @ c # rest" by simp
    then show ?thesis by blast
  qed (use Cons in auto)
qed auto

lemma js_trim_between:
  assumes "\<not> js_white c" "\<not> js_white d"
  shows "\<exists>pre' post'. js_trim (pre @ c # mid @ d # post) = pre' @ c # mid @ d # post' \<and> set pre' \<subseteq> set pre \<and> set post' \<subseteq> set post"
proof -
  obtain pre' where p: "dropWhile js_white (pre @ c # mid @ d # post) = pre' @ c # mid @ d # post" "set pre' \<subseteq> set pre"
    using dropWhile_white [OF assms(1)] by blast
  obtain post' where q: "dropWhile js_white (rev post @ d # rev (pre' @ c # mid)) = post' @ d # rev (pre' @ c # mid)"
      "set post' \<subseteq> set (rev post)"
    using dropWhile_white [OF assms(2)] by blast
  then have "js_trim (pre @ c # mid @ d # post) = pre' @ c # mid @ d # rev post'"
    unfolding js_trim_def p(1) by simp
  then show ?thesis using p(2) q(2) by (metis set_rev)
qed

lemma object_text: "\<exists>mid. json_text (JObj kvs) = CHR ''{'' # mid @ [CHR ''}'']"
  by simp



section \<open>Frames\<close>

lemma create_chat_reply_frame [simp]:
  "messages (dbase (create_chat_reply conv f t c ty meta w)) =
     tbl_insert (new_chat_message conv f (Some t) c ty meta w) (messages (dbase w))"
  by (simp add: create_chat_reply_def insert_message_def Let_def)

lemma record_message_messages:
  "messages (dbase (record_message conv f t c ty meta w)) =
     tbl_insert (new_chat_message conv f t c ty meta w) (messages (dbase w))"
  by (simp add: record_message_def insert_message_def Let_def split: option.split)

lemma new_chat_message_simps [simp]:
  "msg_conversation_id (new_chat_message conv f t c ty meta w) = conv"
  "msg_from (new_chat_message conv f t c ty meta w) = f"
  "msg_to (new_chat_message conv f t c ty meta w) = t"
  "msg_content (new_chat_message conv f t c ty meta w) = c"
  by (simp_all add: new_chat_message_def)

lemma finish_message_world [simp]: "dbase (fst (finish_message mid f w)) = dbase w"
  by (simp add: finish_message_def split: option.split)

lemma coordinator_named: "coordinator_agent e \<noteq> []"
  by (simp add: coordinator_agent_def str_or_def)

section \<open>Interleaved requests\<close>

record chat_state =
  ch_world :: world
  ch_waiting :: "chat_pending list"

datatype chat_op =
    Send_Chat request "gateway_session list" "chat_body option"
  | Gateway_Answer nat command_promise
  | Mark_Read request string "json option option"

definition continue_chat :: "chat_pending list \<Rightarrow> world \<times> chat_step \<Rightarrow> chat_state" where
  "continue_chat ps x =
     \<lparr>ch_world = fst x, ch_waiting = ps @ (case snd x of Chat_Answered a \<Rightarrow> [] | Chat_Calling args p \<Rightarrow> [p])\<rparr>"

text \<open>One event at a given time.\<close>

definition chat_event ::
  "(int list \<Rightarrow> int list) \<Rightarrow> env \<Rightarrow> int \<times> chat_op \<Rightarrow> chat_state \<Rightarrow> chat_state" where
  "chat_event scan e x s =
     (let w = (ch_world s)\<lparr>clock := fst x\<rparr>; ps = ch_waiting s in
      case snd x of
        Send_Chat r stores body \<Rightarrow> continue_chat ps (begin_message scan stores body e r w)
      | Gateway_Answer k p \<Rightarrow>
          if k < length ps then continue_chat (take k ps @ drop (Suc k) ps) (gateway_returns e (ps ! k) p w) else s
      | Mark_Read r id_text body \<Rightarrow> s\<lparr>ch_world := fst (patch_message id_text body e r w)\<rparr>)"

fun request_of :: "chat_pending \<Rightarrow> chat_send" where
  "request_of (Sending c) = c"
| "request_of (Awaiting_Run c f run_id) = c"

definition pending_ok :: "db \<Rightarrow> chat_pending \<Rightarrow> bool" where
  "pending_ok d p \<longleftrightarrow>
     (case tbl_get (messages d) (cs_message (request_of p)) of None \<Rightarrow> False
      | Some m \<Rightarrow> msg_from m = cs_from (request_of p) \<and> msg_conversation_id m = cs_conversation (request_of p)) \<and>
     cs_from (request_of p) \<noteq> [] \<and>
     (case p of Sending c \<Rightarrow> True
      | Awaiting_Run c f run_id \<Rightarrow> coordinator_thread (cs_conversation c) \<and> fw_delivered f \<and> fw_run f = Some run_id)"

definition threads_ok :: "chat_message table \<Rightarrow> bool" where
  "threads_ok t \<longleftrightarrow> tbl_ok t \<and> list_all (\<lambda>(i, m). msg_from m \<noteq> [] \<and> msg_content m \<noteq> []) (rows t)"

definition chat_ok :: "chat_state \<Rightarrow> bool" where
  "chat_ok s \<longleftrightarrow> threads_ok (messages (dbase (ch_world s))) \<and> list_all (pending_ok (dbase (ch_world s))) (ch_waiting s)"

lemma threads_ok_insert:
  "threads_ok t \<Longrightarrow> msg_from m \<noteq> [] \<Longrightarrow> msg_content m \<noteq> [] \<Longrightarrow> threads_ok (tbl_insert m t)"
  by (simp add: threads_ok_def rows_insert)

lemma threads_ok_read: "threads_ok t \<Longrightarrow> threads_ok (tbl_update i (\<lambda>m. m\<lparr>msg_read_at := x\<rparr>) t)"
  by (auto simp: threads_ok_def rows_update list_all_iff split: if_splits)

lemma pending_ok_insert:
  assumes "pending_ok d p" "tbl_ok (messages d)" "messages d' = tbl_insert m (messages d)"
  shows "pending_ok d' p"
proof -
  have "tbl_get (messages d) (cs_message (request_of p)) \<noteq> None" using assms(1) by (auto simp: pending_ok_def split: option.splits)
  then have "cs_message (request_of p) \<noteq> tbl_last_id (messages d)" using assms(2) by (auto simp: tbl_last_id_def)
  then show ?thesis using assms by (simp add: pending_ok_def tbl_get_insert)
qed

lemma pending_ok_read:
  "pending_ok d p \<Longrightarrow> messages d' = tbl_update i (\<lambda>m. m\<lparr>msg_read_at := x\<rparr>) (messages d) \<Longrightarrow> pending_ok d' p"
  by (auto simp: pending_ok_def tbl_get_update split: option.splits)

lemma pending_ok_cong: "messages d' = messages d \<Longrightarrow> pending_ok d' p = pending_ok d p"
  by (simp add: pending_ok_def)

text \<open>The message of a waiting request is there, and survives what the coordinator adds.\<close>

lemma pending_message:
  assumes "pending_ok d p"
  obtains m where "tbl_get (messages d) (cs_message (request_of p)) = Some m" "msg_from m = cs_from (request_of p)"
    "msg_conversation_id m = cs_conversation (request_of p)"
  using assms by (auto simp: pending_ok_def split: option.splits)

lemma pending_awaits:
  "pending_ok d (Sending c) \<Longrightarrow> coordinator_thread (cs_conversation c) \<Longrightarrow> fw_delivered f \<Longrightarrow> fw_run f = Some r \<Longrightarrow>
   pending_ok d (Awaiting_Run c f r)"
  by (simp only: pending_ok_def request_of.simps) simp

text \<open>What one answer of the gateway does: one reply in a coordinator thread, none elsewhere; and
  the request is either answered or, after the first call only, waits for the run.\<close>

definition reply_to :: "env \<Rightarrow> chat_send \<Rightarrow> chat_message \<Rightarrow> bool" where
  "reply_to e c m \<longleftrightarrow> msg_conversation_id m = cs_conversation c \<and> msg_from m = coordinator_agent e \<and>
     msg_to m = Some (cs_from c) \<and> msg_content m \<noteq> []"

definition answered_with :: "chat_send \<Rightarrow> world \<Rightarrow> json response \<Rightarrow> bool" where
  "answered_with c w a \<longleftrightarrow> (\<exists>m f. tbl_get (messages (dbase w)) (cs_message c) = Some m \<and> msg_from m = cs_from c \<and>
     a = Reply 201 (JObj [(''message'', chat_json (cs_message c) m), (''forward'', forward_json (Some f))]) \<and>
     ev_type (last (bus w)) = ''chat.message'' \<and> ev_data (last (bus w)) = chat_json (cs_message c) m)"

lemma finish_answers:
  assumes "tbl_get (messages (dbase w)) (cs_message c) = Some m" "msg_from m = cs_from c"
  shows "\<exists>w' a. finish_message (cs_message c) (Some f) w = (w', Chat_Answered a) \<and> messages (dbase w') = messages (dbase w) \<and>
     answered_with c w' a"
  using assms by (auto simp: finish_message_def answered_with_def)

lemma status_reply_messages:
  "content \<noteq> [] \<Longrightarrow> \<exists>m. messages (dbase (status_reply e c ty content meta w)) = tbl_insert m (messages (dbase w)) \<and> reply_to e c m"
  by (rule exI [of _ "new_chat_message (cs_conversation c) (coordinator_agent e) (Some (cs_from c)) content ty (Some (JObj meta)) w"])
    (simp add: status_reply_def reply_to_def)

lemma finish_after_reply:
  assumes p: "pending_ok (dbase w) p" "tbl_ok (messages (dbase w))" and "content \<noteq> []"
  defines "c \<equiv> request_of p"
  shows "\<exists>w' a m. finish_message (cs_message c) (Some f) (status_reply e c ty content meta w) = (w', Chat_Answered a) \<and>
     messages (dbase w') = tbl_insert m (messages (dbase w)) \<and> reply_to e c m \<and> answered_with c w' a"
proof -
  let ?w = "status_reply e c ty content meta w"
  obtain m where m: "messages (dbase ?w) = tbl_insert m (messages (dbase w))" "reply_to e c m"
    using status_reply_messages [OF assms(3)] by blast
  obtain x where x: "tbl_get (messages (dbase w)) (cs_message c) = Some x" "msg_from x = cs_from c"
    using pending_message [OF p(1)] unfolding c_def by blast
  then have "tbl_get (messages (dbase ?w)) (cs_message c) = Some x" using tbl.insert_keeps [OF p(2)] by (simp add: m)
  then obtain w' a where "finish_message (cs_message c) (Some f) ?w = (w', Chat_Answered a)"
      "messages (dbase w') = messages (dbase ?w)" "answered_with c w' a"
    using finish_answers [OF _ x(2), of ?w f] by blast
  then show ?thesis using m by auto
qed

lemma first_text_nonempty: "first_text vs = Some t \<Longrightarrow> t \<noteq> []"
  by (induction vs rule: first_text.induct) (auto split: if_splits)

lemma run_feedback_text: "run_feedback p = (ty, said, status) \<Longrightarrow> said \<noteq> []"
  by (auto simp: run_feedback_def Let_def extract_reply_text_def dest!: first_text_nonempty
      split: command_promise.splits if_splits option.splits)

lemma gateway_answer_effect:
  assumes p: "pending_ok (dbase w) p" "tbl_ok (messages (dbase w))"
    and run: "gateway_returns e p x w = (w', st)"
  defines "c \<equiv> request_of p"
  shows "(if coordinator_thread (cs_conversation c)
          then \<exists>m. messages (dbase w') = tbl_insert m (messages (dbase w)) \<and> reply_to e c m
          else messages (dbase w') = messages (dbase w)) \<and>
     (case st of Chat_Answered a \<Rightarrow> answered_with c w' a
      | Chat_Calling args q \<Rightarrow> p = Sending c \<and> (\<exists>f r. q = Awaiting_Run c f r) \<and> pending_ok (dbase w') q)"
proof -
  obtain m0 where m0: "tbl_get (messages (dbase w)) (cs_message c) = Some m0" "msg_from m0 = cs_from c"
    using pending_message [OF p(1)] unfolding c_def by blast
  note fin = finish_answers [OF m0]
  note rep = finish_after_reply [OF p, folded c_def]
  show ?thesis
  proof (cases p)
    case (Awaiting_Run c' f r)
    then have c: "c' = c" "coordinator_thread (cs_conversation c)" using p(1) by (simp_all add: c_def pending_ok_def)
    obtain ty said status where fb: "run_feedback x = (ty, said, status)" by (cases "run_feedback x")
    show ?thesis
      using run rep [OF run_feedback_text [OF fb], of f e ty "[(''status'', JStr status), (''runId'', JStr r)]"] c
      by (auto simp: Awaiting_Run wait_returns_def fb)
  next
    case (Sending c')
    then have c: "c' = c" by (simp add: c_def)
    let ?f = "forward_outcome c x"
    consider "\<not> fw_delivered ?f" "coordinator_thread (cs_conversation c)" | "\<not> coordinator_thread (cs_conversation c)"
      | "fw_delivered ?f" "coordinator_thread (cs_conversation c)" "fw_run ?f = None"
      | r where "fw_delivered ?f" "coordinator_thread (cs_conversation c)" "fw_run ?f = Some r" by fastforce
    then show ?thesis
    proof cases
      case 1
      show ?thesis
        using run rep [of "''I received your message, but delivery to the live coordinator runtime failed. Please restart the coordinator/gateway session and retry.''"
          ?f e "''status''" "[(''status'', JStr ''delivery_failed''), (''reason'', JStr ''gateway_send_failed'')]"] 1
        by (auto simp: Sending c send_returns_def)
    next
      case 2
      then have "send_returns e c x w = finish_message (cs_message c) (Some ?f) w" by (simp add: send_returns_def Let_def)
      then show ?thesis using run fin [of ?f] 2 by (auto simp: Sending c)
    next
      case 3
      then show ?thesis
        using run rep [of "''Received. I am coordinating downstream agents now.''" ?f e "''status''"
          "[(''status'', JStr ''accepted''), (''runId'', JNull)]"]
        by (auto simp: Sending c send_returns_def)
    next
      case 4
      let ?w = "status_reply e c ''status'' ''Received. I am coordinating downstream agents now.''
          [(''status'', JStr ''accepted''), (''runId'', JStr r)] w"
      obtain m where m: "messages (dbase ?w) = tbl_insert m (messages (dbase w))" "reply_to e c m"
        using status_reply_messages [of "''Received. I am coordinating downstream agents now.''"] by blast
      have "pending_ok (dbase ?w) p" by (rule pending_ok_insert [OF p m(1)])
      then have "pending_ok (dbase ?w) (Awaiting_Run c ?f r)"
        unfolding Sending c by (rule pending_awaits [OF _ 4(2,1,3)])
      then show ?thesis using run m 4 by (auto simp: Sending c send_returns_def)
    qed
  qed
qed

section \<open>The invariant of the chat\<close>

text \<open>The name at the gateway is never empty, so the branch \<open>no_active_session\<close> is never taken.\<close>

lemma dash_white_nonempty: "s \<noteq> [] \<Longrightarrow> dash_white False s \<noteq> []"
  by (cases s) simp_all

lemma agent_id_never_empty: "to_name \<noteq> [] \<Longrightarrow> chat_agent_id found to_name \<noteq> []"
  by (auto simp: chat_agent_id_def openclaw_id_def js_lower_def str_or_def dash_white_nonempty
      split: option.splits json.splits)

lemma str_or_null_nonempty: "str_or_null t = Some u \<Longrightarrow> u \<noteq> []"
  by simp

lemma begin_message_with_effect:
  assumes "tbl_ok (messages (dbase w))" "begin_message_with e scan stores body w = (w', st)"
  shows "messages (dbase w') = messages (dbase w) \<or>
      (\<exists>m. messages (dbase w') = tbl_insert m (messages (dbase w)) \<and> msg_from m \<noteq> [] \<and> msg_content m \<noteq> [])"
    and "st = Chat_Calling args p \<Longrightarrow> pending_ok (dbase w') p"
proof -
  have "(messages (dbase w') = messages (dbase w) \<or>
      (\<exists>m. messages (dbase w') = tbl_insert m (messages (dbase w)) \<and> msg_from m \<noteq> [] \<and> msg_content m \<noteq> [])) \<and>
      (\<forall>args p. st = Chat_Calling args p \<longrightarrow> pending_ok (dbase w') p)"
  proof (cases "\<exists>a. (w', st) = (w, Chat_Answered a)")
    case False
    then obtain b f t c where b: "body = Some b" "trimmed (pm_from b) = Inr f" "trimmed (pm_to b) = Inr t"
        "trimmed (pm_content b) = Inr c" "opt_or f [] \<noteq> []" "opt_or c [] \<noteq> []"
      using assms(2) unfolding begin_message_with_def by (auto simp: Let_def split: option.splits sum.splits if_splits)
    define w1 where "w1 = record_message (opt_or (pm_conversation b) (''conv_'' @ show_int (clock w))) (opt_or f []) t (opt_or c [])
        (opt_or (pm_type b) ''text'') (pm_metadata b) w"
    let ?mid = "tbl_last_id (messages (dbase w))"
    have m: "\<exists>m. messages (dbase w1) = tbl_insert m (messages (dbase w)) \<and> msg_from m = opt_or f [] \<and> msg_content m = opt_or c [] \<and>
        msg_conversation_id m = opt_or (pm_conversation b) (''conv_'' @ show_int (clock w))"
      unfolding w1_def record_message_messages by auto
    have run: "(w', st) = (case str_or_null t of None \<Rightarrow> finish_message ?mid None w1
        | Some u \<Rightarrow> if \<not> jtruthy_opt (pm_forward b) then finish_message ?mid None w1
            else let found = agent_by_lower_name scan u (dbase w1);
                   c1 = \<lparr>cs_message = ?mid, cs_conversation = opt_or (pm_conversation b) (''conv_'' @ show_int (clock w)),
                     cs_from = opt_or f [], cs_session = chat_session found u stores, cs_agent_id = chat_agent_id found u\<rparr>
                 in (w1, Chat_Calling (send_call c1 (opt_or c []) (clock w1)) (Sending c1)))"
      unfolding assms(2) [symmetric] begin_message_with_def using b
      by (cases "str_or_null t") (simp_all add: Let_def w1_def agent_id_never_empty str_or_null_nonempty del: str_or_null_Some_iff)
    have "dbase w' = dbase w1"
      using arg_cong [OF run, of "\<lambda>x. dbase (fst x)"] by (simp add: Let_def split: option.split)
    moreover have "pending_ok (dbase w1) p" if "st = Chat_Calling args p" for args p
    proof -
      have "\<exists>c1. p = Sending c1 \<and> cs_message c1 = ?mid \<and> cs_from c1 = opt_or f [] \<and>
          cs_conversation c1 = opt_or (pm_conversation b) (''conv_'' @ show_int (clock w))"
        using run that by (auto simp: finish_message_def Let_def split: option.splits if_splits)
      then show ?thesis using m assms(1) b by (auto simp: pending_ok_def tbl_get_insert)
    qed
    ultimately show ?thesis using m b by auto
  qed auto
  then show "messages (dbase w') = messages (dbase w) \<or>
      (\<exists>m. messages (dbase w') = tbl_insert m (messages (dbase w)) \<and> msg_from m \<noteq> [] \<and> msg_content m \<noteq> [])"
    "st = Chat_Calling args p \<Longrightarrow> pending_ok (dbase w') p" by auto
qed

lemma begin_message_effect:
  assumes "tbl_ok (messages (dbase w))" "begin_message scan stores body e r w = (w', st)"
  shows "messages (dbase w') = messages (dbase w) \<or>
      (\<exists>m. messages (dbase w') = tbl_insert m (messages (dbase w)) \<and> msg_from m \<noteq> [] \<and> msg_content m \<noteq> [])"
    and "st = Chat_Calling args p \<Longrightarrow> pending_ok (dbase w') p"
  using assms begin_message_with_effect by (auto simp: begin_message_def split: access.splits)

lemma read_message_effect:
  "messages (dbase (fst (read_message_with id_text body w))) = messages (dbase w) \<or>
   (\<exists>i x. messages (dbase (fst (read_message_with id_text body w))) =
      tbl_update i (\<lambda>m. m\<lparr>msg_read_at := x\<rparr>) (messages (dbase w)))"
  by (auto simp: read_message_with_def Let_def split: option.split)

text \<open>Adding a message or marking one as read keeps the other requests' messages.\<close>

definition thread_step :: "chat_message table \<Rightarrow> chat_message table \<Rightarrow> bool" where
  "thread_step t t' \<longleftrightarrow> t' = t \<or> (\<exists>m. t' = tbl_insert m t \<and> msg_from m \<noteq> [] \<and> msg_content m \<noteq> []) \<or>
     (\<exists>i x. t' = tbl_update i (\<lambda>m. m\<lparr>msg_read_at := x\<rparr>) t)"

lemma thread_step_ok: "thread_step t t' \<Longrightarrow> threads_ok t \<Longrightarrow> threads_ok t'"
  by (auto simp: thread_step_def threads_ok_insert threads_ok_read)

lemma thread_step_pending:
  assumes "thread_step (messages d) (messages d')" "tbl_ok (messages d)" "pending_ok d p"
  shows "pending_ok d' p"
proof -
  consider "messages d' = messages d" | m where "messages d' = tbl_insert m (messages d)"
    | i x where "messages d' = tbl_update i (\<lambda>m. m\<lparr>msg_read_at := x\<rparr>) (messages d)"
    using assms(1) by (auto simp: thread_step_def)
  then show ?thesis
  proof cases
    case 1
    then show ?thesis using assms(3) pending_ok_cong by blast
  next
    case (2 m)
    then show ?thesis by (rule pending_ok_insert [OF assms(3,2)])
  next
    case (3 i x)
    then show ?thesis by (rule pending_ok_read [OF assms(3)])
  qed
qed

lemma chat_ok_continue:
  assumes "threads_ok (messages (dbase w))" "list_all (pending_ok (dbase w)) ps"
    "thread_step (messages (dbase w)) (messages (dbase w'))" "\<And>args p. st = Chat_Calling args p \<Longrightarrow> pending_ok (dbase w') p"
  shows "chat_ok (continue_chat ps (w', st))"
proof -
  have "pending_ok (dbase w') p" if "p \<in> set ps" for p
    using thread_step_pending [OF assms(3)] assms(1,2) that by (auto simp: threads_ok_def list_all_iff)
  then show ?thesis
    using thread_step_ok [OF assms(3,1)] assms(4)
    by (auto simp: chat_ok_def continue_chat_def list_all_iff split: chat_step.split)
qed

lemma reply_thread_step:
  "reply_to e c m \<Longrightarrow> thread_step t (tbl_insert m t)"
  unfolding thread_step_def reply_to_def using coordinator_named by (intro disjI2 disjI1 exI [of _ m]) auto

lemma chat_event_ok: "chat_ok s \<Longrightarrow> chat_ok (chat_event scan e x s)"
proof -
  assume ok: "chat_ok s"
  define w where "w = (ch_world s)\<lparr>clock := fst x\<rparr>"
  have t: "threads_ok (messages (dbase w))" "list_all (pending_ok (dbase w)) (ch_waiting s)" "tbl_ok (messages (dbase w))"
    using ok by (simp_all add: chat_ok_def w_def threads_ok_def)
  show ?thesis
  proof (cases "snd x")
    case (Send_Chat r stores body)
    obtain w' st where b: "begin_message scan stores body e r w = (w', st)" by fastforce
    have "thread_step (messages (dbase w)) (messages (dbase w'))"
      using begin_message_effect(1) [OF t(3) b] by (auto simp: thread_step_def)
    then show ?thesis
      using chat_ok_continue [OF t(1,2)] begin_message_effect(2) [OF t(3) b]
      by (simp add: chat_event_def Let_def Send_Chat w_def [symmetric] b)
  next
    case (Gateway_Answer k p)
    show ?thesis
    proof (cases "k < length (ch_waiting s)")
      case True
      let ?ps = "take k (ch_waiting s) @ drop (Suc k) (ch_waiting s)"
      have pk: "pending_ok (dbase w) (ch_waiting s ! k)" using t(2) True by (simp add: list_all_length)
      obtain w' st where g: "gateway_returns e (ch_waiting s ! k) p w = (w', st)" by fastforce
      note eff = gateway_answer_effect [OF pk t(3) g]
      have grow: "thread_step (messages (dbase w)) (messages (dbase w'))"
      proof (cases "coordinator_thread (cs_conversation (request_of (ch_waiting s ! k)))")
        case True
        then show ?thesis using eff reply_thread_step by auto
      next
        case False
        then show ?thesis using eff by (simp add: thread_step_def)
      qed
      have rest: "list_all (pending_ok (dbase w)) ?ps"
        using t(2) by (auto simp: list_all_iff dest: in_set_takeD in_set_dropD)
      have wait: "pending_ok (dbase w') q" if "st = Chat_Calling args q" for args q using eff that by simp
      have "chat_ok (continue_chat ?ps (w', st))" by (rule chat_ok_continue [OF t(1) rest grow]) (rule wait)
      then show ?thesis using True by (simp add: chat_event_def Let_def Gateway_Answer w_def [symmetric] g)
    qed (use ok in \<open>simp add: chat_event_def Let_def Gateway_Answer\<close>)
  next
    case (Mark_Read r id_text body)
    let ?w = "fst (patch_message id_text body e r w)"
    have "thread_step (messages (dbase w)) (messages (dbase ?w))"
      using read_message_effect [of id_text body w]
      by (auto simp: patch_message_def with_role_def thread_step_def split: access.split)
    then show ?thesis
      using chat_ok_continue [OF t(1,2), of ?w "Chat_Answered Crash"]
      by (simp add: chat_event_def Let_def Mark_Read w_def [symmetric] continue_chat_def chat_ok_def)
  qed
qed

interpretation chat: invariant_machine "chat_event scan e" chat_ok for scan e
  by unfold_locales (rule chat_event_ok)

definition sample_chat :: chat_body where
  "sample_chat = \<lparr>pm_from = Some (JStr ''ada''), pm_to = Some (JStr ''Boss''), pm_content = Some (JStr ''status?''),
     pm_type = None, pm_conversation = Some ''coord:ada'', pm_metadata = None, pm_forward = Some (JBool True)\<rparr>"

definition sample_waiting :: chat_state where
  "sample_waiting = chat_event (\<lambda>xs. xs) sample_env (5000, Send_Chat admin_request [] (Some sample_chat))
     \<lparr>ch_world = world_at 0, ch_waiting = []\<rparr>"

lemma sample_begins:
  "\<exists>w' args c. begin_message (\<lambda>xs. xs) [] (Some sample_chat) sample_env admin_request w = (w', Chat_Calling args (Sending c)) \<and>
     cs_from c = ''ada'' \<and> cs_conversation c = ''coord:ada''"
proof -
  have "with_role Operator sample_env admin_request (\<lambda>u w. (w, Reply 200 u)) w = (w, Reply 200 api_user)"
    by (rule admin_granted)
  then have "require_role sample_env admin_request Operator w = Granted api_user"
    by (simp add: with_role_def split: access.splits)
  moreover have "trimmed (Some (JStr ''ada'')) = Inr (Some ''ada'')" "trimmed (Some (JStr ''Boss'')) = Inr (Some ''Boss'')"
    "trimmed (Some (JStr ''status?'')) = Inr (Some ''status?'')" by code_simp+
  ultimately show ?thesis
    by (simp add: begin_message_def begin_message_with_def sample_chat_def opt_or_def str_or_def str_or_null_def
        jtruthy_opt_def Let_def agent_id_never_empty)
qed

text \<open>
  Claim C13. No answer of the gateway loses a message, and a coordinator thread always shows
  feedback. After any sequence of sent messages, gateway answers and read marks, whatever the
  gateway's command does for a waiting request (succeeds with any output, fails, cannot be
  started): in a thread \<open>coord:\<close> exactly one message is added, from the coordinator to the sender;
  elsewhere none. The request is then answered with status 201, its stored message and the
  forward information, and that message is broadcast; only the first answer can make it wait, once
  more.
\<close>

theorem gateway_loses_nothing:
  fixes w w' :: world
  assumes "threads_ok (messages (dbase w))"
    and "s = fold (chat_event scan e) evs \<lparr>ch_world = w, ch_waiting = []\<rparr>"
    and "k < length (ch_waiting s)" "c = request_of (ch_waiting s ! k)"
    and "gateway_returns e (ch_waiting s ! k) p (ch_world s) = (w', st)"
  shows "(if coordinator_thread (cs_conversation c)
          then \<exists>m. messages (dbase w') = tbl_insert m (messages (dbase (ch_world s))) \<and> reply_to e c m
          else messages (dbase w') = messages (dbase (ch_world s))) \<and>
     (case st of Chat_Answered a \<Rightarrow> answered_with c w' a
      | Chat_Calling args q \<Rightarrow> ch_waiting s ! k = Sending c \<and> (\<exists>f r. q = Awaiting_Run c f r))"
proof -
  have "chat_ok s" unfolding assms(2) by (rule chat.run_inv) (simp add: chat_ok_def assms(1))
  then have "pending_ok (dbase (ch_world s)) (ch_waiting s ! k)" "tbl_ok (messages (dbase (ch_world s)))"
    using assms(3) by (simp_all add: chat_ok_def threads_ok_def list_all_length)
  from gateway_answer_effect [OF this assms(5)] show ?thesis
    unfolding assms(4) by (auto split: chat_step.splits)
qed

theorem gateway_loses_nothing_witness:
  "\<exists>m a. messages (dbase (fst (gateway_returns sample_env (hd (ch_waiting sample_waiting)) (Rejected ''no route'' None None)
       (ch_world sample_waiting)))) = tbl_insert m (messages (dbase (ch_world sample_waiting))) \<and>
     msg_from m = ''coordinator'' \<and> msg_to m = Some ''ada'' \<and>
     answered_with (request_of (hd (ch_waiting sample_waiting)))
       (fst (gateway_returns sample_env (hd (ch_waiting sample_waiting)) (Rejected ''no route'' None None) (ch_world sample_waiting))) a"
proof -
  let ?p = "Rejected ''no route'' None None"
  obtain w' st where g: "gateway_returns sample_env (hd (ch_waiting sample_waiting)) ?p (ch_world sample_waiting) = (w', st)"
    by fastforce
  obtain c1 where c1: "ch_waiting sample_waiting = [Sending c1]" "cs_from c1 = ''ada''" "cs_conversation c1 = ''coord:ada''"
    using sample_begins [of "(world_at 0)\<lparr>clock := 5000\<rparr>"] by (auto simp: sample_waiting_def chat_event_def continue_chat_def)
  then have k: "0 < length (ch_waiting sample_waiting)" "hd (ch_waiting sample_waiting) = ch_waiting sample_waiting ! 0" by simp_all
  have ok: "threads_ok (messages (dbase (world_at 0)))" by (simp add: world_at_def db_empty_def threads_ok_def tbl_empty_def tbl_ok_def tbl_ids_def)
  have s: "sample_waiting = fold (chat_event (\<lambda>xs. xs) sample_env) [(5000, Send_Chat admin_request [] (Some sample_chat))]
      \<lparr>ch_world = world_at 0, ch_waiting = []\<rparr>" by (simp add: sample_waiting_def)
  have c: "cs_conversation (request_of (hd (ch_waiting sample_waiting))) = ''coord:ada''"
    "cs_from (request_of (hd (ch_waiting sample_waiting))) = ''ada''" by (simp_all add: c1)
  have coord: "coordinator_agent sample_env = ''coordinator''" by code_simp
  have "\<not> accepted_text []" by code_simp
  then obtain a where a: "st = Chat_Answered a"
    using g by (auto simp: c1 send_returns_def forward_outcome_def opt_or_def finish_message_def split: option.splits)
  let ?c = "request_of (hd (ch_waiting sample_waiting))"
  have "coordinator_thread (cs_conversation ?c)" by (simp add: c coordinator_thread_def)
  then obtain m where "messages (dbase w') = tbl_insert m (messages (dbase (ch_world sample_waiting)))" "reply_to sample_env ?c m"
      "answered_with ?c w' a"
    using gateway_loses_nothing [OF ok s k(1) refl g [unfolded k(2)]] unfolding k(2) [symmetric] a by (auto simp only: if_True chat_step.case)
  then show ?thesis unfolding g reply_to_def c coord fst_conv by (intro exI [of _ m] exI [of _ a] conjI) simp_all
qed

section \<open>Further facts\<close>

text \<open>Two agents who answer each other count as four participants.\<close>

lemma participants_counted_twice:
  "cv_participants (conversation_of None ''c''
     [\<lparr>msg_conversation_id = ''c'', msg_from = ''a'', msg_to = Some ''b'', msg_content = ''hi'', msg_type = ''text'',
       msg_metadata = None, msg_read_at = None, msg_created_at = 1\<rparr>,
      \<lparr>msg_conversation_id = ''c'', msg_from = ''b'', msg_to = Some ''a'', msg_content = ''ho'', msg_type = ''text'',
       msg_metadata = None, msg_read_at = None, msg_created_at = 2\<rparr>]) = 4"
  by code_simp

end
