(* ===== verification/Config.thy ===== *)
theory Config
  imports Provisioning
begin

text \<open>
  \<open>lib/config.ts\<close>: the directories of the gateway's installation, from the environment. What
  depends on the working directory or on the home directory of the process is an argument where
  it is used; the retention times are in the theory of the scheduler, which reads them.
\<close>

definition openclaw_home :: "env \<Rightarrow> string" where
  "openclaw_home e =
     env_or e ''OPENCLAW_HOME'' (env_or e ''CLAWDBOT_HOME'' (env_or e ''MISSION_CONTROL_OPENCLAW_HOME'' []))"

definition below_home :: "env \<Rightarrow> string list \<Rightarrow> string" where
  "below_home e names = (if openclaw_home e = [] then [] else path_join (openclaw_home e # names))"

definition logs_dir :: "env \<Rightarrow> string" where
  "logs_dir e = env_or e ''OPENCLAW_LOG_DIR'' (below_home e [''logs''])"

definition memory_dir :: "env \<Rightarrow> string" where
  "memory_dir e = env_or e ''OPENCLAW_MEMORY_DIR'' (below_home e [''memory''])"

definition soul_templates_dir :: "env \<Rightarrow> string" where
  "soul_templates_dir e = env_or e ''OPENCLAW_SOUL_TEMPLATES_DIR'' (below_home e [''templates'', ''souls''])"

end
