(* ===== verification/Host_Files.thy ===== *)
theory Host_Files
  imports Config Tasks
begin

text \<open>
  Handlers that read and write a file of the host: they take the file and give the one they
  leave, beside the world and the answer. The checks in front of a handler know nothing of the
  file, which therefore travels inside the answer they let through. Reading and writing the file
  is part of the handler's one step.
\<close>

type_synonym ('f, 'b) on_file = "'f \<Rightarrow> world \<Rightarrow> world \<times> 'f \<times> 'b response"

definition carry :: "world \<times> 'f \<times> 'b response \<Rightarrow> world \<times> ('f \<times> 'b response) response" where
  "carry x = (case x of (w, f, a) \<Rightarrow> (w, Reply 200 (f, a)))"

definition unpack :: "'f \<Rightarrow> world \<times> ('f \<times> 'b response) response \<Rightarrow> world \<times> 'f \<times> 'b response" where
  "unpack f x =
     (case x of
        (w, Reply s (f', a)) \<Rightarrow> (w, f', a)
      | (w, Err s m d) \<Rightarrow> (w, f, Err s m d)
      | (w, Crash) \<Rightarrow> (w, f, Crash))"

definition file_with_role :: "role \<Rightarrow> env \<Rightarrow> request \<Rightarrow> (auth_user \<Rightarrow> ('f, 'b) on_file) \<Rightarrow> ('f, 'b) on_file" where
  "file_with_role m e r h f w = unpack f (with_role m e r (\<lambda>user w. carry (h user f w)) w)"

definition file_with_limit :: "limiter \<Rightarrow> env \<Rightarrow> request \<Rightarrow> ('f, 'b) on_file \<Rightarrow> ('f, 'b) on_file" where
  "file_with_limit l e r h f w = unpack f (with_limit l e r (\<lambda>w. carry (h f w)) w)"

definition file_with_body :: "'a validated \<Rightarrow> ('a \<Rightarrow> ('f, 'b) on_file) \<Rightarrow> ('f, 'b) on_file" where
  "file_with_body body h f w = unpack f (with_body body (\<lambda>b w. carry (h b f w)) w)"

lemma unpack_carry [simp]: "unpack f (carry x) = x"
  by (simp add: unpack_def carry_def split: prod.split)

definition left_file :: "world \<times> 'f \<times> 'b response \<Rightarrow> 'f" where
  "left_file x = fst (snd x)"

lemma left_file_simp [simp]: "left_file (w, f, a) = f"
  by (simp add: left_file_def)

lemma refused_file [simp]:
  "left_file (unpack f (w, Err s m d)) = f" "left_file (unpack f (w, Crash)) = f"
  by (simp_all add: unpack_def)

lemma file_with_role_keeps:
  assumes "P f" "\<And>user w. P (left_file (h user f w))"
  shows "P (left_file (file_with_role m e r h f w))"
  using assms by (cases "require_role e r m w") (simp_all add: file_with_role_def with_role_def)

lemma file_with_body_keeps:
  assumes "P f" "\<And>b w. P (left_file (h b f w))"
  shows "P (left_file (file_with_body body h f w))"
  using assms by (cases body) (simp_all add: file_with_body_def with_body_def)

lemma file_with_limit_keeps:
  assumes "P f" "\<And>w. P (left_file (h f w))"
  shows "P (left_file (file_with_limit l e r h f w))"
proof -
  obtain w1 a where c: "check_rate_limit l e r w = (w1, a :: ('a \<times> 'b response) response option)" by fastforce
  have refused: "P (left_file (unpack f (w1, resp)))" if "a = Some resp" for resp
    using c that assms(1) by (auto simp: check_rate_limit_def Let_def split: option.splits if_splits)
  show ?thesis
    using c refused assms(2)
    by (cases a) (simp_all add: file_with_limit_def with_limit_def)
qed

text \<open>What holds of a refusal that leaves the file, and of the handler, holds of the guarded handler.\<close>

definition holds_refused :: "(world \<times> 'f \<times> 'b response \<Rightarrow> bool) \<Rightarrow> 'f \<Rightarrow> bool" where
  "holds_refused P f \<longleftrightarrow> (\<forall>w s m d. P (w, f, Err s m d)) \<and> (\<forall>w. P (w, f, Crash))"

lemma file_with_role_all:
  assumes "holds_refused P f" "\<And>user w. P (h user f w)"
  shows "P (file_with_role m e r h f w)"
  using assms by (cases "require_role e r m w") (simp_all add: file_with_role_def with_role_def unpack_def [of f "(_, Err _ _ _)"] unpack_def [of f "(_, Crash)"] holds_refused_def)

lemma file_with_body_all:
  assumes "holds_refused P f" "\<And>b w. body = VData b \<Longrightarrow> P (h b f w)"
  shows "P (file_with_body body h f w)"
  using assms by (cases body) (simp_all add: file_with_body_def with_body_def unpack_def [of f "(_, Err _ _ _)"] unpack_def [of f "(_, Crash)"] holds_refused_def)

lemma file_with_limit_all:
  assumes "holds_refused P f" "\<And>w. P (h f w)"
  shows "P (file_with_limit l e r h f w)"
proof -
  obtain w1 a where c: "check_rate_limit l e r w = (w1, a :: ('a \<times> 'b response) response option)" by fastforce
  have refused: "P (unpack f (w1, resp))" if "a = Some resp" for resp
    using c that assms(1)
    by (auto simp: check_rate_limit_def Let_def unpack_def holds_refused_def split: option.splits if_splits)
  show ?thesis
    using c refused assms(2)
    by (cases a) (simp_all add: file_with_limit_def with_limit_def)
qed

lemma file_with_role_reply:
  "file_with_role m e r h f w = (w', f', Reply s b) \<Longrightarrow> \<exists>user. h user f w = (w', f', Reply s b)"
  by (cases "require_role e r m w") (auto simp: file_with_role_def with_role_def, simp_all add: unpack_def)

lemma admin_file: "file_with_role m sample_env admin_request h f w = h api_user f w"
  by (simp add: file_with_role_def admin_granted)

lemma unlimited_file: "file_with_limit MutationLimiter sample_env admin_request h f w = h f w"
  by (simp add: file_with_limit_def sample_unlimited)

end
