(* ===== verification/Integrations.thy ===== *)
theory Integrations
  imports Settings Gateway_Sessions Host_Files
begin

text \<open>
  The route \<open>app/api/integrations/route.ts\<close>: the API keys in the \<open>.env\<close> file of the gateway's
  installation, edited line by line. What the 1Password command prints and what the services
  answer are arguments. \<open>raw\<close> is never read of a line that sets a variable, so such a line has
  its name and value only.
\<close>

section \<open>The integrations\<close>

record integration_def =
  igr_id :: string
  igr_name :: string
  igr_category :: string
  igr_env_var :: string
  igr_vault_item :: "string option"
  igr_testable :: bool

definition vault_integration :: "string \<Rightarrow> string \<Rightarrow> string \<Rightarrow> string \<Rightarrow> string \<Rightarrow> bool \<Rightarrow> integration_def" where
  "vault_integration i name category env_var item testable =
     \<lparr>igr_id = i, igr_name = name, igr_category = category, igr_env_var = env_var,
      igr_vault_item = Some item, igr_testable = testable\<rparr>"

definition manual_integration :: "string \<Rightarrow> string \<Rightarrow> string \<Rightarrow> string \<Rightarrow> integration_def" where
  "manual_integration i name category env_var =
     \<lparr>igr_id = i, igr_name = name, igr_category = category, igr_env_var = env_var,
      igr_vault_item = None, igr_testable = False\<rparr>"

text \<open>Every entry of the registry has exactly one environment variable.\<close>

definition integrations :: "integration_def list" where
  "integrations =
     [vault_integration ''anthropic'' ''Anthropic'' ''ai'' ''ANTHROPIC_API_KEY'' ''openclaw-anthropic-api-key'' True,
      vault_integration ''openrouter'' ''OpenRouter'' ''ai'' ''OPENROUTER_API_KEY'' ''openclaw-openrouter-api-key'' True,
      vault_integration ''nvidia'' ''NVIDIA'' ''ai'' ''NVIDIA_API_KEY'' ''openclaw-nvidia-api-key'' False,
      vault_integration ''moonshot'' ''Moonshot / Kimi'' ''ai'' ''MOONSHOT_API_KEY'' ''openclaw-moonshot-api-key'' False,
      vault_integration ''ollama'' ''Ollama (Local)'' ''ai'' ''OLLAMA_API_KEY'' ''openclaw-ollama-api-key'' False,
      vault_integration ''brave'' ''Brave Search'' ''search'' ''BRAVE_API_KEY'' ''openclaw-brave-api-key'' False,
      manual_integration ''x_twitter'' ''X / Twitter'' ''social'' ''X_COOKIES_PATH'',
      manual_integration ''linkedin'' ''LinkedIn'' ''social'' ''LINKEDIN_ACCESS_TOKEN'',
      vault_integration ''telegram'' ''Telegram'' ''messaging'' ''TELEGRAM_BOT_TOKEN'' ''openclaw-telegram-bot-token'' True,
      vault_integration ''github'' ''GitHub'' ''devtools'' ''GITHUB_TOKEN'' ''openclaw-github-token'' True,
      manual_integration ''onepassword'' ''1Password'' ''security'' ''OP_SERVICE_ACCOUNT_TOKEN'',
      vault_integration ''gateway'' ''Gateway Auth'' ''infra'' ''OPENCLAW_GATEWAY_TOKEN'' ''openclaw-openclaw-gateway-token'' False]"

definition categories :: "(string \<times> string) list" where
  "categories =
     [(''ai'', ''AI Providers''), (''search'', ''Search''), (''social'', ''Social''), (''messaging'', ''Messaging''),
      (''devtools'', ''Dev Tools''), (''security'', ''Security''), (''infra'', ''Infrastructure'')]"

definition blocked_vars :: "string list" where
  "blocked_vars = [''PATH'', ''HOME'', ''USER'', ''SHELL'', ''LANG'', ''TERM'', ''PWD'', ''LOGNAME'', ''HOSTNAME'']"

definition blocked_prefixes :: "string list" where
  "blocked_prefixes = [''LD_'', ''DYLD_'']"

definition is_var_blocked :: "string \<Rightarrow> bool" where
  "is_var_blocked key \<longleftrightarrow> key \<in> set blocked_vars \<or> list_ex (\<lambda>p. starts_with p key) blocked_prefixes"

section \<open>The file\<close>

datatype env_line = Comment_Line string | Blank_Line string | Var_Line string string

abbreviation newline :: char where
  "newline \<equiv> CHR 0x0A"

abbreviation equals_sign :: char where
  "equals_sign \<equiv> CHR ''=''"

definition parse_line :: "string \<Rightarrow> env_line" where
  "parse_line raw =
     (let trimmed = js_trim raw; name = takeWhile (\<lambda>c. c \<noteq> equals_sign) raw
      in if trimmed = [] then Blank_Line raw
         else if starts_with ''#'' trimmed then Comment_Line raw
         else if equals_sign \<in> set raw \<and> name \<noteq> []
         then Var_Line (js_trim name) (js_trim (drop (length name + 1) raw))
         else Comment_Line raw)"

definition parse_env :: "string \<Rightarrow> env_line list" where
  "parse_env content = map parse_line (split_on newline content)"

fun line_text :: "env_line \<Rightarrow> string" where
  "line_text (Comment_Line raw) = raw"
| "line_text (Blank_Line raw) = raw"
| "line_text (Var_Line k v) = k @ ''='' @ v"

definition serialize_env :: "env_line list \<Rightarrow> string" where
  "serialize_env ls = join_with [newline] (map line_text ls)"

text \<open>The file of the installation: its text, \<open>Inr None\<close> where there is none, or the error reading
  it raises; and the error writing it raises.\<close>

record env_file =
  ef_text :: "string + string option"
  ef_write_error :: "string option"

definition get_env_path :: "env \<Rightarrow> string option" where
  "get_env_path e = (if openclaw_home e = [] then None else Some (path_join [openclaw_home e, ''.env'']))"

definition read_env_file :: "env \<Rightarrow> env_file \<Rightarrow> string + env_line list option" where
  "read_env_file e f =
     (if get_env_path e = None then Inr None
      else (case ef_text f of Inl err \<Rightarrow> Inl err
      | Inr None \<Rightarrow> Inr (Some [])
      | Inr (Some raw) \<Rightarrow> Inr (Some (parse_env raw))))"

definition write_env_file :: "env_line list \<Rightarrow> env_file \<Rightarrow> string + env_file" where
  "write_env_file ls f =
     (case ef_write_error f of Some err \<Rightarrow> Inl err
      | None \<Rightarrow> Inr (f\<lparr>ef_text := Inr (Some (serialize_env ls))\<rparr>))"

text \<open>The map the handlers build; a later line of the same name wins.\<close>

fun env_map :: "env_line list \<Rightarrow> string \<rightharpoonup> string" where
  "env_map [] k = None"
| "env_map (Var_Line k' v # ls) k =
     (case env_map ls k of Some x \<Rightarrow> Some x | None \<Rightarrow> if k' = k \<and> k' \<noteq> [] then Some v else None)"
| "env_map (l # ls) k = env_map ls k"

fun sets_var :: "string \<Rightarrow> env_line \<Rightarrow> bool" where
  "sets_var k (Var_Line k' v) = (k' = k)"
| "sets_var k l = False"

fun is_blank :: "env_line \<Rightarrow> bool" where
  "is_blank (Blank_Line raw) = True"
| "is_blank l = False"

text \<open>The first line that sets the variable is changed, or one is added after an empty line.\<close>

fun change_first :: "string \<Rightarrow> string \<Rightarrow> env_line list \<Rightarrow> env_line list" where
  "change_first k v [] = []"
| "change_first k v (l # ls) = (if sets_var k l then Var_Line k v # ls else l # change_first k v ls)"

definition upsert_var :: "string \<Rightarrow> string \<Rightarrow> env_line list \<Rightarrow> env_line list" where
  "upsert_var k v ls =
     (if list_ex (sets_var k) ls then change_first k v ls
      else ls @ (if ls \<noteq> [] \<and> \<not> is_blank (last ls) then [Blank_Line []] else []) @ [Var_Line k v])"

definition redact_value :: "string \<Rightarrow> string" where
  "redact_value v = (if length v \<le> 4 then ''****'' else ''****'' @ last_n 4 v)"

section \<open>Listing\<close>

definition integration_view :: "(string \<rightharpoonup> string) \<Rightarrow> integration_def \<Rightarrow> json" where
  "integration_view m d =
     (let val = str_or_null (m (igr_env_var d))
      in JObj [(''id'', JStr (igr_id d)), (''name'', JStr (igr_name d)), (''category'', JStr (igr_category d)),
         (''categoryLabel'', JStr (case map_of categories (igr_category d) of Some l \<Rightarrow> l | None \<Rightarrow> igr_category d)),
         (''envVars'', JObj [(igr_env_var d, JObj
            [(''redacted'', JStr (case val of None \<Rightarrow> [] | Some v \<Rightarrow> redact_value v)), (''set'', JBool (val \<noteq> None))])]),
         (''status'', JStr (if val \<noteq> None then ''connected'' else ''not_configured'')),
         (''vaultItem'', JOptStr (igr_vault_item d)), (''testable'', JBool (igr_testable d))])"

definition list_integrations ::
  "bool \<Rightarrow> env \<Rightarrow> (env_file, json) on_file" where
  "list_integrations op_available e f w =
     (case read_env_file e f of
        Inl err \<Rightarrow> (w, f, Crash)
      | Inr None \<Rightarrow> (w, f, Fail 404 ''OPENCLAW_HOME not configured'')
      | Inr (Some ls) \<Rightarrow>
          (w, f, Reply 200 (JObj
             [(''integrations'', JArr (map (integration_view (env_map ls)) integrations)),
              (''categories'', JArr (map (\<lambda>(i, l). JObj [(''id'', JStr i), (''label'', JStr l)]) categories)),
              (''opAvailable'', JBool op_available), (''envPath'', JOptStr (get_env_path e))])))"

definition get_integrations ::
  "bool \<Rightarrow> env \<Rightarrow> request \<Rightarrow> (env_file, json) on_file" where
  "get_integrations op_available e r = file_with_role Admin e r (\<lambda>user. list_integrations op_available e)"

section \<open>Setting and removing variables\<close>

text \<open>\<open>/^[A-Z_][A-Z0-9_]*$/i\<close>.\<close>

definition var_name_ok :: "string \<Rightarrow> bool" where
  "var_name_ok k \<longleftrightarrow> k \<noteq> [] \<and> digit_val (hd k) = None \<and> list_all word_char k"

definition key_refusal :: "string \<Rightarrow> (nat \<times> string) option" where
  "key_refusal k =
     (if is_var_blocked k then Some (403, ''Cannot set protected variable: '' @ k)
      else if \<not> var_name_ok k then Some (400, ''Invalid variable name: '' @ k)
      else None)"

text \<open>The properties of \<open>body.vars\<close>, when that is an object.\<close>

definition vars_of :: "json option \<Rightarrow> obj option" where
  "vars_of body =
     (case Option.bind body (\<lambda>b. jget b ''vars'') of
        Some (JObj kvs) \<Rightarrow> Some kvs
      | Some (JArr xs) \<Rightarrow> object_entries (JArr xs)
      | _ \<Rightarrow> None)"

definition put_lines :: "obj \<Rightarrow> env_line list \<Rightarrow> env_line list" where
  "put_lines kvs ls = fold (\<lambda>(k, v). upsert_var k (js_string v)) kvs ls"

definition update_vars_with ::
  "env \<Rightarrow> request \<Rightarrow> json option \<Rightarrow> auth_user \<Rightarrow> (env_file, json) on_file" where
  "update_vars_with e r body user f w =
     (case vars_of body of
        None \<Rightarrow> (w, f, Fail 400 ''vars object required'')
      | Some kvs \<Rightarrow>
     (case List.map_filter (\<lambda>(k, v). key_refusal k) kvs of
        (status, msg) # _ \<Rightarrow> (w, f, Fail status msg)
      | [] \<Rightarrow>
     (case read_env_file e f of
        Inl err \<Rightarrow> (w, f, Crash)
      | Inr None \<Rightarrow> (w, f, Fail 404 ''OPENCLAW_HOME not configured'')
      | Inr (Some ls) \<Rightarrow>
     (case write_env_file (put_lines kvs ls) f of
        Inl err \<Rightarrow> (w, f, Crash)
      | Inr f' \<Rightarrow>
          (let keys = JArr (map (\<lambda>(k, v). JStr k) kvs)
           in (log_audit_event ''integrations_update'' (au_username user) (Some (au_id user)) None None
                 (Some (JObj [(''updated_keys'', keys)])) (Some (caller_ip r)) None w,
               f', Reply 200 (JObj [(''updated'', keys), (''count'', JInt (int (length kvs)))])))))))"

definition put_integrations ::
  "json option \<Rightarrow> env \<Rightarrow> request \<Rightarrow> (env_file, json) on_file" where
  "put_integrations body e r = file_with_role Admin e r (update_vars_with e r body)"

text \<open>\<open>body.keys\<close> as a text; \<open>Inl\<close> where reading or splitting it throws.\<close>

definition keys_param :: "json \<Rightarrow> unit + string option" where
  "keys_param body =
     (case body of
        JNull \<Rightarrow> Inl ()
      | JArr xs \<Rightarrow> Inl ()
      | _ \<Rightarrow> (case jget body ''keys'' of
            Some (JArr ks) \<Rightarrow> Inr (str_or_null (Some (js_string (JArr ks))))
          | Some (JStr s) \<Rightarrow> Inr (str_or_null (Some s))
          | Some v \<Rightarrow> if jtruthy v then Inl () else Inr None
          | None \<Rightarrow> Inr None))"

definition keys_to_remove :: "string \<Rightarrow> string list" where
  "keys_to_remove s = js_set (filter (\<lambda>k. k \<noteq> []) (map js_trim (split_on (CHR '','') s)))"

definition removes :: "string list \<Rightarrow> env_line \<Rightarrow> bool" where
  "removes ks l = (case l of Var_Line k v \<Rightarrow> k \<noteq> [] \<and> k \<in> set ks | _ \<Rightarrow> False)"

fun line_key :: "env_line \<Rightarrow> string" where
  "line_key (Var_Line k v) = k"
| "line_key l = []"

definition remove_vars_with ::
  "env \<Rightarrow> request \<Rightarrow> json option \<Rightarrow> auth_user \<Rightarrow> (env_file, json) on_file" where
  "remove_vars_with e r body user f w =
     (case body of
        None \<Rightarrow> (w, f, Fail 400 ''Request body required'')
      | Some b \<Rightarrow>
     (case keys_param b of
        Inl u \<Rightarrow> (w, f, Crash)
      | Inr None \<Rightarrow> (w, f, Fail 400 ''keys parameter required (comma-separated string or array)'')
      | Inr (Some s) \<Rightarrow>
     (let ks = keys_to_remove s
      in if ks = [] then (w, f, Fail 400 ''At least one key required'')
         else (case find is_var_blocked ks of
           Some k \<Rightarrow> (w, f, Fail 403 (''Cannot remove protected variable: '' @ k))
         | None \<Rightarrow>
        (case read_env_file e f of
           Inl err \<Rightarrow> (w, f, Crash)
         | Inr None \<Rightarrow> (w, f, Fail 404 ''OPENCLAW_HOME not configured'')
         | Inr (Some ls) \<Rightarrow>
        (let removed = map line_key (filter (removes ks) ls)
         in case (if removed = [] then Inr f else write_env_file (filter (\<lambda>l. \<not> removes ks l) ls) f) of
              Inl err \<Rightarrow> (w, f, Crash)
            | Inr f' \<Rightarrow>
                (log_audit_event ''integrations_remove'' (au_username user) (Some (au_id user)) None None
                   (Some (JObj [(''removed_keys'', JArr (map JStr removed))])) (Some (caller_ip r)) None w,
                 f', Reply 200 (JObj [(''removed'', JArr (map JStr removed)), (''count'', JInt (int (length removed)))]))))))))"

definition delete_integrations ::
  "json option \<Rightarrow> env \<Rightarrow> request \<Rightarrow> (env_file, json) on_file" where
  "delete_integrations body e r = file_with_role Admin e r (remove_vars_with e r body)"

section \<open>Pulling from the vault\<close>

text \<open>What \<open>op\<close> does for an item, the vault's name and a service token: an error or its output.\<close>

type_synonym vault = "string \<Rightarrow> string \<Rightarrow> string \<Rightarrow> string + string"

abbreviation op_token_var :: string where
  "op_token_var \<equiv> ''OP_SERVICE_ACCOUNT_TOKEN''"

fun first_set :: "string \<Rightarrow> env_line list \<Rightarrow> string option" where
  "first_set k [] = None"
| "first_set k (Var_Line k' v # ls) = (if k' = k \<and> v \<noteq> [] then Some v else first_set k ls)"
| "first_set k (l # ls) = first_set k ls"

text \<open>The service token, \<open>[]\<close> for none.\<close>

definition op_token :: "env \<Rightarrow> env_file \<Rightarrow> string + string" where
  "op_token e f =
     (if env_or e op_token_var [] \<noteq> [] then Inr (env_or e op_token_var [])
      else (case read_env_file e f of
        Inl err \<Rightarrow> Inl err
      | Inr None \<Rightarrow> Inr []
      | Inr (Some ls) \<Rightarrow> Inr (case first_set op_token_var ls of None \<Rightarrow> [] | Some v \<Rightarrow> v)))"

definition pulled_value :: "string \<Rightarrow> json" where
  "pulled_value secret =
     (case parse_json secret of
        None \<Rightarrow> JStr secret
      | Some p \<Rightarrow> if p = JNull then JStr secret else or_else (jget p ''value'') p)"

text \<open>\<open>v.length\<close>.\<close>

fun length_of :: "json \<Rightarrow> json option" where
  "length_of (JStr s) = Some (JInt (int (length s)))"
| "length_of (JArr xs) = Some (JInt (int (length xs)))"
| "length_of (JObj m) = map_of m ''length''"
| "length_of v = None"

definition pulled_empty :: "json \<Rightarrow> bool" where
  "pulled_empty v \<longleftrightarrow> \<not> jtruthy v \<or> length_of v = Some (JNum 0)"

definition pull_secret :: "env \<Rightarrow> vault \<Rightarrow> string \<Rightarrow> string \<Rightarrow> string + json" where
  "pull_secret e op token item =
     (case op item (env_or e ''OP_VAULT_NAME'' ''default'') token of
        Inl err \<Rightarrow> Inl err
      | Inr out \<Rightarrow> Inr (pulled_value (js_trim out)))"

text \<open>\<open>redactValue\<close> on what was pulled; a value that is neither a text nor a list throws unless its
  length is small.\<close>

definition redact_pulled :: "json \<Rightarrow> string option" where
  "redact_pulled v =
     (case v of
        JStr s \<Rightarrow> Some (redact_value s)
      | JArr xs \<Rightarrow> Some (if length xs \<le> 4 then ''****'' else ''****'' @ js_string (JArr (last_n 4 xs)))
      | _ \<Rightarrow> (case Option.bind (length_of v) number_of of
            Some n \<Rightarrow> if n \<le> 4 then Some ''****'' else None
          | None \<Rightarrow> None))"

definition pull_failed :: "string \<Rightarrow> 'b response" where
  "pull_failed msg = Fail 500 (''1Password pull failed: '' @ msg)"

definition handle_pull ::
  "bool \<Rightarrow> vault \<Rightarrow> env \<Rightarrow> request \<Rightarrow> integration_def \<Rightarrow> auth_user \<Rightarrow>
   (env_file, json) on_file" where
  "handle_pull op_available op e r d user f w =
     (case igr_vault_item d of
        None \<Rightarrow> (w, f, Fail 400 ''No vault item configured for this integration'')
      | Some item \<Rightarrow>
     (if \<not> op_available then (w, f, Fail 400 ''1Password CLI (op) is not installed'')
      else (case op_token e f of
        Inl err \<Rightarrow> (w, f, pull_failed err)
      | Inr token \<Rightarrow>
     (if token = [] then (w, f, Fail 400 ''OP_SERVICE_ACCOUNT_TOKEN not found in environment or .env'')
      else (case pull_secret e op token item of
        Inl err \<Rightarrow> (w, f, pull_failed err)
      | Inr v \<Rightarrow>
     (if pulled_empty v then (w, f, Fail 400 ''Empty value returned from 1Password'')
      else (case read_env_file e f of
        Inl err \<Rightarrow> (w, f, pull_failed err)
      | Inr None \<Rightarrow> (w, f, Fail 404 ''OPENCLAW_HOME not configured'')
      | Inr (Some ls) \<Rightarrow>
     (case write_env_file (upsert_var (igr_env_var d) (js_string v) ls) f of
        Inl err \<Rightarrow> (w, f, pull_failed err)
      | Inr f' \<Rightarrow>
          (log_audit_event ''integration_pull_1password'' (au_username user) (Some (au_id user)) None None
             (Some (JObj [(''integration'', JStr (igr_id d)), (''env_var'', JStr (igr_env_var d))]))
             (Some (caller_ip r)) None w,
           f',
           (case redact_pulled v of
              None \<Rightarrow> pull_failed ''value.slice is not a function''
            | Some shown \<Rightarrow> Reply 200 (JObj [(''ok'', JBool True),
                (''detail'', JStr (''Pulled '' @ igr_env_var d @ '' from 1Password'')), (''redacted'', JStr shown)])))))))))))"

record pull_result =
  pr_id :: string
  pr_env_var :: string
  pr_ok :: bool
  pr_detail :: string

definition pull_one ::
  "env \<Rightarrow> vault \<Rightarrow> string \<Rightarrow> integration_def \<Rightarrow> env_line list \<Rightarrow> env_line list \<times> pull_result" where
  "pull_one e op token d ls =
     (let result = (\<lambda>good msg. \<lparr>pr_id = igr_id d, pr_env_var = igr_env_var d, pr_ok = good, pr_detail = msg\<rparr>)
      in case pull_secret e op token (case igr_vault_item d of None \<Rightarrow> [] | Some i \<Rightarrow> i) of
        Inl err \<Rightarrow> (ls, result False (str_or err ''Failed''))
      | Inr v \<Rightarrow>
          if pulled_empty v then (ls, result False ''Empty value'')
          else (upsert_var (igr_env_var d) (js_string v) ls, result True (''Pulled '' @ igr_env_var d)))"

fun pull_each ::
  "env \<Rightarrow> vault \<Rightarrow> string \<Rightarrow> integration_def list \<Rightarrow> env_line list \<Rightarrow> env_line list \<times> pull_result list" where
  "pull_each e op token [] ls = (ls, [])"
| "pull_each e op token (d # ds) ls =
     (case pull_one e op token d ls of (ls1, x) \<Rightarrow>
      (case pull_each e op token ds ls1 of (ls2, xs) \<Rightarrow> (ls2, x # xs)))"

definition pull_result_json :: "pull_result \<Rightarrow> json" where
  "pull_result_json x = JObj [(''id'', JStr (pr_id x)), (''envVar'', JStr (pr_env_var x)),
     (''ok'', JBool (pr_ok x)), (''detail'', JStr (pr_detail x))]"

definition pull_targets :: "string option \<Rightarrow> integration_def list" where
  "pull_targets category =
     filter (\<lambda>d. igr_vault_item d \<noteq> None \<and>
               (case str_or_null category of None \<Rightarrow> True | Some c \<Rightarrow> igr_category d = c)) integrations"

definition pull_all_result ::
  "request \<Rightarrow> string option \<Rightarrow> pull_result list \<Rightarrow> auth_user \<Rightarrow> world \<Rightarrow> world \<times> json response" where
  "pull_all_result r category results user w =
     (let good = length (filter pr_ok results); n = length results
      in (log_audit_event ''integration_pull_all_1password'' (au_username user) (Some (au_id user)) None None
            (Some (JObj [(''category'', JStr (case category of None \<Rightarrow> ''all'' | Some c \<Rightarrow> c)),
               (''success'', JInt (int good)), (''failed'', JInt (int n - int good)),
               (''results'', JArr (map (\<lambda>x. JObj [(''id'', JStr (pr_id x)), (''ok'', JBool (pr_ok x))]) results))]))
            (Some (caller_ip r)) None w,
          Reply 200 (JObj [(''ok'', JBool (0 < good)),
            (''detail'', JStr (''Pulled '' @ show_nat good @ ''/'' @ show_nat n @ '' integrations'')),
            (''results'', JArr (map pull_result_json results))])))"

definition handle_pull_all ::
  "bool \<Rightarrow> vault \<Rightarrow> env \<Rightarrow> request \<Rightarrow> string option \<Rightarrow> auth_user \<Rightarrow>
   (env_file, json) on_file" where
  "handle_pull_all op_available op e r category user f w =
     (if \<not> op_available then (w, f, Fail 400 ''1Password CLI (op) is not installed'')
      else (case op_token e f of
        Inl err \<Rightarrow> (w, f, Crash)
      | Inr token \<Rightarrow>
     (if token = [] then (w, f, Fail 400 ''OP_SERVICE_ACCOUNT_TOKEN not found in environment or .env'')
      else if pull_targets category = [] then (w, f, Fail 400 ''No vault-backed integrations found for this category'')
      else (case read_env_file e f of
        Inl err \<Rightarrow> (w, f, Crash)
      | Inr None \<Rightarrow> (w, f, Fail 404 ''OPENCLAW_HOME not configured'')
      | Inr (Some ls) \<Rightarrow>
     (case pull_each e op token (pull_targets category) ls of (ls', results) \<Rightarrow>
     (case (if list_ex pr_ok results then write_env_file ls' f else Inr f) of
        Inl err \<Rightarrow> (w, f, Crash)
      | Inr f' \<Rightarrow>
          (case pull_all_result r category results user w of (w', a) \<Rightarrow> (w', f', a))))))))"

section \<open>Testing a key\<close>

text \<open>What a service answers to a request with these headers: the message of an exception, or the
  status and the JSON of the body (or the message of the exception parsing it).\<close>

type_synonym service = "string \<Rightarrow> (string \<times> string) list \<Rightarrow> string + (int \<times> (string + json))"

definition quoted_name :: "string \<Rightarrow> string" where
  "quoted_name k = CHR 0x27 # k @ [CHR 0x27]"

text \<open>\<open>v.k\<close>, which throws for \<open>null\<close> and \<open>undefined\<close>.\<close>

definition member_of :: "json option \<Rightarrow> string \<Rightarrow> string + json option" where
  "member_of v k =
     (case v of
        None \<Rightarrow> Inl (''Cannot read properties of undefined (reading '' @ quoted_name k @ '')'')
      | Some j \<Rightarrow> if j = JNull then Inl (''Cannot read properties of null (reading '' @ quoted_name k @ '')'')
                  else Inr (jget j k))"

definition shown :: "json option \<Rightarrow> string" where
  "shown v = (case v of None \<Rightarrow> ''undefined'' | Some j \<Rightarrow> js_string j)"

definition ok_status :: "int \<Rightarrow> bool" where
  "ok_status n \<longleftrightarrow> 200 \<le> n \<and> n \<le> 299"

definition http_text :: "int \<Rightarrow> string" where
  "http_text n = ''HTTP '' @ show_int n"

definition test_telegram :: "service \<Rightarrow> string \<Rightarrow> string + bool \<times> json" where
  "test_telegram web token =
     (case web (''https://api.telegram.org/bot'' @ token @ ''/getMe'') [] of
        Inl err \<Rightarrow> Inl err
      | Inr (n, Inl err) \<Rightarrow> Inl err
      | Inr (n, Inr data) \<Rightarrow>
     (case member_of (Some data) ''ok'' of
        Inl err \<Rightarrow> Inl err
      | Inr good \<Rightarrow>
          if jtruthy_opt good
          then map_sum (\<lambda>err. err) (\<lambda>u. (True, JStr (''Bot: @'' @ shown u))) (member_of (jget data ''result'') ''username'')
          else Inr (False, or_else (jget data ''description'') (JStr ''Failed''))))"

definition test_github :: "service \<Rightarrow> string \<Rightarrow> string + bool \<times> json" where
  "test_github web token =
     (case web ''https://api.github.com/user'' [(''Authorization'', ''Bearer '' @ token), (''User-Agent'', ''MissionControl/1.0'')] of
        Inl err \<Rightarrow> Inl err
      | Inr (n, body) \<Rightarrow>
          if ok_status n
          then (case body of Inl err \<Rightarrow> Inl err
                | Inr data \<Rightarrow> map_sum (\<lambda>err. err) (\<lambda>u. (True, JStr (''User: '' @ shown u))) (member_of (Some data) ''login''))
          else Inr (False, JStr (http_text n)))"

definition test_status :: "service \<Rightarrow> string \<Rightarrow> (string \<times> string) list \<Rightarrow> string + bool \<times> json" where
  "test_status web url headers =
     (case web url headers of
        Inl err \<Rightarrow> Inl err
      | Inr (n, body) \<Rightarrow> Inr (if ok_status n then (True, JStr ''API key valid'') else (False, JStr (http_text n))))"

definition run_test :: "service \<Rightarrow> string \<Rightarrow> string \<Rightarrow> string + bool \<times> json" where
  "run_test web i key =
     (if i = ''telegram'' then test_telegram web key
      else if i = ''github'' then test_github web key
      else if i = ''anthropic''
      then test_status web ''https://api.anthropic.com/v1/models'' [(''x-api-key'', key), (''anthropic-version'', ''2023-06-01'')]
      else test_status web ''https://openrouter.ai/api/v1/models'' [(''Authorization'', ''Bearer '' @ key)])"

definition test_reply :: "bool \<Rightarrow> json \<Rightarrow> json response" where
  "test_reply good detail = Reply 200 (JObj [(''ok'', JBool good), (''detail'', detail)])"

text \<open>The variable each test reads is the one of its registry entry.\<close>

definition handle_test ::
  "service \<Rightarrow> env \<Rightarrow> request \<Rightarrow> integration_def \<Rightarrow> auth_user \<Rightarrow> env_file \<Rightarrow> world \<Rightarrow> world \<times> json response" where
  "handle_test web e r d user f w =
     (if \<not> igr_testable d then (w, Fail 400 ''This integration does not support testing'')
      else (case read_env_file e f of
        Inl err \<Rightarrow> (w, Crash)
      | Inr None \<Rightarrow> (w, Fail 404 ''OPENCLAW_HOME not configured'')
      | Inr (Some ls) \<Rightarrow>
     (if igr_id d \<notin> {''telegram'', ''github'', ''anthropic'', ''openrouter''}
      then (w, Fail 400 ''Test not implemented for this integration'')
      else (case str_or_null (env_map ls (igr_env_var d)) of
        None \<Rightarrow> (w, test_reply False (JStr (if igr_id d \<in> {''telegram'', ''github''} then ''Token not set'' else ''API key not set'')))
      | Some key \<Rightarrow>
     (case run_test web (igr_id d) key of
        Inl err \<Rightarrow> (w, test_reply False (JStr (str_or err ''Connection failed'')))
      | Inr (good, detail) \<Rightarrow>
          (log_audit_event ''integration_test'' (au_username user) (Some (au_id user)) None None
             (Some (JObj [(''integration'', JStr (igr_id d)), (''result'', JStr (if good then ''success'' else ''failed''))]))
             (Some (caller_ip r)) None w,
           test_reply good detail))))))"

section \<open>The dispatcher\<close>

datatype integration_action = Action_Test | Action_Pull | Action_Pull_All

record action_body =
  ib_action :: integration_action
  ib_integration :: "string option"
  ib_category :: "string option"

definition dispatch_action ::
  "bool \<Rightarrow> vault \<Rightarrow> service \<Rightarrow> env \<Rightarrow> request \<Rightarrow> auth_user \<Rightarrow> action_body \<Rightarrow>
   (env_file, json) on_file" where
  "dispatch_action op_available op web e r user b f w =
     (if ib_action b = Action_Pull_All then handle_pull_all op_available op e r (ib_category b) user f w
      else (case str_or_null (ib_integration b) of
        None \<Rightarrow> (w, f, Fail 400 ''integrationId required'')
      | Some i \<Rightarrow>
     (case find (\<lambda>d. igr_id d = i) integrations of
        None \<Rightarrow> (w, f, Fail 404 (''Unknown integration: '' @ i))
      | Some d \<Rightarrow>
          if ib_action b = Action_Test
          then (case handle_test web e r d user f w of (w', a) \<Rightarrow> (w', f, a))
          else handle_pull op_available op e r d user f w)))"

definition post_integrations ::
  "bool \<Rightarrow> vault \<Rightarrow> service \<Rightarrow> action_body validated \<Rightarrow> env \<Rightarrow> request \<Rightarrow> (env_file, json) on_file" where
  "post_integrations op_available op web body e r = file_with_role Admin e r (\<lambda>user.
     file_with_limit MutationLimiter e r (file_with_body body (dispatch_action op_available op web e r user)))"

section \<open>All requests\<close>

datatype integration_op =
    Get_Integrations bool
  | Put_Integrations "json option"
  | Delete_Integrations "json option"
  | Post_Integrations bool vault service "action_body validated"

fun integration_do :: "integration_op \<Rightarrow> env \<Rightarrow> request \<Rightarrow> (env_file, json) on_file" where
  "integration_do (Get_Integrations op_available) e r = get_integrations op_available e r"
| "integration_do (Put_Integrations body) e r = put_integrations body e r"
| "integration_do (Delete_Integrations body) e r = delete_integrations body e r"
| "integration_do (Post_Integrations op_available op web body) e r = post_integrations op_available op web body e r"

end
