(* ===== verification/Integration_Rules.thy ===== *)
theory Integration_Rules
  imports Integrations Json_Round_Trip Js_Text_Facts "HOL-Library.Sublist"
begin

text \<open>
  What the edits of the \<open>.env\<close> file guarantee: lines are read back as they are written, a change
  touches the variables it names and nothing else, and protected variables are out of reach
  as long as no value holds a line break.
\<close>

section \<open>Lines that are read back\<close>

definition key_plain :: "string \<Rightarrow> bool" where
  "key_plain k \<longleftrightarrow> k \<noteq> [] \<and> js_trim k = k \<and> equals_sign \<notin> set k \<and> hd k \<noteq> CHR ''#''"

definition reread :: "env_line \<Rightarrow> env_line" where
  "reread l = parse_line (line_text l)"

fun line_fine :: "env_line \<Rightarrow> bool" where
  "line_fine (Var_Line k v) = ((k = [] \<or> key_plain k) \<and> newline \<notin> set k \<and> newline \<notin> set v)"
| "line_fine l = (reread l = l \<and> newline \<notin> set (line_text l))"

lemma not_white: "\<not> js_white equals_sign"
  by code_simp

lemma trim_start: "k \<noteq> [] \<Longrightarrow> js_trim k = k \<Longrightarrow> \<exists>rest. js_trim (k @ s) = hd k # rest"
  using js_trim_first [of k] js_trim_starts [of "hd k" "tl k @ s"] by (cases k) auto

lemma name_end: "c \<notin> set k \<Longrightarrow> takeWhile (\<lambda>x. x \<noteq> c) (k @ c # v) = k"
  by (induction k) auto

lemma parse_var_line:
  assumes "key_plain k"
  shows "parse_line (k @ ''='' @ v) = Var_Line k (js_trim v)"
proof -
  have k: "k \<noteq> []" "js_trim k = k" "equals_sign \<notin> set k" "hd k \<noteq> CHR ''#''"
    using assms by (simp_all add: key_plain_def)
  obtain rest where t: "js_trim (k @ equals_sign # v) = hd k # rest" using trim_start [OF k(1,2)] by blast
  show ?thesis
    using k t by (simp add: parse_line_def Let_def name_end)
qed

lemma reread_var: "k = [] \<or> key_plain k \<Longrightarrow> env_map (reread (Var_Line k v) # ls) = env_map (Var_Line k (js_trim v) # ls)"
proof -
  assume k: "k = [] \<or> key_plain k"
  have nameless: "env_map (parse_line (CHR ''='' # v) # ls) i = env_map ls i" for i
    by (simp add: parse_line_def Let_def)
  show ?thesis
  proof (cases "k = []")
    case True
    then show ?thesis using nameless by (auto simp: reread_def fun_eq_iff split: option.split)
  next
    case False
    then show ?thesis using k parse_var_line [of k v] by (simp add: reread_def)
  qed
qed

lemma env_map_reread:
  "list_all line_fine ls \<Longrightarrow> env_map (map reread ls) k = map_option js_trim (env_map ls k)"
proof (induction ls)
  case (Cons l ls)
  then show ?case
  proof (cases l)
    case (Var_Line k' v)
    then have "env_map (reread l # map reread ls) k = env_map (Var_Line k' (js_trim v) # map reread ls) k"
      using Cons.prems by (simp add: reread_var)
    then show ?thesis using Cons Var_Line by (auto split: option.split)
  qed simp_all
qed simp

lemma line_fine_text: "line_fine l \<Longrightarrow> newline \<notin> set (line_text l)"
  by (cases l) auto

lemma parse_serialized: "ls \<noteq> [] \<Longrightarrow> list_all line_fine ls \<Longrightarrow> parse_env (serialize_env ls) = map reread ls"
proof -
  assume ls: "ls \<noteq> []" "list_all line_fine ls"
  then have "list_all (\<lambda>w. newline \<notin> set w) (map line_text ls)"
    by (auto simp: list_all_iff line_fine_text)
  then have "split_on newline (serialize_env ls) = map line_text ls"
    using ls(1) by (simp add: serialize_env_def split_join)
  then show ?thesis by (simp add: parse_env_def reread_def)
qed

lemma parse_nothing: "parse_env (serialize_env []) = [Blank_Line []]"
  by (simp add: parse_env_def serialize_env_def join_with_def parse_line_def js_trim_def)

lemma read_back:
  assumes "list_all line_fine ls"
  shows "env_map (parse_env (serialize_env ls)) k = map_option js_trim (env_map ls k)"
  using assms by (cases "ls = []") (simp_all add: parse_nothing parse_serialized env_map_reread)

section \<open>Lines of a file\<close>

lemma parse_line_fine: "newline \<notin> set raw \<Longrightarrow> line_fine (parse_line raw)"
proof -
  assume n: "newline \<notin> set raw"
  let ?name = "takeWhile (\<lambda>c. c \<noteq> equals_sign) raw"
  let ?k = "js_trim ?name" and ?v = "js_trim (drop (length ?name + 1) raw)"
  have "parse_line raw \<in> {Blank_Line raw, Comment_Line raw, Var_Line ?k ?v}"
    by (simp add: parse_line_def Let_def)
  moreover have "line_fine l" if "parse_line raw = l" "l \<in> {Blank_Line raw, Comment_Line raw}" for l
    using that n by (auto simp: reread_def)
  moreover have "line_fine (Var_Line ?k ?v)" if p: "parse_line raw = Var_Line ?k ?v"
  proof -
    have start: "js_trim raw \<noteq> []" "\<not> starts_with ''#'' (js_trim raw)"
      using p by (auto simp: parse_line_def Let_def split: if_splits)
    have "hd ?k \<noteq> CHR ''#''" if "?k \<noteq> []"
    proof
      assume hash: "hd ?k = CHR ''#''"
      obtain a b where n1: "?name = a @ ?k @ b" "list_all js_white a" using js_trim_parts [of ?name] by blast
      obtain rest where raw: "raw = ?name @ rest" by (metis takeWhile_dropWhile_id)
      have "raw = a @ CHR ''#'' # tl ?k @ b @ rest"
        using raw n1(1) that hash by (metis append.assoc append_Cons list.collapse)
      moreover have "\<not> js_white (CHR ''#'')" by code_simp
      ultimately obtain z where "js_trim raw = CHR ''#'' # z" using js_trim_skips [OF n1(2)] by metis
      then show False using start(2) by simp
    qed
    moreover have "equals_sign \<notin> set ?k" "newline \<notin> set ?k" "newline \<notin> set ?v"
      using set_js_trim [of ?name] set_js_trim [of "drop (length ?name + 1) raw"] n
      by (auto dest: set_takeWhileD in_set_dropD)
    ultimately show ?thesis by (auto simp: key_plain_def)
  qed
  ultimately show ?thesis by auto
qed

lemma file_fine: "list_all line_fine (parse_env c)"
  by (auto simp: parse_env_def list_all_iff intro: parse_line_fine dest: split_parts)

lemma read_values_trimmed: "env_map (parse_env c) k = Some v \<Longrightarrow> js_trim v = v"
proof -
  have "js_trim v = v" if "env_map (map parse_line ws) k = Some v" for ws
    using that
  proof (induction ws)
    case (Cons w ws)
    then show ?case
      by (cases "parse_line w") (auto simp: parse_line_def Let_def split: option.splits if_splits)
  qed simp
  then show "env_map (parse_env c) k = Some v \<Longrightarrow> js_trim v = v" by (simp add: parse_env_def)
qed

text \<open>The map is the same after the file was written unchanged.\<close>

lemma trimmed_map: "map_option js_trim (env_map (parse_env c) k) = env_map (parse_env c) k"
  using read_values_trimmed [of c k] by (cases "env_map (parse_env c) k") auto

interpretation env_format: text_format serialize_env "\<lambda>c. Some (parse_env c)"
    "\<lambda>ls. ls \<noteq> [] \<and> list_all line_fine ls \<and> map reread ls = ls"
  by unfold_locales (simp add: parse_serialized)

section \<open>What an edit changes\<close>

fun var_names :: "env_line list \<Rightarrow> string list" where
  "var_names [] = []"
| "var_names (Var_Line k v # ls) = k # var_names ls"
| "var_names (l # ls) = var_names ls"

text \<open>No name is empty or set twice.\<close>

definition tidy :: "env_line list \<Rightarrow> bool" where
  "tidy ls \<longleftrightarrow> distinct (var_names ls) \<and> [] \<notin> set (var_names ls)"

lemma env_map_append: "env_map (ls @ ms) k = (case env_map ms k of Some x \<Rightarrow> Some x | None \<Rightarrow> env_map ls k)"
  by (induction ls k rule: env_map.induct) (auto split: option.split)

lemma env_map_names: "env_map ls k \<noteq> None \<Longrightarrow> k \<in> set (var_names ls)"
  by (induction ls k rule: env_map.induct) (auto split: option.splits if_splits)

lemma names_iff: "list_ex (sets_var k) ls \<longleftrightarrow> k \<in> set (var_names ls)"
  by (induction ls rule: var_names.induct) auto

lemma change_first_other: "k' \<noteq> k \<Longrightarrow> env_map (change_first k v ls) k' = env_map ls k'"
proof (induction ls)
  case (Cons l ls)
  then show ?case by (cases l) (auto split: option.split)
qed simp

lemma change_first_same:
  "distinct (var_names ls) \<Longrightarrow> k \<in> set (var_names ls) \<Longrightarrow> k \<noteq> [] \<Longrightarrow> env_map (change_first k v ls) k = Some v"
proof (induction ls)
  case (Cons l ls)
  then show ?case using env_map_names [of ls k] by (cases l) (auto split: option.split)
qed simp

lemma names_change_first: "var_names (change_first k v ls) = var_names ls"
proof (induction ls)
  case (Cons l ls)
  then show ?case by (cases l) auto
qed simp

lemma names_append: "var_names (ls @ ms) = var_names ls @ var_names ms"
  by (induction ls rule: var_names.induct) auto

lemma upsert_other: "k' \<noteq> k \<Longrightarrow> env_map (upsert_var k v ls) k' = env_map ls k'"
  by (simp add: upsert_var_def change_first_other env_map_append)

lemma upsert_same: "tidy ls \<Longrightarrow> k \<noteq> [] \<Longrightarrow> env_map (upsert_var k v ls) k = Some v"
  by (simp add: upsert_var_def change_first_same env_map_append names_iff tidy_def)

lemma upsert_tidy: "tidy ls \<Longrightarrow> k \<noteq> [] \<Longrightarrow> tidy (upsert_var k v ls)"
  by (auto simp: upsert_var_def tidy_def names_change_first names_append names_iff)

lemma change_first_fine:
  "list_all line_fine ls \<Longrightarrow> line_fine (Var_Line k v) \<Longrightarrow> list_all line_fine (change_first k v ls)"
  by (induction ls) auto

lemma blank_stays: "reread (Blank_Line []) = Blank_Line []"
  by (simp add: reread_def parse_line_def js_trim_def)

lemma upsert_fine:
  "list_all line_fine ls \<Longrightarrow> line_fine (Var_Line k v) \<Longrightarrow> list_all line_fine (upsert_var k v ls)"
  by (simp add: upsert_var_def change_first_fine blank_stays)

lemma removed_map: "env_map (filter (\<lambda>l. \<not> removes ks l) ls) k = (if k \<in> set ks then None else env_map ls k)"
proof (induction ls)
  case (Cons l ls)
  then show ?case by (cases l) (auto simp: removes_def split: option.split)
qed simp

lemma fine_filter: "list_all line_fine ls \<Longrightarrow> list_all line_fine (filter P ls)"
  by (auto simp: list_all_iff)

section \<open>Names a request may set\<close>

lemma word_char_class:
  assumes "word_char c"
  shows "\<not> js_white c \<and> c \<noteq> equals_sign \<and> c \<noteq> newline \<and> c \<noteq> CHR ''#''"
  using assms by (auto simp: word_char_def js_white_def Let_def)

lemma var_name_plain: "var_name_ok k \<Longrightarrow> key_plain k \<and> newline \<notin> set k"
proof -
  assume "var_name_ok k"
  then have k: "k \<noteq> []" "\<And>c. c \<in> set k \<Longrightarrow> word_char c" by (auto simp: var_name_ok_def list_all_iff)
  then have "js_trim k = k" using word_char_class by (intro js_trim_id) auto
  then show ?thesis using k word_char_class by (auto simp: key_plain_def)
qed

lemma key_allowed: "key_refusal k = None \<longleftrightarrow> \<not> is_var_blocked k \<and> var_name_ok k"
  by (simp add: key_refusal_def)

lemma map_filter_Nil: "List.map_filter g xs = [] \<longleftrightarrow> list_all (\<lambda>x. g x = None) xs"
  by (induction xs) (auto simp: map_filter_simps split: option.splits)

lemma registry_names:
  "list_all (\<lambda>d. var_name_ok (igr_env_var d) \<and> \<not> is_var_blocked (igr_env_var d)) integrations"
  by code_simp

lemma testable_tested: "list_all (\<lambda>d. igr_testable d \<longrightarrow> igr_id d \<in> {''telegram'', ''github'', ''anthropic'', ''openrouter''}) integrations"
  by code_simp

section \<open>Protected variables\<close>

definition env_value :: "env \<Rightarrow> env_file \<Rightarrow> string \<rightharpoonup> string" where
  "env_value e f k = (case read_env_file e f of Inr (Some ls) \<Rightarrow> env_map ls k | _ \<Rightarrow> None)"

lemma written_value:
  assumes "read_env_file e f = Inr (Some ls)" "write_env_file ls' f = Inr f'" "list_all line_fine ls'"
  shows "env_value e f' k = map_option js_trim (env_map ls' k)"
  using assms by (auto simp: env_value_def read_env_file_def write_env_file_def read_back split: option.splits if_splits)

lemma read_lines:
  assumes "read_env_file e f = Inr (Some ls)"
  shows "list_all line_fine ls" "map_option js_trim (env_map ls k) = env_map ls k" "env_value e f k = env_map ls k"
  using assms by (auto simp: env_value_def read_env_file_def file_fine trimmed_map split: option.splits if_splits sum.splits)

definition one_line :: "json \<Rightarrow> bool" where
  "one_line v \<longleftrightarrow> newline \<notin> set (js_string v)"

definition settable :: "obj \<Rightarrow> bool" where
  "settable kvs \<longleftrightarrow> list_all (\<lambda>(k, v). \<not> is_var_blocked k \<and> var_name_ok k \<and> one_line v) kvs"

lemma put_lines_kept:
  "settable kvs \<Longrightarrow> list_all line_fine ls \<Longrightarrow>
   list_all line_fine (put_lines kvs ls) \<and> (k \<notin> fst ` set kvs \<longrightarrow> env_map (put_lines kvs ls) k = env_map ls k)"
proof (induction kvs arbitrary: ls)
  case (Cons x kvs)
  obtain k' v where x: "x = (k', v)" by (cases x)
  have "line_fine (Var_Line k' (js_string v))"
    using Cons.prems var_name_plain [of k'] by (simp add: x settable_def one_line_def)
  then have "list_all line_fine (upsert_var k' (js_string v) ls)" using Cons.prems(2) by (intro upsert_fine)
  then show ?case
    using Cons.IH [of "upsert_var k' (js_string v) ls"] Cons.prems(1)
    by (simp add: x put_lines_def settable_def upsert_other)
qed (simp add: put_lines_def)

lemma blocked_not_settable: "settable kvs \<Longrightarrow> is_var_blocked k \<Longrightarrow> k \<notin> fst ` set kvs"
  by (auto simp: settable_def list_all_iff)

lemma accepted_settable:
  "List.map_filter (\<lambda>(k, v). key_refusal k) kvs = [] \<Longrightarrow> list_all (\<lambda>(k, v). one_line v) kvs \<Longrightarrow> settable kvs"
  by (auto simp: map_filter_Nil settable_def list_all_iff key_allowed)

lemma update_keeps_protected:
  assumes "is_var_blocked k" "\<And>kvs. vars_of body = Some kvs \<Longrightarrow> list_all (\<lambda>(k, v). one_line v) kvs"
  shows "env_value e (left_file (update_vars_with e r body user f w)) k = env_value e f k"
proof (cases "vars_of body")
  case (Some kvs)
  show ?thesis
  proof (cases "List.map_filter (\<lambda>(k, v). key_refusal k) kvs = [] \<and> (\<exists>ls f'. read_env_file e f = Inr (Some ls) \<and>
      write_env_file (put_lines kvs ls) f = Inr f')")
    case True
    then obtain ls f' where acc: "List.map_filter (\<lambda>(k, v). key_refusal k) kvs = []" "read_env_file e f = Inr (Some ls)"
      "write_env_file (put_lines kvs ls) f = Inr f'" by blast
    have ok: "settable kvs" using acc(1) assms(2) [OF Some] by (rule accepted_settable)
    note ls = read_lines [OF acc(2)]
    have "left_file (update_vars_with e r body user f w) = f'"
      by (simp add: update_vars_with_def Some acc Let_def)
    then show ?thesis
      using put_lines_kept [OF ok ls(1), of k] blocked_not_settable [OF ok assms(1)] written_value [OF acc(2,3)] ls(2,3)
      by simp
  next
    case False
    then have "left_file (update_vars_with e r body user f w) = f"
      by (auto simp: update_vars_with_def Some Let_def split: list.split sum.split option.split)
    then show ?thesis by simp
  qed
qed (simp add: update_vars_with_def)

lemma remove_keeps_protected:
  assumes "is_var_blocked k"
  shows "env_value e (left_file (remove_vars_with e r body user f w)) k = env_value e f k"
proof (cases "\<exists>b s ls f'. body = Some b \<and> keys_param b = Inr (Some s) \<and> find is_var_blocked (keys_to_remove s) = None \<and>
    read_env_file e f = Inr (Some ls) \<and> write_env_file (filter (\<lambda>l. \<not> removes (keys_to_remove s) l) ls) f = Inr f' \<and>
    left_file (remove_vars_with e r body user f w) = f'")
  case True
  then obtain b s ls f' where acc: "find is_var_blocked (keys_to_remove s) = None" "read_env_file e f = Inr (Some ls)"
    "write_env_file (filter (\<lambda>l. \<not> removes (keys_to_remove s) l) ls) f = Inr f'"
    "left_file (remove_vars_with e r body user f w) = f'" by blast
  note ls = read_lines [OF acc(2)]
  have "k \<notin> set (keys_to_remove s)" using acc(1) assms by (auto simp: find_None_iff)
  then show ?thesis
    using written_value [OF acc(2,3) fine_filter [OF ls(1)]] ls(2,3) acc(4) by (simp add: removed_map)
next
  case False
  then have "left_file (remove_vars_with e r body user f w) = f"
    by (auto simp: remove_vars_with_def Let_def split: sum.split option.split)
  then show ?thesis by simp
qed

text \<open>A vault whose secrets are single lines.\<close>

definition plain_vault :: "vault \<Rightarrow> bool" where
  "plain_vault op \<longleftrightarrow> (\<forall>item name token out. op item name token = Inr out \<longrightarrow> one_line (pulled_value (js_trim out)))"

lemma secret_one_line: "plain_vault op \<Longrightarrow> pull_secret e op token item = Inr v \<Longrightarrow> one_line v"
  by (auto simp: pull_secret_def plain_vault_def split: sum.splits)

lemma pulled_fine:
  assumes "d \<in> set integrations" "one_line v" "list_all line_fine ls" "is_var_blocked k"
  shows "list_all line_fine (upsert_var (igr_env_var d) (js_string v) ls)"
    "env_map (upsert_var (igr_env_var d) (js_string v) ls) k = env_map ls k"
proof -
  have d: "var_name_ok (igr_env_var d)" "\<not> is_var_blocked (igr_env_var d)"
    using registry_names assms(1) by (auto simp: list_all_iff)
  then show "list_all line_fine (upsert_var (igr_env_var d) (js_string v) ls)"
    using assms(2,3) var_name_plain [of "igr_env_var d"] by (intro upsert_fine) (simp_all add: one_line_def)
  show "env_map (upsert_var (igr_env_var d) (js_string v) ls) k = env_map ls k"
    using d(2) assms(4) by (intro upsert_other) auto
qed

lemma pull_keeps_protected:
  assumes "is_var_blocked k" "plain_vault op" "d \<in> set integrations"
  shows "env_value e (left_file (handle_pull av op e r d user f w)) k = env_value e f k"
proof (cases "\<exists>item token v ls f'. pull_secret e op token item = Inr v \<and> read_env_file e f = Inr (Some ls) \<and>
    write_env_file (upsert_var (igr_env_var d) (js_string v) ls) f = Inr f' \<and>
    left_file (handle_pull av op e r d user f w) = f'")
  case True
  then obtain item token v ls f' where acc: "pull_secret e op token item = Inr v" "read_env_file e f = Inr (Some ls)"
    "write_env_file (upsert_var (igr_env_var d) (js_string v) ls) f = Inr f'"
    "left_file (handle_pull av op e r d user f w) = f'" by blast
  note ls = read_lines [OF acc(2)] and new = pulled_fine [OF assms(3) secret_one_line [OF assms(2) acc(1)] _ assms(1)]
  show ?thesis using written_value [OF acc(2,3) new(1) [OF ls(1)]] new(2) [OF ls(1)] ls(2,3) acc(4) by simp
next
  case False
  then have "left_file (handle_pull av op e r d user f w) = f"
    by (auto simp: handle_pull_def split: sum.split option.split)
  then show ?thesis by simp
qed

lemma pull_each_kept:
  assumes "is_var_blocked k" "plain_vault op" "set ds \<subseteq> set integrations" "list_all line_fine ls"
  shows "list_all line_fine (fst (pull_each e op token ds ls)) \<and> env_map (fst (pull_each e op token ds ls)) k = env_map ls k"
  using assms(3,4)
proof (induction ds arbitrary: ls)
  case (Cons d ds)
  obtain ls1 x where one: "pull_one e op token d ls = (ls1, x)" by fastforce
  have "list_all line_fine ls1 \<and> env_map ls1 k = env_map ls k"
    using one Cons.prems pulled_fine [OF _ secret_one_line [OF assms(2)] _ assms(1)]
    by (auto simp: pull_one_def Let_def split: sum.splits if_splits)
  then show ?case using Cons.IH [of ls1] Cons.prems(1) by (simp add: one case_prod_unfold)
qed simp

lemma answer_file [simp]: "left_file (case x of (w', a) \<Rightarrow> (w', f, a)) = f"
  by (simp add: case_prod_unfold)

lemma targets_known: "set (pull_targets c) \<subseteq> set integrations"
  by (auto simp: pull_targets_def)

lemma pull_all_keeps_protected:
  assumes "is_var_blocked k" "plain_vault op"
  shows "env_value e (left_file (handle_pull_all av op e r c user f w)) k = env_value e f k"
proof (cases "\<exists>token ls f'. read_env_file e f = Inr (Some ls) \<and>
    write_env_file (fst (pull_each e op token (pull_targets c) ls)) f = Inr f' \<and>
    left_file (handle_pull_all av op e r c user f w) = f'")
  case True
  then obtain token ls f' where acc: "read_env_file e f = Inr (Some ls)"
    "write_env_file (fst (pull_each e op token (pull_targets c) ls)) f = Inr f'"
    "left_file (handle_pull_all av op e r c user f w) = f'" by blast
  note ls = read_lines [OF acc(1)] and new = pull_each_kept [OF assms targets_known]
  show ?thesis
    using written_value [OF acc(1,2)] new [OF read_lines(1) [OF acc(1)], of e token c] ls(2,3) acc(3) by simp
next
  case False
  then have "left_file (handle_pull_all av op e r c user f w) = f"
    by (auto simp: handle_pull_all_def split: sum.split option.split prod.split) (metis fst_conv)
  then show ?thesis by simp
qed

lemma dispatch_keeps_protected:
  assumes "is_var_blocked k" "plain_vault op"
  shows "env_value e (left_file (dispatch_action av op web e r user b f w)) k = env_value e f k"
  using pull_all_keeps_protected [OF assms] pull_keeps_protected [OF assms]
  by (auto simp: dispatch_action_def find_Some_iff split: option.split)

text \<open>Requests without a line break in any value.\<close>

fun one_line_op :: "integration_op \<Rightarrow> bool" where
  "one_line_op (Put_Integrations body) =
     (case vars_of body of None \<Rightarrow> True | Some kvs \<Rightarrow> list_all (\<lambda>(k, v). one_line v) kvs)"
| "one_line_op (Post_Integrations av op web body) = plain_vault op"
| "one_line_op _ = True"

lemma request_keeps_protected:
  assumes "is_var_blocked k" "one_line_op op"
  shows "env_value e (left_file (integration_do op e r f w)) k = env_value e f k"
proof -
  let ?P = "\<lambda>f'. env_value e f' k = env_value e f k"
  note wrap = file_with_role_keeps [of ?P] file_with_limit_keeps [of ?P] file_with_body_keeps [of ?P]
  show ?thesis
  proof (cases op)
    case (Get_Integrations av)
    have "left_file (list_integrations av e f w) = f" for w
      by (simp add: list_integrations_def split: sum.split option.split)
    then show ?thesis by (simp add: Get_Integrations get_integrations_def wrap)
  next
    case (Put_Integrations body)
    have "list_all (\<lambda>(k, v). one_line v) kvs" if "vars_of body = Some kvs" for kvs
      using assms(2) that by (simp add: Put_Integrations)
    then show ?thesis using update_keeps_protected [OF assms(1), of body]
      by (simp add: Put_Integrations put_integrations_def wrap)
  next
    case (Delete_Integrations body)
    then show ?thesis using remove_keeps_protected [OF assms(1)]
      by (auto simp: delete_integrations_def intro!: wrap)
  next
    case (Post_Integrations av vlt web body)
    then show ?thesis using assms dispatch_keeps_protected [OF assms(1), of vlt]
      by (auto simp: post_integrations_def intro!: wrap)
  qed
qed

definition integration_step ::
  "env \<Rightarrow> int \<times> integration_op \<times> request \<Rightarrow> world \<times> env_file \<Rightarrow> world \<times> env_file" where
  "integration_step e x s =
     (case x of (t, op, r) \<Rightarrow>
      (case integration_do op e r (snd s) ((fst s)\<lparr>clock := t\<rparr>) of (w', f', a) \<Rightarrow> (w', f')))"

text \<open>
  Claim C24. Protected variables are out of reach of the integrations route. Whatever sequence of
  requests (listing, setting, removing, testing, pulling from the vault) is served, with whatever
  users, bodies and answers of services, the value the file gives to a protected variable
  (\<open>PATH\<close>, \<open>HOME\<close>, the loader's \<open>LD_\<close> names, ...) stays what it was, as long as the values
  written are single lines.
\<close>

theorem protected_vars_kept:
  assumes "is_var_blocked k" "list_all (\<lambda>(t, op, r). one_line_op op) xs"
  shows "env_value e (snd (fold (integration_step e) xs (w, f))) k = env_value e f k"
  using assms(2)
proof (induction xs arbitrary: w f)
  case (Cons x xs)
  obtain t op r where x: "x = (t, op, r)" by (cases x)
  obtain w' f' a where run: "integration_do op e r f (w\<lparr>clock := t\<rparr>) = (w', f', a)" by (metis prod_cases3)
  have "env_value e f' k = env_value e f k"
    using request_keeps_protected [OF assms(1), of op e r f "w\<lparr>clock := t\<rparr>"] Cons.prems run by (simp add: x)
  then show ?case using Cons.IH [of w' f'] Cons.prems by (simp add: x integration_step_def run)
qed simp

definition sample_home :: env where
  "sample_home k = (if k = ''OPENCLAW_HOME'' then Some ''/opt'' else sample_env k)"

definition sample_env_file :: env_file where
  "sample_env_file = \<lparr>ef_text = Inr (Some (''# keys'' @ [newline] @ ''PATH=/bin'' @ [newline] @ ''GITHUB_TOKEN=abc'')), ef_write_error = None\<rparr>"

theorem protected_vars_kept_witness:
  "env_value sample_home (snd (fold (integration_step sample_home)
     [(6000, Put_Integrations (Some (JObj [(''vars'', JObj [(''BRAVE_API_KEY'', JStr ''x y'')])])), admin_request),
      (7000, Delete_Integrations (Some (JObj [(''keys'', JStr ''GITHUB_TOKEN, PATH'')])), admin_request)]
     (world_at 5000, sample_env_file))) ''PATH'' = Some ''/bin''"
proof -
  let ?xs = "[(6000, Put_Integrations (Some (JObj [(''vars'', JObj [(''BRAVE_API_KEY'', JStr ''x y'')])])), admin_request),
      (7000, Delete_Integrations (Some (JObj [(''keys'', JStr ''GITHUB_TOKEN, PATH'')])), admin_request)]"
  have "is_var_blocked ''PATH''" "list_all (\<lambda>(t, op, r). one_line_op op) ?xs"
    by (simp_all add: is_var_blocked_def blocked_vars_def vars_of_def one_line_def)
  note run = protected_vars_kept [OF this, of sample_home "world_at 5000" sample_env_file]
  have "env_value sample_home sample_env_file ''PATH'' = Some ''/bin''" by code_simp
  then show ?thesis using run by simp
qed

section \<open>Reading back what was set\<close>

fun is_comment :: "env_line \<Rightarrow> bool" where
  "is_comment (Comment_Line raw) = True"
| "is_comment l = False"

lemma comments_upsert: "filter is_comment (upsert_var k v ls) = filter is_comment ls"
proof -
  have "filter is_comment (change_first k v ls) = filter is_comment ls"
  proof (induction ls)
    case (Cons l ls)
    then show ?case by (cases l) auto
  qed simp
  then show ?thesis by (simp add: upsert_var_def)
qed

lemma comments_reread:
  "list_all line_fine ls \<Longrightarrow> [] \<notin> set (var_names ls) \<Longrightarrow> filter is_comment (map reread ls) = filter is_comment ls"
proof (induction ls)
  case (Cons l ls)
  then show ?case using parse_var_line by (cases l) (auto simp: reread_def)
qed simp

lemma put_lines_effect:
  assumes "settable kvs" "distinct (map fst kvs)" "tidy ls"
  shows "env_map (put_lines kvs ls) k = (case map_of kvs k of Some v \<Rightarrow> Some (js_string v) | None \<Rightarrow> env_map ls k) \<and>
    tidy (put_lines kvs ls) \<and> filter is_comment (put_lines kvs ls) = filter is_comment ls"
  using assms
proof (induction kvs arbitrary: ls)
  case (Cons x kvs)
  obtain k' v where x: "x = (k', v)" by (cases x)
  let ?ls = "upsert_var k' (js_string v) ls"
  have ne: "k' \<noteq> []" using Cons.prems(1) by (simp add: x settable_def var_name_ok_def)
  have fresh: "map_of kvs k' = None" using Cons.prems(2) by (simp add: x map_of_eq_None_iff)
  have rest: "settable kvs" "distinct (map fst kvs)" "tidy ?ls"
    using Cons.prems ne by (simp_all add: x settable_def upsert_tidy)
  have step: "put_lines (x # kvs) ls = put_lines kvs ?ls" by (simp add: put_lines_def x)
  show ?case
    using Cons.IH [OF rest] upsert_same [OF Cons.prems(3) ne, of "js_string v"] upsert_other [of k k' "js_string v" ls] fresh
    unfolding step by (cases "k = k'") (auto simp: x comments_upsert split: option.split)
qed (simp add: put_lines_def)

lemma home_granted: "with_role m sample_home admin_request h w = h api_user w"
  by (cases m) (simp_all add: with_role_def require_role_def get_user_from_request_def admin_request_def
      sample_request_def sample_home_def sample_env_def header_or_def opt_or_def parse_cookie_def match_cookie_def
      api_key_ok_iff api_user_def role_level_def)

lemma put_accepted:
  assumes "vars_of body = Some kvs" "List.map_filter (\<lambda>(k, v). key_refusal k) kvs = []"
    and "read_env_file sample_home f = Inr (Some ls)" "ef_write_error f = None"
  shows "\<exists>w' j. put_integrations body sample_home admin_request f w =
    (w', f\<lparr>ef_text := Inr (Some (serialize_env (put_lines kvs ls)))\<rparr>, Reply 200 j)"
  using assms by (simp add: put_integrations_def file_with_role_def home_granted update_vars_with_def write_env_file_def Let_def)

lemma sample_lines: "read_env_file sample_home sample_env_file =
    Inr (Some [Comment_Line ''# keys'', Var_Line ''PATH'' ''/bin'', Var_Line ''GITHUB_TOKEN'' ''abc''])"
  by code_simp

lemma sample_writable: "ef_write_error sample_env_file = None"
  by (simp add: sample_env_file_def)



section \<open>Limits of the protection\<close>

text \<open>A line break in a value sets any variable, a protected one too.\<close>

lemma newline_injects:
  "env_value sample_home (left_file (put_integrations
     (Some (JObj [(''vars'', JObj [(''NOTE'', JStr (''x'' @ [newline] @ ''PATH=/evil''))])]))
     sample_home admin_request sample_env_file (world_at 5000))) ''PATH'' = Some ''/evil''"
proof -
  let ?kvs = "[(''NOTE'', JStr (''x'' @ [newline] @ ''PATH=/evil''))]"
  have acc: "List.map_filter (\<lambda>(k, v). key_refusal k) ?kvs = []" by code_simp
  let ?ls = "[Comment_Line ''# keys'', Var_Line ''PATH'' ''/bin'', Var_Line ''GITHUB_TOKEN'' ''abc'']"
  have vars: "vars_of (Some (JObj [(''vars'', JObj ?kvs)])) = Some ?kvs" by (simp add: vars_of_def)
  obtain w' j where run: "put_integrations (Some (JObj [(''vars'', JObj ?kvs)])) sample_home admin_request sample_env_file
      (world_at 5000) = (w', sample_env_file\<lparr>ef_text := Inr (Some (serialize_env (put_lines ?kvs ?ls)))\<rparr>, Reply 200 j)"
    using put_accepted [OF vars acc sample_lines sample_writable] by metis
  have "env_value sample_home (sample_env_file\<lparr>ef_text := Inr (Some (serialize_env (put_lines ?kvs ?ls)))\<rparr>) ''PATH'' = Some ''/evil''"
    by code_simp
  then show ?thesis using run by simp
qed

text \<open>Of a variable that is set twice, the request changes the first line and the list shows the last.\<close>

lemma first_line_changed:
  "env_map (upsert_var ''K'' ''new'' [Var_Line ''K'' ''a'', Var_Line ''K'' ''b'']) ''K'' = Some ''b''"
  by code_simp

text \<open>A secret that is a number is stored and logged, and yet reported as a failure.\<close>

lemma number_secret_fails:
  assumes "n \<noteq> 0"
  shows "pulled_value (json_text (JInt n)) = JInt n" "\<not> pulled_empty (JInt n)" "redact_pulled (JInt n) = None"
proof -
  have "parse_json (json_text (JInt n)) = Some (JInt n)" by (rule json_format.read_printed) simp
  then show "pulled_value (json_text (JInt n)) = JInt n" by (simp add: pulled_value_def or_else_def)
qed (use assms in \<open>simp_all add: pulled_empty_def redact_pulled_def\<close>)

end
