(* ===== verification/Maintenance.thy ===== *)
theory Maintenance
  imports Settings Host_Files Pipelines
begin

text \<open>
  The administrator's routes \<open>app/api/cleanup/route.ts\<close>, \<open>export/route.ts\<close> and
  \<open>backup/route.ts\<close>. The clean-up works on the database and on the file of token usage, the
  backups on the files of their directory, of which a name, a time and, from outside, a size
  is known. Rows are exported as the columns of their table, where JSON is text.
\<close>

section \<open>Retention\<close>

text \<open>\<open>new Date(ms).toISOString().split('T')[0]\<close>; \<open>None\<close> is the exception of a time out of range.\<close>

definition iso_day :: "rat \<Rightarrow> string option" where
  "iso_day ms =
     (if \<bar>ms\<bar> \<le> 8640000000000000
      then Some (takeWhile (\<lambda>c. c \<noteq> CHR ''T'') (iso_string (if 0 \<le> ms then \<lfloor>ms\<rfloor> else \<lceil>ms\<rceil>))) else None)"

datatype retention_table = Ret_Activities | Ret_Audit | Ret_Notifications | Ret_Runs

definition retention_tables :: "retention_table list" where
  "retention_tables = [Ret_Activities, Ret_Audit, Ret_Notifications, Ret_Runs]"

fun retention_label :: "retention_table \<Rightarrow> string" where
  "retention_label Ret_Activities = ''Activities''"
| "retention_label Ret_Audit = ''Audit Log''"
| "retention_label Ret_Notifications = ''Notifications''"
| "retention_label Ret_Runs = ''Pipeline Runs''"

text \<open>\<open>config.retention\<close>; \<open>None\<close> is \<open>NaN\<close>.\<close>

fun table_days :: "env \<Rightarrow> retention_table \<Rightarrow> rat option" where
  "table_days e Ret_Activities = retention_days e ''MC_RETAIN_ACTIVITIES_DAYS'' ''90''"
| "table_days e Ret_Audit = retention_days e ''MC_RETAIN_AUDIT_DAYS'' ''365''"
| "table_days e Ret_Notifications = retention_days e ''MC_RETAIN_NOTIFICATIONS_DAYS'' ''60''"
| "table_days e Ret_Runs = retention_days e ''MC_RETAIN_PIPELINE_RUNS_DAYS'' ''90''"

definition token_days :: "env \<Rightarrow> rat option" where
  "token_days e = retention_days e ''MC_RETAIN_TOKEN_USAGE_DAYS'' ''90''"

text \<open>\<open>created_at < cutoff\<close>.\<close>

definition too_old :: "rat \<Rightarrow> int \<Rightarrow> int \<Rightarrow> bool" where
  "too_old days now created \<longleftrightarrow> of_int created < of_int now - days * 86400"

fun count_old :: "rat \<Rightarrow> int \<Rightarrow> retention_table \<Rightarrow> db \<Rightarrow> nat" where
  "count_old days now Ret_Activities d = tbl_count (\<lambda>a. too_old days now (act_created_at a)) (activities d)"
| "count_old days now Ret_Audit d = tbl_count (\<lambda>a. too_old days now (aud_created_at a)) (audit_log d)"
| "count_old days now Ret_Notifications d = tbl_count (\<lambda>n. too_old days now (ntf_created_at n)) (notifications d)"
| "count_old days now Ret_Runs d = tbl_count (\<lambda>r. too_old days now (run_created_at r)) (runs d)"

fun delete_old :: "rat \<Rightarrow> int \<Rightarrow> retention_table \<Rightarrow> db \<Rightarrow> db" where
  "delete_old days now Ret_Activities d =
     d\<lparr>activities := tbl_delete_where (\<lambda>i a. too_old days now (act_created_at a)) (activities d)\<rparr>"
| "delete_old days now Ret_Audit d =
     d\<lparr>audit_log := tbl_delete_where (\<lambda>i a. too_old days now (aud_created_at a)) (audit_log d)\<rparr>"
| "delete_old days now Ret_Notifications d =
     d\<lparr>notifications := tbl_delete_where (\<lambda>i n. too_old days now (ntf_created_at n)) (notifications d)\<rparr>"
| "delete_old days now Ret_Runs d =
     d\<lparr>runs := tbl_delete_where (\<lambda>i r. too_old days now (run_created_at r)) (runs d)\<rparr>"

section \<open>The file of token usage\<close>

text \<open>Its content, where it is there and is JSON, and whether it can be written.\<close>

record token_file =
  tf_content :: "json option"
  tf_writable :: bool

text \<open>\<open>r.timestamp\<close> as a number: \<open>Inl\<close> where reading it throws, \<open>None\<close> for \<open>NaN\<close>.\<close>

definition entry_time :: "json \<Rightarrow> unit + rat option" where
  "entry_time r = (if r = JNull then Inl () else Inr (Option.bind (jget r ''timestamp'') number_of))"

definition entry_times :: "json option \<Rightarrow> (json \<times> rat option) list option" where
  "entry_times content =
     (case content of
        Some (JArr rs) \<Rightarrow>
          if list_ex (\<lambda>r. r = JNull) rs then None
          else Some (map (\<lambda>r. (r, case entry_time r of Inr t \<Rightarrow> t | Inl u \<Rightarrow> None)) rs)
      | _ \<Rightarrow> None)"

definition token_cutoff :: "rat \<Rightarrow> int \<Rightarrow> rat" where
  "token_cutoff days now_ms = of_int now_ms - days * 86400000"

definition kept_entries :: "rat \<Rightarrow> (json \<times> rat option) list \<Rightarrow> json list" where
  "kept_entries cutoff rs = map fst (filter (\<lambda>(r, t). case t of None \<Rightarrow> False | Some q \<Rightarrow> cutoff \<le> q) rs)"

definition stale_entries :: "rat \<Rightarrow> (json \<times> rat option) list \<Rightarrow> nat" where
  "stale_entries cutoff rs = length (filter (\<lambda>(r, t). case t of None \<Rightarrow> False | Some q \<Rightarrow> q < cutoff) rs)"

section \<open>Previewing the clean-up\<close>

definition JOptNumber :: "rat option \<Rightarrow> json" where
  "JOptNumber q = (case q of None \<Rightarrow> JNull | Some n \<Rightarrow> JNum n)"

definition preview_note :: "string \<Rightarrow> rat option \<Rightarrow> string \<Rightarrow> json" where
  "preview_note label days note = JObj [(''table'', JStr label), (''retention_days'', JOptNumber days),
     (''stale_count'', JNum 0), (''note'', JStr note)]"

definition preview_count :: "string \<Rightarrow> rat \<Rightarrow> string \<Rightarrow> nat \<Rightarrow> json" where
  "preview_count label days day n = JObj [(''table'', JStr label), (''retention_days'', JNum days),
     (''cutoff_date'', JStr day), (''stale_count'', JInt (int n))]"

definition preview_table :: "env \<Rightarrow> world \<Rightarrow> retention_table \<Rightarrow> json" where
  "preview_table e w t =
     (case table_days e t of
        None \<Rightarrow> preview_note (retention_label t) None ''Table not found''
      | Some days \<Rightarrow>
          if days \<le> 0 then preview_note (retention_label t) (Some 0) ''Retention disabled (keep forever)''
          else (case iso_day ((of_int (now_s w) - days * 86400) * 1000) of
             None \<Rightarrow> preview_note (retention_label t) (Some days) ''Table not found''
           | Some day \<Rightarrow> preview_count (retention_label t) days day (count_old days (now_s w) t (dbase w))))"

definition preview_tokens :: "env \<Rightarrow> token_file \<Rightarrow> world \<Rightarrow> json" where
  "preview_tokens e f w =
     (case (token_days e, entry_times (tf_content f)) of
        (Some days, Some rs) \<Rightarrow>
          (case iso_day (token_cutoff days (clock w)) of
             Some day \<Rightarrow> preview_count ''Token Usage (file)'' days day (stale_entries (token_cutoff days (clock w)) rs)
           | None \<Rightarrow> preview_note ''Token Usage (file)'' (Some days) ''No token data file'')
      | (days, rs) \<Rightarrow> preview_note ''Token Usage (file)'' days ''No token data file'')"

definition retention_json :: "env \<Rightarrow> json" where
  "retention_json e = JObj
     [(''activities'', JOptNumber (table_days e Ret_Activities)), (''auditLog'', JOptNumber (table_days e Ret_Audit)),
      (''logs'', JOptNumber (retention_days e ''MC_RETAIN_LOGS_DAYS'' ''30'')),
      (''notifications'', JOptNumber (table_days e Ret_Notifications)),
      (''pipelineRuns'', JOptNumber (table_days e Ret_Runs)), (''tokenUsage'', JOptNumber (token_days e))]"

definition get_cleanup :: "env \<Rightarrow> request \<Rightarrow> (token_file, json) on_file" where
  "get_cleanup e r = file_with_role Admin e r (\<lambda>user f w.
     (w, f, Reply 200 (JObj [(''retention'', retention_json e),
        (''preview'', JArr (map (preview_table e w) retention_tables @ [preview_tokens e f w]))])))"

section \<open>Cleaning up\<close>

record cleanup_result =
  cr_table :: string
  cr_deleted :: nat
  cr_cutoff :: string
  cr_days :: "rat option"

definition cleanup_result_json :: "cleanup_result \<Rightarrow> json" where
  "cleanup_result_json x = JObj [(''table'', JStr (cr_table x)), (''deleted'', JInt (int (cr_deleted x))),
     (''cutoff_date'', JStr (cr_cutoff x)), (''retention_days'', JOptNumber (cr_days x))]"

text \<open>A retention time that is \<open>NaN\<close> or out of range makes the date throw after the statement ran.\<close>

definition clean_table :: "bool \<Rightarrow> env \<Rightarrow> int \<Rightarrow> retention_table \<Rightarrow> db \<Rightarrow> db \<times> cleanup_result list" where
  "clean_table dry e now t d =
     (let result = (\<lambda>n day. [\<lparr>cr_table = retention_label t, cr_deleted = n, cr_cutoff = day, cr_days = table_days e t\<rparr>])
      in case table_days e t of
        None \<Rightarrow> (d, result 0 [])
      | Some days \<Rightarrow>
          if days \<le> 0 then (d, [])
          else (let d' = (if dry then d else delete_old days now t d)
                in case iso_day ((of_int now - days * 86400) * 1000) of
                     None \<Rightarrow> (d', result 0 [])
                   | Some day \<Rightarrow> (d', result (count_old days now t d) day)))"

fun clean_tables :: "bool \<Rightarrow> env \<Rightarrow> int \<Rightarrow> retention_table list \<Rightarrow> db \<Rightarrow> db \<times> cleanup_result list" where
  "clean_tables dry e now [] d = (d, [])"
| "clean_tables dry e now (t # ts) d =
     (case clean_table dry e now t d of (d1, r1) \<Rightarrow>
      (case clean_tables dry e now ts d1 of (d2, r2) \<Rightarrow> (d2, r1 @ r2)))"

definition clean_tokens :: "bool \<Rightarrow> env \<Rightarrow> int \<Rightarrow> token_file \<Rightarrow> token_file \<times> cleanup_result list" where
  "clean_tokens dry e now_ms f =
     (case (token_days e, entry_times (tf_content f)) of
        (Some days, Some rs) \<Rightarrow>
          if days \<le> 0 then (f, [])
          else
            let kept = kept_entries (token_cutoff days now_ms) rs; removed = length rs - length kept;
                writes = (\<not> dry \<and> 0 < removed)
            in if writes \<and> \<not> tf_writable f then (f, [])
               else (let f' = (if writes then f\<lparr>tf_content := Some (JArr kept)\<rparr> else f)
                     in case iso_day (token_cutoff days now_ms) of
                          None \<Rightarrow> (f', [])
                        | Some day \<Rightarrow> (f', [\<lparr>cr_table = ''Token Usage (file)'', cr_deleted = removed,
                                             cr_cutoff = day, cr_days = Some days\<rparr>]))
      | _ \<Rightarrow> (f, []))"

definition deleted_count :: "cleanup_result list \<Rightarrow> nat" where
  "deleted_count rs = sum_list (map cr_deleted rs)"

text \<open>\<open>body.dry_run === true\<close>; a body that is not JSON counts as empty, \<open>null\<close> throws.\<close>

definition dry_run_flag :: "json option \<Rightarrow> bool option" where
  "dry_run_flag body =
     (case body of None \<Rightarrow> Some False | Some b \<Rightarrow> if b = JNull then None else Some (jget b ''dry_run'' = Some (JBool True)))"

definition cleanup_with :: "env \<Rightarrow> request \<Rightarrow> bool \<Rightarrow> auth_user \<Rightarrow> (token_file, json) on_file" where
  "cleanup_with e r dry user f w =
     (case clean_tables dry e (now_s w) retention_tables (dbase w) of (d, rs) \<Rightarrow>
      (case clean_tokens dry e (clock w) f of (f', rs') \<Rightarrow>
       (let n = deleted_count (rs @ rs'); results = JArr (map cleanup_result_json (rs @ rs')); w1 = w\<lparr>dbase := d\<rparr>;
            w2 = (if \<not> dry \<and> 0 < n
                  then log_audit_event ''data_cleanup'' (au_username user) (Some (au_id user)) None None
                         (Some (JObj [(''total_deleted'', JInt (int n)), (''results'', results)])) (Some (caller_ip r)) None w1
                  else w1)
        in (w2, f', Reply 200 (JObj [(''dry_run'', JBool dry), (''total_deleted'', JInt (int n)), (''results'', results)])))))"

definition post_cleanup :: "json option \<Rightarrow> env \<Rightarrow> request \<Rightarrow> (token_file, json) on_file" where
  "post_cleanup body e r = file_with_role Admin e r (\<lambda>user. file_with_limit HeavyLimiter e r
     (\<lambda>f w. case dry_run_flag body of None \<Rightarrow> (w, f, Crash) | Some dry \<Rightarrow> cleanup_with e r dry user f w))"

section \<open>Exporting rows\<close>

definition json_column :: "json option \<Rightarrow> json" where
  "json_column v = JOptStr (map_option json_text v)"

definition audit_columns :: "int \<times> audit \<Rightarrow> obj" where
  "audit_columns x = (case x of (i, a) \<Rightarrow>
     [(''id'', JInt i), (''action'', JStr (aud_action a)), (''actor'', JStr (aud_actor a)), (''actor_id'', JOptInt (aud_actor_id a)),
      (''target_type'', JOptStr (aud_target_type a)), (''target_id'', JOptInt (aud_target_id a)),
      (''detail'', json_column (aud_detail a)), (''ip_address'', JOptStr (aud_ip a)),
      (''user_agent'', JOptStr (aud_user_agent a)), (''created_at'', JInt (aud_created_at a))])"

definition task_columns :: "int \<times> task \<Rightarrow> obj" where
  "task_columns x = (case x of (i, t) \<Rightarrow>
     [(''id'', JInt i), (''title'', JStr (task_title t)), (''description'', JOptStr (task_description t)),
      (''status'', JStr (status_text (task_status t))), (''priority'', JStr (priority_text (task_priority t))),
      (''assigned_to'', JOptStr (task_assigned_to t)), (''created_by'', JStr (task_created_by t)),
      (''created_at'', JInt (task_created_at t)), (''updated_at'', JInt (task_updated_at t)),
      (''due_date'', JOptNumber (task_due_date t)), (''estimated_hours'', JOptNumber (task_estimated_hours t)),
      (''actual_hours'', JOptNumber (task_actual_hours t)),
      (''tags'', json_column (map_option (\<lambda>ts. JArr (map JStr ts)) (task_tags t))),
      (''metadata'', json_column (task_metadata t))])"

definition activity_columns :: "int \<times> activity \<Rightarrow> obj" where
  "activity_columns x = (case x of (i, a) \<Rightarrow>
     [(''id'', JInt i), (''type'', JStr (act_type a)), (''entity_type'', JStr (act_entity_type a)),
      (''entity_id'', JInt (act_entity_id a)), (''actor'', JStr (act_actor a)), (''description'', JStr (act_description a)),
      (''data'', json_column (act_data a)), (''created_at'', JInt (act_created_at a))])"

fun step_status_name :: "step_status \<Rightarrow> string" where
  "step_status_name Pending = ''pending''"
| "step_status_name Running = ''running''"
| "step_status_name Completed = ''completed''"
| "step_status_name Failed = ''failed''"
| "step_status_name Skipped = ''skipped''"

definition step_state :: "run_step \<Rightarrow> json" where
  "step_state s = JObj
     [(''step_index'', JInt (int (rs_step_index s))), (''template_id'', JInt (rs_template_id s)),
      (''template_name'', JStr (rs_template_name s)),
      (''on_failure'', JStr (case rs_on_failure s of Stop \<Rightarrow> ''stop'' | Continue \<Rightarrow> ''continue'')),
      (''status'', JStr (step_status_name (rs_status s))), (''spawn_id'', JOptStr (rs_spawn_id s)),
      (''started_at'', JOptInt (rs_started_at s)), (''completed_at'', JOptInt (rs_completed_at s)),
      (''error'', JOptStr (rs_error s))]"

definition run_columns :: "db \<Rightarrow> int \<times> pipeline_run \<Rightarrow> obj" where
  "run_columns d x = (case x of (i, r) \<Rightarrow>
     [(''id'', JInt i), (''pipeline_id'', JInt (run_pipeline_id r)), (''status'', JStr (run_status_text (run_status r))),
      (''current_step'', JInt (int (run_current_step r))),
      (''steps_snapshot'', JStr (json_text (JArr (map step_state (run_steps r))))),
      (''started_at'', JOptInt (run_started_at r)), (''completed_at'', JOptInt (run_completed_at r)),
      (''triggered_by'', JStr (run_triggered_by r)), (''created_at'', JInt (run_created_at r)),
      (''pipeline_name'', JOptStr (map_option pl_name (tbl_get (pipelines d) (run_pipeline_id r))))])"

datatype export_type = Export_Audit | Export_Tasks | Export_Activities | Export_Pipelines

fun export_type_of :: "string option \<Rightarrow> export_type option" where
  "export_type_of (Some s) =
     (if s = ''audit'' then Some Export_Audit else if s = ''tasks'' then Some Export_Tasks
      else if s = ''activities'' then Some Export_Activities else if s = ''pipelines'' then Some Export_Pipelines else None)"
| "export_type_of None = None"

fun export_headers :: "export_type \<Rightarrow> string list" where
  "export_headers Export_Audit = [''id'', ''action'', ''actor'', ''actor_id'', ''target_type'', ''target_id'', ''detail'',
     ''ip_address'', ''user_agent'', ''created_at'']"
| "export_headers Export_Tasks = [''id'', ''title'', ''description'', ''status'', ''priority'', ''assigned_to'', ''created_by'',
     ''created_at'', ''updated_at'', ''due_date'', ''estimated_hours'', ''actual_hours'', ''tags'']"
| "export_headers Export_Activities = [''id'', ''type'', ''entity_type'', ''entity_id'', ''actor'', ''description'', ''data'',
     ''created_at'']"
| "export_headers Export_Pipelines = [''id'', ''pipeline_id'', ''pipeline_name'', ''status'', ''current_step'', ''steps_snapshot'',
     ''started_at'', ''completed_at'', ''triggered_by'', ''created_at'']"

fun export_filename :: "export_type \<Rightarrow> string" where
  "export_filename Export_Audit = ''audit-log''"
| "export_filename Export_Tasks = ''tasks''"
| "export_filename Export_Activities = ''activities''"
| "export_filename Export_Pipelines = ''pipeline-runs''"

text \<open>A bound that is not a number binds as \<open>NULL\<close>, and the comparison selects nothing.\<close>

definition since_bound :: "string option \<Rightarrow> int \<Rightarrow> bool" where
  "since_bound p c = (case str_or_null p of None \<Rightarrow> True
     | Some s \<Rightarrow> (case parse_int s of None \<Rightarrow> False | Some n \<Rightarrow> n \<le> c))"

definition until_bound :: "string option \<Rightarrow> int \<Rightarrow> bool" where
  "until_bound p c = (case str_or_null p of None \<Rightarrow> True
     | Some s \<Rightarrow> (case parse_int s of None \<Rightarrow> False | Some n \<Rightarrow> c \<le> n))"

definition selected :: "(int list \<Rightarrow> int list) \<Rightarrow> ('r \<Rightarrow> int) \<Rightarrow> (int \<Rightarrow> bool) \<Rightarrow> int \<Rightarrow> 'r table \<Rightarrow> (int \<times> 'r) list" where
  "selected scan created P limit t =
     page_rows limit 0 (order_desc scan (\<lambda>(i, x). created x) (tbl_select (\<lambda>x. P (created x)) t))"

text \<open>With both bounds the query on runs names the column \<open>created_at\<close> of two tables, and fails.\<close>

definition export_rows ::
  "(int list \<Rightarrow> int list) \<Rightarrow> export_type \<Rightarrow> string option \<Rightarrow> string option \<Rightarrow> int \<Rightarrow> db \<Rightarrow> obj list option" where
  "export_rows scan ty since til limit d =
     (let P = (\<lambda>c. since_bound since c \<and> until_bound til c)
      in case ty of
        Export_Audit \<Rightarrow> Some (map audit_columns (selected scan aud_created_at P limit (audit_log d)))
      | Export_Tasks \<Rightarrow> Some (map task_columns (selected scan task_created_at P limit (tasks d)))
      | Export_Activities \<Rightarrow> Some (map activity_columns (selected scan act_created_at P limit (activities d)))
      | Export_Pipelines \<Rightarrow>
          if str_or_null since \<noteq> None \<and> str_or_null til \<noteq> None then None
          else Some (map (run_columns d) (selected scan run_created_at P limit (runs d))))"

definition cell_text :: "json \<Rightarrow> string" where
  "cell_text v = (if v = JNull then [] else js_string v)"

definition csv_special :: "char \<Rightarrow> bool" where
  "csv_special c \<longleftrightarrow> c = CHR '','' \<or> c = CHR 0x0A \<or> c = CHR 0x22"

definition csv_field :: "string \<Rightarrow> string" where
  "csv_field s =
     (if list_ex csv_special s
      then [CHR 0x22] @ concat (map (\<lambda>c. if c = CHR 0x22 then [c, c] else [c]) s) @ [CHR 0x22] else s)"

definition csv_lines :: "string list list \<Rightarrow> string" where
  "csv_lines rs = join_with [CHR 0x0A] (map (join_with '','') rs)"

definition csv_document :: "string list \<Rightarrow> obj list \<Rightarrow> string" where
  "csv_document headers rs =
     csv_lines (headers # map (\<lambda>row. map (\<lambda>h. csv_field (cell_text (fld row h))) headers) rs)"

text \<open>The body and the file name of the download.\<close>

datatype export_body = Csv_File string string | Json_File string json

definition export_body_of :: "export_type \<Rightarrow> string \<Rightarrow> string \<Rightarrow> obj list \<Rightarrow> int \<Rightarrow> export_body" where
  "export_body_of ty type_text format rs now_ms =
     (let day = takeWhile (\<lambda>c. c \<noteq> CHR ''T'') (iso_string now_ms); name = export_filename ty @ ''-'' @ day
      in if format = ''csv'' then Csv_File (name @ ''.csv'') (csv_document (export_headers ty) rs)
         else Json_File (name @ ''.json'') (JObj
           [(''type'', JStr type_text), (''exported_at'', JStr (iso_string now_ms)), (''count'', JInt (int (length rs))),
            (''data'', JArr (map JObj rs))]))"

definition export_with ::
  "(int list \<Rightarrow> int list) \<Rightarrow> (string \<Rightarrow> string option) \<Rightarrow> request \<Rightarrow> auth_user \<Rightarrow> world \<Rightarrow> world \<times> export_body response" where
  "export_with scan query r user w =
     (let type_text = opt_or (query ''type'') []; format = opt_or (query ''format'') ''csv''
      in case export_type_of (query ''type'') of
        None \<Rightarrow> (w, Fail 400 ''type required: audit, tasks, activities, pipelines'')
      | Some ty \<Rightarrow>
     (case parse_int (opt_or (query ''limit'') ''10000'') of
        None \<Rightarrow> (w, Crash)
      | Some l \<Rightarrow>
     (case export_rows scan ty (query ''since'') (query ''until'') (min l 50000) (dbase w) of
        None \<Rightarrow> (w, Crash)
      | Some rs \<Rightarrow>
          (log_audit_event ''data_export'' (au_username user) (Some (au_id user)) None None
             (Some (JObj [(''type'', JStr type_text), (''format'', JStr format), (''row_count'', JInt (int (length rs)))]))
             (Some (caller_ip r)) None w,
           Reply 200 (export_body_of ty type_text format rs (clock w))))))"

definition get_export ::
  "(int list \<Rightarrow> int list) \<Rightarrow> (string \<Rightarrow> string option) \<Rightarrow> env \<Rightarrow> request \<Rightarrow> world \<Rightarrow> world \<times> export_body response" where
  "get_export scan query e r = with_role Admin e r (\<lambda>user. with_limit HeavyLimiter e r (export_with scan query r user))"

section \<open>Backups\<close>

text \<open>The files of the directory with their times of modification, in the order of the listing.\<close>

type_synonym backup_dir = "(string \<times> int) list"

definition max_backups :: int where
  "max_backups = 10"

definition backup_view :: "(string \<Rightarrow> int) \<Rightarrow> string \<times> int \<Rightarrow> json" where
  "backup_view file_size x = (case x of (name, mtime) \<Rightarrow> JObj [(''name'', JStr name), (''size'', JInt (file_size name)),
     (''created_at'', JInt (mtime div 1000))])"

definition get_backups :: "string \<Rightarrow> (string \<Rightarrow> int) \<Rightarrow> env \<Rightarrow> request \<Rightarrow> (backup_dir, json) on_file" where
  "get_backups dir file_size e r = file_with_role Admin e r (\<lambda>user fs w.
     (w, fs, Reply 200 (JObj
        [(''backups'', JArr (map (backup_view file_size)
            (sort_key (\<lambda>x. - (snd x div 1000)) (filter (\<lambda>x. ends_with ''.db'' (fst x)) fs)))), (''dir'', JStr dir)])))"

definition backup_file_name :: "int \<Rightarrow> string" where
  "backup_file_name ms = ''mc-backup-'' @ backup_stamp ms @ ''.db''"

text \<open>\<open>copied\<close> is how the copy of the database ends: an error, or the size of the file.\<close>

definition create_backup_with ::
  "string \<Rightarrow> string + int \<Rightarrow> request \<Rightarrow> auth_user \<Rightarrow> (backup_dir, json) on_file" where
  "create_backup_with dir copied r user fs w =
     (let name = backup_file_name (clock w)
      in case copied of
        Inl m \<Rightarrow> (w, fs, Fail 500 (''Backup failed: '' @ m))
      | Inr bytes \<Rightarrow>
          (log_audit_event ''backup_create'' (au_username user) (Some (au_id user)) None None
             (Some (JObj [(''path'', JStr (path_join [dir, name])), (''size'', JInt bytes)])) (Some (caller_ip r)) None w,
           prune_backups max_backups (filter (\<lambda>x. fst x \<noteq> name) fs @ [(name, clock w)]),
           Reply 200 (JObj [(''success'', JBool True), (''backup'', JObj [(''name'', JStr name), (''size'', JInt bytes),
             (''created_at'', JInt (clock w div 1000))])])))"

definition post_backup :: "string \<Rightarrow> string + int \<Rightarrow> env \<Rightarrow> request \<Rightarrow> (backup_dir, json) on_file" where
  "post_backup dir copied e r = file_with_role Admin e r (\<lambda>user.
     file_with_limit HeavyLimiter e r (create_backup_with dir copied r user))"

text \<open>A name that is neither a text nor falsy has no \<open>endsWith\<close>.\<close>

definition backup_name :: "json option \<Rightarrow> unit + string option" where
  "backup_name name =
     (if \<not> jtruthy_opt name then Inr None
      else (case name of
        Some (JStr s) \<Rightarrow> Inr (if ends_with ''.db'' s \<and> CHR ''/'' \<notin> set s \<and> \<not> js_includes ''..'' s then Some s else None)
      | _ \<Rightarrow> Inl ()))"

definition delete_backup_with :: "json option \<Rightarrow> request \<Rightarrow> auth_user \<Rightarrow> (backup_dir, json) on_file" where
  "delete_backup_with body r user fs w =
     (case body of
        None \<Rightarrow> (w, fs, Fail 400 ''Request body required'')
      | Some b \<Rightarrow>
     (if b = JNull then (w, fs, Crash)
      else (case backup_name (jget b ''name'') of
        Inl u \<Rightarrow> (w, fs, Crash)
      | Inr None \<Rightarrow> (w, fs, Fail 400 ''Invalid backup name'')
      | Inr (Some name) \<Rightarrow>
          if name \<notin> fst ` set fs then (w, fs, Fail 404 ''Backup not found'')
          else (log_audit_event ''backup_delete'' (au_username user) (Some (au_id user)) None None
                  (Some (JObj [(''name'', JStr name)])) (Some (caller_ip r)) None w,
                filter (\<lambda>x. fst x \<noteq> name) fs, Reply 200 (JObj [(''success'', JBool True)])))))"

definition delete_backup :: "json option \<Rightarrow> env \<Rightarrow> request \<Rightarrow> (backup_dir, json) on_file" where
  "delete_backup body e r = file_with_role Admin e r (delete_backup_with body r)"

end
