(* ===== verification/Maintenance_Rules.thy ===== *)
theory Maintenance_Rules
  imports Maintenance Js_Text_Facts
begin

text \<open>
  What the routes of the administrator guarantee: a dry run announces what the clean-up deletes, an
  exported file is read back cell by cell by a reader of the CSV format, and a backup leaves no
  more files than it has to.
\<close>

section \<open>A reader of CSV\<close>

text \<open>Records end with a line break, fields with a comma; a field in quotes may hold any character,
  quotes doubled. \<open>None\<close> where a quote stands elsewhere or is not closed.\<close>

datatype csv_mode = Field_Start | In_Field | In_Quotes | After_Quote

fun csv_scan :: "csv_mode \<Rightarrow> string \<Rightarrow> string list \<Rightarrow> string list list \<Rightarrow> string \<Rightarrow> string list list option" where
  "csv_scan m field cells lines [] = (if m = In_Quotes then None else Some (lines @ [cells @ [field]]))"
| "csv_scan m field cells lines (c # cs) =
     (if m = In_Quotes
      then (if c = CHR 0x22 then csv_scan After_Quote field cells lines cs
            else csv_scan In_Quotes (field @ [c]) cells lines cs)
      else if c = CHR '','' then csv_scan Field_Start [] (cells @ [field]) lines cs
      else if c = CHR 0x0A then csv_scan Field_Start [] [] (lines @ [cells @ [field]]) cs
      else if c = CHR 0x22
      then (if m = Field_Start then csv_scan In_Quotes [] cells lines cs
            else if m = After_Quote then csv_scan In_Quotes (field @ [c]) cells lines cs
            else None)
      else if m = After_Quote then None
      else csv_scan In_Field (field @ [c]) cells lines cs)"

definition csv_read :: "string \<Rightarrow> string list list option" where
  "csv_read s = csv_scan Field_Start [] [] [] s"

lemma scan_plain:
  "\<not> list_ex csv_special s \<Longrightarrow> \<exists>m. m \<noteq> In_Quotes \<and> csv_scan Field_Start [] fs ls (s @ r) = csv_scan m s fs ls r"
proof -
  have field: "csv_scan In_Field acc fs ls (t @ r) = csv_scan In_Field (acc @ t) fs ls r" if "\<not> list_ex csv_special t" for acc t
    using that by (induction t arbitrary: acc) (auto simp: csv_special_def)
  assume s: "\<not> list_ex csv_special s"
  show ?thesis
  proof (cases s)
    case (Cons c t)
    then have "csv_scan Field_Start [] fs ls (s @ r) = csv_scan In_Field s fs ls r"
      using s field [of t "[c]"] by (simp add: csv_special_def)
    then show ?thesis by blast
  qed auto
qed

lemma scan_quoted:
  "csv_scan In_Quotes acc fs ls (concat (map (\<lambda>c. if c = CHR 0x22 then [c, c] else [c]) s) @ CHR 0x22 # r) =
   csv_scan After_Quote (acc @ s) fs ls r"
  by (induction s arbitrary: acc) auto

lemma scan_field: "\<exists>m. m \<noteq> In_Quotes \<and> (\<forall>r. r = [] \<or> hd r = CHR '','' \<or> hd r = CHR 0x0A \<longrightarrow>
    csv_scan Field_Start [] fs ls (csv_field s @ r) = csv_scan m s fs ls r)"
proof (cases "list_ex csv_special s")
  case True
  then have "csv_scan Field_Start [] fs ls (csv_field s @ r) = csv_scan After_Quote s fs ls r" for r
    using scan_quoted [of "[]" fs ls s r] by (simp add: csv_field_def)
  then show ?thesis by blast
next
  case False
  then have "csv_field s = s" by (simp add: csv_field_def)
  then have "csv_scan Field_Start [] fs ls (csv_field s @ r) = csv_scan In_Field s fs ls r"
    if "r = [] \<or> hd r = CHR '','' \<or> hd r = CHR 0x0A" for r
    using scan_plain [OF False, of fs ls r] that
    by (cases r) auto
  then show ?thesis by blast
qed

lemma scan_fields:
  "row \<noteq> [] \<Longrightarrow> r = [] \<or> hd r = CHR 0x0A \<Longrightarrow>
   \<exists>m field cells. m \<noteq> In_Quotes \<and> cells @ [field] = fs @ row \<and>
     csv_scan Field_Start [] fs ls (join_with '','' (map csv_field row) @ r) = csv_scan m field cells ls r"
proof (induction row arbitrary: fs rule: induct_list012)
  case (2 s)
  obtain m where "m \<noteq> In_Quotes" "csv_scan Field_Start [] fs ls (csv_field s @ r) = csv_scan m s fs ls r"
    using scan_field [of fs ls s] 2(2) by blast
  then show ?case by (auto simp: join_with_def)
next
  case (3 s t row)
  let ?rest = "join_with '','' (map csv_field (t # row)) @ r"
  obtain m where m: "m \<noteq> In_Quotes" "csv_scan Field_Start [] fs ls (csv_field s @ CHR '','' # ?rest) = csv_scan m s fs ls (CHR '','' # ?rest)"
    using scan_field [of fs ls s] by fastforce
  have "join_with '','' (map csv_field (s # t # row)) @ r = csv_field s @ CHR '','' # ?rest" by (simp add: join_with_def)
  moreover have "csv_scan m s fs ls (CHR '','' # ?rest) = csv_scan Field_Start [] (fs @ [s]) ls ?rest" using m(1) by simp
  ultimately show ?case using 3(2) [of "fs @ [s]"] 3(4) m(2) by simp
qed simp

lemma scan_lines:
  "rs \<noteq> [] \<Longrightarrow> list_all (\<lambda>row. row \<noteq> []) rs \<Longrightarrow>
   csv_scan Field_Start [] [] ls (csv_lines (map (map csv_field) rs)) = Some (ls @ rs)"
proof (induction rs arbitrary: ls rule: induct_list012)
  case (2 row)
  then show ?case using scan_fields [of row "[]" "[]" ls] by (auto simp: csv_lines_def join_with_def)
next
  case (3 row row' rs)
  let ?rest = "csv_lines (map (map csv_field) (row' # rs))"
  obtain m field cells where m: "m \<noteq> In_Quotes" "cells @ [field] = row"
      "csv_scan Field_Start [] [] ls (join_with '','' (map csv_field row) @ CHR 0x0A # ?rest) = csv_scan m field cells ls (CHR 0x0A # ?rest)"
  proof -
    have ne: "row \<noteq> []" using 3(4) by simp
    have "\<exists>m field cells. m \<noteq> In_Quotes \<and> cells @ [field] = row \<and>
      csv_scan Field_Start [] [] ls (join_with '','' (map csv_field row) @ CHR 0x0A # ?rest) = csv_scan m field cells ls (CHR 0x0A # ?rest)"
      using scan_fields [OF ne, of "CHR 0x0A # ?rest" "[]" ls] by (simp only: append_Nil list.sel simp_thms)
    then show thesis using that by blast
  qed
  have "csv_lines (map (map csv_field) (row # row' # rs)) = join_with '','' (map csv_field row) @ CHR 0x0A # ?rest"
    by (simp add: csv_lines_def join_with_def)
  moreover have "csv_scan m field cells ls (CHR 0x0A # ?rest) = csv_scan Field_Start [] [] (ls @ [row]) ?rest"
    using m(1,2) by simp
  ultimately show ?case using 3(2) [of "ls @ [row]"] 3(4) m(3) by simp
qed simp

interpretation csv_format: text_format "\<lambda>rs. csv_lines (map (map csv_field) rs)" csv_read
    "\<lambda>rs. rs \<noteq> [] \<and> list_all (\<lambda>row. row \<noteq> []) rs"
  by unfold_locales (simp add: csv_read_def scan_lines)

definition export_cells :: "export_type \<Rightarrow> obj \<Rightarrow> string list" where
  "export_cells ty row = map (\<lambda>h. cell_text (fld row h)) (export_headers ty)"

lemma headers_plain: "map csv_field (export_headers ty) = export_headers ty" "export_headers ty \<noteq> []"
  by (cases ty; simp add: csv_field_def csv_special_def)+

text \<open>
  Claim C37. An exported file is read back. When the export answers with a CSV file, a reader of
  the format finds in it the line of column names of the requested table, followed by the cells of
  the selected rows in their order, whatever commas, quotes or line breaks the cells hold.
\<close>

theorem exported_csv_read_back:
  assumes "get_export scan query e r w = (w', Reply 200 (Csv_File name doc))"
  shows "\<exists>ty rs l. export_type_of (query ''type'') = Some ty \<and> parse_int (opt_or (query ''limit'') ''10000'') = Some l \<and>
    export_rows scan ty (query ''since'') (query ''until'') (min l 50000) (dbase w) = Some rs \<and>
    csv_read doc = Some (export_headers ty # map (export_cells ty) rs)"
proof -
  obtain user where limited: "with_limit HeavyLimiter e r (export_with scan query r user) w = (w', Reply 200 (Csv_File name doc))"
    using assms by (auto simp: get_export_def with_role_def split: access.splits)
  then obtain w1 where run: "export_with scan query r user w1 = (w', Reply 200 (Csv_File name doc))" "dbase w1 = dbase w"
    by (cases rule: with_limit_cases) auto
  obtain ty l rs where x: "export_type_of (query ''type'') = Some ty" "parse_int (opt_or (query ''limit'') ''10000'') = Some l"
    "export_rows scan ty (query ''since'') (query ''until'') (min l 50000) (dbase w1) = Some rs"
    "export_body_of ty (opt_or (query ''type'') []) (opt_or (query ''format'') ''csv'') rs (clock w1) = Csv_File name doc"
    using run(1) by (auto simp: export_with_def Let_def split: option.splits)
  then have "doc = csv_document (export_headers ty) rs"
    by (auto simp: export_body_of_def Let_def split: if_splits)
  also have "\<dots> = csv_lines (map (map csv_field) (export_headers ty # map (export_cells ty) rs))"
    by (simp add: csv_document_def headers_plain export_cells_def comp_def)
  finally have "csv_read doc = Some (export_headers ty # map (export_cells ty) rs)"
    using csv_format.read_printed [of "export_headers ty # map (export_cells ty) rs"] headers_plain(2) [of ty]
    by (simp add: export_cells_def list_all_iff)
  then show ?thesis using x run(2) by metis
qed

definition sample_export :: "string \<Rightarrow> string option" where
  "sample_export k = (if k = ''type'' then Some ''activities'' else None)"

definition sample_log :: world where
  "sample_log = (world_at 5000)\<lparr>dbase := db_empty\<lparr>activities := tbl_insert
     \<lparr>act_type = ''note'', act_entity_type = ''task'', act_entity_id = 1, act_actor = ''ann'', act_description = ''a,b'',
      act_data = None, act_created_at = 3\<rparr> tbl_empty\<rparr>\<rparr>"

lemma heavy_unlimited: "with_limit HeavyLimiter sample_env admin_request h w = h w"
  by (simp add: with_limit_def check_rate_limit_def limiter_disabled_def sample_env_def)

lemma heavy_file: "file_with_limit HeavyLimiter sample_env admin_request h f w = h f w"
  by (simp add: file_with_limit_def heavy_unlimited)

theorem exported_csv_read_back_witness:
  "\<exists>name doc ty rs. snd (get_export (\<lambda>xs. xs) sample_export sample_env admin_request sample_log) = Reply 200 (Csv_File name doc) \<and>
     export_type_of (sample_export ''type'') = Some ty \<and> csv_read doc = Some (export_headers ty # map (export_cells ty) rs)"
proof -
  let ?run = "get_export (\<lambda>xs. xs) sample_export sample_env admin_request sample_log"
  have sel: "export_type_of (sample_export ''type'') = Some Export_Activities" "sample_export ''since'' = None"
    "sample_export ''until'' = None" "sample_export ''format'' = None" "sample_export ''limit'' = None"
    by (simp_all add: sample_export_def)
  have limit: "parse_int ''10000'' = Some 10000" by code_simp
  have "\<exists>name doc. snd ?run = Reply 200 (Csv_File name doc)"
    by (simp add: get_export_def admin_granted heavy_unlimited export_with_def sel limit export_rows_def export_body_of_def
        opt_or_def Let_def)
  then obtain name doc where run: "snd ?run = Reply 200 (Csv_File name doc)" by blast
  then have "?run = (fst ?run, Reply 200 (Csv_File name doc))" by (metis prod.collapse)
  from exported_csv_read_back [OF this] run show ?thesis by blast
qed

text \<open>With both bounds the export of runs fails whatever the database holds.\<close>

lemma bounded_run_export_fails:
  "s \<noteq> [] \<Longrightarrow> t \<noteq> [] \<Longrightarrow> export_rows scan Export_Pipelines (Some s) (Some t) limit d = None"
  by (simp add: export_rows_def str_or_null_def)

section \<open>The clean-up\<close>

lemma result_same: "snd (clean_table dry e now t d) = snd (clean_table True e now t d)"
  by (simp add: clean_table_def Let_def split: option.split)

lemma dry_table: "fst (clean_table True e now t d) = d"
  by (simp add: clean_table_def Let_def split: option.split)

lemma table_after:
  "fst (clean_table False e now t d) = d \<or>
   (\<exists>days. table_days e t = Some days \<and> 0 < days \<and> fst (clean_table False e now t d) = delete_old days now t d)"
  by (auto simp: clean_table_def Let_def split: option.split)

lemma count_delete_other: "t' \<noteq> t \<Longrightarrow> count_old k now t' (delete_old days now t d) = count_old k now t' d"
  by (cases t'; cases t) simp_all

lemma tbl_count_deleted: "tbl_count P (tbl_delete_where (\<lambda>i x. P x) t) = 0"
  by (simp add: tbl_count_def tbl_select_def tbl_delete_where_def filter_empty_conv case_prod_unfold)

lemma count_delete_same: "count_old days now t (delete_old days now t d) = 0"
  by (cases t) (simp_all add: tbl_count_deleted)

lemma result_depends:
  assumes "\<And>days. table_days e t = Some days \<Longrightarrow> 0 < days \<Longrightarrow> count_old days now t d' = count_old days now t d"
  shows "snd (clean_table True e now t d') = snd (clean_table True e now t d)"
  using assms by (auto simp: clean_table_def Let_def split: option.split)

lemma other_table: "t' \<noteq> t \<Longrightarrow> snd (clean_table True e now t' (fst (clean_table dry e now t d))) = snd (clean_table True e now t' d)"
  using table_after [of e now t d] by (cases dry) (auto simp: dry_table count_delete_other intro: result_depends)

lemma same_results:
  "distinct ts \<Longrightarrow> snd (clean_tables dry e now ts d) = concat (map (\<lambda>t. snd (clean_table True e now t d)) ts)"
proof (induction ts arbitrary: d)
  case (Cons t ts)
  have "map (\<lambda>t'. snd (clean_table True e now t' (fst (clean_table dry e now t d)))) ts = map (\<lambda>t'. snd (clean_table True e now t' d)) ts"
    using Cons.prems by (intro map_cong refl other_table) auto
  from arg_cong [OF this, of concat] show ?case
    using Cons result_same [of dry e now t d] by (simp add: case_prod_unfold del: map_eq_conv)
qed simp

lemma dry_tables: "fst (clean_tables True e now ts d) = d"
  by (induction ts) (simp_all add: case_prod_unfold dry_table)

lemma tables_distinct: "distinct retention_tables"
  by (simp add: retention_tables_def)

text \<open>After a real run nothing is left to delete.\<close>

lemma count_after:
  "distinct ts \<Longrightarrow> t \<in> set ts \<Longrightarrow> table_days e t = Some days \<Longrightarrow> 0 < days \<Longrightarrow>
   count_old days now t (fst (clean_tables False e now ts d)) = 0"
proof (induction ts arbitrary: d)
  case (Cons t' ts)
  have keep: "count_old days now t (fst (clean_tables False e now ts d')) = count_old days now t d'" if "t \<notin> set ts" for d'
    using that
  proof (induction ts arbitrary: d')
    case (Cons u us)
    then show ?case using table_after [of e now u d'] by (auto simp: case_prod_unfold count_delete_other)
  qed simp
  show ?case
  proof (cases "t' = t")
    case True
    then have "count_old days now t (fst (clean_table False e now t' d)) = 0"
      using Cons.prems(3,4) by (simp add: clean_table_def Let_def count_delete_same split: option.split)
    then show ?thesis using keep Cons.prems(1) True by (simp add: case_prod_unfold)
  next
    case False
    then show ?thesis using Cons by (simp add: case_prod_unfold)
  qed
qed simp

lemma deleted_zero:
  "(\<And>days. table_days e t = Some days \<Longrightarrow> 0 < days \<Longrightarrow> count_old days now t d = 0) \<Longrightarrow>
   deleted_count (snd (clean_table True e now t d)) = 0"
  by (auto simp: clean_table_def Let_def deleted_count_def split: option.split)

lemma deleted_concat: "deleted_count (concat (map f xs)) = sum_list (map (\<lambda>x. deleted_count (f x)) xs)"
  by (induction xs) (simp_all add: deleted_count_def)

lemma deleted_append: "deleted_count (xs @ ys) = deleted_count xs + deleted_count ys"
  by (simp add: deleted_count_def)

lemma kept_again:
  assumes "entry_times content = Some xs"
  shows "\<exists>ys. entry_times (Some (JArr (kept_entries c xs))) = Some ys \<and> length ys = length (kept_entries c ys)"
proof -
  let ?g = "\<lambda>r. case entry_time r of Inr t \<Rightarrow> t | Inl u \<Rightarrow> None"
  let ?P = "\<lambda>(r :: json, t). case t of None \<Rightarrow> False | Some q \<Rightarrow> c \<le> q"
  obtain rs where rs: "\<not> list_ex (\<lambda>r. r = JNull) rs" "xs = map (\<lambda>r. (r, ?g r)) rs"
    using assms by (auto simp: entry_times_def split: option.splits json.splits if_splits)
  have kept: "kept_entries c (map (\<lambda>r. (r, ?g r)) zs) = filter (\<lambda>r. ?P (r, ?g r)) zs" for zs
    by (induction zs) (auto simp: kept_entries_def)
  have "\<not> list_ex (\<lambda>r. r = JNull) (filter (\<lambda>r. ?P (r, ?g r)) rs)" using rs(1) by (auto simp: list_ex_iff)
  then have "entry_times (Some (JArr (kept_entries c xs))) = Some (map (\<lambda>r. (r, ?g r)) (filter (\<lambda>r. ?P (r, ?g r)) rs))"
    by (simp add: rs(2) kept entry_times_def)
  then show ?thesis by (intro exI conjI) (assumption, simp add: kept)
qed

lemma token_results: "tf_writable f \<Longrightarrow> snd (clean_tokens False e now f) = snd (clean_tokens True e now f)"
  by (auto simp: clean_tokens_def Let_def split: option.split)

lemma dry_tokens: "fst (clean_tokens True e now f) = f"
  by (simp add: clean_tokens_def Let_def split: option.split)

lemma tokens_settled:
  assumes "entry_times (tf_content f) = None \<or> (\<exists>xs. entry_times (tf_content f) = Some xs \<and>
    (\<forall>days. token_days e = Some days \<longrightarrow> 0 < days \<longrightarrow> length (kept_entries (token_cutoff days now) xs) = length xs))"
  shows "deleted_count (snd (clean_tokens False e now f)) = 0"
  using assms by (auto simp: clean_tokens_def Let_def deleted_count_def split: option.split)

lemma tokens_clean:
  assumes "tf_writable f"
  shows "deleted_count (snd (clean_tokens False e now (fst (clean_tokens False e now f)))) = 0"
proof (cases "\<exists>days xs. token_days e = Some days \<and> entry_times (tf_content f) = Some xs \<and> 0 < days")
  case True
  then obtain days xs where x: "token_days e = Some days" "entry_times (tf_content f) = Some xs" "0 < days" by blast
  let ?c = "token_cutoff days now"
  have after: "tf_content (fst (clean_tokens False e now f)) =
      (if length (kept_entries ?c xs) < length xs then Some (JArr (kept_entries ?c xs)) else tf_content f)"
    using x assms by (simp add: clean_tokens_def Let_def split: option.split)
  have le: "length (kept_entries ?c xs) \<le> length xs" by (simp add: kept_entries_def)
  obtain ys where ys: "entry_times (Some (JArr (kept_entries ?c xs))) = Some ys" "length ys = length (kept_entries ?c ys)"
    using kept_again [OF x(2)] by blast
  show ?thesis
    by (rule tokens_settled) (use x ys le in \<open>auto simp: after\<close>)
next
  case False
  then have "snd (clean_tokens False e now g) = []" if "g = f" for g
    using that by (auto simp: clean_tokens_def Let_def split: option.split)
  moreover have "fst (clean_tokens False e now f) = f"
    using False by (auto simp: clean_tokens_def Let_def split: option.split)
  ultimately show ?thesis by (simp add: deleted_count_def)
qed

text \<open>The entry the audit log gets is new.\<close>

lemma audit_logged: "\<exists>row. dbase (log_audit_event ac actor ai tt ti dt ip ua w) =
    (dbase w)\<lparr>audit_log := tbl_insert row (audit_log (dbase w))\<rparr> \<and> aud_created_at row = now_s w"
  by (auto simp: log_audit_event_def audit_row_def Let_def)

lemma tbl_count_insert: "tbl_count P (tbl_insert x t) = tbl_count P t + (if P x then 1 else 0)"
  by (simp add: tbl_count_def tbl_select_def tbl_insert_def)

lemma new_row_counts: "0 < days \<Longrightarrow> aud_created_at row = now \<Longrightarrow>
    count_old days now t (d\<lparr>audit_log := tbl_insert row (audit_log d)\<rparr>) = count_old days now t d"
  by (cases t) (simp_all add: tbl_count_insert too_old_def)


definition old_log :: world where
  "old_log = sample_log\<lparr>clock := 100000000000\<rparr>"

definition sample_tokens :: token_file where
  "sample_tokens = \<lparr>tf_content = Some (JArr [JObj [(''timestamp'', JNum 7)]]), tf_writable = True\<rparr>"


text \<open>The preview counts other entries of the token file than the clean-up removes: one without a
  time is never stale, and always removed.\<close>

lemma preview_misses_untimed:
  "entry_times (Some (JArr [JObj []])) = Some [(JObj [], None)]"
  "stale_entries c [(JObj [], None)] = 0" "kept_entries c [(JObj [], None)] = []"
  by (simp_all add: entry_times_def entry_time_def stale_entries_def kept_entries_def)

section \<open>Backups\<close>

definition our_backup :: "string \<times> int \<Rightarrow> bool" where
  "our_backup x \<longleftrightarrow> starts_with ''mc-backup-'' (fst x) \<and> ends_with ''.db'' (fst x)"

definition newest_first :: "backup_dir \<Rightarrow> backup_dir" where
  "newest_first fs = sort_key (\<lambda>x. - snd x) (filter our_backup fs)"

lemma pruned: "prune_backups max_backups fs = filter (\<lambda>x. fst x \<notin> fst ` set (drop 10 (newest_first fs))) fs"
proof -
  have "(\<lambda>f. starts_with ''mc-backup-'' (fst f) \<and> ends_with ''.db'' (fst f)) = our_backup"
    by (simp add: fun_eq_iff our_backup_def)
  then show ?thesis by (simp add: prune_backups_def max_backups_def slice_from_def newest_first_def Let_def)
qed

lemma kept_backups:
  assumes "distinct (map fst fs)"
  shows "mset (filter our_backup (prune_backups max_backups fs)) = mset (take 10 (newest_first fs))"
proof -
  let ?new = "newest_first fs" and ?gone = "fst ` set (drop 10 (newest_first fs))"
  have "mset ?new = mset (filter our_backup fs)" by (simp add: newest_first_def)
  then have d: "distinct (map fst ?new)"
    using assms by (metis distinct_map_filter mset_map mset_eq_imp_distinct_iff)
  have "fst x \<notin> ?gone" if "x \<in> set (take 10 ?new)" for x
  proof -
    have "distinct (map fst (take 10 ?new) @ map fst (drop 10 ?new))" using d by (metis append_take_drop_id map_append)
    then show ?thesis using that by auto
  qed
  then have a: "filter (\<lambda>x. fst x \<notin> ?gone) (take 10 ?new) = take 10 ?new" by (simp add: filter_id_conv)
  have b: "filter (\<lambda>x. fst x \<notin> ?gone) (drop 10 ?new) = []" by (auto simp: filter_empty_conv)
  have "filter (\<lambda>x. fst x \<notin> ?gone) ?new = filter (\<lambda>x. fst x \<notin> ?gone) (take 10 ?new) @ filter (\<lambda>x. fst x \<notin> ?gone) (drop 10 ?new)"
    by (metis append_take_drop_id filter_append)
  then have "filter (\<lambda>x. fst x \<notin> ?gone) ?new = take 10 ?new" by (simp only: a b append_Nil2)
  moreover have "filter our_backup (prune_backups max_backups fs) = filter (\<lambda>x. fst x \<notin> ?gone) (filter our_backup fs)"
    unfolding pruned by (simp add: filter_filter conj_commute)
  ultimately show ?thesis by (metis \<open>mset ?new = mset (filter our_backup fs)\<close> mset_filter)
qed

lemma newest_sorted: "x \<in> set (take n (newest_first fs)) \<Longrightarrow> y \<in> set (drop n (newest_first fs)) \<Longrightarrow> snd y \<le> snd x"
proof -
  have "sorted (map (\<lambda>x. - snd x) (newest_first fs))" by (simp add: newest_first_def)
  then have "sorted_wrt (\<lambda>x y. - snd x \<le> - snd y) (newest_first fs)" by (simp add: sorted_map)
  then have "sorted_wrt (\<lambda>x y. - snd x \<le> - snd y) (take n (newest_first fs) @ drop n (newest_first fs))" by simp
  then show "x \<in> set (take n (newest_first fs)) \<Longrightarrow> y \<in> set (drop n (newest_first fs)) \<Longrightarrow> snd y \<le> snd x"
    unfolding sorted_wrt_append by force
qed

lemma new_backup_ours: "our_backup (backup_file_name ms, t)"
  unfolding our_backup_def fst_conv backup_file_name_def starts_with_iff ends_with_iff by (metis append.assoc)

text \<open>
  Claim C38. A backup leaves at most ten backups, the newest. After a backup that succeeds in a
  directory without repeated names, at most ten of the program's backups are there; the new one
  is among them when the others are older; no backup that was removed is newer than one that stayed; and
  all other files stay.
\<close>

theorem backups_bounded:
  assumes "create_backup_with dir (Inr bytes) r user fs w = (w', fs', a)" "distinct (map fst fs)"
    and "\<And>x. x \<in> set fs \<Longrightarrow> our_backup x \<Longrightarrow> snd x < clock w"
  shows "length (filter our_backup fs') \<le> 10 \<and> (backup_file_name (clock w), clock w) \<in> set fs' \<and>
    {x \<in> set fs. \<not> our_backup x} \<subseteq> set fs' \<and>
    (\<forall>x y. x \<in> set fs \<and> fst x \<noteq> backup_file_name (clock w) \<and> x \<notin> set fs' \<and> y \<in> set fs' \<and> our_backup y \<longrightarrow> snd x \<le> snd y)"
proof -
  let ?new = "(backup_file_name (clock w), clock w)"
  let ?fs = "filter (\<lambda>x. fst x \<noteq> backup_file_name (clock w)) fs @ [?new]"
  let ?sorted = "newest_first ?fs"
  have fs': "fs' = prune_backups max_backups ?fs" using assms(1) by (auto simp: create_backup_with_def Let_def)
  have names: "distinct (map fst ?fs)" using assms(2) by (auto simp: distinct_map_filter)
  note kept = kept_backups [OF names]
  have len: "length (filter our_backup fs') = length (take 10 ?sorted)" using kept unfolding fs' by (metis size_mset)
  have mem: "set (filter our_backup fs') = set (take 10 ?sorted)" using kept unfolding fs' by (metis mset_eq_setD)
  have sorted: "x \<in> set ?fs \<and> our_backup x" if "x \<in> set (drop 10 ?sorted) \<or> x \<in> set (take 10 ?sorted)" for x
  proof -
    have "x \<in> set ?sorted" using that in_set_dropD in_set_takeD by metis
    then show ?thesis unfolding newest_first_def set_sort set_filter by blast
  qed
  have late: "x \<in> set (drop 10 ?sorted)" if x: "x \<in> set ?fs" "x \<notin> set fs'" for x
  proof -
    have "fst x \<in> fst ` set (drop 10 ?sorted)" using x unfolding fs' pruned set_filter by blast
    then obtain z where z: "z \<in> set (drop 10 ?sorted)" "fst z = fst x" by auto
    then have "z \<in> set ?fs" using sorted by blast
    then have "z = x" using names z(2) x(1) by (metis distinct_map inj_onD)
    then show ?thesis using z(1) by simp
  qed
  have newest: "?new \<in> set fs'"
  proof (rule ccontr)
    assume "?new \<notin> set fs'"
    then have last: "?new \<in> set (drop 10 ?sorted)" by (intro late) simp_all
    then have "take 10 ?sorted \<noteq> []" by auto
    then obtain x where x: "x \<in> set (take 10 ?sorted)" by (meson list.set_sel(1))
    have "x \<in> set ?fs" "our_backup x" using x sorted by blast+
    moreover have "clock w \<le> snd x" using newest_sorted [OF x last] by simp
    ultimately have "x = ?new" using assms(3) [of x] by auto
    then show False using x mem \<open>?new \<notin> set fs'\<close> by auto
  qed
  have "x \<in> set fs'" if "x \<in> set fs" "\<not> our_backup x" for x
  proof -
    have "fst x \<noteq> backup_file_name (clock w)"
      using that(2) new_backup_ours [of "clock w" "snd x"] by (metis prod.collapse)
    then have "x \<in> set ?fs" using that(1) by simp
    then show ?thesis using late [of x] that(2) sorted by blast
  qed
  moreover have "snd x \<le> snd y" if "x \<in> set fs" "fst x \<noteq> backup_file_name (clock w)" "x \<notin> set fs'" "y \<in> set fs'" "our_backup y" for x y
    using newest_sorted [of y 10 ?fs x] late [of x] mem that by auto
  ultimately show ?thesis using len newest by auto
qed

theorem backups_bounded_witness:
  "\<exists>w' fs' a. create_backup_with ''/data/backups'' (Inr 4096) admin_request api_user [(''notes.db'', 1), (''mc-backup-old.db'', 2)]
       (world_at 5000) = (w', fs', a) \<and> length (filter our_backup fs') \<le> 10 \<and> (backup_file_name 5000, 5000) \<in> set fs'"
proof -
  let ?fs = "[(''notes.db'', 1 :: int), (''mc-backup-old.db'', 2)]"
  obtain w' fs' a where run: "create_backup_with ''/data/backups'' (Inr 4096) admin_request api_user ?fs (world_at 5000) = (w', fs', a)"
    by (metis prod_cases3)
  have "distinct (map fst ?fs)" "\<And>x. x \<in> set ?fs \<Longrightarrow> our_backup x \<Longrightarrow> snd x < clock (world_at 5000)"
    by (auto simp: world_at_def)
  from backups_bounded [OF run this] show ?thesis using run by (auto simp: world_at_def)
qed

end
