(* ===== verification/Gateways.thy ===== *)
theory Gateways
  imports Settings Tasks
begin

text \<open>
  The routes \<open>app/api/gateways/route.ts\<close> and \<open>gateways/health/route.ts\<close>: the register of gateways,
  whose table is made on demand, and the probing of all of them. Probing waits for every gateway
  in turn, so it is cut into \<open>begin_probes\<close> and one \<open>probe_returns\<close> per answer. How an address
  is parsed (\<open>new URL\<close>) and what a probe ends with are arguments. A detail of the audit log that
  is plain text is kept as a JSON string.
\<close>

section \<open>The table\<close>

definition gateway_table :: "world \<Rightarrow> gateway table" where
  "gateway_table w = (case gateways (dbase w) of None \<Rightarrow> tbl_empty | Some t \<Rightarrow> t)"

definition set_gateways :: "gateway table \<Rightarrow> world \<Rightarrow> world" where
  "set_gateways t w = w\<lparr>dbase := (dbase w)\<lparr>gateways := Some t\<rparr>\<rparr>"

definition ensure_table :: "world \<Rightarrow> world" where
  "ensure_table w = set_gateways (gateway_table w) w"

definition insert_gateway :: "gateway \<Rightarrow> world \<Rightarrow> world" where
  "insert_gateway g w = set_gateways (tbl_insert g (gateway_table w)) w"

text \<open>\<open>ORDER BY is_primary DESC, name ASC\<close>; names are unique.\<close>

definition gateway_list :: "gateway table \<Rightarrow> (int \<times> gateway) list" where
  "gateway_list t = sort_key (\<lambda>(i, g). (- gw_is_primary g, gw_name g)) (rows t)"

definition new_gateway :: "string \<Rightarrow> string \<Rightarrow> int \<Rightarrow> string \<Rightarrow> bool \<Rightarrow> int \<Rightarrow> gateway" where
  "new_gateway name host port token primary now =
     \<lparr>gw_name = name, gw_host = host, gw_port = port, gw_token = token, gw_is_primary = (if primary then 1 else 0),
      gw_status = ''unknown'', gw_last_seen = None, gw_latency = None, gw_sessions_count = 0, gw_agents_count = 0,
      gw_created_at = now, gw_updated_at = now\<rparr>"

definition redact_token :: "int \<Rightarrow> gateway \<Rightarrow> json" where
  "redact_token i g = JObj
     [(''id'', JInt i), (''name'', JStr (gw_name g)), (''host'', JStr (gw_host g)), (''port'', JInt (gw_port g)),
      (''token'', JStr (if gw_token g = [] then [] else ''--------'')), (''is_primary'', JInt (gw_is_primary g)),
      (''status'', JStr (gw_status g)), (''last_seen'', JOptInt (gw_last_seen g)), (''latency'', JOptInt (gw_latency g)),
      (''sessions_count'', JInt (gw_sessions_count g)), (''agents_count'', JInt (gw_agents_count g)),
      (''created_at'', JInt (gw_created_at g)), (''updated_at'', JInt (gw_updated_at g)),
      (''token_set'', JBool (gw_token g \<noteq> []))]"

definition gateways_reply :: "gateway table \<Rightarrow> json response" where
  "gateways_reply t = Reply 200 (JObj [(''gateways'', JArr (map (\<lambda>(i, g). redact_token i g) (gateway_list t)))])"

section \<open>Listing, with the default gateway\<close>

definition default_gateway :: "env \<Rightarrow> int \<Rightarrow> gateway option" where
  "default_gateway e now =
     (case parse_int (env_or e ''OPENCLAW_GATEWAY_PORT'' (env_or e ''GATEWAY_PORT'' (env_or e ''NEXT_PUBLIC_GATEWAY_PORT'' ''18789''))) of
        None \<Rightarrow> None
      | Some port \<Rightarrow> Some (new_gateway (env_or e ''MC_DEFAULT_GATEWAY_NAME'' ''primary'')
          (env_or e ''OPENCLAW_GATEWAY_HOST'' ''127.0.0.1'') port
          (env_or e ''OPENCLAW_GATEWAY_TOKEN'' (env_or e ''GATEWAY_TOKEN'' [])) True now))"

definition list_gateways :: "env \<Rightarrow> world \<Rightarrow> world \<times> json response" where
  "list_gateways e w0 =
     (let w = ensure_table w0
      in if rows (gateway_table w) = []
         then (case default_gateway e (now_s w) of
             None \<Rightarrow> (w, Crash)
           | Some g \<Rightarrow> (let w1 = insert_gateway g w in (w1, gateways_reply (gateway_table w1))))
         else (w, gateways_reply (gateway_table w)))"

definition get_gateways :: "env \<Rightarrow> request \<Rightarrow> world \<Rightarrow> world \<times> json response" where
  "get_gateways e r = with_role Viewer e r (\<lambda>user. list_gateways e)"

section \<open>Adding and removing\<close>

text \<open>A body that is not JSON, or is \<open>null\<close>, is \<open>None\<close>.\<close>

record gateway_body =
  gb_name :: "string option"
  gb_host :: "string option"
  gb_port :: "int option"
  gb_token :: "string option"
  gb_is_primary :: bool

definition clear_primary :: "world \<Rightarrow> world" where
  "clear_primary w = set_gateways (tbl_update_where (\<lambda>g. True) (\<lambda>g. g\<lparr>gw_is_primary := 0\<rparr>) (gateway_table w)) w"

definition log_gateway :: "string \<Rightarrow> auth_user \<Rightarrow> string \<Rightarrow> world \<Rightarrow> world" where
  "log_gateway action user detail w = w\<lparr>dbase := (dbase w)\<lparr>audit_log := tbl_insert
     (audit_row action (str_or (au_username user) ''system'') None None None (Some (JStr detail)) None None w)
     (audit_log (dbase w))\<rparr>\<rparr>"

definition name_taken :: "string \<Rightarrow> world \<Rightarrow> bool" where
  "name_taken name w = (tbl_find (\<lambda>g. gw_name g = name) (gateway_table w) \<noteq> None)"

definition add_gateway_with :: "gateway_body option \<Rightarrow> auth_user \<Rightarrow> world \<Rightarrow> world \<times> json response" where
  "add_gateway_with body user w0 =
     (let w = ensure_table w0
      in case body of
        None \<Rightarrow> (w, Crash)
      | Some b \<Rightarrow>
     (case (str_or_null (gb_name b), str_or_null (gb_host b), gb_port b) of
        (Some name, Some host, Some port) \<Rightarrow>
          if port = 0 then (w, Fail 400 ''name, host, and port are required'')
          else
            let w1 = (if gb_is_primary b then clear_primary w else w);
                g = new_gateway name host port (opt_or (gb_token b) []) (gb_is_primary b) (now_s w);
                i = tbl_last_id (gateway_table w1)
            in if name_taken name w1 then (w1, Fail 409 ''A gateway with that name already exists'')
               else (log_gateway ''gateway_added'' user
                       (''Added gateway: '' @ name @ '' ('' @ host @ '':'' @ show_int port @ '')'') (insert_gateway g w1),
                     Reply 201 (JObj [(''gateway'', redact_token i g)]))
      | _ \<Rightarrow> (w, Fail 400 ''name, host, and port are required'')))"

definition post_gateways :: "gateway_body option \<Rightarrow> env \<Rightarrow> request \<Rightarrow> world \<Rightarrow> world \<times> json response" where
  "post_gateways body e r = with_role Admin e r (add_gateway_with body)"

definition find_gateway :: "rat option \<Rightarrow> world \<Rightarrow> (int \<times> gateway) option" where
  "find_gateway q w = Option.bind (Option.bind q row_id) (\<lambda>i. map_option (Pair i) (tbl_get (gateway_table w) i))"

definition remove_gateway_with :: "rat option option \<Rightarrow> auth_user \<Rightarrow> world \<Rightarrow> world \<times> json response" where
  "remove_gateway_with body user w0 =
     (let w = ensure_table w0
      in case body of
        None \<Rightarrow> (w, Crash)
      | Some q \<Rightarrow>
     (case body_id q of
        None \<Rightarrow> (w, Fail 400 ''id is required'')
      | Some n \<Rightarrow>
     (case find_gateway (Some n) w of
        None \<Rightarrow> (log_gateway ''gateway_removed'' user ''Removed gateway: undefined'' w,
                 Reply 200 (JObj [(''deleted'', JBool False)]))
      | Some (i, g) \<Rightarrow>
          if gw_is_primary g \<noteq> 0 then (w, Fail 400 ''Cannot delete the primary gateway'')
          else (log_gateway ''gateway_removed'' user (''Removed gateway: '' @ gw_name g)
                  (set_gateways (tbl_delete i (gateway_table w)) w),
                Reply 200 (JObj [(''deleted'', JBool True)])))))"

definition delete_gateways :: "rat option option \<Rightarrow> env \<Rightarrow> request \<Rightarrow> world \<Rightarrow> world \<times> json response" where
  "delete_gateways body e r = with_role Admin e r (remove_gateway_with body)"

section \<open>Updating\<close>

text \<open>The value of \<open>is_primary\<close>: the database binds no booleans.\<close>

datatype flag_value = Flag_Bool bool | Flag_Number int | Flag_Null

fun flag_truthy :: "flag_value \<Rightarrow> bool" where
  "flag_truthy (Flag_Bool b) = b"
| "flag_truthy (Flag_Number n) = (n \<noteq> 0)"
| "flag_truthy Flag_Null = False"

text \<open>\<open>None\<close>: the key is missing; \<open>Some None\<close>: it is \<open>null\<close>.\<close>

record gateway_update =
  gu_name :: "string option option"
  gu_host :: "string option option"
  gu_port :: "int option option"
  gu_token :: "string option option"
  gu_is_primary :: "flag_value option"
  gu_status :: "string option option"
  gu_last_seen :: "int option option"
  gu_latency :: "int option option"
  gu_sessions_count :: "int option option"
  gu_agents_count :: "int option option"

definition no_gateway_update :: gateway_update where
  "no_gateway_update = \<lparr>gu_name = None, gu_host = None, gu_port = None, gu_token = None, gu_is_primary = None,
     gu_status = None, gu_last_seen = None, gu_latency = None, gu_sessions_count = None, gu_agents_count = None\<rparr>"

text \<open>A column that is not nullable: \<open>None\<close> is the error of the constraint.\<close>

definition set_column :: "'v option option \<Rightarrow> 'v \<Rightarrow> 'v option" where
  "set_column u old = (case u of None \<Rightarrow> Some old | Some v \<Rightarrow> v)"

definition set_flag :: "flag_value option \<Rightarrow> int \<Rightarrow> int option" where
  "set_flag u old = (case u of None \<Rightarrow> Some old | Some (Flag_Number n) \<Rightarrow> Some n | Some _ \<Rightarrow> None)"

definition apply_gateway_update :: "gateway_update \<Rightarrow> int \<Rightarrow> gateway \<Rightarrow> gateway option" where
  "apply_gateway_update u now g =
     (case (set_column (gu_name u) (gw_name g), set_column (gu_host u) (gw_host g), set_column (gu_port u) (gw_port g),
            set_column (gu_token u) (gw_token g), set_flag (gu_is_primary u) (gw_is_primary g),
            set_column (gu_status u) (gw_status g), set_column (gu_sessions_count u) (gw_sessions_count g),
            set_column (gu_agents_count u) (gw_agents_count g)) of
        (Some name, Some host, Some port, Some token, Some primary, Some status, Some sc, Some ac) \<Rightarrow>
          Some (g\<lparr>gw_name := name, gw_host := host, gw_port := port, gw_token := token, gw_is_primary := primary,
                  gw_status := status, gw_last_seen := (case gu_last_seen u of None \<Rightarrow> gw_last_seen g | Some v \<Rightarrow> v),
                  gw_latency := (case gu_latency u of None \<Rightarrow> gw_latency g | Some v \<Rightarrow> v),
                  gw_sessions_count := sc, gw_agents_count := ac, gw_updated_at := now\<rparr>)
      | _ \<Rightarrow> None)"

text \<open>The statement before the update.\<close>

definition unset_primaries :: "gateway_update \<Rightarrow> world \<Rightarrow> world" where
  "unset_primaries u w =
     (case gu_is_primary u of None \<Rightarrow> w | Some f \<Rightarrow> if flag_truthy f then clear_primary w else w)"

definition update_gateway_with :: "(rat option \<times> gateway_update) option \<Rightarrow> world \<Rightarrow> world \<times> json response" where
  "update_gateway_with body w0 =
     (let w = ensure_table w0
      in case body of
        None \<Rightarrow> (w, Crash)
      | Some (q, u) \<Rightarrow>
     (case body_id q of
        None \<Rightarrow> (w, Fail 400 ''id is required'')
      | Some n \<Rightarrow>
     (case find_gateway (Some n) w of
        None \<Rightarrow> (w, Fail 404 ''Gateway not found'')
      | Some (i, _) \<Rightarrow>
          (let w1 = unset_primaries u w
           in if u = no_gateway_update then (w1, Fail 400 ''No valid fields to update'')
              else (case Option.bind (tbl_get (gateway_table w1) i) (apply_gateway_update u (now_s w)) of
                 None \<Rightarrow> (w1, Crash)
               | Some g \<Rightarrow>
                   if list_ex (\<lambda>(j, h). j \<noteq> i \<and> gw_name h = gw_name g) (rows (gateway_table w1))
                   then (w1, Crash)
                   else (set_gateways (tbl_update i (\<lambda>_. g) (gateway_table w1)) w1,
                         Reply 200 (JObj [(''gateway'', redact_token i g)])))))))"

definition put_gateways ::
  "(rat option \<times> gateway_update) option \<Rightarrow> env \<Rightarrow> request \<Rightarrow> world \<Rightarrow> world \<times> json response" where
  "put_gateways body e r = with_role Admin e r (\<lambda>user. update_gateway_with body)"

section \<open>Probing\<close>

text \<open>\<open>url_host\<close> is the \<open>hostname\<close> of \<open>new URL\<close>, \<open>None\<close> where that throws.\<close>

definition is_blocked_url :: "(string \<Rightarrow> string option) \<Rightarrow> string \<Rightarrow> bool" where
  "is_blocked_url url_host u =
     (case url_host u of None \<Rightarrow> True
      | Some h \<Rightarrow> starts_with ''169.254.'' h \<or> h = ''metadata.google.internal'')"

definition probe_url :: "gateway \<Rightarrow> string" where
  "probe_url g = ''http://'' @ gw_host g @ '':'' @ show_int (gw_port g) @ ''/''"

record health_result =
  hr_id :: int
  hr_name :: string
  hr_status :: string
  hr_latency :: "int option"
  hr_error :: "string option"

definition health_json :: "health_result \<Rightarrow> json" where
  "health_json x = JObj ([(''id'', JInt (hr_id x)), (''name'', JStr (hr_name x)), (''status'', JStr (hr_status x)),
     (''latency'', JOptInt (hr_latency x)), (''agents'', JArr []), (''sessions_count'', JNum 0)] @
     (case hr_error x of None \<Rightarrow> [] | Some m \<Rightarrow> [(''error'', JStr m)]))"

text \<open>The gateways a request has still to probe, when it began to wait for the first of them, and
  what it has found.\<close>

record probing =
  pb_rest :: "(int \<times> gateway) list"
  pb_start :: int
  pb_results :: "health_result list"

datatype probe_step = Probed "json response" | Probe_Waiting probing

text \<open>Go on to the next gateway whose address is not blocked.\<close>

fun next_probe ::
  "(string \<Rightarrow> string option) \<Rightarrow> int \<Rightarrow> (int \<times> gateway) list \<Rightarrow> health_result list \<Rightarrow> probe_step" where
  "next_probe url_host now [] rs =
     Probed (Reply 200 (JObj [(''results'', JArr (map health_json rs)), (''probed_at'', JInt now)]))"
| "next_probe url_host now ((i, g) # gs) rs =
     (if is_blocked_url url_host (probe_url g)
      then next_probe url_host now gs (rs @ [\<lparr>hr_id = i, hr_name = gw_name g, hr_status = ''error'', hr_latency = None,
                                         hr_error = Some ''Blocked URL''\<rparr>])
      else Probe_Waiting \<lparr>pb_rest = (i, g) # gs, pb_start = now, pb_results = rs\<rparr>)"

definition begin_probes ::
  "(string \<Rightarrow> string option) \<Rightarrow> env \<Rightarrow> request \<Rightarrow> world \<Rightarrow> world \<times> probe_step" where
  "begin_probes url_host e r w =
     (case with_role Viewer e r (\<lambda>user w. (w, Reply 200 ())) w of
        (w', Reply s u) \<Rightarrow>
          (case gateways (dbase w') of
             None \<Rightarrow> (w', Probed Crash)
           | Some t \<Rightarrow> (w', next_probe url_host (clock w') (gateway_list t) []))
      | (w', Err s m d) \<Rightarrow> (w', Probed (Err s m d))
      | (w', Crash) \<Rightarrow> (w', Probed Crash))"

text \<open>How the fetch of a probe ends: the name and message of an exception, or whether the status is ok.\<close>

type_synonym probe_end = "(string \<times> string) + bool"

definition mark_gateway :: "int \<Rightarrow> (gateway \<Rightarrow> gateway) \<Rightarrow> world \<Rightarrow> world" where
  "mark_gateway i f w = set_gateways (tbl_update i f (gateway_table w)) w"

definition probe_returns ::
  "(string \<Rightarrow> string option) \<Rightarrow> probing \<Rightarrow> probe_end \<Rightarrow> world \<Rightarrow> world \<times> probe_step" where
  "probe_returns url_host p x w =
     (case pb_rest p of
        [] \<Rightarrow> (w, next_probe url_host (clock w) [] (pb_results p))
      | (i, g) # gs \<Rightarrow>
          (case x of
             Inr good \<Rightarrow>
               (let latency = clock w - pb_start p; status = (if good then ''online'' else ''error'');
                    w1 = mark_gateway i (\<lambda>g. g\<lparr>gw_status := status, gw_latency := Some latency,
                           gw_last_seen := Some (now_s w), gw_updated_at := now_s w\<rparr>) w
                in (w1, next_probe url_host (clock w) gs (pb_results p @ [\<lparr>hr_id = i, hr_name = gw_name g,
                      hr_status = status, hr_latency = Some latency, hr_error = None\<rparr>])))
           | Inl (name, message) \<Rightarrow>
               (let w1 = mark_gateway i (\<lambda>g. g\<lparr>gw_status := ''offline'', gw_latency := None, gw_updated_at := now_s w\<rparr>) w
                in (w1, next_probe url_host (clock w) gs (pb_results p @ [\<lparr>hr_id = i, hr_name = gw_name g,
                      hr_status = ''offline'', hr_latency = None,
                      hr_error = Some (if name = ''AbortError'' then ''timeout'' else str_or message ''connection failed'')\<rparr>])))))"

end
