(* ===== verification/Gateway_Rules.thy ===== *)
theory Gateway_Rules
  imports Gateways Agent_Register
begin

text \<open>
  The register of gateways stays consistent under all requests, with the answers of probes
  arriving in any order between them: ids and names are unique and at most one gateway is the
  primary one. \<open>probe_state\<close> holds the requests that wait for a probe.
\<close>

section \<open>Consistency\<close>

definition primary_key :: "gateway \<Rightarrow> unit option" where
  "primary_key g = (if gw_is_primary g = 0 then None else Some ())"

definition register_of :: "db \<Rightarrow> gateway table" where
  "register_of d = (case gateways d of None \<Rightarrow> tbl_empty | Some t \<Rightarrow> t)"

definition gateways_ok :: "db \<Rightarrow> bool" where
  "gateways_ok d \<longleftrightarrow> tbl_ok (register_of d) \<and> unique_by (\<lambda>g. Some (gw_name g)) (register_of d) \<and>
     unique_by primary_key (register_of d)"

lemma gateway_table_register: "gateway_table w = register_of (dbase w)"
  by (simp add: gateway_table_def register_of_def)

lemma register_set [simp]: "register_of (dbase (set_gateways t w)) = t"
  by (simp add: register_of_def set_gateways_def)

lemma register_log [simp]: "register_of (dbase (log_gateway a u d w)) = register_of (dbase w)"
  by (simp add: register_of_def log_gateway_def)

lemma table_set [simp]: "gateway_table (set_gateways t w) = t"
  by (simp add: gateway_table_register)

lemma table_ensure [simp]: "gateway_table (ensure_table w) = gateway_table w"
  by (simp add: ensure_table_def)

lemma okI:
  "tbl_ok (gateway_table w) \<Longrightarrow> unique_by (\<lambda>g. Some (gw_name g)) (gateway_table w) \<Longrightarrow>
   unique_by primary_key (gateway_table w) \<Longrightarrow> gateways_ok (dbase w)"
  by (simp add: gateways_ok_def gateway_table_register)

lemma okD:
  assumes "gateways_ok (dbase w)"
  shows "tbl_ok (gateway_table w)" "unique_by (\<lambda>g. Some (gw_name g)) (gateway_table w)" "unique_by primary_key (gateway_table w)"
  using assms by (simp_all add: gateways_ok_def gateway_table_register)

lemma ok_same: "gateway_table w' = gateway_table w \<Longrightarrow> gateways_ok (dbase w) \<Longrightarrow> gateways_ok (dbase w')"
  by (simp add: gateways_ok_def gateway_table_register)

lemma ok_log: "gateways_ok (dbase w) \<Longrightarrow> gateways_ok (dbase (log_gateway a u d w))"
  by (rule ok_same [of _ w]) (simp_all add: gateway_table_register)

lemma ok_ensure: "gateways_ok (dbase w) \<Longrightarrow> gateways_ok (dbase (ensure_table w))"
  by (rule ok_same) simp_all

lemma table_clear: "gateway_table (clear_primary w) = tbl_update_where (\<lambda>g. True) (\<lambda>g. g\<lparr>gw_is_primary := 0\<rparr>) (gateway_table w)"
  by (simp add: clear_primary_def)

lemma cleared: "tbl_get (gateway_table (clear_primary w)) i = Some g \<Longrightarrow> gw_is_primary g = 0"
  by (auto simp: table_clear tbl_get_update_where)

lemma ok_clear: "gateways_ok (dbase w) \<Longrightarrow> gateways_ok (dbase (clear_primary w))"
  by (rule okI) (auto simp: table_clear primary_key_def dest: okD intro!: unique_by_update_where)

lemma ok_insert:
  assumes "gateways_ok (dbase w)" "\<not> name_taken (gw_name g) w"
    and "gw_is_primary g \<noteq> 0 \<Longrightarrow> \<forall>i h. tbl_get (gateway_table w) i = Some h \<longrightarrow> gw_is_primary h = 0"
  shows "gateways_ok (dbase (insert_gateway g w))"
proof -
  note ok = okD [OF assms(1)]
  have "gw_name h \<noteq> gw_name g" if "tbl_get (gateway_table w) i = Some h" for i h
    using tbl_find_NoneD [OF assms(2) [unfolded name_taken_def not_not] that] by simp
  then show ?thesis
    using ok assms(3) by (intro okI) (auto simp: insert_gateway_def primary_key_def intro!: unique_by_insert split: if_splits)
qed

lemma ok_update:
  assumes "gateways_ok (dbase w)" "tbl_get (gateway_table w) i = Some h"
    and "\<And>j b. tbl_get (gateway_table w) j = Some b \<Longrightarrow> j \<noteq> i \<Longrightarrow> gw_name b \<noteq> gw_name g"
    and "\<And>j b. tbl_get (gateway_table w) j = Some b \<Longrightarrow> j \<noteq> i \<Longrightarrow> gw_is_primary g \<noteq> 0 \<Longrightarrow> gw_is_primary b = 0"
  shows "gateways_ok (dbase (set_gateways (tbl_update i (\<lambda>_. g) (gateway_table w)) w))"
proof -
  note ok = okD [OF assms(1)]
  have "unique_by (\<lambda>g. Some (gw_name g)) (tbl_update i (\<lambda>_. g) (gateway_table w))"
    using assms(3) by (intro unique_by_update ok) fastforce
  moreover have "unique_by primary_key (tbl_update i (\<lambda>_. g) (gateway_table w))"
    using assms(4) by (intro unique_by_update ok) (fastforce simp: primary_key_def)
  ultimately show ?thesis using ok(1) by (intro okI) simp_all
qed

lemma ok_delete: "gateways_ok (dbase w) \<Longrightarrow> gateways_ok (dbase (set_gateways (tbl_delete i (gateway_table w)) w))"
  by (rule okI) (auto simp: tbl_delete_def dest: okD intro!: unique_by_delete_where)

lemma unique_by_frame:
  "unique_by key t \<Longrightarrow> (\<And>g. key (f g) = key g) \<Longrightarrow> unique_by key (tbl_update i f t)"
  by (erule unique_by_sub) (auto simp: tbl_get_update split: if_splits)

lemma ok_mark:
  assumes "gateways_ok (dbase w)" "\<And>g. gw_name (f g) = gw_name g \<and> gw_is_primary (f g) = gw_is_primary g"
  shows "gateways_ok (dbase (mark_gateway i f w))"
  using okD [OF assms(1)] assms(2)
  by (intro okI) (simp_all add: mark_gateway_def primary_key_def unique_by_frame)

section \<open>Every request\<close>

lemma list_ok: "gateways_ok (dbase w) \<Longrightarrow> gateways_ok (dbase (fst (list_gateways e w)))"
proof -
  assume ok: "gateways_ok (dbase w)"
  have "gateways_ok (dbase (insert_gateway g (ensure_table w)))" if "rows (gateway_table w) = []" for g
    using ok_ensure [OF ok] that by (intro ok_insert) (simp_all add: name_taken_def tbl_find_def tbl_select_def tbl_get_def)
  then show ?thesis using ok_ensure [OF ok]
    by (auto simp: list_gateways_def Let_def split: option.split)
qed

lemma add_ok: "gateways_ok (dbase w) \<Longrightarrow> gateways_ok (dbase (fst (add_gateway_with body user w)))"
proof -
  assume ok: "gateways_ok (dbase w)"
  define w0 where "w0 = ensure_table w"
  have ok0: "gateways_ok (dbase w0)" using ok_ensure [OF ok] by (simp add: w0_def)
  have new: "gateways_ok (dbase (insert_gateway (new_gateway name host port token p now) (if p then clear_primary w0 else w0)))"
    if "\<not> name_taken name (if p then clear_primary w0 else w0)" for name host port token p now
    using that ok0 ok_clear [OF ok0] cleared [of w0]
    by (cases p; intro ok_insert; simp add: new_gateway_def)
  show ?thesis using ok0 ok_clear [OF ok0] new [where p = True] new [where p = False]
    by (auto simp: add_gateway_with_def Let_def simp flip: w0_def intro!: ok_log split: option.split)
qed

lemma remove_ok: "gateways_ok (dbase w) \<Longrightarrow> gateways_ok (dbase (fst (remove_gateway_with body user w)))"
proof -
  assume "gateways_ok (dbase w)"
  then have ok: "gateways_ok (dbase (ensure_table w))" by (rule ok_ensure)
  show ?thesis using ok ok_delete [OF ok]
    by (auto simp: remove_gateway_with_def Let_def intro!: ok_log split: option.split prod.split)
qed

lemma unset_cases:
  "unset_primaries u w = w \<or> unset_primaries u w = clear_primary w"
  by (auto simp: unset_primaries_def split: option.split)

lemma stays_primary:
  assumes "apply_gateway_update u now g = Some g'" "gw_is_primary g' \<noteq> 0"
  shows "unset_primaries u w = clear_primary w \<or> gw_is_primary g \<noteq> 0"
  using assms
  by (cases "gu_is_primary u") (auto simp: apply_gateway_update_def set_flag_def unset_primaries_def split: option.splits flag_value.splits)

lemma unset_ok: "gateways_ok (dbase w) \<Longrightarrow> gateways_ok (dbase (unset_primaries u w))"
  using unset_cases [of u w] ok_clear [of w] by auto

lemma applied_ok:
  assumes "gateways_ok (dbase w)"
    and "Option.bind (tbl_get (gateway_table (unset_primaries u w)) i) (apply_gateway_update u now) = Some g"
    and "\<not> list_ex (\<lambda>(j, h). j \<noteq> i \<and> gw_name h = gw_name g) (rows (gateway_table (unset_primaries u w)))"
  shows "gateways_ok (dbase (set_gateways (tbl_update i (\<lambda>_. g) (gateway_table (unset_primaries u w))) (unset_primaries u w)))"
proof -
  let ?w = "unset_primaries u w"
  have ok: "gateways_ok (dbase ?w)" using assms(1) by (rule unset_ok)
  obtain h where h: "tbl_get (gateway_table ?w) i = Some h" "apply_gateway_update u now h = Some g"
    using assms(2) by (auto simp: bind_eq_Some_conv)
  have name: "gw_name b \<noteq> gw_name g" if "tbl_get (gateway_table ?w) j = Some b" "j \<noteq> i" for j b
    using assms(3) tbl_get_mem [OF that(1)] that(2) by (force simp: list_ex_iff)
  have prim: "gw_is_primary b = 0" if b: "tbl_get (gateway_table ?w) j = Some b" "j \<noteq> i" "gw_is_primary g \<noteq> 0" for j b
  proof (cases "?w = clear_primary w")
    case True
    then show ?thesis using b(1) cleared [of w j b] by simp
  next
    case False
    then have "gw_is_primary h \<noteq> 0" using stays_primary [OF h(2) b(3)] by blast
    then show ?thesis
      using unique_byD [OF okD(3) [OF ok] b(1) h(1)] b(2) by (cases "gw_is_primary b = 0") (simp_all add: primary_key_def)
  qed
  show ?thesis using ok h(1) name prim by (rule ok_update)
qed

lemma update_ok: "gateways_ok (dbase w) \<Longrightarrow> gateways_ok (dbase (fst (update_gateway_with body w)))"
proof -
  assume "gateways_ok (dbase w)"
  then have ok: "gateways_ok (dbase (ensure_table w))" by (rule ok_ensure)
  show ?thesis using ok unset_ok [OF ok] applied_ok [OF ok]
    by (auto simp: update_gateway_with_def Let_def split: option.split prod.split)
qed

section \<open>All interleavings\<close>

datatype gateway_event =
    List_Gateways
  | Add_Gateway "gateway_body option"
  | Update_Gateway "(rat option \<times> gateway_update) option"
  | Remove_Gateway "rat option option"
  | Start_Probes "string \<Rightarrow> string option"
  | Probe_Ends nat "string \<Rightarrow> string option" probe_end

record probe_state =
  ps_world :: world
  ps_waiting :: "probing list"

definition with_step :: "world \<times> probe_step \<Rightarrow> probing list \<Rightarrow> probe_state" where
  "with_step x waiting =
     (case x of (w, Probed a) \<Rightarrow> \<lparr>ps_world = w, ps_waiting = waiting\<rparr>
      | (w, Probe_Waiting p) \<Rightarrow> \<lparr>ps_world = w, ps_waiting = waiting @ [p]\<rparr>)"

fun gateway_event_do :: "gateway_event \<Rightarrow> env \<Rightarrow> request \<Rightarrow> probe_state \<Rightarrow> probe_state" where
  "gateway_event_do List_Gateways e r s = s\<lparr>ps_world := fst (get_gateways e r (ps_world s))\<rparr>"
| "gateway_event_do (Add_Gateway b) e r s = s\<lparr>ps_world := fst (post_gateways b e r (ps_world s))\<rparr>"
| "gateway_event_do (Update_Gateway b) e r s = s\<lparr>ps_world := fst (put_gateways b e r (ps_world s))\<rparr>"
| "gateway_event_do (Remove_Gateway b) e r s = s\<lparr>ps_world := fst (delete_gateways b e r (ps_world s))\<rparr>"
| "gateway_event_do (Start_Probes url_host) e r s = with_step (begin_probes url_host e r (ps_world s)) (ps_waiting s)"
| "gateway_event_do (Probe_Ends k url_host x) e r s =
     (if k < length (ps_waiting s)
      then with_step (probe_returns url_host (ps_waiting s ! k) x (ps_world s))
             (take k (ps_waiting s) @ drop (k + 1) (ps_waiting s))
      else s)"

definition gateway_step :: "env \<Rightarrow> int \<times> request \<times> gateway_event \<Rightarrow> probe_state \<Rightarrow> probe_state" where
  "gateway_step e x s = (case x of (t, r, ev) \<Rightarrow> gateway_event_do ev e r (s\<lparr>ps_world := (ps_world s)\<lparr>clock := t\<rparr>\<rparr>))"

lemma with_step_world [simp]: "ps_world (with_step x waiting) = fst x"
  by (simp add: with_step_def split: prod.split probe_step.split)

lemma begin_frame: "dbase (fst (begin_probes url_host e r w)) = dbase w"
  by (simp add: begin_probes_def with_role_def split: access.split option.split)

lemma returns_ok: "gateways_ok (dbase w) \<Longrightarrow> gateways_ok (dbase (fst (probe_returns url_host p x w)))"
  by (auto simp: probe_returns_def Let_def intro!: ok_mark split: list.split sum.split)

lemma event_ok: "gateways_ok (dbase (ps_world s)) \<Longrightarrow> gateways_ok (dbase (ps_world (gateway_event_do ev e r s)))"
  by (cases ev) (auto simp: get_gateways_def post_gateways_def put_gateways_def delete_gateways_def begin_frame
    intro!: with_role_keeps [of gateways_ok] list_ok add_ok update_ok remove_ok returns_ok)

interpretation gateway_register: invariant_machine "gateway_step e" "\<lambda>s. gateways_ok (dbase (ps_world s))" for e
  by unfold_locales (auto simp: gateway_step_def intro!: event_ok)

text \<open>
  Claim C17. The register of gateways stays consistent. Starting from a register without double
  names or primaries (or from none), after any sequence of requests to list, add, change, remove
  and probe gateways, with the probes ending in any order: no two gateways have the same name, and
  at most one is marked as the primary one.
\<close>

theorem one_primary_gateway:
  assumes "gateways_ok (dbase (ps_world s))" "s' = fold (gateway_step e) evs s"
    and "tbl_get (gateway_table (ps_world s')) i = Some g" "tbl_get (gateway_table (ps_world s')) j = Some h" "i \<noteq> j"
  shows "gw_name g \<noteq> gw_name h \<and> (gw_is_primary g = 0 \<or> gw_is_primary h = 0)"
proof -
  have "gateways_ok (dbase (ps_world s'))" using gateway_register.run_inv assms(1,2) by blast
  note ok = okD [OF this]
  show ?thesis
    using unique_byD [OF ok(2) assms(3,4)] unique_byD [OF ok(3) assms(3,4)] assms(5)
    by (cases "gw_is_primary g = 0"; cases "gw_is_primary h = 0") (auto simp: primary_key_def)
qed

definition sample_gateways :: world where
  "sample_gateways = insert_gateway (new_gateway ''west'' ''10.0.0.2'' 18789 [] False 5)
     (insert_gateway (new_gateway ''main'' ''127.0.0.1'' 18789 ''secret'' True 5) (world_at 5000))"

lemma sample_gateways_ok: "gateways_ok (dbase sample_gateways)"
proof -
  have empty: "gateways_ok (dbase (world_at 5000))"
    by (simp add: gateways_ok_def register_of_def world_at_def db_empty_def unique_by_def)
  have one: "gateways_ok (dbase (insert_gateway (new_gateway ''main'' ''127.0.0.1'' 18789 ''secret'' True 5) (world_at 5000)))"
    by (rule ok_insert [OF empty]) (simp_all add: name_taken_def gateway_table_register register_of_def world_at_def
        db_empty_def tbl_find_def tbl_select_def tbl_empty_def tbl_get_def)
  have "\<not> name_taken ''west'' (insert_gateway (new_gateway ''main'' ''127.0.0.1'' 18789 ''secret'' True 5) (world_at 5000))"
    by code_simp
  then show ?thesis unfolding sample_gateways_def by (intro ok_insert one) (simp_all add: new_gateway_def)
qed

theorem one_primary_gateway_witness:
  "\<exists>s' g h. s' = fold (gateway_step sample_env)
       [(6000, admin_request, Update_Gateway (Some (Some 2, no_gateway_update\<lparr>gu_is_primary := Some (Flag_Number 1)\<rparr>)))]
       \<lparr>ps_world = sample_gateways, ps_waiting = []\<rparr> \<and>
     tbl_get (gateway_table (ps_world s')) 1 = Some g \<and> tbl_get (gateway_table (ps_world s')) 2 = Some h \<and>
     gw_name g \<noteq> gw_name h \<and> (gw_is_primary g = 0 \<or> gw_is_primary h = 0)"
proof -
  let ?u = "no_gateway_update\<lparr>gu_is_primary := Some (Flag_Number 1)\<rparr>" and ?s = "\<lparr>ps_world = sample_gateways, ps_waiting = []\<rparr>"
  let ?w = "sample_gateways\<lparr>clock := 6000\<rparr>"
  define s' where "s' = fold (gateway_step sample_env) [(6000, admin_request, Update_Gateway (Some (Some 2, ?u)))] ?s"
  have w': "ps_world s' = fst (update_gateway_with (Some (Some 2, ?u)) ?w)"
    by (simp add: s'_def gateway_step_def put_gateways_def admin_granted)
  have "map_option gw_is_primary (tbl_get (gateway_table (fst (update_gateway_with (Some (Some 2, ?u)) ?w))) 1) = Some 0"
    "map_option gw_is_primary (tbl_get (gateway_table (fst (update_gateway_with (Some (Some 2, ?u)) ?w))) 2) = Some 1"
    by code_simp+
  then obtain g h where gh: "tbl_get (gateway_table (ps_world s')) 1 = Some g" "tbl_get (gateway_table (ps_world s')) 2 = Some h"
    unfolding w' by auto
  have "gateways_ok (dbase (ps_world ?s))" using sample_gateways_ok by simp
  from one_primary_gateway [OF this s'_def gh] gh show ?thesis unfolding s'_def by auto
qed

section \<open>Ways to lose the primary gateway\<close>

text \<open>The other gateways are no longer primary before the new one is stored: a request that then
  fails leaves none. The boolean that creating a gateway expects is refused when updating one.\<close>

lemma boolean_flag_loses_primary:
  assumes "find_gateway (Some n) w = Some (i, g)" "n \<noteq> 0" "gu_is_primary u = Some (Flag_Bool True)"
    and "update_gateway_with (Some (Some n, u)) w = (w', a)"
  shows "a = Crash \<and> (\<forall>j h. tbl_get (gateway_table w') j = Some h \<longrightarrow> gw_is_primary h = 0)"
proof -
  have "u \<noteq> no_gateway_update" using assms(3) by (auto simp: no_gateway_update_def)
  moreover have "Option.bind x (apply_gateway_update u now) = None" for now x
    using assms(3) by (cases x) (auto simp: apply_gateway_update_def set_flag_def split: option.split)
  moreover have "find_gateway (Some n) (ensure_table w) = Some (i, g)" using assms(1) by (simp add: find_gateway_def)
  moreover have "unset_primaries u (ensure_table w) = clear_primary (ensure_table w)"
    using assms(3) by (simp add: unset_primaries_def)
  ultimately have "w' = clear_primary (ensure_table w) \<and> a = Crash"
    using assms(2,4) by (auto simp: update_gateway_with_def body_id_def Let_def split: option.splits)
  then show ?thesis using cleared by blast
qed

lemma taken_name_loses_primary:
  assumes "gb_name b = Some name" "gb_host b = Some host" "gb_port b = Some port" "name \<noteq> []" "host \<noteq> []" "port \<noteq> 0"
    and "gb_is_primary b" "name_taken name (clear_primary (ensure_table w))" "add_gateway_with (Some b) user w = (w', a)"
  shows "resp_status a = 409 \<and> (\<forall>j h. tbl_get (gateway_table w') j = Some h \<longrightarrow> gw_is_primary h = 0)"
proof -
  have "w' = clear_primary (ensure_table w) \<and> resp_status a = 409"
    using assms by (auto simp: add_gateway_with_def str_or_null_def Let_def)
  then show ?thesis using cleared by blast
qed

text \<open>Probing before any request to the register has made its table fails.\<close>

lemma probe_without_table: "gateways (dbase w) = None \<Longrightarrow> snd (begin_probes url_host e r w) \<noteq> Probed (Reply 200 j)"
  by (auto simp: begin_probes_def with_role_def split: access.splits)

end
