(* ===== verification/Github.thy ===== *)
theory Github
  imports Settings Tasks
begin

text \<open>
  \<open>lib/github.ts\<close> and the route \<open>app/api/github/route.ts\<close>: importing issues as tasks, commenting on
  and closing issues. What GitHub answers is an argument; an item of a list of issues has the
  fields of the interface, of which the title and the labels may be missing. A request waits
  for GitHub first and then works on the database in one step.
\<close>

section \<open>The client\<close>

record github_issue =
  gi_number :: int
  gi_title :: "string option"
  gi_body :: "string option"
  gi_state :: string
  gi_labels :: "string list option"
  gi_url :: string
  gi_pull_request :: bool

text \<open>How a request with a method, an address, headers and a body ends: the message of an exception,
  or the status, the text and (or the message of the exception reading it) the value of the answer.\<close>

type_synonym 'a github_api =
  "string \<Rightarrow> string \<Rightarrow> (string \<times> string) list \<Rightarrow> string option \<Rightarrow> string + (int \<times> string \<times> (string + 'a))"

definition get_github_token :: "env \<Rightarrow> string option" where
  "get_github_token e = str_or_null (e ''GITHUB_TOKEN'')"

definition github_url :: "string \<Rightarrow> string" where
  "github_url path =
     (if starts_with ''https://'' path then path
      else ''https://api.github.com'' @ (if starts_with ''/'' path then [] else ''/'') @ path)"

definition github_fetch ::
  "env \<Rightarrow> 'a github_api \<Rightarrow> string \<Rightarrow> string \<Rightarrow> string option \<Rightarrow> string + (int \<times> string \<times> (string + 'a))" where
  "github_fetch e api path verb body =
     (case get_github_token e of
        None \<Rightarrow> Inl ''GITHUB_TOKEN not configured''
      | Some token \<Rightarrow>
          api verb (github_url path)
            ([(''Authorization'', ''Bearer '' @ token), (''Accept'', ''application/vnd.github.v3+json''),
              (''User-Agent'', ''MissionControl/1.0'')] @
             (if str_or_null body = None then [] else [(''Content-Type'', ''application/json'')])) body)"

text \<open>\<open>URLSearchParams\<close>.\<close>

definition form_char :: "char \<Rightarrow> string" where
  "form_char c =
     (let n = of_char c :: nat
      in if c = CHR '' '' then ''+''
         else if (48 \<le> n \<and> n \<le> 57) \<or> (65 \<le> n \<and> n \<le> 90) \<or> (97 \<le> n \<and> n \<le> 122) \<or> c \<in> set ''*-._'' then [c]
         else CHR ''%'' # map upper_char [hex_char (n div 16), hex_char (n mod 16)])"

definition form_text :: "(string \<times> string) list \<Rightarrow> string" where
  "form_text kvs = join_with ''&'' (map (\<lambda>(k, v). concat (map form_char k) @ ''='' @ concat (map form_char v)) kvs)"

definition issue_query :: "string option \<Rightarrow> string option \<Rightarrow> int \<Rightarrow> (string \<times> string) list" where
  "issue_query state labels per_page =
     (case str_or_null state of None \<Rightarrow> [] | Some s \<Rightarrow> [(''state'', s)]) @
     (case str_or_null labels of None \<Rightarrow> [] | Some l \<Rightarrow> [(''labels'', l)]) @
     [(''per_page'', show_int per_page), (''page'', ''1'')]"

definition ok_answer :: "int \<Rightarrow> bool" where
  "ok_answer n \<longleftrightarrow> 200 \<le> n \<and> n \<le> 299"

definition api_error :: "int \<Rightarrow> string \<Rightarrow> string" where
  "api_error n body = ''GitHub API error '' @ show_int n @ '': '' @ body"

definition fetch_issues ::
  "env \<Rightarrow> github_issue list github_api \<Rightarrow> string \<Rightarrow> string option \<Rightarrow> string option \<Rightarrow> int \<Rightarrow> string + github_issue list" where
  "fetch_issues e api repo state labels per_page =
     (case github_fetch e api (''/repos/'' @ repo @ ''/issues?'' @ form_text (issue_query state labels per_page)) ''GET'' None of
        Inl err \<Rightarrow> Inl err
      | Inr (n, body, data) \<Rightarrow>
          if \<not> ok_answer n then Inl (api_error n body)
          else (case data of Inl err \<Rightarrow> Inl err | Inr items \<Rightarrow> Inr (filter (\<lambda>i. \<not> gi_pull_request i) items)))"

text \<open>Of the answer to a command only the status matters; \<open>None\<close> is success.\<close>

definition issue_path :: "string \<Rightarrow> rat \<Rightarrow> string" where
  "issue_path repo n = ''/repos/'' @ repo @ ''/issues/'' @ number_text n"

definition github_failure :: "string + (int \<times> string \<times> (string + 'a)) \<Rightarrow> string option" where
  "github_failure x = (case x of Inl err \<Rightarrow> Some err | Inr (n, body, data) \<Rightarrow> if ok_answer n then None else Some (api_error n body))"

definition create_issue_comment :: "env \<Rightarrow> 'a github_api \<Rightarrow> string \<Rightarrow> rat \<Rightarrow> string \<Rightarrow> string option" where
  "create_issue_comment e api repo n body =
     github_failure (github_fetch e api (issue_path repo n @ ''/comments'') ''POST'' (Some (json_text (JObj [(''body'', JStr body)]))))"

definition update_issue_state :: "env \<Rightarrow> 'a github_api \<Rightarrow> string \<Rightarrow> rat \<Rightarrow> string \<Rightarrow> string option" where
  "update_issue_state e api repo n state =
     github_failure (github_fetch e api (issue_path repo n) ''PATCH'' (Some (json_text (JObj [(''state'', JStr state)]))))"

section \<open>Previewing issues\<close>

text \<open>\<open>/^[^/]+\/[^/]+$/\<close>.\<close>

definition repo_ok :: "string \<Rightarrow> bool" where
  "repo_ok repo \<longleftrightarrow> length (split_on (CHR ''/'') repo) = 2 \<and> [] \<notin> set (split_on (CHR ''/'') repo)"

definition issue_json :: "github_issue \<Rightarrow> json" where
  "issue_json i = JObj
     ([(''number'', JInt (gi_number i))] @
      (case gi_title i of None \<Rightarrow> [] | Some t \<Rightarrow> [(''title'', JStr t)]) @
      [(''body'', JOptStr (gi_body i)), (''state'', JStr (gi_state i))] @
      (case gi_labels i of None \<Rightarrow> [] | Some ls \<Rightarrow> [(''labels'', JArr (map (\<lambda>l. JObj [(''name'', JStr l)]) ls))]) @
      [(''html_url'', JStr (gi_url i))])"

definition get_github ::
  "github_issue list github_api \<Rightarrow> (string \<Rightarrow> string option) \<Rightarrow> env \<Rightarrow> request \<Rightarrow> world \<Rightarrow> world \<times> json response" where
  "get_github api query e r = with_role Operator e r (\<lambda>user w.
     (let repo = opt_or (query ''repo'') (env_or e ''GITHUB_DEFAULT_REPO'' [])
      in if query ''action'' \<noteq> Some ''issues'' then (w, Fail 400 ''Unknown action. Use ?action=issues'')
         else if \<not> repo_ok repo then (w, Fail 400 ''repo query parameter required (owner/repo format)'')
         else if get_github_token e = None then (w, Fail 400 ''GITHUB_TOKEN not configured'')
         else (case fetch_issues e api repo (Some (opt_or (query ''state'') ''open'')) (query ''labels'') 50 of
            Inl err \<Rightarrow> (w, Fail 500 (str_or err ''Failed to fetch issues''))
          | Inr issues \<Rightarrow>
              (w, Reply 200 (JObj [(''issues'', JArr (map issue_json issues)), (''total'', JInt (int (length issues))),
                 (''repo'', JStr repo)])))))"

section \<open>Importing issues\<close>

definition label_priority :: "string \<Rightarrow> priority option" where
  "label_priority label =
     (let l = js_lower label
      in if l = ''priority:critical'' \<or> l = ''critical'' then Some Critical
         else if l = ''priority:high'' \<or> l = ''high'' then Some High
         else if l = ''priority:low'' \<or> l = ''low'' then Some Low
         else if l = ''priority:medium'' then Some Medium else None)"

fun map_priority :: "string list \<Rightarrow> priority" where
  "map_priority [] = Medium"
| "map_priority (l # ls) = (case label_priority l of None \<Rightarrow> map_priority ls | Some p \<Rightarrow> p)"

text \<open>\<open>json_extract(metadata, ...)\<close> on both members.\<close>

definition linked :: "string \<Rightarrow> rat \<Rightarrow> task \<Rightarrow> bool" where
  "linked repo n t =
     (case task_metadata t of None \<Rightarrow> False
      | Some m \<Rightarrow> jget m ''github_repo'' = Some (JStr repo) \<and> jget m ''github_issue_number'' = Some (JNum n))"

definition issue_metadata :: "string \<Rightarrow> github_issue \<Rightarrow> int \<Rightarrow> json" where
  "issue_metadata repo i now_ms = JObj
     [(''github_repo'', JStr repo), (''github_issue_number'', JInt (gi_number i)), (''github_issue_url'', JStr (gi_url i)),
      (''github_synced_at'', JStr (iso_string now_ms)), (''github_state'', JStr (gi_state i))]"

definition issue_task :: "string \<Rightarrow> string option \<Rightarrow> string \<Rightarrow> int \<Rightarrow> string \<Rightarrow> string list \<Rightarrow> github_issue \<Rightarrow> task" where
  "issue_task repo agent actor now_ms title labels i =
     \<lparr>task_title = title, task_description = Some (opt_or (gi_body i) []),
      task_status = (if gi_state i = ''closed'' then Done else Inbox), task_priority = map_priority labels,
      task_assigned_to = str_or_null agent, task_created_by = actor, task_created_at = now_ms div 1000,
      task_updated_at = now_ms div 1000, task_due_date = None, task_estimated_hours = None, task_actual_hours = None,
      task_tags = Some labels, task_metadata = Some (issue_metadata repo i now_ms)\<rparr>"

datatype import_outcome = Imported json | Skipped_Issue | Import_Error

text \<open>A missing list of labels throws; a missing title is refused by the constraint.\<close>

definition import_issue ::
  "string \<Rightarrow> string option \<Rightarrow> string \<Rightarrow> github_issue \<Rightarrow> world \<Rightarrow> world \<times> import_outcome" where
  "import_issue repo agent actor i w =
     (if tbl_find (linked repo (of_int (gi_number i))) (tasks (dbase w)) \<noteq> None then (w, Skipped_Issue)
      else (case (gi_labels i, gi_title i) of
        (Some labels, Some title) \<Rightarrow>
          (let t = issue_task repo agent actor (clock w) title labels i; tid = tbl_last_id (tasks (dbase w));
               w1 = log_activity ''task_created'' ''task'' tid actor
                      (''Imported from GitHub: '' @ repo @ ''#'' @ show_int (gi_number i))
                      (Some (JObj [(''github_issue'', JInt (gi_number i)), (''github_repo'', JStr repo)])) (insert_task t w)
           in (broadcast ''task.created'' (task_json tid t) w1, Imported (task_json tid t)))
      | _ \<Rightarrow> (w, Import_Error)))"

fun import_issues ::
  "string \<Rightarrow> string option \<Rightarrow> string \<Rightarrow> github_issue list \<Rightarrow> world \<Rightarrow> world \<times> import_outcome list" where
  "import_issues repo agent actor [] w = (w, [])"
| "import_issues repo agent actor (i # is) w =
     (case import_issue repo agent actor i w of (w1, x) \<Rightarrow>
      (case import_issues repo agent actor is w1 of (w2, xs) \<Rightarrow> (w2, x # xs)))"

definition imported_tasks :: "import_outcome list \<Rightarrow> json list" where
  "imported_tasks xs = concat (map (\<lambda>x. case x of Imported j \<Rightarrow> [j] | _ \<Rightarrow> []) xs)"

definition log_sync :: "string \<Rightarrow> nat \<Rightarrow> nat \<Rightarrow> world \<Rightarrow> world" where
  "log_sync repo imported errors w = w\<lparr>dbase := (dbase w)\<lparr>github_syncs := tbl_insert
     \<lparr>ghs_repo = repo, ghs_last_synced_at = now_s w, ghs_issue_count = imported,
      ghs_status = (if 0 < errors then ''partial'' else ''success''),
      ghs_error = (if 0 < errors then Some (show_nat errors @ '' issues failed to import'') else None),
      ghs_created_at = now_s w\<rparr> (github_syncs (dbase w))\<rparr>\<rparr>"

definition sync_counts :: "import_outcome list \<Rightarrow> nat \<times> nat \<times> nat" where
  "sync_counts xs = (length (imported_tasks xs), length (filter (\<lambda>x. x = Skipped_Issue) xs), length (filter (\<lambda>x. x = Import_Error) xs))"

record github_body =
  gh_repo :: "string option"
  gh_labels :: "string option"
  gh_state :: "string option"
  gh_agent :: "string option"
  gh_number :: "rat option"
  gh_body :: "string option"
  gh_comment :: "string option"

definition handle_sync ::
  "env \<Rightarrow> github_issue list github_api \<Rightarrow> github_body \<Rightarrow> string \<Rightarrow> world \<Rightarrow> world \<times> json response" where
  "handle_sync e api b actor w =
     (case str_or_null (Some (opt_or (gh_repo b) (env_or e ''GITHUB_DEFAULT_REPO'' []))) of
        None \<Rightarrow> (w, Fail 400 ''repo is required'')
      | Some repo \<Rightarrow>
     (if get_github_token e = None then (w, Fail 400 ''GITHUB_TOKEN not configured'')
      else (case fetch_issues e api repo (Some (opt_or (gh_state b) ''open'')) (gh_labels b) 100 of
        Inl err \<Rightarrow> (w, Fail 500 (str_or err ''GitHub action failed''))
      | Inr issues \<Rightarrow>
     (case import_issues repo (gh_agent b) actor issues w of (w1, xs) \<Rightarrow>
     (case sync_counts xs of (imported, skipped, errors) \<Rightarrow>
       (broadcast ''github.synced''
          (JObj [(''repo'', JStr repo), (''imported'', JInt (int imported)), (''skipped'', JInt (int skipped)),
                 (''errors'', JInt (int errors)), (''timestamp'', JInt (now_s w))])
          (log_sync repo imported errors w1),
        Reply 200 (JObj [(''imported'', JInt (int imported)), (''skipped'', JInt (int skipped)),
          (''errors'', JInt (int errors)), (''tasks'', JArr (imported_tasks xs))])))))))"

section \<open>Comments, closing, history\<close>

definition issue_number :: "github_body \<Rightarrow> rat option" where
  "issue_number b = body_id (gh_number b)"

definition log_issue :: "string \<Rightarrow> string \<Rightarrow> string \<Rightarrow> string \<Rightarrow> rat \<Rightarrow> world \<Rightarrow> world" where
  "log_issue ty actor said repo n =
     log_activity ty ''task'' 0 actor (said @ repo @ ''#'' @ number_text n)
       (Some (JObj [(''github_repo'', JStr repo), (''github_issue'', JNum n)]))"

definition handle_comment :: "env \<Rightarrow> 'a github_api \<Rightarrow> github_body \<Rightarrow> string \<Rightarrow> world \<Rightarrow> world \<times> json response" where
  "handle_comment e api b actor w =
     (case (str_or_null (gh_repo b), issue_number b, str_or_null (gh_body b)) of
        (Some repo, Some n, Some text) \<Rightarrow>
          (case create_issue_comment e api repo n text of
             Some err \<Rightarrow> (w, Fail 500 (str_or err ''GitHub action failed''))
           | None \<Rightarrow> (log_issue ''github_comment'' actor ''Commented on '' repo n w, Reply 200 (JObj [(''ok'', JBool True)])))
      | _ \<Rightarrow> (w, Fail 400 ''repo, issueNumber, and body are required''))"

definition closed_metadata :: "task \<Rightarrow> json option" where
  "closed_metadata t = map_option (\<lambda>m. JObj (obj_set ''github_state'' (JStr ''closed'') (members m))) (task_metadata t)"

definition close_linked :: "string \<Rightarrow> rat \<Rightarrow> world \<Rightarrow> world" where
  "close_linked repo n w = w\<lparr>dbase := (dbase w)\<lparr>tasks :=
     tbl_update_where (linked repo n) (\<lambda>t. t\<lparr>task_metadata := closed_metadata t, task_updated_at := now_s w\<rparr>) (tasks (dbase w))\<rparr>\<rparr>"

definition handle_close :: "env \<Rightarrow> 'a github_api \<Rightarrow> github_body \<Rightarrow> string \<Rightarrow> world \<Rightarrow> world \<times> json response" where
  "handle_close e api b actor w =
     (case (str_or_null (gh_repo b), issue_number b) of
        (Some repo, Some n) \<Rightarrow>
          (case (case str_or_null (gh_comment b) of None \<Rightarrow> None | Some text \<Rightarrow> create_issue_comment e api repo n text) of
             Some err \<Rightarrow> (w, Fail 500 (str_or err ''GitHub action failed''))
           | None \<Rightarrow>
          (case update_issue_state e api repo n ''closed'' of
             Some err \<Rightarrow> (w, Fail 500 (str_or err ''GitHub action failed''))
           | None \<Rightarrow>
               (log_issue ''github_close'' actor ''Closed GitHub issue '' repo n (close_linked repo n w),
                Reply 200 (JObj [(''ok'', JBool True)]))))
      | _ \<Rightarrow> (w, Fail 400 ''repo and issueNumber are required''))"

definition sync_json :: "int \<times> github_sync \<Rightarrow> json" where
  "sync_json x = (case x of (i, s) \<Rightarrow> JObj
     [(''id'', JInt i), (''repo'', JStr (ghs_repo s)), (''last_synced_at'', JInt (ghs_last_synced_at s)),
      (''issue_count'', JInt (int (ghs_issue_count s))), (''sync_direction'', JStr ''inbound''), (''status'', JStr (ghs_status s)),
      (''error'', JOptStr (ghs_error s)), (''created_at'', JInt (ghs_created_at s))])"

definition handle_status :: "(int list \<Rightarrow> int list) \<Rightarrow> world \<Rightarrow> world \<times> json response" where
  "handle_status scan w = (w, Reply 200 (JObj [(''syncs'',
     JArr (map sync_json (take 20 (order_desc scan (\<lambda>(i, s). ghs_created_at s) (rows (github_syncs (dbase w)))))))]))"

datatype github_action = Gh_Sync | Gh_Comment | Gh_Close | Gh_Status

definition post_github ::
  "(int list \<Rightarrow> int list) \<Rightarrow> github_issue list github_api \<Rightarrow> (github_action \<times> github_body) validated \<Rightarrow> env \<Rightarrow> request \<Rightarrow>
   world \<Rightarrow> world \<times> json response" where
  "post_github scan api body e r = with_role Operator e r (\<lambda>user.
     with_limit MutationLimiter e r (with_body body (\<lambda>(a, b).
       case a of Gh_Sync \<Rightarrow> handle_sync e api b (au_username user)
       | Gh_Comment \<Rightarrow> handle_comment e api b (au_username user)
       | Gh_Close \<Rightarrow> handle_close e api b (au_username user)
       | Gh_Status \<Rightarrow> handle_status scan)))"

end
