(* ===== verification/Github_Rules.thy ===== *)
theory Github_Rules
  imports Github Live_Updates
begin

text \<open>
  What importing issues guarantees: a repository and a number have at most one task, tasks are only
  added, a second synchronisation imports nothing, and the browser follows; and where the
  import and the closing of issues fall short of the rules of the board.
\<close>

section \<open>One issue\<close>

definition linked_rows :: "string \<Rightarrow> int \<Rightarrow> world \<Rightarrow> (int \<times> task) list" where
  "linked_rows repo n w = tbl_select (linked repo (of_int n)) (tasks (dbase w))"

lemma linked_issue_task [simp]:
  "linked r q (issue_task repo agent actor now title labels i) \<longleftrightarrow> r = repo \<and> q = of_int (gi_number i)"
  by (auto simp: linked_def issue_task_def issue_metadata_def)

lemma find_linked: "tbl_find (linked repo (of_int n)) (tasks (dbase w)) = None \<longleftrightarrow> linked_rows repo n w = []"
  by (simp add: tbl_find_def linked_rows_def split: list.split)

lemma import_issue_cases:
  obtains (kept) x where "import_issue repo agent actor i w = (w, x)" "\<forall>j. x \<noteq> Imported j"
    "linked_rows repo (gi_number i) w \<noteq> [] \<or> gi_labels i = None \<or> gi_title i = None"
  | (added) w' t title labels where "import_issue repo agent actor i w = (w', Imported (task_json (tbl_last_id (tasks (dbase w))) t))"
    "linked_rows repo (gi_number i) w = []" "gi_labels i = Some labels" "gi_title i = Some title"
    "t = issue_task repo agent actor (clock w) title labels i"
    "dbase w' = (dbase w)\<lparr>tasks := tbl_insert t (tasks (dbase w)), activities := activities (dbase w')\<rparr>"
    "clock w' = clock w"
proof (cases "linked_rows repo (gi_number i) w = [] \<and> gi_labels i \<noteq> None \<and> gi_title i \<noteq> None")
  case True
  then obtain labels title where lt: "gi_labels i = Some labels" "gi_title i = Some title" by auto
  obtain w' j where w': "import_issue repo agent actor i w = (w', j)" by fastforce
  show ?thesis
    by (rule added [where w' = w' and labels = labels and title = title, OF _ _ lt refl])
      (use True lt w' in \<open>auto simp: import_issue_def find_linked Let_def insert_task_def\<close>)
next
  case False
  then consider "linked_rows repo (gi_number i) w \<noteq> []" | "linked_rows repo (gi_number i) w = []" "gi_labels i = None \<or> gi_title i = None"
    by blast
  then show ?thesis
  proof cases
    case 1
    then show ?thesis using kept [of Skipped_Issue] by (simp add: import_issue_def find_linked)
  next
    case 2
    then have "import_issue repo agent actor i w = (w, Import_Error)"
      unfolding import_issue_def find_linked by (auto split: option.split)
    then show ?thesis using kept [of Import_Error] 2(2) by auto
  qed
qed

definition settled :: "string \<Rightarrow> world \<Rightarrow> github_issue \<Rightarrow> bool" where
  "settled repo w i \<longleftrightarrow> linked_rows repo (gi_number i) w \<noteq> [] \<or> gi_labels i = None \<or> gi_title i = None"

definition one_each :: "world \<Rightarrow> bool" where
  "one_each w \<longleftrightarrow> (\<forall>repo n. length (linked_rows repo n w) \<le> 1)"

definition grown :: "world \<Rightarrow> world \<Rightarrow> bool" where
  "grown w w' \<longleftrightarrow> (\<exists>xs. rows (tasks (dbase w')) = rows (tasks (dbase w)) @ xs)"

lemma grown_trans: "grown w1 w2 \<Longrightarrow> grown w2 w3 \<Longrightarrow> grown w1 w3"
  by (auto simp: grown_def)

lemma grown_settled: "grown w w' \<Longrightarrow> settled repo w i \<Longrightarrow> settled repo w' i"
  by (auto simp: grown_def settled_def linked_rows_def tbl_select_def)

lemma linked_rows_insert:
  "tasks (dbase w') = tbl_insert t (tasks (dbase w)) \<Longrightarrow>
   linked_rows r n w' = linked_rows r n w @ (if linked r (of_int n) t then [(tbl_last_id (tasks (dbase w)), t)] else [])"
  by (simp add: linked_rows_def tbl_simps tbl_last_id_def)

lemma import_issue_settles:
  assumes "import_issue repo agent actor i w = (w', x)"
  shows "settled repo w' i \<and> grown w w' \<and> (one_each w \<longrightarrow> one_each w')"
proof (cases rule: import_issue_cases [of repo agent actor i w])
  case (kept x)
  then show ?thesis using assms by (auto simp: settled_def grown_def)
next
  case (added w1 t title labels)
  have w1: "w1 = w'" using added(1) assms by simp
  have t: "tasks (dbase w') = tbl_insert t (tasks (dbase w))" using arg_cong [OF added(6), of tasks] w1 by simp
  show ?thesis
    using added(2,5) linked_rows_insert [OF t]
    by (auto simp: settled_def grown_def one_each_def t tbl_simps)
qed

lemma settled_kept:
  "settled repo w i \<Longrightarrow> \<exists>x. import_issue repo agent actor i w = (w, x) \<and> (\<forall>j. x \<noteq> Imported j)"
  by (cases rule: import_issue_cases [of repo agent actor i w]) (auto simp: settled_def)

section \<open>A whole synchronisation\<close>

lemma import_issues_settle:
  "import_issues repo agent actor is w = (w', xs) \<Longrightarrow>
   list_all (settled repo w') is \<and> grown w w' \<and> (one_each w \<longrightarrow> one_each w')"
proof (induction "is" arbitrary: w xs)
  case Nil
  then show ?case by (simp add: grown_def)
next
  case (Cons i "is")
  obtain w1 x ys where s: "import_issue repo agent actor i w = (w1, x)" "import_issues repo agent actor is w1 = (w', ys)"
    using Cons.prems by (auto split: prod.splits)
  show ?case
    using import_issue_settles [OF s(1)] Cons.IH [OF s(2)] grown_settled [of w1 w' repo i] grown_trans [of w w1 w'] by simp
qed

lemma settled_import_nothing:
  "list_all (settled repo w) is \<Longrightarrow> \<exists>xs. import_issues repo agent actor is w = (w, xs) \<and> imported_tasks xs = []"
proof (induction "is")
  case (Cons i "is")
  obtain x where x: "import_issue repo agent actor i w = (w, x)" "\<forall>j. x \<noteq> Imported j"
    using settled_kept [of repo w i agent actor] Cons.prems by auto
  obtain xs where "import_issues repo agent actor is w = (w, xs)" "imported_tasks xs = []"
    using Cons by auto
  then show ?case using x by (cases x) (auto simp: imported_tasks_def)
qed (simp add: imported_tasks_def)

lemma handle_syncE:
  assumes "handle_sync e api b actor w = (w', Reply 200 j)"
  obtains repo "issues" w1 xs where "get_github_token e \<noteq> None"
    "str_or_null (Some (opt_or (gh_repo b) (env_or e ''GITHUB_DEFAULT_REPO'' []))) = Some repo"
    "fetch_issues e api repo (Some (opt_or (gh_state b) ''open'')) (gh_labels b) 100 = Inr issues"
    "import_issues repo (gh_agent b) actor issues w = (w1, xs)" "tasks (dbase w') = tasks (dbase w1)"
    "jget j ''imported'' = Some (JInt (int (length (imported_tasks xs))))"
proof -
  obtain repo where r: "str_or_null (Some (opt_or (gh_repo b) (env_or e ''GITHUB_DEFAULT_REPO'' []))) = Some repo"
    using assms by (auto simp: handle_sync_def split: option.splits)
  have tok: "get_github_token e \<noteq> None"
  proof
    assume "get_github_token e = None"
    then show False using assms r by (simp add: handle_sync_def)
  qed
  obtain iss where i: "fetch_issues e api repo (Some (opt_or (gh_state b) ''open'')) (gh_labels b) 100 = Inr iss"
    using assms r tok by (auto simp: handle_sync_def split: sum.splits)
  obtain w1 xs where x: "import_issues repo (gh_agent b) actor iss w = (w1, xs)" by fastforce
  show ?thesis
    by (rule that [OF tok r i x]) (use assms r tok i x in \<open>auto simp: handle_sync_def sync_counts_def log_sync_def\<close>)
qed

lemma handle_syncI:
  assumes "get_github_token e \<noteq> None"
    "str_or_null (Some (opt_or (gh_repo b) (env_or e ''GITHUB_DEFAULT_REPO'' []))) = Some repo"
    "fetch_issues e api repo (Some (opt_or (gh_state b) ''open'')) (gh_labels b) 100 = Inr issues"
    "import_issues repo (gh_agent b) actor issues w = (w1, xs)"
  shows "\<exists>w' j. handle_sync e api b actor w = (w', Reply 200 j) \<and> tasks (dbase w') = tasks (dbase w1) \<and>
    jget j ''imported'' = Some (JInt (int (length (imported_tasks xs))))"
  using assms by (auto simp: handle_sync_def sync_counts_def log_sync_def str_or_null_def)

text \<open>
  Claim C18. A synchronisation with GitHub imports an issue once. After one that succeeds, every
  earlier task is still there in its place, no issue has two tasks if none had two before,
  and repeating the synchronisation while GitHub answers the same succeeds, imports nothing
  and changes no task, whoever asks and whatever else but the tasks has changed.
\<close>

theorem issues_imported_once:
  assumes "handle_sync e api b actor w = (w1, Reply 200 j)" "tasks (dbase w2) = tasks (dbase w1)"
  shows "take (length (rows (tasks (dbase w)))) (rows (tasks (dbase w1))) = rows (tasks (dbase w)) \<and>
    (one_each w \<longrightarrow> one_each w1) \<and>
    (\<exists>w3 j3. handle_sync e api b actor2 w2 = (w3, Reply 200 j3) \<and>
      jget j3 ''imported'' = Some (JInt 0) \<and> tasks (dbase w3) = tasks (dbase w1))"
proof -
  from assms(1) show ?thesis
  proof (cases rule: handle_syncE)
    case (1 repo "issues" wa xs)
    have same: "linked_rows r n w' = linked_rows r n wa" if "tasks (dbase w') = tasks (dbase w1)" for r n w'
      using that 1(5) by (simp add: linked_rows_def)
    have s: "list_all (settled repo wa) issues" "grown w wa" "one_each w \<longrightarrow> one_each wa"
      using import_issues_settle [OF 1(4)] by auto
    then have "list_all (settled repo w2) issues"
      using same [OF assms(2)] by (simp add: settled_def list_all_iff)
    from settled_import_nothing [OF this] obtain ys where
      ys: "import_issues repo (gh_agent b) actor2 issues w2 = (w2, ys)" "imported_tasks ys = []" by blast
    show ?thesis
      using handle_syncI [OF 1(1-3) ys(1)] ys(2) assms(2) s(2,3) 1(5) same [OF refl]
      by (auto simp: grown_def one_each_def)
  qed
qed

definition hub_env :: env where
  "hub_env = sample_env(''GITHUB_TOKEN'' \<mapsto> ''t'')"

definition sample_issue :: github_issue where
  "sample_issue = \<lparr>gi_number = 7, gi_title = Some ''Crash'', gi_body = None, gi_state = ''open'',
     gi_labels = Some [''critical''], gi_url = [], gi_pull_request = False\<rparr>"

definition sample_hub :: "github_issue list github_api" where
  "sample_hub verb url headers body = Inr (200, [], Inr [sample_issue, sample_issue\<lparr>gi_pull_request := True, gi_number := 8\<rparr>])"

definition sync_body :: github_body where
  "sync_body = \<lparr>gh_repo = Some ''o/r'', gh_labels = None, gh_state = None, gh_agent = None, gh_number = None,
     gh_body = None, gh_comment = None\<rparr>"

lemma sample_sync: "\<exists>w1 j. handle_sync hub_env sample_hub sync_body u sample_board = (w1, Reply 200 j)"
proof -
  have "get_github_token hub_env \<noteq> None" by (simp add: get_github_token_def hub_env_def str_or_null_def)
  moreover have "str_or_null (Some (opt_or (gh_repo sync_body) (env_or hub_env ''GITHUB_DEFAULT_REPO'' []))) = Some ''o/r''"
    by (simp add: sync_body_def opt_or_def str_or_null_def str_or_def)
  moreover from calculation(1) have "fetch_issues hub_env sample_hub ''o/r'' (Some (opt_or (gh_state sync_body) ''open'')) (gh_labels sync_body) 100
      = Inr [sample_issue]"
    by (auto simp: fetch_issues_def github_fetch_def sample_hub_def ok_answer_def sample_issue_def)
  moreover obtain w1 xs where "import_issues ''o/r'' (gh_agent sync_body) u [sample_issue] sample_board = (w1, xs)"
    by fastforce
  ultimately show ?thesis
    using handle_syncI [of hub_env sync_body "''o/r''" sample_hub "[sample_issue]" u sample_board] by blast
qed

theorem issues_imported_once_witness:
  "\<exists>w1 w3 j3. handle_sync hub_env sample_hub sync_body ''ada'' w1 = (w3, Reply 200 j3) \<and>
     jget j3 ''imported'' = Some (JInt 0) \<and> tasks (dbase w3) = tasks (dbase w1)"
proof -
  obtain w1 j where s: "handle_sync hub_env sample_hub sync_body ''bob'' sample_board = (w1, Reply 200 j)"
    using sample_sync by blast
  show ?thesis using issues_imported_once [OF s refl, of "''ada''"] by blast
qed

section \<open>The board and the browser\<close>

lemma import_issue_ok:
  assumes "board_ok (dbase w)" "import_issue repo agent actor i w = (w', x)"
  shows "board_ok (dbase w')"
proof (cases rule: import_issue_cases [of repo agent actor i w])
  case (added w1 t title labels)
  have "dbase w1 = (dbase (insert_task t w))\<lparr>activities := activities (dbase w1)\<rparr>"
    by (subst added(6)) (simp add: insert_task_def)
  then have "board_ok (dbase w1)" using insert_task_ok [OF assms(1), of t] board_ok_frame(1) by metis
  then show ?thesis using added(1) assms(2) by simp
qed (use assms in simp)

lemma import_issue_follows:
  assumes "tbl_ok (tasks (dbase w))" "import_issue repo agent actor i w = (w', x)"
  shows "follows w w'"
proof (cases rule: import_issue_cases [of repo agent actor i w])
  case (kept x)
  then show ?thesis using assms(2) by (simp add: quiet_follows)
next
  case (added w1 t title labels)
  define tid where "tid = tbl_last_id (tasks (dbase w))"
  have row: "task_row (insert_task t w) = (task_row w)(tid \<mapsto> t)"
    using assms(1) by (auto simp: task_row_def insert_task_def tid_def tbl_simps)
  have none: "task_row w tid = None"
    using assms(1) by (simp add: task_row_def tid_def tbl_last_id_def)
  have "follows w (broadcast ''task.created'' (task_json tid t)
      (log_activity ''task_created'' ''task'' tid actor (''Imported from GitHub: '' @ repo @ ''#'' @ show_int (gi_number i))
         (Some (JObj [(''github_issue'', JInt (gi_number i)), (''github_repo'', JStr repo)])) (insert_task t w)))"
    by (rule follows_event [of "insert_task t w"], simp add: insert_task_def, simp)
      (simp_all add: insert_task_def apply_event_def Let_def row [unfolded insert_task_def] mirrors_created none)
  then show ?thesis
    using assms(2) added(2-5) by (simp add: import_issue_def find_linked Let_def tid_def)
qed

lemma import_issues_follow:
  "board_ok (dbase w) \<Longrightarrow> import_issues repo agent actor is w = (w', xs) \<Longrightarrow> board_ok (dbase w') \<and> follows w w'"
proof (induction "is" arbitrary: w xs)
  case Nil
  then show ?case by (simp add: quiet_follows)
next
  case (Cons i "is")
  obtain w1 x ys where s: "import_issue repo agent actor i w = (w1, x)" "import_issues repo agent actor is w1 = (w', ys)"
    using Cons.prems(2) by (auto split: prod.splits)
  have "tbl_ok (tasks (dbase w))" using Cons.prems(1) by (simp add: board_ok_def)
  then show ?case
    using import_issue_ok [OF Cons.prems(1) s(1)] import_issue_follows [OF _ s(1)] Cons.IH [OF _ s(2)] follows_trans by blast
qed

text \<open>A synchronisation keeps the board sound, and the store of the browser follows it.\<close>

lemma sync_follows:
  assumes "board_ok (dbase w)"
  shows "board_ok (dbase (fst (handle_sync e api b actor w))) \<and> follows w (fst (handle_sync e api b actor w))"
proof -
  have "board_ok (dbase w1) \<and> follows w w1 \<Longrightarrow>
      board_ok (dbase (broadcast ''github.synced'' d (log_sync repo m n w1))) \<and>
      follows w (broadcast ''github.synced'' d (log_sync repo m n w1))" for w1 d repo m n
    using follows_trans [of w w1 "broadcast ''github.synced'' d (log_sync repo m n w1)"]
      quiet_follows [OF quiet_trans [OF quiet_frame quiet_broadcast], of "log_sync repo m n w1" w1]
    by (simp add: log_sync_def board_ok_def comment_ok_iff)
  then show ?thesis
    using assms import_issues_follow [OF assms]
    by (auto simp: handle_sync_def quiet_follows split: option.splits sum.splits prod.splits)
qed

section \<open>Where the board's rules are passed by\<close>

text \<open>A closed issue becomes a task that is done, with no review asked.\<close>

lemma closed_issue_done:
  "gi_state i = ''closed'' \<Longrightarrow> task_status (issue_task repo agent actor now title labels i) = Done"
  by (simp add: issue_task_def)

text \<open>Closing an issue changes its task, and no event tells the browser.\<close>

lemma close_untold:
  "list_all (\<lambda>ev. \<not> task_event ev) (drop (length (bus w)) (bus (fst (handle_close e api b actor w))))"
proof -
  have "bus (log_issue ty actor said repo n (close_linked repo n w)) = bus (log_issue ty actor said repo n w)" for ty said repo n
    by (simp add: log_issue_def close_linked_def log_activity_def broadcast_def now_s_def)
  moreover have "list_all (\<lambda>ev. \<not> task_event ev) (drop (length (bus w)) (bus (log_issue ty actor said repo n w)))" for ty said repo n
  proof -
    have "quiet w (log_issue ty actor said repo n w)" by (simp add: log_issue_def)
    then show ?thesis by (auto simp: quiet_def)
  qed
  ultimately show ?thesis
    by (simp add: handle_close_def split: option.split)
qed

text \<open>The names of repositories are compared letter by letter, GitHub's are not.\<close>

lemma repo_case_matters: "\<not> linked ''Owner/Repo'' q (issue_task ''owner/repo'' agent actor now title labels i)"
  by simp

end
