(* ===== verification/Daemon.thy ===== *)
theory Daemon
  imports Provisioning Paths Json_Text Json_Parse
begin

text \<open>
  The provisioner daemon \<open>ops/mc-provisioner-daemon.js\<close>, which runs as root, and the socket between
  it and \<open>lib/provisioner-client.ts\<close>. A command the daemon starts ends as an argument says. A
  connection is its buffer and whether its writing end is closed; the answer to a line is
  written in the step that reads the line.
\<close>

section \<open>Configuration\<close>

record daemon_config =
  dc_token :: string
  dc_home_root :: string
  dc_workspace :: string
  dc_template :: string
  dc_gateway_template :: string
  dc_data_dir :: string

definition daemon_config_of :: "env \<Rightarrow> string \<Rightarrow> daemon_config" where
  "daemon_config_of e dirname =
     (let repo_root = env_or e ''MISSION_CONTROL_REPO_ROOT'' (path_resolve dirname ''..'')
      in \<lparr>dc_token = env_or e ''MC_PROVISIONER_TOKEN'' [],
          dc_home_root = str_or (js_trim (env_or e ''MC_TENANT_HOME_ROOT'' ''/home'')) ''/home'',
          dc_workspace = str_or (js_trim (env_or e ''MC_TENANT_WORKSPACE_DIRNAME'' ''workspace'')) ''workspace'',
          dc_template = env_or e ''MC_SUPER_TEMPLATE_OPENCLAW_JSON''
            (case str_or_null (e ''OPENCLAW_HOME'') of None \<Rightarrow> [] | Some h \<Rightarrow> path_join [h, ''openclaw.json'']),
          dc_gateway_template = path_join [repo_root, ''ops'', ''templates'', ''openclaw-gateway@.service''],
          dc_data_dir = env_or e ''MISSION_CONTROL_DATA_DIR'' (path_join [repo_root, ''.data''])\<rparr>)"

section \<open>The allowlist\<close>

text \<open>\<open>/^[a-z_][a-z0-9_-]{1,30}$/\<close>, the pattern of \<open>lib/super-admin.ts\<close>.\<close>

definition is_safe_user :: "string \<Rightarrow> bool" where
  "is_safe_user usr = is_valid_linux_user usr"

definition path_join_posix :: "string list \<Rightarrow> string" where
  "path_join_posix parts = path_join (map strip_slashes parts)"

text \<open>A match of \<open>^pre(...)post$\<close> for literal texts around a group: what the group matches.\<close>

definition between :: "string \<Rightarrow> string \<Rightarrow> string \<Rightarrow> string option" where
  "between pre post s =
     (if length pre + length post \<le> length s \<and> starts_with pre s \<and> ends_with post s
      then Some (take (length s - length pre - length post) (drop (length pre) s)) else None)"

definition user_between :: "string \<Rightarrow> string \<Rightarrow> string \<Rightarrow> bool" where
  "user_between pre post s = (case between pre post s of None \<Rightarrow> False | Some u \<Rightarrow> is_safe_user u)"

text \<open>\<open>[a-z0-9-]{3,32}\<close>.\<close>

definition slug_text :: "string \<Rightarrow> bool" where
  "slug_text s = (3 \<le> length s \<and> length s \<le> 32 \<and> list_all (\<lambda>c. lower_or_digit c \<or> c = CHR ''-'') s)"

definition base_name :: "string \<Rightarrow> string" where
  "base_name command = last (split_on (CHR ''/'') command)"

definition validate_useradd :: "string list \<Rightarrow> string option" where
  "validate_useradd args =
     (case args of [a, b, sh, usr] \<Rightarrow>
        if a \<noteq> ''-m'' \<or> b \<noteq> ''-s'' \<or> sh \<noteq> ''/bin/bash'' then Some ''useradd args not allowed''
        else if \<not> is_safe_user usr then Some ''Invalid username'' else None
      | _ \<Rightarrow> Some ''useradd argument mismatch'')"

definition validate_install :: "daemon_config \<Rightarrow> string list \<Rightarrow> string option" where
  "validate_install cfg args =
     (case args of [d, m_flag, mode, o_flag, user_a, g_flag, user_b, target] \<Rightarrow>
        if d \<noteq> ''-d'' \<or> m_flag \<noteq> ''-m'' \<or> o_flag \<noteq> ''-o'' \<or> g_flag \<noteq> ''-g'' then Some ''install args not allowed''
        else if mode \<noteq> ''0750'' \<and> mode \<noteq> ''0700'' then Some ''install mode not allowed''
        else (let root_owned = (user_a = ''root'' \<and> user_b = ''root'');
                  tenant_owned = (is_safe_user user_a \<and> is_safe_user user_b \<and> user_a = user_b) in
          if \<not> root_owned \<and> \<not> tenant_owned then Some ''install ownership not allowed''
          else if root_owned \<and> target = ''/etc/openclaw-tenants'' then None
          else if target \<noteq> path_join_posix [dc_home_root cfg, user_a, ''.openclaw''] \<and>
                  target \<noteq> path_join_posix [dc_home_root cfg, user_a, dc_workspace cfg] then Some ''install path not allowed''
          else None)
      | _ \<Rightarrow> Some ''install argument mismatch'')"

definition provisioner_env :: "daemon_config \<Rightarrow> string \<Rightarrow> bool" where
  "provisioner_env cfg source =
     (case between (path_join [dc_data_dir cfg, ''provisioner''] @ ''/'') ''/openclaw-gateway.env'' source of
        None \<Rightarrow> False | Some slug \<Rightarrow> slug_text slug)"

definition tenants_env :: "string \<Rightarrow> bool" where
  "tenants_env target = user_between ''/etc/openclaw-tenants/'' ''.env'' target"

definition validate_cp :: "daemon_config \<Rightarrow> string list \<Rightarrow> string option" where
  "validate_cp cfg args =
     (case args of [flag, source, target] \<Rightarrow>
        if flag \<noteq> ''-n'' \<and> flag \<noteq> ''-f'' then Some ''cp flag not allowed''
        else if dc_template cfg \<noteq> [] \<and> source = dc_template cfg then
          (if flag \<noteq> ''-n'' then Some ''openclaw config copy must use -n''
           else if \<not> user_between (path_join_posix [dc_home_root cfg] @ ''/'') ''/.openclaw/openclaw.json'' target
           then Some ''cp target not allowed'' else None)
        else if source = dc_gateway_template cfg then
          (if flag \<noteq> ''-n'' then Some ''template copy must use -n''
           else if target \<noteq> ''/etc/systemd/system/openclaw-gateway@.service'' then Some ''gateway template target not allowed''
           else None)
        else if provisioner_env cfg source then
          (if flag \<noteq> ''-f'' then Some ''tenant env copy must use -f''
           else if \<not> tenants_env target then Some ''tenant env target not allowed'' else None)
        else Some ''cp source not allowed''
      | _ \<Rightarrow> Some ''cp argument mismatch'')"

definition validate_chown :: "daemon_config \<Rightarrow> string list \<Rightarrow> string option" where
  "validate_chown cfg args =
     (case args of [r_flag, owner, target] \<Rightarrow>
        if r_flag \<noteq> ''-R'' then Some ''chown must use -R''
        else (let parts = split_on (CHR '':'') owner; user_a = hd parts in
          if \<not> is_safe_user user_a \<or> tl parts = [] \<or> user_a \<noteq> hd (tl parts) then Some ''chown owner not allowed''
          else if target \<noteq> path_join_posix [dc_home_root cfg, user_a] then Some ''chown target not allowed'' else None)
      | _ \<Rightarrow> Some ''chown argument mismatch'')"

definition validate_rm :: "daemon_config \<Rightarrow> string list \<Rightarrow> string option" where
  "validate_rm cfg args =
     (case args of [flag, target] \<Rightarrow>
        if flag = ''-f'' then (if \<not> tenants_env target then Some ''rm -f target not allowed'' else None)
        else if flag = ''-rf'' then
          (let root = path_join_posix [dc_home_root cfg] @ ''/'' in
           if \<not> user_between root ''/.openclaw'' target \<and> \<not> user_between root (''/'' @ dc_workspace cfg) target
           then Some ''rm -rf target not allowed'' else None)
        else Some ''rm flag not allowed''
      | _ \<Rightarrow> Some ''rm argument mismatch'')"

definition validate_userdel :: "string list \<Rightarrow> string option" where
  "validate_userdel args =
     (case args of [flag, usr] \<Rightarrow>
        if flag \<noteq> ''-r'' then Some ''userdel must use -r''
        else if \<not> is_safe_user usr then Some ''Invalid username'' else None
      | _ \<Rightarrow> Some ''userdel argument mismatch'')"

definition validate_systemctl :: "string list \<Rightarrow> string option" where
  "validate_systemctl args =
     (case args of
        [a] \<Rightarrow> if a = ''daemon-reload'' then None else Some ''systemctl args not allowed''
      | [a, b, service] \<Rightarrow>
          if (a = ''enable'' \<or> a = ''disable'') \<and> b = ''--now'' then
            (if user_between ''openclaw-gateway@'' ''.service'' service then None else Some ''systemctl service name not allowed'')
          else Some ''systemctl args not allowed''
      | _ \<Rightarrow> Some ''systemctl args not allowed'')"

definition validate_command :: "daemon_config \<Rightarrow> string \<Rightarrow> string list \<Rightarrow> string option" where
  "validate_command cfg command args =
     (let cmd = base_name command in
      if command = [] then Some ''Invalid command payload''
      else if cmd = ''useradd'' then validate_useradd args
      else if cmd = ''install'' then validate_install cfg args
      else if cmd = ''cp'' then validate_cp cfg args
      else if cmd = ''chown'' then validate_chown cfg args
      else if cmd = ''rm'' then validate_rm cfg args
      else if cmd = ''userdel'' then validate_userdel args
      else if cmd = ''true'' then (if args \<noteq> [] then Some ''true takes no args'' else None)
      else if cmd = ''systemctl'' then validate_systemctl args
      else Some (''Command not allowlisted: '' @ command))"

section \<open>Running a command\<close>

text \<open>How a child process ends: its exit code (\<open>None\<close> after a signal), the kill at the timeout, or
  a failure to start it.\<close>

datatype process_end = Exited "int option" string string | Overran string string | Spawn_Failed string

text \<open>Command, arguments, milliseconds until it is killed, number of the attempt.\<close>

type_synonym spawner = "string \<Rightarrow> string list \<Rightarrow> int \<Rightarrow> nat \<Rightarrow> process_end"

record run_result =
  rr_ok :: bool
  rr_code :: "int option"
  rr_stdout :: string
  rr_stderr :: string

text \<open>A timer that is set to more than 31 bits fires after one millisecond.\<close>

definition kill_after :: "rat option \<Rightarrow> int" where
  "kill_after timeout_ms =
     (let t = max 1000 (case timeout_ms of None \<Rightarrow> 10000 | Some q \<Rightarrow> if q = 0 then 10000 else q)
      in if 2147483647 < t then 1 else \<lfloor>t\<rfloor>)"

definition run_child :: "spawner \<Rightarrow> string \<Rightarrow> string list \<Rightarrow> rat option \<Rightarrow> nat \<Rightarrow> run_result" where
  "run_child spawn command args timeout_ms attempt =
     (case spawn command args (kill_after timeout_ms) attempt of
        Exited code out err \<Rightarrow> \<lparr>rr_ok = (code = Some 0), rr_code = code, rr_stdout = out, rr_stderr = err\<rparr>
      | Overran out err \<Rightarrow>
          \<lparr>rr_ok = False, rr_code = Some 124, rr_stdout = out, rr_stderr = err @ [CHR 0x0A] @ ''Timed out''\<rparr>
      | Spawn_Failed m \<Rightarrow> \<lparr>rr_ok = False, rr_code = Some 1, rr_stdout = [], rr_stderr = CHR 0x0A # m\<rparr>)"

definition transient_lock :: "string \<Rightarrow> run_result \<Rightarrow> bool" where
  "transient_lock command res =
     (base_name command = ''useradd'' \<and> js_includes ''cannot lock /etc/passwd'' (js_lower (rr_stderr res)))"

text \<open>The attempts from one on, at most so many; how many were made, and the last result.\<close>

fun run_attempts ::
  "spawner \<Rightarrow> string \<Rightarrow> string list \<Rightarrow> rat option \<Rightarrow> nat \<Rightarrow> nat \<Rightarrow> nat \<times> run_result" where
  "run_attempts spawn command args timeout_ms attempt 0 =
     (0, \<lparr>rr_ok = False, rr_code = Some 1, rr_stdout = [], rr_stderr = ''Unknown execution failure''\<rparr>)"
| "run_attempts spawn command args timeout_ms attempt (Suc left) =
     (let res = run_child spawn command args timeout_ms attempt in
      if rr_ok res \<or> \<not> transient_lock command res \<or> left = 0 then (1, res)
      else (case run_attempts spawn command args timeout_ms (Suc attempt) left of (n, final) \<Rightarrow> (Suc n, final)))"

definition run_with_retry :: "spawner \<Rightarrow> string \<Rightarrow> string list \<Rightarrow> rat option \<Rightarrow> nat \<times> run_result" where
  "run_with_retry spawn command args timeout_ms =
     run_attempts spawn command args timeout_ms 1 (if base_name command = ''useradd'' then 6 else 1)"

section \<open>Serving a connection\<close>

definition refused :: "string \<Rightarrow> json" where
  "refused m = JObj [(''ok'', JBool False), (''error'', JStr m)]"

definition run_answer :: "string \<Rightarrow> run_result \<Rightarrow> json" where
  "run_answer command res =
     (let shown = [(''code'', JOptInt (rr_code res)), (''stdout'', JStr (rr_stdout res)), (''stderr'', JStr (rr_stderr res))]
      in if rr_ok res then JObj ((''ok'', JBool True) # shown @ [(''skipped'', JBool False)])
         else JObj ((''ok'', JBool False) # shown @ [(''error'', JStr (''Command failed: '' @ command))]))"

text \<open>\<open>String(v || '')\<close> and \<open>Number(v || 10000)\<close>.\<close>

definition text_or_empty :: "json option \<Rightarrow> string" where
  "text_or_empty v = (case truthy_data v of None \<Rightarrow> [] | Some j \<Rightarrow> js_string j)"

definition number_or :: "rat \<Rightarrow> json option \<Rightarrow> rat option" where
  "number_or d v = (case truthy_data v of None \<Rightarrow> Some d | Some j \<Rightarrow> number_of j)"

definition request_args :: "json option \<Rightarrow> string list" where
  "request_args v = (case v of Some (JArr xs) \<Rightarrow> map js_string xs | _ \<Rightarrow> [])"

text \<open>One line: the command it starts, as often as it is tried, and the answer.\<close>

definition serve_line :: "daemon_config \<Rightarrow> spawner \<Rightarrow> string \<Rightarrow> (string \<times> string list) list \<times> json" where
  "serve_line cfg spawn line =
     (case parse_json line of None \<Rightarrow> ([], refused ''Invalid JSON'')
      | Some req \<Rightarrow>
        if jget req ''token'' \<noteq> Some (JStr (dc_token cfg)) then ([], refused ''Unauthorized'')
        else (let command = text_or_empty (jget req ''command''); args = request_args (jget req ''args'') in
          case validate_command cfg command args of Some m \<Rightarrow> ([], refused m)
          | None \<Rightarrow>
              if jtruthy_opt (jget req ''dryRun'') then
                ([], JObj [(''ok'', JBool True), (''code'', JInt 0), (''stdout'', JStr []), (''stderr'', JStr []), (''skipped'', JBool True)])
              else (case run_with_retry spawn command args (number_or 10000 (jget req ''timeoutMs'')) of
                (n, res) \<Rightarrow> (replicate n (command, args), run_answer command res))))"

record connection =
  cn_buffer :: string
  cn_ended :: bool

datatype served_data = Waiting | Wrote string | Daemon_Down

text \<open>A chunk completes at most one line. Writing after the end of the stream is an error event
  that nothing listens to: it takes the daemon down.\<close>

definition on_data ::
  "daemon_config \<Rightarrow> spawner \<Rightarrow> string \<Rightarrow> connection \<Rightarrow> connection \<times> (string \<times> string list) list \<times> served_data" where
  "on_data cfg spawn chunk cn =
     (let buf = cn_buffer cn @ chunk; line = takeWhile (\<lambda>c. c \<noteq> CHR 0x0A) buf in
      if CHR 0x0A \<notin> set buf then (cn\<lparr>cn_buffer := buf\<rparr>, [], Waiting)
      else (case serve_line cfg spawn line of (started, answer) \<Rightarrow>
        (\<lparr>cn_buffer = drop (Suc (length line)) buf, cn_ended = True\<rparr>, started,
         if cn_ended cn then Daemon_Down else Wrote (json_text answer @ [CHR 0x0A]))))"

fun on_chunks ::
  "daemon_config \<Rightarrow> spawner \<Rightarrow> string list \<Rightarrow> connection \<Rightarrow> (string \<times> string list) list \<times> string" where
  "on_chunks cfg spawn [] cn = ([], [])"
| "on_chunks cfg spawn (c # cs) cn =
     (case on_data cfg spawn c cn of (cn', started, x) \<Rightarrow>
        (case x of
           Daemon_Down \<Rightarrow> (started, [])
         | Waiting \<Rightarrow> on_chunks cfg spawn cs cn'
         | Wrote t \<Rightarrow> (case on_chunks cfg spawn cs cn' of (later, out) \<Rightarrow> (started @ later, t @ out))))"

section \<open>The client's end of the socket\<close>

text \<open>What the client sees: data with a line end, an error, the end of the connection (after some
  data without a line end), or nothing until its timer fires.\<close>

datatype socket_end = Sock_Data string | Sock_Error string | Sock_Closed string | Sock_Late

definition request_json :: "string \<Rightarrow> string \<Rightarrow> string list \<Rightarrow> int \<Rightarrow> bool \<Rightarrow> string \<Rightarrow> json" where
  "request_json token command args timeout dry key = JObj
     [(''token'', JStr token), (''command'', JStr command), (''args'', JArr (map JStr args)),
      (''timeoutMs'', JInt timeout), (''dryRun'', JBool dry), (''stepKey'', JStr key)]"

text \<open>\<open>None\<close> is a promise that is never settled: the end of the connection only stops the timer.\<close>

definition call_provisioner :: "(string \<Rightarrow> socket_end) \<Rightarrow> json \<Rightarrow> (string + json) option" where
  "call_provisioner socket payload =
     (case socket (json_text payload @ [CHR 0x0A]) of
        Sock_Data raw \<Rightarrow> (case parse_json (takeWhile (\<lambda>c. c \<noteq> CHR 0x0A) raw) of
            None \<Rightarrow> Some (Inl ''Invalid provisioner response'') | Some j \<Rightarrow> Some (Inr j))
      | Sock_Error m \<Rightarrow> Some (Inl (''Provisioner socket error: '' @ m))
      | Sock_Closed raw \<Rightarrow> if raw = [] then None else Some (Inl ''Provisioner socket timeout'')
      | Sock_Late \<Rightarrow> Some (Inl ''Provisioner socket timeout''))"

definition string_member :: "json \<Rightarrow> string \<Rightarrow> string option" where
  "string_member j k = (case jget j k of Some (JStr s) \<Rightarrow> Some s | _ \<Rightarrow> None)"

definition daemon_response_of :: "json \<Rightarrow> daemon_response" where
  "daemon_response_of j =
     \<lparr>rsp_ok = jtruthy_opt (jget j ''ok''),
      rsp_code = (case jget j ''code'' of Some (JNum q) \<Rightarrow> row_id q | _ \<Rightarrow> None),
      rsp_stdout = string_member j ''stdout'', rsp_stderr = string_member j ''stderr'',
      rsp_skipped = jtruthy_opt (jget j ''skipped''), rsp_error = string_member j ''error''\<rparr>"

text \<open>The daemon behind the socket, given how the text is cut in chunks on its way.\<close>

definition daemon_socket :: "daemon_config \<Rightarrow> spawner \<Rightarrow> (string \<Rightarrow> string list) \<Rightarrow> string \<Rightarrow> socket_end" where
  "daemon_socket cfg spawn chunks sent =
     (let out = snd (on_chunks cfg spawn (chunks sent) \<lparr>cn_buffer = [], cn_ended = False\<rparr>)
      in if out = [] then Sock_Late else Sock_Data out)"

end
