(* ===== verification/Path_Facts.thy ===== *)
theory Path_Facts
  imports Paths Provisioning Js_Text_Facts
begin

text \<open>
  The text of a path and its segments: a path made of plain segments is split into them, and the
  joins of \<open>path\<close> append plain segments to it.
\<close>

lemma slashes: "concat (map ((@) ''/'') us) = concat (map ((#) (CHR ''/'')) us)"
  by (induction us) auto

lemma path_text_append: "ss \<noteq> [] \<Longrightarrow> path_text (ss @ us) = path_text ss @ concat (map (\<lambda>s. path_sep # s) us)"
  by (simp add: path_text_def)

lemma split_parts_of: "c \<notin> set s \<Longrightarrow> list_all (\<lambda>s. c \<notin> set s) ss \<Longrightarrow>
    split_on c (s @ concat (map (\<lambda>s. c # s) ss)) = s # ss"
  by (induction ss arbitrary: s) (simp_all add: split_on_whole split_on_here)

lemma split_path_text: "ss \<noteq> [] \<Longrightarrow> list_all plain ss \<Longrightarrow> split_on path_sep (path_text ss) = [] # ss"
  using split_parts_of [of path_sep "[]" ss] by (simp add: path_text_def plain_def list_all_iff)

lemma norm_plain: "list_all plain ss \<Longrightarrow> norm_segments ab acc ss = rev acc @ ss"
  by (induction ss arbitrary: acc) (simp_all add: plain_def)

lemma path_text_last: "list_all plain (ss @ [x]) \<Longrightarrow> last (path_text (ss @ [x])) \<noteq> path_sep"
  by (auto simp: path_text_def plain_def dest: last_in_set)

lemma path_text_ends:
  assumes "ss \<noteq> []" "list_all plain ss"
  shows "path_text ss \<noteq> [] \<and> hd (path_text ss) = path_sep \<and> last (path_text ss) \<noteq> path_sep"
proof -
  obtain ys x where "ss = ys @ [x]" using assms(1) by (cases ss rule: rev_cases) auto
  then have "last (path_text ss) \<noteq> path_sep" using path_text_last [of ys x] assms(2) by simp
  then show ?thesis using assms(1) by (cases ss) (auto simp: path_text_def)
qed

lemma strip_kept: "p = [] \<or> last p \<noteq> path_sep \<Longrightarrow> strip_slashes p = p"
  by (cases p rule: rev_cases) (simp_all add: strip_slashes_def path_sep_def)

lemma plain_last: "plain s \<Longrightarrow> last s \<noteq> path_sep"
  unfolding plain_def by (metis last_in_set)

lemma path_normalize_text:
  assumes "ss \<noteq> []" "list_all plain ss"
  shows "path_normalize (path_text ss) = path_text ss"
proof -
  note ends = path_text_ends [OF assms]
  have "starts_with ''/'' (path_text ss)"
    using ends by (cases "path_text ss") (auto simp: path_sep_def)
  moreover have "\<not> ends_with ''/'' (path_text ss)"
    using ends by (auto simp: ends_with_iff path_sep_def)
  moreover have "norm_segments True [] (split_on (CHR ''/'') (path_text ss)) = ss"
    using split_path_text [OF assms] norm_plain [OF assms(2), of True "[]"] by (simp add: path_sep_def)
  moreover have "join_with ''/'' ss \<noteq> [] \<and> ''/'' @ join_with ''/'' ss = path_text ss"
    using assms by (cases ss) (auto simp: join_with_def path_text_def path_sep_def plain_def slashes)
  ultimately show ?thesis by (simp add: path_normalize_def Let_def)
qed

lemma path_join_text:
  assumes "ss \<noteq> []" "list_all plain ss" "list_all plain us"
  shows "path_join (path_text ss # us) = path_text (ss @ us)"
proof -
  have us: "filter (\<lambda>p. p \<noteq> []) us = us" using assms(3) by (induction us) (auto simp: plain_def)
  have "join_with ''/'' (filter (\<lambda>p. p \<noteq> []) (path_text ss # us)) = path_text (ss @ us)"
    using path_text_ends [OF assms(1,2)] us assms(1) by (simp add: join_with_def path_text_append path_sep_def slashes)
  moreover have "path_text (ss @ us) \<noteq> []" using path_text_ends [of "ss @ us"] assms by simp
  ultimately show ?thesis
    using path_normalize_text [of "ss @ us"] assms by (simp add: path_join_def Let_def)
qed

lemma segments_text: "list_all plain ss \<Longrightarrow> segments (path_text ss) = ss"
proof (cases "ss = []")
  case False
  assume ss: "list_all plain ss"
  have "walk acc us = rev acc @ us" if "list_all plain us" for acc us
    using that by (induction us arbitrary: acc) (simp_all add: plain_def)
  then show ?thesis using split_path_text [OF False ss] ss by (simp add: segments_def)
qed (simp add: segments_def path_text_def path_sep_def)

end
