(* ===== verification/Daemon_Rules.thy ===== *)
theory Daemon_Rules
  imports Daemon Json_Round_Trip Path_Facts Provisioning_Jobs
begin

text \<open>
  What the provisioner daemon lets through, as a list of operations on users, directories,
  files and services; that nothing else is ever started; and that it accepts every step of
  the plans the server makes, end to end through the socket.
\<close>

section \<open>The operations that are allowed\<close>

datatype root_op =
    Add_User string
  | Make_Dir string string string
  | Copy_Config string
  | Install_Unit
  | Copy_Env string string
  | Own_Home string string
  | Drop_Env string
  | Drop_Dir string string
  | Delete_User string
  | Do_Nothing
  | Reload_Units
  | Switch_Gateway bool string

definition home_dir :: "daemon_config \<Rightarrow> string \<Rightarrow> string \<Rightarrow> string" where
  "home_dir cfg usr dir = path_join_posix [dc_home_root cfg, usr, dir]"

definition root_prefix :: "daemon_config \<Rightarrow> string" where
  "root_prefix cfg = path_join_posix [dc_home_root cfg] @ ''/''"

definition env_source :: "daemon_config \<Rightarrow> string \<Rightarrow> string" where
  "env_source cfg slug = (path_join [dc_data_dir cfg, ''provisioner''] @ ''/'') @ slug @ ''/openclaw-gateway.env''"

fun op_command :: "daemon_config \<Rightarrow> root_op \<Rightarrow> string \<times> string list" where
  "op_command cfg (Add_User u) = (''useradd'', [''-m'', ''-s'', ''/bin/bash'', u])"
| "op_command cfg (Make_Dir mode owner dir) = (''install'', [''-d'', ''-m'', mode, ''-o'', owner, ''-g'', owner, dir])"
| "op_command cfg (Copy_Config u) = (''cp'', [''-n'', dc_template cfg, root_prefix cfg @ u @ ''/.openclaw/openclaw.json''])"
| "op_command cfg Install_Unit = (''cp'', [''-n'', dc_gateway_template cfg, ''/etc/systemd/system/openclaw-gateway@.service''])"
| "op_command cfg (Copy_Env slug u) = (''cp'', [''-f'', env_source cfg slug, ''/etc/openclaw-tenants/'' @ u @ ''.env''])"
| "op_command cfg (Own_Home u rest) = (''chown'', [''-R'', u @ '':'' @ u @ rest, path_join_posix [dc_home_root cfg, u]])"
| "op_command cfg (Drop_Env u) = (''rm'', [''-f'', ''/etc/openclaw-tenants/'' @ u @ ''.env''])"
| "op_command cfg (Drop_Dir u dir) = (''rm'', [''-rf'', root_prefix cfg @ u @ ''/'' @ dir])"
| "op_command cfg (Delete_User u) = (''userdel'', [''-r'', u])"
| "op_command cfg Do_Nothing = (''true'', [])"
| "op_command cfg Reload_Units = (''systemctl'', [''daemon-reload''])"
| "op_command cfg (Switch_Gateway on u) =
     (''systemctl'', [if on then ''enable'' else ''disable'', ''--now'', ''openclaw-gateway@'' @ u @ ''.service''])"

fun op_ok :: "daemon_config \<Rightarrow> root_op \<Rightarrow> bool" where
  "op_ok cfg (Add_User u) = is_safe_user u"
| "op_ok cfg (Make_Dir mode owner dir) =
     (mode \<in> {''0750'', ''0700''} \<and> (owner = ''root'' \<or> is_safe_user owner) \<and>
      (dir \<in> {home_dir cfg owner ''.openclaw'', home_dir cfg owner (dc_workspace cfg)} \<or>
       owner = ''root'' \<and> dir = ''/etc/openclaw-tenants''))"
| "op_ok cfg (Copy_Config u) = (is_safe_user u \<and> dc_template cfg \<noteq> [])"
| "op_ok cfg Install_Unit = (dc_gateway_template cfg \<noteq> dc_template cfg \<or> dc_template cfg = [])"
| "op_ok cfg (Copy_Env slug u) =
     (slug_text slug \<and> is_safe_user u \<and> env_source cfg slug \<notin> {dc_template cfg, dc_gateway_template cfg})"
| "op_ok cfg (Own_Home u rest) = (is_safe_user u \<and> (rest = [] \<or> hd rest = CHR '':''))"
| "op_ok cfg (Drop_Env u) = is_safe_user u"
| "op_ok cfg (Drop_Dir u dir) = (is_safe_user u \<and> dir \<in> {''.openclaw'', dc_workspace cfg})"
| "op_ok cfg (Delete_User u) = is_safe_user u"
| "op_ok cfg Do_Nothing = True"
| "op_ok cfg Reload_Units = True"
| "op_ok cfg (Switch_Gateway on u) = is_safe_user u"

section \<open>The checks admit exactly these\<close>

lemma between_iff: "between pre post s = Some m \<longleftrightarrow> s = pre @ m @ post"
proof
  assume a: "between pre post s = Some m"
  let ?n = "length s - length pre - length post"
  have "starts_with pre s" "ends_with post s" using a by (auto simp: between_def split: if_splits)
  then obtain r r' where r: "s = pre @ r" "s = r' @ post" unfolding starts_with_iff ends_with_iff by blast
  have "take (length pre) s = pre" using r(1) by simp
  then have "pre @ drop (length pre) s = s" by (metis append_take_drop_id)
  moreover have "drop (length s - length post) s = post" using r(2) by simp
  moreover have "length s - length post = ?n + length pre" "m = take ?n (drop (length pre) s)"
    using a by (auto simp: between_def split: if_splits)
  ultimately show "s = pre @ m @ post" by (metis append_take_drop_id drop_drop)
qed (auto simp: between_def starts_with_iff ends_with_iff)

lemma between_ex: "(\<exists>m. P m \<and> s = pre @ m @ post) \<longleftrightarrow> (case between pre post s of None \<Rightarrow> False | Some m \<Rightarrow> P m)"
proof (cases "between pre post s")
  case None
  then have "s \<noteq> pre @ m @ post" for m using between_iff [of pre post s m] by simp
  then show ?thesis using None by simp
next
  case (Some m)
  then have "s = pre @ m @ post" using between_iff by simp
  then show ?thesis using Some by auto
qed

lemma user_between_iff: "user_between pre post s \<longleftrightarrow> (\<exists>u. is_safe_user u \<and> s = pre @ u @ post)"
  by (simp add: user_between_def between_ex)

lemma provisioner_env_iff: "provisioner_env cfg s \<longleftrightarrow> (\<exists>slug. slug_text slug \<and> s = env_source cfg slug)"
  unfolding env_source_def provisioner_env_def between_ex ..

lemma args_iff:
  "validate_useradd args = None \<longleftrightarrow> (\<exists>u. is_safe_user u \<and> args = [''-m'', ''-s'', ''/bin/bash'', u])"
  "validate_userdel args = None \<longleftrightarrow> (\<exists>u. is_safe_user u \<and> args = [''-r'', u])"
  by (auto simp: validate_useradd_def validate_userdel_def split: list.splits)

lemma install_iff:
  "validate_install cfg args = None \<longleftrightarrow> (\<exists>mode owner dir. op_ok cfg (Make_Dir mode owner dir) \<and>
     args = [''-d'', ''-m'', mode, ''-o'', owner, ''-g'', owner, dir])"
proof (cases "\<exists>d m mode o' a g b t. args = [d, m, mode, o', a, g, b, t]")
  case True
  then obtain d m mode o' a g b t where args: "args = [d, m, mode, o', a, g, b, t]" by blast
  have one: "(\<exists>mode' owner dir. Q mode' owner dir \<and> args = [''-d'', ''-m'', mode', ''-o'', owner, ''-g'', owner, dir]) \<longleftrightarrow>
      d = ''-d'' \<and> m = ''-m'' \<and> o' = ''-o'' \<and> g = ''-g'' \<and> a = b \<and> Q mode a t" for Q
    using args by auto
  have checks: "(if c then Some x else y) = None \<longleftrightarrow> \<not> c \<and> y = None" "(if c then None else y) = None \<longleftrightarrow> c \<or> y = None"
    for c y and x :: string by simp_all
  show ?thesis unfolding one op_ok.simps validate_install_def args list.case Let_def checks home_dir_def by blast
next
  case False
  then show ?thesis by (auto simp: validate_install_def split: list.splits)
qed

lemma ex_root_op:
  "(\<exists>x. P x) \<longleftrightarrow> (\<exists>u. P (Add_User u)) \<or> (\<exists>mode owner dir. P (Make_Dir mode owner dir)) \<or> (\<exists>u. P (Copy_Config u)) \<or>
     P Install_Unit \<or> (\<exists>slug u. P (Copy_Env slug u)) \<or> (\<exists>u rest. P (Own_Home u rest)) \<or> (\<exists>u. P (Drop_Env u)) \<or>
     (\<exists>u dir. P (Drop_Dir u dir)) \<or> (\<exists>u. P (Delete_User u)) \<or> P Do_Nothing \<or> P Reload_Units \<or>
     (\<exists>on u. P (Switch_Gateway on u))" (is "_ \<longleftrightarrow> ?R")
proof
  assume "\<exists>x. P x"
  then obtain x where "P x" by blast
  then show ?R by (cases x) auto
qed blast

lemma cp_iff:
  "validate_cp cfg args = None \<longleftrightarrow> (\<exists>flag source target. args = [flag, source, target] \<and>
     ((\<exists>u. is_safe_user u \<and> dc_template cfg \<noteq> [] \<and> flag = ''-n'' \<and> source = dc_template cfg \<and>
           target = root_prefix cfg @ u @ ''/.openclaw/openclaw.json'') \<or>
      (op_ok cfg Install_Unit \<and> flag = ''-n'' \<and> source = dc_gateway_template cfg \<and>
           target = ''/etc/systemd/system/openclaw-gateway@.service'') \<or>
      (\<exists>slug u. op_ok cfg (Copy_Env slug u) \<and> flag = ''-f'' \<and> source = env_source cfg slug \<and>
           target = ''/etc/openclaw-tenants/'' @ u @ ''.env'')))"
proof (cases "\<exists>flag source target. args = [flag, source, target]")
  case True
  then obtain flag source target where a: "args = [flag, source, target]" by blast
  have env: "env_source cfg slug \<noteq> []" for slug by (simp add: env_source_def)
  consider "source = dc_template cfg" "dc_template cfg \<noteq> []"
    | "source \<noteq> dc_template cfg \<or> dc_template cfg = []" "source = dc_gateway_template cfg"
    | "source \<noteq> dc_template cfg \<or> dc_template cfg = []" "source \<noteq> dc_gateway_template cfg" by blast
  then show ?thesis
  proof cases
    case 1
    then show ?thesis
      by (simp add: validate_cp_def a user_between_iff root_prefix_def)
  next
    case 2
    then have "\<not> (dc_template cfg \<noteq> [] \<and> source = dc_template cfg)" by blast
    then show ?thesis using 2 env
      by (simp add: validate_cp_def a) metis
  next
    case 3
    have one: "(\<exists>f s t. args = [f, s, t] \<and> Q f s t) \<longleftrightarrow> Q flag source target" for Q using a by auto
    have "source = env_source cfg slug \<Longrightarrow> env_source cfg slug \<notin> {dc_template cfg, dc_gateway_template cfg}" for slug
      using 3 env [of slug] by auto
    then have "(\<exists>slug u. op_ok cfg (Copy_Env slug u) \<and> flag = ''-f'' \<and> source = env_source cfg slug \<and>
           target = ''/etc/openclaw-tenants/'' @ u @ ''.env'') \<longleftrightarrow>
        flag = ''-f'' \<and> provisioner_env cfg source \<and> tenants_env target"
      unfolding provisioner_env_iff tenants_env_def user_between_iff op_ok.simps by blast
    then show ?thesis unfolding one using 3 by (auto simp: validate_cp_def a)
  qed
next
  case False
  moreover have "validate_cp cfg args = None \<Longrightarrow> \<exists>flag source target. args = [flag, source, target]"
    by (simp add: validate_cp_def split: list.splits)
  ultimately show ?thesis by blast
qed

lemma user_no_colon: "is_safe_user u \<Longrightarrow> CHR '':'' \<notin> set u"
  by (auto simp: is_safe_user_def is_valid_linux_user_def list_all_iff lower_or_digit_def Let_def)

lemma split_head: "\<exists>r. s = hd (split_on c s) @ r \<and> c \<notin> set (hd (split_on c s)) \<and>
    (tl (split_on c s) = [] \<and> r = [] \<or> (\<exists>t. r = c # t \<and> tl (split_on c s) = split_on c t))"
proof (induction s)
  case (Cons a s)
  then show ?case by (cases "split_on c s") auto
qed simp

lemma owner_parts:
  "(let parts = split_on (CHR '':'') owner; u = hd parts in is_safe_user u \<and> tl parts \<noteq> [] \<and> u = hd (tl parts) \<and> P u) \<longleftrightarrow>
   (\<exists>u rest. op_ok cfg (Own_Home u rest) \<and> owner = u @ '':'' @ u @ rest \<and> P u)"
proof
  assume a: "let parts = split_on (CHR '':'') owner; u = hd parts in is_safe_user u \<and> tl parts \<noteq> [] \<and> u = hd (tl parts) \<and> P u"
  define u where "u = hd (split_on (CHR '':'') owner)"
  have u: "is_safe_user u" "tl (split_on (CHR '':'') owner) \<noteq> []" "u = hd (tl (split_on (CHR '':'') owner))" "P u"
    using a unfolding Let_def u_def by blast+
  obtain t where t: "owner = u @ CHR '':'' # t" "tl (split_on (CHR '':'') owner) = split_on (CHR '':'') t"
    using split_head [of owner "CHR '':''"] u(2) unfolding u_def by blast
  obtain r where r: "t = hd (split_on (CHR '':'') t) @ r" "r = [] \<or> hd r = CHR '':''"
    using split_head [of t "CHR '':''"] by (metis list.sel(1))
  have "u = hd (split_on (CHR '':'') t)" using u(3) t(2) by simp
  then show "\<exists>u rest. op_ok cfg (Own_Home u rest) \<and> owner = u @ '':'' @ u @ rest \<and> P u"
    using t(1) r u(1,4) by (intro exI [of _ u] exI [of _ r]) simp
next
  assume "\<exists>u rest. op_ok cfg (Own_Home u rest) \<and> owner = u @ '':'' @ u @ rest \<and> P u"
  then obtain u rest where u: "op_ok cfg (Own_Home u rest)" "owner = u @ '':'' @ u @ rest" "P u" by blast
  then have no: "CHR '':'' \<notin> set u" using user_no_colon by simp
  have "split_on (CHR '':'') (u @ rest) \<noteq> [] \<and> hd (split_on (CHR '':'') (u @ rest)) = u"
    using u(1) split_on_here [OF no] split_on_whole [OF no] by (cases rest) auto
  then show "let parts = split_on (CHR '':'') owner; u = hd parts in is_safe_user u \<and> tl parts \<noteq> [] \<and> u = hd (tl parts) \<and> P u"
    using u split_on_here [OF no] by (simp add: Let_def)
qed

lemma chown_iff:
  "validate_chown cfg args = None \<longleftrightarrow> (\<exists>u rest. op_ok cfg (Own_Home u rest) \<and> (''chown'', args) = op_command cfg (Own_Home u rest))"
proof (cases "\<exists>flag owner target. args = [flag, owner, target]")
  case True
  then obtain flag owner target where a: "args = [flag, owner, target]" by blast
  show ?thesis
    using owner_parts [of owner "\<lambda>u. target = path_join_posix [dc_home_root cfg, u]" cfg]
    by (auto simp: validate_chown_def a Let_def)
next
  case False
  then show ?thesis by (auto simp: validate_chown_def split: list.splits)
qed

lemma rm_iff:
  "validate_rm cfg args = None \<longleftrightarrow> (\<exists>flag target. args = [flag, target] \<and>
     (flag = ''-f'' \<and> (\<exists>u. is_safe_user u \<and> target = ''/etc/openclaw-tenants/'' @ u @ ''.env'') \<or>
      flag = ''-rf'' \<and> (\<exists>u dir. op_ok cfg (Drop_Dir u dir) \<and> target = root_prefix cfg @ u @ ''/'' @ dir)))"
proof (cases "\<exists>flag target. args = [flag, target]")
  case True
  then obtain flag target where a: "args = [flag, target]" by blast
  have dirs: "(\<exists>u dir. op_ok cfg (Drop_Dir u dir) \<and> target = root_prefix cfg @ u @ ''/'' @ dir) \<longleftrightarrow>
      user_between (root_prefix cfg) ''/.openclaw'' target \<or> user_between (root_prefix cfg) (''/'' @ dc_workspace cfg) target"
    unfolding user_between_iff op_ok.simps by auto
  have pair: "(\<exists>f t. args = [f, t] \<and> Q f t) \<longleftrightarrow> Q flag target" for Q using a by auto
  show ?thesis
    unfolding pair unfolding a validate_rm_def list.case Let_def root_prefix_def [symmetric] dirs tenants_env_def user_between_iff [symmetric]
    by simp
next
  case False
  then show ?thesis by (auto simp: validate_rm_def split: list.splits)
qed

lemma systemctl_iff:
  "validate_systemctl args = None \<longleftrightarrow> args = [''daemon-reload''] \<or>
     (\<exists>on u. is_safe_user u \<and>
       args = [if on then ''enable'' else ''disable'', ''--now'', ''openclaw-gateway@'' @ u @ ''.service''])"
proof (cases "\<exists>a b service. args = [a, b, service]")
  case True
  then obtain a b service where a: "args = [a, b, service]" by blast
  have ex: "(\<exists>on. Q on) \<longleftrightarrow> Q True \<or> Q False" for Q by (metis (full_types))
  show ?thesis unfolding ex by (auto simp: validate_systemctl_def a user_between_iff)
next
  case False
  then show ?thesis by (auto simp: validate_systemctl_def split: list.splits)
qed

lemmas validate_iffs = args_iff install_iff cp_iff chown_iff rm_iff systemctl_iff

text \<open>\<open>validateCommand\<close> accepts a command exactly if it is an allowed operation, under any path.\<close>

lemma validate_command_iff:
  "validate_command cfg command args = None \<longleftrightarrow>
   command \<noteq> [] \<and> (\<exists>x. op_ok cfg x \<and> (base_name command, args) = op_command cfg x)"
proof -
  consider "base_name command = ''useradd''" | "base_name command = ''install''" | "base_name command = ''cp''"
    | "base_name command = ''chown''" | "base_name command = ''rm''" | "base_name command = ''userdel''"
    | "base_name command = ''true''" | "base_name command = ''systemctl''"
    | "base_name command \<notin> {''useradd'', ''install'', ''cp'', ''chown'', ''rm'', ''userdel'', ''true'', ''systemctl''}"
    by blast
  then show ?thesis
    by cases (simp_all add: validate_command_def Let_def ex_root_op validate_iffs del: ex_simps, auto)
qed

section \<open>What a connection can start\<close>

lemma serve_line_started:
  assumes "x \<in> set (fst (serve_line cfg spawn line))"
  shows "\<exists>req. parse_json line = Some req \<and> jget req ''token'' = Some (JStr (dc_token cfg)) \<and>
    \<not> jtruthy_opt (jget req ''dryRun'') \<and> validate_command cfg (fst x) (snd x) = None"
  using assms by (auto simp: serve_line_def Let_def split: option.splits if_splits prod.splits)

lemma on_data_started:
  assumes "x \<in> set (fst (snd (on_data cfg spawn chunk cn)))"
  shows "\<exists>line rest. cn_buffer cn @ chunk = line @ rest \<and> x \<in> set (fst (serve_line cfg spawn line))"
proof -
  let ?line = "takeWhile (\<lambda>c. c \<noteq> CHR 0x0A) (cn_buffer cn @ chunk)"
  have "x \<in> set (fst (serve_line cfg spawn ?line))"
    using assms by (simp add: on_data_def Let_def split: if_splits prod.splits)
  then show ?thesis by (metis takeWhile_dropWhile_id)
qed

lemma on_data_buffer: "\<exists>read. cn_buffer cn @ chunk = read @ cn_buffer (fst (on_data cfg spawn chunk cn))"
proof (cases "CHR 0x0A \<in> set (cn_buffer cn @ chunk)")
  case True
  let ?buf = "cn_buffer cn @ chunk"
  have "cn_buffer (fst (on_data cfg spawn chunk cn)) = drop (Suc (length (takeWhile (\<lambda>c. c \<noteq> CHR 0x0A) ?buf))) ?buf"
    using True by (simp add: on_data_def Let_def case_prod_unfold del: takeWhile_append)
  then show ?thesis by (metis append_take_drop_id)
next
  case False
  then show ?thesis by (simp add: on_data_def)
qed

lemma on_chunks_started:
  assumes "x \<in> set (fst (on_chunks cfg spawn cs cn))"
  shows "\<exists>pre line post. cn_buffer cn @ concat cs = pre @ line @ post \<and> x \<in> set (fst (serve_line cfg spawn line))"
  using assms
proof (induction cs arbitrary: cn)
  case (Cons c cs)
  obtain cn' st d where d: "on_data cfg spawn c cn = (cn', st, d)" by (cases "on_data cfg spawn c cn") auto
  obtain read where read: "cn_buffer cn @ c = read @ cn_buffer cn'"
    using on_data_buffer [of cn c cfg spawn] d by auto
  consider "x \<in> set st" | "x \<in> set (fst (on_chunks cfg spawn cs cn'))"
    using Cons.prems d by (auto split: served_data.splits prod.splits)
  then show ?case
  proof cases
    case 1
    then obtain line rest where "cn_buffer cn @ c = line @ rest" "x \<in> set (fst (serve_line cfg spawn line))"
      using on_data_started [of x cfg spawn c cn] d by auto
    moreover from this(1) have "cn_buffer cn @ concat (c # cs) = [] @ line @ rest @ concat cs" by simp
    ultimately show ?thesis by blast
  next
    case 2
    then obtain pre line post where "cn_buffer cn' @ concat cs = pre @ line @ post" "x \<in> set (fst (serve_line cfg spawn line))"
      using Cons.IH by blast
    moreover from this(1) have "cn_buffer cn @ concat (c # cs) = (read @ pre) @ line @ post"
      using arg_cong [OF read, of "\<lambda>s. s @ concat cs"] by simp
    ultimately show ?thesis by blast
  qed
qed simp


section \<open>From the client to the daemon and back\<close>

lemma until_first: "c \<notin> set k \<Longrightarrow> takeWhile (\<lambda>x. x \<noteq> c) (k @ c # v) = k"
  by (induction k) auto

lemma first_part: "c \<notin> set k \<Longrightarrow> c \<notin> set k' \<Longrightarrow> k @ c # v = k' @ c # v' \<Longrightarrow> k = k' \<and> v = v'"
  using until_first [of c k v] until_first [of c k' v'] by auto

lemma newline_hex: "n < 16 \<Longrightarrow> CHR 0x0A \<noteq> hex_char n"
proof
  assume "n < 16" "CHR 0x0A = hex_char n"
  then have "hex_val (CHR 0x0A) = Some n" using hex_val_hex_char by simp
  then show False by (simp add: hex_val_def)
qed

lemma newline_escape: "CHR 0x0A \<notin> set (escape_char c)"
proof -
  let ?n = "of_char c :: nat"
  have "?n \<noteq> 10 \<Longrightarrow> c \<noteq> CHR 0x0A" by auto
  moreover have "?n < 32 \<Longrightarrow> ?n div 16 < 16" "?n mod 16 < 16" by linarith+
  ultimately show ?thesis
    using newline_hex [of "?n div 16"] newline_hex [of "?n mod 16"] by (auto simp: escape_char_def Let_def)
qed

lemma newline_string_text: "CHR 0x0A \<notin> set (string_text s)"
  using newline_escape by (auto simp: string_text_def)

lemma newline_number: "CHR 0x0A \<notin> set (show_int i)"
proof
  assume "CHR 0x0A \<in> set (show_int i)"
  then have "number_char (CHR 0x0A)" using show_int_number [of i] by (auto simp: list_all_iff)
  then show False by (simp add: number_char_def digit_val_def)
qed

lemma set_join_with: "set (join_with sep ws) \<subseteq> set sep \<union> (\<Union>w \<in> set ws. set w)"
  by (auto simp: join_with_def split: list.splits)

lemma newline_json_text: "plain_json v \<Longrightarrow> CHR 0x0A \<notin> set (json_text v)"
proof (induction v rule: json_text.induct)
  case (3 q)
  then obtain i where "q = of_int i" by auto
  then show ?case using newline_number by (simp add: number_text_int)
next
  case (5 xs)
  then have "CHR 0x0A \<notin> set (json_text x)" if "x \<in> set xs" for x using that by (auto simp: list_all_iff)
  then show ?case using set_join_with [of "'',''" "map json_text xs"] by auto
next
  case (6 kvs)
  have val: "CHR 0x0A \<notin> set (json_text (snd kv))" if "kv \<in> set kvs" for kv
  proof -
    obtain k v where kv: "kv = (k, v)" by (cases kv)
    then have "plain_json v" using 6(2) that by (auto simp: list_all_iff)
    then show ?thesis using 6(1) [OF that kv [symmetric]] kv by simp
  qed
  have "CHR 0x0A \<notin> set (join_with '','' (map (\<lambda>(k, v). string_text k @ '':'' @ json_text v) kvs))"
  proof
    assume "CHR 0x0A \<in> set (join_with '','' (map (\<lambda>(k, v). string_text k @ '':'' @ json_text v) kvs))"
    then have "CHR 0x0A \<in> set '','' \<union> (\<Union>w \<in> set (map (\<lambda>(k, v). string_text k @ '':'' @ json_text v) kvs). set w)"
      using set_join_with by blast
    then obtain kv where "kv \<in> set kvs" "CHR 0x0A \<in> set (case kv of (k, v) \<Rightarrow> string_text k @ '':'' @ json_text v)"
      by auto
    then show False using val [of kv] newline_string_text by (auto simp: case_prod_unfold)
  qed
  then show ?case by simp
qed (auto simp: newline_string_text)

lemma on_chunks_empty: "concat cs = [] \<Longrightarrow> on_chunks cfg spawn cs \<lparr>cn_buffer = [], cn_ended = b\<rparr> = ([], [])"
  by (induction cs) (simp_all add: on_data_def)

text \<open>However a line is cut on its way, it is served once and answered.\<close>

lemma on_chunks_line:
  assumes "CHR 0x0A \<notin> set line" "buf @ concat cs = line @ [CHR 0x0A]" "CHR 0x0A \<notin> set buf"
  shows "on_chunks cfg spawn cs \<lparr>cn_buffer = buf, cn_ended = False\<rparr> =
    (fst (serve_line cfg spawn line), json_text (snd (serve_line cfg spawn line)) @ [CHR 0x0A])"
  using assms
proof (induction cs arbitrary: buf)
  case Nil
  then show ?case by auto
next
  case (Cons c cs)
  show ?case
  proof (cases "CHR 0x0A \<in> set c")
    case False
    then have "on_data cfg spawn c \<lparr>cn_buffer = buf, cn_ended = False\<rparr> = (\<lparr>cn_buffer = buf @ c, cn_ended = False\<rparr>, [], Waiting)"
      using Cons.prems(3) by (simp add: on_data_def)
    then show ?thesis using Cons False by simp
  next
    case True
    then obtain c1 c2 where c: "c = c1 @ CHR 0x0A # c2" "CHR 0x0A \<notin> set c1" by (meson split_list_first)
    then have eq: "(buf @ c1) @ CHR 0x0A # (c2 @ concat cs) = line @ CHR 0x0A # []" using Cons.prems(2) by simp
    have l: "buf @ c1 = line" "c2 @ concat cs = []"
      using first_part [OF _ Cons.prems(1) eq] Cons.prems(3) c(2) by auto
    have "takeWhile (\<lambda>x. x \<noteq> CHR 0x0A) (buf @ c) = line"
      using until_first [OF Cons.prems(1), of c2] l(1) c(1) by (metis append_assoc)
    moreover have "drop (Suc (length line)) (buf @ c) = []" using l c(1) by auto
    ultimately have "on_data cfg spawn c \<lparr>cn_buffer = buf, cn_ended = False\<rparr> = (\<lparr>cn_buffer = [], cn_ended = True\<rparr>,
        fst (serve_line cfg spawn line), Wrote (json_text (snd (serve_line cfg spawn line)) @ [CHR 0x0A]))"
      using True by (simp add: on_data_def case_prod_unfold)
    then show ?thesis using l(2) on_chunks_empty [of cs] by simp
  qed
qed

lemma plain_run_answer: "plain_json (run_answer command res)"
  by (auto simp: run_answer_def Let_def split: option.split)

lemma plain_served: "plain_json (snd (serve_line cfg spawn line))"
  by (auto simp: serve_line_def Let_def refused_def plain_run_answer split: option.split prod.split)

lemma plain_request: "plain_json (request_json token command args timeout dry key)"
  by (simp add: request_json_def list_all_iff)

lemma daemon_answers:
  assumes "plain_json payload" "concat (chunks (json_text payload @ [CHR 0x0A])) = json_text payload @ [CHR 0x0A]"
  shows "call_provisioner (daemon_socket cfg spawn chunks) payload = Some (Inr (snd (serve_line cfg spawn (json_text payload))))"
proof -
  have "on_chunks cfg spawn (chunks (json_text payload @ [CHR 0x0A])) \<lparr>cn_buffer = [], cn_ended = False\<rparr> =
      (fst (serve_line cfg spawn (json_text payload)), json_text (snd (serve_line cfg spawn (json_text payload))) @ [CHR 0x0A])"
    using newline_json_text [OF assms(1)] assms(2) by (intro on_chunks_line) auto
  moreover have "takeWhile (\<lambda>c. c \<noteq> CHR 0x0A) (json_text a @ [CHR 0x0A]) = json_text a" if "plain_json a" for a
    using until_first [OF newline_json_text [OF that]] by simp
  ultimately show ?thesis
    using parse_json_text [OF plain_served] plain_served by (simp add: call_provisioner_def daemon_socket_def Let_def)
qed

lemma text_or_empty_string [simp]: "text_or_empty (Some (JStr s)) = s"
  by (simp add: text_or_empty_def truthy_data_def jtruthy_opt_def)

lemma request_args_strings [simp]: "request_args (Some (JArr (map JStr args))) = args"
  by (simp add: request_args_def comp_def)

text \<open>The answer to an accepted command: success, unless the command itself fails.\<close>

lemma accepted_answer:
  assumes "validate_command cfg command args = None"
  shows "rsp_ok (daemon_response_of (snd (serve_line cfg spawn (json_text (request_json (dc_token cfg) command args timeout dry key))))) \<longleftrightarrow>
    dry \<or> rr_ok (snd (run_with_retry spawn command args (number_or 10000 (Some (JInt timeout)))))"
proof -
  let ?r = "request_json (dc_token cfg) command args timeout dry key"
  have "jget ?r ''token'' = Some (JStr (dc_token cfg))" "jget ?r ''command'' = Some (JStr command)"
    "jget ?r ''args'' = Some (JArr (map JStr args))" "jget ?r ''timeoutMs'' = Some (JInt timeout)" "jget ?r ''dryRun'' = Some (JBool dry)"
    by (simp_all add: request_json_def)
  then have "snd (serve_line cfg spawn (json_text ?r)) =
      (if dry then JObj [(''ok'', JBool True), (''code'', JInt 0), (''stdout'', JStr []), (''stderr'', JStr []), (''skipped'', JBool True)]
       else run_answer command (snd (run_with_retry spawn command args (number_or 10000 (Some (JInt timeout))))))"
    using assms by (cases dry) (simp_all add: serve_line_def parse_json_text [OF plain_request] jtruthy_opt_def case_prod_unfold)
  then show ?thesis by (simp add: daemon_response_of_def jtruthy_opt_def run_answer_def Let_def)
qed

section \<open>The plans of the server\<close>

text \<open>A path in the form the joins produce.\<close>

definition plain_dir :: "string \<Rightarrow> bool" where
  "plain_dir p \<longleftrightarrow> (\<exists>ss. ss \<noteq> [] \<and> list_all plain ss \<and> p = path_text ss)"

lemma path_join_posix_text:
  assumes "ss \<noteq> []" "list_all plain ss" "list_all plain us"
  shows "path_join_posix (path_text ss # us) = path_text (ss @ us)"
proof -
  have "map strip_slashes us = us"
    using assms(3) by (induction us) (simp_all add: strip_kept plain_last)
  moreover have "strip_slashes (path_text ss) = path_text ss" using path_text_ends [OF assms(1,2)] by (simp add: strip_kept)
  ultimately show ?thesis using path_join_text [OF assms] by (simp add: path_join_posix_def)
qed

lemma plain_dir_join:
  assumes "plain_dir p" "list_all plain us"
  shows "path_join_posix (p # us) = p @ concat (map (\<lambda>s. path_sep # s) us)"
    "path_join (p # us) = p @ concat (map (\<lambda>s. path_sep # s) us)"
  using assms path_join_posix_text [of _ us] path_join_text [of _ us] by (auto simp: plain_dir_def path_text_append)

lemma user_plain: "is_valid_linux_user u \<Longrightarrow> plain u"
  by (auto simp: is_valid_linux_user_def plain_def path_sep_def list_all_iff lower_or_digit_def Let_def)

lemma slug_plain: "is_valid_slug s \<Longrightarrow> plain s \<and> slug_text s"
  by (auto simp: is_valid_slug_def slug_text_def plain_def path_sep_def list_all_iff lower_or_digit_def Let_def)

lemma openclaw_plain [simp]: "plain ''.openclaw''" "plain ''provisioner''"
  by (simp_all add: plain_def path_sep_def)

text \<open>The operations the plans stand for.\<close>

definition bootstrap_ops :: "daemon_config \<Rightarrow> string \<Rightarrow> string \<Rightarrow> root_op list" where
  "bootstrap_ops cfg slug u =
     [Add_User u, Make_Dir ''0750'' u (home_dir cfg u ''.openclaw''), Make_Dir ''0750'' u (home_dir cfg u (dc_workspace cfg)),
      Copy_Config u, Own_Home u [], Make_Dir ''0750'' ''root'' ''/etc/openclaw-tenants'', Install_Unit, Copy_Env slug u,
      Reload_Units, Switch_Gateway True u]"

definition decommission_ops :: "daemon_config \<Rightarrow> string \<Rightarrow> bool \<Rightarrow> bool \<Rightarrow> root_op list" where
  "decommission_ops cfg u remove_user remove_dirs =
     [Switch_Gateway False u, Drop_Env u] @
     (if remove_dirs \<and> \<not> remove_user then [Drop_Dir u ''.openclaw'', Drop_Dir u (dc_workspace cfg)] else []) @
     (if remove_user then [Delete_User u] else [])"

definition asked :: "provision_step \<Rightarrow> string \<times> string list" where
  "asked s = (base_name (hd (ps_command s)), tl (ps_command s))"

text \<open>The two processes agree on the places they name.\<close>

definition agree :: "daemon_config \<Rightarrow> env \<Rightarrow> string \<Rightarrow> string \<Rightarrow> bool" where
  "agree cfg e data_dir cwd \<longleftrightarrow>
     dc_home_root cfg = tenant_home_root e \<and> dc_workspace cfg = tenant_workspace_dirname e \<and>
     dc_template cfg = template_path e \<and> dc_gateway_template cfg = systemd_template_path e cwd \<and> dc_data_dir cfg = data_dir \<and>
     plain_dir (dc_home_root cfg) \<and> plain (dc_workspace cfg) \<and> plain_dir data_dir \<and> dc_template cfg \<noteq> [] \<and>
     dc_gateway_template cfg \<noteq> dc_template cfg \<and>
     (\<forall>slug. slug_text slug \<longrightarrow> env_source cfg slug \<notin> {dc_template cfg, dc_gateway_template cfg})"

lemma base_names:
  "base_name ''/usr/sbin/useradd'' = ''useradd''" "base_name ''/usr/bin/install'' = ''install''"
  "base_name ''/usr/bin/cp'' = ''cp''" "base_name ''/usr/bin/chown'' = ''chown''" "base_name ''/usr/bin/rm'' = ''rm''"
  "base_name ''/usr/sbin/userdel'' = ''userdel''" "base_name ''/usr/bin/systemctl'' = ''systemctl''"
  by code_simp+

lemma bootstrap_plan_ops:
  assumes "agree cfg e data_dir cwd" "is_valid_slug slug" "is_valid_linux_user u"
  shows "map asked (build_bootstrap_plan e data_dir slug u (home_dir cfg u ''.openclaw'') (home_dir cfg u (dc_workspace cfg))
      (template_path e) (systemd_template_path e cwd)) = map (op_command cfg) (bootstrap_ops cfg slug u) \<and>
    list_all (op_ok cfg) (bootstrap_ops cfg slug u)"
proof -
  note a = assms(1) [unfolded agree_def] and u = user_plain [OF assms(3)] and s = slug_plain [OF assms(2)]
  have d: "plain_dir (dc_home_root cfg)" "plain (dc_workspace cfg)" "plain_dir (dc_data_dir cfg)" "data_dir = dc_data_dir cfg"
    using a by blast+
  have dirs: "home_dir cfg u ''.openclaw'' = root_prefix cfg @ u @ ''/.openclaw''"
    "path_join_posix [dc_home_root cfg, u] = root_prefix cfg @ u"
    "artifact_dir data_dir slug @ ''/openclaw-gateway.env'' = env_source cfg slug"
    using d u s plain_dir_join [OF d(1)] plain_dir_join [OF d(3)]
    by (simp_all add: home_dir_def root_prefix_def artifact_dir_def env_source_def path_sep_def)
  have posix: "join_posix ps = path_join_posix ps" for ps by (simp add: join_posix_def path_join_posix_def)
  have user: "is_safe_user u" using assms(3) by (simp add: is_safe_user_def)
  have "map asked (build_bootstrap_plan e data_dir slug u (home_dir cfg u ''.openclaw'') (home_dir cfg u (dc_workspace cfg))
      (template_path e) (systemd_template_path e cwd)) = map (op_command cfg) (bootstrap_ops cfg slug u)"
    using a unfolding build_bootstrap_plan_def Let_def bootstrap_ops_def
    by (simp add: asked_def step_def install_dir_def base_names dirs posix gateway_service_def tenant_env_file_def)
  moreover have "list_all (op_ok cfg) (bootstrap_ops cfg slug u)"
  proof -
    have ok: "dc_template cfg \<noteq> []" "dc_gateway_template cfg \<noteq> dc_template cfg"
      "env_source cfg slug \<notin> {dc_template cfg, dc_gateway_template cfg}" "slug_text slug"
      using a s by blast+
    then show ?thesis using user by (simp add: bootstrap_ops_def)
  qed
  ultimately show ?thesis ..
qed

lemma decommission_plan_ops:
  assumes "agree cfg e data_dir cwd" "is_valid_linux_user u" "ten_linux_user t = u"
    "ten_openclaw_home t = home_dir cfg u ''.openclaw''" "ten_workspace_root t = home_dir cfg u (dc_workspace cfg)"
  shows "map asked (build_decommission_plan t remove_user remove_dirs) = map (op_command cfg) (decommission_ops cfg u remove_user remove_dirs) \<and>
    list_all (op_ok cfg) (decommission_ops cfg u remove_user remove_dirs)"
proof -
  note a = assms(1) [unfolded agree_def] and u = user_plain [OF assms(2)]
  have d: "plain_dir (dc_home_root cfg)" "plain (dc_workspace cfg)" "plain_dir (dc_data_dir cfg)" "data_dir = dc_data_dir cfg"
    using a by blast+
  have dirs: "home_dir cfg u ''.openclaw'' = root_prefix cfg @ u @ ''/.openclaw''"
    "home_dir cfg u (dc_workspace cfg) = root_prefix cfg @ u @ ''/'' @ dc_workspace cfg"
    using u d plain_dir_join [OF d(1)] by (simp_all add: home_dir_def root_prefix_def path_sep_def)
  have user: "is_safe_user u" using assms(2) by (simp add: is_safe_user_def)
  show ?thesis
    using assms(3-5) user
    by (simp add: build_decommission_plan_def decommission_ops_def asked_def step_def base_names dirs gateway_service_def tenant_env_file_def)
qed

lemma asked_accepted:
  assumes "map asked plan = map (op_command cfg) ops" "list_all (op_ok cfg) ops" "s \<in> set plan" "hd (ps_command s) \<noteq> []"
  shows "validate_command cfg (hd (ps_command s)) (tl (ps_command s)) = None"
proof -
  have "asked s \<in> op_command cfg ` set ops" using assms(1,3) by (metis image_eqI set_map)
  then obtain x where "x \<in> set ops" "asked s = op_command cfg x" by blast
  then have "op_ok cfg x" "(base_name (hd (ps_command s)), tl (ps_command s)) = op_command cfg x"
    using assms(2) by (auto simp: list_all_iff asked_def)
  then show ?thesis using assms(4) validate_command_iff by blast
qed

definition tenant_plans :: "env \<Rightarrow> string \<Rightarrow> string \<Rightarrow> tenant \<Rightarrow> bool \<Rightarrow> bool \<Rightarrow> provision_step list" where
  "tenant_plans e data_dir cwd t remove_user remove_dirs =
     build_bootstrap_plan e data_dir (ten_slug t) (ten_linux_user t) (ten_openclaw_home t) (ten_workspace_root t)
       (template_path e) (systemd_template_path e cwd) @
     build_decommission_plan t remove_user remove_dirs"

lemma plan_commands: "s \<in> set (tenant_plans e data_dir cwd t remove_user remove_dirs) \<Longrightarrow>
    \<exists>c args. ps_command s = c # args \<and> c \<noteq> []"
  by (auto simp: tenant_plans_def build_bootstrap_plan_def build_decommission_plan_def step_def install_dir_def Let_def split: if_splits)


definition root_env :: env where
  "root_env = (\<lambda>_. None)(''MISSION_CONTROL_REPO_ROOT'' \<mapsto> ''/app'', ''MISSION_CONTROL_DATA_DIR'' \<mapsto> ''/data'',
     ''MC_SUPER_TEMPLATE_OPENCLAW_JSON'' \<mapsto> ''/t.json'', ''MC_PROVISIONER_TOKEN'' \<mapsto> ''k'')"

definition root_config :: daemon_config where
  "root_config = daemon_config_of root_env ''/app/ops''"

lemma root_config_values:
  "dc_token root_config = ''k''" "dc_home_root root_config = ''/home''" "dc_workspace root_config = ''workspace''"
  "dc_template root_config = ''/t.json''" "dc_gateway_template root_config = ''/app/ops/templates/openclaw-gateway@.service''"
  "dc_data_dir root_config = ''/data''"
  by code_simp+

lemma root_agree: "agree root_config root_env ''/data'' ''/app''"
proof -
  have env: "tenant_home_root root_env = ''/home''" "tenant_workspace_dirname root_env = ''workspace''"
    "template_path root_env = ''/t.json''" "systemd_template_path root_env ''/app'' = ''/app/ops/templates/openclaw-gateway@.service''"
    "path_join [''/data'', ''provisioner''] = ''/data/provisioner''"
    by code_simp+
  have dirs: "plain_dir ''/home''" "plain_dir ''/data''" "plain ''workspace''"
    unfolding plain_dir_def
    by (rule exI [of _ "[''home'']"], simp add: plain_def path_text_def path_sep_def,
        rule exI [of _ "[''data'']"], simp add: plain_def path_text_def path_sep_def, simp add: plain_def path_sep_def)
  show ?thesis
    using dirs by (simp add: agree_def root_config_values env env_source_def)
qed



section \<open>What slips through\<close>

text \<open>Only the last part of the program's path is looked at, so any program of such a name runs.\<close>

lemma any_path_accepted: "validate_command cfg ''/tmp/evil/true'' [] = None"
  by (simp add: validate_command_def base_name_def Let_def)

text \<open>The names of system accounts are safe user names.\<close>

lemma root_deletable: "validate_command cfg ''userdel'' [''-r'', ''root''] = None" "is_valid_linux_user ''root''"
proof -
  show root: "is_valid_linux_user ''root''" by code_simp
  have "base_name ''userdel'' = ''userdel''" by (simp add: base_name_def)
  then show "validate_command cfg ''userdel'' [''-r'', ''root''] = None"
    using root by (simp add: validate_command_def validate_userdel_def is_safe_user_def)
qed

text \<open>A second line on a connection takes the daemon down, with or without a token.\<close>

lemma second_line_kills: "cn_ended cn \<Longrightarrow> CHR 0x0A \<in> set chunk \<Longrightarrow> snd (snd (on_data cfg spawn chunk cn)) = Daemon_Down"
  by (simp add: on_data_def Let_def case_prod_unfold)

text \<open>If the daemon closes the connection without an answer, the call never returns.\<close>

lemma closed_never_settles: "call_provisioner (\<lambda>_. Sock_Closed []) payload = None"
  by (simp add: call_provisioner_def)

text \<open>A timeout beyond 31 bits kills the command at once.\<close>

lemma long_timeout_kills: "2147483647 < q \<Longrightarrow> kill_after (Some q) = 1"
  by (auto simp: kill_after_def Let_def)

end
