(* ===== verification/Json_Pretty.thy ===== *)
theory Json_Pretty
  imports Json_Round_Trip
begin

text \<open>
  \<open>JSON.stringify(v, null, 2)\<close>: every element and member on a line of its own, two spaces deeper than
  what is around it; and that \<open>JSON.parse\<close> reads it back, since white space separates the tokens.
\<close>

definition line_start :: "nat \<Rightarrow> string" where
  "line_start n = CHR 0x0A # replicate n (CHR '' '')"

fun pretty_text :: "nat \<Rightarrow> json \<Rightarrow> string" where
  "pretty_text n (JArr xs) =
     (if xs = [] then ''[]''
      else ''['' @ line_start (n + 2) @ join_with (CHR '','' # line_start (n + 2)) (map (pretty_text (n + 2)) xs) @
           line_start n @ '']'')"
| "pretty_text n (JObj kvs) =
     (if kvs = [] then ''{}''
      else ''{'' @ line_start (n + 2) @
           join_with (CHR '','' # line_start (n + 2)) (map (\<lambda>(k, v). string_text k @ '': '' @ pretty_text (n + 2) v) kvs) @
           line_start n @ ''}'')"
| "pretty_text n v = json_text v"

definition json_pretty :: "json \<Rightarrow> string" where
  "json_pretty v = pretty_text 0 v"

section \<open>White space\<close>

lemma tokens_of_white: "list_all json_white ws \<Longrightarrow> tokens_of (ws @ s) = tokens_of s"
  by (induction ws) simp_all

lemma line_start_white: "list_all json_white (line_start n)"
  by (simp add: line_start_def json_white_def list_all_iff)

lemma number_free_line: "number_free (line_start n @ r)"
  by (simp add: line_start_def number_free_def number_char_def digit_val_def)

lemmas tokens_of_line = tokens_of_white [OF line_start_white]

lemma tokens_of_space: "tokens_of (CHR '' '' # s) = tokens_of s"
  using tokens_of_white [of "'' ''"] by (simp add: json_white_def)

section \<open>Cutting the lines\<close>

lemma separated_Cons: "separated c (x # xs) = x @ concat (map (\<lambda>y. c # y) xs)"
  by (induction xs arbitrary: x) simp_all

lemma cut_as_lines:
  assumes "cut_as s ts" "list_all (\<lambda>(s, ts). cut_as s ts) xs" "number_free r"
  shows "tokens_of (s @ concat (map (\<lambda>x. (CHR '','' # line_start n) @ fst x) xs) @ r) =
    map_option (\<lambda>us. ts @ concat (map (\<lambda>x. Punct (CHR '','') # snd x) xs) @ us) (tokens_of r)"
  using assms
proof (induction xs arbitrary: s ts)
  case Nil
  then show ?case by (simp add: cut_as_def)
next
  case (Cons x xs)
  obtain s' ts' where x: "x = (s', ts')" by (cases x)
  let ?rest = "concat (map (\<lambda>x. (CHR '','' # line_start n) @ fst x) xs) @ r"
  have "tokens_of (s' @ ?rest) = map_option (\<lambda>us. ts' @ concat (map (\<lambda>x. Punct (CHR '','') # snd x) xs) @ us) (tokens_of r)"
    using Cons.IH [of s' ts'] Cons.prems x by simp
  then have "tokens_of (CHR '','' # line_start n @ s' @ ?rest) = map_option (\<lambda>us. Punct (CHR '','') # ts' @
      concat (map (\<lambda>x. Punct (CHR '','') # snd x) xs) @ us) (tokens_of r)"
    by (simp add: tokens_of_punct tokens_of_line option.map_comp comp_def del: tokens_of.simps)
  moreover have "tokens_of (s @ CHR '','' # line_start n @ s' @ ?rest) =
      map_option (\<lambda>us. ts @ us) (tokens_of (CHR '','' # line_start n @ s' @ ?rest))"
    using Cons.prems(1) by (simp add: cut_as_def)
  ultimately show ?case by (simp add: x option.map_comp comp_def)
qed

lemma cut_as_block:
  assumes "xs \<noteq> []" "list_all (\<lambda>(s, ts). cut_as s ts) xs" "punct_char a" "b = CHR '']'' \<or> b = CHR ''}''"
  shows "cut_as ([a] @ line_start m @ join_with (CHR '','' # line_start m) (map fst xs) @ line_start n @ [b])
    (Punct a # separated (Punct (CHR '','')) (map snd xs) @ [Punct b])"
  unfolding cut_as_def
proof (intro allI impI)
  fix r assume r: "number_free r"
  obtain x ys where xs: "xs = x # ys" using assms(1) by (cases xs) auto
  have x: "cut_as (fst x) (snd x)" "list_all (\<lambda>(s, ts). cut_as s ts) ys" using assms(2) by (auto simp: xs case_prod_beta)
  have b: "punct_char b" using assms(4) by auto
  have "tokens_of (fst x @ concat (map (\<lambda>x. (CHR '','' # line_start m) @ fst x) ys) @ line_start n @ b # r) =
      map_option (\<lambda>us. snd x @ concat (map (\<lambda>x. Punct (CHR '','') # snd x) ys) @ us) (tokens_of (line_start n @ b # r))"
    by (rule cut_as_lines [OF x number_free_line])
  then show "tokens_of (([a] @ line_start m @ join_with (CHR '','' # line_start m) (map fst xs) @ line_start n @ [b]) @ r) =
      map_option (\<lambda>us. (Punct a # separated (Punct (CHR '','')) (map snd xs) @ [Punct b]) @ us) (tokens_of r)"
    by (simp add: xs join_with_def separated_Cons tokens_of_punct [OF assms(3)] tokens_of_punct [OF b] tokens_of_line
        option.map_comp comp_def del: tokens_of.simps)
qed

lemma cut_as_pretty_member:
  assumes "cut_as s ts"
  shows "cut_as (string_text k @ '': '' @ s) (Scalar (JStr k) # Punct (CHR '':'') # ts)"
  unfolding cut_as_def
proof (intro allI impI)
  fix r assume "number_free r"
  then show "tokens_of ((string_text k @ '': '' @ s) @ r) =
      map_option (\<lambda>us. (Scalar (JStr k) # Punct (CHR '':'') # ts) @ us) (tokens_of r)"
    using assms by (cases "tokens_of r")
      (simp_all add: cut_as_def tokens_of_string_text tokens_of_punct tokens_of_space del: tokens_of.simps)
qed

lemma tokens_of_pretty: "plain_json v \<Longrightarrow> cut_as (pretty_text n v) (json_tokens v)"
proof (induction v arbitrary: n)
  case (JArr xs)
  show ?case
  proof (cases "xs = []")
    case True
    then show ?thesis using tokens_of_json_text [of "JArr []"] by (simp add: join_with_def)
  next
    case False
    have "list_all (\<lambda>(s, ts). cut_as s ts) (map (\<lambda>v. (pretty_text (n + 2) v, json_tokens v)) xs)"
      using JArr by (auto simp: list_all_iff)
    from cut_as_block [OF _ this, of "CHR ''[''" "CHR '']''" "n + 2" n] False show ?thesis
      by (simp add: comp_def)
  qed
next
  case (JObj kvs)
  show ?case
  proof (cases "kvs = []")
    case True
    then show ?thesis using tokens_of_json_text [of "JObj []"] by (simp add: join_with_def)
  next
    case False
    let ?f = "\<lambda>(k, v). (string_text k @ '': '' @ pretty_text (n + 2) v, Scalar (JStr k) # Punct (CHR '':'') # json_tokens v)"
    have "list_all (\<lambda>(s, ts). cut_as s ts) (map ?f kvs)"
      unfolding list_all_iff list.set_map ball_simps
    proof (intro ballI)
      fix x assume x: "x \<in> set kvs"
      then have "cut_as (pretty_text (n + 2) (snd x)) (json_tokens (snd x))"
        using JObj(1) [of x "snd x"] JObj(2) by (auto simp: list_all_iff snds.simps)
      then show "case ?f x of (s, ts) \<Rightarrow> cut_as s ts"
        using cut_as_pretty_member by (simp add: case_prod_beta)
    qed
    from cut_as_block [OF _ this, of "CHR ''{''" "CHR ''}''" "n + 2" n] False show ?thesis
      by (simp add: comp_def case_prod_unfold)
  qed
qed (simp_all only: pretty_text.simps tokens_of_json_text)

theorem parse_json_pretty:
  assumes "plain_json v"
  shows "parse_json (json_pretty v @ [CHR 0x0A]) = Some v"
proof -
  have "number_free [CHR 0x0A]" by (simp add: number_free_def number_char_def digit_val_def)
  then have "tokens_of (json_pretty v @ [CHR 0x0A]) = Some (json_tokens v)"
    using tokens_of_pretty [OF assms, of 0] by (simp add: json_pretty_def cut_as_def json_white_def)
  moreover have "json_run (json_tokens v) (Expect []) = Some (Finished v)"
    using plain_reads [OF assms] by (auto simp: reads_def dest: spec [of _ "[]"])
  ultimately show ?thesis by (simp add: parse_json_def)
qed

interpretation pretty_format: text_format "\<lambda>v. json_pretty v @ [CHR 0x0A]" parse_json plain_json
  by unfold_locales (rule parse_json_pretty)

end
