(* ===== verification/Gateway_Config.thy ===== *)
theory Gateway_Config
  imports Settings Host_Files Json_Pretty
begin

text \<open>
  The route \<open>app/api/gateway-config/route.ts\<close>: showing and editing \<open>openclaw.json\<close>. The file is its
  text, or missing. An array has its elements and nothing else, an object the names it was
  given. The text of an exception of the engine is an argument.
\<close>

section \<open>Paths into a value\<close>

text \<open>A name that is an index of an array: decimal, without leading zeros.\<close>

definition array_index :: "string \<Rightarrow> nat option" where
  "array_index k =
     (case parse_int k of None \<Rightarrow> None | Some i \<Rightarrow> if 0 \<le> i \<and> show_int i = k then Some (nat i) else None)"

definition element :: "string \<Rightarrow> json list \<Rightarrow> json option" where
  "element k xs = (case array_index k of None \<Rightarrow> None | Some i \<Rightarrow> if i < length xs then Some (xs ! i) else None)"

definition set_element :: "string \<Rightarrow> json \<Rightarrow> json list \<Rightarrow> json list" where
  "set_element k v xs =
     (case array_index k of None \<Rightarrow> xs
      | Some i \<Rightarrow> if i < length xs then xs[i := v] else xs @ replicate (i - length xs) JNull @ [v])"

text \<open>Setting below a scalar throws. A member on the way that is missing becomes an object.\<close>

fun set_nested_value :: "string list \<Rightarrow> json \<Rightarrow> json \<Rightarrow> json option" where
  "set_nested_value [] v j = Some j"
| "set_nested_value [k] v (JObj kvs) = Some (JObj (obj_set k v kvs))"
| "set_nested_value [k] v (JArr xs) = Some (JArr (set_element k v xs))"
| "set_nested_value (k # k' # ks) v (JObj kvs) =
     map_option (\<lambda>x. JObj (obj_set k x kvs))
       (set_nested_value (k' # ks) v (case map_of kvs k of None \<Rightarrow> JObj [] | Some x \<Rightarrow> x))"
| "set_nested_value (k # k' # ks) v (JArr xs) =
     map_option (\<lambda>x. JArr (set_element k x xs))
       (set_nested_value (k' # ks) v (case element k xs of None \<Rightarrow> JObj [] | Some x \<Rightarrow> x))"
| "set_nested_value (k # ks) v j = None"

fun apply_updates :: "obj \<Rightarrow> json \<Rightarrow> json option" where
  "apply_updates [] cfg = Some cfg"
| "apply_updates ((k, v) # us) cfg =
     (case set_nested_value (split_on (CHR ''.'') k) v cfg of None \<Rightarrow> None | Some cfg' \<Rightarrow> apply_updates us cfg')"

section \<open>Hiding what is sensitive\<close>

definition sensitive_keys :: "string list" where
  "sensitive_keys = [''password'', ''secret'', ''token'', ''api_key'', ''apiKey'']"

definition sensitive :: "string \<Rightarrow> bool" where
  "sensitive key = list_ex (\<lambda>sk. js_includes sk (js_lower key)) sensitive_keys"

text \<open>Eight bullets.\<close>

definition hidden_text :: string where
  "hidden_text = concat (replicate 8 [CHR 0xE2, CHR 0x80, CHR 0xA2])"

definition hide_text :: "json \<Rightarrow> json" where
  "hide_text v = (case v of JStr s \<Rightarrow> if s \<noteq> [] then JStr hidden_text else v | _ \<Rightarrow> v)"

fun redact_sensitive :: "json \<Rightarrow> json" where
  "redact_sensitive (JObj kvs) = JObj (map (\<lambda>(k, v). (k, if sensitive k then hide_text v else redact_sensitive v)) kvs)"
| "redact_sensitive (JArr xs) = JArr (map redact_sensitive xs)"
| "redact_sensitive v = v"

section \<open>The handlers\<close>

type_synonym config_file = "string option"

definition config_path :: "env \<Rightarrow> string option" where
  "config_path e = str_or_null (Some (below_home e [''openclaw.json'']))"

definition get_gateway_config :: "(string \<Rightarrow> string) \<Rightarrow> env \<Rightarrow> request \<Rightarrow> (config_file, json) on_file" where
  "get_gateway_config syntax_error e r = file_with_role Admin e r (\<lambda>user f w.
     (case config_path e of None \<Rightarrow> (w, f, Fail 404 ''OPENCLAW_HOME not configured'')
      | Some path \<Rightarrow>
     (case f of None \<Rightarrow> (w, f, Err 404 ''Config file not found'' [path])
      | Some raw \<Rightarrow>
     (case parse_json raw of None \<Rightarrow> (w, f, Fail 500 (''Failed to read config: '' @ syntax_error raw))
      | Some cfg \<Rightarrow>
          (w, f, Reply 200 (JObj [(''path'', JStr path), (''config'', redact_sensitive cfg),
                                  (''raw_size'', JInt (int (length raw)))]))))))"

definition blocked_paths :: "string list" where
  "blocked_paths = [''gateway.auth.password'', ''gateway.auth.secret'']"

definition blocked :: "string \<Rightarrow> bool" where
  "blocked key = list_ex (\<lambda>bp. starts_with bp key) blocked_paths"

text \<open>What the exception says: of a missing file, of a text that is not JSON, of an assignment.\<close>

record config_errors =
  ce_missing :: string
  ce_syntax :: "string \<Rightarrow> string"
  ce_assignment :: string

definition update_config_with ::
  "config_errors \<Rightarrow> request \<Rightarrow> auth_user \<Rightarrow> obj \<Rightarrow> (config_file, json) on_file" where
  "update_config_with errs r user us f w =
     (case find (\<lambda>(k, v). blocked k) us of
        Some (k, v) \<Rightarrow> (w, f, Fail 403 (''Cannot modify protected field: '' @ k))
      | None \<Rightarrow>
     (case f of None \<Rightarrow> (w, f, Fail 500 (''Failed to update config: '' @ ce_missing errs))
      | Some raw \<Rightarrow>
     (case parse_json raw of None \<Rightarrow> (w, f, Fail 500 (''Failed to update config: '' @ ce_syntax errs raw))
      | Some cfg \<Rightarrow>
     (case apply_updates us cfg of None \<Rightarrow> (w, f, Fail 500 (''Failed to update config: '' @ ce_assignment errs))
      | Some cfg' \<Rightarrow>
          (let keys = JArr (map (\<lambda>(k, v). JStr k) us) in
           (log_audit_event ''gateway_config_update'' (au_username user) (Some (au_id user)) None None
              (Some (JObj [(''updated_keys'', keys)])) (Some (caller_ip r)) None w,
            Some (json_pretty cfg' @ [CHR 0x0A]),
            Reply 200 (JObj [(''updated'', keys), (''count'', JInt (int (length us)))])))))))"

definition put_gateway_config ::
  "config_errors \<Rightarrow> obj validated \<Rightarrow> env \<Rightarrow> request \<Rightarrow> (config_file, json) on_file" where
  "put_gateway_config errs body e r = file_with_role Admin e r (\<lambda>user.
     file_with_limit MutationLimiter e r (\<lambda>f w.
       (case config_path e of None \<Rightarrow> (w, f, Fail 404 ''OPENCLAW_HOME not configured'')
        | Some path \<Rightarrow> file_with_body body (update_config_with errs r user) f w)))"

end
