(* ===== verification/Gateway_Config_Rules.thy ===== *)
theory Gateway_Config_Rules
  imports Gateway_Config Integration_Rules
begin

text \<open>
  What an edit of the gateway's configuration does to the values of the file, and what it cannot
  reach; what is hidden from the reader, and what is not.
\<close>

section \<open>Reading along a path\<close>

fun value_at :: "string list \<Rightarrow> json \<Rightarrow> json option" where
  "value_at [] j = Some j"
| "value_at (k # ks) (JObj kvs) = Option.bind (map_of kvs k) (value_at ks)"
| "value_at (k # ks) (JArr xs) = Option.bind (element k xs) (value_at ks)"
| "value_at (k # ks) j = None"

definition named :: "string \<Rightarrow> bool" where
  "named k \<longleftrightarrow> array_index k = None"

lemma element_named [simp]: "named k \<Longrightarrow> element k xs = None"
  by (simp add: named_def element_def)

lemma plain_obj_set: "plain_json (JObj kvs) \<Longrightarrow> plain_json v \<Longrightarrow> plain_json (JObj (obj_set k v kvs))"
proof -
  assume a: "plain_json (JObj kvs)" "plain_json v"
  have "list_all (\<lambda>(k, v). plain_json v) (obj_set k v kvs)"
    using a by (induction kvs) auto
  then show ?thesis using a distinct_obj_set [of kvs k v] by simp
qed

lemma plain_set_element: "plain_json (JArr xs) \<Longrightarrow> plain_json v \<Longrightarrow> plain_json (JArr (set_element k v xs))"
  by (auto simp: set_element_def list_all_iff split: option.split dest: set_update_subset_insert [THEN subsetD])

text \<open>Setting one path leaves every other alone, unless one of them leads through the other.\<close>

lemma set_nested_frame:
  "set_nested_value ps v j = Some j' \<Longrightarrow> list_all named ks \<Longrightarrow> \<not> prefix ps ks \<Longrightarrow> \<not> prefix ks ps \<Longrightarrow>
   value_at ks j' = value_at ks j"
proof (induction ps v j arbitrary: ks j' rule: set_nested_value.induct)
  case (2 k v kvs)
  then show ?case by (cases ks) (auto simp: map_of_obj_set)
next
  case (3 k v xs)
  then show ?case by (cases ks) auto
next
  case (4 k k' rest v kvs)
  obtain a as where ks: "ks = a # as" using "4.prems"(4) by (cases ks) auto
  let ?in = "case map_of kvs k of None \<Rightarrow> JObj [] | Some x \<Rightarrow> x"
  obtain x where x: "set_nested_value (k' # rest) v ?in = Some x" "j' = JObj (obj_set k x kvs)"
    using "4.prems"(1) by auto
  have "value_at as x = value_at as ?in" if "a = k"
    using "4.IH" [OF x(1), of as] "4.prems" ks that by auto
  moreover have "as \<noteq> []" if "a = k" using "4.prems"(4) ks that by auto
  ultimately show ?case
    by (cases as) (auto simp: ks x(2) map_of_obj_set split: option.splits)
next
  case (5 k k' rest v xs)
  then show ?case by (cases ks) auto
qed auto

lemma set_nested_plain:
  "set_nested_value ps v j = Some j' \<Longrightarrow> plain_json v \<Longrightarrow> plain_json j \<Longrightarrow> plain_json j'"
proof (induction ps v j arbitrary: j' rule: set_nested_value.induct)
  case (2 k v kvs)
  then show ?case using plain_obj_set by auto
next
  case (3 k v xs)
  then show ?case using plain_set_element by auto
next
  case (4 k k' rest v kvs)
  have "plain_json (case map_of kvs k of None \<Rightarrow> JObj [] | Some x \<Rightarrow> x)"
    using "4.prems"(3) by (auto simp: list_all_iff split: option.split dest!: map_of_SomeD)
  then show ?case using 4 plain_obj_set by auto
next
  case (5 k k' rest v xs)
  have "plain_json (case element k xs of None \<Rightarrow> JObj [] | Some x \<Rightarrow> x)"
    using "5.prems"(3) by (auto simp: element_def list_all_iff split: option.splits)
  then show ?case using 5 plain_set_element by auto
qed auto

lemma apply_updates_plain:
  "apply_updates us cfg = Some cfg' \<Longrightarrow> list_all (\<lambda>(k, v). plain_json v) us \<Longrightarrow> plain_json cfg \<Longrightarrow> plain_json cfg'"
  by (induction us cfg rule: apply_updates.induct) (auto split: option.splits intro: set_nested_plain)

section \<open>The protected fields\<close>

definition protected_path :: "string \<Rightarrow> string list" where
  "protected_path p = [''gateway'', ''auth'', p]"

definition over_protected :: "obj \<Rightarrow> bool" where
  "over_protected us \<longleftrightarrow> ''gateway'' \<in> fst ` set us \<or> ''gateway.auth'' \<in> fst ` set us"

lemma not_blocked_apart:
  assumes "\<not> blocked k" "k \<noteq> ''gateway''" "k \<noteq> ''gateway.auth''" "p = ''password'' \<or> p = ''secret''"
  shows "\<not> prefix (split_on (CHR ''.'') k) (protected_path p) \<and> \<not> prefix (protected_path p) (split_on (CHR ''.'') k)"
proof -
  let ?ps = "split_on (CHR ''.'') k"
  have k: "join_with ''.'' ?ps = k" by (rule join_split)
  have bl: "\<not> starts_with (''gateway.auth.'' @ p) k"
    using assms(1,4) by (auto simp: blocked_def blocked_paths_def)
  have "\<not> prefix (protected_path p) ?ps"
  proof
    assume "prefix (protected_path p) ?ps"
    then obtain rest where "?ps = protected_path p @ rest" by (auto simp: prefix_def)
    then have "\<exists>r. k = (''gateway.auth.'' @ p) @ r"
      using k [symmetric] unfolding protected_path_def by (simp add: join_with_def)
    then show False using bl starts_with_iff by blast
  qed
  moreover have "?ps \<noteq> [''gateway'']" "?ps \<noteq> [''gateway'', ''auth'']"
    using k assms(2,3) by (auto simp: join_with_def)
  moreover have "?ps = [] \<or> ?ps = [''gateway''] \<or> ?ps = [''gateway'', ''auth''] \<or> ?ps = protected_path p"
    if "prefix ?ps (protected_path p)" using that unfolding protected_path_def prefix_Cons by auto
  ultimately show ?thesis by auto
qed

lemma protected_named: "p = ''password'' \<or> p = ''secret'' \<Longrightarrow> list_all named (protected_path p)"
  by (elim disjE) (simp_all only:, code_simp, code_simp)

lemma apply_updates_protected:
  "apply_updates us cfg = Some cfg' \<Longrightarrow> find (\<lambda>(k, v). blocked k) us = None \<Longrightarrow> \<not> over_protected us \<Longrightarrow>
   p = ''password'' \<or> p = ''secret'' \<Longrightarrow> value_at (protected_path p) cfg' = value_at (protected_path p) cfg"
proof (induction us cfg rule: apply_updates.induct)
  case (2 k v us cfg)
  obtain mid where mid: "set_nested_value (split_on (CHR ''.'') k) v cfg = Some mid" "apply_updates us mid = Some cfg'"
    using "2.prems"(1) by (auto split: option.splits)
  have k: "\<not> blocked k" "k \<noteq> ''gateway''" "k \<noteq> ''gateway.auth''" and us: "find (\<lambda>(k, v). blocked k) us = None" "\<not> over_protected us"
    using "2.prems"(2,3) by (auto simp: over_protected_def split: if_splits)
  have "value_at (protected_path p) mid = value_at (protected_path p) cfg"
    using set_nested_frame [OF mid(1) protected_named [OF "2.prems"(4)]] not_blocked_apart [OF k "2.prems"(4)] by blast
  then show ?case using "2.IH" [OF mid us "2.prems"(4)] by simp
qed simp


definition sample_config :: json where
  "sample_config = JObj [(''gateway'', JObj [(''auth'', JObj [(''password'', JStr ''pw'')]), (''port'', JInt 1)])]"

definition config_env :: env where
  "config_env = sample_env(''OPENCLAW_HOME'' \<mapsto> ''/oc'')"


section \<open>Ways around the protection\<close>

text \<open>Replacing the object around the password is not blocked.\<close>

lemma password_replaceable:
  "\<not> blocked ''gateway.auth'' \<and>
   Option.bind (apply_updates [(''gateway.auth'', JObj [(''password'', JStr ''mine'')])] sample_config)
     (value_at [''gateway'', ''auth'', ''password'']) = Some (JStr ''mine'')"
  by code_simp

section \<open>What the reader is shown\<close>

text \<open>Redaction hides the texts under sensitive names and nothing else.\<close>

lemma value_at_redacted:
  "list_all (\<lambda>k. \<not> sensitive k) ks \<Longrightarrow> value_at ks (redact_sensitive j) = map_option redact_sensitive (value_at ks j)"
proof (induction ks j rule: value_at.induct)
  case (2 k ks kvs)
  have "map_of (map (\<lambda>(k, v). (k, if sensitive k then hide_text v else redact_sensitive v)) kvs) k =
      map_option redact_sensitive (map_of kvs k)"
    using 2(2) by (simp add: map_of_map_value)
  then show ?case using 2 by (cases "map_of kvs k") simp_all
next
  case (3 k ks xs)
  then show ?case by (cases "element k xs") (auto simp: element_def split: option.splits if_splits)
qed simp_all

lemma sensitive_text_hidden:
  assumes "list_all (\<lambda>k. \<not> sensitive k) ks" "sensitive k" "value_at ks j = Some (JObj kvs)" "map_of kvs k = Some (JStr s)" "s \<noteq> []"
  shows "value_at (ks @ [k]) (redact_sensitive j) = Some (JStr hidden_text)"
proof -
  have app: "value_at (ks @ [k]) x = Option.bind (value_at ks x) (value_at [k])" for x
    by (induction ks x rule: value_at.induct) (auto split: bind_splits)
  show ?thesis
    using assms unfolding app value_at_redacted [OF assms(1)]
    by (simp add: map_of_map_value hide_text_def)
qed

text \<open>A key in camel case is compared in lower case with a pattern that is not; an object or a list
  under a sensitive name is shown as it is.\<close>

lemma api_key_shown: "redact_sensitive (JObj [(''apiKey'', JStr s)]) = JObj [(''apiKey'', JStr s)]"
proof -
  have "\<not> sensitive ''apiKey''" by code_simp
  then show ?thesis by simp
qed

lemma nested_secret_shown: "redact_sensitive (JObj [(''tokens'', JArr [JStr s])]) = JObj [(''tokens'', JArr [JStr s])]"
proof -
  have "sensitive ''tokens''" by code_simp
  then show ?thesis by (simp add: hide_text_def)
qed

end
