(* ===== verification/Memory_Files.thy ===== *)
theory Memory_Files
  imports Host_Files Paths
begin

text \<open>
  The route \<open>app/api/memory/route.ts\<close>: the notes below the memory directory, with the symbolic
  links an agent may have put there. The part of the host's file system the route can see is
  a list of paths with what is there; a request works on it in one step.
\<close>

section \<open>A file system\<close>

text \<open>A file with its text and time, a directory with its time, a link with its target.\<close>

datatype fs_node = File_Node string int | Dir_Node int | Link_Node string

type_synonym fs = "(string list \<times> fs_node) list"

definition node_at :: "fs \<Rightarrow> string list \<Rightarrow> fs_node option" where
  "node_at fs p = (if p = [] then Some (Dir_Node 0) else map_of fs p)"

definition is_dir :: "fs_node option \<Rightarrow> bool" where
  "is_dir x = (case x of Some (Dir_Node _) \<Rightarrow> True | _ \<Rightarrow> False)"

definition is_link :: "fs_node option \<Rightarrow> bool" where
  "is_link x = (case x of Some (Link_Node _) \<Rightarrow> True | _ \<Rightarrow> False)"

datatype fs_error = ENOENT | ENOTDIR | ELOOP | EISDIR

text \<open>
  The real place of a path: links are followed, at most so many, from the directory they are
  in or from the root. The last name need not be there.
\<close>

function target :: "nat \<Rightarrow> fs \<Rightarrow> string list \<Rightarrow> string list \<Rightarrow> fs_error + string list" where
  "target n fs cur [] = Inr cur"
| "target n fs cur (s # ss) =
     (if s = [] \<or> s = ''.'' then target n fs cur ss
      else if s = ''..'' then target n fs (butlast cur) ss
      else (case node_at fs (cur @ [s]) of
          None \<Rightarrow> if ss = [] then Inr (cur @ [s]) else Inl ENOENT
        | Some (File_Node text t) \<Rightarrow> if ss = [] then Inr (cur @ [s]) else Inl ENOTDIR
        | Some (Dir_Node t) \<Rightarrow> target n fs (cur @ [s]) ss
        | Some (Link_Node l) \<Rightarrow>
            if n = 0 then Inl ELOOP
            else target (n - 1) fs (if is_absolute l then [] else cur) (split_on path_sep l @ ss)))"
  by pat_completeness auto
termination
  by (relation "measures [\<lambda>(n, fs, cur, ss). n, \<lambda>(n, fs, cur, ss). length ss]") auto

text \<open>Linux follows forty links.\<close>

definition place :: "fs \<Rightarrow> string \<Rightarrow> fs_error + string list" where
  "place fs p = target 40 fs [] (split_on path_sep p)"

definition real_path :: "fs \<Rightarrow> string \<Rightarrow> fs_error + string list" where
  "real_path fs p =
     (case place fs p of Inl err \<Rightarrow> Inl err | Inr q \<Rightarrow> if node_at fs q = None then Inl ENOENT else Inr q)"

definition dir_name :: "string \<Rightarrow> string" where
  "dir_name p = path_text (butlast (segments p))"

definition last_name :: "string \<Rightarrow> string" where
  "last_name p = last (segments p)"

text \<open>\<open>lstat\<close>: the last name is not followed.\<close>

definition lstat :: "fs \<Rightarrow> string \<Rightarrow> fs_error + fs_node" where
  "lstat fs p =
     (if segments p = [] then Inr (Dir_Node 0)
      else (case real_path fs (dir_name p) of Inl err \<Rightarrow> Inl err
        | Inr d \<Rightarrow> if \<not> is_dir (node_at fs d) then Inl ENOTDIR
                   else (case node_at fs (d @ [last_name p]) of None \<Rightarrow> Inl ENOENT | Some x \<Rightarrow> Inr x)))"

definition stat_file :: "fs \<Rightarrow> string \<Rightarrow> fs_error + fs_node" where
  "stat_file fs p = (case real_path fs p of Inl err \<Rightarrow> Inl err | Inr q \<Rightarrow> Inr (the (node_at fs q)))"

definition put_node :: "string list \<Rightarrow> fs_node \<Rightarrow> fs \<Rightarrow> fs" where
  "put_node p x fs = (p, x) # filter (\<lambda>(q, y). q \<noteq> p) fs"

definition write_file :: "int \<Rightarrow> fs \<Rightarrow> string \<Rightarrow> string \<Rightarrow> fs_error + fs" where
  "write_file now fs p text =
     (case place fs p of Inl err \<Rightarrow> Inl err
      | Inr q \<Rightarrow> (case node_at fs q of Some (Dir_Node t) \<Rightarrow> Inl EISDIR | _ \<Rightarrow> Inr (put_node q (File_Node text now) fs)))"

text \<open>\<open>unlink\<close> removes the name itself.\<close>

definition unlink_file :: "fs \<Rightarrow> string \<Rightarrow> fs_error + fs" where
  "unlink_file fs p =
     (case lstat fs p of Inl err \<Rightarrow> Inl err
      | Inr (Dir_Node t) \<Rightarrow> Inl EISDIR
      | Inr x \<Rightarrow> (case real_path fs (dir_name p) of Inl err \<Rightarrow> Inl err
          | Inr d \<Rightarrow> Inr (filter (\<lambda>(q, y). q \<noteq> d @ [last_name p]) fs)))"

section \<open>A path that stays inside\<close>

definition from_cwd :: "string \<Rightarrow> string \<Rightarrow> string" where
  "from_cwd cwd p = (if is_absolute p then p else cwd @ path_sep # p)"

definition is_within_base :: "string \<Rightarrow> string \<Rightarrow> bool" where
  "is_within_base base candidate \<longleftrightarrow> candidate = base \<or> starts_with (base @ [path_sep]) candidate"

text \<open>\<open>None\<close> is an exception; all of them are answered alike.\<close>

definition resolve_safe_memory_path :: "fs \<Rightarrow> string \<Rightarrow> string \<Rightarrow> string \<Rightarrow> string option" where
  "resolve_safe_memory_path fs cwd base_dir relative_path =
     (case real_path fs (from_cwd cwd base_dir) of Inl err \<Rightarrow> None
      | Inr base_real \<Rightarrow>
     (case resolve_within cwd base_dir relative_path of None \<Rightarrow> None
      | Some full \<Rightarrow>
     (case real_path fs (dir_name full) of Inl err \<Rightarrow> None
      | Inr parent_real \<Rightarrow>
        if \<not> is_within_base (path_text base_real) (path_text parent_real) then None
        else (case lstat fs full of
            Inl err \<Rightarrow> if err \<noteq> ENOENT then None else Some full
          | Inr st \<Rightarrow>
              if is_link (Some st) then None
              else (case real_path fs full of
                  Inl err \<Rightarrow> if err \<noteq> ENOENT then None else Some full
                | Inr file_real \<Rightarrow>
                    if \<not> is_within_base (path_text base_real) (path_text file_real) then None else Some full)))))"

section \<open>The tree and the search\<close>

text \<open>\<open>readdir\<close>: the names below a directory, in the order of the list.\<close>

definition names_in :: "fs \<Rightarrow> string list \<Rightarrow> string list" where
  "names_in fs d = map last (filter (\<lambda>p. p \<noteq> [] \<and> butlast p = d) (map fst fs))"

definition longest :: "fs \<Rightarrow> nat" where
  "longest fs = Max (insert 0 (set (map (length \<circ> fst) fs)))"

lemma names_in_longest: "s \<in> set (names_in fs d) \<Longrightarrow> length d < longest fs"
proof -
  assume "s \<in> set (names_in fs d)"
  then obtain p where p: "p \<in> fst ` set fs" "p \<noteq> []" "butlast p = d" by (auto simp: names_in_def)
  then have "length p \<le> longest fs" unfolding longest_def by (intro Max_ge) auto
  then show ?thesis using p(2,3) by (cases p rule: rev_cases) auto
qed

record memory_file =
  mf_path :: string
  mf_name :: string
  mf_modified :: int
  mf_size :: "int option"
  mf_children :: "json list"

definition memory_json :: "memory_file \<Rightarrow> json" where
  "memory_json m = JObj
     ([(''path'', JStr (mf_path m)), (''name'', JStr (mf_name m)),
       (''type'', JStr (if mf_size m = None then ''directory'' else ''file''))] @
      (case mf_size m of None \<Rightarrow> [] | Some n \<Rightarrow> [(''size'', JInt n)]) @
      [(''modified'', JInt (mf_modified m))] @
      (if mf_size m = None then [(''children'', JArr (mf_children m))] else []))"

text \<open>\<open>sort\<close> with a comparison function.\<close>

fun insert_by :: "('a \<Rightarrow> 'a \<Rightarrow> int) \<Rightarrow> 'a \<Rightarrow> 'a list \<Rightarrow> 'a list" where
  "insert_by cmp x [] = [x]"
| "insert_by cmp x (y # ys) = (if cmp x y \<le> 0 then x # y # ys else y # insert_by cmp x ys)"

definition sort_by :: "('a \<Rightarrow> 'a \<Rightarrow> int) \<Rightarrow> 'a list \<Rightarrow> 'a list" where
  "sort_by cmp xs = foldr (insert_by cmp) xs []"

definition file_order :: "(string \<Rightarrow> string \<Rightarrow> int) \<Rightarrow> memory_file \<Rightarrow> memory_file \<Rightarrow> int" where
  "file_order collate a b =
     (if (mf_size a = None) \<noteq> (mf_size b = None) then (if mf_size a = None then -1 else 1)
      else collate (mf_name a) (mf_name b))"

function build_file_tree :: "(string \<Rightarrow> string \<Rightarrow> int) \<Rightarrow> fs \<Rightarrow> string list \<Rightarrow> string \<Rightarrow> json list" where
  "build_file_tree collate fs d relative =
     map memory_json (sort_by (file_order collate) (concat (map (\<lambda>name.
       (case node_at fs (d @ [name]) of
          Some (Dir_Node t) \<Rightarrow> [\<lparr>mf_path = path_join [relative, name], mf_name = name, mf_modified = t, mf_size = None,
            mf_children = build_file_tree collate fs (d @ [name]) (path_join [relative, name])\<rparr>]
        | Some (File_Node text t) \<Rightarrow> [\<lparr>mf_path = path_join [relative, name], mf_name = name, mf_modified = t,
            mf_size = Some (int (length text)), mf_children = []\<rparr>]
        | _ \<Rightarrow> [])) (names_in fs d))))"
  by pat_completeness auto
termination
  by (relation "measure (\<lambda>(collate, fs, d, relative). longest fs - length d)") (auto dest: names_in_longest)

function count_matches :: "string \<Rightarrow> string \<Rightarrow> nat" where
  "count_matches needle hay =
     (if needle = [] \<or> hay = [] then 0
      else if starts_with needle hay then Suc (count_matches needle (drop (length needle) hay))
      else count_matches needle (tl hay))"
  by pat_completeness auto
termination
  by (relation "measure (\<lambda>(needle, hay). length hay)") auto

definition search_in_file :: "string \<Rightarrow> string \<Rightarrow> string \<Rightarrow> (string \<times> nat) list" where
  "search_in_file query text relative =
     (let n = (if 1000000 < length text then 0 else count_matches (js_lower query) (js_lower text))
      in if 0 < n then [(relative, n)] else [])"

function search_directory :: "string \<Rightarrow> fs \<Rightarrow> string list \<Rightarrow> string \<Rightarrow> (string \<times> nat) list" where
  "search_directory query fs d relative = concat (map (\<lambda>name.
     (case node_at fs (d @ [name]) of
        Some (Dir_Node t) \<Rightarrow> search_directory query fs (d @ [name]) (path_join [relative, name])
      | Some (File_Node text t) \<Rightarrow>
          if ends_with ''.md'' name \<or> ends_with ''.txt'' name then search_in_file query text (path_join [relative, name]) else []
      | _ \<Rightarrow> [])) (names_in fs d))"
  by pat_completeness auto
termination
  by (relation "measure (\<lambda>(query, fs, d, relative). longest fs - length d)") (auto dest: names_in_longest)

declare build_file_tree.simps [simp del] count_matches.simps [simp del] search_directory.simps [simp del]

definition match_json :: "string \<times> nat \<Rightarrow> json" where
  "match_json x = JObj [(''path'', JStr (fst x)), (''name'', JStr (last (split_on path_sep (fst x)))), (''matches'', JInt (int (snd x)))]"

section \<open>The handlers\<close>

definition memory_failed :: "fs \<Rightarrow> world \<Rightarrow> world \<times> fs \<times> json response" where
  "memory_failed fs w = (w, fs, Fail 500 ''Internal server error'')"

definition memory_file_content :: "string \<Rightarrow> string \<Rightarrow> string \<Rightarrow> (fs, json) on_file" where
  "memory_file_content cwd base path fs w =
     (case resolve_safe_memory_path fs cwd base path of None \<Rightarrow> memory_failed fs w
      | Some full \<Rightarrow> (case stat_file fs full of
            Inr (File_Node text t) \<Rightarrow> (w, fs, Reply 200 (JObj [(''content'', JStr text), (''size'', JInt (int (length text))),
              (''modified'', JInt t), (''path'', JStr path)]))
          | _ \<Rightarrow> (w, fs, Fail 404 ''File not found'')))"

definition memory_tree :: "(string \<Rightarrow> string \<Rightarrow> int) \<Rightarrow> string \<Rightarrow> string \<Rightarrow> fs \<Rightarrow> json list" where
  "memory_tree collate cwd base fs =
     (case real_path fs (from_cwd cwd base) of Inl err \<Rightarrow> []
      | Inr d \<Rightarrow> if is_dir (node_at fs d) then build_file_tree collate fs d [] else [])"

definition memory_search :: "string \<Rightarrow> string \<Rightarrow> string \<Rightarrow> fs \<Rightarrow> (string \<times> nat) list" where
  "memory_search query cwd base fs =
     (case real_path fs (from_cwd cwd base) of Inl err \<Rightarrow> []
      | Inr d \<Rightarrow> if is_dir (node_at fs d) then sort_key (\<lambda>x. - int (snd x)) (search_directory query fs d []) else [])"

definition get_memory_files ::
  "(string \<Rightarrow> string \<Rightarrow> int) \<Rightarrow> string \<Rightarrow> (string \<Rightarrow> string option) \<Rightarrow> env \<Rightarrow> request \<Rightarrow> (fs, json) on_file" where
  "get_memory_files collate cwd query e r = file_with_role Viewer e r (\<lambda>user. file_with_limit ReadLimiter e r (\<lambda>fs w.
     (let base = memory_dir e in
      if query ''action'' = Some ''tree'' then
        (w, fs, Reply 200 (JObj [(''tree'', JArr (if base = [] then [] else memory_tree collate cwd base fs))]))
      else if query ''action'' = Some ''content'' \<and> str_or_null (query ''path'') \<noteq> None then
        (if base = [] then (w, fs, Fail 500 ''Memory directory not configured'')
         else memory_file_content cwd base (opt_or (query ''path'') []) fs w)
      else if query ''action'' = Some ''search'' then
        (case str_or_null (query ''query'') of None \<Rightarrow> (w, fs, Fail 400 ''Query required'')
         | Some q \<Rightarrow> (w, fs, Reply 200 (JObj [(''query'', JStr q),
             (''results'', JArr (map match_json (if base = [] then [] else memory_search q cwd base fs)))])))
      else (w, fs, Fail 400 ''Invalid action''))))"

record memory_request =
  mb_action :: "string option"
  mb_path :: "string option"
  mb_content :: "string option option"

definition memory_done :: "fs_error + fs \<Rightarrow> string \<Rightarrow> fs \<Rightarrow> world \<Rightarrow> world \<times> fs \<times> json response" where
  "memory_done x said fs w =
     (case x of Inl err \<Rightarrow> memory_failed fs w
      | Inr fs' \<Rightarrow> (w, fs', Reply 200 (JObj [(''success'', JBool True), (''message'', JStr said)])))"

text \<open>Writing \<open>null\<close> throws; creating takes it as the empty text. Where creating makes the directory
  around the file, the checks have found that directory already.\<close>

definition save_memory_with :: "string \<Rightarrow> string \<Rightarrow> memory_request option \<Rightarrow> (fs, json) on_file" where
  "save_memory_with cwd base body fs w =
     (case body of None \<Rightarrow> memory_failed fs w
      | Some b \<Rightarrow>
     (case str_or_null (mb_path b) of None \<Rightarrow> (w, fs, Fail 400 ''Path is required'')
      | Some path \<Rightarrow>
      if base = [] then (w, fs, Fail 500 ''Memory directory not configured'')
      else (case resolve_safe_memory_path fs cwd base path of None \<Rightarrow> memory_failed fs w
      | Some full \<Rightarrow>
        if mb_action b = Some ''save'' then
          (case mb_content b of None \<Rightarrow> (w, fs, Fail 400 ''Content is required for save action'')
           | Some None \<Rightarrow> memory_failed fs w
           | Some (Some text) \<Rightarrow> memory_done (write_file (clock w) fs full text) ''File saved successfully'' fs w)
        else if mb_action b = Some ''create'' then
          (case stat_file fs full of Inr x \<Rightarrow> (w, fs, Fail 409 ''File already exists'')
           | Inl err \<Rightarrow> memory_done (write_file (clock w) fs full (opt_or (Option.bind (mb_content b) (\<lambda>x. x)) []))
                 ''File created successfully'' fs w)
        else (w, fs, Fail 400 ''Invalid action''))))"

definition post_memory_files :: "string \<Rightarrow> memory_request option \<Rightarrow> env \<Rightarrow> request \<Rightarrow> (fs, json) on_file" where
  "post_memory_files cwd body e r = file_with_role Operator e r (\<lambda>user. file_with_limit MutationLimiter e r
     (save_memory_with cwd (memory_dir e) body))"

definition remove_memory_with :: "string \<Rightarrow> string \<Rightarrow> memory_request option \<Rightarrow> (fs, json) on_file" where
  "remove_memory_with cwd base body fs w =
     (case body of None \<Rightarrow> memory_failed fs w
      | Some b \<Rightarrow>
     (case str_or_null (mb_path b) of None \<Rightarrow> (w, fs, Fail 400 ''Path is required'')
      | Some path \<Rightarrow>
      if base = [] then (w, fs, Fail 500 ''Memory directory not configured'')
      else (case resolve_safe_memory_path fs cwd base path of None \<Rightarrow> memory_failed fs w
      | Some full \<Rightarrow>
        if mb_action b = Some ''delete'' then
          (case stat_file fs full of Inl err \<Rightarrow> (w, fs, Fail 404 ''File not found'')
           | Inr x \<Rightarrow> memory_done (unlink_file fs full) ''File deleted successfully'' fs w)
        else (w, fs, Fail 400 ''Invalid action''))))"

definition delete_memory_files :: "string \<Rightarrow> memory_request option \<Rightarrow> env \<Rightarrow> request \<Rightarrow> (fs, json) on_file" where
  "delete_memory_files cwd body e r = file_with_role Admin e r (\<lambda>user. file_with_limit MutationLimiter e r
     (remove_memory_with cwd (memory_dir e) body))"

end
