(* ===== verification/Memory_Rules.thy ===== *)
theory Memory_Rules
  imports Memory_Files Path_Facts
begin

text \<open>
  Nothing outside the memory directory is read or written through the route, whatever path a
  request names and whatever links lie on the way.
\<close>

section \<open>Where a path leads\<close>

lemma target_plain:
  "target n fs cur ss = Inr q \<Longrightarrow> list_all plain cur \<Longrightarrow> \<forall>s \<in> set ss. path_sep \<notin> set s \<Longrightarrow> list_all plain q"
proof (induction n fs cur ss rule: target.induct)
  case (2 n fs cur s ss)
  have cut: "\<forall>s \<in> set (split_on path_sep l). path_sep \<notin> set s" for l using split_parts by blast
  have last: "plain s" if "s \<noteq> []" "s \<noteq> ''.''" "s \<noteq> ''..''" using that "2.prems"(3) by (simp add: plain_def)
  have but: "list_all plain (butlast cur)" using "2.prems"(2) by (auto simp: list_all_iff dest: in_set_butlastD)
  show ?case
  proof (cases "s = [] \<or> s = ''.'' \<or> s = ''..''")
    case True
    then show ?thesis using 2 but by auto
  next
    case False
    then have down: "list_all plain (cur @ [s])" using last "2.prems"(2) by simp
    show ?thesis
    proof (cases "node_at fs (cur @ [s])")
      case None
      then show ?thesis using False down "2.prems"(1) by (auto split: if_splits)
    next
      case (Some x)
      show ?thesis
      proof (cases x)
        case (File_Node z t)
        then show ?thesis using False Some down "2.prems"(1) by (auto split: if_splits)
      next
        case (Dir_Node t)
        then show ?thesis using False Some down "2.prems" "2.IH"(3) by auto
      next
        case (Link_Node l)
        then have "n \<noteq> 0" "target (n - 1) fs (if is_absolute l then [] else cur) (split_on path_sep l @ ss) = Inr q"
          using False Some "2.prems"(1) by (auto split: if_splits)
        then show ?thesis using False Some Link_Node "2.IH"(4) "2.prems"(2,3) cut [of l] by (auto simp: ball_Un)
      qed
    qed
  qed
qed simp

text \<open>The last name of a path, below a directory and not a link, is where it is.\<close>

lemma target_last:
  "target n fs cur ss = Inr d \<Longrightarrow> is_dir (node_at fs d) \<Longrightarrow> \<not> is_link (node_at fs (d @ [s])) \<Longrightarrow> plain s \<Longrightarrow>
   target n fs cur (ss @ [s]) = Inr (d @ [s])"
proof (induction n fs cur ss rule: target.induct)
  case (1 n fs cur)
  then show ?case by (auto simp: plain_def is_link_def is_dir_def split: option.splits fs_node.splits)
next
  case (2 n fs cur a ss)
  show ?case
  proof (cases "a = [] \<or> a = ''.'' \<or> a = ''..''")
    case True
    then show ?thesis using 2 by auto
  next
    case False
    show ?thesis
    proof (cases "node_at fs (cur @ [a])")
      case None
      then show ?thesis using False "2.prems"(1,2) by (auto simp: is_dir_def split: if_splits)
    next
      case (Some x)
      show ?thesis
      proof (cases x)
        case (File_Node z t)
        then show ?thesis using False Some "2.prems"(1,2) by (auto simp: is_dir_def split: if_splits)
      next
        case (Dir_Node t)
        then show ?thesis using False Some "2.prems" "2.IH"(3) by auto
      next
        case (Link_Node l)
        then have "n \<noteq> 0" "target (n - 1) fs (if is_absolute l then [] else cur) (split_on path_sep l @ ss) = Inr d"
          using False Some "2.prems"(1) by (auto split: if_splits)
        then show ?thesis using False Some Link_Node "2.IH"(4) "2.prems"(2-4) by auto
      qed
    qed
  qed
qed

lemma real_path_place: "real_path fs p = Inr q \<Longrightarrow> place fs p = Inr q \<and> node_at fs q \<noteq> None"
  by (auto simp: real_path_def split: sum.splits if_splits)

lemma real_path_plain: "real_path fs p = Inr q \<Longrightarrow> list_all plain q"
  using target_plain [of 40 fs "[]" "split_on path_sep p" q] split_parts [of _ path_sep p] real_path_place [of fs p q]
  by (auto simp: place_def)

text \<open>Comparing the texts of two real paths compares their segments.\<close>

lemma within_prefix: "list_all plain b \<Longrightarrow> list_all plain q \<Longrightarrow> is_within_base (path_text b) (path_text q) \<Longrightarrow> prefix b q"
  using path_text_inj_prefix by (auto simp: is_within_base_def)

lemma place_below:
  assumes "list_all plain (ss @ [s])" "real_path fs (path_text ss) = Inr d" "is_dir (node_at fs d)" "\<not> is_link (node_at fs (d @ [s]))"
  shows "place fs (path_text (ss @ [s])) = Inr (d @ [s])"
proof -
  have "target 40 fs [] ss = Inr d"
    using real_path_place [OF assms(2)] split_path_text [of ss] assms(1)
    by (cases "ss = []") (auto simp: place_def path_text_def path_sep_def)
  from target_last [OF this assms(3,4)] assms(1) have "target 40 fs [] (ss @ [s]) = Inr (d @ [s])" by simp
  then show ?thesis using split_path_text [of "ss @ [s]"] assms(1) by (simp add: place_def)
qed

section \<open>A safe path\<close>

definition inside :: "fs \<Rightarrow> string list \<Rightarrow> string \<Rightarrow> bool" where
  "inside fs b full \<longleftrightarrow> (\<forall>q. place fs full = Inr q \<longrightarrow> q = [] \<or> prefix b q) \<and>
     (\<forall>d. real_path fs (dir_name full) = Inr d \<longrightarrow> prefix b d)"

lemma resolve_safe_inside:
  assumes "resolve_safe_memory_path fs cwd base path = Some full" "real_path fs (from_cwd cwd base) = Inr b"
  shows "inside fs b full"
proof -
  obtain d where full: "resolve_within cwd base path = Some full" and d: "real_path fs (dir_name full) = Inr d"
    and within: "is_within_base (path_text b) (path_text d)"
    and links: "case lstat fs full of Inl err \<Rightarrow> err = ENOENT | Inr st \<Rightarrow> \<not> is_link (Some st)"
    using assms by (auto simp: resolve_safe_memory_path_def split: option.splits sum.splits if_splits)
  obtain ss where ss: "full = path_text ss" "list_all plain ss"
    using full segments_plain by (auto simp: resolve_within_def Let_def path_resolve_def split: if_splits)
  have pre: "prefix b d" by (rule within_prefix [OF real_path_plain [OF assms(2)] real_path_plain [OF d] within])
  have "q = [] \<or> prefix b q" if q: "place fs full = Inr q" for q
  proof (cases ss rule: rev_cases)
    case Nil
    then show ?thesis using q ss(1) by (simp add: place_def path_text_def path_sep_def)
  next
    case (snoc ys s)
    have names: "dir_name full = path_text ys" "last_name full = s" "segments full \<noteq> []"
      using segments_text [OF ss(2)] ss(1) by (simp_all add: dir_name_def last_name_def snoc)
    have "is_dir (node_at fs d)" "\<not> is_link (node_at fs (d @ [s]))"
      using links d names by (auto simp: lstat_def is_link_def split: if_splits option.splits)
    from place_below [OF _ _ this] have "place fs full = Inr (d @ [s])"
      using ss d names(1) by (simp add: snoc)
    then show ?thesis using q pre by (simp add: prefix_append)
  qed
  then show ?thesis using pre d by (simp add: inside_def)
qed

definition outside_same :: "string list \<Rightarrow> fs \<Rightarrow> fs \<Rightarrow> bool" where
  "outside_same b fs fs' \<longleftrightarrow> (\<forall>q. \<not> prefix b q \<longrightarrow> node_at fs' q = node_at fs q)"

lemma map_of_without: "map_of (filter (\<lambda>(q, y). q \<noteq> p) fs) q = (if q = p then None else map_of fs q)"
  using map_of_filter_fst [of "\<lambda>q. q \<noteq> p" fs q] by simp

lemma write_inside: "inside fs b full \<Longrightarrow> write_file now fs full text = Inr fs' \<Longrightarrow> outside_same b fs fs'"
  by (auto simp: write_file_def inside_def outside_same_def put_node_def node_at_def map_of_without
      split: sum.splits option.splits fs_node.splits if_splits)

lemma unlink_inside: "inside fs b full \<Longrightarrow> unlink_file fs full = Inr fs' \<Longrightarrow> outside_same b fs fs'"
  by (auto simp: unlink_file_def inside_def outside_same_def node_at_def map_of_without prefix_append
      split: sum.splits fs_node.splits)

definition shows_inside :: "string list \<Rightarrow> fs \<Rightarrow> world \<times> fs \<times> json response \<Rightarrow> bool" where
  "shows_inside b fs x \<longleftrightarrow> (\<forall>j z. snd (snd x) = Reply 200 j \<and> jget j ''content'' = Some (JStr z) \<longrightarrow>
     (\<exists>q t. prefix b q \<and> node_at fs q = Some (File_Node z t)))"

lemma shows_inside_refused: "holds_refused (shows_inside b fs) fs" "\<not> (\<exists>z. jget j ''content'' = Some (JStr z)) \<Longrightarrow> shows_inside b fs (w, fs, Reply 200 j)"
  "shows_inside b fs (w, fs, Err n m d)"
  by (auto simp: holds_refused_def shows_inside_def)

lemma content_inside:
  assumes "real_path fs (from_cwd cwd base) = Inr b"
  shows "shows_inside b fs (memory_file_content cwd base path fs w)"
  unfolding shows_inside_def
proof (intro allI impI)
  fix j z assume c: "snd (snd (memory_file_content cwd base path fs w)) = Reply 200 j \<and> jget j ''content'' = Some (JStr z)"
  then obtain full tt where full: "resolve_safe_memory_path fs cwd base path = Some full"
    and st: "stat_file fs full = Inr (File_Node z tt)"
    by (auto simp: memory_file_content_def memory_failed_def split: option.splits sum.splits fs_node.splits)
  obtain q where q: "real_path fs full = Inr q" "node_at fs q = Some (File_Node z tt)"
    using st real_path_place [of fs full] by (auto simp: stat_file_def split: sum.splits)
  have "q \<noteq> []" using q(2) by (auto simp: node_at_def)
  then have "prefix b q" using resolve_safe_inside [OF full assms] real_path_place [OF q(1)] unfolding inside_def by blast
  then show "\<exists>q t. prefix b q \<and> node_at fs q = Some (File_Node z t)" using q(2) by blast
qed

lemma get_inside:
  assumes "real_path fs (from_cwd cwd (memory_dir e)) = Inr b"
  shows "shows_inside b fs (get_memory_files collate cwd query e r fs w)"
proof -
  have "shows_inside b fs (let base = memory_dir e in
      if query ''action'' = Some ''tree'' then
        (w, fs, Reply 200 (JObj [(''tree'', JArr (if base = [] then [] else memory_tree collate cwd base fs))]))
      else if query ''action'' = Some ''content'' \<and> str_or_null (query ''path'') \<noteq> None then
        (if base = [] then (w, fs, Fail 500 ''Memory directory not configured'')
         else memory_file_content cwd base (opt_or (query ''path'') []) fs w)
      else if query ''action'' = Some ''search'' then
        (case str_or_null (query ''query'') of None \<Rightarrow> (w, fs, Fail 400 ''Query required'')
         | Some q \<Rightarrow> (w, fs, Reply 200 (JObj [(''query'', JStr q),
             (''results'', JArr (map match_json (if base = [] then [] else memory_search q cwd base fs)))])))
      else (w, fs, Fail 400 ''Invalid action''))" for w
    using content_inside [OF assms] by (simp add: Let_def shows_inside_refused split: option.split)
  then show ?thesis
    unfolding get_memory_files_def
    by (intro file_with_role_all [where P = "shows_inside b fs"] file_with_limit_all [where P = "shows_inside b fs"] shows_inside_refused(1))
qed

text \<open>
  Claim C29. No way out of the memory directory. Let the directory really be at some place. Then
  saving, creating and deleting change nothing outside that place, reading changes nothing, and
  a text that is shown is the text of a file inside it: whatever path the request gives,
  and whatever symbolic links lead from one place to another.
\<close>

theorem memory_confined:
  assumes "real_path fs (from_cwd cwd (memory_dir e)) = Inr b"
  shows "outside_same b fs (left_file (post_memory_files cwd body e r fs w)) \<and>
    outside_same b fs (left_file (delete_memory_files cwd body e r fs w)) \<and>
    left_file (get_memory_files collate cwd query e r fs w) = fs \<and>
    shows_inside b fs (get_memory_files collate cwd query e r fs w)"
proof -
  have same: "outside_same b fs fs" by (simp add: outside_same_def)
  have ended: "outside_same b fs (left_file (memory_done x said fs w))" if "\<And>fs'. x = Inr fs' \<Longrightarrow> outside_same b fs fs'" for x said w
    using that same by (auto simp: memory_done_def memory_failed_def split: sum.split)
  note safe = resolve_safe_inside [OF _ assms]
  have post: "outside_same b fs (left_file (save_memory_with cwd (memory_dir e) body fs w))" for w
    using same ended write_inside [OF safe]
    by (simp add: save_memory_with_def memory_failed_def split: option.split sum.split)
  have del: "outside_same b fs (left_file (remove_memory_with cwd (memory_dir e) body fs w))" for w
    using same ended unlink_inside [OF safe]
    by (simp add: remove_memory_with_def memory_failed_def split: option.split sum.split)
  have "outside_same b fs (left_file (post_memory_files cwd body e r fs w))"
    "outside_same b fs (left_file (delete_memory_files cwd body e r fs w))"
    unfolding post_memory_files_def delete_memory_files_def
    by (intro file_with_role_keeps [where P = "outside_same b fs"] file_with_limit_keeps [where P = "outside_same b fs"] same post del)+
  moreover have "left_file (get_memory_files collate cwd query e r fs w) = fs"
    unfolding get_memory_files_def
    by (rule file_with_role_keeps [where P = "\<lambda>f. f = fs"], simp, rule file_with_limit_keeps [where P = "\<lambda>f. f = fs"], simp)
      (auto simp: Let_def memory_file_content_def memory_failed_def split: option.split sum.split fs_node.split)
  ultimately show ?thesis using get_inside [OF assms] by blast
qed

definition memory_env :: env where
  "memory_env = sample_env(''OPENCLAW_MEMORY_DIR'' \<mapsto> ''/notes'')"

definition sample_fs :: fs where
  "sample_fs = [([''notes''], Link_Node ''/data/notes''), ([''data''], Dir_Node 1), ([''data'', ''notes''], Dir_Node 1),
     ([''data'', ''secret''], File_Node ''s'' 1), ([''data'', ''notes'', ''out''], Link_Node ''../secret'')]"

theorem memory_confined_witness:
  "real_path sample_fs (from_cwd ''/app'' (memory_dir memory_env)) = Inr [''data'', ''notes''] \<and>
   outside_same [''data'', ''notes''] sample_fs (left_file (post_memory_files ''/app''
     (Some \<lparr>mb_action = Some ''save'', mb_path = Some ''out'', mb_content = Some (Some ''x'')\<rparr>) memory_env admin_request sample_fs (world_at 5000))) \<and>
   shows_inside [''data'', ''notes''] sample_fs (get_memory_files (\<lambda>_ _. 0) ''/app'' (\<lambda>_. None) memory_env admin_request sample_fs (world_at 5000))"
proof -
  have r: "real_path sample_fs (from_cwd ''/app'' (memory_dir memory_env)) = Inr [''data'', ''notes'']"
    by code_simp
  show ?thesis using memory_confined [OF r] r by blast
qed

text \<open>In the sample, the link out of the directory is refused.\<close>

lemma link_refused: "resolve_safe_memory_path sample_fs ''/app'' ''/notes'' ''out'' = None"
  by code_simp

section \<open>What creating cannot do\<close>

text \<open>Creating a file makes the directories around it, but the path is refused before if they are missing.\<close>

lemma no_new_folder:
  "real_path fs (from_cwd cwd base) = Inr b \<Longrightarrow> resolve_within cwd base path = Some full \<Longrightarrow>
   real_path fs (dir_name full) = Inl ENOENT \<Longrightarrow> base \<noteq> [] \<Longrightarrow> path \<noteq> [] \<Longrightarrow>
   save_memory_with cwd base (Some \<lparr>mb_action = Some ''create'', mb_path = Some path, mb_content = c\<rparr>) fs w =
     (w, fs, Fail 500 ''Internal server error'')"
  by (simp add: save_memory_with_def resolve_safe_memory_path_def memory_failed_def str_or_null_def)

end
